(* ===== verification/Prelude.thy ===== *)
theory Prelude
  imports Complex_Main "HOL-Library.AList" "HOL-Library.Multiset"
begin

section \<open>Shared vocabulary: JavaScript numbers, objects and arrays\<close>

text \<open>
  This theory holds what every component of the model shares.

  \<^item> The TypeScript type \<open>number\<close> is modelled as \<open>real\<close> where the code
    computes with fractions (ability estimates, trait sums, confidences) and as
    \<open>nat\<close> or \<open>int\<close> where it only counts or holds epoch milliseconds. The
    rounding error of IEEE doubles is not modelled; \<open>Math.round\<close>, which the code
    calls on purpose, is (\<open>js_round\<close>: ties go up).
  \<^item> A plain JavaScript object used as a dictionary (\<open>Record<string, T>\<close>) is
    an association list in insertion order. Assigning to a key that is present keeps
    its position, assigning to a new key appends it: that is \<open>AList.update\<close>.
  \<^item> \<open>undefined\<close> and \<open>null\<close> are \<open>None\<close>.

  The locale \<open>js_dictionary\<close> states the two laws of reading and writing a key that
  the clients (trait tallies, pattern counts) rest on; it is interpreted on the
  association lists themselves.
\<close>

subsection \<open>Rounding and clamping\<close>

definition js_round :: "real \<Rightarrow> int" where
  "js_round x = \<lfloor>x + 1 / 2\<rfloor>"

definition round1 :: "real \<Rightarrow> real" where
  "round1 value = real_of_int (js_round (value * 10)) / 10"

definition round2 :: "real \<Rightarrow> real" where
  "round2 value = real_of_int (js_round (value * 100)) / 100"

definition clamp :: "real \<Rightarrow> real \<Rightarrow> real \<Rightarrow> real" where
  "clamp value low high = min high (max low value)"

definition clamp01 :: "real \<Rightarrow> real" where
  "clamp01 value = min 1 (max 0 value)"

lemma js_round_mono: "x \<le> y \<Longrightarrow> js_round x \<le> js_round y"
  by (simp add: js_round_def floor_mono)

lemma js_round_of_int [simp]: "js_round (real_of_int n) = n"
  by (simp add: js_round_def floor_eq_iff)

lemma js_round_error: "\<bar>real_of_int (js_round x) - x\<bar> \<le> 1 / 2"
  unfolding js_round_def by linarith

lemma js_round_numeral [simp]:
  "js_round 0 = 0" "js_round 1 = 1" "js_round (numeral k) = numeral k"
  using js_round_of_int[of 0] js_round_of_int[of 1] js_round_of_int[of "numeral k"] by simp_all

lemma round1_mono: "x \<le> y \<Longrightarrow> round1 x \<le> round1 y"
  by (simp add: round1_def divide_right_mono js_round_mono)

lemma round2_mono: "x \<le> y \<Longrightarrow> round2 x \<le> round2 y"
  by (simp add: round2_def divide_right_mono js_round_mono)

lemma round2_0 [simp]: "round2 0 = 0" and round2_1 [simp]: "round2 1 = 1"
  by (simp_all add: round2_def)

lemma round1_0 [simp]: "round1 0 = 0" and round1_100 [simp]: "round1 100 = 100"
  and round1_50 [simp]: "round1 50 = 50"
  by (simp_all add: round1_def)

lemma round2_error: "\<bar>round2 x - x\<bar> \<le> 1 / 200"
  using js_round_error[of "x * 100"] by (simp add: round2_def abs_le_iff field_simps)

lemma round1_error: "\<bar>round1 x - x\<bar> \<le> 1 / 20"
  using js_round_error[of "x * 10"] by (simp add: round1_def abs_le_iff field_simps)

lemma round2_unit: "0 \<le> x \<Longrightarrow> x \<le> 1 \<Longrightarrow> 0 \<le> round2 x \<and> round2 x \<le> 1"
  using round2_mono[of 0 x] round2_mono[of x 1] by simp

lemma round1_percent: "0 \<le> x \<Longrightarrow> x \<le> 100 \<Longrightarrow> 0 \<le> round1 x \<and> round1 x \<le> 100"
  using round1_mono[of 0 x] round1_mono[of x 100] by simp

text \<open>A value already rounded to two places is a fixed point, as storing it in a
  \<open>numeric(8,2)\<close> column and reading it back requires.\<close>

lemma round2_idem [simp]: "round2 (round2 x) = round2 x"
  by (simp add: round2_def)

lemma clamp01_bounds [simp, intro]: "0 \<le> clamp01 x" "clamp01 x \<le> 1"
  by (simp_all add: clamp01_def)

lemma clamp01_id: "0 \<le> x \<Longrightarrow> x \<le> 1 \<Longrightarrow> clamp01 x = x"
  by (simp add: clamp01_def)

lemma clamp01_mono: "x \<le> y \<Longrightarrow> clamp01 x \<le> clamp01 y"
  by (auto simp: clamp01_def)

lemma clamp_bounds: "low \<le> high \<Longrightarrow> low \<le> clamp x low high \<and> clamp x low high \<le> high"
  by (auto simp: clamp_def)

lemma clamp_id: "low \<le> x \<Longrightarrow> x \<le> high \<Longrightarrow> clamp x low high = x"
  by (simp add: clamp_def)

text \<open>\<open>Math.max(...xs)\<close> and \<open>Math.min(...xs)\<close> on a list that is not empty; the code
  never spreads an empty one where the result is used.\<close>

fun js_max :: "real list \<Rightarrow> real" where
  "js_max [] = 0"
| "js_max [x] = x"
| "js_max (x # y # zs) = max x (js_max (y # zs))"

fun js_min :: "real list \<Rightarrow> real" where
  "js_min [] = 0"
| "js_min [x] = x"
| "js_min (x # y # zs) = min x (js_min (y # zs))"

lemma js_max_ge: "x \<in> set xs \<Longrightarrow> x \<le> js_max xs"
  by (induction xs rule: js_max.induct) (auto simp: le_max_iff_disj)

lemma js_min_le: "x \<in> set xs \<Longrightarrow> js_min xs \<le> x"
  by (induction xs rule: js_min.induct) (auto simp: min_le_iff_disj)

lemma js_max_in: "xs \<noteq> [] \<Longrightarrow> js_max xs \<in> set xs"
  by (induction xs rule: js_max.induct) (auto simp: max_def)

lemma js_min_in: "xs \<noteq> [] \<Longrightarrow> js_min xs \<in> set xs"
  by (induction xs rule: js_min.induct) (auto simp: min_def)

lemma js_min_le_max: "xs \<noteq> [] \<Longrightarrow> js_min xs \<le> js_max xs"
  using js_max_in js_min_le by blast

text \<open>The mean of a list, written as the code writes it: a fold from 0, then a division.\<close>

definition mean :: "real list \<Rightarrow> real" where
  "mean xs = foldl (+) 0 xs / real (length xs)"

lemma foldl_plus_sum_list: "foldl (+) (a::real) xs = a + sum_list xs"
  by (induction xs arbitrary: a) (simp_all add: algebra_simps)

lemma mean_sum_list: "mean xs = sum_list xs / real (length xs)"
  by (simp add: mean_def foldl_plus_sum_list)

lemma sum_list_bounds:
  fixes xs :: "real list"
  assumes "\<And>x. x \<in> set xs \<Longrightarrow> lo \<le> x \<and> x \<le> hi"
  shows "lo * real (length xs) \<le> sum_list xs \<and> sum_list xs \<le> hi * real (length xs)"
  using assms by (induction xs) (force simp: algebra_simps)+

lemma sum_list_all_0: "(\<And>x. x \<in> set xs \<Longrightarrow> x = 0) \<Longrightarrow> sum_list xs = (0::real)"
  by (induction xs) auto

lemma mean_between:
  assumes "xs \<noteq> []" and "\<And>x. x \<in> set xs \<Longrightarrow> lo \<le> x \<and> x \<le> hi"
  shows "lo \<le> mean xs \<and> mean xs \<le> hi"
proof -
  have "0 < real (length xs)" using assms(1) by simp
  moreover have "lo * real (length xs) \<le> sum_list xs \<and> sum_list xs \<le> hi * real (length xs)"
    using assms(2) by (rule sum_list_bounds)
  ultimately show ?thesis by (simp add: mean_sum_list field_simps)
qed

lemma mean_min_max: "xs \<noteq> [] \<Longrightarrow> js_min xs \<le> mean xs \<and> mean xs \<le> js_max xs"
  by (rule mean_between) (auto intro: js_min_le js_max_ge)

subsection \<open>Objects used as dictionaries\<close>

type_synonym 'v jsobj = "(string \<times> 'v) list"

abbreviation obj_get :: "'v jsobj \<Rightarrow> string \<Rightarrow> 'v option" where
  "obj_get \<equiv> map_of"

abbreviation obj_set :: "string \<Rightarrow> 'v \<Rightarrow> 'v jsobj \<Rightarrow> 'v jsobj" where
  "obj_set \<equiv> AList.update"

abbreviation obj_keys :: "'v jsobj \<Rightarrow> string list" where
  "obj_keys ob \<equiv> map fst ob"

abbreviation obj_values :: "'v jsobj \<Rightarrow> 'v list" where
  "obj_values ob \<equiv> map snd ob"

text \<open>\<open>x ?? d\<close>.\<close>

definition or_else :: "'a option \<Rightarrow> 'a \<Rightarrow> 'a" where
  "or_else v d = (case v of Some x \<Rightarrow> x | None \<Rightarrow> d)"

lemma or_else_simps [simp]: "or_else None d = d" "or_else (Some x) d = x"
  by (simp_all add: or_else_def)

text \<open>An object with distinct keys: every object the code builds by assignment is one.\<close>

definition well_keyed :: "'v jsobj \<Rightarrow> bool" where
  "well_keyed ob \<longleftrightarrow> distinct (obj_keys ob)"

lemma well_keyed_Nil [simp]: "well_keyed []"
  by (simp add: well_keyed_def)

lemma well_keyed_set [simp]: "well_keyed ob \<Longrightarrow> well_keyed (obj_set k v ob)"
  by (simp add: well_keyed_def AList.distinct_update)

lemma obj_get_set [simp]: "obj_get (obj_set k v ob) k' = (if k' = k then Some v else obj_get ob k')"
  by (simp add: AList.update_conv')

text \<open>
  The interface of a dictionary: what a client that folds a list of contributions into
  it needs. \<open>bump\<close> is the code's \<open>d[k] = f(d[k] ?? z)\<close>.
\<close>

locale js_dictionary =
  fixes lookup :: "'d \<Rightarrow> string \<Rightarrow> 'v option"
    and store :: "string \<Rightarrow> 'v \<Rightarrow> 'd \<Rightarrow> 'd"
  assumes lookup_store_same: "lookup (store k v d) k = Some v"
    and lookup_store_other: "k' \<noteq> k \<Longrightarrow> lookup (store k v d) k' = lookup d k'"
begin

lemma fold_store_untouched:
  "k \<notin> fst ` set kvs \<Longrightarrow>
   lookup (foldl (\<lambda>d (k, x). store k (f x (lookup d k)) d) d kvs) k = lookup d k"
  by (induction kvs arbitrary: d) (auto simp: lookup_store_other split: prod.splits)

lemma fold_store_touched:
  assumes "distinct (map fst kvs)" and "(k, x) \<in> set kvs"
  shows "lookup (foldl (\<lambda>d (k, x). store k (f x (lookup d k)) d) d kvs) k
         = Some (f x (lookup d k))"
  using assms
proof (induction kvs arbitrary: d)
  case Nil
  then show ?case by simp
next
  case (Cons p kvs)
  obtain j y where p: "p = (j, y)" by fastforce
  show ?case
  proof (cases "j = k")
    case True
    with Cons.prems p have "y = x" and "k \<notin> fst ` set kvs"
      by (auto simp: rev_image_eqI)
    with True p show ?thesis by (simp add: fold_store_untouched lookup_store_same)
  next
    case False
    with Cons.prems p have "(k, x) \<in> set kvs" "distinct (map fst kvs)" by auto
    from Cons.IH[OF this(2,1)] False p show ?thesis
      by (simp add: lookup_store_other)
  qed
qed

lemma fold_store:
  assumes "distinct (map fst kvs)"
  shows "lookup (foldl (\<lambda>d (k, x). store k (f x (lookup d k)) d) d kvs) k
         = (case map_of kvs k of None \<Rightarrow> lookup d k | Some x \<Rightarrow> Some (f x (lookup d k)))"
proof (cases "map_of kvs k")
  case None
  then have "k \<notin> fst ` set kvs" by (simp add: map_of_eq_None_iff)
  with None show ?thesis by (simp add: fold_store_untouched)
next
  case (Some x)
  then have "(k, x) \<in> set kvs" by (rule map_of_SomeD)
  with assms Some show ?thesis by (simp add: fold_store_touched)
qed

end

interpretation obj: js_dictionary "map_of :: 'v jsobj \<Rightarrow> string \<Rightarrow> 'v option" "AList.update"
  by unfold_locales simp_all

text \<open>Folding assignments over an object keeps its keys distinct.\<close>

lemma fold_set_well_keyed:
  "well_keyed ob \<Longrightarrow> well_keyed (foldl (\<lambda>d (k, x). obj_set k (g k x d) d) ob kvs)"
  by (induction kvs arbitrary: ob) (auto split: prod.splits)

subsection \<open>Duplicates and sets of strings\<close>

text \<open>\<open>[...new Set(xs)]\<close> keeps the first occurrence of each element.\<close>

fun js_set :: "'a list \<Rightarrow> 'a list" where
  "js_set [] = []"
| "js_set (x # xs) = x # filter (\<lambda>y. y \<noteq> x) (js_set xs)"

lemma set_js_set [simp]: "set (js_set xs) = set xs"
  by (induction xs) auto

lemma distinct_js_set [simp]: "distinct (js_set xs)"
  by (induction xs) auto

text \<open>\<open>xs.indexOf(x)\<close>, with \<open>None\<close> for -1.\<close>

fun js_indexOf :: "'a list \<Rightarrow> 'a \<Rightarrow> nat option" where
  "js_indexOf [] x = None"
| "js_indexOf (y # ys) x = (if y = x then Some 0 else map_option Suc (js_indexOf ys x))"

lemma js_indexOf_None [simp]: "js_indexOf xs x = None \<longleftrightarrow> x \<notin> set xs"
  by (induction xs) auto

lemma js_indexOf_Some: "js_indexOf xs x = Some i \<Longrightarrow> i < length xs \<and> xs ! i = x"
  by (induction xs arbitrary: i) (auto split: if_splits)

lemma js_indexOf_nth: "i < length xs \<Longrightarrow> js_indexOf xs (xs ! i) = Some i \<longleftrightarrow> xs ! i \<notin> set (take i xs)"
proof (induction xs arbitrary: i)
  case Nil
  then show ?case by simp
next
  case (Cons y ys)
  then show ?case by (cases i) auto
qed

text \<open>
  The elements that \<open>xs.filter((x, i) => xs.indexOf(x) !== i)\<close> keeps: every occurrence
  after the first.
\<close>

definition js_duplicates :: "'a list \<Rightarrow> 'a list" where
  "js_duplicates xs = map snd (filter (\<lambda>(i, x). js_indexOf xs x \<noteq> Some i) (enumerate 0 xs))"

lemma js_duplicates_Nil_iff: "js_duplicates xs = [] \<longleftrightarrow> distinct xs"
proof
  assume "js_duplicates xs = []"
  then have *: "\<And>i. i < length xs \<Longrightarrow> js_indexOf xs (xs ! i) = Some i"
    by (force simp: js_duplicates_def filter_empty_conv in_set_enumerate_eq)
  show "distinct xs"
    unfolding distinct_conv_nth
  proof (intro allI impI)
    fix i j assume "i < length xs" "j < length xs" "i \<noteq> j"
    then show "xs ! i \<noteq> xs ! j" using *[of i] *[of j] by auto
  qed
next
  assume "distinct xs"
  then have "js_indexOf xs (xs ! i) = Some i" if "i < length xs" for i
    using that by (auto simp: js_indexOf_nth in_set_conv_nth nth_eq_iff_index_eq)
  then show "js_duplicates xs = []"
    by (auto simp: js_duplicates_def filter_empty_conv in_set_enumerate_eq)
qed

subsection \<open>Filtering maps\<close>

lemma map_filter_append: "List.map_filter f (xs @ ys) = List.map_filter f xs @ List.map_filter f ys"
  by (simp add: map_filter_def)

lemma map_filter_rev: "List.map_filter f (rev xs) = rev (List.map_filter f xs)"
  by (induction xs) (auto simp: map_filter_simps map_filter_append split: option.splits)

lemma map_filter_map: "List.map_filter f (map g xs) = List.map_filter (\<lambda>x. f (g x)) xs"
  by (induction xs) (auto simp: map_filter_simps split: option.splits)

lemma map_filter_map_option:
  "List.map_filter (\<lambda>x. map_option u (f x)) xs = map u (List.map_filter f xs)"
  by (induction xs) (auto simp: map_filter_simps split: option.splits)

lemma map_filter_cong:
  "(\<And>x. x \<in> set xs \<Longrightarrow> f x = g x) \<Longrightarrow> List.map_filter f xs = List.map_filter g xs"
  by (induction xs) (auto simp: map_filter_simps split: option.splits)

lemma set_map_filter: "set (List.map_filter f xs) = {y. \<exists>x\<in>set xs. f x = Some y}"
  by (force simp: map_filter_def)

lemma enumerate_rev:
  "enumerate 0 (rev xs) = map (\<lambda>(i, x). (length xs - 1 - i, x)) (rev (enumerate 0 xs))"
  by (rule nth_equalityI) (auto simp: nth_enumerate_eq rev_nth)

subsection \<open>Results that may be errors\<close>

text \<open>
  A function that throws returns a value of \<open>'e + 'a\<close>, with \<open>Inl\<close> for the
  exception. \<open>bind_result\<close> is sequencing; \<open>map_result\<close> is \<open>xs.map(f)\<close> for an \<open>f\<close>
  that may throw: the first exception ends the loop.
\<close>

fun bind_result :: "'e + 'a \<Rightarrow> ('a \<Rightarrow> 'e + 'b) \<Rightarrow> 'e + 'b" where
  "bind_result (Inl e) f = Inl e"
| "bind_result (Inr x) f = f x"

fun map_result :: "('a \<Rightarrow> 'e + 'b) \<Rightarrow> 'a list \<Rightarrow> 'e + 'b list" where
  "map_result f [] = Inr []"
| "map_result f (x # xs) =
     bind_result (f x) (\<lambda>y. bind_result (map_result f xs) (\<lambda>ys. Inr (y # ys)))"

lemma bind_result_Inr: "bind_result m f = Inr y \<longleftrightarrow> (\<exists>x. m = Inr x \<and> f x = Inr y)"
  by (cases m) auto

lemma bind_result_Inl:
  "bind_result m f = Inl e \<longleftrightarrow> m = Inl e \<or> (\<exists>x. m = Inr x \<and> f x = Inl e)"
  by (cases m) auto

lemma map_result_Inr:
  "map_result f xs = Inr ys \<longleftrightarrow> length ys = length xs \<and> (\<forall>i<length xs. f (xs ! i) = Inr (ys ! i))"
proof (induction xs arbitrary: ys)
  case Nil
  then show ?case by auto
next
  case (Cons x xs)
  show ?case
  proof (cases ys)
    case Nil
    then show ?thesis by (simp add: bind_result_Inr)
  next
    case (Cons z zs)
    have "map_result f (x # xs) = Inr ys \<longleftrightarrow> f x = Inr z \<and> map_result f xs = Inr zs"
      by (auto simp: Cons bind_result_Inr)
    then show ?thesis by (auto simp: Cons Cons.IH nth_Cons split: nat.splits)
  qed
qed

lemma map_result_all: "(\<And>x. x \<in> set xs \<Longrightarrow> f x = Inr (g x)) \<Longrightarrow> map_result f xs = Inr (map g xs)"
  by (induction xs) auto

lemma map_result_set: "map_result f xs = Inr ys \<Longrightarrow> y \<in> set ys \<Longrightarrow> \<exists>x\<in>set xs. f x = Inr y"
  by (auto simp: map_result_Inr in_set_conv_nth) (metis nth_mem)

lemma map_result_mem: "map_result f xs = Inr ys \<Longrightarrow> x \<in> set xs \<Longrightarrow> \<exists>y\<in>set ys. f x = Inr y"
  by (auto simp: map_result_Inr in_set_conv_nth)

subsection \<open>Sorting\<close>

text \<open>A stable sort, as \<open>Array.prototype.sort\<close> is, by an ascending or a descending key.\<close>

abbreviation sort_asc :: "('a \<Rightarrow> real) \<Rightarrow> 'a list \<Rightarrow> 'a list" where
  "sort_asc f \<equiv> sort_key f"

abbreviation sort_desc :: "('a \<Rightarrow> real) \<Rightarrow> 'a list \<Rightarrow> 'a list" where
  "sort_desc f \<equiv> sort_key (\<lambda>x. - f x)"

text \<open>
  An element kept by \<open>ORDER BY f LIMIT n\<close> has fewer than \<open>n\<close> elements strictly
  before it.
\<close>

lemma sorted_limit_closest:
  fixes f :: "'a \<Rightarrow> 'b::linorder"
  assumes "q \<in> set (take n (sort_key f xs))"
  shows "length (filter (\<lambda>x. f x < f q) xs) < n"
proof -
  let ?ys = "sort_key f xs"
  obtain i where i: "i < n" "i < length ?ys" "?ys ! i = q"
    using assms by (auto simp: in_set_conv_nth)
  have "\<not> f x < f q" if x: "x \<in> set (drop i ?ys)" for x
  proof -
    obtain j where "j < length ?ys - i" "x = ?ys ! (i + j)"
      using x by (auto simp: in_set_conv_nth)
    then have "f (?ys ! i) \<le> f x"
      using sorted_nth_mono[OF sorted_sort_key[of f xs], of i "i + j"] i(2) by simp
    with i(3) show ?thesis by simp
  qed
  then have "filter (\<lambda>x. f x < f q) (drop i ?ys) = []"
    by (simp add: filter_empty_conv)
  then have "filter (\<lambda>x. f x < f q) ?ys = filter (\<lambda>x. f x < f q) (take i ?ys)"
    by (metis append_Nil2 append_take_drop_id filter_append)
  then have "length (filter (\<lambda>x. f x < f q) ?ys) \<le> i"
    using length_filter_le[of "\<lambda>x. f x < f q" "take i ?ys"] i(2) by simp
  moreover have "length (filter (\<lambda>x. f x < f q) ?ys) = length (filter (\<lambda>x. f x < f q) xs)"
    by (metis mset_filter mset_sort size_mset)
  ultimately show ?thesis using i(1) by simp
qed

end
