(* ===== verification/Program.thy ===== *)
theory Program
  imports Prelude
begin

section \<open>Handlers as state transformers with errors\<close>

text \<open>
  An \<open>async\<close> method of a service is a function from the world to a result and a new
  world. A result is \<open>Inl\<close> of an exception or \<open>Inr\<close> of a value; an exception keeps the
  effects made before it, as it does in the code, which opens no transaction around these
  methods. \<open>wp m Q E w\<close> says that \<open>m\<close>, run in \<open>w\<close>, either returns with \<open>Q\<close> or throws
  with \<open>E\<close>; its equations are collected in \<open>wp_simps\<close> and compute the condition from
  the text of a method. The world stays abstract here.
\<close>

type_synonym ('e, 's, 'a) prog = "'s \<Rightarrow> ('e + 'a) \<times> 's"

named_theorems wp_simps "equations of the weakest precondition"

definition ret :: "'a \<Rightarrow> ('e, 's, 'a) prog" where
  "ret x = (\<lambda>s. (Inr x, s))"

definition throw :: "'e \<Rightarrow> ('e, 's, 'a) prog" where
  "throw e = (\<lambda>s. (Inl e, s))"

definition bind_p :: "('e, 's, 'a) prog \<Rightarrow> ('a \<Rightarrow> ('e, 's, 'b) prog) \<Rightarrow> ('e, 's, 'b) prog" where
  "bind_p m f = (\<lambda>s. case m s of (Inl e, s') \<Rightarrow> (Inl e, s') | (Inr x, s') \<Rightarrow> f x s')"

definition then_p :: "('e, 's, 'a) prog \<Rightarrow> ('e, 's, 'b) prog \<Rightarrow> ('e, 's, 'b) prog" where
  "then_p m n = bind_p m (\<lambda>_. n)"

definition reading :: "('s \<Rightarrow> 'a) \<Rightarrow> ('e, 's, 'a) prog" where
  "reading f = (\<lambda>s. (Inr (f s), s))"

definition updating :: "('s \<Rightarrow> 's) \<Rightarrow> ('e, 's, unit) prog" where
  "updating f = (\<lambda>s. (Inr (), f s))"

definition of_result :: "'e + 'a \<Rightarrow> ('e, 's, 'a) prog" where
  "of_result r = (\<lambda>s. (r, s))"

definition try_catch :: "('e, 's, 'a) prog \<Rightarrow> ('e \<Rightarrow> ('e, 's, 'a) prog) \<Rightarrow> ('e, 's, 'a) prog" where
  "try_catch m h = (\<lambda>s. case m s of (Inl e, s') \<Rightarrow> h e s' | (Inr x, s') \<Rightarrow> (Inr x, s'))"

text \<open>\<open>for (const x of xs) await f(x)\<close>, keeping what each round returns.\<close>

fun for_each :: "('x \<Rightarrow> ('e, 's, 'y) prog) \<Rightarrow> 'x list \<Rightarrow> ('e, 's, 'y list) prog" where
  "for_each f [] = ret []"
| "for_each f (x # xs) = bind_p (f x) (\<lambda>y. bind_p (for_each f xs) (\<lambda>ys. ret (y # ys)))"

subsection \<open>Weakest preconditions\<close>

definition wp ::
  "('e, 's, 'a) prog \<Rightarrow> ('a \<Rightarrow> 's \<Rightarrow> bool) \<Rightarrow> ('e \<Rightarrow> 's \<Rightarrow> bool) \<Rightarrow> 's \<Rightarrow> bool" where
  "wp m Q E s = (case m s of (Inl e, s') \<Rightarrow> E e s' | (Inr x, s') \<Rightarrow> Q x s')"

lemma wp_ret [wp_simps]: "wp (ret x) Q E s = Q x s"
  by (simp add: wp_def ret_def)

lemma wp_throw [wp_simps]: "wp (throw e) Q E s = E e s"
  by (simp add: wp_def throw_def)

lemma wp_bind [wp_simps]: "wp (bind_p m f) Q E s = wp m (\<lambda>x. wp (f x) Q E) E s"
  by (auto simp: wp_def bind_p_def split: prod.splits sum.splits)

lemma wp_then [wp_simps]: "wp (then_p m n) Q E s = wp m (\<lambda>_. wp n Q E) E s"
  by (simp add: then_p_def wp_bind)

lemma wp_reading [wp_simps]: "wp (reading f) Q E s = Q (f s) s"
  by (simp add: wp_def reading_def)

lemma wp_updating [wp_simps]: "wp (updating f) Q E s = Q () (f s)"
  by (simp add: wp_def updating_def)

lemma wp_of_result [wp_simps]: "wp (of_result r) Q E s = (case r of Inl e \<Rightarrow> E e s | Inr x \<Rightarrow> Q x s)"
  by (simp add: wp_def of_result_def)

lemma wp_try [wp_simps]: "wp (try_catch m h) Q E s = wp m Q (\<lambda>e. wp (h e) Q E) s"
  by (auto simp: wp_def try_catch_def split: prod.splits sum.splits)

lemma wp_if [wp_simps]: "wp (if b then m else n) Q E s = (if b then wp m Q E s else wp n Q E s)"
  by simp

lemma wp_mono:
  "wp m Q E s \<Longrightarrow> (\<And>x s'. Q x s' \<Longrightarrow> Q' x s') \<Longrightarrow> (\<And>e s'. E e s' \<Longrightarrow> E' e s') \<Longrightarrow> wp m Q' E' s"
  by (auto simp: wp_def split: prod.splits sum.splits)

lemma wp_conj:
  "wp m Q E s \<Longrightarrow> wp m Q' E' s \<Longrightarrow> wp m (\<lambda>x s'. Q x s' \<and> Q' x s') (\<lambda>e s'. E e s' \<and> E' e s') s"
  by (auto simp: wp_def split: prod.splits sum.splits)

text \<open>The same for a method that is not yet applied to a state.\<close>

lemma wp_ret_fun: "wp (ret x) Q E = Q x"
  by (simp add: fun_eq_iff wp_ret)

text \<open>A method that keeps a property of the world on both outcomes.\<close>

definition keeps :: "('s \<Rightarrow> bool) \<Rightarrow> ('e, 's, 'a) prog \<Rightarrow> bool" where
  "keeps I m \<longleftrightarrow> (\<forall>s. I s \<longrightarrow> I (snd (m s)))"

lemma wp_snd: "wp m (\<lambda>_. I) (\<lambda>_. I) s \<longleftrightarrow> I (snd (m s))"
  by (simp add: wp_def split: prod.split sum.split)

lemma keeps_wp: "keeps I m \<longleftrightarrow> (\<forall>s. I s \<longrightarrow> wp m (\<lambda>_. I) (\<lambda>_. I) s)"
  by (simp add: keeps_def wp_snd)

lemma keepsD: "keeps I m \<Longrightarrow> I s \<Longrightarrow> wp m (\<lambda>_. I) (\<lambda>_. I) s"
  by (simp add: keeps_wp)

named_theorems keeps_intros "rules that show a method keeps an invariant"

lemma keeps_ret [keeps_intros]: "keeps I (ret x)"
  by (simp add: keeps_wp wp_ret)

lemma keeps_throw [keeps_intros]: "keeps I (throw e)"
  by (simp add: keeps_wp wp_throw)

lemma keeps_bind [keeps_intros]: "keeps I m \<Longrightarrow> (\<And>x. keeps I (f x)) \<Longrightarrow> keeps I (bind_p m f)"
  unfolding keeps_wp wp_bind by (blast intro: wp_mono)

lemma keeps_then [keeps_intros]: "keeps I m \<Longrightarrow> keeps I n \<Longrightarrow> keeps I (then_p m n)"
  by (simp add: then_p_def keeps_bind)

lemma keeps_reading [keeps_intros]: "keeps I (reading f)"
  by (simp add: keeps_wp wp_reading)

lemma keeps_updating: "(\<And>s. I s \<Longrightarrow> I (f s)) \<Longrightarrow> keeps I (updating f)"
  by (simp add: keeps_wp wp_updating)

lemma keeps_of_result [keeps_intros]: "keeps I (of_result r)"
  by (simp add: keeps_wp wp_of_result split: sum.split)

lemma keeps_try [keeps_intros]: "keeps I m \<Longrightarrow> (\<And>e. keeps I (h e)) \<Longrightarrow> keeps I (try_catch m h)"
  unfolding keeps_wp wp_try by (blast intro: wp_mono)

lemma keeps_if [keeps_intros]: "(b \<Longrightarrow> keeps I m) \<Longrightarrow> (\<not> b \<Longrightarrow> keeps I n) \<Longrightarrow> keeps I (if b then m else n)"
  by simp

lemma keeps_option [keeps_intros]:
  "(v = None \<Longrightarrow> keeps I m) \<Longrightarrow> (\<And>x. v = Some x \<Longrightarrow> keeps I (f x)) \<Longrightarrow>
   keeps I (case v of None \<Rightarrow> m | Some x \<Rightarrow> f x)"
  by (cases v) simp_all

lemma keeps_for_each [keeps_intros]: "(\<And>x. keeps I (f x)) \<Longrightarrow> keeps I (for_each f xs)"
  by (induction xs) (auto intro!: keeps_intros)

lemma keeps_conj: "keeps I m \<Longrightarrow> keeps J m \<Longrightarrow> keeps (\<lambda>s. I s \<and> J s) m"
  by (simp add: keeps_def)

text \<open>The invariant of a loop, over the part of the list already done.\<close>

lemma wp_for_each:
  assumes start: "Inv [] [] s"
    and step: "\<And>xs x ys s. Inv xs ys s \<Longrightarrow> x \<in> set all \<Longrightarrow>
      wp (f x) (\<lambda>y. Inv (xs @ [x]) (ys @ [y])) E s"
    and last: "\<And>ys s. Inv all ys s \<Longrightarrow> Q ys s"
  shows "wp (for_each f all) Q E s"
proof -
  have "Inv done ys s \<Longrightarrow> set todo \<subseteq> set all \<Longrightarrow>
      wp (for_each f todo) (\<lambda>zs. Inv (done @ todo) (ys @ zs)) E s" for "done" todo ys s
  proof (induction todo arbitrary: "done" ys s)
    case Nil
    then show ?case by (simp add: wp_simps)
  next
    case (Cons x todo)
    have "wp (f x) (\<lambda>y. Inv (done @ [x]) (ys @ [y])) E s"
      using Cons.prems step by simp
    then show ?case
      unfolding for_each.simps wp_bind wp_ret
    proof (rule wp_mono)
      fix y s' assume "Inv (done @ [x]) (ys @ [y]) s'"
      with Cons.IH[of "done @ [x]" "ys @ [y]" s'] Cons.prems(2)
      show "wp (for_each f todo) (\<lambda>zs. Inv (done @ x # todo) (ys @ y # zs)) E s'" by simp
    qed
  qed
  from this[of "[]" "[]" s all] start show ?thesis
    by (auto elim!: wp_mono intro: last)
qed

subsection \<open>Successful runs\<close>

text \<open>What it takes for a method to return, step by step.\<close>

named_theorems run_simps "when a method returns a value, and in which world"

lemma run_ret [run_simps]: "ret x s = (Inr y, s') \<longleftrightarrow> y = x \<and> s' = s"
  by (auto simp: ret_def)

lemma run_throw [run_simps]: "throw e s = (Inr y, s') \<longleftrightarrow> False"
  by (simp add: throw_def)

lemma run_bind [run_simps]:
  "bind_p m f s = (Inr y, s') \<longleftrightarrow> (\<exists>x s1. m s = (Inr x, s1) \<and> f x s1 = (Inr y, s'))"
  by (auto simp: bind_p_def split: prod.splits sum.splits)

lemma run_then [run_simps]:
  "then_p m n s = (Inr y, s') \<longleftrightarrow> (\<exists>x s1. m s = (Inr x, s1) \<and> n s1 = (Inr y, s'))"
  by (simp add: then_p_def run_bind)

lemma run_reading [run_simps]: "reading f s = (Inr y, s') \<longleftrightarrow> y = f s \<and> s' = s"
  by (auto simp: reading_def)

lemma run_updating [run_simps]: "updating f s = (Inr y, s') \<longleftrightarrow> s' = f s"
  by (auto simp: updating_def)

lemma run_of_result [run_simps]: "of_result r s = (Inr y, s') \<longleftrightarrow> r = Inr y \<and> s' = s"
  by (auto simp: of_result_def)

lemma run_if [run_simps]:
  "(if b then m else n) s = r \<longleftrightarrow> (if b then m s = r else n s = r)"
  by simp

lemma run_try [run_simps]:
  "try_catch m h s = (Inr y, s') \<longleftrightarrow>
     m s = (Inr y, s') \<or> (\<exists>e s1. m s = (Inl e, s1) \<and> h e s1 = (Inr y, s'))"
  by (auto simp: try_catch_def split: prod.splits sum.splits)

lemma wp_result: "m s = (Inr x, s') \<Longrightarrow> wp m Q E s \<Longrightarrow> Q x s'"
  by (simp add: wp_def)

end
