(* ===== verification/Engine_Types.thy ===== *)
theory Engine_Types
  imports Prelude
begin

section \<open>The data the adaptive engine works on\<close>

text \<open>
  The enums of \<open>common/enums/index.ts\<close> the modelled code uses, the columns of the
  question entities it reads, the tunables of \<open>adaptive-engine.constants.ts\<close> and the
  interfaces of \<open>engine.types.ts\<close>. Record fields keep the source's names behind a
  short prefix, because HOL record fields are global names. Columns that no modelled
  operation reads (creation time stamps, joined entities) are left out.
\<close>

subsection \<open>Enums\<close>

datatype scoring_type = OBJECTIVE | TRAIT

datatype question_status = DRAFT | ACTIVE | ARCHIVED

datatype behavioral_pattern = SITUATIONAL | FORCED_CHOICE | TRADE_OFF | RANKING

datatype invitation_status =
  INV_PENDING | INV_IN_PROGRESS | INV_COMPLETED | INV_EXPIRED | INV_REVOKED

datatype session_status =
  SESS_IN_PROGRESS | SESS_COMPLETED | SESS_AUTO_SUBMITTED | SESS_ABANDONED

datatype module_stop_reason =
  CONFIDENCE_REACHED | MAX_QUESTIONS | TIME_EXPIRED | POOL_EXHAUSTED

datatype module_run_status = Pending | In_progress | Completed

text \<open>\<open>Object.values(BehavioralPattern)\<close>, in declaration order.\<close>

definition all_patterns :: "behavioral_pattern list" where
  "all_patterns = [SITUATIONAL, FORCED_CHOICE, TRADE_OFF, RANKING]"

text \<open>The string value of each pattern, used as a key of \<open>patternCounts\<close>.\<close>

fun pattern_key :: "behavioral_pattern \<Rightarrow> string" where
  "pattern_key SITUATIONAL = ''situational''"
| "pattern_key FORCED_CHOICE = ''forced_choice''"
| "pattern_key TRADE_OFF = ''trade_off''"
| "pattern_key RANKING = ''ranking''"

lemma pattern_key_inject [simp]: "pattern_key p = pattern_key q \<longleftrightarrow> p = q"
  by (cases p; cases q) simp_all

lemma set_all_patterns [simp]: "p \<in> set all_patterns"
  by (cases p) (simp_all add: all_patterns_def)

subsection \<open>Questions\<close>

record mcq_option =
  mo_key :: string
  mo_text :: string

record mcq_details =
  md_options :: "mcq_option list"
  md_correctOption :: string
  md_difficultyScore :: int
  md_timesUsed :: nat
  md_timesCorrect :: nat

record personality_option =
  po_key :: string
  po_text :: string
  po_traitWeights :: "real jsobj"

record personality_details =
  pd_options :: "personality_option list"
  pd_pattern :: "behavioral_pattern option"
  pd_timesUsed :: nat

record question =
  q_id :: string
  q_moduleId :: string
  q_questionText :: string
  q_status :: question_status
  q_probeGroup :: "string option"
  q_isSample :: bool
  q_organisationId :: "string option"
  q_forkedFromId :: "string option"
  q_mcqDetails :: "mcq_details option"
  q_personalityDetails :: "personality_details option"

record trait_definition =
  td_key :: string
  td_label :: string
  td_invertForReport :: bool

subsection \<open>Tunables\<close>

definition STARTING_ABILITY :: real where "STARTING_ABILITY = 1000"
definition ELO_D :: real where "ELO_D = 400"
definition K_EARLY :: real where "K_EARLY = 48"
definition K_LATE :: real where "K_LATE = 24"
definition K_SWITCH_AFTER :: nat where "K_SWITCH_AFTER = 5"
definition K_QUESTION :: real where "K_QUESTION = 8"
definition ABILITY_PRIOR_SPREAD :: real where "ABILITY_PRIOR_SPREAD = 400"
definition ABILITY_CONFIDENCE_THRESHOLD :: real where "ABILITY_CONFIDENCE_THRESHOLD = 7 / 10"
definition STABILITY_WINDOW :: nat where "STABILITY_WINDOW = 4"
definition STABILITY_BAND :: real where "STABILITY_BAND = 80"
definition SELECTOR_SHORTLIST_SIZE :: nat where "SELECTOR_SHORTLIST_SIZE = 5"
definition TRAIT_TARGET_QUESTIONS :: nat where "TRAIT_TARGET_QUESTIONS = 3"
definition TRAIT_CONFIDENCE_THRESHOLD :: real where "TRAIT_CONFIDENCE_THRESHOLD = 1"
definition TRAIT_WEIGHT_MIN :: real where "TRAIT_WEIGHT_MIN = -3"
definition TRAIT_WEIGHT_MAX :: real where "TRAIT_WEIGHT_MAX = 3"
definition RANKING_EXTREME_FACTOR :: real where "RANKING_EXTREME_FACTOR = 1"
definition CONSISTENCY_MIN_SAMPLES :: nat where "CONSISTENCY_MIN_SAMPLES = 2"
definition CONSISTENCY_ZERO_AT_STDEV :: real where "CONSISTENCY_ZERO_AT_STDEV = 3"
definition LEGACY_SELECTION_RATE :: real where "LEGACY_SELECTION_RATE = 1 / 12"
definition PROBE_GAP_QUESTIONS :: nat where "PROBE_GAP_QUESTIONS = 8"
definition PROBE_MAX_PAIRS :: nat where "PROBE_MAX_PAIRS = 2"

definition PROBE_AGREEMENT_ZERO_AT :: real where
  "PROBE_AGREEMENT_ZERO_AT = TRAIT_WEIGHT_MAX - TRAIT_WEIGHT_MIN"

lemmas engine_constants =
  STARTING_ABILITY_def ELO_D_def K_EARLY_def K_LATE_def K_SWITCH_AFTER_def K_QUESTION_def
  ABILITY_PRIOR_SPREAD_def ABILITY_CONFIDENCE_THRESHOLD_def STABILITY_WINDOW_def
  STABILITY_BAND_def SELECTOR_SHORTLIST_SIZE_def TRAIT_TARGET_QUESTIONS_def
  TRAIT_CONFIDENCE_THRESHOLD_def TRAIT_WEIGHT_MIN_def TRAIT_WEIGHT_MAX_def
  RANKING_EXTREME_FACTOR_def CONSISTENCY_MIN_SAMPLES_def CONSISTENCY_ZERO_AT_STDEV_def
  LEGACY_SELECTION_RATE_def PROBE_GAP_QUESTIONS_def PROBE_MAX_PAIRS_def
  PROBE_AGREEMENT_ZERO_AT_def

text \<open>Position 0 is the option ranked first; \<open>total_options\<close> is the number of options ranked.\<close>

definition rankingPositionFactor :: "nat \<Rightarrow> nat \<Rightarrow> real" where
  "rankingPositionFactor position total_options =
     (if total_options \<le> 1 then RANKING_EXTREME_FACTOR
      else RANKING_EXTREME_FACTOR * (1 - (2 * real position) / (real total_options - 1)))"

subsection \<open>Trait tallies and probe pairs\<close>

record trait_tally =
  tt_sum :: real
  tt_count :: nat
  tt_sumSquares :: "real option"
  tt_chanceSum :: "real option"
  tt_bestSum :: "real option"
  tt_worstSum :: "real option"

definition fresh_tally :: trait_tally where
  "fresh_tally = \<lparr>tt_sum = 0, tt_count = 0, tt_sumSquares = Some 0,
     tt_chanceSum = None, tt_bestSum = None, tt_worstSum = None\<rparr>"

record trait_range =
  tr_chance :: real
  tr_best :: real
  tr_worst :: real

datatype probe_signature =
    SigObjective bool
  | SigTrait "real jsobj"
  | SigUnanswered

record probe_divergence =
  dv_key :: string
  dv_first :: real
  dv_second :: real

record probe_pair =
  pp_group :: string
  pp_firstQuestionId :: string
  pp_firstSequence :: nat
  pp_first :: probe_signature
  pp_askedAtAnswered :: nat
  pp_secondQuestionId :: "string option"
  pp_secondSequence :: "nat option"
  pp_second :: "probe_signature option"
  pp_agreement :: "real option"
  pp_flipped :: "bool option"
  pp_divergentTraits :: "probe_divergence list"

record probe_results =
  pr_pairs :: "probe_pair list"
  pr_agreement :: "real option"
  pr_resolved :: nat
  pr_unresolved :: nat

record evaluation_result =
  er_isCorrect :: "bool option"
  er_traitWeights :: "real jsobj"

subsection \<open>The state of one module of one run\<close>

record module_run_config =
  ms_moduleId :: string
  ms_organisationId :: string
  ms_assessmentId :: string
  ms_poolRestricted :: bool
  ms_slug :: string
  ms_name :: string
  ms_description :: "string option"
  ms_scoringType :: scoring_type
  ms_traits :: "trait_definition list"
  ms_questionCount :: nat
  ms_timeLimitSeconds :: nat

record module_state = module_run_config +
  ms_status :: module_run_status
  ms_startedAt :: "int option"
  ms_deadlineAt :: "int option"
  ms_completedAt :: "int option"
  ms_stopReason :: "module_stop_reason option"
  ms_answered :: nat
  ms_correct :: nat
  ms_seenQuestionIds :: "string list"
  ms_ability :: real
  ms_information :: real
  ms_recentAbilities :: "real list"
  ms_traitTallies :: "trait_tally jsobj"
  ms_patternCounts :: "nat jsobj"
  ms_probes :: "probe_pair list"
  ms_servedProbeGroups :: "string list"

text \<open>What the candidate submitted, and what scoring it gives back.\<close>

datatype submitted_answer =
    AnsOption string
  | AnsRanking "string list"
  | AnsUnanswered

record answer_outcome =
  ao_isCorrect :: "bool option"
  ao_questionDifficultyAtServe :: "real option"
  ao_abilityEstimateAfter :: "real option"

end
