(* ===== verification/Estimator.thy ===== *)
theory Estimator
  imports Engine_Types
begin

section \<open>Ability and trait estimation\<close>

text \<open>
  \<open>adaptive-engine/ability-estimator/ability-estimator.service.ts\<close>: the Elo update
  of an objective module, the Fisher information and the two confidences derived from
  it, and the running trait tallies with the scores, confidences and consistencies read
  off them. \<open>Number.POSITIVE_INFINITY\<close>, the standard error before the first answer,
  is \<open>None\<close>.

  The locale \<open>unit_measure\<close> is the contract all confidence figures share (a value
  in 0..1) and gives what their users rely on: the weakest of several, or a rounded one,
  is again in 0..1.
\<close>

subsection \<open>Objective modules\<close>

record ability_update =
  au_ability :: real
  au_questionDifficulty :: real
  au_expected :: real

definition expectedScore :: "real \<Rightarrow> real \<Rightarrow> real" where
  "expectedScore ability difficulty = 1 / (1 + 10 powr ((difficulty - ability) / ELO_D))"

definition ability_update_step :: "real \<Rightarrow> real \<Rightarrow> bool \<Rightarrow> nat \<Rightarrow> ability_update" where
  "ability_update_step ability questionDifficulty isCorrect answeredSoFar =
     (let expected = expectedScore ability questionDifficulty;
          actual = (if isCorrect then 1 else 0);
          k = (if answeredSoFar < K_SWITCH_AFTER then K_EARLY else K_LATE)
      in \<lparr>au_ability = ability + k * (actual - expected),
          au_questionDifficulty = questionDifficulty + K_QUESTION * (expected - actual),
          au_expected = expected\<rparr>)"

definition fisher_information :: "real \<Rightarrow> real \<Rightarrow> real" where
  "fisher_information ability difficulty =
     (let p = expectedScore ability difficulty;
          logitsPerEloPoint = ln 10 / ELO_D
      in p * (1 - p) * logitsPerEloPoint ^ 2)"

definition standardError :: "real \<Rightarrow> real option" where
  "standardError information =
     (if information \<le> 0 then None else Some (1 / sqrt information))"

definition precisionConfidence :: "module_state \<Rightarrow> real" where
  "precisionConfidence st =
     (case standardError (ms_information st) of
        None \<Rightarrow> 0
      | Some se \<Rightarrow> clamp01 (1 - se / ABILITY_PRIOR_SPREAD))"

text \<open>\<open>recentAbilities.slice(-STABILITY_WINDOW)\<close>: the last four estimates.\<close>

definition stability_window :: "real list \<Rightarrow> real list" where
  "stability_window xs = drop (length xs - STABILITY_WINDOW) xs"

definition stabilityConfidence :: "module_state \<Rightarrow> real" where
  "stabilityConfidence st =
     (let window = stability_window (ms_recentAbilities st)
      in if length window < STABILITY_WINDOW then 0
         else clamp01 (1 - (js_max window - js_min window) / STABILITY_BAND))"

definition abilityConfidence :: "module_state \<Rightarrow> real" where
  "abilityConfidence st = min (precisionConfidence st) (stabilityConfidence st)"

definition trackAbility :: "real \<Rightarrow> module_state \<Rightarrow> module_state" where
  "trackAbility ability st =
     (let recent = ms_recentAbilities st @ [ability]
      in st\<lparr>ms_recentAbilities :=
              (if length recent > STABILITY_WINDOW
               then drop (length recent - STABILITY_WINDOW) recent else recent)\<rparr>)"

subsection \<open>Trait modules\<close>

text \<open>The first loop of \<open>applyTraitWeights\<close>: what the answer expressed.\<close>

definition add_weight :: "real \<Rightarrow> trait_tally option \<Rightarrow> trait_tally" where
  "add_weight weight old =
     (let tally = or_else old fresh_tally
      in tally\<lparr>tt_sum := tt_sum tally + weight,
               tt_count := tt_count tally + 1,
               tt_sumSquares := Some (or_else (tt_sumSquares tally) 0 + weight * weight)\<rparr>)"

text \<open>The second loop: what the question made possible.\<close>

definition add_range :: "trait_range \<Rightarrow> trait_tally option \<Rightarrow> trait_tally" where
  "add_range rng old =
     (let tally = or_else old fresh_tally
      in tally\<lparr>tt_chanceSum := Some (or_else (tt_chanceSum tally) 0 + tr_chance rng),
               tt_bestSum := Some (or_else (tt_bestSum tally) 0 + tr_best rng),
               tt_worstSum := Some (or_else (tt_worstSum tally) 0 + tr_worst rng)\<rparr>)"

definition applyTraitWeights ::
  "trait_tally jsobj \<Rightarrow> real jsobj \<Rightarrow> trait_range jsobj option \<Rightarrow> trait_tally jsobj" where
  "applyTraitWeights tallies weights ranges =
     (let weighted = foldl (\<lambda>d (trait, w). obj_set trait (add_weight w (obj_get d trait)) d)
                       tallies weights
      in foldl (\<lambda>d (trait, r). obj_set trait (add_range r (obj_get d trait)) d)
           weighted (or_else ranges []))"

definition traitConsistency :: "trait_tally option \<Rightarrow> real option" where
  "traitConsistency tally =
     (case tally of
        None \<Rightarrow> None
      | Some t \<Rightarrow>
          if tt_count t < CONSISTENCY_MIN_SAMPLES then None
          else (let mu = tt_sum t / real (tt_count t);
                    variance = max 0 (or_else (tt_sumSquares t) 0 / real (tt_count t) - mu * mu)
                in Some (round2 (clamp01 (1 - sqrt variance / CONSISTENCY_ZERO_AT_STDEV)))))"

definition overallConsistency :: "module_state \<Rightarrow> real option" where
  "overallConsistency st =
     (let measured = List.map_filter (\<lambda>t. traitConsistency (Some t)) (obj_values (ms_traitTallies st))
      in if measured = [] then None
         else Some (round2 (foldl (+) 0 measured / real (length measured))))"

definition traitConfidence :: "trait_tally option \<Rightarrow> real" where
  "traitConfidence tally =
     (case tally of
        None \<Rightarrow> 0
      | Some t \<Rightarrow> if tt_count t = 0 then 0
                  else clamp01 (real (tt_count t) / real TRAIT_TARGET_QUESTIONS))"

definition legacyTraitScore :: "trait_tally option \<Rightarrow> real" where
  "legacyTraitScore tally =
     (let mu = (case tally of
                    None \<Rightarrow> 0
                  | Some t \<Rightarrow> if tt_count t > 0 then tt_sum t / real (tt_count t) else 0);
          span = TRAIT_WEIGHT_MAX - TRAIT_WEIGHT_MIN
      in clamp01 ((mu - TRAIT_WEIGHT_MIN) / span) * 100)"

definition traitScore :: "trait_tally option \<Rightarrow> real" where
  "traitScore tally =
     (case tally of
        None \<Rightarrow> legacyTraitScore tally
      | Some t \<Rightarrow>
          (case (tt_chanceSum t, tt_bestSum t, tt_worstSum t) of
             (Some chanceSum, Some bestSum, Some worstSum) \<Rightarrow>
               (let spread = max (bestSum - chanceSum) (chanceSum - worstSum)
                in if spread \<le> 0 then 50
                   else clamp (50 + 50 * ((tt_sum t - chanceSum) / spread)) 0 100)
           | _ \<Rightarrow> legacyTraitScore tally))"

record trait_score =
  ts_score :: real
  ts_confidence :: real
  ts_consistency :: "real option"

text \<open>The traits a module reports on: its catalogue list, or whatever was tallied.\<close>

definition reported_keys :: "module_state \<Rightarrow> string list" where
  "reported_keys st =
     (if ms_traits st \<noteq> [] then map td_key (ms_traits st) else obj_keys (ms_traitTallies st))"

definition traitScores :: "module_state \<Rightarrow> trait_score jsobj" where
  "traitScores st =
     foldl (\<lambda>scores key.
              obj_set key
                (let tally = obj_get (ms_traitTallies st) key
                 in \<lparr>ts_score = round1 (traitScore tally),
                     ts_confidence = round2 (traitConfidence tally),
                     ts_consistency = traitConsistency tally\<rparr>)
                scores)
       [] (reported_keys st)"

subsection \<open>The contract of a confidence figure\<close>

locale unit_measure =
  fixes measure_of :: "'s \<Rightarrow> real"
  assumes measure_range: "0 \<le> measure_of s \<and> measure_of s \<le> 1"
begin

lemma weakest_range:
  "ss \<noteq> [] \<Longrightarrow> 0 \<le> js_min (map measure_of ss) \<and> js_min (map measure_of ss) \<le> 1"
  using js_min_in[of "map measure_of ss"] measure_range by fastforce

lemma rounded_range: "0 \<le> round2 (measure_of s) \<and> round2 (measure_of s) \<le> 1"
  using measure_range round2_unit by blast

end

interpretation precision_conf: unit_measure precisionConfidence
  by unfold_locales (auto simp: precisionConfidence_def split: option.splits)

interpretation stability_conf: unit_measure stabilityConfidence
  by unfold_locales (auto simp: stabilityConfidence_def Let_def)

interpretation ability_conf: unit_measure abilityConfidence
  by unfold_locales
    (auto simp: abilityConfidence_def min_le_iff_disj precision_conf.measure_range
      stability_conf.measure_range)

interpretation trait_conf: unit_measure traitConfidence
  by unfold_locales (auto simp: traitConfidence_def split: option.splits)

subsection \<open>The Elo model\<close>

lemma expectedScore_pos: "0 < expectedScore a d" and expectedScore_less_1: "expectedScore a d < 1"
  by (simp_all add: expectedScore_def add_pos_pos)

lemma expectedScore_even [simp]: "expectedScore a a = 1 / 2"
  by (simp add: expectedScore_def)

text \<open>The two sides of a match are each other's complement.\<close>

lemma expectedScore_complement: "expectedScore a d + expectedScore d a = 1"
proof -
  define x where "x = 10 powr ((d - a) / ELO_D)"
  have x: "0 < x" by (simp add: x_def)
  have "10 powr ((a - d) / ELO_D) = 1 / x"
    using powr_minus_divide[of 10 "(d - a) / ELO_D"] minus_divide_left[of "d - a" ELO_D]
    by (simp add: x_def)
  then have "expectedScore a d + expectedScore d a = 1 / (1 + x) + 1 / (1 + 1 / x)"
    by (simp add: expectedScore_def x_def)
  also have "\<dots> = 1" using x by (simp add: field_simps)
  finally show ?thesis .
qed

lemma expectedScore_mono_ability:
  assumes "a < b" shows "expectedScore a d < expectedScore b d"
proof -
  have "10 powr ((d - b) / ELO_D) < 10 powr ((d - a) / ELO_D)"
    using assms by (simp add: ELO_D_def divide_strict_right_mono)
  then show ?thesis
    by (simp add: expectedScore_def frac_less2 add_pos_pos)
qed

text \<open>Four hundred points are ten-to-one odds, as the constant's comment says.\<close>

lemma expectedScore_400: "expectedScore (d + 400) d = 10 / 11"
  by (simp add: expectedScore_def ELO_D_def powr_minus_divide)

lemma ability_moves_less_than_k:
  assumes "u = ability_update_step a d c n"
  shows "\<bar>au_ability u - a\<bar> < (if n < K_SWITCH_AFTER then K_EARLY else K_LATE)"
  using expectedScore_pos[of a d] expectedScore_less_1[of a d]
  by (auto simp: assms ability_update_step_def Let_def abs_if engine_constants)

text \<open>Fisher information is positive and largest when the question is a coin flip.\<close>

lemma logit_unit_pos: "0 < ln 10 / ELO_D"
  by (simp add: ELO_D_def)

lemma fisher_information_pos: "0 < fisher_information a d"
  unfolding fisher_information_def Let_def
  using expectedScore_pos[of a d] expectedScore_less_1[of a d] logit_unit_pos
  by (intro mult_pos_pos zero_less_power) simp_all

lemma coin_flip_max: "(p::real) * (1 - p) \<le> 1 / 4"
proof -
  have "0 \<le> (p - 1 / 2)\<^sup>2" by simp
  then show ?thesis by (simp add: power2_eq_square algebra_simps)
qed

lemma fisher_information_max: "fisher_information a d \<le> fisher_information a a"
  using mult_right_mono[OF coin_flip_max[of "expectedScore a d"], of "(ln 10 / ELO_D) ^ 2"]
  by (simp add: fisher_information_def Let_def)

text \<open>More information never lowers the precision.\<close>

lemma precisionConfidence_mono:
  assumes "ms_information st \<le> ms_information st'"
  shows "precisionConfidence st \<le> precisionConfidence st'"
proof (cases "ms_information st \<le> 0")
  case True
  then show ?thesis
    using precision_conf.measure_range[of st']
    by (simp add: precisionConfidence_def[of st] standardError_def)
next
  case False
  with assms have pos: "0 < ms_information st" "0 < ms_information st'" by simp_all
  then have "1 / sqrt (ms_information st') \<le> 1 / sqrt (ms_information st)"
    using assms by (simp add: frac_le)
  then have "1 / sqrt (ms_information st') / ABILITY_PRIOR_SPREAD
             \<le> 1 / sqrt (ms_information st) / ABILITY_PRIOR_SPREAD"
    by (rule divide_right_mono) (simp add: ABILITY_PRIOR_SPREAD_def)
  with pos show ?thesis
    by (simp add: precisionConfidence_def standardError_def clamp01_mono)
qed

lemma trackAbility_window:
  "length (ms_recentAbilities st) \<le> STABILITY_WINDOW \<Longrightarrow>
   length (ms_recentAbilities (trackAbility a st)) \<le> STABILITY_WINDOW \<and>
   last (ms_recentAbilities (trackAbility a st)) = a"
  by (auto simp: trackAbility_def Let_def STABILITY_WINDOW_def)

end
