(* ===== verification/Evaluation.thy ===== *)
theory Evaluation
  imports Engine_Types
begin

section \<open>Scoring one answer\<close>

text \<open>
  \<open>adaptive-engine/evaluation/evaluation.service.ts\<close>: what one submitted answer means,
  before the running estimate sees it. The three \<open>BadRequestException\<close>s are the
  constructors of \<open>eval_error\<close>, each with the data its message is built from.
\<close>

datatype eval_error =
    UnknownOption string "string list"
  | RankedTwice "string list"
  | StillUnplaced nat "string list"

definition assertKnownOption :: "string list \<Rightarrow> string \<Rightarrow> eval_error + unit" where
  "assertKnownOption validKeys selected =
     (if selected \<in> set validKeys then Inr () else Inl (UnknownOption selected validKeys))"

definition evaluateMcq :: "mcq_details \<Rightarrow> string \<Rightarrow> eval_error + evaluation_result" where
  "evaluateMcq details selectedOption =
     bind_result (assertKnownOption (map mo_key (md_options details)) selectedOption) (\<lambda>_.
       Inr \<lparr>er_isCorrect = Some (selectedOption = md_correctOption details), er_traitWeights = []\<rparr>)"

definition find_option :: "personality_details \<Rightarrow> string \<Rightarrow> personality_option option" where
  "find_option details key = List.find (\<lambda>opt. po_key opt = key) (pd_options details)"

definition evaluatePersonality ::
  "personality_details \<Rightarrow> string \<Rightarrow> eval_error + evaluation_result" where
  "evaluatePersonality details selectedOption =
     (case find_option details selectedOption of
        Some chosen \<Rightarrow> Inr \<lparr>er_isCorrect = None, er_traitWeights = po_traitWeights chosen\<rparr>
      | None \<Rightarrow>
          bind_result (assertKnownOption (map po_key (pd_options details)) selectedOption) (\<lambda>_.
            Inr \<lparr>er_isCorrect = None, er_traitWeights = []\<rparr>))"

text \<open>One ranked option folded into the running totals (sum and count per trait).\<close>

definition add_ranked ::
  "real \<Rightarrow> (real \<times> nat) jsobj \<Rightarrow> real jsobj \<Rightarrow> (real \<times> nat) jsobj" where
  "add_ranked factor totals weights =
     foldl (\<lambda>tot (trait, weight).
              let total = or_else (obj_get tot trait) (0, 0)
              in obj_set trait (fst total + weight * factor, snd total + 1) tot)
       totals weights"

definition ranking_totals :: "personality_details \<Rightarrow> string list \<Rightarrow> (real \<times> nat) jsobj" where
  "ranking_totals details orderedKeys =
     foldl (\<lambda>totals (position, key).
              case find_option details key of
                None \<Rightarrow> totals
              | Some opt \<Rightarrow>
                  add_ranked (rankingPositionFactor position (length orderedKeys)) totals
                    (po_traitWeights opt))
       [] (enumerate 0 orderedKeys)"

definition evaluateRanking ::
  "personality_details \<Rightarrow> string list \<Rightarrow> eval_error + evaluation_result" where
  "evaluateRanking details orderedKeys =
     (let validKeys = map po_key (pd_options details);
          duplicates = js_duplicates orderedKeys
      in if duplicates \<noteq> [] then Inl (RankedTwice (js_set duplicates))
         else bind_result (map_result (assertKnownOption validKeys) orderedKeys) (\<lambda>_.
           if length orderedKeys \<noteq> length validKeys
           then Inl (StillUnplaced (length validKeys)
                       (filter (\<lambda>key. key \<notin> set orderedKeys) validKeys))
           else Inr \<lparr>er_isCorrect = None,
                     er_traitWeights =
                       map (\<lambda>(trait, s, c). (trait, s / real c))
                         (ranking_totals details orderedKeys)\<rparr>))"

text \<open>Every ordering of a list: each element in turn in front of the orderings of the rest.\<close>

function permutations :: "'a list \<Rightarrow> 'a list list" where
  "permutations items =
     (if length items \<le> 1 then [items]
      else concat (map (\<lambda>i. map (\<lambda>tl. items ! i # tl)
                               (permutations (take i items @ drop (Suc i) items)))
                     [0..<length items]))"
  by pat_completeness auto
termination
  by (relation "measure length") auto

declare permutations.simps [simp del]

definition achievableTraitRange ::
  "personality_details \<Rightarrow> bool \<Rightarrow> eval_error + trait_range jsobj" where
  "achievableTraitRange details isRanking =
     (let keys = map po_key (pd_options details)
      in if keys = [] then Inr []
         else bind_result
           (if isRanking then map_result (evaluateRanking details) (permutations keys)
            else map_result (evaluatePersonality details) keys)
           (\<lambda>results.
              let outcomes = map er_traitWeights results;
                  traits = js_set (concat (map (\<lambda>opt. obj_keys (po_traitWeights opt)) (pd_options details)))
              in Inr (map (\<lambda>trait.
                        let values = map (\<lambda>weights. or_else (obj_get weights trait) 0) outcomes
                        in (trait, \<lparr>tr_chance = foldl (+) 0 values / real (length values),
                                    tr_best = js_max values, tr_worst = js_min values\<rparr>))
                      traits)))"

definition evaluateUnanswered :: "scoring_type \<Rightarrow> evaluation_result" where
  "evaluateUnanswered scoringType =
     \<lparr>er_isCorrect = (if scoringType = OBJECTIVE then Some False else None), er_traitWeights = []\<rparr>"

subsection \<open>Questions as the bank accepts them\<close>

text \<open>Distinct option keys, and each option's weights an object with distinct keys.\<close>

definition well_formed_details :: "personality_details \<Rightarrow> bool" where
  "well_formed_details details \<longleftrightarrow>
     distinct (map po_key (pd_options details)) \<and>
     (\<forall>opt\<in>set (pd_options details). well_keyed (po_traitWeights opt))"

abbreviation option_keys :: "personality_details \<Rightarrow> string list" where
  "option_keys details \<equiv> map po_key (pd_options details)"

lemma find_option_None: "find_option d k = None \<longleftrightarrow> k \<notin> set (option_keys d)"
  by (auto simp: find_option_def find_None_iff)

lemma find_option_Some:
  "find_option d k = Some opt \<Longrightarrow> opt \<in> set (pd_options d) \<and> po_key opt = k"
  by (auto simp: find_option_def find_Some_iff)

lemma find_option_mem:
  assumes "distinct (option_keys d)" and "opt \<in> set (pd_options d)"
  shows "find_option d (po_key opt) = Some opt"
proof (cases "find_option d (po_key opt)")
  case None
  with assms show ?thesis by (simp add: find_option_None)
next
  case (Some opt')
  then have "opt' \<in> set (pd_options d)" "po_key opt' = po_key opt"
    by (auto dest: find_option_Some)
  with assms have "opt' = opt" by (auto simp: distinct_map inj_on_def)
  with Some show ?thesis by simp
qed

lemma assertKnown_Inr [simp]: "assertKnownOption ks k = Inr u \<longleftrightarrow> k \<in> set ks"
  by (simp add: assertKnownOption_def)

lemma assertKnown_all [simp]:
  "(\<exists>us. map_result (assertKnownOption ks) xs = Inr us) \<longleftrightarrow> set xs \<subseteq> set ks"
  by (induction xs) (auto simp: bind_result_Inr assertKnownOption_def)

lemma evaluatePersonality_known:
  "k \<in> set (option_keys d) \<Longrightarrow>
   \<exists>opt. find_option d k = Some opt \<and>
     evaluatePersonality d k = Inr \<lparr>er_isCorrect = None, er_traitWeights = po_traitWeights opt\<rparr>"
  by (cases "find_option d k") (auto simp: find_option_None evaluatePersonality_def)

subsection \<open>Permutations\<close>

lemma mset_remove_nth:
  "i < length xs \<Longrightarrow> add_mset (xs ! i) (mset (take i xs @ drop (Suc i) xs)) = mset xs"
  by (metis id_take_nth_drop mset.simps(2) mset_append union_mset_add_mset_right)

lemma permutations_mset: "ys \<in> set (permutations xs) \<longleftrightarrow> mset ys = mset xs"
proof (induction xs arbitrary: ys rule: permutations.induct)
  case (1 xs)
  show ?case
  proof (cases "length xs \<le> 1")
    case True
    then consider "xs = []" | x where "xs = [x]" by (cases xs) auto
    then show ?thesis by cases (auto simp: permutations.simps)
  next
    case False
    have "ys \<in> set (permutations xs) \<longleftrightarrow>
      (\<exists>i<length xs. \<exists>zs. ys = xs ! i # zs \<and> zs \<in> set (permutations (take i xs @ drop (Suc i) xs)))"
      using False by (subst permutations.simps) (auto simp: image_iff)
    also have "\<dots> \<longleftrightarrow> (\<exists>i<length xs. \<exists>zs. ys = xs ! i # zs \<and>
                        mset zs = mset (take i xs @ drop (Suc i) xs))"
      using "1.IH"[OF False] by auto
    also have "\<dots> \<longleftrightarrow> mset ys = mset xs"
    proof
      assume "\<exists>i<length xs. \<exists>zs. ys = xs ! i # zs \<and> mset zs = mset (take i xs @ drop (Suc i) xs)"
      then show "mset ys = mset xs" using mset_remove_nth by fastforce
    next
      assume eq: "mset ys = mset xs"
      then obtain z zs where ys: "ys = z # zs" using False by (cases ys) auto
      with eq have "z \<in> set xs" by (metis list.set_intros(1) set_mset_mset)
      then obtain i where i: "i < length xs" "xs ! i = z" by (auto simp: in_set_conv_nth)
      have "mset zs = mset (take i xs @ drop (Suc i) xs)"
        using mset_remove_nth[OF i(1)] eq ys i(2)
        by (metis add_mset_add_mset_same_iff mset.simps(2))
      with i ys show "\<exists>i<length xs. \<exists>zs. ys = xs ! i # zs \<and>
                        mset zs = mset (take i xs @ drop (Suc i) xs)" by auto
    qed
    finally show ?thesis .
  qed
qed

lemma length_permutations: "length (permutations xs) = fact (length xs)"
proof (induction xs rule: permutations.induct)
  case (1 xs)
  show ?case
  proof (cases "length xs \<le> 1")
    case True
    then show ?thesis by (cases xs) (auto simp: permutations.simps)
  next
    case False
    then obtain n where n: "length xs = Suc n" by (cases "length xs") auto
    have "length (permutations xs) = sum_list (map (\<lambda>i. length (permutations (take i xs @ drop (Suc i) xs))) [0..<length xs])"
      using False by (subst permutations.simps) (simp add: length_concat comp_def)
    also have "\<dots> = sum_list (map (\<lambda>i. fact n) [0..<length xs])"
      using "1.IH"[OF False] n by (intro arg_cong[of _ _ sum_list] map_cong) auto
    also have "\<dots> = fact (length xs)" using n by (simp add: sum_list_triv)
    finally show ?thesis .
  qed
qed

lemma permutations_nonempty [simp]: "permutations xs \<noteq> []"
  using permutations_mset[of xs xs] by force

lemma distinct_permutations: "distinct xs \<Longrightarrow> distinct (permutations xs)"
proof (induction xs rule: permutations.induct)
  case (1 xs)
  show ?case
  proof (cases "length xs \<le> 1")
    case True
    then show ?thesis by (subst permutations.simps) simp
  next
    case False
    have sub: "distinct (permutations (take i xs @ drop (Suc i) xs))" if "i < length xs" for i
      using "1.IH"[OF False] that "1.prems"
      by (auto simp: distinct_take distinct_drop set_take_disj_set_drop_if_distinct)
    have "distinct (concat (map (\<lambda>i. map (\<lambda>tl. xs ! i # tl)
                               (permutations (take i xs @ drop (Suc i) xs))) [0..<length xs]))"
    proof (rule distinct_concat)
      show "distinct (map (\<lambda>i. map (\<lambda>tl. xs ! i # tl)
                               (permutations (take i xs @ drop (Suc i) xs))) [0..<length xs])"
        unfolding distinct_map
      proof (intro conjI inj_onI)
        fix i j
        assume ij: "i \<in> set [0..<length xs]" "j \<in> set [0..<length xs]"
          and eq: "map (\<lambda>tl. xs ! i # tl) (permutations (take i xs @ drop (Suc i) xs))
                 = map (\<lambda>tl. xs ! j # tl) (permutations (take j xs @ drop (Suc j) xs))"
        from eq have "hd (hd (map (\<lambda>tl. xs ! i # tl) (permutations (take i xs @ drop (Suc i) xs))))
                    = hd (hd (map (\<lambda>tl. xs ! j # tl) (permutations (take j xs @ drop (Suc j) xs))))"
          by simp
        then have "xs ! i = xs ! j" by (simp add: hd_map)
        with ij "1.prems" show "i = j" by (simp add: nth_eq_iff_index_eq)
      qed simp
    qed (use sub "1.prems" in \<open>auto simp: distinct_map nth_eq_iff_index_eq\<close>)
    with False show ?thesis by (subst permutations.simps) simp
  qed
qed

text \<open>A ranking is accepted exactly when it is an ordering of the question's options.\<close>

lemma evaluateRanking_accepts:
  assumes "distinct (option_keys d)"
  shows "(\<exists>r. evaluateRanking d ks = Inr r) \<longleftrightarrow> mset ks = mset (option_keys d)"
proof -
  have "(\<exists>r. evaluateRanking d ks = Inr r) \<longleftrightarrow>
        distinct ks \<and> set ks \<subseteq> set (option_keys d) \<and> length ks = length (option_keys d)"
    using assertKnown_all[of "option_keys d" ks]
    by (auto simp: evaluateRanking_def Let_def js_duplicates_Nil_iff bind_result_Inr)
  also have "\<dots> \<longleftrightarrow> mset ks = mset (option_keys d)"
  proof
    assume *: "distinct ks \<and> set ks \<subseteq> set (option_keys d) \<and> length ks = length (option_keys d)"
    then have "set ks = set (option_keys d)"
      using distinct_card[of ks] distinct_card[OF assms]
      by (intro card_subset_eq) (simp_all del: set_map)
    with * assms show "mset ks = mset (option_keys d)"
      using set_eq_iff_mset_eq_distinct by blast
  next
    assume "mset ks = mset (option_keys d)"
    with assms show "distinct ks \<and> set ks \<subseteq> set (option_keys d) \<and> length ks = length (option_keys d)"
      by (metis mset_eq_imp_distinct_iff mset_eq_length mset_eq_setD order_refl)
  qed
  finally show ?thesis .
qed

subsection \<open>The weights of a ranking\<close>

text \<open>What each ranked option that mentions a trait contributes to it, in ranked order.\<close>

definition contribution ::
  "personality_details \<Rightarrow> nat \<Rightarrow> string \<Rightarrow> nat \<times> string \<Rightarrow> real option" where
  "contribution details total_options trait ik =
     (case find_option details (snd ik) of
        None \<Rightarrow> None
      | Some opt \<Rightarrow> map_option (\<lambda>w. w * rankingPositionFactor (fst ik) total_options)
                      (obj_get (po_traitWeights opt) trait))"

definition contributions :: "personality_details \<Rightarrow> string list \<Rightarrow> string \<Rightarrow> real list" where
  "contributions details orderedKeys trait =
     List.map_filter (contribution details (length orderedKeys) trait) (enumerate 0 orderedKeys)"

definition tally_list :: "real list \<Rightarrow> (real \<times> nat) option" where
  "tally_list xs = (if xs = [] then None else Some (sum_list xs, length xs))"

lemma get_add_ranked:
  assumes "well_keyed W"
  shows "obj_get (add_ranked f tot W) t =
    (case obj_get W t of
       None \<Rightarrow> obj_get tot t
     | Some w \<Rightarrow> Some (fst (or_else (obj_get tot t) (0, 0)) + w * f,
                       snd (or_else (obj_get tot t) (0, 0)) + 1))"
  using assms
    obj.fold_store[where kvs = W and k = t and d = tot
      and f = "\<lambda>w old. (fst (or_else old (0, 0)) + w * f, snd (or_else old (0, 0)) + 1)"]
  by (simp add: add_ranked_def Let_def well_keyed_def)

lemma ranking_totals_fold:
  assumes wf: "well_formed_details d"
    and "obj_get tot t = tally_list pre"
  shows "obj_get (foldl (\<lambda>totals (position, key).
              case find_option d key of
                None \<Rightarrow> totals
              | Some opt \<Rightarrow>
                  add_ranked (rankingPositionFactor position n) totals (po_traitWeights opt)) tot iks) t
    = tally_list (pre @ List.map_filter (contribution d n t) iks)"
  using assms(2)
proof (induction iks arbitrary: tot pre)
  case Nil
  then show ?case by (simp add: map_filter_simps)
next
  case (Cons ik iks)
  obtain i k where ik: "ik = (i, k)" by fastforce
  show ?case
  proof (cases "find_option d k")
    case None
    then have "contribution d n t ik = None" by (simp add: contribution_def ik)
    with None ik Cons.IH[OF Cons.prems] show ?thesis by (simp add: map_filter_simps)
  next
    case (Some opt)
    let ?tot = "add_ranked (rankingPositionFactor i n) tot (po_traitWeights opt)"
    have wk: "well_keyed (po_traitWeights opt)"
      using wf find_option_Some[OF Some] by (auto simp: well_formed_details_def)
    have "obj_get ?tot t = tally_list (pre @ (case contribution d n t ik of None \<Rightarrow> [] | Some x \<Rightarrow> [x]))"
      using Cons.prems Some
      by (auto simp: get_add_ranked[OF wk] contribution_def ik tally_list_def split: option.splits)
    from Cons.IH[OF this] Some ik show ?thesis
      by (auto simp: map_filter_simps split: option.splits)
  qed
qed

lemma get_ranking_totals:
  "well_formed_details d \<Longrightarrow>
   obj_get (ranking_totals d ks) t = tally_list (contributions d ks t)"
  using ranking_totals_fold[of d "[]" t "[]" "length ks" "enumerate 0 ks"]
  by (simp add: ranking_totals_def contributions_def tally_list_def)

text \<open>The weight of a trait in an accepted ranking: the mean of its contributions.\<close>

lemma evaluateRanking_weight:
  assumes "well_formed_details d" and "evaluateRanking d ks = Inr r"
  shows "obj_get (er_traitWeights r) t =
    (let c = contributions d ks t in if c = [] then None else Some (sum_list c / real (length c)))"
proof -
  have "er_traitWeights r = map (\<lambda>(trait, s, c). (trait, s / real c)) (ranking_totals d ks)"
    using assms(2) by (auto simp: evaluateRanking_def Let_def bind_result_Inr split: if_splits)
  also have "\<dots> = map (\<lambda>(k, v). (k, (\<lambda>(s, c). s / real c) v)) (ranking_totals d ks)"
    by (simp add: case_prod_unfold)
  finally have "obj_get (er_traitWeights r) t
    = map_option (\<lambda>(s, c). s / real c) (obj_get (ranking_totals d ks) t)"
    by (simp only: map_of_map comp_apply)
  then show ?thesis
    by (simp add: get_ranking_totals[OF assms(1)] tally_list_def Let_def)
qed

lemma rankingPositionFactor_bound: "i < n \<Longrightarrow> \<bar>rankingPositionFactor i n\<bar> \<le> 1"
  by (auto simp: rankingPositionFactor_def RANKING_EXTREME_FACTOR_def abs_le_iff field_simps)

lemma rankingPositionFactor_flip:
  "2 \<le> n \<Longrightarrow> i < n \<Longrightarrow> rankingPositionFactor (n - Suc i) n = - rankingPositionFactor i n"
  by (simp add: rankingPositionFactor_def RANKING_EXTREME_FACTOR_def of_nat_diff field_simps)

lemma contributions_mem:
  assumes "c \<in> set (contributions d ks t)"
  obtains i k opt w where "i < length ks" "find_option d k = Some opt" "opt \<in> set (pd_options d)"
    "(t, w) \<in> set (po_traitWeights opt)" "c = w * rankingPositionFactor i (length ks)"
proof -
  obtain i k where ik: "(i, k) \<in> set (enumerate 0 ks)" "contribution d (length ks) t (i, k) = Some c"
    using assms by (auto simp: contributions_def set_map_filter)
  then obtain opt w where "find_option d k = Some opt" "obj_get (po_traitWeights opt) t = Some w"
    "c = w * rankingPositionFactor i (length ks)"
    by (auto simp: contribution_def split: option.splits)
  with ik show thesis
    by (intro that[of i k opt w]) (auto simp: in_set_enumerate_eq dest: find_option_Some map_of_SomeD)
qed

lemma contributions_abs_le:
  assumes bound: "\<And>opt w. opt \<in> set (pd_options d) \<Longrightarrow> w \<in> snd ` set (po_traitWeights opt) \<Longrightarrow> \<bar>w\<bar> \<le> B"
    and "c \<in> set (contributions d ks t)"
  shows "\<bar>c\<bar> \<le> B"
proof -
  obtain i k opt w where *: "i < length ks" "opt \<in> set (pd_options d)"
    "(t, w) \<in> set (po_traitWeights opt)" "c = w * rankingPositionFactor i (length ks)"
    using assms(2) by (rule contributions_mem)
  then have "\<bar>w\<bar> \<le> B" using bound[of opt w] by force
  moreover have "\<bar>rankingPositionFactor i (length ks)\<bar> \<le> 1"
    using *(1) by (rule rankingPositionFactor_bound)
  ultimately have "\<bar>w\<bar> * \<bar>rankingPositionFactor i (length ks)\<bar> \<le> B * 1"
    by (intro mult_mono) auto
  then show ?thesis by (simp add: *(4) abs_mult)
qed

text \<open>Ranking the options the other way round negates every contribution.\<close>

lemma contributions_rev:
  assumes "2 \<le> length ks"
  shows "contributions d (rev ks) t = rev (map uminus (contributions d ks t))"
proof -
  let ?n = "length ks"
  have "contribution d ?n t (?n - 1 - i, k) = map_option uminus (contribution d ?n t (i, k))"
    if "i < ?n" for i k
    using that assms
    by (auto simp: contribution_def rankingPositionFactor_flip option.map_comp comp_def split: option.splits)
  then have "List.map_filter (\<lambda>(i, k). contribution d ?n t (?n - 1 - i, k)) (enumerate 0 ks)
      = List.map_filter (\<lambda>ik. map_option uminus (contribution d ?n t ik)) (enumerate 0 ks)"
    by (intro map_filter_cong) (auto simp: in_set_enumerate_eq)
  then show ?thesis
    by (simp add: contributions_def enumerate_rev map_filter_map map_filter_rev
        map_filter_map_option case_prod_unfold flip: rev_map)
qed

subsection \<open>What a question makes possible\<close>

text \<open>
  One answer a candidate could give: an option key, or an ordering of all of them for a
  ranking question. \<open>outcome_weight\<close> is what it contributes to a trait, 0 when it is
  silent on it.
\<close>

definition possible_results ::
  "personality_details \<Rightarrow> bool \<Rightarrow> eval_error + evaluation_result list" where
  "possible_results details isRanking =
     (if isRanking then map_result (evaluateRanking details) (permutations (option_keys details))
      else map_result (evaluatePersonality details) (option_keys details))"

definition outcome_weight :: "string \<Rightarrow> evaluation_result \<Rightarrow> real" where
  "outcome_weight trait r = or_else (obj_get (er_traitWeights r) trait) 0"

lemma achievableTraitRange_lookup:
  assumes "achievableTraitRange d isR = Inr R"
    and "possible_results d isR = Inr rs" and "option_keys d \<noteq> []"
  shows "obj_get R t =
    (if t \<in> (\<Union>opt\<in>set (pd_options d). set (obj_keys (po_traitWeights opt)))
     then Some \<lparr>tr_chance = mean (map (outcome_weight t) rs),
                tr_best = js_max (map (outcome_weight t) rs),
                tr_worst = js_min (map (outcome_weight t) rs)\<rparr>
     else None)"
proof -
  have R: "R = map (\<lambda>trait. (trait,
      \<lparr>tr_chance = mean (map (outcome_weight trait) rs),
       tr_best = js_max (map (outcome_weight trait) rs),
       tr_worst = js_min (map (outcome_weight trait) rs)\<rparr>))
      (js_set (concat (map (\<lambda>opt. obj_keys (po_traitWeights opt)) (pd_options d))))"
    using assms
    by (cases isR)
      (auto simp: achievableTraitRange_def possible_results_def Let_def mean_def outcome_weight_def[abs_def]
        comp_def)
  show ?thesis
    unfolding R by (simp only: map_of_map_restrict restrict_map_def set_js_set) auto
qed

lemma achievableTraitRange_keyed:
  "achievableTraitRange d isR = Inr R \<Longrightarrow> well_keyed R"
  by (auto simp: achievableTraitRange_def Let_def bind_result_Inr well_keyed_def comp_def
      split: if_splits)

text \<open>On a well-formed question every answer on offer is accepted, so the range exists.\<close>

lemma possible_results_ok:
  assumes "well_formed_details d"
  shows "\<exists>rs. possible_results d isR = Inr rs \<and>
    length rs = (if isR then fact (length (option_keys d)) else length (option_keys d))"
proof (cases isR)
  case True
  have "\<exists>r. evaluateRanking d ks = Inr r" if "ks \<in> set (permutations (option_keys d))" for ks
    using that assms evaluateRanking_accepts[of d ks]
    by (simp add: permutations_mset well_formed_details_def)
  then obtain g where "\<And>ks. ks \<in> set (permutations (option_keys d)) \<Longrightarrow> evaluateRanking d ks = Inr (g ks)"
    by metis
  then have "map_result (evaluateRanking d) (permutations (option_keys d))
      = Inr (map g (permutations (option_keys d)))" by (rule map_result_all)
  with True show ?thesis by (simp add: possible_results_def length_permutations)
next
  case False
  have "\<exists>r. evaluatePersonality d k = Inr r" if "k \<in> set (option_keys d)" for k
    using evaluatePersonality_known[OF that] by blast
  then obtain g where "\<And>k. k \<in> set (option_keys d) \<Longrightarrow> evaluatePersonality d k = Inr (g k)"
    by metis
  then have "map_result (evaluatePersonality d) (option_keys d) = Inr (map g (option_keys d))"
    by (rule map_result_all)
  with False show ?thesis by (simp add: possible_results_def)
qed

lemma achievableTraitRange_ok:
  "well_formed_details d \<Longrightarrow> \<exists>R. achievableTraitRange d isR = Inr R"
  using possible_results_ok[of d isR]
  by (cases isR) (auto simp: achievableTraitRange_def possible_results_def Let_def)

text \<open>Weights are only ever about traits some option mentions.\<close>

lemma outcome_traits:
  assumes "well_formed_details d" and "possible_results d isR = Inr rs" and "r \<in> set rs"
    and "obj_get (er_traitWeights r) t = Some w"
  shows "t \<in> (\<Union>opt\<in>set (pd_options d). set (obj_keys (po_traitWeights opt)))"
proof (cases isR)
  case True
  with assms(2,3) obtain ks where ks: "evaluateRanking d ks = Inr r"
    by (auto simp: possible_results_def dest!: map_result_set)
  then have "contributions d ks t \<noteq> []"
    using assms(4) evaluateRanking_weight[OF assms(1) ks, of t] by (auto simp: Let_def split: if_splits)
  then obtain c where "c \<in> set (contributions d ks t)" by (cases "contributions d ks t") auto
  then show ?thesis by (rule contributions_mem) force
next
  case False
  with assms(2,3) obtain k where "k \<in> set (option_keys d)" "evaluatePersonality d k = Inr r"
    by (auto simp: possible_results_def dest!: map_result_set)
  moreover from this(1) obtain opt where "find_option d k = Some opt"
    "evaluatePersonality d k = Inr \<lparr>er_isCorrect = None, er_traitWeights = po_traitWeights opt\<rparr>"
    using evaluatePersonality_known by blast
  ultimately have "opt \<in> set (pd_options d)" "(t, w) \<in> set (po_traitWeights opt)"
    using assms(4) by (auto dest: find_option_Some map_of_SomeD)
  then show ?thesis by force
qed

text \<open>
  A ranking question is balanced: over all its orderings each trait comes out at exactly
  0, because reversing an ordering negates its weights.
\<close>

lemma ranking_reverse_weight:
  assumes "well_formed_details d" and "2 \<le> length ks"
    and "evaluateRanking d ks = Inr r" and "evaluateRanking d (rev ks) = Inr r'"
  shows "outcome_weight t r' = - outcome_weight t r"
proof -
  have "sum_list (rev (map uminus c)) = - sum_list c" for c :: "real list"
    by (induction c) auto
  then show ?thesis
    using assms(2)
    by (simp add: outcome_weight_def evaluateRanking_weight[OF assms(1,3)]
        evaluateRanking_weight[OF assms(1,4)] contributions_rev Let_def)
qed

lemma ranking_chance_zero:
  assumes wf: "well_formed_details d" and two: "2 \<le> length (option_keys d)"
    and rs: "possible_results d True = Inr rs"
  shows "mean (map (outcome_weight t) rs) = 0"
proof -
  let ?P = "permutations (option_keys d)"
  define g where "g ks = (case evaluateRanking d ks of Inr r \<Rightarrow> outcome_weight t r | Inl _ \<Rightarrow> 0)" for ks
  have acc: "\<exists>r. evaluateRanking d ks = Inr r" if "ks \<in> set ?P" for ks
    using that wf evaluateRanking_accepts[of d ks]
    by (simp add: permutations_mset well_formed_details_def)
  have rs': "map_result (evaluateRanking d) ?P = Inr rs"
    using rs by (simp add: possible_results_def)
  then have "map (outcome_weight t) rs = map g ?P"
    by (auto simp: map_result_Inr g_def list_eq_iff_nth_eq)
  moreover have "distinct ?P"
    using wf by (simp add: distinct_permutations well_formed_details_def)
  ultimately have "sum_list (map (outcome_weight t) rs) = sum g (set ?P)"
    by (simp add: sum_list_distinct_conv_sum_set)
  moreover have "sum g (set ?P) = sum (\<lambda>ks. g (rev ks)) (set ?P)"
    by (rule sum.reindex_bij_witness[where i = rev and j = rev]) (auto simp: permutations_mset)
  moreover have neg: "g (rev ks) = - g ks" if "ks \<in> set ?P" for ks
  proof -
    have m: "mset ks = mset (option_keys d)" using that by (simp add: permutations_mset)
    then have "2 \<le> length ks" using two by (metis mset_eq_length)
    moreover obtain r where r: "evaluateRanking d ks = Inr r" using acc[OF \<open>ks \<in> set ?P\<close>] by blast
    moreover obtain r' where r': "evaluateRanking d (rev ks) = Inr r'"
      using acc[of "rev ks"] m by (auto simp: permutations_mset)
    ultimately have "outcome_weight t r' = - outcome_weight t r"
      using ranking_reverse_weight[OF wf] by blast
    then show ?thesis by (simp add: g_def r r')
  qed
  moreover have "sum (\<lambda>ks. g (rev ks)) (set ?P) = - sum g (set ?P)"
    using neg by (simp add: sum_negf)
  ultimately show ?thesis by (simp add: mean_sum_list)
qed

end
