(* ===== verification/Trait_Scale.thy ===== *)
theory Trait_Scale
  imports Estimator Evaluation
begin

section \<open>The 0-100 trait scale\<close>

text \<open>
  The comments of \<open>traitScore\<close> and \<open>achievableTraitRange\<close> argue that a trait's sum
  cannot leave the range its questions made possible, and that answering at random
  earns exactly 50. Both are proved here over the definitions of \<open>Estimator\<close> and
  \<open>Evaluation\<close>, for any sequence of well-formed questions.
\<close>

subsection \<open>Reading a tally after folding answers in\<close>

lemma get_applyTraitWeights:
  assumes "well_keyed W" and "well_keyed (or_else R [])"
  shows "obj_get (applyTraitWeights T W R) k =
    (let t = (case obj_get W k of None \<Rightarrow> obj_get T k | Some w \<Rightarrow> Some (add_weight w (obj_get T k)))
     in case obj_get (or_else R []) k of None \<Rightarrow> t | Some r \<Rightarrow> Some (add_range r t))"
proof -
  define T1 where "T1 = foldl (\<lambda>d (trait, w). obj_set trait (add_weight w (obj_get d trait)) d) T W"
  have T1: "obj_get T1 k =
      (case obj_get W k of None \<Rightarrow> obj_get T k | Some w \<Rightarrow> Some (add_weight w (obj_get T k)))"
    unfolding T1_def using assms(1) unfolding well_keyed_def by (rule obj.fold_store)
  have "obj_get (applyTraitWeights T W R) k =
      (case obj_get (or_else R []) k of None \<Rightarrow> obj_get T1 k
       | Some r \<Rightarrow> Some (add_range r (obj_get T1 k)))"
    unfolding applyTraitWeights_def Let_def T1_def[symmetric]
    using assms(2) unfolding well_keyed_def by (rule obj.fold_store)
  then show ?thesis by (auto simp: T1 Let_def split: option.split)
qed

lemma applyTraitWeights_keyed: "well_keyed T \<Longrightarrow> well_keyed (applyTraitWeights T W R)"
  unfolding applyTraitWeights_def Let_def
  by (intro fold_set_well_keyed[where g = "\<lambda>k r d. add_range r (obj_get d k)"]
      fold_set_well_keyed[where g = "\<lambda>k w d. add_weight w (obj_get d k)"])

lemma add_ranked_keyed: "well_keyed tot \<Longrightarrow> well_keyed (add_ranked f tot W)"
  unfolding add_ranked_def Let_def
  by (rule fold_set_well_keyed[where g = "\<lambda>k w d. (fst (or_else (obj_get d k) (0, 0)) + w * f,
        snd (or_else (obj_get d k) (0, 0)) + 1)"])

lemma ranking_totals_keyed: "well_keyed (ranking_totals d ks)"
proof -
  have "well_keyed tot \<Longrightarrow> well_keyed (foldl (\<lambda>totals (position, key).
              case find_option d key of
                None \<Rightarrow> totals
              | Some opt \<Rightarrow>
                  add_ranked (rankingPositionFactor position n) totals (po_traitWeights opt)) tot iks)"
    for tot n iks
    by (induction iks arbitrary: tot) (auto simp: add_ranked_keyed split: option.splits)
  then show ?thesis by (simp add: ranking_totals_def)
qed

lemma possible_results_keyed:
  assumes "well_formed_details d" and "possible_results d isR = Inr rs" and "r \<in> set rs"
  shows "well_keyed (er_traitWeights r)"
proof (cases isR)
  case True
  with assms obtain ks where "evaluateRanking d ks = Inr r"
    by (auto simp: possible_results_def dest!: map_result_set)
  then have "obj_keys (er_traitWeights r) = obj_keys (ranking_totals d ks)"
    by (auto simp: evaluateRanking_def Let_def bind_result_Inr split: if_splits)
  then show ?thesis using ranking_totals_keyed by (simp add: well_keyed_def)
next
  case False
  with assms obtain k where k: "k \<in> set (option_keys d)" "evaluatePersonality d k = Inr r"
    by (auto simp: possible_results_def dest!: map_result_set)
  then obtain opt where "find_option d k = Some opt"
    "evaluatePersonality d k = Inr \<lparr>er_isCorrect = None, er_traitWeights = po_traitWeights opt\<rparr>"
    using evaluatePersonality_known by blast
  with k(2) assms(1) show ?thesis
    by (auto simp: well_formed_details_def dest!: find_option_Some)
qed

subsection \<open>One answered question: its result and its scale\<close>

text \<open>
  A sitting is the list of (result, range) pairs that \<open>recordTraitAnswer\<close> folds into
  the tallies, one per answered question. \<open>question_answers\<close> lists the pairs one
  question can give, \<open>sittings\<close> those of a whole paper.
\<close>

definition is_ranking :: "personality_details \<Rightarrow> bool" where
  "is_ranking d \<longleftrightarrow> pd_pattern d = Some RANKING"

definition question_answers ::
  "personality_details \<Rightarrow> (evaluation_result \<times> trait_range jsobj) list" where
  "question_answers d =
     (case (possible_results d (is_ranking d), achievableTraitRange d (is_ranking d)) of
        (Inr rs, Inr R) \<Rightarrow> map (\<lambda>r. (r, R)) rs
      | _ \<Rightarrow> [])"

fun sittings :: "personality_details list \<Rightarrow> (evaluation_result \<times> trait_range jsobj) list list" where
  "sittings [] = [[]]"
| "sittings (d # ds) = concat (map (\<lambda>a. map ((#) a) (sittings ds)) (question_answers d))"

definition fold_answer ::
  "trait_tally jsobj \<Rightarrow> evaluation_result \<times> trait_range jsobj \<Rightarrow> trait_tally jsobj" where
  "fold_answer T a = applyTraitWeights T (er_traitWeights (fst a)) (Some (snd a))"

definition sitting_tallies ::
  "(evaluation_result \<times> trait_range jsobj) list \<Rightarrow> trait_tally jsobj" where
  "sitting_tallies run = foldl fold_answer [] run"

text \<open>A paper of questions the bank accepts: well formed, with at least one option.\<close>

definition good_question :: "personality_details \<Rightarrow> bool" where
  "good_question d \<longleftrightarrow> well_formed_details d \<and> pd_options d \<noteq> []"

text \<open>The range a question sets for a trait: absent when no option mentions the trait.\<close>

definition mentions :: "personality_details \<Rightarrow> string \<Rightarrow> bool" where
  "mentions d t \<longleftrightarrow> t \<in> (\<Union>opt\<in>set (pd_options d). set (obj_keys (po_traitWeights opt)))"

definition weights_of :: "personality_details \<Rightarrow> string \<Rightarrow> real list" where
  "weights_of d t = map (\<lambda>a. outcome_weight t (fst a)) (question_answers d)"

lemma good_question_answers:
  assumes "good_question d"
  obtains rs R where "possible_results d (is_ranking d) = Inr rs"
    "achievableTraitRange d (is_ranking d) = Inr R" "question_answers d = map (\<lambda>r. (r, R)) rs"
    "rs \<noteq> []"
proof -
  from assms have wf: "well_formed_details d" by (simp add: good_question_def)
  from possible_results_ok[OF wf, of "is_ranking d"] obtain rs where
    rs: "possible_results d (is_ranking d) = Inr rs"
      "length rs = (if is_ranking d then fact (length (option_keys d)) else length (option_keys d))"
    by blast
  moreover obtain R where "achievableTraitRange d (is_ranking d) = Inr R"
    using achievableTraitRange_ok[OF wf] by blast
  moreover have "rs \<noteq> []" using rs(2) assms by (auto simp: good_question_def split: if_splits)
  ultimately show thesis using that by (simp add: question_answers_def)
qed

lemma question_answer_facts:
  assumes good: "good_question d" and a: "a \<in> set (question_answers d)"
  shows "well_keyed (er_traitWeights (fst a))" "well_keyed (snd a)"
    "obj_get (snd a) t = (if mentions d t
       then Some \<lparr>tr_chance = mean (weights_of d t), tr_best = js_max (weights_of d t),
                  tr_worst = js_min (weights_of d t)\<rparr> else None)"
    "\<not> mentions d t \<Longrightarrow> obj_get (er_traitWeights (fst a)) t = None"
    "outcome_weight t (fst a) \<in> set (weights_of d t)"
proof -
  from good obtain rs R where rs: "possible_results d (is_ranking d) = Inr rs"
    and R: "achievableTraitRange d (is_ranking d) = Inr R"
    and qa: "question_answers d = map (\<lambda>r. (r, R)) rs" by (rule good_question_answers)
  have wf: "well_formed_details d" and ne: "option_keys d \<noteq> []"
    using good by (simp_all add: good_question_def)
  from a qa have fst_a: "fst a \<in> set rs" and snd_a: "snd a = R" by auto
  have wo: "weights_of d t = map (outcome_weight t) rs" by (simp add: weights_of_def qa)
  show "well_keyed (er_traitWeights (fst a))" using possible_results_keyed[OF wf rs fst_a] .
  show "well_keyed (snd a)" using achievableTraitRange_keyed[OF R] snd_a by simp
  show "obj_get (snd a) t = (if mentions d t
       then Some \<lparr>tr_chance = mean (weights_of d t), tr_best = js_max (weights_of d t),
                  tr_worst = js_min (weights_of d t)\<rparr> else None)"
    unfolding snd_a wo mentions_def by (rule achievableTraitRange_lookup[OF R rs ne])
  show "obj_get (er_traitWeights (fst a)) t = None" if "\<not> mentions d t"
    using that outcome_traits[OF wf rs fst_a, of t]
    by (cases "obj_get (er_traitWeights (fst a)) t") (auto simp: mentions_def)
  show "outcome_weight t (fst a) \<in> set (weights_of d t)" using fst_a wo by simp
qed

lemma weights_of_nonempty: "good_question d \<Longrightarrow> weights_of d t \<noteq> []"
  by (elim good_question_answers) (simp add: weights_of_def)

lemma weights_of_silent: "good_question d \<Longrightarrow> \<not> mentions d t \<Longrightarrow> w \<in> set (weights_of d t) \<Longrightarrow> w = 0"
  unfolding weights_of_def using question_answer_facts(4)
  by (force simp: outcome_weight_def)

subsection \<open>The tally of a sitting\<close>

text \<open>\<open>scaled_tally c b w s t\<close>: the tally holds the sum \<open>s\<close> and the scale \<open>c\<close>, \<open>b\<close>, \<open>w\<close>.\<close>

definition scaled_tally :: "real \<Rightarrow> real \<Rightarrow> real \<Rightarrow> real \<Rightarrow> trait_tally \<Rightarrow> bool" where
  "scaled_tally c b w s t \<longleftrightarrow>
     tt_chanceSum t = Some c \<and> tt_bestSum t = Some b \<and> tt_worstSum t = Some w \<and> tt_sum t = s"

definition paper_sum :: "(real list \<Rightarrow> real) \<Rightarrow> string \<Rightarrow> personality_details list \<Rightarrow> real" where
  "paper_sum f t ds = sum_list (map (\<lambda>d. f (weights_of d t)) (filter (\<lambda>d. mentions d t) ds))"

definition run_sum :: "string \<Rightarrow> (evaluation_result \<times> trait_range jsobj) list \<Rightarrow> real" where
  "run_sum t run = sum_list (map (\<lambda>a. outcome_weight t (fst a)) run)"

lemma fold_answer_step:
  assumes good: "good_question d" and a: "a \<in> set (question_answers d)"
  shows "obj_get (fold_answer T a) t =
    (if mentions d t
     then Some (add_range \<lparr>tr_chance = mean (weights_of d t), tr_best = js_max (weights_of d t),
                  tr_worst = js_min (weights_of d t)\<rparr>
            (case obj_get (er_traitWeights (fst a)) t of
               None \<Rightarrow> obj_get T t | Some w \<Rightarrow> Some (add_weight w (obj_get T t))))
     else obj_get T t)"
  using question_answer_facts(1,2)[OF good a] question_answer_facts(3,4)[OF good a, of t]
  by (simp add: fold_answer_def get_applyTraitWeights Let_def)

lemma fold_answer_scaled:
  assumes good: "good_question d" and a: "a \<in> set (question_answers d)" and m: "mentions d t"
    and T: "case obj_get T t of None \<Rightarrow> c = 0 \<and> b = 0 \<and> w = 0 \<and> s = 0
            | Some tt \<Rightarrow> scaled_tally c b w s tt"
  shows "\<exists>tt. obj_get (fold_answer T a) t = Some tt \<and>
    scaled_tally (c + mean (weights_of d t)) (b + js_max (weights_of d t))
      (w + js_min (weights_of d t)) (s + outcome_weight t (fst a)) tt"
  unfolding fold_answer_step[OF good a]
  using m T
  by (auto simp: add_range_def add_weight_def scaled_tally_def outcome_weight_def fresh_tally_def
      Let_def split: option.splits)

lemma tallies_of_run:
  assumes "list_all2 (\<lambda>a d. good_question d \<and> a \<in> set (question_answers d)) run ds"
    and "case obj_get T t of None \<Rightarrow> c = 0 \<and> b = 0 \<and> w = 0 \<and> s = 0
            | Some tt \<Rightarrow> scaled_tally c b w s tt"
  shows "(\<forall>d\<in>set ds. \<not> mentions d t) \<and> obj_get (foldl fold_answer T run) t = obj_get T t
           \<and> run_sum t run = 0 \<or>
         (\<exists>tt. obj_get (foldl fold_answer T run) t = Some tt \<and>
            scaled_tally (c + paper_sum mean t ds) (b + paper_sum js_max t ds)
              (w + paper_sum js_min t ds) (s + run_sum t run) tt)"
  using assms
proof (induction run ds arbitrary: T c b w s rule: list_all2_induct)
  case Nil
  then show ?case by (simp add: run_sum_def)
next
  case (Cons a run d ds)
  note good = Cons.hyps(1)[THEN conjunct1] and a = Cons.hyps(1)[THEN conjunct2]
  show ?case
  proof (cases "mentions d t")
    case True
    from fold_answer_scaled[OF good a True Cons.prems] obtain tt where
      tt: "obj_get (fold_answer T a) t = Some tt"
        "scaled_tally (c + mean (weights_of d t)) (b + js_max (weights_of d t))
           (w + js_min (weights_of d t)) (s + outcome_weight t (fst a)) tt" by blast
    with Cons.IH[of "c + mean (weights_of d t)" "b + js_max (weights_of d t)"
        "w + js_min (weights_of d t)" "s + outcome_weight t (fst a)" "fold_answer T a"] True
    show ?thesis
      by (auto simp: paper_sum_def run_sum_def algebra_simps)
  next
    case False
    have "outcome_weight t (fst a) = 0"
      using question_answer_facts(4)[OF good a False] by (simp add: outcome_weight_def)
    moreover have "obj_get (fold_answer T a) t = obj_get T t"
      using False by (simp add: fold_answer_step[OF good a])
    ultimately show ?thesis
      using Cons.IH[of c b w s "fold_answer T a"] Cons.prems False
      by (auto simp: paper_sum_def run_sum_def)
  qed
qed

lemma sittings_all2:
  assumes "\<forall>d\<in>set ds. good_question d" and "run \<in> set (sittings ds)"
  shows "list_all2 (\<lambda>a d. good_question d \<and> a \<in> set (question_answers d)) run ds"
  using assms by (induction ds arbitrary: run) auto

subsection \<open>The sum stays on its scale\<close>

lemma run_sum_bounds:
  assumes "list_all2 (\<lambda>a d. good_question d \<and> a \<in> set (question_answers d)) run ds"
  shows "paper_sum js_min t ds \<le> run_sum t run \<and> run_sum t run \<le> paper_sum js_max t ds"
  using assms
proof (induction run ds rule: list_all2_induct)
  case Nil
  then show ?case by (simp add: run_sum_def paper_sum_def)
next
  case (Cons a run d ds)
  have mem: "outcome_weight t (fst a) \<in> set (weights_of d t)"
    using Cons.hyps(1) question_answer_facts(5) by blast
  then have "\<not> mentions d t \<Longrightarrow> outcome_weight t (fst a) = 0"
    using Cons.hyps(1) weights_of_silent by blast
  then show ?case
    using Cons.IH js_min_le[OF mem] js_max_ge[OF mem]
    by (auto simp: run_sum_def paper_sum_def)
qed

lemma paper_chance_bounds:
  assumes "\<forall>d\<in>set ds. good_question d"
  shows "paper_sum js_min t ds \<le> paper_sum mean t ds \<and> paper_sum mean t ds \<le> paper_sum js_max t ds"
  using assms
proof (induction ds)
  case Nil
  then show ?case by (simp add: paper_sum_def)
next
  case (Cons d ds)
  from mean_min_max[OF weights_of_nonempty[of d t]] Cons show ?case
    by (auto simp: paper_sum_def)
qed

text \<open>The straight line \<open>traitScore\<close> draws, without its clamp.\<close>

definition scale_line :: "real \<Rightarrow> real \<Rightarrow> real \<Rightarrow> real \<Rightarrow> real" where
  "scale_line c b w s =
     (if max (b - c) (c - w) \<le> 0 then 50 else 50 + 50 * ((s - c) / max (b - c) (c - w)))"

lemma scale_line_range:
  assumes "w \<le> s" "s \<le> b"
  shows "0 \<le> scale_line c b w s \<and> scale_line c b w s \<le> 100"
proof (cases "max (b - c) (c - w) \<le> 0")
  case True
  then show ?thesis by (simp add: scale_line_def)
next
  case False
  define r where "r = (s - c) / max (b - c) (c - w)"
  have "-1 \<le> r" "r \<le> 1"
    unfolding r_def using False assms by (auto simp: field_simps max_def)
  moreover have "scale_line c b w s = 50 + 50 * r"
    by (simp only: scale_line_def r_def False if_False)
  ultimately show ?thesis by simp
qed

lemma traitScore_scaled:
  assumes "scaled_tally c b w s tt" and "w \<le> s" "s \<le> b"
  shows "traitScore (Some tt) = scale_line c b w s"
  using assms(1) scale_line_range[OF assms(2,3), of c]
  by (auto simp: traitScore_def scaled_tally_def scale_line_def Let_def clamp_id split: if_splits)

lemma traitScore_None [simp]: "traitScore None = 50"
  by (simp add: traitScore_def legacyTraitScore_def clamp01_def engine_constants)

lemma sitting_score:
  assumes good: "\<forall>d\<in>set ds. good_question d" and run: "run \<in> set (sittings ds)"
  shows "traitScore (obj_get (sitting_tallies run) t) =
    scale_line (paper_sum mean t ds) (paper_sum js_max t ds) (paper_sum js_min t ds) (run_sum t run)"
proof -
  note all2 = sittings_all2[OF good run]
  from tallies_of_run[OF all2, where T = "[]" and t = t and c = 0 and b = 0 and w = 0 and s = 0]
  consider "\<forall>d\<in>set ds. \<not> mentions d t" "obj_get (sitting_tallies run) t = None" "run_sum t run = 0"
    | tt where "obj_get (sitting_tallies run) t = Some tt"
        "scaled_tally (paper_sum mean t ds) (paper_sum js_max t ds) (paper_sum js_min t ds) (run_sum t run) tt"
    by (auto simp: sitting_tallies_def)
  then show ?thesis
  proof cases
    case 1
    then show ?thesis by (simp add: scale_line_def paper_sum_def)
  next
    case 2
    then show ?thesis using run_sum_bounds[OF all2, of t] traitScore_scaled by simp
  qed
qed

subsection \<open>Answering at random\<close>

lemma sum_list_concat_map:
  "sum_list (map f (concat (map g xs))) = sum_list (map (\<lambda>x. sum_list (map f (g x))) xs)"
  for f :: "'b \<Rightarrow> real"
  by (induction xs) simp_all

lemma run_sum_total:
  assumes "\<forall>d\<in>set ds. good_question d"
  shows "sum_list (map (run_sum t) (sittings ds)) = real (length (sittings ds)) * paper_sum mean t ds"
  using assms
proof (induction ds)
  case Nil
  then show ?case by (simp add: run_sum_def paper_sum_def)
next
  case (Cons d ds)
  let ?A = "question_answers d" and ?S = "sittings ds"
  have good: "good_question d" using Cons.prems by simp
  have total: "sum_list (weights_of d t) = real (length ?A) * (if mentions d t then mean (weights_of d t) else 0)"
  proof (cases "mentions d t")
    case True
    then show ?thesis using weights_of_nonempty[OF good, of t] by (simp add: mean_sum_list weights_of_def)
  next
    case False
    then show ?thesis using weights_of_silent[OF good False] by (simp add: sum_list_all_0)
  qed
  have "sum_list (map (run_sum t) (sittings (d # ds)))
      = sum_list (map (\<lambda>a. sum_list (map (\<lambda>rest. outcome_weight t (fst a) + run_sum t rest) ?S)) ?A)"
    by (simp add: sum_list_concat_map comp_def run_sum_def)
  also have "\<dots> = real (length ?S) * sum_list (weights_of d t)
               + real (length ?A) * sum_list (map (run_sum t) ?S)"
    by (simp add: sum_list_addf sum_list_triv sum_list_const_mult weights_of_def)
  also have "\<dots> = real (length ?A) * real (length ?S) * paper_sum mean t (d # ds)"
    using Cons total by (simp add: paper_sum_def algebra_simps)
  also have "real (length ?A) * real (length ?S) = real (length (sittings (d # ds)))"
    by (simp add: length_concat comp_def sum_list_triv)
  finally show ?case .
qed

lemma sittings_nonempty: "\<forall>d\<in>set ds. good_question d \<Longrightarrow> sittings ds \<noteq> []"
proof (induction ds)
  case (Cons d ds)
  then obtain a as where "question_answers d = a # as"
    using weights_of_nonempty[of d] by (cases "question_answers d") (auto simp: weights_of_def)
  with Cons show ?case by simp
qed simp

lemma scale_line_mean:
  assumes "xs \<noteq> []" and "sum_list xs = real (length xs) * c"
  shows "mean (map (scale_line c b w) xs) = 50"
proof (cases "max (b - c) (c - w) \<le> 0")
  case True
  with assms(1) show ?thesis by (simp add: mean_sum_list scale_line_def[abs_def] sum_list_triv)
next
  case False
  define k where "k = 50 / max (b - c) (c - w)"
  have "scale_line c b w s = 50 - k * c + k * s" for s
    by (simp only: scale_line_def False if_False) (simp add: k_def algebra_simps diff_divide_distrib)
  then have "scale_line c b w = (\<lambda>s. 50 - k * c + k * s)" by (rule ext)
  then have "sum_list (map (scale_line c b w) xs) = (50 - k * c) * real (length xs) + k * sum_list xs"
    by (simp add: sum_list_addf sum_list_triv sum_list_const_mult)
  with assms show ?thesis by (simp add: mean_sum_list field_simps)
qed

lemma random_mean:
  assumes "\<forall>d\<in>set ds. good_question d"
  shows "mean (map (\<lambda>run. traitScore (obj_get (sitting_tallies run) t)) (sittings ds)) = 50"
proof -
  have *: "map (\<lambda>run. traitScore (obj_get (sitting_tallies run) t)) (sittings ds)
    = map (scale_line (paper_sum mean t ds) (paper_sum js_max t ds) (paper_sum js_min t ds))
        (map (run_sum t) (sittings ds))"
    using sitting_score[OF assms, of _ t] by simp
  show ?thesis
    unfolding * by (rule scale_line_mean) (simp_all add: run_sum_total assms sittings_nonempty)
qed

subsection \<open>Consistency is the spread of the samples\<close>

text \<open>
  The tally keeps only a sum, a count and a sum of squares. The reference definition
  below keeps every weight the candidate's answers gave a trait and takes the
  population standard deviation.
\<close>

definition pop_stdev :: "real list \<Rightarrow> real" where
  "pop_stdev xs = sqrt (mean (map (\<lambda>x. (x - mean xs) ^ 2) xs))"

definition reference_consistency :: "real list \<Rightarrow> real option" where
  "reference_consistency xs =
     (if length xs < CONSISTENCY_MIN_SAMPLES then None
      else Some (round2 (clamp01 (1 - pop_stdev xs / CONSISTENCY_ZERO_AT_STDEV))))"

type_synonym trait_update = "real jsobj \<times> trait_range jsobj option"

definition valid_update :: "trait_update \<Rightarrow> bool" where
  "valid_update u \<longleftrightarrow> well_keyed (fst u) \<and> well_keyed (or_else (snd u) [])"

definition tallies_after :: "trait_update list \<Rightarrow> trait_tally jsobj" where
  "tallies_after us = foldl (\<lambda>T u. applyTraitWeights T (fst u) (snd u)) [] us"

definition samples :: "string \<Rightarrow> trait_update list \<Rightarrow> real list" where
  "samples key us = List.map_filter (\<lambda>u. obj_get (fst u) key) us"

definition holds_samples :: "real list \<Rightarrow> trait_tally option \<Rightarrow> bool" where
  "holds_samples xs t \<longleftrightarrow>
     (case t of None \<Rightarrow> xs = []
      | Some t \<Rightarrow> tt_count t = length xs \<and> tt_sum t = sum_list xs \<and>
                  or_else (tt_sumSquares t) 0 = sum_list (map (\<lambda>x. x * x) xs))"

lemma samples_Cons:
  "samples key (u # us) = (case obj_get (fst u) key of None \<Rightarrow> [] | Some x \<Rightarrow> [x]) @ samples key us"
  by (simp add: samples_def map_filter_simps split: option.split)

lemma applyTraitWeights_samples:
  assumes "valid_update u" and "holds_samples xs (obj_get T key)"
  shows "holds_samples (xs @ (case obj_get (fst u) key of None \<Rightarrow> [] | Some x \<Rightarrow> [x]))
           (obj_get (applyTraitWeights T (fst u) (snd u)) key)"
  using assms
  by (auto simp: valid_update_def get_applyTraitWeights holds_samples_def Let_def add_weight_def
      add_range_def fresh_tally_def split: option.splits)

lemma tallies_hold_samples:
  assumes "\<forall>u\<in>set us. valid_update u"
  shows "holds_samples (samples key us) (obj_get (tallies_after us) key)"
proof -
  have "holds_samples (xs @ samples key us)
          (obj_get (foldl (\<lambda>T u. applyTraitWeights T (fst u) (snd u)) T us) key)"
    if "holds_samples xs (obj_get T key)" for xs T
    using assms that
  proof (induction us arbitrary: xs T)
    case Nil
    then show ?case by (simp add: samples_def map_filter_simps)
  next
    case (Cons u us)
    then have "holds_samples (xs @ (case obj_get (fst u) key of None \<Rightarrow> [] | Some x \<Rightarrow> [x]))
           (obj_get (applyTraitWeights T (fst u) (snd u)) key)"
      by (intro applyTraitWeights_samples) simp_all
    from Cons.IH[OF _ this] Cons.prems(1) show ?case by (simp add: samples_Cons)
  qed
  from this[of "[]" "[]"] show ?thesis by (simp add: tallies_after_def holds_samples_def)
qed

lemma variance_two_ways:
  assumes "xs \<noteq> []"
  shows "sum_list (map (\<lambda>x. x * x) xs) / real (length xs)
           - sum_list xs / real (length xs) * (sum_list xs / real (length xs))
         = mean (map (\<lambda>x. (x - mean xs) ^ 2) xs)"
proof -
  define n where "n = real (length xs)"
  define m where "m = mean xs"
  have n: "0 < n" and S: "sum_list xs = n * m"
    using assms by (simp_all add: n_def m_def mean_sum_list)
  have "sum_list (map (\<lambda>x. (x - m) ^ 2) xs)
      = sum_list (map (\<lambda>x. x * x) xs) - 2 * m * sum_list xs + n * (m * m)"
    by (simp add: n_def) (induction xs, simp_all add: power2_eq_square algebra_simps)
  with n S show ?thesis
    by (simp add: mean_sum_list[of "map _ _"] m_def[symmetric] n_def[symmetric] field_simps)
qed

lemma traitConsistency_reference:
  assumes "holds_samples xs t"
  shows "traitConsistency t = reference_consistency xs"
proof (cases "length xs < 2")
  case True
  with assms show ?thesis
    by (auto simp: traitConsistency_def reference_consistency_def holds_samples_def
        CONSISTENCY_MIN_SAMPLES_def split: option.splits)
next
  case False
  then have ne: "xs \<noteq> []" by auto
  with assms obtain tt where tt: "t = Some tt" by (cases t) (auto simp: holds_samples_def)
  have "0 \<le> mean (map (\<lambda>x. (x - mean xs) ^ 2) xs)"
    using ne by (auto simp: mean_sum_list intro!: divide_nonneg_nonneg sum_list_nonneg)
  with False ne tt assms variance_two_ways[OF ne] show ?thesis
    by (simp add: traitConsistency_def reference_consistency_def holds_samples_def pop_stdev_def
        CONSISTENCY_MIN_SAMPLES_def Let_def)
qed

end
