(* ===== verification/Probes.thy ===== *)
theory Probes
  imports Engine_Types
begin

section \<open>Repeat probes\<close>

text \<open>
  \<open>adaptive-engine/consistency-probe/consistency-probe.service.ts\<close>: pairs of reworded
  twin questions. A pair is opened by the first answer to a probe group, comes due
  \<open>PROBE_GAP_QUESTIONS\<close> answers later and is closed by its twin's answer, which is then
  compared with the first. Nothing here changes a score. The methods that mutate the
  state object return the new state.
\<close>

definition pair_open :: "probe_pair \<Rightarrow> bool" where
  "pair_open pair \<longleftrightarrow> pp_secondQuestionId pair = None"

text \<open>
  \<open>state.answered - pair.askedAtAnswered >= PROBE_GAP_QUESTIONS\<close> on integers. The
  difference may be negative in JavaScript, so it is taken in \<open>int\<close>.
\<close>

definition pair_due :: "nat \<Rightarrow> probe_pair \<Rightarrow> bool" where
  "pair_due answered pair \<longleftrightarrow>
     pair_open pair \<and> int answered - int (pp_askedAtAnswered pair) \<ge> int PROBE_GAP_QUESTIONS"

definition dueTwin :: "module_state \<Rightarrow> string option" where
  "dueTwin st = map_option pp_group (List.find (pair_due (ms_answered st)) (ms_probes st))"

definition blockedGroups :: "module_state \<Rightarrow> string list" where
  "blockedGroups st =
     (let due = dueTwin st;
          touched = js_set (ms_servedProbeGroups st @ map pp_group (ms_probes st))
      in filter (\<lambda>g. g \<noteq> or_else due '''') touched)"

definition markServed :: "string \<Rightarrow> module_state \<Rightarrow> module_state" where
  "markServed grp st =
     (if grp \<in> set (ms_servedProbeGroups st) then st
      else st\<lparr>ms_servedProbeGroups := ms_servedProbeGroups st @ [grp]\<rparr>)"

definition canOpenPair :: "module_state \<Rightarrow> bool" where
  "canOpenPair st =
     (if length (ms_probes st) \<ge> PROBE_MAX_PAIRS then False
      else ms_answered st + PROBE_GAP_QUESTIONS < ms_questionCount st)"

definition wantsNewPair :: "module_state \<Rightarrow> bool" where
  "wantsNewPair st =
     (if \<not> canOpenPair st then False else \<not> list_ex pair_open (ms_probes st))"

record comparison =
  cmp_agreement :: "real option"
  cmp_flipped :: "bool option"
  cmp_divergentTraits :: "probe_divergence list"

text \<open>One shared trait: both rounded weights and how closely the raw ones agree.\<close>

definition trait_agreement :: "real \<Rightarrow> real \<Rightarrow> real" where
  "trait_agreement a b = clamp01 (1 - \<bar>a - b\<bar> / PROBE_AGREEMENT_ZERO_AT)"

definition compare_trait ::
  "real jsobj \<Rightarrow> real jsobj \<Rightarrow> string \<Rightarrow> probe_divergence \<times> real" where
  "compare_trait first second key =
     (let a = or_else (obj_get first key) 0; b = or_else (obj_get second key) 0
      in (\<lparr>dv_key = key, dv_first = round2 a, dv_second = round2 b\<rparr>, trait_agreement a b))"

definition compareTraits :: "real jsobj \<Rightarrow> real jsobj \<Rightarrow> comparison" where
  "compareTraits first second =
     (let shared = filter (\<lambda>key. key \<in> set (obj_keys second)) (obj_keys first)
      in if shared = []
         then \<lparr>cmp_agreement = None, cmp_flipped = None, cmp_divergentTraits = []\<rparr>
         else (let perTrait = map (compare_trait first second) shared;
                   agreement = foldl (+) 0 (map snd perTrait) / real (length perTrait)
               in \<lparr>cmp_agreement = Some (round2 agreement), cmp_flipped = None,
                   cmp_divergentTraits =
                     map fst (sort_asc snd (filter (\<lambda>p. snd p < 1) perTrait))\<rparr>))"

fun compare :: "probe_signature \<Rightarrow> probe_signature \<Rightarrow> comparison" where
  "compare (SigObjective a) (SigObjective b) =
     (let flipped = (a \<noteq> b)
      in \<lparr>cmp_agreement = Some (if flipped then 0 else 1), cmp_flipped = Some flipped,
          cmp_divergentTraits = []\<rparr>)"
| "compare (SigTrait a) (SigTrait b) = compareTraits a b"
| "compare _ _ = \<lparr>cmp_agreement = None, cmp_flipped = None, cmp_divergentTraits = []\<rparr>"

definition close_pair :: "probe_pair \<Rightarrow> string \<Rightarrow> nat \<Rightarrow> probe_signature \<Rightarrow> probe_pair" where
  "close_pair pair questionId sequenceNumber signature =
     (let comparison = compare (pp_first pair) signature
      in pair\<lparr>pp_secondQuestionId := Some questionId,
              pp_secondSequence := Some sequenceNumber,
              pp_second := Some signature,
              pp_agreement := cmp_agreement comparison,
              pp_flipped := cmp_flipped comparison,
              pp_divergentTraits := cmp_divergentTraits comparison\<rparr>)"

text \<open>\<open>find\<close> and mutate in place: the first element that satisfies \<open>P\<close> is replaced.\<close>

fun update_first :: "('a \<Rightarrow> bool) \<Rightarrow> ('a \<Rightarrow> 'a) \<Rightarrow> 'a list \<Rightarrow> 'a list" where
  "update_first P f [] = []"
| "update_first P f (x # xs) = (if P x then f x # xs else x # update_first P f xs)"

definition open_for :: "string \<Rightarrow> probe_pair \<Rightarrow> bool" where
  "open_for grp pair \<longleftrightarrow> pp_group pair = grp \<and> pp_secondQuestionId pair = None"

definition new_pair :: "string \<Rightarrow> string \<Rightarrow> nat \<Rightarrow> probe_signature \<Rightarrow> nat \<Rightarrow> probe_pair" where
  "new_pair grp questionId sequenceNumber signature answered =
     \<lparr>pp_group = grp, pp_firstQuestionId = questionId, pp_firstSequence = sequenceNumber,
      pp_first = signature, pp_askedAtAnswered = answered, pp_secondQuestionId = None,
      pp_secondSequence = None, pp_second = None, pp_agreement = None, pp_flipped = None,
      pp_divergentTraits = []\<rparr>"

definition record_probe ::
  "string \<Rightarrow> string \<Rightarrow> nat \<Rightarrow> probe_signature \<Rightarrow> module_state \<Rightarrow> module_state" where
  "record_probe grp questionId sequenceNumber signature st =
     (if list_ex (open_for grp) (ms_probes st)
      then st\<lparr>ms_probes := update_first (open_for grp)
                 (\<lambda>pair. close_pair pair questionId sequenceNumber signature) (ms_probes st)\<rparr>
      else if signature = SigUnanswered then st
      else if \<not> canOpenPair st then st
      else st\<lparr>ms_probes := ms_probes st @
                 [new_pair grp questionId sequenceNumber signature (ms_answered st)]\<rparr>)"

definition probe_summary :: "module_state \<Rightarrow> probe_results option" where
  "probe_summary st =
     (if ms_probes st = [] then None
      else (let measured = List.map_filter pp_agreement (ms_probes st)
            in Some \<lparr>pr_pairs = ms_probes st,
                     pr_agreement =
                       (if measured \<noteq> [] then Some (round2 (foldl (+) 0 measured / real (length measured)))
                        else None),
                     pr_resolved = length measured,
                     pr_unresolved = length (ms_probes st) - length measured\<rparr>))"

definition signature_of :: "scoring_type \<Rightarrow> bool option \<Rightarrow> real jsobj \<Rightarrow> bool \<Rightarrow> probe_signature" where
  "signature_of scoringType isCorrect traitWeights answered =
     (if \<not> answered then SigUnanswered
      else if scoringType = OBJECTIVE then SigObjective (isCorrect = Some True)
      else SigTrait traitWeights)"

subsection \<open>Agreement\<close>

lemma trait_agreement_range: "0 \<le> trait_agreement a b \<and> trait_agreement a b \<le> 1"
  by (simp add: trait_agreement_def)

lemma trait_agreement_commute: "trait_agreement a b = trait_agreement b a"
  by (simp add: trait_agreement_def abs_minus_commute)

lemma trait_agreement_same [simp]: "trait_agreement a a = 1"
  by (simp add: trait_agreement_def clamp01_def)

lemma snd_compare_trait: "snd (compare_trait x y k) = trait_agreement (or_else (obj_get x k) 0) (or_else (obj_get y k) 0)"
  by (simp add: compare_trait_def Let_def)

lemma compareTraits_agreement:
  "cmp_agreement (compareTraits x y) =
    (let shared = filter (\<lambda>key. key \<in> set (obj_keys y)) (obj_keys x)
     in if shared = [] then None
        else Some (round2 (mean (map (\<lambda>k. trait_agreement (or_else (obj_get x k) 0) (or_else (obj_get y k) 0)) shared))))"
  by (simp add: compareTraits_def Let_def mean_def snd_compare_trait comp_def)

lemma compareTraits_range:
  "cmp_agreement (compareTraits x y) = Some a \<Longrightarrow> 0 \<le> a \<and> a \<le> 1"
  unfolding compareTraits_agreement Let_def
  using mean_between[of "map (\<lambda>k. trait_agreement (or_else (obj_get x k) 0) (or_else (obj_get y k) 0))
      (filter (\<lambda>key. key \<in> set (obj_keys y)) (obj_keys x))" 0 1] trait_agreement_range
  by (auto simp del: filter_empty_conv intro!: round2_unit[THEN conjunct1] round2_unit[THEN conjunct2] split: if_splits)

lemma compare_range: "cmp_agreement (compare x y) = Some a \<Longrightarrow> 0 \<le> a \<and> a \<le> 1"
  by (cases "(x, y)" rule: compare.cases) (auto simp: Let_def dest: compareTraits_range split: if_splits)

text \<open>Comparing an answer with itself is full agreement, whatever the module scores.\<close>

lemma compare_self:
  "cmp_agreement (compare x x) = (case x of SigUnanswered \<Rightarrow> None | SigObjective _ \<Rightarrow> Some 1
     | SigTrait w \<Rightarrow> if w = [] then None else Some 1)"
proof (cases x)
  case (SigTrait w)
  have *: "filter (\<lambda>key. key \<in> set (obj_keys w)) (obj_keys w) = obj_keys w"
    by (rule filter_True) simp
  show ?thesis
    using SigTrait by (simp add: compareTraits_agreement * mean_sum_list sum_list_triv Let_def comp_def)
qed simp_all

subsection \<open>What record does to the pairs\<close>

lemma update_first_length [simp]: "length (update_first P f xs) = length xs"
  by (induction xs) auto

lemma set_update_first: "set (update_first P f xs) \<subseteq> set xs \<union> f ` {x \<in> set xs. P x}"
  by (induction xs) auto

lemma map_update_first: "(\<And>x. g (f x) = g x) \<Longrightarrow> map g (update_first P f xs) = map g xs"
  by (induction xs) auto

lemma find_None_ex: "List.find P xs = None \<longleftrightarrow> \<not> list_ex P xs"
  by (auto simp: find_None_iff list_ex_iff)

text \<open>
  The state of the pairs of a module: at most \<open>PROBE_MAX_PAIRS\<close>, one per group, every
  first half answered in time for the gap, every closed pair closed no earlier than the
  gap allows and carrying exactly the comparison of its two halves, every open pair
  carrying none.
\<close>

definition pair_wf :: "nat \<Rightarrow> probe_pair \<Rightarrow> bool" where
  "pair_wf questionCount pair \<longleftrightarrow>
     pp_first pair \<noteq> SigUnanswered \<and>
     pp_askedAtAnswered pair + PROBE_GAP_QUESTIONS < questionCount \<and>
     (case pp_second pair of
        None \<Rightarrow> pp_secondQuestionId pair = None \<and> pp_secondSequence pair = None \<and>
                pp_agreement pair = None \<and> pp_flipped pair = None \<and> pp_divergentTraits pair = []
      | Some sig \<Rightarrow> pp_secondQuestionId pair \<noteq> None \<and> pp_secondSequence pair \<noteq> None \<and>
                pp_agreement pair = cmp_agreement (compare (pp_first pair) sig) \<and>
                pp_flipped pair = cmp_flipped (compare (pp_first pair) sig) \<and>
                pp_divergentTraits pair = cmp_divergentTraits (compare (pp_first pair) sig))"

definition probes_wf :: "module_state \<Rightarrow> bool" where
  "probes_wf st \<longleftrightarrow>
     length (ms_probes st) \<le> PROBE_MAX_PAIRS \<and>
     list_all (pair_wf (ms_questionCount st)) (ms_probes st)"

lemma pair_wf_close:
  "pair_wf n pair \<Longrightarrow> pair_wf n (close_pair pair qid seq sig)"
  by (simp add: pair_wf_def close_pair_def Let_def)

lemma pair_wf_new:
  "sig \<noteq> SigUnanswered \<Longrightarrow> answered + PROBE_GAP_QUESTIONS < n \<Longrightarrow> pair_wf n (new_pair g qid seq sig answered)"
  by (simp add: pair_wf_def new_pair_def)

lemma record_probe_wf: "probes_wf st \<Longrightarrow> probes_wf (record_probe g qid seq sig st)"
  using set_update_first[of "open_for g" "\<lambda>pair. close_pair pair qid seq sig" "ms_probes st"]
  by (auto simp: record_probe_def probes_wf_def canOpenPair_def list_all_iff pair_wf_close pair_wf_new
      split: if_splits)

lemma record_probe_frame:
  "ms_answered (record_probe g qid seq sig st) = ms_answered st"
  "ms_correct (record_probe g qid seq sig st) = ms_correct st"
  "ms_ability (record_probe g qid seq sig st) = ms_ability st"
  "ms_information (record_probe g qid seq sig st) = ms_information st"
  "ms_recentAbilities (record_probe g qid seq sig st) = ms_recentAbilities st"
  "ms_traitTallies (record_probe g qid seq sig st) = ms_traitTallies st"
  "ms_patternCounts (record_probe g qid seq sig st) = ms_patternCounts st"
  "ms_seenQuestionIds (record_probe g qid seq sig st) = ms_seenQuestionIds st"
  "ms_servedProbeGroups (record_probe g qid seq sig st) = ms_servedProbeGroups st"
  "ms_status (record_probe g qid seq sig st) = ms_status st"
  "ms_deadlineAt (record_probe g qid seq sig st) = ms_deadlineAt st"
  "module_run_config.truncate (record_probe g qid seq sig st) = module_run_config.truncate st"
  by (simp_all add: record_probe_def module_run_config.truncate_def)

subsection \<open>The gap\<close>

lemma dueTwin_Some:
  "dueTwin st = Some g \<Longrightarrow>
   \<exists>pair\<in>set (ms_probes st). pp_group pair = g \<and> pair_open pair \<and>
     pp_askedAtAnswered pair + PROBE_GAP_QUESTIONS \<le> ms_answered st"
  unfolding dueTwin_def
  by (auto simp: find_Some_iff pair_due_def)

lemma blockedGroups_set:
  "set (blockedGroups st) =
    (set (ms_servedProbeGroups st) \<union> pp_group ` set (ms_probes st)) - {or_else (dueTwin st) ''''}"
  by (auto simp: blockedGroups_def Let_def)

end
