(* ===== verification/Stopping.thy ===== *)
theory Stopping
  imports Estimator Probes
begin

section \<open>When a module stops\<close>

text \<open>
  \<open>adaptive-engine/stopping-engine/stopping-engine.service.ts\<close>. \<open>now\<close> is the epoch
  millisecond the caller read from its clock.
\<close>

record stop_decision =
  sd_stop :: bool
  sd_reason :: "module_stop_reason option"

definition CONTINUE :: stop_decision where
  "CONTINUE = \<lparr>sd_stop = False, sd_reason = None\<rparr>"

definition deadline_passed :: "module_state \<Rightarrow> int \<Rightarrow> bool" where
  "deadline_passed st now = (case ms_deadlineAt st of None \<Rightarrow> False | Some d \<Rightarrow> now \<ge> d)"

definition shouldStop :: "module_state \<Rightarrow> int \<Rightarrow> stop_decision" where
  "shouldStop st now =
     (if deadline_passed st now then \<lparr>sd_stop = True, sd_reason = Some TIME_EXPIRED\<rparr>
      else if ms_answered st \<ge> ms_questionCount st
      then \<lparr>sd_stop = True, sd_reason = Some MAX_QUESTIONS\<rparr>
      else CONTINUE)"

definition module_confidence :: "module_state \<Rightarrow> real" where
  "module_confidence st =
     (if ms_scoringType st = OBJECTIVE then abilityConfidence st
      else (let keys = reported_keys st
            in if keys = [] then 0
               else js_min (map (\<lambda>key. traitConfidence (obj_get (ms_traitTallies st) key)) keys)))"

definition confidence_threshold :: "module_state \<Rightarrow> real" where
  "confidence_threshold st =
     (if ms_scoringType st = OBJECTIVE then ABILITY_CONFIDENCE_THRESHOLD
      else TRAIT_CONFIDENCE_THRESHOLD)"

definition thresholdMet :: "module_state \<Rightarrow> bool" where
  "thresholdMet st =
     (if ms_answered st = 0 then False else module_confidence st \<ge> confidence_threshold st)"

interpretation module_conf: unit_measure module_confidence
proof
  fix st
  show "0 \<le> module_confidence st \<and> module_confidence st \<le> 1"
  proof (cases "ms_scoringType st = OBJECTIVE \<or> reported_keys st = []")
    case True
    then show ?thesis using ability_conf.measure_range by (auto simp: module_confidence_def)
  next
    case False
    then show ?thesis
      using trait_conf.weakest_range[of "map (obj_get (ms_traitTallies st)) (reported_keys st)"]
      by (simp add: module_confidence_def comp_def)
  qed
qed

text \<open>A trait profile is only as covered as its thinnest trait: three answers each.\<close>

lemma traitConfidence_full: "traitConfidence t = 1 \<longleftrightarrow> (\<exists>tt. t = Some tt \<and> 3 \<le> tt_count tt)"
  by (auto simp: traitConfidence_def clamp01_def TRAIT_TARGET_QUESTIONS_def min_def max_def
      split: option.splits)

lemma js_min_ge: "xs \<noteq> [] \<Longrightarrow> c \<le> js_min xs \<longleftrightarrow> (\<forall>x\<in>set xs. c \<le> x)"
  using js_min_in js_min_le by (meson order_trans)

lemma trait_thresholdMet:
  assumes "ms_scoringType st = TRAIT"
  shows "thresholdMet st \<longleftrightarrow> 0 < ms_answered st \<and> reported_keys st \<noteq> [] \<and>
    (\<forall>key\<in>set (reported_keys st). \<exists>tt. obj_get (ms_traitTallies st) key = Some tt \<and> 3 \<le> tt_count tt)"
proof -
  have eq1: "1 \<le> traitConfidence t \<longleftrightarrow> traitConfidence t = 1" for t
    using trait_conf.measure_range[of t] by linarith
  show ?thesis
    using assms
    by (auto simp: thresholdMet_def module_confidence_def confidence_threshold_def Let_def js_min_ge
        eq1 traitConfidence_full TRAIT_CONFIDENCE_THRESHOLD_def)
qed

lemma shouldStop_cases:
  "sd_stop (shouldStop st now) \<longleftrightarrow> deadline_passed st now \<or> ms_questionCount st \<le> ms_answered st"
  "sd_reason (shouldStop st now) = Some r \<Longrightarrow> r = TIME_EXPIRED \<or> r = MAX_QUESTIONS"
  by (auto simp: shouldStop_def CONTINUE_def split: if_splits)

end
