(* ===== verification/Selector.thy ===== *)
theory Selector
  imports Estimator Probes
begin

section \<open>Choosing the next question\<close>

text \<open>
  \<open>adaptive-engine/question-selector/question-selector.service.ts\<close> with the SQL
  predicates of \<open>question-bank/question-visibility.ts\<close>. The tables \<open>questions\<close>
  (joined with its two detail tables) and \<open>assessment_questions\<close> are lists in whatever
  order the database returns rows that an \<open>ORDER BY\<close> leaves tied; an \<open>ORDER BY\<close> is a
  stable sort and \<open>LIMIT\<close> is \<open>take\<close>.

  \<open>Math.random()\<close> is drawn from a stream of reals of which the fractional part is
  used, so every value is in [0, 1) and every sequence of such values arises.
\<close>

subsection \<open>Randomness\<close>

type_synonym rng = "nat \<Rightarrow> real"

definition math_random :: "rng \<Rightarrow> real" where
  "math_random r = frac (r 0)"

definition rng_tail :: "rng \<Rightarrow> rng" where
  "rng_tail r = (\<lambda>n. r (Suc n))"

definition pickRandom :: "question list \<Rightarrow> rng \<Rightarrow> string option \<times> rng" where
  "pickRandom rows r =
     (if rows = [] then (None, r)
      else (Some (q_id (rows ! nat \<lfloor>math_random r * real (length rows)\<rfloor>)), rng_tail r))"

subsection \<open>The bank and who may see what\<close>

record bank =
  bk_questions :: "question list"
  bk_pool :: "(string \<times> string) list"

text \<open>\<open>QUESTION_VISIBLE_TO_ORG\<close>.\<close>

definition visible_to_org :: "question list \<Rightarrow> string \<Rightarrow> question \<Rightarrow> bool" where
  "visible_to_org questions organisationId q \<longleftrightarrow>
     q_organisationId q = Some organisationId \<or>
     (q_organisationId q = None \<and>
      \<not> list_ex (\<lambda>fork. q_forkedFromId fork = Some (q_id q) \<and>
                        q_organisationId fork = Some organisationId) questions)"

text \<open>\<open>QUESTION_IS_SERVABLE\<close>.\<close>

definition question_is_servable :: "question \<Rightarrow> bool" where
  "question_is_servable q \<longleftrightarrow> q_isSample q = False"

text \<open>The \<open>WHERE\<close> clause of \<open>baseQuery\<close>, for one row.\<close>

definition eligible :: "bank \<Rightarrow> module_state \<Rightarrow> question \<Rightarrow> bool" where
  "eligible bank st q \<longleftrightarrow>
     q_moduleId q = ms_moduleId st \<and>
     q_status q = ACTIVE \<and>
     visible_to_org (bk_questions bank) (ms_organisationId st) q \<and>
     question_is_servable q \<and>
     (ms_poolRestricted st \<longrightarrow> (ms_assessmentId st, q_id q) \<in> set (bk_pool bank)) \<and>
     q_id q \<notin> set (ms_seenQuestionIds st) \<and>
     (case q_probeGroup q of None \<Rightarrow> True | Some g \<Rightarrow> g \<notin> set (blockedGroups st))"

definition baseQuery :: "bank \<Rightarrow> module_state \<Rightarrow> bool \<Rightarrow> question list" where
  "baseQuery bank st probeOnly =
     filter (\<lambda>q. eligible bank st q \<and> (probeOnly \<longrightarrow> q_probeGroup q \<noteq> None)) (bk_questions bank)"

subsection \<open>Objective modules\<close>

definition difficulty_gap :: "module_state \<Rightarrow> question \<Rightarrow> int" where
  "difficulty_gap st q =
     (case q_mcqDetails q of None \<Rightarrow> 0
      | Some d \<Rightarrow> \<bar>md_difficultyScore d - js_round (ms_ability st)\<bar>)"

definition mcq_times_used :: "question \<Rightarrow> nat" where
  "mcq_times_used q = (case q_mcqDetails q of None \<Rightarrow> 0 | Some d \<Rightarrow> md_timesUsed d)"

definition objective_shortlist :: "bank \<Rightarrow> module_state \<Rightarrow> bool \<Rightarrow> question list" where
  "objective_shortlist bank st probeOnly =
     take SELECTOR_SHORTLIST_SIZE
       (sort_key (difficulty_gap st)
         (sort_key mcq_times_used
           (filter (\<lambda>q. q_mcqDetails q \<noteq> None) (baseQuery bank st probeOnly))))"

definition selectObjectiveId :: "bank \<Rightarrow> module_state \<Rightarrow> bool \<Rightarrow> rng \<Rightarrow> string option \<times> rng" where
  "selectObjectiveId bank st probeOnly r = pickRandom (objective_shortlist bank st probeOnly) r"

subsection \<open>Trait modules\<close>

text \<open>Both loops keep the first key with the strictly smallest value seen.\<close>

fun least_by :: "('a \<Rightarrow> 'b::linorder) \<Rightarrow> 'a \<Rightarrow> 'a list \<Rightarrow> 'a" where
  "least_by f best [] = best"
| "least_by f best (x # xs) = least_by f (if f x < f best then x else best) xs"

definition leastCoveredTrait :: "module_state \<Rightarrow> string option" where
  "leastCoveredTrait st =
     (case reported_keys st of
        [] \<Rightarrow> None
      | key # keys \<Rightarrow>
          Some (least_by (\<lambda>k. traitConfidence (obj_get (ms_traitTallies st) k)) key keys))"

definition leastUsedPattern :: "module_state \<Rightarrow> behavioral_pattern" where
  "leastUsedPattern st =
     least_by (\<lambda>p. or_else (obj_get (ms_patternCounts st) (pattern_key p)) 0)
       (hd all_patterns) (tl all_patterns)"

definition details_times_used :: "question \<Rightarrow> nat" where
  "details_times_used q = (case q_personalityDetails q of None \<Rightarrow> 0 | Some d \<Rightarrow> pd_timesUsed d)"

text \<open>\<open>traitWeightExists\<close>: some option carries a weight for the trait.\<close>

definition traitWeightExists :: "string \<Rightarrow> question \<Rightarrow> bool" where
  "traitWeightExists trait q =
     (case q_personalityDetails q of
        None \<Rightarrow> False
      | Some d \<Rightarrow> list_ex (\<lambda>opt. trait \<in> set (obj_keys (po_traitWeights opt))) (pd_options d))"

text \<open>\<open>if (trait)\<close>: null and the empty string are falsy.\<close>

definition truthy :: "string option \<Rightarrow> string option" where
  "truthy s = (if s = Some '''' then None else s)"

definition trait_filter :: "string option \<Rightarrow> question \<Rightarrow> bool" where
  "trait_filter trait q = (case truthy trait of None \<Rightarrow> True | Some t \<Rightarrow> traitWeightExists t q)"

definition question_pattern :: "question \<Rightarrow> behavioral_pattern option" where
  "question_pattern q = (case q_personalityDetails q of None \<Rightarrow> None | Some d \<Rightarrow> pd_pattern d)"

definition behavioralQuery ::
  "bank \<Rightarrow> module_state \<Rightarrow> string option \<Rightarrow> behavioral_pattern option \<Rightarrow> bool \<Rightarrow> question list" where
  "behavioralQuery bank st trait pattern probeOnly =
     take SELECTOR_SHORTLIST_SIZE
       (sort_key details_times_used
         (filter (\<lambda>q. q_personalityDetails q \<noteq> None \<and> question_pattern q \<noteq> None \<and>
                      (case pattern of None \<Rightarrow> True | Some p \<Rightarrow> question_pattern q = Some p) \<and>
                      trait_filter trait q)
           (baseQuery bank st probeOnly)))"

definition pickBehavioral ::
  "bank \<Rightarrow> module_state \<Rightarrow> string option \<Rightarrow> bool \<Rightarrow> rng \<Rightarrow> string option \<times> rng" where
  "pickBehavioral bank st trait probeOnly r =
     (case pickRandom (behavioralQuery bank st trait (Some (leastUsedPattern st)) probeOnly) r of
        (Some i, r') \<Rightarrow> (Some i, r')
      | (None, r') \<Rightarrow> pickRandom (behavioralQuery bank st trait None probeOnly) r')"

definition legacyQuery :: "bank \<Rightarrow> module_state \<Rightarrow> string option \<Rightarrow> question list" where
  "legacyQuery bank st trait =
     take SELECTOR_SHORTLIST_SIZE
       (sort_key details_times_used
         (filter (\<lambda>q. q_personalityDetails q \<noteq> None \<and> question_pattern q = None \<and> trait_filter trait q)
           (baseQuery bank st False)))"

definition pickLegacy :: "bank \<Rightarrow> module_state \<Rightarrow> rng \<Rightarrow> string option \<times> rng" where
  "pickLegacy bank st r =
     (case pickRandom (legacyQuery bank st (leastCoveredTrait st)) r of
        (Some i, r') \<Rightarrow> (Some i, r')
      | (None, r') \<Rightarrow> pickRandom (legacyQuery bank st None) r')"

text \<open>The behavioural part of \<open>selectTraitId\<close>: the thin trait first, then any.\<close>

definition select_behavioral ::
  "bank \<Rightarrow> module_state \<Rightarrow> bool \<Rightarrow> rng \<Rightarrow> string option \<times> rng" where
  "select_behavioral bank st probeOnly r =
     (case (case truthy (leastCoveredTrait st) of
              None \<Rightarrow> (None, r)
            | Some t \<Rightarrow> pickBehavioral bank st (Some t) probeOnly r) of
        (Some i, r') \<Rightarrow> (Some i, r')
      | (None, r') \<Rightarrow>
          (case pickBehavioral bank st None probeOnly r' of
             (Some i, r'') \<Rightarrow> (Some i, r'')
           | (None, r'') \<Rightarrow> if probeOnly then (None, r'') else pickLegacy bank st r''))"

definition selectTraitId :: "bank \<Rightarrow> module_state \<Rightarrow> bool \<Rightarrow> rng \<Rightarrow> string option \<times> rng" where
  "selectTraitId bank st probeOnly r =
     (if probeOnly then select_behavioral bank st probeOnly r
      else if math_random r < LEGACY_SELECTION_RATE
      then (case pickLegacy bank st (rng_tail r) of
              (Some i, r') \<Rightarrow> (Some i, r')
            | (None, r') \<Rightarrow> select_behavioral bank st probeOnly r')
      else select_behavioral bank st probeOnly (rng_tail r))"

subsection \<open>Putting it together\<close>

definition selectId :: "bank \<Rightarrow> module_state \<Rightarrow> bool \<Rightarrow> rng \<Rightarrow> string option \<times> rng" where
  "selectId bank st probeOnly r =
     (if ms_scoringType st = OBJECTIVE then selectObjectiveId bank st probeOnly r
      else selectTraitId bank st probeOnly r)"

definition selectProbeOpenerId :: "bank \<Rightarrow> module_state \<Rightarrow> rng \<Rightarrow> string option \<times> rng" where
  "selectProbeOpenerId bank st r =
     (if \<not> wantsNewPair st then (None, r) else selectId bank st True r)"

definition twin_rows :: "bank \<Rightarrow> module_state \<Rightarrow> string \<Rightarrow> question list" where
  "twin_rows bank st grp =
     take SELECTOR_SHORTLIST_SIZE
       (filter (\<lambda>q. q_probeGroup q = Some grp) (baseQuery bank st False))"

definition selectDueTwinId :: "bank \<Rightarrow> module_state \<Rightarrow> rng \<Rightarrow> string option \<times> rng" where
  "selectDueTwinId bank st r =
     (case dueTwin st of
        None \<Rightarrow> (None, r)
      | Some grp \<Rightarrow> pickRandom (twin_rows bank st grp) r)"

definition find_question :: "bank \<Rightarrow> string \<Rightarrow> question option" where
  "find_question bank i = List.find (\<lambda>q. q_id q = i) (bk_questions bank)"

definition selectNext :: "bank \<Rightarrow> module_state \<Rightarrow> rng \<Rightarrow> question option \<times> rng" where
  "selectNext bank st r =
     (let (chosen, r') =
            (case selectDueTwinId bank st r of
               (Some i, r1) \<Rightarrow> (Some i, r1)
             | (None, r1) \<Rightarrow>
                 (case selectProbeOpenerId bank st r1 of
                    (Some i, r2) \<Rightarrow> (Some i, r2)
                  | (None, r2) \<Rightarrow> selectId bank st False r2))
      in case chosen of
           None \<Rightarrow> (None, r')
         | Some i \<Rightarrow> (find_question bank i, r'))"

subsection \<open>Everything chosen comes out of the base query\<close>

lemma math_random_range: "0 \<le> math_random r" "math_random r < 1"
  by (simp_all add: math_random_def frac_lt_1)

lemma pickRandom_mem:
  "pickRandom rows r = (Some i, r') \<Longrightarrow> i \<in> q_id ` set rows"
proof -
  assume p: "pickRandom rows r = (Some i, r')"
  then have ne: "rows \<noteq> []" by (auto simp: pickRandom_def)
  let ?k = "nat \<lfloor>math_random r * real (length rows)\<rfloor>"
  have "math_random r * real (length rows) < real (length rows)"
    using ne math_random_range[of r] by (simp add: mult_less_cancel_right2)
  then have "?k < length rows"
    using math_random_range[of r] by (simp add: nat_less_iff floor_less_iff)
  with p ne show ?thesis by (auto simp: pickRandom_def intro!: imageI)
qed

lemma pickRandom_None: "fst (pickRandom rows r) = None \<longleftrightarrow> rows = []"
  by (simp add: pickRandom_def)

text \<open>
  The contract of a selection rule: what it picks is the id of a row of the base query.
  A rule that falls back from one such rule to another is one.
\<close>

locale selection_rule =
  fixes pick :: "bank \<Rightarrow> module_state \<Rightarrow> rng \<Rightarrow> string option \<times> rng"
  assumes pick_mem: "pick bank st r = (Some i, r') \<Longrightarrow> i \<in> q_id ` set (baseQuery bank st False)"
begin

lemma picked_row:
  assumes "pick bank st r = (Some i, r')"
  shows "\<exists>q\<in>set (bk_questions bank). q_id q = i \<and> eligible bank st q"
  using pick_mem[OF assms] by (auto simp: baseQuery_def)

end

lemma baseQuery_probeOnly: "set (baseQuery bank st p) \<subseteq> set (baseQuery bank st False)"
  by (auto simp: baseQuery_def)

lemma pick_from_subset:
  "pickRandom rows r = (Some i, r') \<Longrightarrow> set rows \<subseteq> set (baseQuery bank st p) \<Longrightarrow>
   i \<in> q_id ` set (baseQuery bank st False)"
  using pickRandom_mem baseQuery_probeOnly by (metis image_mono subsetD)

lemma take_set_subset: "set (take n (sort_key f xs)) \<subseteq> set xs"
  using set_take_subset by fastforce

lemma shortlist_subsets:
  "set (objective_shortlist bank st p) \<subseteq> set (baseQuery bank st p)"
  "set (behavioralQuery bank st t pat p) \<subseteq> set (baseQuery bank st p)"
  "set (legacyQuery bank st t) \<subseteq> set (baseQuery bank st False)"
  "set (twin_rows bank st g) \<subseteq> set (baseQuery bank st False)"
  by (auto simp: objective_shortlist_def behavioralQuery_def legacyQuery_def twin_rows_def
      dest!: in_set_takeD)

interpretation objective_rule: selection_rule "\<lambda>bank st. selectObjectiveId bank st p" for p
  by unfold_locales
    (auto simp: selectObjectiveId_def dest: pick_from_subset[OF _ shortlist_subsets(1)])

interpretation twin_rule: selection_rule selectDueTwinId
  by unfold_locales
    (auto simp: selectDueTwinId_def dest: pick_from_subset[OF _ shortlist_subsets(4)] split: option.splits)

interpretation behavioral_pick: selection_rule "\<lambda>bank st. pickBehavioral bank st t p" for t p
  by unfold_locales
    (auto simp: pickBehavioral_def dest: pick_from_subset[OF _ shortlist_subsets(2)]
      split: prod.splits option.splits)

interpretation legacy_pick: selection_rule pickLegacy
  by unfold_locales
    (auto simp: pickLegacy_def dest: pick_from_subset[OF _ shortlist_subsets(3)]
      split: prod.splits option.splits)

interpretation behavioral_rule: selection_rule "\<lambda>bank st. select_behavioral bank st p" for p
  by unfold_locales
    (auto simp: select_behavioral_def dest: behavioral_pick.pick_mem legacy_pick.pick_mem
      split: prod.splits option.splits if_splits)

interpretation trait_rule: selection_rule "\<lambda>bank st. selectTraitId bank st p" for p
  by unfold_locales
    (auto simp: selectTraitId_def dest: behavioral_rule.pick_mem legacy_pick.pick_mem
      split: prod.splits option.splits if_splits)

interpretation any_rule: selection_rule "\<lambda>bank st. selectId bank st p" for p
  by unfold_locales
    (auto simp: selectId_def dest: objective_rule.pick_mem trait_rule.pick_mem split: if_splits)

interpretation opener_rule: selection_rule selectProbeOpenerId
  by unfold_locales (auto simp: selectProbeOpenerId_def dest: any_rule.pick_mem split: if_splits)

lemma find_question_mem:
  assumes "distinct (map q_id (bk_questions bank))" and "q \<in> set (bk_questions bank)"
  shows "find_question bank (q_id q) = Some q"
proof (cases "find_question bank (q_id q)")
  case None
  with assms show ?thesis by (auto simp: find_question_def find_None_iff)
next
  case (Some q')
  then have "q' \<in> set (bk_questions bank)" "q_id q' = q_id q"
    by (auto simp: find_question_def find_Some_iff)
  with assms have "q' = q" by (auto simp: distinct_map inj_on_def)
  with Some show ?thesis by simp
qed

lemma selectNext_eligible:
  assumes "distinct (map q_id (bk_questions bank))" and "selectNext bank st r = (Some q, r')"
  shows "q \<in> set (bk_questions bank) \<and> eligible bank st q"
proof -
  obtain i where i: "find_question bank i = Some q"
    and row: "\<exists>q0\<in>set (bk_questions bank). q_id q0 = i \<and> eligible bank st q0"
    using assms(2)
    by (auto simp: selectNext_def split: prod.splits option.splits
        dest!: twin_rule.picked_row opener_rule.picked_row any_rule.picked_row)
  then obtain q0 where "q0 \<in> set (bk_questions bank)" "q_id q0 = i" "eligible bank st q0" by blast
  with i find_question_mem[OF assms(1)] show ?thesis by auto
qed

subsection \<open>When nothing is left\<close>

text \<open>A row the module's scoring type can use: its detail row is there to join.\<close>

definition usable :: "scoring_type \<Rightarrow> question \<Rightarrow> bool" where
  "usable scoringType q \<longleftrightarrow>
     (if scoringType = OBJECTIVE then q_mcqDetails q \<noteq> None else q_personalityDetails q \<noteq> None)"

lemma take_sort_Nil: "0 < n \<Longrightarrow> take n (sort_key f xs) = [] \<longleftrightarrow> xs = []"
  by (metis length_0_conv length_sort take_eq_Nil neq0_conv)

lemma shortlist_pos: "0 < SELECTOR_SHORTLIST_SIZE"
  by (simp add: SELECTOR_SHORTLIST_SIZE_def)

lemma shortlist_nonzero [simp]: "SELECTOR_SHORTLIST_SIZE \<noteq> 0"
  using shortlist_pos by simp

lemmas query_Nil = take_sort_Nil[OF shortlist_pos]

lemma sort_key_Nil [simp]: "sort_key f xs = [] \<longleftrightarrow> xs = []"
  by (metis length_0_conv length_sort)

lemma pickBehavioral_None:
  "fst (pickBehavioral bank st t p r) = None \<longleftrightarrow> behavioralQuery bank st t None p = []"
  by (auto simp: pickBehavioral_def behavioralQuery_def query_Nil pickRandom_None filter_empty_conv
      dest: arg_cong[where f = fst] split: prod.splits option.splits)
    (auto simp: pickRandom_def query_Nil filter_empty_conv split: if_splits)

lemma pickLegacy_None: "fst (pickLegacy bank st r) = None \<longleftrightarrow> legacyQuery bank st None = []"
  by (auto simp: pickLegacy_def legacyQuery_def query_Nil pickRandom_None filter_empty_conv
      trait_filter_def truthy_def split: prod.splits option.splits)
    (auto simp: pickRandom_def query_Nil filter_empty_conv split: if_splits)

lemma any_pattern_left:
  "behavioralQuery bank st None None False = [] \<and> legacyQuery bank st None = [] \<longleftrightarrow>
   \<not> (\<exists>q\<in>set (bk_questions bank). eligible bank st q \<and> q_personalityDetails q \<noteq> None)"
proof -
  have "behavioralQuery bank st None None False = [] \<longleftrightarrow>
    (\<forall>q\<in>set (bk_questions bank). eligible bank st q \<and> q_personalityDetails q \<noteq> None \<longrightarrow> question_pattern q = None)"
    by (auto simp: behavioralQuery_def filter_empty_conv baseQuery_def trait_filter_def truthy_def)
  moreover have "legacyQuery bank st None = [] \<longleftrightarrow>
    (\<forall>q\<in>set (bk_questions bank). eligible bank st q \<and> q_personalityDetails q \<noteq> None \<longrightarrow> question_pattern q \<noteq> None)"
    by (auto simp: legacyQuery_def filter_empty_conv baseQuery_def trait_filter_def truthy_def)
  ultimately show ?thesis by metis
qed

lemma select_behavioral_None:
  "fst (select_behavioral bank st False r) = None \<longleftrightarrow>
   behavioralQuery bank st None None False = [] \<and> legacyQuery bank st None = []"
proof -
  have sub: "behavioralQuery bank st None None False = [] \<Longrightarrow> behavioralQuery bank st t None False = []" for t
    by (auto simp: behavioralQuery_def query_Nil filter_empty_conv trait_filter_def truthy_def)
  have "fst (pickBehavioral bank st t False x) = None" if "behavioralQuery bank st None None False = []" for t x
    using sub[OF that] by (simp add: pickBehavioral_None)
  then show ?thesis
    using pickBehavioral_None[of bank st _ False] pickLegacy_None[of bank st]
    by (auto simp: select_behavioral_def split: prod.splits option.splits)
      (metis fst_conv option.distinct(1))+
qed

lemma selectTraitId_None:
  "fst (selectTraitId bank st False r) = None \<longleftrightarrow>
   behavioralQuery bank st None None False = [] \<and> legacyQuery bank st None = []"
  using select_behavioral_None[of bank st] pickLegacy_None[of bank st]
  by (auto simp: selectTraitId_def split: prod.splits option.splits)
    (metis fst_conv option.distinct(1))+

lemma selectId_exhausted:
  "fst (selectId bank st False r) = None \<longleftrightarrow>
   \<not> (\<exists>q\<in>set (bk_questions bank). eligible bank st q \<and> usable (ms_scoringType st) q)"
proof (cases "ms_scoringType st")
  case OBJECTIVE
  then show ?thesis
    by (auto simp: selectId_def selectObjectiveId_def pickRandom_None objective_shortlist_def
        query_Nil filter_empty_conv baseQuery_def usable_def)
next
  case TRAIT
  then show ?thesis
    by (simp add: selectId_def selectTraitId_None any_pattern_left usable_def)
qed

text \<open>Every question of the module carries the details its scoring type needs.\<close>

definition bank_typed :: "bank \<Rightarrow> module_state \<Rightarrow> bool" where
  "bank_typed bank st \<longleftrightarrow>
     (\<forall>q\<in>set (bk_questions bank). q_moduleId q = ms_moduleId st \<longrightarrow> usable (ms_scoringType st) q)"

lemma selectNext_exhausted:
  assumes "distinct (map q_id (bk_questions bank))" and "bank_typed bank st"
  shows "fst (selectNext bank st r) = None \<longleftrightarrow>
    \<not> (\<exists>q\<in>set (bk_questions bank). eligible bank st q)"
proof
  assume none: "fst (selectNext bank st r) = None"
  obtain a r1 where 1: "selectDueTwinId bank st r = (a, r1)" by fastforce
  obtain b r2 where 2: "selectProbeOpenerId bank st r1 = (b, r2)" by fastforce
  obtain c r3 where 3: "selectId bank st False r2 = (c, r3)" by fastforce
  have "a = None" "b = None" "c = None"
    using none twin_rule.picked_row[of bank st r _ r1] opener_rule.picked_row[of bank st r1 _ r2]
      any_rule.picked_row[of bank st False r2 _ r3]
    by (auto simp: selectNext_def 1 2 3 find_question_mem[OF assms(1)] split: option.splits)
  with 3 have "fst (selectId bank st False r2) = None" by simp
  then have "\<not> (\<exists>q\<in>set (bk_questions bank). eligible bank st q \<and> usable (ms_scoringType st) q)"
    by (simp add: selectId_exhausted)
  with assms(2) show "\<not> (\<exists>q\<in>set (bk_questions bank). eligible bank st q)"
    by (auto simp: bank_typed_def eligible_def)
next
  assume "\<not> (\<exists>q\<in>set (bk_questions bank). eligible bank st q)"
  then show "fst (selectNext bank st r) = None"
    using selectNext_eligible[OF assms(1), of st r]
    by (cases "selectNext bank st r"; cases "fst (selectNext bank st r)") auto
qed

subsection \<open>The least covered comes first\<close>

lemma least_by_least:
  "least_by f best xs \<in> set (best # xs) \<and> (\<forall>x\<in>set (best # xs). f (least_by f best xs) \<le> f x)"
proof (induction xs arbitrary: best)
  case Nil
  then show ?case by simp
next
  case (Cons x xs)
  from Cons.IH[of "if f x < f best then x else best"] show ?case
    by (auto split: if_splits)
qed

lemma leastCoveredTrait_least:
  "leastCoveredTrait st = Some t \<Longrightarrow>
   t \<in> set (reported_keys st) \<and>
   (\<forall>k\<in>set (reported_keys st).
      traitConfidence (obj_get (ms_traitTallies st) t) \<le> traitConfidence (obj_get (ms_traitTallies st) k))"
  using least_by_least[of "\<lambda>k. traitConfidence (obj_get (ms_traitTallies st) k)" "hd (reported_keys st)"
      "tl (reported_keys st)"]
  by (auto simp: leastCoveredTrait_def split: list.splits)

lemma leastUsedPattern_least:
  "or_else (obj_get (ms_patternCounts st) (pattern_key (leastUsedPattern st))) 0
     \<le> or_else (obj_get (ms_patternCounts st) (pattern_key p)) 0"
  using least_by_least[of "\<lambda>p. or_else (obj_get (ms_patternCounts st) (pattern_key p)) 0"
      "hd all_patterns" "tl all_patterns"] set_all_patterns[of p]
  unfolding leastUsedPattern_def by (metis all_patterns_def list.sel(1,3))

text \<open>Twins stay out of the paper until they are due.\<close>

lemma eligible_twin_due:
  assumes "eligible bank st q" and "q_probeGroup q = Some g"
    and "g \<in> set (ms_servedProbeGroups st) \<union> pp_group ` set (ms_probes st)" and "g \<noteq> ''''"
  shows "dueTwin st = Some g"
proof -
  have "g \<notin> set (blockedGroups st)" using assms(1,2) by (simp add: eligible_def)
  with assms(3) have "g = or_else (dueTwin st) ''''" by (auto simp: blockedGroups_set)
  with assms(4) show ?thesis by (cases "dueTwin st") auto
qed

end
