(* ===== verification/Engine.thy ===== *)
theory Engine
  imports Trait_Scale Stopping Selector
begin

section \<open>The adaptive engine\<close>

text \<open>
  \<open>adaptive-engine/adaptive-engine.service.ts\<close>: the orchestration of evaluation,
  estimation, selection, stopping and probes over one \<open>ModuleRunState\<close>. A method that
  mutates the state and updates a detail row returns the new state and the new bank; one
  that throws returns \<open>Inl\<close>, and then neither is changed, because the code throws
  before its first assignment.
\<close>

definition createModuleState :: "module_run_config \<Rightarrow> module_state" where
  "createModuleState config =
     module_run_config.extend config
       \<lparr>ms_status = Pending, ms_startedAt = None, ms_deadlineAt = None, ms_completedAt = None,
        ms_stopReason = None, ms_answered = 0, ms_correct = 0, ms_seenQuestionIds = [],
        ms_ability = STARTING_ABILITY, ms_information = 0, ms_recentAbilities = [],
        ms_traitTallies = [], ms_patternCounts = [], ms_probes = [], ms_servedProbeGroups = []\<rparr>"

datatype next_step =
    NextQuestion question
  | ModuleComplete module_stop_reason

definition nextStep :: "bank \<Rightarrow> module_state \<Rightarrow> int \<Rightarrow> rng \<Rightarrow> next_step \<times> rng" where
  "nextStep bank st now r =
     (let decision = shouldStop st now
      in if sd_stop decision then (ModuleComplete (or_else (sd_reason decision) MAX_QUESTIONS), r)
         else (case selectNext bank st r of
                 (None, r') \<Rightarrow>
                   (ModuleComplete (if thresholdMet st then CONFIDENCE_REACHED else POOL_EXHAUSTED), r')
               | (Some q, r') \<Rightarrow> (NextQuestion q, r')))"

datatype engine_error =
    NoMcqDetails string
  | SingleAnswerOnly
  | NoPersonalityDetails string
  | MustRankEveryOption
  | SingleChoiceOnly
  | BadAnswer eval_error

definition markProbeServed :: "question \<Rightarrow> module_state \<Rightarrow> module_state" where
  "markProbeServed q st =
     (case truthy (q_probeGroup q) of None \<Rightarrow> st | Some grp \<Rightarrow> markServed grp st)"

definition registerProbe :: "question \<Rightarrow> nat \<Rightarrow> probe_signature \<Rightarrow> module_state \<Rightarrow> module_state" where
  "registerProbe q sequenceNumber signature st =
     (case truthy (q_probeGroup q) of
        None \<Rightarrow> st
      | Some grp \<Rightarrow> record_probe grp (q_id q) sequenceNumber signature st)"

definition replayProbe :: "question \<Rightarrow> nat \<Rightarrow> probe_signature \<Rightarrow> module_state \<Rightarrow> module_state" where
  "replayProbe q sequenceNumber signature st =
     registerProbe q sequenceNumber signature (markProbeServed q st)"

subsection \<open>Updates of the detail rows\<close>

definition update_question :: "string \<Rightarrow> (question \<Rightarrow> question) \<Rightarrow> bank \<Rightarrow> bank" where
  "update_question i f bank =
     bank\<lparr>bk_questions := map (\<lambda>q. if q_id q = i then f q else q) (bk_questions bank)\<rparr>"

definition update_mcq_row :: "string \<Rightarrow> int \<Rightarrow> bool \<Rightarrow> bank \<Rightarrow> bank" where
  "update_mcq_row i difficulty isCorrect =
     update_question i
       (\<lambda>q. q\<lparr>q_mcqDetails := map_option
                (\<lambda>d. d\<lparr>md_difficultyScore := difficulty,
                       md_timesUsed := md_timesUsed d + 1,
                       md_timesCorrect := md_timesCorrect d + (if isCorrect then 1 else 0)\<rparr>)
                (q_mcqDetails q)\<rparr>)"

definition update_personality_row :: "string \<Rightarrow> bank \<Rightarrow> bank" where
  "update_personality_row i =
     update_question i
       (\<lambda>q. q\<lparr>q_personalityDetails := map_option
                (\<lambda>d. d\<lparr>pd_timesUsed := pd_timesUsed d + 1\<rparr>) (q_personalityDetails q)\<rparr>)"

subsection \<open>Recording an answer\<close>

text \<open>The state change of an objective answer, once it is known whether it is right.\<close>

definition score_objective ::
  "module_state \<Rightarrow> question \<Rightarrow> int \<Rightarrow> bool \<Rightarrow> bool \<Rightarrow> nat \<Rightarrow> module_state" where
  "score_objective st q difficulty isCorrect answered sequenceNumber =
     (let abilityBefore = ms_ability st;
          upd = ability_update_step abilityBefore (real_of_int difficulty) isCorrect (ms_answered st);
          st1 = st\<lparr>ms_ability := au_ability upd,
                   ms_information := ms_information st
                     + fisher_information abilityBefore (real_of_int difficulty)\<rparr>;
          st2 = trackAbility (au_ability upd) st1;
          st3 = st2\<lparr>ms_answered := ms_answered st2 + 1,
                    ms_correct := ms_correct st2 + (if isCorrect then 1 else 0)\<rparr>
      in registerProbe q sequenceNumber
           (signature_of (ms_scoringType st) (Some isCorrect) [] answered) st3)"

definition recordObjectiveAnswer ::
  "bank \<Rightarrow> module_state \<Rightarrow> question \<Rightarrow> submitted_answer \<Rightarrow> nat \<Rightarrow>
   engine_error + (answer_outcome \<times> module_state \<times> bank)" where
  "recordObjectiveAnswer bank st q answer sequenceNumber =
     (case q_mcqDetails q of
        None \<Rightarrow> Inl (NoMcqDetails (q_id q))
      | Some details \<Rightarrow>
          (case answer of
             AnsRanking _ \<Rightarrow> Inl SingleAnswerOnly
           | _ \<Rightarrow>
             (case (case answer of AnsOption k \<Rightarrow> evaluateMcq details k
                    | _ \<Rightarrow> Inr (evaluateUnanswered (ms_scoringType st))) of
                Inl e \<Rightarrow> Inl (BadAnswer e)
              | Inr result \<Rightarrow>
                  (let isCorrect = (er_isCorrect result = Some True);
                       difficultyAtServe = md_difficultyScore details;
                       upd = ability_update_step (ms_ability st) (real_of_int difficultyAtServe)
                               isCorrect (ms_answered st);
                       st' = score_objective st q difficultyAtServe isCorrect
                               (answer \<noteq> AnsUnanswered) sequenceNumber
                   in Inr (\<lparr>ao_isCorrect = Some isCorrect,
                            ao_questionDifficultyAtServe = Some (real_of_int difficultyAtServe),
                            ao_abilityEstimateAfter = Some (round2 (ms_ability st'))\<rparr>,
                           st',
                           update_mcq_row (q_id q) (js_round (au_questionDifficulty upd)) isCorrect bank)))))"

definition assertAnswerShape :: "personality_details \<Rightarrow> submitted_answer \<Rightarrow> engine_error + unit" where
  "assertAnswerShape details answer =
     (if answer = AnsUnanswered then Inr ()
      else (let isRanking = is_ranking details
            in if isRanking \<and> (\<forall>ks. answer \<noteq> AnsRanking ks) then Inl MustRankEveryOption
               else if \<not> isRanking \<and> (\<exists>ks. answer = AnsRanking ks) then Inl SingleChoiceOnly
               else Inr ()))"

lemma assertAnswerShape_code [code]:
  "assertAnswerShape details answer =
     (case answer of
        AnsUnanswered \<Rightarrow> Inr ()
      | AnsRanking _ \<Rightarrow> if is_ranking details then Inr () else Inl SingleChoiceOnly
      | AnsOption _ \<Rightarrow> if is_ranking details then Inl MustRankEveryOption else Inr ())"
  by (auto simp: assertAnswerShape_def split: submitted_answer.splits)

definition bump_pattern :: "behavioral_pattern option \<Rightarrow> nat jsobj \<Rightarrow> nat jsobj" where
  "bump_pattern pattern counts =
     (case pattern of
        None \<Rightarrow> counts
      | Some p \<Rightarrow> obj_set (pattern_key p) (or_else (obj_get counts (pattern_key p)) 0 + 1) counts)"

text \<open>The state change of a trait answer, from its weights and the question's ranges.\<close>

definition score_trait ::
  "module_state \<Rightarrow> question \<Rightarrow> personality_details \<Rightarrow> real jsobj \<Rightarrow> trait_range jsobj option \<Rightarrow>
   bool \<Rightarrow> nat \<Rightarrow> module_state" where
  "score_trait st q details weights ranges answered sequenceNumber =
     (let st1 = st\<lparr>ms_traitTallies := applyTraitWeights (ms_traitTallies st) weights ranges,
                   ms_answered := ms_answered st + 1,
                   ms_patternCounts := bump_pattern (pd_pattern details) (ms_patternCounts st)\<rparr>
      in registerProbe q sequenceNumber
           (signature_of (ms_scoringType st) None weights answered) st1)"

definition evaluateTrait ::
  "scoring_type \<Rightarrow> personality_details \<Rightarrow> submitted_answer \<Rightarrow> eval_error + evaluation_result" where
  "evaluateTrait scoringType details answer =
     (case answer of
        AnsUnanswered \<Rightarrow> Inr (evaluateUnanswered scoringType)
      | AnsRanking ks \<Rightarrow> evaluateRanking details ks
      | AnsOption k \<Rightarrow> evaluatePersonality details k)"

definition answer_ranges ::
  "personality_details \<Rightarrow> submitted_answer \<Rightarrow> eval_error + trait_range jsobj option" where
  "answer_ranges details answer =
     (if answer = AnsUnanswered then Inr None
      else bind_result (achievableTraitRange details (is_ranking details)) (\<lambda>R. Inr (Some R)))"

definition recordTraitAnswer ::
  "bank \<Rightarrow> module_state \<Rightarrow> question \<Rightarrow> submitted_answer \<Rightarrow> nat \<Rightarrow>
   engine_error + (answer_outcome \<times> module_state \<times> bank)" where
  "recordTraitAnswer bank st q answer sequenceNumber =
     (case q_personalityDetails q of
        None \<Rightarrow> Inl (NoPersonalityDetails (q_id q))
      | Some details \<Rightarrow>
          bind_result (assertAnswerShape details answer) (\<lambda>_.
            (case evaluateTrait (ms_scoringType st) details answer of
               Inl e \<Rightarrow> Inl (BadAnswer e)
             | Inr result \<Rightarrow>
                 (case answer_ranges details answer of
                    Inl e \<Rightarrow> Inl (BadAnswer e)
                  | Inr ranges \<Rightarrow>
                      Inr (\<lparr>ao_isCorrect = None, ao_questionDifficultyAtServe = None,
                            ao_abilityEstimateAfter = None\<rparr>,
                           score_trait st q details (er_traitWeights result) ranges
                             (answer \<noteq> AnsUnanswered) sequenceNumber,
                           update_personality_row (q_id q) bank)))))"

definition recordAnswer ::
  "bank \<Rightarrow> module_state \<Rightarrow> question \<Rightarrow> submitted_answer \<Rightarrow> nat \<Rightarrow>
   engine_error + (answer_outcome \<times> module_state \<times> bank)" where
  "recordAnswer bank st q answer sequenceNumber =
     (if ms_scoringType st = OBJECTIVE then recordObjectiveAnswer bank st q answer sequenceNumber
      else recordTraitAnswer bank st q answer sequenceNumber)"

subsection \<open>Results\<close>

definition finalAbility :: "module_state \<Rightarrow> real option" where
  "finalAbility st = (if ms_scoringType st = OBJECTIVE then Some (round2 (ms_ability st)) else None)"

definition finalTraitScores :: "module_state \<Rightarrow> trait_score jsobj option" where
  "finalTraitScores st = (if ms_scoringType st = TRAIT then Some (traitScores st) else None)"

definition engine_overallConsistency :: "module_state \<Rightarrow> real option" where
  "engine_overallConsistency st =
     (if ms_scoringType st = TRAIT then overallConsistency st else None)"

definition probeResults :: "module_state \<Rightarrow> probe_results option" where
  "probeResults st = probe_summary st"

subsection \<open>What recording an answer does to the state\<close>

lemma registerProbe_frame [simp]:
  "ms_answered (registerProbe q n sg st) = ms_answered st"
  "ms_correct (registerProbe q n sg st) = ms_correct st"
  "ms_ability (registerProbe q n sg st) = ms_ability st"
  "ms_information (registerProbe q n sg st) = ms_information st"
  "ms_recentAbilities (registerProbe q n sg st) = ms_recentAbilities st"
  "ms_traitTallies (registerProbe q n sg st) = ms_traitTallies st"
  "ms_patternCounts (registerProbe q n sg st) = ms_patternCounts st"
  "ms_seenQuestionIds (registerProbe q n sg st) = ms_seenQuestionIds st"
  "ms_servedProbeGroups (registerProbe q n sg st) = ms_servedProbeGroups st"
  "ms_status (registerProbe q n sg st) = ms_status st"
  "ms_startedAt (registerProbe q n sg st) = ms_startedAt st"
  "ms_deadlineAt (registerProbe q n sg st) = ms_deadlineAt st"
  "ms_completedAt (registerProbe q n sg st) = ms_completedAt st"
  "ms_stopReason (registerProbe q n sg st) = ms_stopReason st"
  "module_run_config.truncate (registerProbe q n sg st) = module_run_config.truncate st"
  by (auto simp: registerProbe_def record_probe_def module_run_config.truncate_def split: option.splits)

lemma trackAbility_frame [simp]:
  "ms_answered (trackAbility a st) = ms_answered st"
  "ms_correct (trackAbility a st) = ms_correct st"
  "ms_ability (trackAbility a st) = ms_ability st"
  "ms_information (trackAbility a st) = ms_information st"
  "ms_traitTallies (trackAbility a st) = ms_traitTallies st"
  "ms_patternCounts (trackAbility a st) = ms_patternCounts st"
  "ms_seenQuestionIds (trackAbility a st) = ms_seenQuestionIds st"
  "ms_servedProbeGroups (trackAbility a st) = ms_servedProbeGroups st"
  "ms_probes (trackAbility a st) = ms_probes st"
  "ms_status (trackAbility a st) = ms_status st"
  "ms_startedAt (trackAbility a st) = ms_startedAt st"
  "ms_deadlineAt (trackAbility a st) = ms_deadlineAt st"
  "ms_completedAt (trackAbility a st) = ms_completedAt st"
  "ms_stopReason (trackAbility a st) = ms_stopReason st"
  "module_run_config.truncate (trackAbility a st) = module_run_config.truncate st"
  by (simp_all add: trackAbility_def Let_def module_run_config.truncate_def)

lemma recordAnswer_cases:
  assumes "recordAnswer bank st q answer n = Inr (out, st', bank')"
  obtains
    (objective) details c where "ms_scoringType st = OBJECTIVE" "q_mcqDetails q = Some details"
      "\<And>ks. answer \<noteq> AnsRanking ks"
      "st' = score_objective st q (md_difficultyScore details) c (answer \<noteq> AnsUnanswered) n"
      "bank' = update_mcq_row (q_id q) (js_round (au_questionDifficulty
          (ability_update_step (ms_ability st) (real_of_int (md_difficultyScore details)) c
             (ms_answered st)))) c bank"
      "out = \<lparr>ao_isCorrect = Some c,
              ao_questionDifficultyAtServe = Some (real_of_int (md_difficultyScore details)),
              ao_abilityEstimateAfter = Some (round2 (ms_ability st'))\<rparr>"
      "answer = AnsUnanswered \<Longrightarrow> \<not> c"
      "\<And>k. answer = AnsOption k \<Longrightarrow> k \<in> mo_key ` set (md_options details) \<and> c = (k = md_correctOption details)"
  | (trait) details result ranges where "ms_scoringType st = TRAIT"
      "q_personalityDetails q = Some details"
      "assertAnswerShape details answer = Inr ()"
      "evaluateTrait TRAIT details answer = Inr result"
      "answer_ranges details answer = Inr ranges"
      "st' = score_trait st q details (er_traitWeights result) ranges (answer \<noteq> AnsUnanswered) n"
      "bank' = update_personality_row (q_id q) bank"
      "out = \<lparr>ao_isCorrect = None, ao_questionDifficultyAtServe = None, ao_abilityEstimateAfter = None\<rparr>"
proof (cases "ms_scoringType st")
  case OBJECTIVE
  with assms that(1) show thesis
    by (auto simp: recordAnswer_def recordObjectiveAnswer_def Let_def evaluateMcq_def
        evaluateUnanswered_def bind_result_Inr split: option.splits submitted_answer.splits sum.splits)
next
  case TRAIT
  with assms that(2) show thesis
    by (auto simp: recordAnswer_def recordTraitAnswer_def bind_result_Inr split: option.splits sum.splits)
qed

lemma score_objective_fields:
  "ms_answered (score_objective st q d c a n) = ms_answered st + 1"
  "ms_correct (score_objective st q d c a n) = ms_correct st + (if c then 1 else 0)"
  "ms_seenQuestionIds (score_objective st q d c a n) = ms_seenQuestionIds st"
  "ms_servedProbeGroups (score_objective st q d c a n) = ms_servedProbeGroups st"
  "ms_status (score_objective st q d c a n) = ms_status st"
  "ms_startedAt (score_objective st q d c a n) = ms_startedAt st"
  "ms_deadlineAt (score_objective st q d c a n) = ms_deadlineAt st"
  "ms_completedAt (score_objective st q d c a n) = ms_completedAt st"
  "ms_stopReason (score_objective st q d c a n) = ms_stopReason st"
  "ms_traitTallies (score_objective st q d c a n) = ms_traitTallies st"
  "ms_patternCounts (score_objective st q d c a n) = ms_patternCounts st"
  "module_run_config.truncate (score_objective st q d c a n) = module_run_config.truncate st"
  by (simp_all add: score_objective_def Let_def, simp_all add: module_run_config.truncate_def
      trackAbility_def Let_def registerProbe_def record_probe_def split: option.split)

lemma score_trait_fields:
  "ms_answered (score_trait st q d w r a n) = ms_answered st + 1"
  "ms_correct (score_trait st q d w r a n) = ms_correct st"
  "ms_seenQuestionIds (score_trait st q d w r a n) = ms_seenQuestionIds st"
  "ms_servedProbeGroups (score_trait st q d w r a n) = ms_servedProbeGroups st"
  "ms_status (score_trait st q d w r a n) = ms_status st"
  "ms_startedAt (score_trait st q d w r a n) = ms_startedAt st"
  "ms_deadlineAt (score_trait st q d w r a n) = ms_deadlineAt st"
  "ms_completedAt (score_trait st q d w r a n) = ms_completedAt st"
  "ms_stopReason (score_trait st q d w r a n) = ms_stopReason st"
  "ms_ability (score_trait st q d w r a n) = ms_ability st"
  "ms_information (score_trait st q d w r a n) = ms_information st"
  "module_run_config.truncate (score_trait st q d w r a n) = module_run_config.truncate st"
  by (simp_all add: score_trait_def Let_def, simp_all add: module_run_config.truncate_def
      registerProbe_def record_probe_def split: option.split)

lemmas score_fields = score_objective_fields score_trait_fields

text \<open>What an accepted answer does to the counters, whatever the module scores.\<close>

lemma recordAnswer_fields:
  assumes "recordAnswer bank st q answer n = Inr (out, st', bank')"
  shows "ms_answered st' = ms_answered st + 1"
    "ms_correct st \<le> ms_correct st' \<and> ms_correct st' \<le> ms_correct st + 1"
    "ms_seenQuestionIds st' = ms_seenQuestionIds st"
    "ms_servedProbeGroups st' = ms_servedProbeGroups st"
    "ms_status st' = ms_status st"
    "ms_startedAt st' = ms_startedAt st"
    "ms_deadlineAt st' = ms_deadlineAt st"
    "ms_completedAt st' = ms_completedAt st"
    "ms_stopReason st' = ms_stopReason st"
    "module_run_config.truncate st' = module_run_config.truncate st"
  using assms by (cases rule: recordAnswer_cases; simp add: score_fields)+

end
