(* ===== verification/Question_Bank.thy ===== *)
theory Question_Bank
  imports Program Engine
begin

section \<open>Authoring questions\<close>

text \<open>
  \<open>question-bank/question-bank.service.ts\<close> with the DTOs of \<open>question-bank/dto\<close>: the
  checks an author's payload has to pass, and creating, editing, hiding and deleting a
  question. A platform question (\<open>organisationId\<close> null) is shared; an organisation's edit
  is taken on its own fork. A database transaction is one update of the state. The table
  \<open>responses\<close> is represented by its \<open>questionId\<close> column, the only one read here; tags,
  authorship and creation times are left out because nothing modelled reads them.
\<close>

subsection \<open>Payloads\<close>

record mcq_dto =
  dm_options :: "mcq_option list"
  dm_correctOption :: string
  dm_difficultyScore :: "int option"

record personality_dto =
  dp_pattern :: "behavioral_pattern option"
  dp_options :: "personality_option list"

record create_question_dto =
  cq_moduleId :: string
  cq_questionText :: string
  cq_status :: "question_status option"
  cq_probeGroup :: "string option"
  cq_isSample :: "bool option"
  cq_mcq :: "mcq_dto option"
  cq_personality :: "personality_dto option"

record update_question_dto =
  uq_questionText :: "string option"
  uq_status :: "question_status option"
  uq_probeGroup :: "string option"
  uq_isSample :: "bool option"
  uq_mcq :: "mcq_dto option"
  uq_personality :: "personality_dto option"

record module_entry =
  me_id :: string
  me_slug :: string
  me_name :: string
  me_description :: "string option"
  me_scoringType :: scoring_type
  me_traits :: "trait_definition list option"
  me_isActive :: bool

definition MIN_OPTIONS :: nat where "MIN_OPTIONS = 4"
definition MAX_OPTIONS :: nat where "MAX_OPTIONS = 6"
definition DEFAULT_DIFFICULTY_SCORE :: int where "DEFAULT_DIFFICULTY_SCORE = 1000"

fun PATTERN_OPTION_BOUNDS :: "behavioral_pattern \<Rightarrow> nat \<times> nat" where
  "PATTERN_OPTION_BOUNDS SITUATIONAL = (3, MAX_OPTIONS)"
| "PATTERN_OPTION_BOUNDS FORCED_CHOICE = (2, 2)"
| "PATTERN_OPTION_BOUNDS TRADE_OFF = (2, 2)"
| "PATTERN_OPTION_BOUNDS RANKING = (3, MAX_OPTIONS)"

definition LEGACY_OPTION_BOUNDS :: "nat \<times> nat" where
  "LEGACY_OPTION_BOUNDS = (MIN_OPTIONS, MAX_OPTIONS)"

subsection \<open>The checks\<close>

datatype bank_error =
    ModuleNotFound string
  | QuestionNotFound string
  | NoAnswerBlock
  | BothAnswerBlocks
  | NeedsMcqBlock string
  | NeedsPersonalityBlock string
  | OptionKeysNotUnique
  | CorrectOptionUnknown string
  | PatternRequired
  | WrongOptionCount "behavioral_pattern option" nat
  | WeightsNoTrait string
  | WeightsUnknownTrait string string
  | WeightOutsideScale string string real
  | ProbeGroupInOtherModule string
  | PlatformQuestionShared
  | QuestionAlreadyAnswered nat
  | DuplicateQuestionId

text \<open>A loop of checks, each of which may throw.\<close>

fun each_ok :: "('a \<Rightarrow> 'e + unit) \<Rightarrow> 'a list \<Rightarrow> 'e + unit" where
  "each_ok f [] = Inr ()"
| "each_ok f (x # xs) = bind_result (f x) (\<lambda>_. each_ok f xs)"

lemma each_ok_Inr: "each_ok f xs = Inr () \<longleftrightarrow> (\<forall>x\<in>set xs. f x = Inr ())"
  by (induction xs) (auto simp: bind_result_Inr)

definition assertValidMcq :: "mcq_dto \<Rightarrow> bank_error + unit" where
  "assertValidMcq mcq =
     (let keys = map mo_key (dm_options mcq)
      in if length (js_set keys) \<noteq> length keys then Inl OptionKeysNotUnique
         else if dm_correctOption mcq \<notin> set keys then Inl (CorrectOptionUnknown (dm_correctOption mcq))
         else Inr ())"

definition assertOptionCount :: "personality_dto \<Rightarrow> behavioral_pattern option \<Rightarrow> bank_error + unit" where
  "assertOptionCount personality pattern =
     (let (low, high) = (case pattern of Some p \<Rightarrow> PATTERN_OPTION_BOUNDS p | None \<Rightarrow> LEGACY_OPTION_BOUNDS);
          count = length (dp_options personality)
      in if low \<le> count \<and> count \<le> high then Inr () else Inl (WrongOptionCount pattern count))"

definition assertValidOption :: "string list \<Rightarrow> personality_option \<Rightarrow> bank_error + unit" where
  "assertValidOption declared opt =
     (if po_traitWeights opt = [] then Inl (WeightsNoTrait (po_key opt))
      else each_ok (\<lambda>(trait, weight).
             if trait \<notin> set declared then Inl (WeightsUnknownTrait (po_key opt) trait)
             else if weight < TRAIT_WEIGHT_MIN \<or> weight > TRAIT_WEIGHT_MAX
             then Inl (WeightOutsideScale (po_key opt) trait weight)
             else Inr ()) (po_traitWeights opt))"

definition assertValidPersonality ::
  "module_entry \<Rightarrow> personality_dto \<Rightarrow> bool \<Rightarrow> behavioral_pattern option \<Rightarrow> bank_error + unit" where
  "assertValidPersonality m personality requirePattern existingPattern =
     (let keys = map po_key (dp_options personality);
          pattern = (case dp_pattern personality of Some p \<Rightarrow> Some p | None \<Rightarrow> existingPattern);
          declared = map td_key (or_else (me_traits m) [])
      in if length (js_set keys) \<noteq> length keys then Inl OptionKeysNotUnique
         else if requirePattern \<and> pattern = None then Inl PatternRequired
         else bind_result (assertOptionCount personality pattern)
                (\<lambda>_. each_ok (assertValidOption declared) (dp_options personality)))"

definition assertPayloadMatchesModule ::
  "module_entry \<Rightarrow> mcq_dto option \<Rightarrow> personality_dto option \<Rightarrow> bool \<Rightarrow> behavioral_pattern option \<Rightarrow>
   bank_error + unit" where
  "assertPayloadMatchesModule m mcq personality requirePattern existingPattern =
     (if mcq = None \<and> personality = None then Inl NoAnswerBlock
      else if mcq \<noteq> None \<and> personality \<noteq> None then Inl BothAnswerBlocks
      else if me_scoringType m = OBJECTIVE
      then (case mcq of None \<Rightarrow> Inl (NeedsMcqBlock (me_slug m)) | Some d \<Rightarrow> assertValidMcq d)
      else (case personality of
              None \<Rightarrow> Inl (NeedsPersonalityBlock (me_slug m))
            | Some d \<Rightarrow> assertValidPersonality m d requirePattern existingPattern))"

subsection \<open>State\<close>

record catalogue =
  cg_modules :: "module_entry list"
  cg_bank :: bank
  cg_answered :: "string list"
  cg_ids :: "nat \<Rightarrow> string"

type_synonym 'a authoring = "(bank_error, catalogue, 'a) prog"

abbreviation rows_of :: "catalogue \<Rightarrow> question list" where
  "rows_of cg \<equiv> bk_questions (cg_bank cg)"

definition set_rows :: "(question list \<Rightarrow> question list) \<Rightarrow> catalogue \<Rightarrow> catalogue" where
  "set_rows f cg = cg\<lparr>cg_bank := (cg_bank cg)\<lparr>bk_questions := f (rows_of cg)\<rparr>\<rparr>"

text \<open>\<open>manager.save\<close> of a new row with its details: the id is generated, and a primary key.\<close>

definition insert_question :: "question \<Rightarrow> question authoring" where
  "insert_question q =
     (\<lambda>cg. let q' = q\<lparr>q_id := cg_ids cg 0\<rparr>; cg' = cg\<lparr>cg_ids := (\<lambda>n. cg_ids cg (Suc n))\<rparr>
           in if list_ex (\<lambda>r. q_id r = q_id q') (rows_of cg) then (Inl DuplicateQuestionId, cg')
              else (Inr q', set_rows (\<lambda>rows. rows @ [q']) cg'))"

definition store_question :: "question \<Rightarrow> unit authoring" where
  "store_question q = updating (set_rows (map (\<lambda>r. if q_id r = q_id q then q else r)))"

subsection \<open>Operations\<close>

definition assertProbeGroupFitsModule ::
  "string option \<Rightarrow> string \<Rightarrow> string option \<Rightarrow> string option \<Rightarrow> unit authoring" where
  "assertProbeGroupFitsModule probeGroup moduleId organisationId excludeQuestionId =
     (case truthy probeGroup of
        None \<Rightarrow> ret ()
      | Some grp \<Rightarrow>
          bind_p (reading (\<lambda>cg. filter (\<lambda>q. q_probeGroup q = Some grp \<and> q_organisationId q = organisationId)
                    (rows_of cg))) (\<lambda>siblings.
          case List.find (\<lambda>s. Some (q_id s) \<noteq> excludeQuestionId \<and> q_moduleId s \<noteq> moduleId) siblings of
            None \<Rightarrow> ret ()
          | Some _ \<Rightarrow> throw (ProbeGroupInOtherModule grp)))"

definition created_row :: "create_question_dto \<Rightarrow> module_entry \<Rightarrow> string option \<Rightarrow> question" where
  "created_row dto m organisationId =
     \<lparr>q_id = '''', q_moduleId = me_id m, q_questionText = cq_questionText dto,
      q_status = or_else (cq_status dto) DRAFT, q_probeGroup = truthy (cq_probeGroup dto),
      q_isSample = or_else (cq_isSample dto) False, q_organisationId = organisationId,
      q_forkedFromId = None,
      q_mcqDetails = map_option (\<lambda>d. \<lparr>md_options = dm_options d,
        md_correctOption = dm_correctOption d,
        md_difficultyScore = or_else (dm_difficultyScore d) DEFAULT_DIFFICULTY_SCORE,
        md_timesUsed = 0, md_timesCorrect = 0\<rparr>) (cq_mcq dto),
      q_personalityDetails =
        (if cq_mcq dto \<noteq> None then None
         else map_option (\<lambda>d. \<lparr>pd_options = dp_options d, pd_pattern = dp_pattern d,
                pd_timesUsed = 0\<rparr>) (cq_personality dto))\<rparr>"

definition createQuestion :: "create_question_dto \<Rightarrow> string option \<Rightarrow> question authoring" where
  "createQuestion dto organisationId =
     bind_p (reading (\<lambda>cg. List.find (\<lambda>m. me_id m = cq_moduleId dto) (cg_modules cg))) (\<lambda>found.
     case found of
       None \<Rightarrow> throw (ModuleNotFound (cq_moduleId dto))
     | Some m \<Rightarrow>
         then_p (of_result (assertPayloadMatchesModule m (cq_mcq dto) (cq_personality dto) True None))
        (then_p (assertProbeGroupFitsModule (cq_probeGroup dto) (me_id m) organisationId None)
         (insert_question (created_row dto m organisationId))))"

definition bank_findOne :: "string \<Rightarrow> string \<Rightarrow> question authoring" where
  "bank_findOne i organisationId =
     bind_p (reading (\<lambda>cg. List.find (\<lambda>q. q_id q = i \<and> visible_to_org (rows_of cg) organisationId q)
               (rows_of cg))) (\<lambda>found.
     case found of None \<Rightarrow> throw (QuestionNotFound i) | Some q \<Rightarrow> ret q)"

definition fork_row :: "question \<Rightarrow> update_question_dto \<Rightarrow> string \<Rightarrow> question" where
  "fork_row original dto organisationId =
     \<lparr>q_id = '''', q_moduleId = q_moduleId original,
      q_questionText = or_else (uq_questionText dto) (q_questionText original),
      q_status = or_else (uq_status dto) (q_status original),
      q_probeGroup = (if uq_probeGroup dto = None then q_probeGroup original else truthy (uq_probeGroup dto)),
      q_isSample = or_else (uq_isSample dto) (q_isSample original),
      q_organisationId = Some organisationId, q_forkedFromId = Some (q_id original),
      q_mcqDetails = map_option (\<lambda>source.
        \<lparr>md_options = (case uq_mcq dto of Some d \<Rightarrow> dm_options d | None \<Rightarrow> md_options source),
         md_correctOption = (case uq_mcq dto of Some d \<Rightarrow> dm_correctOption d | None \<Rightarrow> md_correctOption source),
         md_difficultyScore =
           (case uq_mcq dto of Some d \<Rightarrow> or_else (dm_difficultyScore d) (md_difficultyScore source)
            | None \<Rightarrow> md_difficultyScore source),
         md_timesUsed = 0, md_timesCorrect = 0\<rparr>) (q_mcqDetails original),
      q_personalityDetails =
        (if q_mcqDetails original \<noteq> None then None
         else map_option (\<lambda>source.
           \<lparr>pd_options = (case uq_personality dto of Some d \<Rightarrow> dp_options d | None \<Rightarrow> pd_options source),
            pd_pattern = (case uq_personality dto of
                Some d \<Rightarrow> (case dp_pattern d of Some p \<Rightarrow> Some p | None \<Rightarrow> pd_pattern source)
              | None \<Rightarrow> pd_pattern source),
            pd_timesUsed = 0\<rparr>) (q_personalityDetails original))\<rparr>"

definition forkPlatformQuestion :: "question \<Rightarrow> update_question_dto \<Rightarrow> string \<Rightarrow> question authoring" where
  "forkPlatformQuestion original dto organisationId = insert_question (fork_row original dto organisationId)"

text \<open>The columns and the detail row an edit of an own question changes.\<close>

definition edited_row :: "question \<Rightarrow> update_question_dto \<Rightarrow> question" where
  "edited_row q dto = q
     \<lparr>q_questionText := or_else (uq_questionText dto) (q_questionText q),
      q_status := or_else (uq_status dto) (q_status q),
      q_probeGroup := (if uq_probeGroup dto = None then q_probeGroup q else truthy (uq_probeGroup dto)),
      q_isSample := or_else (uq_isSample dto) (q_isSample q),
      q_mcqDetails := (case uq_mcq dto of None \<Rightarrow> q_mcqDetails q
        | Some d \<Rightarrow> map_option (\<lambda>row. row\<lparr>md_options := dm_options d, md_correctOption := dm_correctOption d,
            md_difficultyScore := or_else (dm_difficultyScore d) (md_difficultyScore row)\<rparr>) (q_mcqDetails q)),
      q_personalityDetails := (case uq_personality dto of None \<Rightarrow> q_personalityDetails q
        | Some d \<Rightarrow> map_option (\<lambda>row. row\<lparr>pd_options := dp_options d,
            pd_pattern := (case dp_pattern d of Some p \<Rightarrow> Some p | None \<Rightarrow> pd_pattern row)\<rparr>)
            (q_personalityDetails q))\<rparr>"

definition existing_pattern :: "question \<Rightarrow> behavioral_pattern option" where
  "existing_pattern q = (case q_personalityDetails q of None \<Rightarrow> None | Some d \<Rightarrow> pd_pattern d)"

text \<open>The module row that \<open>findOne\<close> joins to a question.\<close>

definition module_of :: "question \<Rightarrow> module_entry authoring" where
  "module_of q = bind_p (reading (\<lambda>cg. List.find (\<lambda>m. me_id m = q_moduleId q) (cg_modules cg)))
     (\<lambda>found. case found of None \<Rightarrow> throw (ModuleNotFound (q_moduleId q)) | Some m \<Rightarrow> ret m)"

definition update_question_op :: "string \<Rightarrow> update_question_dto \<Rightarrow> string \<Rightarrow> question authoring" where
  "update_question_op i dto organisationId =
     bind_p (bank_findOne i organisationId) (\<lambda>target.
     bind_p (module_of target) (\<lambda>m.
     then_p (if uq_mcq dto \<noteq> None \<or> uq_personality dto \<noteq> None
             then of_result (assertPayloadMatchesModule m (uq_mcq dto) (uq_personality dto) False
                    (existing_pattern target))
             else ret ())
    (then_p (assertProbeGroupFitsModule (uq_probeGroup dto) (q_moduleId target) (Some organisationId)
               (if q_organisationId target = None then None else Some i))
     (if q_organisationId target = None
      then forkPlatformQuestion target dto organisationId
      else then_p (store_question (edited_row target dto)) (bank_findOne i organisationId)))))"

definition no_changes :: update_question_dto where
  "no_changes = \<lparr>uq_questionText = None, uq_status = None, uq_probeGroup = None, uq_isSample = None,
     uq_mcq = None, uq_personality = None\<rparr>"

definition setStatus :: "string \<Rightarrow> question_status \<Rightarrow> string \<Rightarrow> question authoring" where
  "setStatus i status organisationId =
     bind_p (bank_findOne i organisationId) (\<lambda>target.
     if q_organisationId target = None
     then forkPlatformQuestion target (no_changes\<lparr>uq_status := Some status\<rparr>) organisationId
     else then_p (store_question (target\<lparr>q_status := status\<rparr>)) (ret (target\<lparr>q_status := status\<rparr>)))"

definition archive :: "string \<Rightarrow> string \<Rightarrow> question authoring" where
  "archive i organisationId = setStatus i ARCHIVED organisationId"

definition countResponses :: "string \<Rightarrow> nat authoring" where
  "countResponses questionId = reading (\<lambda>cg. length (filter (\<lambda>i. i = questionId) (cg_answered cg)))"

definition removeQuestion :: "string \<Rightarrow> string \<Rightarrow> string authoring" where
  "removeQuestion i organisationId =
     bind_p (bank_findOne i organisationId) (\<lambda>q.
     if q_organisationId q = None then throw PlatformQuestionShared
     else bind_p (countResponses i) (\<lambda>responseCount.
       if responseCount > 0 then throw (QuestionAlreadyAnswered responseCount)
       else then_p (updating (set_rows (filter (\<lambda>r. q_id r \<noteq> q_id q)))) (ret (q_id q))))"

text \<open>What a recruiter of an organisation can ask of the bank.\<close>

datatype authoring_request =
    Create create_question_dto
  | Update string update_question_dto
  | Set_status string question_status
  | Archive string
  | Remove string

fun author :: "string \<Rightarrow> authoring_request \<Rightarrow> catalogue \<Rightarrow> catalogue" where
  "author organisationId (Create dto) cg = snd (createQuestion dto (Some organisationId) cg)"
| "author organisationId (Update i dto) cg = snd (update_question_op i dto organisationId cg)"
| "author organisationId (Set_status i status) cg = snd (setStatus i status organisationId cg)"
| "author organisationId (Archive i) cg = snd (archive i organisationId cg)"
| "author organisationId (Remove i) cg = snd (removeQuestion i organisationId cg)"

end
