(* ===== verification/Engine_Run.thy ===== *)
theory Engine_Run
  imports Engine
begin

section \<open>A module run as a state machine\<close>

text \<open>
  What the session service does with one module, seen from the engine: it asks for the
  next question, consumes it (pushes its id on \<open>seenQuestionIds\<close> and marks its probe
  group), and later records one answer for it, giving or not giving a choice. Between two
  of its steps other candidates and editors may change the bank, and the sequence counter
  may grow (it belongs to the session). The invariants below hold in every reachable
  state, whatever the interleaving.
\<close>

record engine_run =
  rn_bank :: bank
  rn_state :: module_state
  rn_served :: "string option"
  rn_sequence :: nat

definition serve_question :: "question \<Rightarrow> module_state \<Rightarrow> module_state" where
  "serve_question q st =
     markProbeServed q (st\<lparr>ms_seenQuestionIds := ms_seenQuestionIds st @ [q_id q]\<rparr>)"

text \<open>
  What the rest of the system may do to the bank between two steps: edit, hide, add, remove
  and regroup questions, as authors and other candidates can. One thing is kept out: that
  the question on screen is moved to another probe group before it is answered (it may
  lose its group, or be removed). The code does not prevent that edit, and with it a pair
  closes at once, as \<open>Engine_Properties\<close> shows.
\<close>

definition bank_evolves :: "string option \<Rightarrow> bank \<Rightarrow> bank \<Rightarrow> bool" where
  "bank_evolves served bank bank' \<longleftrightarrow>
     distinct (map q_id (bk_questions bank')) \<and>
     (\<forall>q'\<in>set (bk_questions bank'). served = Some (q_id q') \<longrightarrow>
        truthy (q_probeGroup q') = None \<or>
        (\<exists>q\<in>set (bk_questions bank). q_id q = q_id q' \<and> q_probeGroup q = q_probeGroup q'))"

inductive engine_step :: "engine_run \<Rightarrow> engine_run \<Rightarrow> bool" where
  serve: "rn_served R = None \<Longrightarrow>
    nextStep (rn_bank R) (rn_state R) now r = (NextQuestion q, r') \<Longrightarrow>
    engine_step R (R\<lparr>rn_state := serve_question q (rn_state R), rn_served := Some (q_id q)\<rparr>)"
| answer: "rn_served R = Some i \<Longrightarrow> find_question (rn_bank R) i = Some q \<Longrightarrow>
    recordAnswer (rn_bank R) (rn_state R) q ans (Suc (rn_sequence R)) = Inr (out, st', bank') \<Longrightarrow>
    engine_step R \<lparr>rn_bank = bank', rn_state = st', rn_served = None,
                   rn_sequence = Suc (rn_sequence R)\<rparr>"
| elsewhere: "bank_evolves (rn_served R) (rn_bank R) bank' \<Longrightarrow> rn_sequence R \<le> n \<Longrightarrow>
    engine_step R (R\<lparr>rn_bank := bank', rn_sequence := n\<rparr>)"

definition initial_run :: "bank \<Rightarrow> module_run_config \<Rightarrow> nat \<Rightarrow> engine_run" where
  "initial_run bank config n =
     \<lparr>rn_bank = bank, rn_state = createModuleState config, rn_served = None, rn_sequence = n\<rparr>"

inductive reachable_run :: "bank \<Rightarrow> module_run_config \<Rightarrow> nat \<Rightarrow> engine_run \<Rightarrow> bool"
  for bank config n where
  start: "distinct (map q_id (bk_questions bank)) \<Longrightarrow>
    reachable_run bank config n (initial_run bank config n)"
| step: "reachable_run bank config n R \<Longrightarrow> engine_step R R' \<Longrightarrow> reachable_run bank config n R'"

inductive_cases engine_stepE: "engine_step R R'"

subsection \<open>The bank keeps its ids\<close>

lemma update_question_ids:
  assumes "\<And>q. q_id (f q) = q_id q" and "distinct (map q_id (bk_questions bank))"
  shows "distinct (map q_id (bk_questions (update_question i f bank)))"
proof -
  have "map q_id (bk_questions (update_question i f bank)) = map q_id (bk_questions bank)"
    using assms(1) by (auto simp: update_question_def)
  with assms(2) show ?thesis by simp
qed

lemma recordAnswer_bank:
  assumes "recordAnswer bank st q ans n = Inr (out, st', bank')"
    and "distinct (map q_id (bk_questions bank))"
  shows "distinct (map q_id (bk_questions bank'))"
  using assms
  by (cases rule: recordAnswer_cases)
    (auto simp: update_mcq_row_def update_personality_row_def intro!: update_question_ids)

subsection \<open>The invariant\<close>

text \<open>A pair in time: opened at an answer already counted, closed only after the gap.\<close>

definition pair_timed :: "nat \<Rightarrow> nat \<Rightarrow> string list \<Rightarrow> probe_pair \<Rightarrow> bool" where
  "pair_timed n answered seen pair \<longleftrightarrow>
     pp_askedAtAnswered pair \<le> answered \<and>
     pp_firstSequence pair + (answered - pp_askedAtAnswered pair) \<le> n \<and>
     pp_firstQuestionId pair \<in> set seen \<and>
     (case pp_secondSequence pair of None \<Rightarrow> True
      | Some s \<Rightarrow> pp_firstSequence pair + PROBE_GAP_QUESTIONS < s \<and> s \<le> n) \<and>
     (case pp_secondQuestionId pair of None \<Rightarrow> True
      | Some j \<Rightarrow> j \<in> set seen \<and> j \<noteq> pp_firstQuestionId pair)"

text \<open>The probe group of a served question is either new or the one that is due.\<close>

definition group_fresh :: "module_state \<Rightarrow> string \<Rightarrow> bool" where
  "group_fresh st grp \<longleftrightarrow>
     grp \<in> set (ms_servedProbeGroups st) \<and>
     (grp \<in> pp_group ` set (ms_probes st) \<longrightarrow>
        (\<exists>pair\<in>set (ms_probes st). pp_group pair = grp \<and> pair_due (ms_answered st) pair))"

definition served_ok :: "bank \<Rightarrow> module_state \<Rightarrow> string \<Rightarrow> bool" where
  "served_ok bank st i \<longleftrightarrow>
     i \<in> set (ms_seenQuestionIds st) \<and>
     (\<forall>pair\<in>set (ms_probes st). pp_firstQuestionId pair \<noteq> i) \<and>
     (\<forall>q\<in>set (bk_questions bank). q_id q = i \<longrightarrow>
        (\<forall>grp. truthy (q_probeGroup q) = Some grp \<longrightarrow> group_fresh st grp))"

definition run_counts :: "engine_run \<Rightarrow> bool" where
  "run_counts R \<longleftrightarrow>
     (let st = rn_state R in
      distinct (ms_seenQuestionIds st) \<and>
      length (ms_seenQuestionIds st) = ms_answered st + (if rn_served R = None then 0 else 1) \<and>
      length (ms_seenQuestionIds st) \<le> ms_questionCount st \<and>
      ms_correct st \<le> ms_answered st)"

definition run_probes :: "engine_run \<Rightarrow> bool" where
  "run_probes R \<longleftrightarrow>
     (let st = rn_state R in
      probes_wf st \<and>
      distinct (map pp_group (ms_probes st)) \<and>
      (\<forall>pair\<in>set (ms_probes st). pp_group pair \<in> set (ms_servedProbeGroups st)) \<and>
      (\<forall>pair\<in>set (ms_probes st).
         pair_timed (rn_sequence R) (ms_answered st) (ms_seenQuestionIds st) pair))"

definition run_inv :: "engine_run \<Rightarrow> bool" where
  "run_inv R \<longleftrightarrow>
     distinct (map q_id (bk_questions (rn_bank R))) \<and> run_counts R \<and> run_probes R \<and>
     (case rn_served R of None \<Rightarrow> True | Some i \<Rightarrow> served_ok (rn_bank R) (rn_state R) i)"

lemma run_inv_initial:
  "distinct (map q_id (bk_questions bank)) \<Longrightarrow> run_inv (initial_run bank config n)"
  by (simp add: run_inv_def initial_run_def run_counts_def run_probes_def createModuleState_def
      module_run_config.defs probes_wf_def)

subsection \<open>Serving\<close>

lemma markProbeServed_frame [simp]:
  "ms_answered (markProbeServed q st) = ms_answered st"
  "ms_correct (markProbeServed q st) = ms_correct st"
  "ms_seenQuestionIds (markProbeServed q st) = ms_seenQuestionIds st"
  "ms_probes (markProbeServed q st) = ms_probes st"
  "ms_questionCount (markProbeServed q st) = ms_questionCount st"
  "ms_recentAbilities (markProbeServed q st) = ms_recentAbilities st"
  "ms_ability (markProbeServed q st) = ms_ability st"
  "ms_information (markProbeServed q st) = ms_information st"
  "ms_traitTallies (markProbeServed q st) = ms_traitTallies st"
  "ms_patternCounts (markProbeServed q st) = ms_patternCounts st"
  "ms_status (markProbeServed q st) = ms_status st"
  "ms_startedAt (markProbeServed q st) = ms_startedAt st"
  "ms_deadlineAt (markProbeServed q st) = ms_deadlineAt st"
  "ms_completedAt (markProbeServed q st) = ms_completedAt st"
  "ms_stopReason (markProbeServed q st) = ms_stopReason st"
  "ms_scoringType (markProbeServed q st) = ms_scoringType st"
  "module_run_config.truncate (markProbeServed q st) = module_run_config.truncate st"
  by (simp_all add: markProbeServed_def markServed_def module_run_config.truncate_def split: option.split)

lemma served_groups_serve:
  "set (ms_servedProbeGroups (serve_question q st)) =
   set (ms_servedProbeGroups st) \<union> (case truthy (q_probeGroup q) of None \<Rightarrow> {} | Some g \<Rightarrow> {g})"
  by (auto simp: serve_question_def markProbeServed_def markServed_def split: option.split)

lemma nextStep_serves:
  assumes "nextStep bank st now r = (NextQuestion q, r')"
  shows "ms_answered st < ms_questionCount st" "\<not> deadline_passed st now"
    "\<exists>r0. selectNext bank st r = (Some q, r0)"
  using assms shouldStop_cases(1)[of st now]
  by (auto simp: nextStep_def Let_def split: if_splits prod.splits option.splits)

lemma probes_wf_cong:
  "ms_probes st = ms_probes st' \<Longrightarrow> ms_questionCount st = ms_questionCount st' \<Longrightarrow>
   probes_wf st \<longleftrightarrow> probes_wf st'"
  by (simp add: probes_wf_def)

lemma pair_timed_mono:
  "pair_timed n a seen pair \<Longrightarrow> n \<le> m \<Longrightarrow> set seen \<subseteq> set seen' \<Longrightarrow> pair_timed m a seen' pair"
  by (auto simp: pair_timed_def split: option.splits)

lemma run_inv_serve:
  assumes inv: "run_inv R" and none: "rn_served R = None"
    and nxt: "nextStep (rn_bank R) (rn_state R) now r = (NextQuestion q, r')"
  shows "run_inv (R\<lparr>rn_state := serve_question q (rn_state R), rn_served := Some (q_id q)\<rparr>)"
proof -
  let ?st = "rn_state R"
  have dist: "distinct (map q_id (bk_questions (rn_bank R)))"
    and counts: "run_counts R" and probes: "run_probes R"
    using inv by (auto simp: run_inv_def)
  obtain r0 where "selectNext (rn_bank R) ?st r = (Some q, r0)"
    using nextStep_serves(3)[OF nxt] by blast
  then have q: "q \<in> set (bk_questions (rn_bank R))" "eligible (rn_bank R) ?st q"
    using selectNext_eligible[OF dist] by blast+
  have unseen: "q_id q \<notin> set (ms_seenQuestionIds ?st)" using q(2) by (simp add: eligible_def)
  have fresh: "group_fresh (serve_question q ?st) g" if g: "truthy (q_probeGroup q) = Some g" for g
  proof -
    have g': "q_probeGroup q = Some g" "g \<noteq> ''''" using g by (auto simp: truthy_def split: if_splits)
    have "\<exists>pair\<in>set (ms_probes ?st). pp_group pair = g \<and> pair_due (ms_answered ?st) pair"
      if "g \<in> pp_group ` set (ms_probes ?st)"
    proof -
      from eligible_twin_due[OF q(2) g'(1) _ g'(2)] that have "dueTwin ?st = Some g" by blast
      then show ?thesis by (auto simp: dueTwin_def find_Some_iff)
    qed
    with g show ?thesis
      unfolding group_fresh_def served_groups_serve by (auto simp: serve_question_def)
  qed
  have "run_counts (R\<lparr>rn_state := serve_question q ?st, rn_served := Some (q_id q)\<rparr>)"
    using counts none unseen nextStep_serves(1)[OF nxt]
    by (simp add: run_counts_def Let_def serve_question_def)
  moreover have "run_probes (R\<lparr>rn_state := serve_question q ?st, rn_served := Some (q_id q)\<rparr>)"
  proof -
    have "probes_wf (serve_question q ?st) = probes_wf ?st"
      by (rule probes_wf_cong) (simp_all add: serve_question_def)
    then show ?thesis
      using probes
      by (auto simp: run_probes_def Let_def served_groups_serve intro: pair_timed_mono)
        (auto simp: serve_question_def intro: pair_timed_mono)
  qed
  moreover have "served_ok (rn_bank R) (serve_question q ?st) (q_id q)"
  proof -
    have "q' = q" if "q' \<in> set (bk_questions (rn_bank R))" "q_id q' = q_id q" for q'
      using that q(1) dist by (auto simp: distinct_map inj_on_def)
    then show ?thesis
      using unseen probes fresh
      by (auto simp: served_ok_def serve_question_def run_probes_def Let_def pair_timed_def)
  qed
  ultimately show ?thesis using dist by (simp add: run_inv_def)
qed

subsection \<open>Answering\<close>

text \<open>An accepted answer changes the pairs by one \<open>record_probe\<close> after the count has grown.\<close>

lemma recordAnswer_probes:
  assumes "recordAnswer bank st q ans n = Inr (out, st', bank')"
  obtains st1 sig where "st' = registerProbe q n sig st1" "ms_probes st1 = ms_probes st"
    "ms_answered st1 = ms_answered st + 1" "ms_questionCount st1 = ms_questionCount st"
    "sig = SigUnanswered \<longleftrightarrow> ans = AnsUnanswered"
  using assms
proof (cases rule: recordAnswer_cases)
  case (objective details c)
  show thesis
    by (rule that[OF objective(4)[unfolded score_objective_def Let_def]])
      (simp_all add: signature_of_def trackAbility_def Let_def)
next
  case (trait details result ranges)
  show thesis
    by (rule that[OF trait(6)[unfolded score_trait_def Let_def]])
      (simp_all add: signature_of_def trait(1))
qed

lemma run_inv_answer_counts:
  assumes rec: "recordAnswer bank st q ans n = Inr (out, st', bank')"
  shows "ms_questionCount st' = ms_questionCount st" "ms_answered st' = ms_answered st + 1"
    "ms_seenQuestionIds st' = ms_seenQuestionIds st"
    "ms_servedProbeGroups st' = ms_servedProbeGroups st"
    "ms_correct st' \<le> ms_correct st + 1"
  using recordAnswer_fields[OF rec] by (auto simp: module_run_config.truncate_def)

text \<open>The pairs after recording, when the group was served fresh.\<close>

lemma distinct_group_unique:
  "distinct (map pp_group ps) \<Longrightarrow> a \<in> set ps \<Longrightarrow> b \<in> set ps \<Longrightarrow> pp_group a = pp_group b \<Longrightarrow> a = b"
  by (auto simp: distinct_map inj_on_def)

lemma update_first_groups:
  "map pp_group (update_first P (\<lambda>pair. close_pair pair i n sig) ps) = map pp_group ps"
  by (rule map_update_first) (simp add: close_pair_def Let_def)

lemma pair_timed_close:
  assumes "pair_timed n a seen pair" and "pair_due a pair" and "n \<le> m"
    and "i \<in> set seen" and "pp_firstQuestionId pair \<noteq> i"
  shows "pair_timed (Suc m) (Suc a) seen (close_pair pair i (Suc m) sig)"
  using assms by (auto simp: pair_timed_def pair_due_def close_pair_def Let_def)

lemma pair_timed_age:
  "pair_timed n a seen pair \<Longrightarrow> pair_timed (Suc n) (Suc a) seen pair"
  by (auto simp: pair_timed_def split: option.splits)

lemma pair_timed_new:
  "i \<in> set seen \<Longrightarrow> pair_timed n a seen (new_pair grp i n sig a)"
  by (simp add: pair_timed_def new_pair_def)

lemma record_probe_timed:
  assumes inv: "\<forall>pair\<in>set (ms_probes st). pair_timed n a (seen) pair"
    and dist: "distinct (map pp_group (ms_probes st))"
    and a: "ms_answered st = Suc a"
    and fresh: "grp \<in> pp_group ` set (ms_probes st) \<longrightarrow>
        (\<exists>pair\<in>set (ms_probes st). pp_group pair = grp \<and> pair_due a pair)"
    and i: "i \<in> set seen" "\<forall>pair\<in>set (ms_probes st). pp_firstQuestionId pair \<noteq> i"
  shows "\<forall>pair\<in>set (ms_probes (record_probe grp i (Suc n) sig st)). pair_timed (Suc n) (Suc a) seen pair"
    and "distinct (map pp_group (ms_probes (record_probe grp i (Suc n) sig st)))"
proof -
  show "\<forall>pair\<in>set (ms_probes (record_probe grp i (Suc n) sig st)). pair_timed (Suc n) (Suc a) seen pair"
  proof (cases "list_ex (open_for grp) (ms_probes st)")
    case True
    have "pair_timed (Suc n) (Suc a) seen (close_pair pair i (Suc n) sig)"
      if that: "pair \<in> set (ms_probes st)" "open_for grp pair" for pair
    proof -
      have "grp \<in> pp_group ` set (ms_probes st)"
        using that by (auto simp: open_for_def)
      with fresh obtain due where due: "due \<in> set (ms_probes st)" "pp_group due = grp" "pair_due a due"
        by blast
      then have "pair = due" using distinct_group_unique[OF dist] that by (simp add: open_for_def)
      with due inv i that show ?thesis by (auto intro: pair_timed_close)
    qed
    note closed = this
    show ?thesis
    proof
      fix p assume "p \<in> set (ms_probes (record_probe grp i (Suc n) sig st))"
      then consider "p \<in> set (ms_probes st)"
        | pair where "p = close_pair pair i (Suc n) sig" "pair \<in> set (ms_probes st)" "open_for grp pair"
        using True set_update_first[of "open_for grp" "\<lambda>pair. close_pair pair i (Suc n) sig" "ms_probes st"]
        by (auto simp: record_probe_def)
      then show "pair_timed (Suc n) (Suc a) seen p"
        using inv closed by cases (auto intro: pair_timed_age)
    qed
  next
    case False
    with inv i a show ?thesis
      by (auto simp: record_probe_def intro: pair_timed_age pair_timed_new)
  qed
  have "grp \<notin> pp_group ` set (ms_probes st)" if "\<not> list_ex (open_for grp) (ms_probes st)"
    using fresh that by (auto simp: list_ex_iff open_for_def pair_due_def pair_open_def)
  with dist show "distinct (map pp_group (ms_probes (record_probe grp i (Suc n) sig st)))"
    by (auto simp: record_probe_def update_first_groups) (auto simp: new_pair_def)
qed

lemma record_probe_groups:
  "pp_group ` set (ms_probes (record_probe grp i n sig st)) \<subseteq> insert grp (pp_group ` set (ms_probes st))"
proof -
  have "pp_group ` set (update_first P (\<lambda>pair. close_pair pair i n sig) ps) = pp_group ` set ps" for P ps
    by (metis update_first_groups list.set_map)
  then show ?thesis by (auto simp: record_probe_def new_pair_def)
qed

lemma registerProbe_probes:
  assumes "ms_probes st1 = ms_probes st" "ms_answered st1 = Suc (ms_answered st)"
    "ms_questionCount st1 = ms_questionCount st"
    and inv: "run_probes R" "st = rn_state R" "n = rn_sequence R"
    and served: "served_ok bank st (q_id q)" and mem: "q \<in> set (bk_questions bank)"
  shows "let st' = registerProbe q (Suc n) sig st1 in
    probes_wf st' \<and> distinct (map pp_group (ms_probes st')) \<and>
    (\<forall>pair\<in>set (ms_probes st'). pp_group pair \<in> set (ms_servedProbeGroups st)) \<and>
    (\<forall>pair\<in>set (ms_probes st'). pair_timed (Suc n) (Suc (ms_answered st)) (ms_seenQuestionIds st) pair)"
proof (cases "truthy (q_probeGroup q)")
  case None
  then have "registerProbe q (Suc n) sig st1 = st1" by (simp add: registerProbe_def)
  moreover have "probes_wf st1" using assms(1,3) inv probes_wf_cong[of st1 st]
    by (simp add: run_probes_def Let_def)
  ultimately show ?thesis
    using inv assms(1) by (auto simp: run_probes_def Let_def intro: pair_timed_age)
next
  case (Some grp)
  then have reg: "registerProbe q (Suc n) sig st1 = record_probe grp (q_id q) (Suc n) sig st1"
    by (simp add: registerProbe_def)
  have fresh: "group_fresh st grp" using served mem Some by (auto simp: served_ok_def)
  have wf: "probes_wf st1" using assms(1,3) inv probes_wf_cong[of st1 st]
    by (simp add: run_probes_def Let_def)
  have "\<forall>pair\<in>set (ms_probes st1). pair_timed n (ms_answered st) (ms_seenQuestionIds st) pair"
    "distinct (map pp_group (ms_probes st1))"
    using inv assms(1) by (simp_all add: run_probes_def Let_def)
  note timed = record_probe_timed[OF this, where grp = grp and i = "q_id q" and sig = sig]
  have "(\<forall>pair\<in>set (ms_probes (record_probe grp (q_id q) (Suc n) sig st1)).
          pair_timed (Suc n) (Suc (ms_answered st)) (ms_seenQuestionIds st) pair) \<and>
        distinct (map pp_group (ms_probes (record_probe grp (q_id q) (Suc n) sig st1)))"
    using fresh served assms(1,2) by (intro conjI timed) (auto simp: group_fresh_def served_ok_def)
  moreover have "\<forall>pair\<in>set (ms_probes (record_probe grp (q_id q) (Suc n) sig st1)).
      pp_group pair \<in> set (ms_servedProbeGroups st)"
    using record_probe_groups[of grp "q_id q" "Suc n" sig st1] fresh inv assms(1)
    by (auto simp: group_fresh_def run_probes_def Let_def)
  ultimately show ?thesis
    unfolding reg Let_def using record_probe_wf[OF wf] by simp
qed

lemma find_question_Some:
  "find_question bank i = Some q \<Longrightarrow> q \<in> set (bk_questions bank) \<and> q_id q = i"
  by (auto simp: find_question_def find_Some_iff)

lemma run_inv_answer:
  assumes inv: "run_inv R" and i: "rn_served R = Some i" and q: "find_question (rn_bank R) i = Some q"
    and rec: "recordAnswer (rn_bank R) (rn_state R) q ans (Suc (rn_sequence R)) = Inr (out, st', bank')"
  shows "run_inv \<lparr>rn_bank = bank', rn_state = st', rn_served = None, rn_sequence = Suc (rn_sequence R)\<rparr>"
proof -
  have dist: "distinct (map q_id (bk_questions (rn_bank R)))"
    and counts: "run_counts R" and probes: "run_probes R"
    and served: "served_ok (rn_bank R) (rn_state R) i"
    using inv i by (auto simp: run_inv_def)
  have dist': "distinct (map q_id (bk_questions bank'))"
    by (rule recordAnswer_bank[OF rec dist])
  note fields = run_inv_answer_counts[OF rec]
  obtain st1 sig where st1: "st' = registerProbe q (Suc (rn_sequence R)) sig st1"
    "ms_probes st1 = ms_probes (rn_state R)" "ms_answered st1 = ms_answered (rn_state R) + 1"
    "ms_questionCount st1 = ms_questionCount (rn_state R)"
    using recordAnswer_probes[OF rec] by metis
  have "let st' = registerProbe q (Suc (rn_sequence R)) sig st1 in
    probes_wf st' \<and> distinct (map pp_group (ms_probes st')) \<and>
    (\<forall>pair\<in>set (ms_probes st'). pp_group pair \<in> set (ms_servedProbeGroups (rn_state R))) \<and>
    (\<forall>pair\<in>set (ms_probes st'). pair_timed (Suc (rn_sequence R)) (Suc (ms_answered (rn_state R)))
       (ms_seenQuestionIds (rn_state R)) pair)"
    using st1(2-4) find_question_Some[OF q] served
    by (intro registerProbe_probes[OF _ _ _ probes]) auto
  then have "run_probes \<lparr>rn_bank = bank', rn_state = st', rn_served = None,
      rn_sequence = Suc (rn_sequence R)\<rparr>"
    using fields by (simp add: run_probes_def Let_def flip: st1(1))
  moreover have "run_counts \<lparr>rn_bank = bank', rn_state = st', rn_served = None,
      rn_sequence = Suc (rn_sequence R)\<rparr>"
    using counts i fields by (auto simp: run_counts_def Let_def)
  ultimately show ?thesis using dist' by (simp add: run_inv_def)
qed

subsection \<open>The invariant holds in every reachable state\<close>

lemma run_inv_elsewhere:
  assumes inv: "run_inv R" and ev: "bank_evolves (rn_served R) (rn_bank R) bank'" and n: "rn_sequence R \<le> n"
  shows "run_inv (R\<lparr>rn_bank := bank', rn_sequence := n\<rparr>)"
proof -
  have "served_ok bank' (rn_state R) i" if ok: "served_ok (rn_bank R) (rn_state R) i" and i: "rn_served R = Some i" for i
  proof -
    have "group_fresh (rn_state R) grp"
      if q': "q' \<in> set (bk_questions bank')" "q_id q' = i" "truthy (q_probeGroup q') = Some grp" for q' grp
    proof -
      obtain q where "q \<in> set (bk_questions (rn_bank R))" "q_id q = i" "q_probeGroup q = q_probeGroup q'"
        using ev q' unfolding bank_evolves_def i by fastforce
      with ok q'(3) show ?thesis unfolding served_ok_def by metis
    qed
    with ok show ?thesis unfolding served_ok_def by blast
  qed
  moreover have "run_probes (R\<lparr>rn_bank := bank', rn_sequence := n\<rparr>)"
    using inv n by (auto simp: run_inv_def run_probes_def Let_def intro: pair_timed_mono)
  ultimately show ?thesis
    using inv ev by (auto simp: run_inv_def run_counts_def bank_evolves_def split: option.splits)
qed

lemma run_inv_step:
  assumes "engine_step R R'" and "run_inv R"
  shows "run_inv R'"
  using assms(1)
proof (cases rule: engine_step.cases)
  case (serve now r q r')
  with assms(2) show ?thesis by (auto intro: run_inv_serve)
next
  case (answer i q ans out st' bank')
  with assms(2) show ?thesis by (auto intro: run_inv_answer)
next
  case (elsewhere bank' n)
  with assms(2) show ?thesis by (auto intro: run_inv_elsewhere)
qed

lemma reachable_run_inv: "reachable_run bank config n R \<Longrightarrow> run_inv R"
  by (induction rule: reachable_run.induct) (auto intro: run_inv_initial run_inv_step)

end
