(* ===== verification/Engine_Properties.thy ===== *)
theory Engine_Properties
  imports Engine_Run
begin

section \<open>The properties of the adaptive engine\<close>

text \<open>
  What makes the engine correct, stated over the definitions of its components, each
  with a concrete instance where it has hypotheses. The sample data below serve those
  instances: two trade-off options, a ranking of three, a bank of two questions.
\<close>

definition sample_trade_off :: personality_details where
  "sample_trade_off =
     \<lparr>pd_options = [\<lparr>po_key = ''A'', po_text = ''lead'', po_traitWeights = [(''drive'', 2)]\<rparr>,
                    \<lparr>po_key = ''B'', po_text = ''listen'', po_traitWeights = [(''drive'', -1)]\<rparr>],
      pd_pattern = Some TRADE_OFF, pd_timesUsed = 0\<rparr>"

definition sample_ranking :: personality_details where
  "sample_ranking =
     \<lparr>pd_options = [\<lparr>po_key = ''A'', po_text = ''plan'', po_traitWeights = [(''order'', 3)]\<rparr>,
                    \<lparr>po_key = ''B'', po_text = ''act'', po_traitWeights = [(''order'', -2), (''drive'', 1)]\<rparr>,
                    \<lparr>po_key = ''C'', po_text = ''ask'', po_traitWeights = [(''care'', 2)]\<rparr>],
      pd_pattern = Some RANKING, pd_timesUsed = 0\<rparr>"

definition sample_mcq :: "string \<Rightarrow> int \<Rightarrow> question" where
  "sample_mcq i difficulty =
     \<lparr>q_id = i, q_moduleId = ''m'', q_questionText = ''2 + 2?'', q_status = ACTIVE,
      q_probeGroup = None, q_isSample = False, q_organisationId = Some ''org'',
      q_forkedFromId = None,
      q_mcqDetails = Some \<lparr>md_options = [\<lparr>mo_key = ''A'', mo_text = ''4''\<rparr>, \<lparr>mo_key = ''B'', mo_text = ''5''\<rparr>],
        md_correctOption = ''A'', md_difficultyScore = difficulty, md_timesUsed = 0, md_timesCorrect = 0\<rparr>,
      q_personalityDetails = None\<rparr>"

definition sample_bank :: bank where
  "sample_bank = \<lparr>bk_questions = [sample_mcq ''q1'' 1000, sample_mcq ''q2'' 1200], bk_pool = []\<rparr>"

definition sample_config :: "scoring_type \<Rightarrow> module_run_config" where
  "sample_config scoring =
     \<lparr>ms_moduleId = ''m'', ms_organisationId = ''org'', ms_assessmentId = ''a'',
      ms_poolRestricted = False, ms_slug = ''numeracy'', ms_name = ''Numeracy'',
      ms_description = None, ms_scoringType = scoring, ms_traits = [], ms_questionCount = 2,
      ms_timeLimitSeconds = 600\<rparr>"

definition sample_state :: module_state where
  "sample_state = createModuleState (sample_config OBJECTIVE)"

lemmas sample_defs = sample_trade_off_def sample_ranking_def sample_mcq_def sample_bank_def
  sample_config_def sample_state_def createModuleState_def module_run_config.defs

lemma sample_good: "good_question sample_trade_off" "good_question sample_ranking"
  by (auto simp: good_question_def well_formed_details_def sample_defs well_keyed_def)

subsection \<open>A module run\<close>

text \<open>C1: In every state a module run can reach, whatever the interleaving with other
  candidates and editors, no question has been served twice, each served question is
  answered except the one on screen, the configured question count is never exceeded and
  no more answers are correct than were given.\<close>

theorem run_never_repeats:
  assumes "reachable_run bank config n R"
  shows "distinct (ms_seenQuestionIds (rn_state R)) \<and>
    length (ms_seenQuestionIds (rn_state R))
      = ms_answered (rn_state R) + (if rn_served R = None then 0 else 1) \<and>
    length (ms_seenQuestionIds (rn_state R)) \<le> ms_questionCount (rn_state R) \<and>
    ms_correct (rn_state R) \<le> ms_answered (rn_state R)"
  using reachable_run_inv[OF assms] by (simp add: run_inv_def run_counts_def Let_def)

theorem run_never_repeats_witness:
  "distinct (ms_seenQuestionIds (rn_state (initial_run sample_bank (sample_config OBJECTIVE) 0))) \<and>
   ms_correct (rn_state (initial_run sample_bank (sample_config OBJECTIVE) 0)) = 0"
proof -
  have "reachable_run sample_bank (sample_config OBJECTIVE) 0
      (initial_run sample_bank (sample_config OBJECTIVE) 0)"
    by (rule reachable_run.start) (simp add: sample_defs)
  from run_never_repeats[OF this] show ?thesis
    by (simp add: initial_run_def sample_defs)
qed

text \<open>C4: In every reachable state of a module run there are at most two probe pairs, of
  different groups; the second half of a pair is another question than the first, it is
  answered at least nine positions later (eight other answers in between), and the pair
  carries exactly the comparison of its two halves. Meanwhile authors may do anything to the
  bank but move the question that is on screen to another probe group.\<close>

theorem probe_pairs_spaced:
  assumes "reachable_run bank config n R"
  shows "length (ms_probes (rn_state R)) \<le> 2 \<and> distinct (map pp_group (ms_probes (rn_state R))) \<and>
    (\<forall>pair\<in>set (ms_probes (rn_state R)). \<forall>j s sig.
       pp_secondQuestionId pair = Some j \<and> pp_secondSequence pair = Some s \<and> pp_second pair = Some sig \<longrightarrow>
       j \<noteq> pp_firstQuestionId pair \<and> pp_firstSequence pair + 9 \<le> s \<and> s \<le> rn_sequence R \<and>
       pp_agreement pair = cmp_agreement (compare (pp_first pair) sig))"
proof -
  have inv: "run_probes R" using reachable_run_inv[OF assms] by (simp add: run_inv_def)
  then have pairs: "pair_wf (ms_questionCount (rn_state R)) pair"
    "pair_timed (rn_sequence R) (ms_answered (rn_state R)) (ms_seenQuestionIds (rn_state R)) pair"
    if "pair \<in> set (ms_probes (rn_state R))" for pair
    using that by (auto simp: run_probes_def Let_def probes_wf_def list_all_iff)
  have "length (ms_probes (rn_state R)) \<le> 2" "distinct (map pp_group (ms_probes (rn_state R)))"
    using inv by (auto simp: run_probes_def Let_def probes_wf_def PROBE_MAX_PAIRS_def)
  moreover have "j \<noteq> pp_firstQuestionId pair \<and> pp_firstSequence pair + 9 \<le> s \<and> s \<le> rn_sequence R \<and>
      pp_agreement pair = cmp_agreement (compare (pp_first pair) sig)"
    if "pair \<in> set (ms_probes (rn_state R))" "pp_secondQuestionId pair = Some j"
      "pp_secondSequence pair = Some s" "pp_second pair = Some sig" for pair j s sig
    using pairs[OF that(1)] that(2-4) by (simp add: pair_timed_def pair_wf_def PROBE_GAP_QUESTIONS_def)
  ultimately show ?thesis by blast
qed

text \<open>
  A run that closes a pair: ten questions, each the only one of the bank when it is asked,
  the first and the last of one group.
\<close>

definition one_question :: "string \<Rightarrow> string option \<Rightarrow> question" where
  "one_question i grp = (sample_mcq i 1000)\<lparr>q_probeGroup := grp\<rparr>"

definition bank_of_one :: "question \<Rightarrow> bank" where
  "bank_of_one q = \<lparr>bk_questions = [q], bk_pool = []\<rparr>"

definition long_config :: module_run_config where
  "long_config = (sample_config OBJECTIVE)\<lparr>ms_questionCount := 20\<rparr>"

definition going :: "nat \<Rightarrow> string set \<Rightarrow> string set \<Rightarrow> probe_pair list \<Rightarrow> engine_run \<Rightarrow> bool" where
  "going k ids groups pairs R \<longleftrightarrow>
     reachable_run sample_bank long_config 0 R \<and> rn_served R = None \<and> rn_sequence R = k \<and>
     ms_answered (rn_state R) = k \<and> set (ms_seenQuestionIds (rn_state R)) = ids \<and>
     set (ms_servedProbeGroups (rn_state R)) = groups \<and> ms_probes (rn_state R) = pairs \<and>
     module_run_config.truncate (rn_state R) = long_config \<and> ms_deadlineAt (rn_state R) = None"

lemma going_initial: "going 0 {} {} [] (initial_run sample_bank long_config 0)"
proof -
  have "reachable_run sample_bank long_config 0 (initial_run sample_bank long_config 0)"
    by (rule reachable_run.start) (simp add: sample_defs)
  then show ?thesis
    by (simp add: going_def initial_run_def long_config_def sample_defs module_run_config.truncate_def)
qed

lemma serves_the_only_question:
  assumes "eligible (bank_of_one q) st q" and "usable (ms_scoringType st) q"
    and "ms_answered st < ms_questionCount st" and "ms_deadlineAt st = None"
  shows "\<exists>r'. nextStep (bank_of_one q) st now r = (NextQuestion q, r')"
proof -
  have dist: "distinct (map q_id (bk_questions (bank_of_one q)))" by (simp add: bank_of_one_def)
  have "fst (selectNext (bank_of_one q) st r) \<noteq> None"
    using assms(1,2) selectNext_exhausted[OF dist, of st r] by (simp add: bank_typed_def bank_of_one_def)
  then obtain p r1 where sel: "selectNext (bank_of_one q) st r = (Some p, r1)"
    by (cases "selectNext (bank_of_one q) st r") auto
  with selectNext_eligible[OF dist sel] have "p = q" by (simp add: bank_of_one_def)
  with sel show ?thesis
    using assms(3,4) by (simp add: nextStep_def shouldStop_def CONTINUE_def deadline_passed_def)
qed

lemma going_on:
  assumes "going k ids groups pairs R" and "k < 20" and "i \<notin> ids"
    and "\<And>g. grp = Some g \<Longrightarrow> g \<noteq> '''' \<and> g \<notin> set (blockedGroups (rn_state R))"
  obtains R' sig st1 where "going (Suc k) (insert i ids) (groups \<union> set_option grp)
      (case grp of None \<Rightarrow> pairs | Some g \<Rightarrow> ms_probes (record_probe g i (Suc k) sig st1)) R'"
    "sig \<noteq> SigUnanswered" "ms_probes st1 = pairs" "ms_answered st1 = Suc k" "ms_questionCount st1 = 20"
proof -
  let ?q = "one_question i grp" and ?st = "rn_state R"
  let ?R1 = "R\<lparr>rn_bank := bank_of_one ?q, rn_sequence := k\<rparr>"
  let ?R2 = "?R1\<lparr>rn_state := serve_question ?q ?st, rn_served := Some i\<rparr>"
  have g: "reachable_run sample_bank long_config 0 R" "rn_served R = None" "rn_sequence R = k"
    "ms_answered ?st = k" "set (ms_seenQuestionIds ?st) = ids" "set (ms_servedProbeGroups ?st) = groups"
    "ms_probes ?st = pairs" "ms_deadlineAt ?st = None" and cfg: "module_run_config.truncate ?st = long_config"
    using assms(1) by (simp_all add: going_def)
  from cfg have fields: "ms_moduleId ?st = ''m''" "ms_organisationId ?st = ''org''" "\<not> ms_poolRestricted ?st"
    "ms_scoringType ?st = OBJECTIVE" "ms_questionCount ?st = 20"
    by (auto simp: long_config_def sample_config_def module_run_config.truncate_def)
  have reach1: "reachable_run sample_bank long_config 0 ?R1"
    by (rule reachable_run.step[OF g(1) engine_step.elsewhere]) (simp_all add: bank_evolves_def bank_of_one_def g)
  have "eligible (bank_of_one ?q) ?st ?q"
    using assms(3,4) by (cases grp) (simp_all add: g fields eligible_def bank_of_one_def one_question_def
        sample_mcq_def visible_to_org_def question_is_servable_def truthy_def)
  then obtain r' where "nextStep (bank_of_one ?q) ?st 0 (\<lambda>_. 0) = (NextQuestion ?q, r')"
    using serves_the_only_question[of ?q ?st 0 "\<lambda>_. 0"] assms(2)
    by (auto simp: g fields usable_def one_question_def sample_mcq_def)
  then have "engine_step ?R1 (?R1\<lparr>rn_state := serve_question ?q (rn_state ?R1), rn_served := Some (q_id ?q)\<rparr>)"
    by (intro engine_step.serve) (simp_all add: g)
  from reachable_run.step[OF reach1 this] have reach2: "reachable_run sample_bank long_config 0 ?R2"
    by (simp add: one_question_def sample_mcq_def)
  have q: "truthy (q_probeGroup ?q) = grp" "q_id ?q = i"
    using assms(4) by (cases grp; simp add: one_question_def sample_mcq_def truthy_def)+
  have served: "module_run_config.truncate (serve_question ?q ?st) = long_config"
    "ms_answered (serve_question ?q ?st) = k" "set (ms_seenQuestionIds (serve_question ?q ?st)) = insert i ids"
    "ms_probes (serve_question ?q ?st) = pairs" "ms_deadlineAt (serve_question ?q ?st) = None"
    "ms_scoringType (serve_question ?q ?st) = OBJECTIVE" "ms_questionCount (serve_question ?q ?st) = 20"
  proof -
    have "module_run_config.truncate (?st\<lparr>ms_seenQuestionIds := xs\<rparr>) = module_run_config.truncate ?st" for xs
      by (simp add: module_run_config.truncate_def)
    then show "module_run_config.truncate (serve_question ?q ?st) = long_config" using cfg by (simp add: serve_question_def)
  qed (simp_all add: serve_question_def g fields q)
  have groups: "set (ms_servedProbeGroups (serve_question ?q ?st)) = groups \<union> set_option grp"
    by (simp add: served_groups_serve q g split: option.split)
  obtain d where d: "q_mcqDetails ?q = Some d" "''A'' \<in> mo_key ` set (md_options d)"
    by (simp add: one_question_def sample_mcq_def)
  have "\<exists>res. recordAnswer (bank_of_one ?q) (serve_question ?q ?st) ?q (AnsOption ''A'') (Suc k) = Inr res"
    using d by (auto simp: served recordAnswer_def recordObjectiveAnswer_def evaluateMcq_def assertKnownOption_def
        Let_def split: sum.split)
  then obtain out st' bank' where rec:
      "recordAnswer (bank_of_one ?q) (serve_question ?q ?st) ?q (AnsOption ''A'') (Suc k) = Inr (out, st', bank')"
    by (metis prod_cases3)
  let ?R3 = "\<lparr>rn_bank = bank', rn_state = st', rn_served = None, rn_sequence = Suc k\<rparr>"
  have "engine_step ?R2 \<lparr>rn_bank = bank', rn_state = st', rn_served = None, rn_sequence = Suc (rn_sequence ?R2)\<rparr>"
    using rec by (intro engine_step.answer[where i = i and q = ?q and ans = "AnsOption ''A''" and out = out])
      (simp_all add: find_question_def bank_of_one_def one_question_def sample_mcq_def)
  from reachable_run.step[OF reach2 this] have reach3: "reachable_run sample_bank long_config 0 ?R3" by simp
  have "\<exists>st1 sig. st' = registerProbe ?q (Suc k) sig st1 \<and> ms_probes st1 = pairs \<and>
      ms_answered st1 = Suc k \<and> ms_questionCount st1 = 20 \<and> sig \<noteq> SigUnanswered"
    by (rule recordAnswer_probes[OF rec], intro exI conjI, assumption, simp_all add: served)
  then obtain st1 sig where st1: "st' = registerProbe ?q (Suc k) sig st1" "ms_probes st1 = pairs"
      "ms_answered st1 = Suc k" "ms_questionCount st1 = 20" "sig \<noteq> SigUnanswered" by blast
  have "ms_probes st' = (case grp of None \<Rightarrow> pairs | Some g \<Rightarrow> ms_probes (record_probe g i (Suc k) sig st1))"
    using st1(1,2) assms(4) by (auto simp: registerProbe_def one_question_def sample_mcq_def truthy_def split: option.split)
  then have "going (Suc k) (insert i ids) (groups \<union> set_option grp)
      (case grp of None \<Rightarrow> pairs | Some g \<Rightarrow> ms_probes (record_probe g i (Suc k) sig st1)) ?R3"
    using reach3 recordAnswer_fields[OF rec] served groups by (simp add: going_def)
  with st1(2-) that show thesis by blast
qed

lemma going_plain:
  assumes "going k ids groups pairs R" and "k + n < 20" and "j \<notin> ids"
  shows "\<exists>R' ids'. going (k + n) ids' groups pairs R' \<and> j \<notin> ids'"
  using assms(2)
proof (induction n)
  case 0
  show ?case using assms(1,3) by auto
next
  case (Suc n)
  then obtain R' ids' where R': "going (k + n) ids' groups pairs R'" "j \<notin> ids'" by auto
  have "finite (insert j ids')" using R'(1) by (auto simp: going_def)
  then obtain i where i: "i \<notin> insert j ids'"
    using ex_new_if_finite[OF infinite_UNIV_listI] by blast
  obtain R2 where "going (Suc (k + n)) (insert i ids') groups pairs R2"
    by (rule going_on[OF R'(1), of i None]) (use Suc.prems i in auto)
  with i R'(2) show ?case by (intro exI[of _ R2] exI[of _ "insert i ids'"]) auto
qed

theorem probe_pairs_spaced_witness:
  "\<exists>R pair. reachable_run sample_bank long_config 0 R \<and> pair \<in> set (ms_probes (rn_state R)) \<and>
     pp_secondQuestionId pair = Some ''twin'' \<and> pp_secondSequence pair = Some 10 \<and> pp_firstSequence pair + 9 \<le> 10"
proof -
  obtain R1 sig st1 where R1: "going 1 {''first''} {''g''} (ms_probes (record_probe ''g'' ''first'' 1 sig st1)) R1"
    and s1: "sig \<noteq> SigUnanswered" "ms_probes st1 = []" "ms_answered st1 = 1" "ms_questionCount st1 = 20"
    by (rule going_on[OF going_initial, of "''first''" "Some ''g''"])
      (auto simp: initial_run_def sample_defs blockedGroups_def Let_def)
  have "ms_probes (record_probe ''g'' ''first'' 1 sig st1) = [new_pair ''g'' ''first'' 1 sig 1]"
    using s1 by (simp add: record_probe_def canOpenPair_def PROBE_MAX_PAIRS_def PROBE_GAP_QUESTIONS_def)
  with going_plain[OF R1, of 8 "''twin''"] obtain R2 ids2
    where R2: "going 9 ids2 {''g''} [new_pair ''g'' ''first'' 1 sig 1] R2" "''twin'' \<notin> ids2" by auto
  then have "''g'' \<notin> set (blockedGroups (rn_state R2))"
    by (auto simp: going_def blockedGroups_def dueTwin_def pair_due_def pair_open_def new_pair_def Let_def
        PROBE_GAP_QUESTIONS_def)
  note free = this
  obtain R3 sig2 st2 where R3: "going 10 (insert ''twin'' ids2) {''g''} (ms_probes (record_probe ''g'' ''twin'' 10 sig2 st2)) R3"
    and s2: "ms_probes st2 = [new_pair ''g'' ''first'' 1 sig 1]"
    by (rule going_on[OF R2(1), of "''twin''" "Some ''g''"]) (use free R2(2) in auto)
  have probes: "ms_probes (rn_state R3) = [close_pair (new_pair ''g'' ''first'' 1 sig 1) ''twin'' 10 sig2]"
    using R3 s2 by (simp add: going_def record_probe_def open_for_def pair_open_def new_pair_def)
  have reach: "reachable_run sample_bank long_config 0 R3" using R3 by (simp add: going_def)
  let ?p = "close_pair (new_pair ''g'' ''first'' 1 sig 1) ''twin'' 10 sig2"
  have p: "?p \<in> set (ms_probes (rn_state R3))" "pp_secondQuestionId ?p = Some ''twin''"
    "pp_secondSequence ?p = Some 10" "pp_second ?p = Some sig2"
    by (simp_all add: probes close_pair_def Let_def)
  with probe_pairs_spaced[OF reach] have "pp_firstSequence ?p + 9 \<le> 10" by blast
  with reach p show ?thesis by blast
qed

text \<open>
  The edit that is kept out: a question is judged by the group it has when it is answered,
  so moving the one on screen into the group of an open pair closes the pair at once.
\<close>

lemma regrouping_closes_a_pair_at_once:
  assumes "recordAnswer bank st q answer n = Inr (out, st', bank')"
    and "truthy (q_probeGroup q) = Some grp" and "pair \<in> set (ms_probes st)" "open_for grp pair"
    and "distinct (map pp_group (ms_probes st))"
  shows "\<exists>pair'\<in>set (ms_probes st'). pp_group pair' = grp \<and> pp_secondQuestionId pair' = Some (q_id q) \<and>
    pp_firstSequence pair' = pp_firstSequence pair \<and> pp_secondSequence pair' = Some n"
proof -
  obtain st1 sig where st1: "st' = registerProbe q n sig st1" "ms_probes st1 = ms_probes st"
    using recordAnswer_probes[OF assms(1)] by metis
  let ?close = "\<lambda>p. close_pair p (q_id q) n sig"
  have one: "p = pair" if "p \<in> set (ms_probes st)" "open_for grp p" for p
    using distinct_group_unique[OF assms(5) that(1) assms(3)] that(2) assms(4) by (simp add: open_for_def)
  have "?close pair \<in> set (update_first (open_for grp) ?close ps)"
    if "pair \<in> set ps" "set ps \<subseteq> set (ms_probes st)" for ps
    using that
  proof (induction ps)
    case (Cons p ps)
    then show ?case using one[of p] assms(4) by (cases "open_for grp p") auto
  qed simp
  moreover have "ms_probes st' = update_first (open_for grp) ?close (ms_probes st)"
    using assms(2-4) st1(2) by (auto simp: st1(1) registerProbe_def record_probe_def list_ex_iff)
  ultimately have "?close pair \<in> set (ms_probes st')" using assms(3) by simp
  moreover have "pp_group (?close pair) = grp \<and> pp_secondQuestionId (?close pair) = Some (q_id q) \<and>
      pp_firstSequence (?close pair) = pp_firstSequence pair \<and> pp_secondSequence (?close pair) = Some n"
    using assms(4) by (simp add: close_pair_def Let_def open_for_def)
  ultimately show ?thesis by (intro bexI)
qed

text \<open>The engine serves a question only before the deadline and below the question
  count, and the question is one the selector found; otherwise it completes the module:
  with TIME_EXPIRED exactly when the deadline has passed, with MAX_QUESTIONS exactly when
  it has not and the count is reached, and else, the pool being dry, with
  CONFIDENCE_REACHED or POOL_EXHAUSTED by whether the threshold is met.\<close>

theorem nextStep_decision:
  "fst (nextStep bank st now r) =
    (if deadline_passed st now then ModuleComplete TIME_EXPIRED
     else if ms_questionCount st \<le> ms_answered st then ModuleComplete MAX_QUESTIONS
     else (case fst (selectNext bank st r) of
             Some q \<Rightarrow> NextQuestion q
           | None \<Rightarrow> ModuleComplete (if thresholdMet st then CONFIDENCE_REACHED else POOL_EXHAUSTED)))"
  by (simp add: nextStep_def shouldStop_def CONTINUE_def Let_def split: prod.split option.split)

lemma recordAnswer_accepts_code:
  assumes "\<And>d. q_personalityDetails q = Some d \<Longrightarrow> good_question d"
  shows "(\<exists>res. recordAnswer bank st q answer n = Inr res) \<longleftrightarrow>
    (case ms_scoringType st of
       OBJECTIVE \<Rightarrow> (\<exists>d. q_mcqDetails q = Some d \<and>
         (answer = AnsUnanswered \<or> (\<exists>k. answer = AnsOption k \<and> k \<in> mo_key ` set (md_options d))))
     | TRAIT \<Rightarrow> (\<exists>d. q_personalityDetails q = Some d \<and>
         (case answer of AnsUnanswered \<Rightarrow> True
          | AnsOption k \<Rightarrow> \<not> is_ranking d \<and> k \<in> po_key ` set (pd_options d)
          | AnsRanking ks \<Rightarrow> is_ranking d \<and> mset ks = mset (map po_key (pd_options d)))))"
proof (cases "ms_scoringType st")
  case OBJECTIVE
  then show ?thesis
    by (auto simp: recordAnswer_def recordObjectiveAnswer_def evaluateMcq_def evaluateUnanswered_def
        bind_result_Inr Let_def assertKnownOption_def
        split: option.splits submitted_answer.splits sum.splits if_splits)
next
  case TRAIT
  note good = assms
  show ?thesis
  proof (cases "q_personalityDetails q")
    case None
    with TRAIT show ?thesis by (simp add: recordAnswer_def recordTraitAnswer_def)
  next
    case (Some d)
    have wf: "well_formed_details d" "distinct (option_keys d)"
      using good[OF Some] by (auto simp: good_question_def well_formed_details_def)
    obtain R where R: "achievableTraitRange d isR = Inr (R isR)" for isR
      using achievableTraitRange_ok[OF wf(1)] by metis
    have rank: "(\<exists>w. evaluateRanking d ks = Inr w) \<longleftrightarrow> mset ks = mset (option_keys d)" for ks
      by (rule evaluateRanking_accepts[OF wf(2)])
    have single: "(\<exists>w. evaluatePersonality d k = Inr w) \<longleftrightarrow> k \<in> po_key ` set (pd_options d)" for k
      using evaluatePersonality_known[of k d]
      by (auto simp: evaluatePersonality_def bind_result_Inr find_option_None split: option.splits)
        (auto dest!: find_option_Some)
    have "(\<exists>res. recordAnswer bank st q answer n = Inr res) \<longleftrightarrow>
        assertAnswerShape d answer = Inr () \<and> (\<exists>w. evaluateTrait TRAIT d answer = Inr w)"
      using TRAIT Some R
      by (auto simp: recordAnswer_def recordTraitAnswer_def answer_ranges_def bind_result_Inr
          split: sum.splits)
    also have "\<dots> \<longleftrightarrow> (case answer of AnsUnanswered \<Rightarrow> True
          | AnsOption k \<Rightarrow> \<not> is_ranking d \<and> k \<in> po_key ` set (pd_options d)
          | AnsRanking ks \<Rightarrow> is_ranking d \<and> mset ks = mset (map po_key (pd_options d)))"
      by (cases answer) (auto simp: assertAnswerShape_code evaluateTrait_def single rank)
    finally show ?thesis using TRAIT Some by simp
  qed
qed

text \<open>An answer is recorded or rejected, never half recorded. It is accepted exactly
  when the question carries the details of the module's scoring type and the answer suits
  the question: nothing at all, a known option of a single-choice question, or a complete
  ordering of the options of a ranking question. An objective module takes no ranking.\<close>

theorem recordAnswer_accepts:
  assumes "\<And>d. q_personalityDetails q = Some d \<Longrightarrow> good_question d"
  shows "(\<exists>res. recordAnswer bank st q answer n = Inr res) \<longleftrightarrow>
    (case ms_scoringType st of
       OBJECTIVE \<Rightarrow> (\<exists>d. q_mcqDetails q = Some d \<and>
         (answer = AnsUnanswered \<or> (\<exists>k. answer = AnsOption k \<and> k \<in> mo_key ` set (md_options d))))
     | TRAIT \<Rightarrow> (\<exists>d. q_personalityDetails q = Some d \<and>
         (case answer of AnsUnanswered \<Rightarrow> True
          | AnsOption k \<Rightarrow> \<not> is_ranking d \<and> k \<in> po_key ` set (pd_options d)
          | AnsRanking ks \<Rightarrow> is_ranking d \<and> mset ks = mset (map po_key (pd_options d)))))"
  using assms by (rule recordAnswer_accepts_code)

theorem recordAnswer_accepts_witness:
  "\<exists>res. recordAnswer sample_bank sample_state (sample_mcq ''q1'' 1000) (AnsOption ''B'') 1 = Inr res"
  using recordAnswer_accepts[of "sample_mcq ''q1'' 1000" sample_bank sample_state "AnsOption ''B''" 1]
  by (simp add: sample_defs)

text \<open>C5: Recording an answer to an objective question is a mirrored Elo match: the
  candidate's estimate moves towards the outcome by less than K (48 for the first five
  answers, 24 after), the item's stored difficulty is the opposite move scaled by 8 and
  rounded, and the row's counters grow by one use, and by one correct answer when it was.\<close>

theorem objective_answer_is_elo_match:
  assumes "recordAnswer bank st q answer n = Inr (out, st', bank')"
    and "ms_scoringType st = OBJECTIVE" and "q_mcqDetails q = Some d"
    and "c \<longleftrightarrow> answer = AnsOption (md_correctOption d)"
  shows "ao_isCorrect out = Some c \<and>
    \<bar>ms_ability st' - ms_ability st\<bar> < (if ms_answered st < 5 then 48 else 24) \<and>
    (if c then ms_ability st < ms_ability st' else ms_ability st' < ms_ability st) \<and>
    bank' = update_mcq_row (q_id q)
      (js_round (md_difficultyScore d
         - 8 * ((ms_ability st' - ms_ability st) / (if ms_answered st < 5 then 48 else 24)))) c bank"
  using assms(1)
proof (cases rule: recordAnswer_cases)
  case (objective details c')
  have d: "details = d" using objective(2) assms(3) by simp
  have c: "c' = c"
    using objective(3,7,8) assms(4) d by (cases answer) auto
  define e where "e = expectedScore (ms_ability st) (real_of_int (md_difficultyScore d))"
  define k :: real where "k = (if ms_answered st < 5 then 48 else 24)"
  have k: "0 < k" by (simp add: k_def)
  have e: "0 < e" "e < 1" unfolding e_def by (rule expectedScore_pos, rule expectedScore_less_1)
  have upd: "ability_update_step (ms_ability st) (real_of_int (md_difficultyScore d)) c (ms_answered st)
    = \<lparr>au_ability = ms_ability st + k * ((if c then 1 else 0) - e),
       au_questionDifficulty = real_of_int (md_difficultyScore d) + 8 * (e - (if c then 1 else 0)),
       au_expected = e\<rparr>"
    by (simp add: ability_update_step_def Let_def e_def k_def engine_constants)
  have st': "ms_ability st' = ms_ability st + k * ((if c then 1 else 0) - e)"
    using objective(4) d c upd by (simp add: score_objective_def Let_def)
  have "ao_isCorrect out = Some c" using objective(6) c by simp
  moreover have "\<bar>ms_ability st' - ms_ability st\<bar> < k"
    using st' k e by (simp add: abs_mult)
  moreover have "if c then ms_ability st < ms_ability st' else ms_ability st' < ms_ability st"
    using st' k e by simp
  moreover have "bank' = update_mcq_row (q_id q)
      (js_round (md_difficultyScore d - 8 * ((ms_ability st' - ms_ability st) / k))) c bank"
  proof -
    have ratio: "(ms_ability st' - ms_ability st) / k = (if c then 1 else 0) - e"
      using st' k by simp
    show ?thesis
      using objective(5) d c upd by (cases c) (simp_all add: ratio algebra_simps)
  qed
  ultimately show ?thesis by (simp add: k_def)
next
  case (trait details result ranges)
  with assms(2) show ?thesis by simp
qed

theorem objective_answer_is_elo_match_witness:
  "\<exists>out st' bank'. recordAnswer sample_bank sample_state (sample_mcq ''q1'' 1000) (AnsOption ''A'') 1
      = Inr (out, st', bank') \<and> ao_isCorrect out = Some True \<and>
    1000 < ms_ability st' \<and> ms_ability st' < 1048"
proof -
  obtain out st' bank' where rec: "recordAnswer sample_bank sample_state (sample_mcq ''q1'' 1000)
      (AnsOption ''A'') 1 = Inr (out, st', bank')"
    by (simp add: recordAnswer_def recordObjectiveAnswer_def evaluateMcq_def assertKnownOption_def
        sample_defs Let_def)
  obtain d where d: "q_mcqDetails (sample_mcq ''q1'' 1000) = Some d" "md_correctOption d = ''A''"
    by (simp add: sample_mcq_def)
  have st: "ms_scoringType sample_state = OBJECTIVE" "ms_ability sample_state = 1000"
    "ms_answered sample_state = 0"
    by (simp_all add: sample_defs STARTING_ABILITY_def)
  have "ao_isCorrect out = Some True" "\<bar>ms_ability st' - 1000\<bar> < 48" "1000 < ms_ability st'"
    using objective_answer_is_elo_match[OF rec st(1) d(1), of True] d(2) st(2,3) by auto
  with rec show ?thesis by auto
qed

subsection \<open>Selection\<close>

text \<open>C2: Whatever the random draws, the question served is an active row of the module
  that is no sample, belongs to the assessment's organisation or is a shared one the
  organisation has not forked, lies in the assessment's pool when there is one, has not been
  seen, and is a half of a touched probe pair only when that pair is the one now due.\<close>

theorem selectNext_serves_eligible:
  assumes "distinct (map q_id (bk_questions bank))" and "selectNext bank st r = (Some q, r')"
  shows "q \<in> set (bk_questions bank) \<and> q_moduleId q = ms_moduleId st \<and> q_status q = ACTIVE \<and>
    \<not> q_isSample q \<and>
    (q_organisationId q = Some (ms_organisationId st) \<or>
     q_organisationId q = None \<and>
       (\<forall>fork\<in>set (bk_questions bank). q_forkedFromId fork = Some (q_id q) \<longrightarrow>
          q_organisationId fork \<noteq> Some (ms_organisationId st))) \<and>
    (ms_poolRestricted st \<longrightarrow> (ms_assessmentId st, q_id q) \<in> set (bk_pool bank)) \<and>
    q_id q \<notin> set (ms_seenQuestionIds st) \<and>
    (\<forall>g. q_probeGroup q = Some g \<and> g \<noteq> '''' \<and>
         g \<in> set (ms_servedProbeGroups st) \<union> pp_group ` set (ms_probes st) \<longrightarrow> dueTwin st = Some g)"
proof -
  have q: "q \<in> set (bk_questions bank)" "eligible bank st q"
    using selectNext_eligible[OF assms] by blast+
  show ?thesis
    using q eligible_twin_due[OF q(2)]
    by (auto simp: eligible_def question_is_servable_def visible_to_org_def list_ex_iff)
qed

theorem selectNext_serves_eligible_witness:
  "\<exists>q r'. selectNext sample_bank sample_state (\<lambda>_. 1 / 4) = (Some q, r') \<and>
     q_id q \<notin> set (ms_seenQuestionIds sample_state)"
proof -
  have dist: "distinct (map q_id (bk_questions sample_bank))" by (simp add: sample_defs)
  have "eligible sample_bank sample_state (sample_mcq ''q1'' 1000)"
    by (simp add: eligible_def visible_to_org_def question_is_servable_def sample_defs)
  moreover have "bank_typed sample_bank sample_state"
    by (simp add: bank_typed_def usable_def sample_defs)
  ultimately have "fst (selectNext sample_bank sample_state (\<lambda>_. 1 / 4)) \<noteq> None"
    using selectNext_exhausted[OF dist, of sample_state "\<lambda>_. 1 / 4"]
    by (auto simp: sample_bank_def)
  then obtain q r' where "selectNext sample_bank sample_state (\<lambda>_. 1 / 4) = (Some q, r')"
    by (metis eq_fst_iff option.exhaust)
  with selectNext_serves_eligible[OF dist this] show ?thesis by blast
qed

text \<open>The selector comes back empty-handed only when no question of the bank may be
  served: every fallback (due twin, probe opener, thin trait, any trait, behavioural,
  legacy) is tried before the module is declared exhausted.\<close>

theorem selectNext_exhausts_the_bank:
  assumes "distinct (map q_id (bk_questions bank))"
    and "\<forall>q\<in>set (bk_questions bank). q_moduleId q = ms_moduleId st \<longrightarrow>
           (if ms_scoringType st = OBJECTIVE then q_mcqDetails q \<noteq> None
            else q_personalityDetails q \<noteq> None)"
  shows "fst (selectNext bank st r) = None \<longleftrightarrow> (\<forall>q\<in>set (bk_questions bank). \<not> eligible bank st q)"
  using selectNext_exhausted[OF assms(1), of st r] assms(2)
  by (auto simp: bank_typed_def usable_def)

theorem selectNext_exhausts_the_bank_witness:
  "fst (selectNext sample_bank (sample_state\<lparr>ms_seenQuestionIds := [''q1'', ''q2'']\<rparr>) (\<lambda>_. 1 / 4)) = None"
  using selectNext_exhausts_the_bank[of sample_bank
      "sample_state\<lparr>ms_seenQuestionIds := [''q1'', ''q2'']\<rparr>" "\<lambda>_. 1 / 4"]
  by (simp add: sample_defs eligible_def)

text \<open>An objective module draws one of the five servable questions whose difficulty is
  nearest the candidate's current estimate: fewer than five eligible questions are
  strictly nearer than the one drawn.\<close>

theorem objective_selection_is_adaptive:
  assumes "distinct (map q_id (bk_questions bank))" and "q \<in> set (bk_questions bank)"
    and "selectObjectiveId bank st False r = (Some (q_id q), r')"
  shows "q_mcqDetails q \<noteq> None \<and> eligible bank st q \<and>
    length (filter (\<lambda>x. eligible bank st x \<and> q_mcqDetails x \<noteq> None \<and>
                        difficulty_gap st x < difficulty_gap st q) (bk_questions bank)) < 5"
proof -
  let ?rows = "filter (\<lambda>x. q_mcqDetails x \<noteq> None) (baseQuery bank st False)"
  obtain x where x: "x \<in> set (objective_shortlist bank st False)" "q_id x = q_id q"
    using pickRandom_mem[OF assms(3)[unfolded selectObjectiveId_def]] by auto
  have mem: "x \<in> set ?rows" using x(1) unfolding objective_shortlist_def
    by (metis in_set_takeD set_sort)
  then have "x \<in> set (bk_questions bank)" by (auto simp: baseQuery_def)
  with x(2) assms(1,2) have "x = q" by (auto simp: distinct_map inj_on_def)
  with x(1) have "q \<in> set (take 5 (sort_key (difficulty_gap st) (sort_key mcq_times_used ?rows)))"
    by (simp add: objective_shortlist_def SELECTOR_SHORTLIST_SIZE_def)
  from sorted_limit_closest[OF this]
  have "length (filter (\<lambda>x. difficulty_gap st x < difficulty_gap st q) ?rows) < 5"
    by (metis (no_types) filter_sort length_sort)
  moreover have "filter (\<lambda>x. difficulty_gap st x < difficulty_gap st q) ?rows
    = filter (\<lambda>x. eligible bank st x \<and> q_mcqDetails x \<noteq> None \<and>
                  difficulty_gap st x < difficulty_gap st q) (bk_questions bank)"
    by (auto simp: baseQuery_def intro!: filter_cong)
  ultimately show ?thesis using mem \<open>x = q\<close> by (auto simp: baseQuery_def)
qed

theorem objective_selection_is_adaptive_witness:
  "\<exists>q r'. q \<in> set (bk_questions sample_bank) \<and>
     selectObjectiveId sample_bank sample_state False (\<lambda>_. 0) = (Some (q_id q), r') \<and>
     eligible sample_bank sample_state q"
proof -
  have elig: "eligible sample_bank sample_state q" if "q \<in> set (bk_questions sample_bank)" for q
    using that by (auto simp: eligible_def visible_to_org_def question_is_servable_def sample_defs)
  then have "objective_shortlist sample_bank sample_state False \<noteq> []"
    by (simp add: objective_shortlist_def query_Nil baseQuery_def filter_empty_conv)
      (auto simp: sample_bank_def sample_mcq_def)
  then obtain i r' where sel: "selectObjectiveId sample_bank sample_state False (\<lambda>_. 0) = (Some i, r')"
    by (simp add: selectObjectiveId_def pickRandom_def)
  then obtain q where q: "q \<in> set (bk_questions sample_bank)" "q_id q = i"
    using objective_rule.picked_row by blast
  have dist: "distinct (map q_id (bk_questions sample_bank))" by (simp add: sample_defs)
  from objective_selection_is_adaptive[OF dist q(1), of sample_state "\<lambda>_. 0" r'] sel q
  show ?thesis by blast
qed

text \<open>A trait module steers to the trait it knows least about and to the question format
  it has used least: the first rule of its fallback chain draws, when any exists, a
  servable question of that pattern with a weight for that trait.\<close>

theorem trait_selection_thinnest_first:
  assumes "leastCoveredTrait st = Some t" and "t \<noteq> ''''"
    and "pickBehavioral bank st (Some t) p r = (Some i, r')"
    and "\<exists>q\<in>set (bk_questions bank). eligible bank st q \<and> (p \<longrightarrow> q_probeGroup q \<noteq> None) \<and>
           question_pattern q = Some (leastUsedPattern st) \<and> traitWeightExists t q"
  shows "(\<exists>q\<in>set (bk_questions bank). q_id q = i \<and> eligible bank st q \<and>
            question_pattern q = Some (leastUsedPattern st) \<and> traitWeightExists t q) \<and>
    (\<forall>k\<in>set (reported_keys st). traitConfidence (obj_get (ms_traitTallies st) t)
        \<le> traitConfidence (obj_get (ms_traitTallies st) k)) \<and>
    (\<forall>pat. or_else (obj_get (ms_patternCounts st) (pattern_key (leastUsedPattern st))) 0
        \<le> or_else (obj_get (ms_patternCounts st) (pattern_key pat)) 0)"
proof -
  let ?rows = "behavioralQuery bank st (Some t) (Some (leastUsedPattern st)) p"
  obtain q0 where "q0 \<in> set (bk_questions bank)" "eligible bank st q0" "p \<longrightarrow> q_probeGroup q0 \<noteq> None"
    "question_pattern q0 = Some (leastUsedPattern st)" "traitWeightExists t q0"
    using assms(4) by blast
  then have "?rows \<noteq> []"
    using assms(2)
    by (auto simp: behavioralQuery_def query_Nil filter_empty_conv baseQuery_def trait_filter_def
        truthy_def question_pattern_def split: option.splits intro!: bexI[of _ q0])
  then have "pickRandom ?rows r = (Some i, r')"
    using assms(3) by (auto simp: pickBehavioral_def pickRandom_def split: prod.splits option.splits)
  then obtain q where q: "q \<in> set ?rows" "q_id q = i" by (auto dest: pickRandom_mem)
  then have "q \<in> set (bk_questions bank) \<and> eligible bank st q \<and>
      question_pattern q = Some (leastUsedPattern st) \<and> traitWeightExists t q"
    using assms(2) by (auto simp: behavioralQuery_def baseQuery_def trait_filter_def truthy_def
        dest!: in_set_takeD)
  with q(2) leastCoveredTrait_least[OF assms(1)] leastUsedPattern_least show ?thesis by blast
qed

definition sample_situational :: question where
  "sample_situational = (sample_mcq ''t1'' 0)\<lparr>q_mcqDetails := None,
     q_personalityDetails := Some (sample_trade_off\<lparr>pd_pattern := Some SITUATIONAL\<rparr>)\<rparr>"

definition sample_trait_state :: module_state where
  "sample_trait_state = (createModuleState (sample_config TRAIT))
     \<lparr>ms_traits := [\<lparr>td_key = ''drive'', td_label = ''Drive'', td_invertForReport = False\<rparr>]\<rparr>"

theorem trait_selection_thinnest_first_witness:
  "\<exists>i r'. pickBehavioral \<lparr>bk_questions = [sample_situational], bk_pool = []\<rparr> sample_trait_state
      (Some ''drive'') False (\<lambda>_. 0) = (Some i, r') \<and> i = ''t1''"
proof -
  let ?bank = "\<lparr>bk_questions = [sample_situational], bk_pool = []\<rparr>"
  have thin: "leastCoveredTrait sample_trait_state = Some ''drive''"
    by (simp add: leastCoveredTrait_def reported_keys_def sample_trait_state_def)
  have pat: "leastUsedPattern sample_trait_state = SITUATIONAL"
    by (simp add: leastUsedPattern_def all_patterns_def sample_trait_state_def sample_defs)
  have ex: "\<exists>q\<in>set (bk_questions ?bank). eligible ?bank sample_trait_state q \<and>
      (False \<longrightarrow> q_probeGroup q \<noteq> None) \<and>
      question_pattern q = Some (leastUsedPattern sample_trait_state) \<and> traitWeightExists ''drive'' q"
    unfolding pat
    by (simp add: eligible_def visible_to_org_def question_is_servable_def question_pattern_def
        traitWeightExists_def sample_situational_def sample_trait_state_def sample_defs)
  then have "behavioralQuery ?bank sample_trait_state (Some ''drive'') None False \<noteq> []"
    by (auto simp: behavioralQuery_def query_Nil filter_empty_conv baseQuery_def trait_filter_def
        truthy_def question_pattern_def split: option.splits)
  then obtain i r' where pick: "pickBehavioral ?bank sample_trait_state (Some ''drive'') False (\<lambda>_. 0) = (Some i, r')"
    using pickBehavioral_None[of ?bank sample_trait_state "Some ''drive''" False "\<lambda>_. 0"]
    by (metis eq_fst_iff option.exhaust)
  from trait_selection_thinnest_first[OF thin _ pick ex] have "i = ''t1''"
    by (auto simp: sample_situational_def sample_mcq_def)
  with pick show ?thesis by blast
qed

subsection \<open>Scoring\<close>

text \<open>C3: A question answered at random says nothing about a trait, on the scale the
  questions themselves set: averaged over every sequence of answers a candidate could give
  to a paper of well-formed questions (each option, or each ordering of a ranking), the
  trait score is exactly 50.\<close>

theorem random_answering_scores_fifty:
  assumes "\<forall>d\<in>set ds. good_question d"
  shows "mean (map (\<lambda>run. traitScore (obj_get (sitting_tallies run) t)) (sittings ds)) = 50"
  using assms by (rule random_mean)

theorem random_answering_scores_fifty_witness:
  "mean (map (\<lambda>run. traitScore (obj_get (sitting_tallies run) ''drive''))
     (sittings [sample_trade_off, sample_ranking])) = 50"
  using random_answering_scores_fifty[of "[sample_trade_off, sample_ranking]" "''drive''"]
  by (simp add: sample_good)

text \<open>The clamp of a trait score never acts on a real sitting: after any sequence of
  answers to well-formed questions the score of a trait is the affine image, chance at 50,
  of the sum of the weights the candidate chose between the worst and the best sum that was
  on offer, and so it is in 0..100.\<close>

theorem trait_score_on_scale:
  assumes "\<forall>d\<in>set ds. good_question d" and "run \<in> set (sittings ds)"
  shows "traitScore (obj_get (sitting_tallies run) t) =
      (let c = paper_sum mean t ds; spread = max (paper_sum js_max t ds - c) (c - paper_sum js_min t ds)
       in if spread \<le> 0 then 50 else 50 + 50 * ((run_sum t run - c) / spread)) \<and>
    0 \<le> traitScore (obj_get (sitting_tallies run) t) \<and> traitScore (obj_get (sitting_tallies run) t) \<le> 100"
  using sitting_score[OF assms, of t] run_sum_bounds[OF sittings_all2[OF assms], of t]
    scale_line_range[of "paper_sum js_min t ds" "run_sum t run" "paper_sum js_max t ds" "paper_sum mean t ds"]
  by (simp add: scale_line_def Let_def)

theorem trait_score_on_scale_witness:
  "\<exists>run\<in>set (sittings [sample_trade_off]).
     traitScore (obj_get (sitting_tallies run) ''drive'') \<le> 100"
proof -
  have good: "\<forall>d\<in>set [sample_trade_off]. good_question d" by (simp add: sample_good)
  then obtain run where "run \<in> set (sittings [sample_trade_off])"
    using sittings_nonempty by (metis list.set_intros(1) neq_Nil_conv)
  with trait_score_on_scale[OF good this] show ?thesis by blast
qed

text \<open>Ranking is fair: over all orderings of its options a ranking question contributes
  nothing to any trait on average, ranking the options the other way round contributes the
  opposite, and no ordering moves a trait by more than the largest option weight.\<close>

theorem ranking_is_zero_sum:
  assumes "good_question d" and "2 \<le> length (pd_options d)"
    and "mset ks = mset (map po_key (pd_options d))"
    and "\<forall>opt\<in>set (pd_options d). \<forall>w\<in>snd ` set (po_traitWeights opt). \<bar>w\<bar> \<le> B" and "0 \<le> B"
  shows "(\<exists>rs. possible_results d True = Inr rs \<and> mean (map (outcome_weight t) rs) = 0) \<and>
    (\<exists>r r'. evaluateRanking d ks = Inr r \<and> evaluateRanking d (rev ks) = Inr r' \<and>
       outcome_weight t r' = - outcome_weight t r \<and> \<bar>outcome_weight t r\<bar> \<le> B)"
proof -
  have wf: "well_formed_details d" "distinct (option_keys d)"
    using assms(1) by (auto simp: good_question_def well_formed_details_def)
  obtain rs where rs: "possible_results d True = Inr rs"
    using possible_results_ok[OF wf(1)] by blast
  obtain r r' where r: "evaluateRanking d ks = Inr r" "evaluateRanking d (rev ks) = Inr r'"
    using evaluateRanking_accepts[OF wf(2)] assms(3) by (metis mset_rev)
  have len: "2 \<le> length ks" using assms(2,3) by (metis length_map size_mset)
  have "\<bar>outcome_weight t r\<bar> \<le> B"
  proof (cases "contributions d ks t = []")
    case True
    then show ?thesis
      using evaluateRanking_weight[OF wf(1) r(1), of t] assms(5) by (simp add: outcome_weight_def Let_def)
  next
    case False
    have "\<bar>c\<bar> \<le> B" if "c \<in> set (contributions d ks t)" for c
      by (rule contributions_abs_le[OF _ that]) (use assms(4) in blast)
    then have "- B \<le> c \<and> c \<le> B" if "c \<in> set (contributions d ks t)" for c
      using that abs_le_iff[of c B] by fastforce
    then have "- B \<le> mean (contributions d ks t) \<and> mean (contributions d ks t) \<le> B"
      by (rule mean_between[OF False])
    then have "\<bar>mean (contributions d ks t)\<bar> \<le> B" by linarith
    then show ?thesis
      using False evaluateRanking_weight[OF wf(1) r(1), of t]
      by (simp add: outcome_weight_def Let_def mean_sum_list)
  qed
  with rs r ranking_chance_zero[OF wf(1) _ rs, of t] assms(2)
    ranking_reverse_weight[OF wf(1) len r, of t]
  show ?thesis by auto
qed

theorem ranking_is_zero_sum_witness:
  "\<exists>r r'. evaluateRanking sample_ranking [''B'', ''A'', ''C''] = Inr r \<and>
     evaluateRanking sample_ranking [''C'', ''A'', ''B''] = Inr r' \<and>
     outcome_weight ''order'' r' = - outcome_weight ''order'' r"
  using ranking_is_zero_sum[OF sample_good(2), of "[''B'', ''A'', ''C'']" 3 "''order''"]
  by (auto simp: sample_ranking_def)

text \<open>The orderings that set a ranking question's scale are complete and without
  repetition: of \<open>n\<close> distinct options there are \<open>n!\<close>, all different, and they are exactly
  the answers the evaluator accepts.\<close>

theorem permutations_are_the_rankings:
  assumes "distinct (map po_key (pd_options d))"
  shows "length (permutations (map po_key (pd_options d))) = fact (length (pd_options d)) \<and>
    distinct (permutations (map po_key (pd_options d))) \<and>
    (\<forall>ks. ks \<in> set (permutations (map po_key (pd_options d))) \<longleftrightarrow> (\<exists>r. evaluateRanking d ks = Inr r))"
  using assms length_permutations[of "option_keys d"] distinct_permutations[OF assms]
    evaluateRanking_accepts[OF assms]
  by (auto simp: permutations_mset)

theorem permutations_are_the_rankings_witness:
  "length (permutations (map po_key (pd_options sample_ranking))) = 6"
  using permutations_are_the_rankings[of sample_ranking]
  by (simp add: sample_ranking_def fact_numeral)

text \<open>The consistency of a trait, computed from running sums, is the textbook one: one
  minus the population standard deviation of the weights observed for it over the standard
  deviation of full inconsistency, in 0..1, and absent below two observations.\<close>

theorem consistency_is_standard_deviation:
  assumes "\<forall>u\<in>set us. well_keyed (fst u) \<and> well_keyed (or_else (snd u) [])"
  shows "traitConsistency (obj_get (tallies_after us) key) =
    (let xs = List.map_filter (\<lambda>u. obj_get (fst u) key) us
     in if length xs < 2 then None
        else Some (round2 (clamp01 (1 - sqrt (mean (map (\<lambda>x. (x - mean xs) ^ 2) xs)) / 3))))"
proof -
  have "\<forall>u\<in>set us. valid_update u" using assms by (simp add: valid_update_def)
  from traitConsistency_reference[OF tallies_hold_samples[OF this, of key]] show ?thesis
    by (simp add: reference_consistency_def samples_def pop_stdev_def engine_constants Let_def)
qed

theorem consistency_is_standard_deviation_witness:
  "traitConsistency (obj_get (tallies_after [([(''drive'', 2)], None), ([(''drive'', 2)], None)]) ''drive'')
     = Some 1"
  using consistency_is_standard_deviation[of "[([(''drive'', 2)], None), ([(''drive'', 2)], None)]" "''drive''"]
  by (simp add: well_keyed_def map_filter_simps mean_def clamp01_def)

lemma mean_mset: "mset xs = mset ys \<Longrightarrow> mean xs = mean ys"
  using mset_eq_length[of xs ys] sum_mset_sum_list[of xs] sum_mset_sum_list[of ys]
  by (simp add: mean_sum_list)

text \<open>Comparing the two halves of a probe does not depend on which came first, gives an
  agreement in 0..1, and gives full agreement to an answer repeated.\<close>

theorem probe_comparison_symmetric:
  assumes "\<And>w. x = SigTrait w \<Longrightarrow> well_keyed w" and "\<And>w. y = SigTrait w \<Longrightarrow> well_keyed w"
  shows "cmp_agreement (compare x y) = cmp_agreement (compare y x) \<and>
    cmp_flipped (compare x y) = cmp_flipped (compare y x) \<and>
    (\<forall>a. cmp_agreement (compare x y) = Some a \<longrightarrow> 0 \<le> a \<and> a \<le> 1) \<and>
    (\<forall>a. cmp_agreement (compare x x) = Some a \<longrightarrow> a = 1)"
proof -
  have sym: "cmp_agreement (compareTraits v w) = cmp_agreement (compareTraits w v)"
    if "well_keyed v" "well_keyed w" for v w
  proof -
    let ?f = "\<lambda>k. trait_agreement (or_else (obj_get v k) 0) (or_else (obj_get w k) 0)"
    let ?g = "\<lambda>k. trait_agreement (or_else (obj_get w k) 0) (or_else (obj_get v k) 0)"
    let ?s = "filter (\<lambda>key. key \<in> set (obj_keys w)) (obj_keys v)"
    let ?s' = "filter (\<lambda>key. key \<in> set (obj_keys v)) (obj_keys w)"
    have fg: "?f = ?g" by (rule ext) (rule trait_agreement_commute)
    have "mset ?s = mset ?s'"
      using that by (subst set_eq_iff_mset_eq_distinct[symmetric]) (auto simp: well_keyed_def)
    then have "mset (map ?f ?s) = mset (map ?g ?s')" by (simp add: fg)
    then have "mean (map ?f ?s) = mean (map ?g ?s')"
      by (rule mean_mset)
    moreover have "?s = [] \<longleftrightarrow> ?s' = []" using \<open>mset ?s = mset ?s'\<close> by (metis mset_zero_iff)
    ultimately show ?thesis unfolding compareTraits_agreement Let_def by (simp only:)
  qed
  have "cmp_agreement (compare x y) = cmp_agreement (compare y x)"
    using assms sym by (cases x; cases y) (auto simp: Let_def)
  moreover have "cmp_flipped (compare x y) = cmp_flipped (compare y x)"
    by (cases x; cases y) (auto simp: Let_def compareTraits_def)
  ultimately show ?thesis
    using compare_range[of x y] compare_self[of x]
    by (auto split: probe_signature.splits if_splits)
qed

theorem probe_comparison_symmetric_witness:
  "cmp_agreement (compare (SigTrait [(''drive'', 2), (''care'', 1)]) (SigTrait [(''care'', 0), (''drive'', 2)]))
   = cmp_agreement (compare (SigTrait [(''care'', 0), (''drive'', 2)]) (SigTrait [(''drive'', 2), (''care'', 1)]))"
  using probe_comparison_symmetric[of "SigTrait [(''drive'', 2), (''care'', 1)]"
      "SigTrait [(''care'', 0), (''drive'', 2)]"]
  by (simp add: well_keyed_def)

text \<open>A question tells most about a candidate whose ability equals its difficulty, every
  answer adds some information, and the two players of a match have complementary
  expectations, strictly increasing in ability.\<close>

theorem information_peaks_at_match:
  "0 < fisher_information a d \<and> fisher_information a d \<le> fisher_information d d \<and>
   expectedScore a d + expectedScore d a = 1 \<and> (a < b \<longrightarrow> expectedScore a d < expectedScore b d)"
proof -
  have "fisher_information d d = fisher_information a a" by (simp add: fisher_information_def)
  then show ?thesis
    using fisher_information_pos fisher_information_max[of a d] expectedScore_complement
      expectedScore_mono_ability by auto
qed

theorem information_peaks_at_match_witness:
  "expectedScore 1000 1100 < expectedScore (1200::real) 1100"
  using information_peaks_at_match[of 1000 1100 1200] by simp

text \<open>A trait module has seen enough exactly when it has answers, reports on some trait
  and each of its traits has been observed at least three times.\<close>

theorem trait_module_covered:
  assumes "ms_scoringType st = TRAIT"
  shows "thresholdMet st \<longleftrightarrow> 0 < ms_answered st \<and> reported_keys st \<noteq> [] \<and>
    (\<forall>key\<in>set (reported_keys st). \<exists>tt. obj_get (ms_traitTallies st) key = Some tt \<and> 3 \<le> tt_count tt)"
  using assms by (rule trait_thresholdMet)

theorem trait_module_covered_witness: "\<not> thresholdMet sample_trait_state"
  using trait_module_covered[of sample_trait_state]
  by (simp add: sample_trait_state_def sample_defs)

end
