(* ===== verification/Windows.thy ===== *)
theory Windows
  imports Prelude
begin

section \<open>When a candidate may enter\<close>

text \<open>
  \<open>assessments/assessment-window.ts\<close> and \<open>assessments/public-link.ts\<close>: the scheduled
  window of an assessment, the per-invitation override, and the rules of a public link.
  A \<open>Date\<close> is its epoch milliseconds (\<open>int\<close>). The token hash is opaque: the rules
  only ask whether one is stored.
\<close>

record time_window =
  wn_opensAt :: "int option"
  wn_closesAt :: "int option"

datatype window_state = WindowOpen | WindowNotYet | WindowClosed

definition effectiveWindow :: "time_window \<Rightarrow> int option \<Rightarrow> int option \<Rightarrow> time_window" where
  "effectiveWindow assessment invOpensAt invExpiresAt =
     \<lparr>wn_opensAt = (case invOpensAt of Some t \<Rightarrow> Some t | None \<Rightarrow> wn_opensAt assessment),
      wn_closesAt = (case invExpiresAt of Some t \<Rightarrow> Some t | None \<Rightarrow> wn_closesAt assessment)\<rparr>"

definition windowState :: "time_window \<Rightarrow> int \<Rightarrow> window_state" where
  "windowState w now =
     (if (case wn_opensAt w of None \<Rightarrow> False | Some t \<Rightarrow> now < t) then WindowNotYet
      else if (case wn_closesAt w of None \<Rightarrow> False | Some t \<Rightarrow> now > t) then WindowClosed
      else WindowOpen)"

subsection \<open>Public links\<close>

datatype public_link_state =
    LinkOpen | LinkNotConfigured | LinkDisabled | LinkExpired | LinkNotYet | LinkFull

record public_link_config =
  pl_tokenHash :: "string option"
  pl_enabled :: bool
  pl_expiresAt :: "int option"
  pl_maxAttempts :: "int option"
  pl_emailDomain :: "string option"
  pl_window :: time_window

text \<open>\<open>if (s)\<close> on a nullable string: null and the empty string are falsy.\<close>

definition present :: "string option \<Rightarrow> bool" where
  "present s \<longleftrightarrow> s \<noteq> None \<and> s \<noteq> Some ''''"

definition before :: "int \<Rightarrow> int option \<Rightarrow> bool" where
  "before now t = (case t of None \<Rightarrow> False | Some t \<Rightarrow> now < t)"

definition reached :: "int \<Rightarrow> int option \<Rightarrow> bool" where
  "reached now t = (case t of None \<Rightarrow> False | Some t \<Rightarrow> now \<ge> t)"

definition publicLinkState :: "public_link_config \<Rightarrow> int \<Rightarrow> int \<Rightarrow> public_link_state" where
  "publicLinkState config attemptCount now =
     (if \<not> present (pl_tokenHash config) then LinkNotConfigured
      else if \<not> pl_enabled config then LinkDisabled
      else if before now (wn_opensAt (pl_window config)) then LinkNotYet
      else if reached now (wn_closesAt (pl_window config)) then LinkExpired
      else if reached now (pl_expiresAt config) then LinkExpired
      else if reached attemptCount (pl_maxAttempts config) then LinkFull
      else LinkOpen)"

subsection \<open>The e-mail domain restriction\<close>

text \<open>
  \<open>trim\<close> and \<open>toLowerCase\<close> on the characters below 256: the white space of
  ECMAScript in that range, and the ASCII letters (the addresses and domains compared are
  ASCII; a letter outside it is left as it is).
\<close>

definition js_whitespace :: "char \<Rightarrow> bool" where
  "js_whitespace c \<longleftrightarrow> of_char c \<in> {9, 10, 11, 12, 13, 32, 160::nat}"

definition js_trim :: "string \<Rightarrow> string" where
  "js_trim s = rev (dropWhile js_whitespace (rev (dropWhile js_whitespace s)))"

definition lower_char :: "char \<Rightarrow> char" where
  "lower_char c = (if (65::nat) \<le> of_char c \<and> of_char c \<le> (90::nat) then char_of (of_char c + (32::nat)) else c)"

definition js_toLowerCase :: "string \<Rightarrow> string" where
  "js_toLowerCase s = map lower_char s"

text \<open>\<open>s.slice(s.lastIndexOf('@') + 1)\<close>, or \<open>None\<close> when there is no \<open>@\<close>.\<close>

definition after_last_at :: "string \<Rightarrow> string option" where
  "after_last_at s =
     (if CHR ''@'' \<in> set s then Some (rev (takeWhile (\<lambda>c. c \<noteq> CHR ''@'') (rev s))) else None)"

definition strip_at :: "string \<Rightarrow> string" where
  "strip_at s = (case s of c # cs \<Rightarrow> if c = CHR ''@'' then cs else s | [] \<Rightarrow> [])"

definition emailAllowedByDomain :: "string \<Rightarrow> string option \<Rightarrow> bool" where
  "emailAllowedByDomain email domain =
     (case domain of
        None \<Rightarrow> True
      | Some d \<Rightarrow>
          if d = '''' then True
          else (case after_last_at email of
                  None \<Rightarrow> False
                | Some candidateDomain \<Rightarrow>
                    js_toLowerCase (js_trim candidateDomain) = strip_at (js_toLowerCase (js_trim d))))"

datatype link_message = MsgNotValid | MsgNoLonger | MsgClosed | MsgNotOpenedYet

definition PUBLIC_LINK_MESSAGE :: "public_link_state \<Rightarrow> link_message option" where
  "PUBLIC_LINK_MESSAGE s =
     (case s of LinkOpen \<Rightarrow> None | LinkNotConfigured \<Rightarrow> Some MsgNotValid
      | LinkDisabled \<Rightarrow> Some MsgNoLonger | LinkExpired \<Rightarrow> Some MsgClosed
      | LinkNotYet \<Rightarrow> Some MsgNotOpenedYet | LinkFull \<Rightarrow> Some MsgNoLonger)"

subsection \<open>Windows only move forward\<close>

lemma windowState_open_iff:
  "windowState w now = WindowOpen \<longleftrightarrow>
   (\<forall>t. wn_opensAt w = Some t \<longrightarrow> t \<le> now) \<and> (\<forall>t. wn_closesAt w = Some t \<longrightarrow> now \<le> t)"
  by (auto simp: windowState_def split: option.splits)

lemma windowState_closed_stays:
  "windowState w now = WindowClosed \<Longrightarrow> now \<le> later \<Longrightarrow> windowState w later = WindowClosed"
  by (auto simp: windowState_def split: option.splits if_splits)

lemma windowState_not_yet_before:
  "windowState w later = WindowNotYet \<Longrightarrow> now \<le> later \<Longrightarrow> windowState w now = WindowNotYet"
  by (auto simp: windowState_def split: option.splits if_splits)

lemma publicLinkState_open_iff:
  "publicLinkState c n now = LinkOpen \<longleftrightarrow>
   present (pl_tokenHash c) \<and> pl_enabled c \<and>
   (\<forall>t. wn_opensAt (pl_window c) = Some t \<longrightarrow> t \<le> now) \<and>
   (\<forall>t. wn_closesAt (pl_window c) = Some t \<longrightarrow> now < t) \<and>
   (\<forall>t. pl_expiresAt c = Some t \<longrightarrow> now < t) \<and>
   (\<forall>m. pl_maxAttempts c = Some m \<longrightarrow> n < m)"
  by (auto simp: publicLinkState_def before_def reached_def split: option.splits)

subsection \<open>Properties\<close>

text \<open>A per-invitation date replaces the assessment's and an absent one inherits it, and a
  window moves only forward in time: not yet, then open, then closed, and never back.\<close>

theorem window_inherits_and_progresses:
  assumes "now \<le> later"
  shows "wn_opensAt (effectiveWindow a o' e') = (if o' = None then wn_opensAt a else o') \<and>
    wn_closesAt (effectiveWindow a o' e') = (if e' = None then wn_closesAt a else e') \<and>
    (windowState w now = WindowClosed \<longrightarrow> windowState w later = WindowClosed) \<and>
    (windowState w later = WindowNotYet \<longrightarrow> windowState w now = WindowNotYet) \<and>
    (windowState w now = WindowOpen \<longrightarrow> windowState w later \<noteq> WindowNotYet)"
  using assms windowState_closed_stays[of w now later] windowState_not_yet_before[of w later now]
  by (auto simp: effectiveWindow_def split: option.splits)

theorem window_inherits_and_progresses_witness:
  "windowState (effectiveWindow \<lparr>wn_opensAt = Some 10, wn_closesAt = Some 20\<rparr> None (Some 30)) 25 = WindowOpen
   \<and> windowState \<lparr>wn_opensAt = None, wn_closesAt = Some 20\<rparr> 22 = WindowClosed"
proof -
  have "windowState \<lparr>wn_opensAt = None, wn_closesAt = Some 20\<rparr> 21 = WindowClosed"
    by (simp add: windowState_def)
  with window_inherits_and_progresses[of 21 22 "\<lparr>wn_opensAt = Some 10, wn_closesAt = Some 20\<rparr>" None
      "Some 30" "\<lparr>wn_opensAt = None, wn_closesAt = Some 20\<rparr>"]
  show ?thesis by (auto simp: effectiveWindow_def windowState_def)
qed

text \<open>A public link admits someone exactly when it is configured, switched on, inside both
  the assessment's window and its own expiry and below its cap; a link that admits someone
  never leads into a window the runtime then refuses, except through an invitation that
  overrides the window.\<close>

theorem link_open_implies_window_open:
  "(publicLinkState c n now = LinkOpen \<longleftrightarrow>
     present (pl_tokenHash c) \<and> pl_enabled c \<and> \<not> before now (wn_opensAt (pl_window c)) \<and>
     \<not> reached now (wn_closesAt (pl_window c)) \<and> \<not> reached now (pl_expiresAt c) \<and>
     \<not> reached n (pl_maxAttempts c)) \<and>
   (publicLinkState c n now = LinkOpen \<longrightarrow>
      windowState (effectiveWindow (pl_window c) None None) now = WindowOpen) \<and>
   (PUBLIC_LINK_MESSAGE (publicLinkState c n now) = None \<longleftrightarrow> publicLinkState c n now = LinkOpen)"
proof -
  have "windowState (pl_window c) now = WindowOpen" if "publicLinkState c n now = LinkOpen"
    using that by (auto simp: publicLinkState_open_iff windowState_open_iff intro: less_imp_le)
  moreover have "effectiveWindow (pl_window c) None None = pl_window c"
    by (simp add: effectiveWindow_def)
  ultimately show ?thesis
    by (auto simp: publicLinkState_def PUBLIC_LINK_MESSAGE_def split: public_link_state.splits if_splits)
qed

theorem link_open_implies_window_open_witness:
  "windowState (effectiveWindow \<lparr>wn_opensAt = Some 10, wn_closesAt = Some 20\<rparr> None None) 15 = WindowOpen"
  using link_open_implies_window_open[of "\<lparr>pl_tokenHash = Some ''h'', pl_enabled = True, pl_expiresAt = None,
      pl_maxAttempts = Some 3, pl_emailDomain = None,
      pl_window = \<lparr>wn_opensAt = Some 10, wn_closesAt = Some 20\<rparr>\<rparr>" 2 15]
  by (simp add: publicLinkState_def present_def before_def reached_def)

lemma of_char_lower:
  "of_char (lower_char c) = (let n = of_char c :: nat in if 65 \<le> n \<and> n \<le> 90 then n + 32 else n)"
  by (simp add: lower_char_def Let_def of_char_of)

lemma lower_char_at [simp]: "lower_char c = CHR ''@'' \<longleftrightarrow> c = CHR ''@''"
proof -
  have "lower_char c = CHR ''@'' \<longleftrightarrow> of_char (lower_char c) = (of_char (CHR ''@'') :: nat)"
    by (simp only: of_char_eq_iff)
  also have "\<dots> \<longleftrightarrow> of_char c = (of_char (CHR ''@'') :: nat)"
    by (simp add: of_char_lower Let_def)
  finally show ?thesis by (simp only: of_char_eq_iff)
qed

lemma lower_char_idem [simp]: "lower_char (lower_char c) = lower_char c"
proof -
  have "of_char (lower_char (lower_char c)) = (of_char (lower_char c) :: nat)"
    by (simp add: of_char_lower Let_def)
  then show ?thesis by (simp only: of_char_eq_iff)
qed

lemma at_not_white [simp]: "\<not> js_whitespace (CHR ''@'')"
  by (simp add: js_whitespace_def)

lemma dropWhile_hd: "xs \<noteq> [] \<Longrightarrow> \<not> P (hd xs) \<Longrightarrow> dropWhile P xs = xs"
  by (cases xs) auto

lemma js_trim_id:
  "d \<noteq> [] \<Longrightarrow> \<not> js_whitespace (hd d) \<Longrightarrow> \<not> js_whitespace (last d) \<Longrightarrow> js_trim d = d"
  by (simp add: js_trim_def dropWhile_hd hd_rev)

lemma strip_at_lower: "d \<noteq> [] \<Longrightarrow> hd d \<noteq> CHR ''@'' \<Longrightarrow> strip_at (js_toLowerCase d) = js_toLowerCase d"
  by (cases d) (auto simp: strip_at_def js_toLowerCase_def)

lemma after_last_at_app:
  assumes "CHR ''@'' \<notin> set host"
  shows "after_last_at (loc @ CHR ''@'' # host) = Some host"
proof -
  have "takeWhile (\<lambda>c. c \<noteq> CHR ''@'') (rev host @ CHR ''@'' # rev loc) = rev host"
    using assms by (subst takeWhile_append2) auto
  then show ?thesis by (simp add: after_last_at_def)
qed

text \<open>The domain restriction is read the way people write it: only what follows the last
  \<open>@\<close> of the address counts, a leading \<open>@\<close> in the stored domain and the case of letters make
  no difference, and an address without an \<open>@\<close> never passes a restriction.\<close>

theorem domain_restriction_reading:
  assumes "CHR ''@'' \<notin> set host" and "d \<noteq> []" and "hd d \<noteq> CHR ''@''"
    and "\<not> js_whitespace (hd d)" and "\<not> js_whitespace (last d)" and "CHR ''@'' \<notin> set bare"
  shows "(emailAllowedByDomain (loc @ CHR ''@'' # host) (Some d) \<longleftrightarrow>
            js_toLowerCase (js_trim host) = js_toLowerCase d) \<and>
    emailAllowedByDomain (loc @ CHR ''@'' # host) (Some (CHR ''@'' # d))
      = emailAllowedByDomain (loc @ CHR ''@'' # host) (Some d) \<and>
    emailAllowedByDomain (loc @ CHR ''@'' # host) (Some (js_toLowerCase d))
      = emailAllowedByDomain (loc @ CHR ''@'' # host) (Some d) \<and>
    \<not> emailAllowedByDomain bare (Some d) \<and> emailAllowedByDomain bare None"
proof -
  have ws: "js_whitespace (lower_char c) = js_whitespace c" for c
    by (auto simp: js_whitespace_def of_char_lower Let_def)
  have low: "js_toLowerCase d \<noteq> []" "hd (js_toLowerCase d) \<noteq> CHR ''@''"
    "js_trim (js_toLowerCase d) = js_toLowerCase d"
    using assms(2-5) by (auto simp: js_toLowerCase_def hd_map last_map ws intro!: js_trim_id)
  have at: "js_trim (CHR ''@'' # d) = CHR ''@'' # d"
    using assms(2,5) by (intro js_trim_id) auto
  have "js_trim d = d" using assms(2,4,5) by (rule js_trim_id)
  moreover have "js_toLowerCase (js_toLowerCase d) = js_toLowerCase d"
    by (simp add: js_toLowerCase_def comp_def)
  moreover have "strip_at (js_toLowerCase (CHR ''@'' # d)) = js_toLowerCase d"
    by (simp add: strip_at_def js_toLowerCase_def)
  ultimately show ?thesis
    using assms(2,6) low at strip_at_lower[OF assms(2,3)] strip_at_lower[OF low(1,2)]
    by (simp add: emailAllowedByDomain_def after_last_at_app[OF assms(1)])
      (simp add: after_last_at_def)
qed

theorem domain_restriction_reading_witness:
  "emailAllowedByDomain ''a@b@College.edu'' (Some ''@college.EDU'')"
proof -
  have "emailAllowedByDomain (''a@b'' @ CHR ''@'' # ''College.edu'') (Some (CHR ''@'' # ''college.EDU''))
      = emailAllowedByDomain (''a@b'' @ CHR ''@'' # ''College.edu'') (Some ''college.EDU'')"
    using domain_restriction_reading[of "''College.edu''" "''college.EDU''" "''x''" "''a@b''"]
    by (simp add: js_whitespace_def)
  then show ?thesis
    by (simp add: emailAllowedByDomain_def after_last_at_def js_trim_def js_whitespace_def
        js_toLowerCase_def lower_char_def strip_at_def char_of_def bit_0)
qed

end
