(* ===== verification/Session_World.thy ===== *)
theory Session_World
  imports Program Engine Windows
begin

section \<open>What the candidate runtime reads and writes\<close>

text \<open>
  The state around \<open>sessions/sessions.service.ts\<close>: the live state of
  \<open>session-state.ts\<close>, the rows of the tables it touches, the Redis keyspace of
  \<open>redis-session.service.ts\<close>, the two BullMQ queues, the clock, \<open>Math.random\<close>, the
  generated ids, and a stream that says which I/O calls fail. A \<open>Date\<close> is its epoch
  milliseconds; a \<open>numeric\<close> column is a real. Rows are kept in the order of insertion.
\<close>

subsection \<open>Live state\<close>

record served_question =
  sv_questionId :: string
  sv_moduleId :: string
  sv_servedAt :: int

datatype live_status = Live_in_progress | Live_finished

record session_state =
  ss_sessionId :: string
  ss_candidateId :: string
  ss_invitationId :: string
  ss_assessmentId :: string
  ss_assessmentTitle :: string
  ss_startedAt :: int
  ss_expiresAt :: int
  ss_status :: live_status
  ss_modules :: "module_state list"
  ss_currentModuleIndex :: nat
  ss_served :: "served_question option"
  ss_answeredTotal :: nat

subsection \<open>Tables\<close>

record session_row =
  sr_id :: string
  sr_invitationId :: string
  sr_assessmentId :: string
  sr_candidateId :: string
  sr_status :: session_status
  sr_startedAt :: int
  sr_expiresAt :: int
  sr_submittedAt :: "int option"

datatype invitation_source = By_recruiter | Self_registered

record invitation_row =
  iv_id :: string
  iv_assessmentId :: string
  iv_email :: string
  iv_source :: invitation_source
  iv_candidateId :: "string option"
  iv_status :: invitation_status
  iv_opensAt :: "int option"
  iv_expiresAt :: "int option"
  iv_createdAt :: int

record response_row =
  rs_sessionId :: string
  rs_moduleId :: string
  rs_questionId :: string
  rs_selectedOption :: "string option"
  rs_selectedOptions :: "string list option"
  rs_isCorrect :: "bool option"
  rs_abilityEstimateAfter :: "real option"
  rs_questionDifficultyAtServe :: "real option"
  rs_sequenceNumber :: nat
  rs_timeTakenMs :: int

record module_result_row =
  mr_sessionId :: string
  mr_moduleId :: string
  mr_abilityScore :: "real option"
  mr_traitScores :: "trait_score jsobj option"
  mr_probeResults :: "probe_results option"
  mr_questionsAnswered :: nat
  mr_questionsCorrect :: nat
  mr_stopReason :: "module_stop_reason option"
  mr_startedAt :: "int option"
  mr_completedAt :: "int option"

record assessment_module =
  am_moduleId :: string
  am_slug :: string
  am_name :: string
  am_description :: "string option"
  am_scoringType :: scoring_type
  am_traits :: "trait_definition list option"
  am_questionCount :: nat
  am_timeLimitSeconds :: nat

record assessment_row =
  as_id :: string
  as_title :: string
  as_organisationId :: string
  as_opensAt :: "int option"
  as_closesAt :: "int option"
  as_modules :: "assessment_module list"
  as_questionPool :: "string list"

subsection \<open>Redis\<close>

text \<open>
  The keys are typed; \<open>key_string\<close> is how the service spells them. A key disappears when
  its time to live runs out or the server loses it: that is a step of the environment.
\<close>

datatype redis_key = StateKey string | ClockKey string string

fun key_string :: "redis_key \<Rightarrow> string" where
  "key_string (StateKey sessionId) = ''session:'' @ sessionId"
| "key_string (ClockKey sessionId moduleId) =
     ''session:'' @ sessionId @ '':module:'' @ moduleId @ '':clock''"

datatype redis_value = Blob session_state | Mark

type_synonym redis = "redis_key \<Rightarrow> (redis_value \<times> int) option"

definition redis_set :: "redis_key \<Rightarrow> redis_value \<Rightarrow> int \<Rightarrow> redis \<Rightarrow> redis" where
  "redis_set k v expiresAt r = r(k \<mapsto> (v, expiresAt))"

definition redis_get_state :: "string \<Rightarrow> redis \<Rightarrow> session_state option" where
  "redis_get_state sessionId r =
     (case r (StateKey sessionId) of Some (Blob st, _) \<Rightarrow> Some st | _ \<Rightarrow> None)"

definition redis_pttl :: "redis_key \<Rightarrow> int \<Rightarrow> redis \<Rightarrow> int" where
  "redis_pttl k now r = (case r k of None \<Rightarrow> -2 | Some (_, t) \<Rightarrow> if now < t then t - now else -2)"

definition redis_del :: "redis_key list \<Rightarrow> redis \<Rightarrow> redis" where
  "redis_del ks r = (\<lambda>k. if k \<in> set ks then None else r k)"

text \<open>Two keys are spelled alike only when they are the same: ids are UUIDs, without a colon.\<close>

lemma takeWhile_stop: "x \<notin> set xs \<Longrightarrow> takeWhile (\<lambda>c. c \<noteq> x) (xs @ x # ys) = xs"
  by (induction xs) auto

lemma no_colon_split:
  assumes "CHR '':'' \<notin> set a" "CHR '':'' \<notin> set b" "a @ CHR '':'' # x = b @ CHR '':'' # y"
  shows "a = b \<and> x = y"
  using takeWhile_stop[OF assms(1), of x] takeWhile_stop[OF assms(2), of y] assms(3) by auto

lemma key_string_inject:
  assumes "\<And>s. s \<in> {a, b, c, d} \<Longrightarrow> CHR '':'' \<notin> set s"
  shows "key_string (StateKey a) = key_string (StateKey b) \<longleftrightarrow> a = b"
    and "key_string (ClockKey a c) = key_string (ClockKey b d) \<longleftrightarrow> a = b \<and> c = d"
    and "key_string (StateKey a) \<noteq> key_string (ClockKey b d)"
proof -
  show "key_string (StateKey a) = key_string (StateKey b) \<longleftrightarrow> a = b" by simp
  show "key_string (ClockKey a c) = key_string (ClockKey b d) \<longleftrightarrow> a = b \<and> c = d"
  proof
    assume "key_string (ClockKey a c) = key_string (ClockKey b d)"
    then have "a @ CHR '':'' # (''module:'' @ c @ '':clock'') = b @ CHR '':'' # (''module:'' @ d @ '':clock'')"
      by simp
    with no_colon_split[of a b] assms have "a = b \<and> ''module:'' @ c @ '':clock'' = ''module:'' @ d @ '':clock''"
      by blast
    then show "a = b \<and> c = d" by simp
  qed simp
  have "CHR '':'' \<in> set (b @ '':module:'' @ d @ '':clock'')" by simp
  then show "key_string (StateKey a) \<noteq> key_string (ClockKey b d)"
    using assms[of a] by auto
qed

text \<open>
  The contract the session service relies on: what it saved is what it reads back, and
  neither a clock nor another session's state can change it.
\<close>

locale state_store =
  fixes load_state :: "string \<Rightarrow> 'r \<Rightarrow> 'v option"
    and save_state :: "string \<Rightarrow> 'v \<Rightarrow> 'r \<Rightarrow> 'r"
    and start_clock :: "string \<Rightarrow> string \<Rightarrow> 'r \<Rightarrow> 'r"
    and clear_clock :: "string \<Rightarrow> string \<Rightarrow> 'r \<Rightarrow> 'r"
  assumes load_save: "load_state i (save_state j v r) = (if i = j then Some v else load_state i r)"
    and load_start: "load_state i (start_clock j m r) = load_state i r"
    and load_clear: "load_state i (clear_clock j m r) = load_state i r"
begin

lemma last_save_wins: "load_state i (save_state i v (save_state i v' r)) = Some v"
  by (simp add: load_save)

lemma clocks_do_not_matter:
  "load_state i (start_clock j m (clear_clock j' m' (save_state i v r))) = Some v"
  by (simp add: load_save load_start load_clear)

lemma other_session: "i \<noteq> j \<Longrightarrow> load_state i (save_state j v (start_clock j m r)) = load_state i r"
  by (simp add: load_save load_start)

end

interpretation redis_store: state_store redis_get_state
  "\<lambda>i v. redis_set (StateKey i) (Blob v) t" "\<lambda>i m. redis_set (ClockKey i m) Mark t'"
  "\<lambda>i m. redis_del [ClockKey i m]" for t t'
  by unfold_locales (auto simp: redis_get_state_def redis_set_def redis_del_def)

subsection \<open>The world\<close>

record world =
  w_clock :: "nat \<Rightarrow> int"
  w_random :: rng
  w_faults :: "nat \<Rightarrow> bool"
  w_uuids :: "nat \<Rightarrow> string"
  w_redis :: redis
  w_sessions :: "session_row list"
  w_invitations :: "invitation_row list"
  w_responses :: "response_row list"
  w_results :: "module_result_row list"
  w_assessments :: "assessment_row list"
  w_bank :: bank
  w_autoSubmit :: "(string \<times> int) list"
  w_reportJobs :: "string list"

datatype session_error =
    InvitationNotFound
  | InvitationNoLongerValid
  | AssessmentNotOpen
  | AssessmentHasClosed
  | NoModulesConfigured
  | NothingOnScreen
  | NotTheQuestionServed
  | ModuleAlreadyClosed
  | SessionNotFound
  | AssessmentNotFound string
  | QuestionNoLongerExists string
  | BothAnswerShapes
  | NoAnswerShape
  | EngineError engine_error
  | UniqueViolation
  | StorageFailure
  | MissingRelation
  | CouldNotAdvance string

type_synonym 'a handler = "(session_error, world, 'a) prog"

text \<open>\<open>Date.now()\<close>: the next reading of the clock. The readings are arbitrary.\<close>

definition date_now :: "int handler" where
  "date_now = (\<lambda>w. (Inr (w_clock w 0), w\<lparr>w_clock := (\<lambda>n. w_clock w (Suc n))\<rparr>))"

text \<open>One call over the network: it may fail before it has any effect.\<close>

definition io :: "'a handler \<Rightarrow> 'a handler" where
  "io m = (\<lambda>w. let w' = w\<lparr>w_faults := (\<lambda>n. w_faults w (Suc n))\<rparr>
               in if w_faults w 0 then (Inl StorageFailure, w') else m w')"

text \<open>A world in which no call fails.\<close>

definition reliable :: "world \<Rightarrow> bool" where
  "reliable w \<longleftrightarrow> w_faults w = (\<lambda>_. False)"

lemma wp_date_now [wp_simps]:
  "wp date_now Q E w = Q (w_clock w 0) (w\<lparr>w_clock := (\<lambda>n. w_clock w (Suc n))\<rparr>)"
  by (simp add: wp_def date_now_def)

lemma wp_io [wp_simps]:
  "wp (io m) Q E w =
    (let w' = w\<lparr>w_faults := (\<lambda>n. w_faults w (Suc n))\<rparr>
     in if w_faults w 0 then E StorageFailure w' else wp m Q E w')"
  by (simp add: wp_def io_def Let_def)

lemma wp_io_reliable: "reliable w \<Longrightarrow> wp (io m) Q E w = wp m Q E w"
proof -
  assume "reliable w"
  then have "w\<lparr>w_faults := (\<lambda>n. w_faults w (Suc n))\<rparr> = w" "\<not> w_faults w 0"
    by (simp_all add: reliable_def fun_eq_iff)
  then show ?thesis by (simp add: wp_io)
qed

subsection \<open>\<open>RedisSessionService\<close>\<close>

definition GRACE_SECONDS :: int where "GRACE_SECONDS = 6 * 60 * 60"

text \<open>\<open>Math.ceil(x / 1000)\<close> on an integer.\<close>

definition ceil_seconds :: "int \<Rightarrow> int" where
  "ceil_seconds ms = - ((- ms) div 1000)"

definition store_get :: "string \<Rightarrow> session_state option handler" where
  "store_get sessionId = io (reading (\<lambda>w. redis_get_state sessionId (w_redis w)))"

definition store_save :: "session_state \<Rightarrow> unit handler" where
  "store_save st =
     bind_p date_now (\<lambda>now.
     let ttlSeconds = max 0 (ceil_seconds (ss_expiresAt st - now)) + GRACE_SECONDS
     in bind_p date_now (\<lambda>serverNow.
        io (updating (\<lambda>w. w\<lparr>w_redis := redis_set (StateKey (ss_sessionId st)) (Blob st)
              (serverNow + ttlSeconds * 1000) (w_redis w)\<rparr>))))"

definition startModuleClock :: "string \<Rightarrow> string \<Rightarrow> int \<Rightarrow> unit handler" where
  "startModuleClock sessionId moduleId seconds =
     bind_p date_now (\<lambda>serverNow.
       io (updating (\<lambda>w. w\<lparr>w_redis := redis_set (ClockKey sessionId moduleId) Mark
             (serverNow + max 1 seconds * 1000) (w_redis w)\<rparr>)))"

definition moduleRemainingMs :: "string \<Rightarrow> string \<Rightarrow> int option handler" where
  "moduleRemainingMs sessionId moduleId =
     bind_p date_now (\<lambda>serverNow.
       io (reading (\<lambda>w. let ttl = redis_pttl (ClockKey sessionId moduleId) serverNow (w_redis w)
                        in if ttl \<ge> 0 then Some ttl else None)))"

definition clearModuleClock :: "string \<Rightarrow> string \<Rightarrow> unit handler" where
  "clearModuleClock sessionId moduleId =
     io (updating (\<lambda>w. w\<lparr>w_redis := redis_del [ClockKey sessionId moduleId] (w_redis w)\<rparr>))"

definition store_drop :: "string \<Rightarrow> string list \<Rightarrow> unit handler" where
  "store_drop sessionId moduleIds =
     io (updating (\<lambda>w. w\<lparr>w_redis :=
           redis_del (StateKey sessionId # map (ClockKey sessionId) moduleIds) (w_redis w)\<rparr>))"

subsection \<open>Repositories\<close>

definition find_row :: "('r \<Rightarrow> bool) \<Rightarrow> (world \<Rightarrow> 'r list) \<Rightarrow> 'r option handler" where
  "find_row P table = io (reading (\<lambda>w. List.find P (table w)))"

definition find_rows :: "('r \<Rightarrow> bool) \<Rightarrow> (world \<Rightarrow> 'r list) \<Rightarrow> 'r list handler" where
  "find_rows P table = io (reading (\<lambda>w. filter P (table w)))"

text \<open>\<open>sessions.save\<close> of a new row: \<open>id\<close> is generated, \<open>invitationId\<close> is unique.\<close>

definition insert_session :: "session_row \<Rightarrow> session_row handler" where
  "insert_session row =
     io (\<lambda>w. let row' = row\<lparr>sr_id := w_uuids w 0\<rparr>;
                 w' = w\<lparr>w_uuids := (\<lambda>n. w_uuids w (Suc n))\<rparr>
             in if list_ex (\<lambda>r. sr_id r = sr_id row' \<or> sr_invitationId r = sr_invitationId row')
                     (w_sessions w)
                then (Inl UniqueViolation, w')
                else (Inr row', w'\<lparr>w_sessions := w_sessions w @ [row']\<rparr>))"

definition update_rows :: "('r \<Rightarrow> bool) \<Rightarrow> ('r \<Rightarrow> 'r) \<Rightarrow> 'r list \<Rightarrow> 'r list" where
  "update_rows P f rows = map (\<lambda>r. if P r then f r else r) rows"

definition update_session :: "string \<Rightarrow> (session_row \<Rightarrow> session_row) \<Rightarrow> unit handler" where
  "update_session i f =
     io (updating (\<lambda>w. w\<lparr>w_sessions := update_rows (\<lambda>r. sr_id r = i) f (w_sessions w)\<rparr>))"

definition update_invitation :: "string \<Rightarrow> invitation_status \<Rightarrow> unit handler" where
  "update_invitation i status =
     io (updating (\<lambda>w. w\<lparr>w_invitations :=
           update_rows (\<lambda>r. iv_id r = i) (\<lambda>r. r\<lparr>iv_status := status\<rparr>) (w_invitations w)\<rparr>))"

text \<open>\<open>responses.insert\<close>: \<open>sessionId\<close> refers to a session and \<open>(sessionId, questionId)\<close> is
  unique.\<close>

definition insert_response :: "response_row \<Rightarrow> unit handler" where
  "insert_response row =
     io (\<lambda>w. if list_ex (\<lambda>r. rs_sessionId r = rs_sessionId row \<and> rs_questionId r = rs_questionId row)
                  (w_responses w)
             then (Inl UniqueViolation, w)
             else if \<not> list_ex (\<lambda>s. sr_id s = rs_sessionId row) (w_sessions w)
             then (Inl MissingRelation, w)
             else (Inr (), w\<lparr>w_responses := w_responses w @ [row]\<rparr>))"

text \<open>\<open>moduleResults.upsert(row, ['sessionId', 'moduleId'])\<close>.\<close>

definition same_result :: "module_result_row \<Rightarrow> module_result_row \<Rightarrow> bool" where
  "same_result a b \<longleftrightarrow> mr_sessionId a = mr_sessionId b \<and> mr_moduleId a = mr_moduleId b"

definition upsert_rows :: "module_result_row \<Rightarrow> module_result_row list \<Rightarrow> module_result_row list" where
  "upsert_rows row rows =
     (if list_ex (same_result row) rows then update_rows (same_result row) (\<lambda>_. row) rows
      else rows @ [row])"

definition upsert_result :: "module_result_row \<Rightarrow> unit handler" where
  "upsert_result row = io (updating (\<lambda>w. w\<lparr>w_results := upsert_rows row (w_results w)\<rparr>))"

text \<open>\<open>findOneForSession\<close>, which throws when the assessment is gone.\<close>

definition findOneForSession :: "string \<Rightarrow> assessment_row handler" where
  "findOneForSession i =
     bind_p (find_row (\<lambda>a. as_id a = i) w_assessments) (\<lambda>found.
       case found of None \<Rightarrow> throw (AssessmentNotFound i) | Some a \<Rightarrow> ret a)"

subsection \<open>The engine's calls\<close>

text \<open>
  A decision to stop makes no query; a question is looked up in the database. An answer is
  checked before the first write.
\<close>

definition engine_nextStep :: "module_state \<Rightarrow> int \<Rightarrow> next_step handler" where
  "engine_nextStep st now =
     (let call = (\<lambda>w. let (s, r) = nextStep (w_bank w) st now (w_random w)
                      in (Inr s, w\<lparr>w_random := r\<rparr>))
      in if sd_stop (shouldStop st now) then call else io call)"

definition engine_recordAnswer ::
  "module_state \<Rightarrow> question \<Rightarrow> submitted_answer \<Rightarrow> nat \<Rightarrow> (answer_outcome \<times> module_state) handler" where
  "engine_recordAnswer st q answer sequenceNumber =
     bind_p (reading (\<lambda>w. recordAnswer (w_bank w) st q answer sequenceNumber)) (\<lambda>result.
       case result of
         Inl e \<Rightarrow> throw (EngineError e)
       | Inr (out, st', bank') \<Rightarrow>
           then_p (io (updating (\<lambda>w. w\<lparr>w_bank := bank'\<rparr>))) (ret (out, st')))"

subsection \<open>The queues\<close>

text \<open>BullMQ keeps the job it has under an id and ignores a second \<open>add\<close>.\<close>

definition queue_add :: "string \<Rightarrow> int \<Rightarrow> unit handler" where
  "queue_add jobId dueAt =
     io (updating (\<lambda>w. if jobId \<in> fst ` set (w_autoSubmit w) then w
                       else w\<lparr>w_autoSubmit := w_autoSubmit w @ [(jobId, dueAt)]\<rparr>))"

definition queue_remove :: "string \<Rightarrow> unit handler" where
  "queue_remove jobId =
     io (updating (\<lambda>w. w\<lparr>w_autoSubmit := filter (\<lambda>j. fst j \<noteq> jobId) (w_autoSubmit w)\<rparr>))"

definition report_queue_add :: "string \<Rightarrow> unit handler" where
  "report_queue_add jobId =
     io (updating (\<lambda>w. if jobId \<in> set (w_reportJobs w) then w
                       else w\<lparr>w_reportJobs := w_reportJobs w @ [jobId]\<rparr>))"

end
