(* ===== verification/Sessions.thy ===== *)
theory Sessions
  imports Session_World
begin

section \<open>The candidate runtime\<close>

text \<open>
  \<open>sessions/sessions.service.ts\<close>, method by method. The live state is passed explicitly:
  the code mutates one object that each request has parsed out of Redis for itself, so a
  method that changes it returns it, and what an exception leaves half changed is dropped
  with the object. Log lines are left out; ISO strings stay epoch milliseconds.
\<close>

definition INTERMISSION_SECONDS_PER_MODULE :: int where "INTERMISSION_SECONDS_PER_MODULE = 120"
definition START_GRACE_SECONDS :: int where "START_GRACE_SECONDS = 7200"
definition ANSWER_GRACE_MS :: int where "ANSWER_GRACE_MS = 2000"

lemmas session_constants = INTERMISSION_SECONDS_PER_MODULE_def START_GRACE_SECONDS_def
  ANSWER_GRACE_MS_def

subsection \<open>Views\<close>

record question_view =
  qv_id :: string
  qv_text :: string
  qv_options :: "(string \<times> string) list"
  qv_pattern :: "behavioral_pattern option"

record module_view =
  mv_moduleId :: string
  mv_name :: string
  mv_slug :: string
  mv_description :: "string option"
  mv_scoringType :: scoring_type
  mv_status :: module_run_status
  mv_questionCount :: nat
  mv_timeLimitSeconds :: nat
  mv_answered :: nat

record session_view =
  vw_sessionId :: string
  vw_assessmentId :: string
  vw_assessmentTitle :: string
  vw_status :: session_status
  vw_startedAt :: int
  vw_expiresAt :: int
  vw_sessionRemainingMs :: int
  vw_currentModuleIndex :: nat
  vw_modules :: "module_view list"

datatype session_step =
    ModuleIntro session_view module_view
  | QuestionStep session_view module_view question_view nat nat nat int
  | CompletedStep session_view

definition toQuestionView :: "question \<Rightarrow> module_state \<Rightarrow> question_view" where
  "toQuestionView q m =
     \<lparr>qv_id = q_id q, qv_text = q_questionText q,
      qv_options =
        (if ms_scoringType m = OBJECTIVE
         then (case q_mcqDetails q of None \<Rightarrow> []
               | Some d \<Rightarrow> map (\<lambda>opt. (mo_key opt, mo_text opt)) (md_options d))
         else (case q_personalityDetails q of None \<Rightarrow> []
               | Some d \<Rightarrow> map (\<lambda>opt. (po_key opt, po_text opt)) (pd_options d))),
      qv_pattern = (case q_personalityDetails q of None \<Rightarrow> None | Some d \<Rightarrow> pd_pattern d)\<rparr>"

definition toModuleView :: "module_state \<Rightarrow> module_view" where
  "toModuleView m =
     \<lparr>mv_moduleId = ms_moduleId m, mv_name = ms_name m, mv_slug = ms_slug m,
      mv_description = ms_description m, mv_scoringType = ms_scoringType m,
      mv_status = ms_status m, mv_questionCount = ms_questionCount m,
      mv_timeLimitSeconds = ms_timeLimitSeconds m, mv_answered = ms_answered m\<rparr>"

definition toSessionView :: "session_state \<Rightarrow> session_status option \<Rightarrow> session_view handler" where
  "toSessionView st status =
     bind_p date_now (\<lambda>now. ret
       \<lparr>vw_sessionId = ss_sessionId st, vw_assessmentId = ss_assessmentId st,
        vw_assessmentTitle = ss_assessmentTitle st,
        vw_status = or_else status
          (if ss_status st = Live_finished then SESS_COMPLETED else SESS_IN_PROGRESS),
        vw_startedAt = ss_startedAt st, vw_expiresAt = ss_expiresAt st,
        vw_sessionRemainingMs = max 0 (ss_expiresAt st - now),
        vw_currentModuleIndex = ss_currentModuleIndex st,
        vw_modules = map toModuleView (ss_modules st)\<rparr>)"

definition loadServedQuestion :: "string \<Rightarrow> question handler" where
  "loadServedQuestion questionId =
     bind_p (find_row (\<lambda>q. q_id q = questionId) (\<lambda>w. bk_questions (w_bank w))) (\<lambda>found.
       case found of None \<Rightarrow> throw (QuestionNoLongerExists questionId) | Some q \<Rightarrow> ret q)"

definition toQuestionStep ::
  "session_state \<Rightarrow> module_state \<Rightarrow> served_question \<Rightarrow> question option \<Rightarrow> session_step handler" where
  "toQuestionStep st m served preloaded =
     bind_p (case preloaded of Some q \<Rightarrow> ret q | None \<Rightarrow> loadServedQuestion (sv_questionId served)) (\<lambda>q.
     bind_p (moduleRemainingMs (ss_sessionId st) (ms_moduleId m)) (\<lambda>remaining.
     bind_p (toSessionView st None) (\<lambda>view.
     bind_p (case remaining of
               Some r \<Rightarrow> ret r
             | None \<Rightarrow>
                 bind_p (case ms_deadlineAt m of Some d \<Rightarrow> ret d | None \<Rightarrow> date_now) (\<lambda>d.
                 bind_p date_now (\<lambda>now. ret (max 0 (d - now))))) (\<lambda>remainingMs.
     ret (QuestionStep view (toModuleView m) (toQuestionView q m) (ss_answeredTotal st + 1)
            (ms_answered m) (ms_questionCount m) remainingMs)))))"

definition finishedViewFromDb :: "session_row \<Rightarrow> session_view handler" where
  "finishedViewFromDb session =
     bind_p (findOneForSession (sr_assessmentId session)) (\<lambda>assessment.
     bind_p (find_rows (\<lambda>r. mr_sessionId r = sr_id session) w_results) (\<lambda>results. ret
       \<lparr>vw_sessionId = sr_id session, vw_assessmentId = sr_assessmentId session,
        vw_assessmentTitle = as_title assessment, vw_status = sr_status session,
        vw_startedAt = sr_startedAt session, vw_expiresAt = sr_expiresAt session,
        vw_sessionRemainingMs = 0, vw_currentModuleIndex = length (as_modules assessment),
        vw_modules = map (\<lambda>c.
          \<lparr>mv_moduleId = am_moduleId c, mv_name = am_name c, mv_slug = am_slug c,
           mv_description = am_description c, mv_scoringType = am_scoringType c,
           mv_status = Completed, mv_questionCount = am_questionCount c,
           mv_timeLimitSeconds = am_timeLimitSeconds c,
           mv_answered = (case List.find (\<lambda>r. mr_moduleId r = am_moduleId c) results of
                            None \<Rightarrow> 0 | Some r \<Rightarrow> mr_questionsAnswered r)\<rparr>)
          (as_modules assessment)\<rparr>))"

subsection \<open>The queues\<close>

definition autoSubmitJobId :: "string \<Rightarrow> string" where
  "autoSubmitJobId sessionId = ''auto-submit-'' @ sessionId"

definition reportJobId :: "string \<Rightarrow> string" where
  "reportJobId sessionId = ''report-'' @ sessionId"

definition scheduleAutoSubmit :: "string \<Rightarrow> int \<Rightarrow> unit handler" where
  "scheduleAutoSubmit sessionId delayMs =
     bind_p date_now (\<lambda>queueNow.
       try_catch (queue_add (autoSubmitJobId sessionId) (queueNow + max 0 delayMs)) (\<lambda>_. ret ()))"

definition removeAutoSubmit :: "string \<Rightarrow> unit handler" where
  "removeAutoSubmit sessionId =
     try_catch (queue_remove (autoSubmitJobId sessionId)) (\<lambda>_. ret ())"

definition enqueueReport :: "string \<Rightarrow> unit handler" where
  "enqueueReport sessionId = try_catch (report_queue_add (reportJobId sessionId)) (\<lambda>_. ret ())"

subsection \<open>Recording answers and closing modules\<close>

text \<open>\<open>xs[i]\<close>, \<open>undefined\<close> out of range.\<close>

definition at_index :: "'a list \<Rightarrow> nat \<Rightarrow> 'a option" where
  "at_index xs i = (if i < length xs then Some (xs ! i) else None)"

definition put_module :: "module_state \<Rightarrow> session_state \<Rightarrow> session_state" where
  "put_module m st =
     st\<lparr>ss_modules := (ss_modules st)[ss_currentModuleIndex st := m]\<rparr>"

definition applyAnswer ::
  "session_state \<Rightarrow> module_state \<Rightarrow> question \<Rightarrow> submitted_answer \<Rightarrow> served_question \<Rightarrow> int \<Rightarrow>
   (session_state \<times> module_state) handler" where
  "applyAnswer st m q answer served now =
     (let n = ss_answeredTotal st + 1 in
      bind_p (engine_recordAnswer m q answer n) (\<lambda>(outcome, m').
      then_p (insert_response
        \<lparr>rs_sessionId = ss_sessionId st, rs_moduleId = ms_moduleId m, rs_questionId = q_id q,
         rs_selectedOption = (case answer of AnsOption k \<Rightarrow> Some k | _ \<Rightarrow> None),
         rs_selectedOptions = (case answer of AnsRanking ks \<Rightarrow> Some ks | _ \<Rightarrow> None),
         rs_isCorrect = ao_isCorrect outcome,
         rs_abilityEstimateAfter = ao_abilityEstimateAfter outcome,
         rs_questionDifficultyAtServe = ao_questionDifficultyAtServe outcome,
         rs_sequenceNumber = n, rs_timeTakenMs = max 0 (now - sv_servedAt served)\<rparr>)
      (ret (put_module m' (st\<lparr>ss_answeredTotal := n, ss_served := None\<rparr>), m'))))"

definition module_result :: "string \<Rightarrow> module_state \<Rightarrow> module_result_row" where
  "module_result sessionId m =
     (let attempted = ms_answered m > 0 in
      \<lparr>mr_sessionId = sessionId, mr_moduleId = ms_moduleId m,
       mr_abilityScore = (if attempted then finalAbility m else None),
       mr_traitScores = (if attempted then finalTraitScores m else None),
       mr_probeResults = (if attempted then probeResults m else None),
       mr_questionsAnswered = ms_answered m, mr_questionsCorrect = ms_correct m,
       mr_stopReason = ms_stopReason m, mr_startedAt = ms_startedAt m,
       mr_completedAt = ms_completedAt m\<rparr>)"

definition persistModuleResult :: "string \<Rightarrow> module_state \<Rightarrow> unit handler" where
  "persistModuleResult sessionId m = upsert_result (module_result sessionId m)"

definition served_here :: "session_state \<Rightarrow> module_state \<Rightarrow> served_question option" where
  "served_here st m =
     (case ss_served st of None \<Rightarrow> None
      | Some s \<Rightarrow> if sv_moduleId s = ms_moduleId m then Some s else None)"

definition completeModule ::
  "session_state \<Rightarrow> module_state \<Rightarrow> module_stop_reason \<Rightarrow> int \<Rightarrow> session_state handler" where
  "completeModule st m reason now =
     bind_p (case served_here st m of
               None \<Rightarrow> ret (st, m)
             | Some served \<Rightarrow>
                 bind_p (loadServedQuestion (sv_questionId served)) (\<lambda>q.
                   applyAnswer st m q AnsUnanswered served now)) (\<lambda>(st', m').
     let m'' = m'\<lparr>ms_status := Completed, ms_completedAt := Some now, ms_stopReason := Some reason\<rparr>
     in then_p (clearModuleClock (ss_sessionId st) (ms_moduleId m))
       (then_p (persistModuleResult (ss_sessionId st) m'')
         (ret (put_module m'' st'))))"

text \<open>What \<open>finalize\<close> makes of one module.\<close>

definition close_module :: "int \<Rightarrow> module_state \<Rightarrow> module_state" where
  "close_module now m =
     (if ms_status m = In_progress
      then m\<lparr>ms_status := Completed, ms_completedAt := Some now,
             ms_stopReason := Some (or_else (ms_stopReason m) TIME_EXPIRED)\<rparr>
      else m)"

definition finalize :: "session_state \<Rightarrow> session_status \<Rightarrow> session_state handler" where
  "finalize st status =
     (if ss_status st = Live_finished then ret st
      else bind_p date_now (\<lambda>now.
           bind_p (for_each (\<lambda>m. let m' = close_module now m
                                 in then_p (persistModuleResult (ss_sessionId st) m') (ret m'))
                     (ss_modules st)) (\<lambda>modules.
           let st' = st\<lparr>ss_modules := modules, ss_status := Live_finished, ss_served := None\<rparr>
           in then_p (store_save st')
             (then_p (update_session (ss_sessionId st)
                        (\<lambda>r. r\<lparr>sr_status := status, sr_submittedAt := Some now\<rparr>))
             (then_p (update_invitation (ss_invitationId st) INV_COMPLETED)
             (then_p (removeAutoSubmit (ss_sessionId st))
             (then_p (enqueueReport (ss_sessionId st))
             (ret st'))))))))"

subsection \<open>The loop behind every call\<close>

definition completed_step :: "session_state \<Rightarrow> session_step handler" where
  "completed_step st = bind_p (toSessionView st None) (\<lambda>view. ret (CompletedStep view))"

definition next_module :: "session_state \<Rightarrow> session_state" where
  "next_module st = st\<lparr>ss_currentModuleIndex := ss_currentModuleIndex st + 1\<rparr>"

text \<open>A question on screen whose module clock is still running.\<close>

definition on_screen :: "session_state \<Rightarrow> module_state \<Rightarrow> int \<Rightarrow> served_question option" where
  "on_screen st m now =
     (case served_here st m of None \<Rightarrow> None
      | Some s \<Rightarrow> if deadline_passed m now then None else Some s)"

definition serve_in :: "session_state \<Rightarrow> module_state \<Rightarrow> question \<Rightarrow> int \<Rightarrow> session_state" where
  "serve_in st m q now =
     put_module (markProbeServed q (m\<lparr>ms_seenQuestionIds := ms_seenQuestionIds m @ [q_id q]\<rparr>))
       (st\<lparr>ss_served := Some \<lparr>sv_questionId = q_id q, sv_moduleId = ms_moduleId m, sv_servedAt = now\<rparr>\<rparr>)"

text \<open>The body of the loop: \<open>Inr\<close> of a step ends it, \<open>Inl\<close> of a state is \<open>continue\<close>.\<close>

definition advance_round :: "session_state \<Rightarrow> (session_state + session_step) handler" where
  "advance_round st =
     bind_p date_now (\<lambda>now.
     if now \<ge> ss_expiresAt st
     then bind_p (finalize st SESS_AUTO_SUBMITTED) (\<lambda>st'.
          bind_p (completed_step st') (\<lambda>s. ret (Inr s)))
     else (case at_index (ss_modules st) (ss_currentModuleIndex st) of
       None \<Rightarrow>
         bind_p (finalize st SESS_COMPLETED) (\<lambda>st'.
         bind_p (completed_step st') (\<lambda>s. ret (Inr s)))
     | Some m \<Rightarrow>
         if ms_status m = Completed
         then then_p (store_save (next_module st)) (ret (Inl (next_module st)))
         else if ms_status m = Pending
         then bind_p (toSessionView st None) (\<lambda>view. ret (Inr (ModuleIntro view (toModuleView m))))
         else (case on_screen st m now of
           Some served \<Rightarrow> bind_p (toQuestionStep st m served None) (\<lambda>s. ret (Inr s))
         | None \<Rightarrow>
             bind_p (engine_nextStep m now) (\<lambda>decision.
             case decision of
               ModuleComplete reason \<Rightarrow>
                 bind_p (completeModule st m reason now) (\<lambda>st'.
                 then_p (store_save (next_module st')) (ret (Inl (next_module st'))))
             | NextQuestion q \<Rightarrow>
                 let st' = serve_in st m q now;
                     m' = markProbeServed q (m\<lparr>ms_seenQuestionIds := ms_seenQuestionIds m @ [q_id q]\<rparr>)
                 in then_p (store_save st')
                   (bind_p (toQuestionStep st' m'
                       \<lparr>sv_questionId = q_id q, sv_moduleId = ms_moduleId m, sv_servedAt = now\<rparr> (Some q))
                     (\<lambda>s. ret (Inr s)))))))"

fun advance_loop :: "nat \<Rightarrow> session_state \<Rightarrow> session_step handler" where
  "advance_loop 0 st = throw (CouldNotAdvance (ss_sessionId st))"
| "advance_loop (Suc rounds) st =
     bind_p (advance_round st) (\<lambda>r. case r of Inr s \<Rightarrow> ret s | Inl st' \<Rightarrow> advance_loop rounds st')"

definition advance :: "session_state \<Rightarrow> session_step handler" where
  "advance st =
     (if ss_status st = Live_finished then completed_step st
      else advance_loop (length (ss_modules st) * 2 + 3) st)"

end
