(* ===== verification/Question_Bank_Properties.thy ===== *)
theory Question_Bank_Properties
  imports Question_Bank Engine_Properties Sessions
begin

section \<open>What the bank promises the engine\<close>

text \<open>
  Every row an author can get into the bank satisfies the hypotheses of the engine's
  theorems, so the engine never rejects an answer the candidate could see on screen; and
  an organisation's edits stay its own.
\<close>

subsection \<open>Valid rows\<close>

definition mcq_valid :: "mcq_details \<Rightarrow> bool" where
  "mcq_valid d \<longleftrightarrow> distinct (map mo_key (md_options d)) \<and> md_correctOption d \<in> mo_key ` set (md_options d)"

definition option_bounds :: "behavioral_pattern option \<Rightarrow> nat \<times> nat" where
  "option_bounds pattern = (case pattern of Some p \<Rightarrow> PATTERN_OPTION_BOUNDS p | None \<Rightarrow> LEGACY_OPTION_BOUNDS)"

text \<open>
  That the traits of a weight are declared by the module is checked too, but does not last:
  the traits of a module can be edited (\<open>Modules_Catalog\<close>).
\<close>

definition option_valid :: "personality_option \<Rightarrow> bool" where
  "option_valid opt \<longleftrightarrow> po_traitWeights opt \<noteq> [] \<and> well_keyed (po_traitWeights opt) \<and>
     (\<forall>(trait, w)\<in>set (po_traitWeights opt). -3 \<le> w \<and> w \<le> 3)"

definition personality_valid :: "personality_details \<Rightarrow> bool" where
  "personality_valid d \<longleftrightarrow> distinct (map po_key (pd_options d)) \<and>
     fst (option_bounds (pd_pattern d)) \<le> length (pd_options d) \<and>
     length (pd_options d) \<le> snd (option_bounds (pd_pattern d)) \<and>
     (\<forall>opt\<in>set (pd_options d). option_valid opt)"

definition row_valid :: "module_entry list \<Rightarrow> question \<Rightarrow> bool" where
  "row_valid modules q \<longleftrightarrow>
     (\<exists>m. List.find (\<lambda>m. me_id m = q_moduleId q) modules = Some m \<and>
        (if me_scoringType m = OBJECTIVE
         then q_personalityDetails q = None \<and> (\<exists>d. q_mcqDetails q = Some d \<and> mcq_valid d)
         else q_mcqDetails q = None \<and> (\<exists>d. q_personalityDetails q = Some d \<and> personality_valid d)))"

definition catalogue_ok :: "module_entry list \<Rightarrow> catalogue \<Rightarrow> bool" where
  "catalogue_ok modules cg \<longleftrightarrow> cg_modules cg = modules \<and> distinct (map q_id (rows_of cg)) \<and>
     (\<forall>q\<in>set (rows_of cg). row_valid modules q)"

text \<open>The weights of a payload are a JSON object, whose keys are distinct.\<close>

definition json_personality :: "personality_dto \<Rightarrow> bool" where
  "json_personality d \<longleftrightarrow> (\<forall>opt\<in>set (dp_options d). well_keyed (po_traitWeights opt))"

fun json_request :: "authoring_request \<Rightarrow> bool" where
  "json_request (Create dto) = (case cq_personality dto of None \<Rightarrow> True | Some d \<Rightarrow> json_personality d)"
| "json_request (Update i dto) = (case uq_personality dto of None \<Rightarrow> True | Some d \<Rightarrow> json_personality d)"
| "json_request _ = True"

lemma length_js_set: "length (js_set xs) = length xs \<longleftrightarrow> distinct xs"
  by (metis card_distinct distinct_card distinct_js_set set_js_set)

lemma assertValidMcq_ok:
  "assertValidMcq d = Inr () \<longleftrightarrow>
     distinct (map mo_key (dm_options d)) \<and> dm_correctOption d \<in> mo_key ` set (dm_options d)"
  by (auto simp: assertValidMcq_def Let_def length_js_set)

lemma assertValidOption_ok:
  "well_keyed (po_traitWeights opt) \<Longrightarrow>
   assertValidOption declared opt = Inr () \<longleftrightarrow> option_valid opt \<and> fst ` set (po_traitWeights opt) \<subseteq> set declared"
  by (fastforce simp: assertValidOption_def option_valid_def each_ok_Inr TRAIT_WEIGHT_MIN_def
      TRAIT_WEIGHT_MAX_def split: if_splits)

lemma assertValidPersonality_ok:
  assumes "json_personality d" and "assertValidPersonality m d required existing = Inr ()"
  shows "personality_valid \<lparr>pd_options = dp_options d,
    pd_pattern = (case dp_pattern d of Some p \<Rightarrow> Some p | None \<Rightarrow> existing), pd_timesUsed = n\<rparr>"
  using assms
  by (auto simp: assertValidPersonality_def personality_valid_def Let_def bind_result_Inr each_ok_Inr
      length_js_set assertOptionCount_def option_bounds_def json_personality_def assertValidOption_ok
      split: if_splits prod.splits option.splits)

lemma personality_valid_cong:
  "pd_options d = pd_options d' \<Longrightarrow> pd_pattern d = pd_pattern d' \<Longrightarrow>
   personality_valid d \<longleftrightarrow> personality_valid d'"
  by (simp add: personality_valid_def)

lemma personality_valid_good: "personality_valid d \<Longrightarrow> good_question d \<and> 2 \<le> length (pd_options d)"
  by (cases "pd_pattern d"; cases "the (pd_pattern d)")
    (auto simp: personality_valid_def good_question_def well_formed_details_def option_valid_def
      option_bounds_def LEGACY_OPTION_BOUNDS_def MIN_OPTIONS_def)

subsection \<open>Every operation keeps the catalogue valid\<close>

lemma keeps_insert_question:
  assumes "row_valid modules q"
  shows "keeps (catalogue_ok modules) (insert_question q)"
  using assms
  by (auto simp: keeps_def insert_question_def catalogue_ok_def Let_def set_rows_def list_ex_iff row_valid_def)

lemma keeps_store_question:
  assumes "row_valid modules q"
  shows "keeps (catalogue_ok modules) (store_question q)"
proof -
  have "map q_id (map (\<lambda>r. if q_id r = q_id q then q else r) rows) = map q_id rows" for rows
    by (induction rows) auto
  with assms show ?thesis
    by (auto simp: keeps_def store_question_def updating_def catalogue_ok_def set_rows_def simp del: map_map)
qed

lemma keeps_drop_rows: "keeps (catalogue_ok modules) (updating (set_rows (filter P)))"
  by (auto simp: keeps_def updating_def catalogue_ok_def set_rows_def intro!: distinct_map_filter)

text \<open>Reading a row or its module keeps everything and gives a row of the table.\<close>

lemma wp_bank_findOne [wp_simps]:
  "wp (bank_findOne i orgId) Q E cg =
    (case List.find (\<lambda>q. q_id q = i \<and> visible_to_org (rows_of cg) orgId q) (rows_of cg) of
       None \<Rightarrow> E (QuestionNotFound i) cg | Some q \<Rightarrow> Q q cg)"
  by (simp add: bank_findOne_def wp_simps split: option.split)

lemma wp_module_of [wp_simps]:
  "wp (module_of q) Q E cg =
    (case List.find (\<lambda>m. me_id m = q_moduleId q) (cg_modules cg) of
       None \<Rightarrow> E (ModuleNotFound (q_moduleId q)) cg | Some m \<Rightarrow> Q m cg)"
  by (simp add: module_of_def wp_simps split: option.split)

lemma wp_probe_check [wp_simps]:
  "wp (assertProbeGroupFitsModule grp m orgId ex) Q E cg =
    (case truthy grp of None \<Rightarrow> Q () cg
     | Some g \<Rightarrow> if \<exists>s\<in>set (rows_of cg). q_probeGroup s = Some g \<and> q_organisationId s = orgId \<and>
                      Some (q_id s) \<noteq> ex \<and> q_moduleId s \<noteq> m
                  then E (ProbeGroupInOtherModule g) cg else Q () cg)"
proof (cases "truthy grp")
  case None
  then show ?thesis by (simp add: assertProbeGroupFitsModule_def wp_simps)
next
  case (Some g)
  let ?sib = "filter (\<lambda>q. q_probeGroup q = Some g \<and> q_organisationId q = orgId) (rows_of cg)"
  let ?P = "\<lambda>s. Some (q_id s) \<noteq> ex \<and> q_moduleId s \<noteq> m"
  have "(\<exists>s\<in>set (rows_of cg). q_probeGroup s = Some g \<and> q_organisationId s = orgId \<and>
      Some (q_id s) \<noteq> ex \<and> q_moduleId s \<noteq> m) \<longleftrightarrow> List.find ?P ?sib \<noteq> None"
    by (auto simp: find_None_iff)
  then show ?thesis
    by (cases "List.find ?P ?sib")
      (simp_all only: assertProbeGroupFitsModule_def wp_simps Some option.case option.distinct if_True if_False simp_thms)
qed

lemma find_row_mem: "List.find P xs = Some x \<Longrightarrow> x \<in> set xs \<and> P x"
  by (auto simp: find_Some_iff)

lemma keeps_createQuestion:
  assumes "json_request (Create dto)"
  shows "keeps (catalogue_ok modules) (createQuestion dto orgId)"
proof -
  have "wp (createQuestion dto orgId) (\<lambda>_. catalogue_ok modules) (\<lambda>_. catalogue_ok modules) cg"
    if ok: "catalogue_ok modules cg" for cg
  proof (cases "List.find (\<lambda>m. me_id m = cq_moduleId dto) (cg_modules cg)")
    case None
    with ok show ?thesis by (simp add: createQuestion_def wp_simps)
  next
    case (Some m)
    have m: "me_id m = cq_moduleId dto" "List.find (\<lambda>n. me_id n = me_id m) modules = Some m"
      using find_row_mem[OF Some] Some ok by (auto simp: catalogue_ok_def)
    show ?thesis
    proof (cases "assertPayloadMatchesModule m (cq_mcq dto) (cq_personality dto) True None")
      case (Inl e)
      with Some ok show ?thesis by (simp add: createQuestion_def wp_simps)
    next
      case (Inr u)
      have "row_valid modules (created_row dto m orgId)"
        using Inr m(2) assms assertValidPersonality_ok[of "the (cq_personality dto)" m True None 0]
        by (auto simp: row_valid_def created_row_def assertPayloadMatchesModule_def mcq_valid_def assertValidMcq_ok
            split: if_splits option.splits)
      from keepsD[OF keeps_insert_question[OF this] ok] Some Inr ok show ?thesis
        by (simp add: createQuestion_def wp_simps split: option.split)
    qed
  qed
  then show ?thesis by (simp add: keeps_wp)
qed

lemma row_valid_module:
  "row_valid modules q \<Longrightarrow> List.find (\<lambda>m. me_id m = q_moduleId q) modules = Some m \<Longrightarrow>
   (if me_scoringType m = OBJECTIVE
    then q_personalityDetails q = None \<and> (\<exists>d. q_mcqDetails q = Some d \<and> mcq_valid d)
    else q_mcqDetails q = None \<and> (\<exists>d. q_personalityDetails q = Some d \<and> personality_valid d))"
  by (auto simp: row_valid_def)

text \<open>What a successful check of an edit's payload means.\<close>

definition payload_ok :: "module_entry \<Rightarrow> question \<Rightarrow> update_question_dto \<Rightarrow> bool" where
  "payload_ok m q dto \<longleftrightarrow>
     (\<forall>d. uq_mcq dto = Some d \<longrightarrow> uq_personality dto = None \<and> me_scoringType m = OBJECTIVE \<and>
        distinct (map mo_key (dm_options d)) \<and> dm_correctOption d \<in> mo_key ` set (dm_options d)) \<and>
     (\<forall>d. uq_personality dto = Some d \<longrightarrow> me_scoringType m \<noteq> OBJECTIVE \<and>
        (\<forall>n. personality_valid \<lparr>pd_options = dp_options d,
           pd_pattern = (case dp_pattern d of Some p \<Rightarrow> Some p | None \<Rightarrow> existing_pattern q), pd_timesUsed = n\<rparr>))"

lemma payload_checked:
  assumes "json_request (Update i dto)"
    and "uq_mcq dto \<noteq> None \<or> uq_personality dto \<noteq> None \<Longrightarrow>
      assertPayloadMatchesModule m (uq_mcq dto) (uq_personality dto) False (existing_pattern q) = Inr ()"
  shows "payload_ok m q dto"
proof -
  have "personality_valid \<lparr>pd_options = dp_options d,
      pd_pattern = (case dp_pattern d of Some p \<Rightarrow> Some p | None \<Rightarrow> existing_pattern q), pd_timesUsed = n\<rparr>"
    if "uq_personality dto = Some d" "me_scoringType m \<noteq> OBJECTIVE" "uq_mcq dto = None" for d n
    using that assms assertValidPersonality_ok[of d m False "existing_pattern q" n]
    by (simp add: assertPayloadMatchesModule_def)
  moreover have "uq_mcq dto = None \<and> me_scoringType m \<noteq> OBJECTIVE" if "uq_personality dto = Some d" for d
    using that assms(2) by (auto simp: assertPayloadMatchesModule_def split: if_splits option.splits)
  ultimately show ?thesis
    using assms(2)
    by (auto simp: payload_ok_def assertPayloadMatchesModule_def assertValidMcq_ok split: if_splits)
qed

lemma row_valid_edited:
  assumes "row_valid modules q" and "List.find (\<lambda>m. me_id m = q_moduleId q) modules = Some m"
    and "payload_ok m q dto"
  shows "row_valid modules (edited_row q dto)" and "row_valid modules (fork_row q dto orgId)"
proof -
  note v = row_valid_module[OF assms(1,2)]
  have "q_moduleId (edited_row q dto) = q_moduleId q" "q_moduleId (fork_row q dto orgId) = q_moduleId q"
    by (simp_all add: edited_row_def fork_row_def)
  with assms(2) have goal:
    "row_valid modules (edited_row q dto) \<longleftrightarrow> (if me_scoringType m = OBJECTIVE
      then q_personalityDetails (edited_row q dto) = None \<and> (\<exists>d. q_mcqDetails (edited_row q dto) = Some d \<and> mcq_valid d)
      else q_mcqDetails (edited_row q dto) = None \<and>
        (\<exists>d. q_personalityDetails (edited_row q dto) = Some d \<and> personality_valid d))"
    "row_valid modules (fork_row q dto orgId) \<longleftrightarrow> (if me_scoringType m = OBJECTIVE
      then q_personalityDetails (fork_row q dto orgId) = None \<and> (\<exists>d. q_mcqDetails (fork_row q dto orgId) = Some d \<and> mcq_valid d)
      else q_mcqDetails (fork_row q dto orgId) = None \<and>
        (\<exists>d. q_personalityDetails (fork_row q dto orgId) = Some d \<and> personality_valid d))"
    by (simp_all add: row_valid_def)
  show "row_valid modules (edited_row q dto)" "row_valid modules (fork_row q dto orgId)"
  proof (atomize (full), cases "me_scoringType m = OBJECTIVE")
    case True
    with v obtain d where "q_personalityDetails q = None" "q_mcqDetails q = Some d" "mcq_valid d" by auto
    with True assms(3) show "row_valid modules (edited_row q dto) \<and> row_valid modules (fork_row q dto orgId)"
      unfolding goal
      by (cases "uq_mcq dto"; cases "uq_personality dto")
        (auto simp: edited_row_def fork_row_def payload_ok_def mcq_valid_def)
  next
    case False
    with v obtain d where d: "q_mcqDetails q = None" "q_personalityDetails q = Some d" "personality_valid d"
      by auto
    have same: "personality_valid (d\<lparr>pd_options := os, pd_pattern := p\<rparr>)
        = personality_valid \<lparr>pd_options = os, pd_pattern = p, pd_timesUsed = 0\<rparr>"
      "personality_valid (d\<lparr>pd_options := os\<rparr>)
        = personality_valid \<lparr>pd_options = os, pd_pattern = pd_pattern d, pd_timesUsed = 0\<rparr>"
      "personality_valid \<lparr>pd_options = pd_options d, pd_pattern = pd_pattern d, pd_timesUsed = 0\<rparr>" for os p
      using d(3) by (simp_all add: personality_valid_def)
    from d False assms(3) show "row_valid modules (edited_row q dto) \<and> row_valid modules (fork_row q dto orgId)"
      unfolding goal
      by (cases "uq_mcq dto"; cases "uq_personality dto"; cases "dp_pattern (the (uq_personality dto))")
        (auto simp: edited_row_def fork_row_def payload_ok_def existing_pattern_def same)
  qed
qed

lemma keeps_update_question:
  assumes json: "json_request (Update i dto)"
  shows "keeps (catalogue_ok modules) (update_question_op i dto orgId)"
proof -
  have "wp (update_question_op i dto orgId) (\<lambda>_. catalogue_ok modules) (\<lambda>_. catalogue_ok modules) cg"
    if ok: "catalogue_ok modules cg" for cg
  proof (cases "List.find (\<lambda>q. q_id q = i \<and> visible_to_org (rows_of cg) orgId q) (rows_of cg)")
    case None
    with ok show ?thesis by (simp add: update_question_op_def wp_simps)
  next
    case (Some q)
    have q: "q \<in> set (rows_of cg)" "row_valid modules q" "cg_modules cg = modules"
      using find_row_mem[OF Some] ok by (auto simp: catalogue_ok_def)
    then obtain m where m: "List.find (\<lambda>m. me_id m = q_moduleId q) modules = Some m"
      by (auto simp: row_valid_def)
    let ?check = "if uq_mcq dto \<noteq> None \<or> uq_personality dto \<noteq> None
      then assertPayloadMatchesModule m (uq_mcq dto) (uq_personality dto) False (existing_pattern q) else Inr ()"
    have check: "(if uq_mcq dto \<noteq> None \<or> uq_personality dto \<noteq> None
        then of_result (assertPayloadMatchesModule m (uq_mcq dto) (uq_personality dto) False (existing_pattern q))
        else ret ()) = (of_result ?check :: unit authoring)"
      by (simp add: of_result_def ret_def)
    define rest where "rest = (if q_organisationId q = None then forkPlatformQuestion q dto orgId
      else then_p (store_question (edited_row q dto)) (bank_findOne i orgId))"
    have op: "wp (update_question_op i dto orgId) Q E cg = wp (then_p (of_result ?check)
        (then_p (assertProbeGroupFitsModule (uq_probeGroup dto) (q_moduleId q) (Some orgId)
           (if q_organisationId q = None then None else Some i)) rest)) Q E cg" for Q E
      by (simp only: update_question_op_def wp_bind wp_bank_findOne wp_module_of Some option.case q(3) m
          check rest_def)
    show ?thesis
    proof (cases ?check)
      case (Inl e)
      with ok show ?thesis by (simp only: op wp_then wp_of_result sum.case)
    next
      case (Inr u)
      then have "payload_ok m q dto"
        using payload_checked[OF json] by (auto split: if_splits)
      note valid = row_valid_edited[OF q(2) m this]
      have "wp (then_p (store_question (edited_row q dto)) (bank_findOne i orgId))
          (\<lambda>_. catalogue_ok modules) (\<lambda>_. catalogue_ok modules) cg"
        using keepsD[OF keeps_store_question[OF valid(1)] ok] unfolding wp_then
        by (rule wp_mono) (simp_all add: wp_simps split: option.split)
      with keepsD[OF keeps_insert_question[OF valid(2)] ok]
      have "wp rest (\<lambda>_. catalogue_ok modules) (\<lambda>_. catalogue_ok modules) cg"
        by (simp add: rest_def forkPlatformQuestion_def)
      with ok show ?thesis
        by (simp only: op wp_then wp_of_result Inr sum.case wp_probe_check)
          (simp split: option.split)
    qed
  qed
  then show ?thesis by (simp add: keeps_wp)
qed

lemma keeps_setStatus: "keeps (catalogue_ok modules) (setStatus i status orgId)"
proof -
  have "wp (setStatus i status orgId) (\<lambda>_. catalogue_ok modules) (\<lambda>_. catalogue_ok modules) cg"
    if ok: "catalogue_ok modules cg" for cg
  proof (cases "List.find (\<lambda>q. q_id q = i \<and> visible_to_org (rows_of cg) orgId q) (rows_of cg)")
    case None
    with ok show ?thesis by (simp add: setStatus_def wp_simps)
  next
    case (Some q)
    have q: "row_valid modules q" using find_row_mem[OF Some] ok by (auto simp: catalogue_ok_def)
    then obtain m where m: "List.find (\<lambda>m. me_id m = q_moduleId q) modules = Some m"
      by (auto simp: row_valid_def)
    have "payload_ok m q (no_changes\<lparr>uq_status := Some status\<rparr>)" by (simp add: payload_ok_def no_changes_def)
    note f = row_valid_edited(2)[OF q m this, of orgId]
    have s: "row_valid modules (q\<lparr>q_status := status\<rparr>)" using q by (simp add: row_valid_def cong: if_cong)
    from Some ok keepsD[OF keeps_insert_question[OF f] ok]
      keepsD[OF keeps_then[OF keeps_store_question[OF s] keeps_ret[where x = "q\<lparr>q_status := status\<rparr>"]] ok]
    show ?thesis by (simp add: setStatus_def wp_bind wp_bank_findOne forkPlatformQuestion_def)
  qed
  then show ?thesis by (simp add: keeps_wp)
qed

lemma keeps_removeQuestion: "keeps (catalogue_ok modules) (removeQuestion i orgId)"
  unfolding removeQuestion_def bank_findOne_def countResponses_def
  by (intro keeps_intros keeps_drop_rows)

lemma catalogue_ok_author:
  assumes "json_request req" and "catalogue_ok modules cg"
  shows "catalogue_ok modules (author orgId req cg)"
proof -
  have "keeps (catalogue_ok modules) m \<Longrightarrow> catalogue_ok modules (snd (m cg))" for m :: "'x authoring"
    using assms(2) by (simp add: keeps_def)
  note keep = this
  show ?thesis
    using assms(1) keep[OF keeps_createQuestion] keep[OF keeps_update_question] keep[OF keeps_setStatus]
      keep[OF keeps_removeQuestion]
    by (cases req) (simp_all add: archive_def keepsD)
qed

text \<open>Calibration by the engine changes counters and difficulties, nothing a check looks at.\<close>

lemma row_valid_calibrated:
  "row_valid modules (r\<lparr>q_mcqDetails := map_option (\<lambda>d. d\<lparr>md_difficultyScore := f d,
     md_timesUsed := g d, md_timesCorrect := h d\<rparr>) (q_mcqDetails r)\<rparr>) = row_valid modules r"
  "row_valid modules (r\<lparr>q_personalityDetails := map_option (\<lambda>d. d\<lparr>pd_timesUsed := k d\<rparr>)
     (q_personalityDetails r)\<rparr>) = row_valid modules r"
proof -
  have "personality_valid (d\<lparr>pd_timesUsed := n\<rparr>) = personality_valid d"
    "mcq_valid (e\<lparr>md_difficultyScore := i, md_timesUsed := n, md_timesCorrect := n'\<rparr>) = mcq_valid e" for m d n e i n'
    by (simp_all add: personality_valid_def mcq_valid_def)
  then show "row_valid modules (r\<lparr>q_mcqDetails := map_option (\<lambda>d. d\<lparr>md_difficultyScore := f d,
       md_timesUsed := g d, md_timesCorrect := h d\<rparr>) (q_mcqDetails r)\<rparr>) = row_valid modules r"
    and "row_valid modules (r\<lparr>q_personalityDetails := map_option (\<lambda>d. d\<lparr>pd_timesUsed := k d\<rparr>)
       (q_personalityDetails r)\<rparr>) = row_valid modules r"
    unfolding row_valid_def by (intro arg_cong[of _ _ Ex] ext; cases "q_mcqDetails r"; cases "q_personalityDetails r"; simp)+
qed

lemma update_question_all:
  "\<forall>r\<in>set (bk_questions bank). P r \<Longrightarrow> (\<And>r. P r \<Longrightarrow> P (f r)) \<Longrightarrow>
   \<forall>r\<in>set (bk_questions (update_question i f bank)). P r"
  by (auto simp: update_question_def)

lemma bank_calibrated:
  assumes "recordAnswer bank st q ans n = Inr (out, st', bank')"
    and all: "\<forall>r\<in>set (bk_questions bank). row_valid modules r"
  shows "\<forall>r\<in>set (bk_questions bank'). row_valid modules r"
  using assms(1)
proof (cases rule: recordAnswer_cases)
  case objective
  show ?thesis unfolding objective(5) update_mcq_row_def
    by (rule update_question_all[OF all]) (simp only: row_valid_calibrated)
next
  case trait
  show ?thesis unfolding trait(7) update_personality_row_def
    by (rule update_question_all[OF all]) (simp only: row_valid_calibrated)
qed

subsection \<open>The life of a catalogue\<close>

text \<open>
  Any organisation authors, and any candidate's answer calibrates the rows. A catalogue
  starts with no question in it: the platform's questions too are created, by the seed
  script, which passes no organisation. Modules come and change, but keep the way they are
  scored, which \<open>Modules_Catalog\<close> shows of every request about them.
\<close>

inductive catalogue_step :: "catalogue \<Rightarrow> catalogue \<Rightarrow> bool" where
  authored: "json_request req \<Longrightarrow> catalogue_step cg (author orgId req cg)"
| seeded: "json_request (Create dto) \<Longrightarrow> catalogue_step cg (snd (createQuestion dto None cg))"
| calibrated: "recordAnswer (cg_bank cg) st q ans n = Inr (out, st', bank') \<Longrightarrow>
    catalogue_step cg (cg\<lparr>cg_bank := bank', cg_answered := cg_answered cg @ [q_id q]\<rparr>)"

definition same_kinds :: "module_entry list \<Rightarrow> module_entry list \<Rightarrow> bool" where
  "same_kinds ms ms' \<longleftrightarrow> (\<forall>i m. List.find (\<lambda>m. me_id m = i) ms = Some m \<longrightarrow>
     (\<exists>m'. List.find (\<lambda>m. me_id m = i) ms' = Some m' \<and> me_scoringType m' = me_scoringType m))"

inductive reachable_catalogue :: "module_entry list \<Rightarrow> catalogue \<Rightarrow> bool" where
  empty: "rows_of cg = [] \<Longrightarrow> cg_modules cg = modules \<Longrightarrow> reachable_catalogue modules cg"
| step: "reachable_catalogue modules cg \<Longrightarrow> catalogue_step cg cg' \<Longrightarrow> reachable_catalogue modules cg'"
| catalogued: "reachable_catalogue modules cg \<Longrightarrow> rows_of cg' = rows_of cg \<Longrightarrow> cg_modules cg' = modules' \<Longrightarrow>
    same_kinds modules modules' \<Longrightarrow> reachable_catalogue modules' cg'"

lemma catalogue_step_ok:
  assumes "catalogue_step cg cg'" and "catalogue_ok modules cg"
  shows "catalogue_ok modules cg'"
  using assms
proof (cases rule: catalogue_step.cases)
  case (authored req orgId)
  with assms(2) show ?thesis by (simp add: catalogue_ok_author)
next
  case (seeded dto)
  with assms(2) show ?thesis
    using keeps_createQuestion[OF seeded(2), of modules None] by (simp add: keeps_def)
next
  case (calibrated st q ans n out st' bank')
  then have "distinct (map q_id (bk_questions bank'))"
    using recordAnswer_bank[OF calibrated(2)] assms(2) by (simp add: catalogue_ok_def)
  then show ?thesis
    using calibrated bank_calibrated[OF calibrated(2)] assms(2) by (simp add: catalogue_ok_def)
qed

lemma row_valid_same_kinds: "same_kinds ms ms' \<Longrightarrow> row_valid ms q \<Longrightarrow> row_valid ms' q"
  by (force simp: same_kinds_def row_valid_def)

lemma reachable_catalogue_ok: "reachable_catalogue modules cg \<Longrightarrow> catalogue_ok modules cg"
proof (induction rule: reachable_catalogue.induct)
  case (empty cg modules)
  then show ?case by (simp add: catalogue_ok_def)
next
  case (step modules cg cg')
  then show ?case by (blast intro: catalogue_step_ok)
next
  case (catalogued modules cg cg' modules')
  then show ?case by (auto simp: catalogue_ok_def intro: row_valid_same_kinds)
qed

text \<open>What a served question of such a catalogue accepts, for every client of it.\<close>

lemma served_accepts:
  assumes "reachable_catalogue modules cg"
    and "List.find (\<lambda>m. me_id m = ms_moduleId st) modules = Some m" and "ms_scoringType st = me_scoringType m"
    and "selectNext (cg_bank cg) st r = (Some q, r')"
  shows "(let view = toQuestionView q st; shown = map fst (qv_options view) in
    shown \<noteq> [] \<and> distinct shown \<and>
    ((\<exists>res. recordAnswer (cg_bank cg) st q answer n = Inr res) \<longleftrightarrow>
      (case answer of AnsUnanswered \<Rightarrow> True
       | AnsOption k \<Rightarrow> qv_pattern view \<noteq> Some RANKING \<and> k \<in> set shown
       | AnsRanking ks \<Rightarrow> qv_pattern view = Some RANKING \<and> mset ks = mset shown)))"
proof -
  note ok = reachable_catalogue_ok[OF assms(1)]
  then have "q \<in> set (rows_of cg)" "eligible (cg_bank cg) st q"
    using selectNext_eligible[OF _ assms(4)] by (auto simp: catalogue_ok_def)
  then have "row_valid modules q" "q_moduleId q = ms_moduleId st"
    using ok by (auto simp: catalogue_ok_def eligible_def)
  note v = row_valid_module[OF this(1), of m, unfolded this(2), OF assms(2)]
  show ?thesis
  proof (cases "ms_scoringType st")
    case OBJECTIVE
    with v assms(3) obtain d where d: "q_personalityDetails q = None" "q_mcqDetails q = Some d" "mcq_valid d"
      by auto
    have shown: "map fst (qv_options (toQuestionView q st)) = map mo_key (md_options d)"
      "qv_pattern (toQuestionView q st) = None" "qv_options (toQuestionView q st) \<noteq> []"
      using OBJECTIVE d by (auto simp: toQuestionView_def comp_def mcq_valid_def)
    show ?thesis
      using recordAnswer_accepts_code[of q "cg_bank cg" st answer n] OBJECTIVE d
      by (auto simp: Let_def shown mcq_valid_def split: submitted_answer.split)
  next
    case TRAIT
    with v assms(3) obtain d where d: "q_mcqDetails q = None" "q_personalityDetails q = Some d" "personality_valid d"
      by auto
    have shown: "map fst (qv_options (toQuestionView q st)) = map po_key (pd_options d)"
      "qv_pattern (toQuestionView q st) = pd_pattern d" "qv_options (toQuestionView q st) \<noteq> []"
      using TRAIT d personality_valid_good[OF d(3)]
      by (auto simp: toQuestionView_def comp_def good_question_def)
    show ?thesis
      using recordAnswer_accepts_code[of q "cg_bank cg" st answer n] TRAIT d personality_valid_good[OF d(3)]
      by (auto simp: Let_def shown is_ranking_def personality_valid_def split: submitted_answer.split)
  qed
qed


definition sample_entry :: module_entry where
  "sample_entry = \<lparr>me_id = ''m'', me_slug = ''numeracy'', me_name = ''Numeracy'',
     me_description = None, me_scoringType = OBJECTIVE, me_traits = None, me_isActive = True\<rparr>"

definition sample_question_dto :: create_question_dto where
  "sample_question_dto = \<lparr>cq_moduleId = ''m'', cq_questionText = ''2 + 2?'', cq_status = Some ACTIVE,
     cq_probeGroup = None, cq_isSample = None,
     cq_mcq = Some \<lparr>dm_options = [\<lparr>mo_key = ''A'', mo_text = ''4''\<rparr>, \<lparr>mo_key = ''B'', mo_text = ''5''\<rparr>],
       dm_correctOption = ''A'', dm_difficultyScore = None\<rparr>, cq_personality = None\<rparr>"

definition empty_catalogue :: catalogue where
  "empty_catalogue = \<lparr>cg_modules = [sample_entry], cg_bank = \<lparr>bk_questions = [], bk_pool = []\<rparr>,
     cg_answered = [], cg_ids = (\<lambda>n. ''q'' @ replicate n CHR ''x'')\<rparr>"

text \<open>The platform's question, as the seed script creates it.\<close>

definition seeded_catalogue :: catalogue where
  "seeded_catalogue = snd (createQuestion sample_question_dto None empty_catalogue)"

lemmas catalogue_samples = sample_entry_def sample_question_dto_def empty_catalogue_def

lemma seeded_catalogue_rows:
  "seeded_catalogue = \<lparr>cg_modules = [sample_entry],
     cg_bank = \<lparr>bk_questions = [(created_row sample_question_dto sample_entry None)\<lparr>q_id := ''q''\<rparr>], bk_pool = []\<rparr>,
     cg_answered = [], cg_ids = (\<lambda>n. ''qx'' @ replicate n CHR ''x'')\<rparr>"
  by (simp add: seeded_catalogue_def createQuestion_def catalogue_samples bind_p_def then_p_def reading_def
      of_result_def ret_def assertPayloadMatchesModule_def assertValidMcq_def Let_def assertProbeGroupFitsModule_def
      truthy_def insert_question_def set_rows_def fun_eq_iff)

lemma seeded_catalogue_reachable: "reachable_catalogue [sample_entry] seeded_catalogue"
  unfolding seeded_catalogue_def
  by (rule reachable_catalogue.step[OF reachable_catalogue.empty catalogue_step.seeded])
    (simp_all add: catalogue_samples)


end
