(* ===== verification/Assessments.thy ===== *)
theory Assessments
  imports Question_Bank_Properties Session_World
begin

section \<open>Setting up assessments\<close>

text \<open>
  \<open>assessments/assessments.service.ts\<close> and the check \<open>assertUsable\<close> of
  \<open>companies/companies.service.ts\<close>: creating an assessment, curating its question pool,
  choosing the company it is for, deleting it with everything that hangs off it. The tables
  are those of the candidate runtime (\<open>world\<close>) with the module catalogue and the companies;
  the join table \<open>assessment_questions\<close> appears there both as the pool of the assessment
  row and as the pairs the selector filters by, and both are written together. A transaction
  is one update. Descriptions and authorship, which are only displayed, are left out; dates
  arrive parsed.
\<close>

record company_row =
  co_id :: string
  co_organisationId :: string
  co_name :: string
  co_isActive :: bool
  co_logoUrl :: "string option"
  co_accentColor :: "string option"
  co_supportEmail :: "string option"

record workspace =
  ws_world :: world
  ws_modules :: "module_entry list"
  ws_companies :: "company_row list"
  ws_companyOf :: "(string \<times> string) list"

record assessment_module_dto =
  ad_moduleId :: string
  ad_questionCount :: nat
  ad_timeLimitSeconds :: nat
  ad_displayOrder :: "nat option"

record create_assessment_dto =
  ca_title :: string
  ca_modules :: "assessment_module_dto list"
  ca_opensAt :: "int option"
  ca_closesAt :: "int option"
  ca_questionIds :: "string list option"
  ca_companyId :: "string option"

record pool_module_config =
  pc_moduleId :: string
  pc_questionCount :: nat
  pc_name :: string

datatype assessment_error =
    AssessmentMissing string
  | QuestionsNotAvailable nat
  | SampleQuestionsChosen nat
  | StrayQuestionsChosen nat
  | TooFewQuestions string nat nat
  | ModuleListedTwice
  | ModuleIdsUnknown
  | ModulesInactive "string list"
  | WindowClosesBeforeItOpens
  | CompanyNotFound
  | DuplicateAssessmentId

type_synonym 'a staff = "(assessment_error, workspace, 'a) prog"

abbreviation ws_bank :: "workspace \<Rightarrow> bank" where
  "ws_bank ws \<equiv> w_bank (ws_world ws)"

abbreviation ws_assessments :: "workspace \<Rightarrow> assessment_row list" where
  "ws_assessments ws \<equiv> w_assessments (ws_world ws)"

definition set_world :: "(world \<Rightarrow> world) \<Rightarrow> workspace \<Rightarrow> workspace" where
  "set_world f ws = ws\<lparr>ws_world := f (ws_world ws)\<rparr>"

subsection \<open>Loading\<close>

definition load_assessment :: "string \<Rightarrow> string \<Rightarrow> assessment_row staff" where
  "load_assessment i organisationId =
     bind_p (reading (\<lambda>ws. List.find (\<lambda>a. as_id a = i \<and> as_organisationId a = organisationId) (ws_assessments ws)))
       (\<lambda>found. case found of None \<Rightarrow> throw (AssessmentMissing i) | Some a \<Rightarrow> ret a)"

definition assessments_findOne :: "string \<Rightarrow> string \<Rightarrow> assessment_row staff" where
  "assessments_findOne i organisationId = load_assessment i organisationId"

definition company_findOneOrThrow :: "string \<Rightarrow> string \<Rightarrow> company_row staff" where
  "company_findOneOrThrow i organisationId =
     bind_p (reading (\<lambda>ws. List.find (\<lambda>c. co_id c = i \<and> co_organisationId c = organisationId) (ws_companies ws)))
       (\<lambda>found. case found of None \<Rightarrow> throw CompanyNotFound | Some c \<Rightarrow> ret c)"

definition assertUsable :: "string \<Rightarrow> string \<Rightarrow> company_row staff" where
  "assertUsable i organisationId =
     bind_p (company_findOneOrThrow i organisationId) (\<lambda>c. if co_isActive c then ret c else throw CompanyNotFound)"

subsection \<open>The pool\<close>

text \<open>The loop over the module configurations, which throws at the first section short of questions.\<close>

definition enough_for :: "question list \<Rightarrow> pool_module_config \<Rightarrow> assessment_error + unit" where
  "enough_for visible config =
     (let usable = length (filter (\<lambda>q. q_moduleId q = pc_moduleId config \<and> q_status q = ACTIVE) visible)
      in if usable < pc_questionCount config
         then Inl (TooFewQuestions (pc_name config) (pc_questionCount config) usable) else Inr ())"

definition pool_check ::
  "question list \<Rightarrow> pool_module_config list \<Rightarrow> string list \<Rightarrow> string \<Rightarrow> assessment_error + unit" where
  "pool_check questions configs questionIds organisationId =
     (let visible = filter (\<lambda>q. q_id q \<in> set questionIds \<and> visible_to_org questions organisationId q) questions;
          samples = filter q_isSample visible;
          moduleIds = set (map pc_moduleId configs);
          strays = filter (\<lambda>q. q_moduleId q \<notin> moduleIds) visible
      in if length visible \<noteq> length questionIds
         then Inl (QuestionsNotAvailable (length questionIds - length visible))
         else if length samples > 0 then Inl (SampleQuestionsChosen (length samples))
         else if length strays > 0 then Inl (StrayQuestionsChosen (length strays))
         else each_ok (enough_for visible) configs)"

definition assertPoolIsUsable :: "pool_module_config list \<Rightarrow> string list \<Rightarrow> string \<Rightarrow> unit staff" where
  "assertPoolIsUsable configs questionIds organisationId =
     (\<lambda>ws. (pool_check (bk_questions (ws_bank ws)) configs questionIds organisationId, ws))"

definition store_pool :: "string \<Rightarrow> string list \<Rightarrow> world \<Rightarrow> world" where
  "store_pool assessmentId unique w = w
     \<lparr>w_assessments := update_rows (\<lambda>a. as_id a = assessmentId) (\<lambda>a. a\<lparr>as_questionPool := unique\<rparr>) (w_assessments w),
      w_bank := (w_bank w)\<lparr>bk_pool := filter (\<lambda>p. fst p \<noteq> assessmentId) (bk_pool (w_bank w))
        @ map (\<lambda>q. (assessmentId, q)) unique\<rparr>\<rparr>"

definition setQuestionPool :: "string \<Rightarrow> string list \<Rightarrow> string \<Rightarrow> assessment_row staff" where
  "setQuestionPool assessmentId questionIds organisationId =
     bind_p (assessments_findOne assessmentId organisationId) (\<lambda>assessment.
     let unique = js_set questionIds
     in then_p (if length unique > 0
                then assertPoolIsUsable (map (\<lambda>c. \<lparr>pc_moduleId = am_moduleId c,
                       pc_questionCount = am_questionCount c, pc_name = am_name c\<rparr>) (as_modules assessment))
                       unique organisationId
                else ret ())
       (then_p (updating (set_world (store_pool assessmentId unique)))
         (assessments_findOne assessmentId organisationId)))"

subsection \<open>Creating, moving and deleting\<close>

definition module_row :: "module_entry list \<Rightarrow> assessment_module_dto \<Rightarrow> assessment_module" where
  "module_row modules m =
     (let e = List.find (\<lambda>e. me_id e = ad_moduleId m) modules
      in \<lparr>am_moduleId = ad_moduleId m, am_slug = (case e of None \<Rightarrow> '''' | Some e \<Rightarrow> me_slug e),
          am_name = (case e of None \<Rightarrow> '''' | Some e \<Rightarrow> me_name e), am_description = (case e of None \<Rightarrow> None | Some e \<Rightarrow> me_description e),
          am_scoringType = (case e of None \<Rightarrow> OBJECTIVE | Some e \<Rightarrow> me_scoringType e),
          am_traits = (case e of None \<Rightarrow> None | Some e \<Rightarrow> me_traits e),
          am_questionCount = ad_questionCount m, am_timeLimitSeconds = ad_timeLimitSeconds m\<rparr>)"

text \<open>\<open>displayOrder ?? index\<close>; a loaded assessment has its modules in display order.\<close>

definition ordered_modules :: "module_entry list \<Rightarrow> assessment_module_dto list \<Rightarrow> assessment_module list" where
  "ordered_modules modules ms =
     map (module_row modules \<circ> snd)
       (sort_key (\<lambda>(index, m). or_else (ad_displayOrder m) index) (enumerate 0 ms))"

definition dto_check :: "module_entry list \<Rightarrow> create_assessment_dto \<Rightarrow> assessment_error + unit" where
  "dto_check modules dto =
     (let moduleIds = map ad_moduleId (ca_modules dto);
          found = filter (\<lambda>m. me_id m \<in> set moduleIds) modules;
          inactive = filter (\<lambda>m. \<not> me_isActive m) found
      in if length (js_set moduleIds) \<noteq> length moduleIds then Inl ModuleListedTwice
         else if length found \<noteq> length moduleIds then Inl ModuleIdsUnknown
         else if length inactive > 0 then Inl (ModulesInactive (map me_name inactive))
         else (case (ca_opensAt dto, ca_closesAt dto) of
                 (Some a, Some b) \<Rightarrow> if a \<ge> b then Inl WindowClosesBeforeItOpens else Inr ()
               | _ \<Rightarrow> Inr ()))"

definition insert_assessment ::
  "create_assessment_dto \<Rightarrow> string list \<Rightarrow> string \<Rightarrow> string staff" where
  "insert_assessment dto pool organisationId =
     (\<lambda>ws. let w = ws_world ws; i = w_uuids w 0;
               row = \<lparr>as_id = i, as_title = js_trim (ca_title dto), as_organisationId = organisationId,
                      as_opensAt = ca_opensAt dto, as_closesAt = ca_closesAt dto,
                      as_modules = ordered_modules (ws_modules ws) (ca_modules dto), as_questionPool = []\<rparr>
           in if list_ex (\<lambda>a. as_id a = i) (w_assessments w) then (Inl DuplicateAssessmentId, ws)
              else (Inr i, ws\<lparr>ws_companyOf := (case ca_companyId dto of None \<Rightarrow> ws_companyOf ws
                            | Some c \<Rightarrow> AList.update i c (ws_companyOf ws)),
                         ws_world := store_pool i pool (w\<lparr>w_uuids := (\<lambda>n. w_uuids w (Suc n)),
                            w_assessments := w_assessments w @ [row]\<rparr>)\<rparr>))"

definition createAssessment :: "create_assessment_dto \<Rightarrow> string \<Rightarrow> assessment_row staff" where
  "createAssessment dto organisationId =
     bind_p (reading ws_modules) (\<lambda>modules.
     then_p (of_result (dto_check modules dto))
    (then_p (case truthy (ca_companyId dto) of None \<Rightarrow> ret ()
             | Some c \<Rightarrow> then_p (assertUsable c organisationId) (ret ()))
     (let pool = js_set (or_else (ca_questionIds dto) [])
      in then_p (if length pool > 0
                 then assertPoolIsUsable (map (\<lambda>m. \<lparr>pc_moduleId = ad_moduleId m,
                        pc_questionCount = ad_questionCount m, pc_name = am_name (module_row modules m)\<rparr>)
                        (ca_modules dto)) pool organisationId
                 else ret ())
           (bind_p (insert_assessment dto pool organisationId) (\<lambda>i. assessments_findOne i organisationId)))))"

definition setCompany :: "string \<Rightarrow> string option \<Rightarrow> string \<Rightarrow> assessment_row staff" where
  "setCompany i companyId organisationId =
     then_p (load_assessment i organisationId)
    (then_p (case truthy companyId of None \<Rightarrow> ret ()
             | Some c \<Rightarrow> then_p (assertUsable c organisationId) (ret ()))
    (then_p (updating (\<lambda>ws. ws\<lparr>ws_companyOf := (case companyId of
                None \<Rightarrow> filter (\<lambda>p. fst p \<noteq> i) (ws_companyOf ws)
              | Some c \<Rightarrow> AList.update i c (ws_companyOf ws))\<rparr>))
     (load_assessment i organisationId)))"

text \<open>Deleting a session takes its responses and module results with it (\<open>ON DELETE CASCADE\<close>).\<close>

definition drop_sessions :: "(session_row \<Rightarrow> bool) \<Rightarrow> world \<Rightarrow> world" where
  "drop_sessions P w =
     (let gone = sr_id ` set (filter P (w_sessions w))
      in w\<lparr>w_sessions := filter (\<lambda>s. \<not> P s) (w_sessions w),
           w_responses := filter (\<lambda>r. rs_sessionId r \<notin> gone) (w_responses w),
           w_results := filter (\<lambda>r. mr_sessionId r \<notin> gone) (w_results w)\<rparr>)"

definition drop_assessment :: "string \<Rightarrow> world \<Rightarrow> world" where
  "drop_assessment i w =
     (let w1 = drop_sessions (\<lambda>s. sr_assessmentId s = i) w
      in w1\<lparr>w_invitations := filter (\<lambda>v. iv_assessmentId v \<noteq> i) (w_invitations w1),
            w_assessments := filter (\<lambda>a. as_id a \<noteq> i) (w_assessments w1),
            w_bank := (w_bank w1)\<lparr>bk_pool := filter (\<lambda>p. fst p \<noteq> i) (bk_pool (w_bank w1))\<rparr>\<rparr>)"

definition removeAssessment :: "string \<Rightarrow> string \<Rightarrow> (nat \<times> nat) staff" where
  "removeAssessment i organisationId =
     then_p (assessments_findOne i organisationId)
    (bind_p (reading (\<lambda>ws. (length (filter (\<lambda>s. sr_assessmentId s = i) (w_sessions (ws_world ws))),
                            length (filter (\<lambda>v. iv_assessmentId v = i) (w_invitations (ws_world ws))))))
     (\<lambda>counts. then_p (updating (set_world (drop_assessment i))) (ret counts)))"

end
