(* ===== verification/Rehydrate.thy ===== *)
theory Rehydrate
  imports Sessions
begin

section \<open>Rebuilding live state from the database\<close>

text \<open>
  \<open>rehydrate\<close> and \<open>replayTraitAnswer\<close> of \<open>sessions/sessions.service.ts\<close>: after Redis
  has lost a session, the run is replayed from its \<open>responses\<close> and
  \<open>session_module_results\<close> rows. An evaluation error is caught and costs that one
  answer's contribution.
\<close>

definition module_config :: "assessment_row \<Rightarrow> assessment_module \<Rightarrow> module_run_config" where
  "module_config a c =
     \<lparr>ms_moduleId = am_moduleId c, ms_organisationId = as_organisationId a,
      ms_assessmentId = as_id a, ms_poolRestricted = (as_questionPool a \<noteq> []),
      ms_slug = am_slug c, ms_name = am_name c, ms_description = am_description c,
      ms_scoringType = am_scoringType c, ms_traits = or_else (am_traits c) [],
      ms_questionCount = am_questionCount c, ms_timeLimitSeconds = am_timeLimitSeconds c\<rparr>"

definition fresh_modules :: "assessment_row \<Rightarrow> module_state list" where
  "fresh_modules a = map (\<lambda>c. createModuleState (module_config a c)) (as_modules a)"

text \<open>\<open>Boolean(answer.selectedOptions?.length)\<close>.\<close>

definition ranked_keys :: "response_row \<Rightarrow> string list option" where
  "ranked_keys answer =
     (case rs_selectedOptions answer of None \<Rightarrow> None | Some ks \<Rightarrow> if ks = [] then None else Some ks)"

definition replayTraitAnswer ::
  "personality_details \<Rightarrow> response_row \<Rightarrow> (real jsobj \<times> trait_range jsobj) option" where
  "replayTraitAnswer details answer =
     (let evaluated =
            (case ranked_keys answer of
               Some ks \<Rightarrow> Some (evaluateRanking details ks)
             | None \<Rightarrow>
                 map_option (evaluatePersonality details) (truthy (rs_selectedOption answer)));
          isRanking = (ranked_keys answer \<noteq> None)
      in case evaluated of
           Some (Inr result) \<Rightarrow>
             (case achievableTraitRange details isRanking of
                Inr ranges \<Rightarrow> Some (er_traitWeights result, ranges)
              | Inl _ \<Rightarrow> None)
         | _ \<Rightarrow> None)"

definition was_answered :: "response_row \<Rightarrow> bool" where
  "was_answered answer \<longleftrightarrow> rs_selectedOption answer \<noteq> None \<or> ranked_keys answer \<noteq> None"

definition replay_objective :: "response_row \<Rightarrow> question \<Rightarrow> module_state \<Rightarrow> module_state" where
  "replay_objective answer q m =
     (let difficulty = or_else (rs_questionDifficultyAtServe answer) 0;
          m1 = m\<lparr>ms_information := ms_information m + fisher_information (ms_ability m) difficulty,
                 ms_ability := or_else (rs_abilityEstimateAfter answer) (ms_ability m)\<rparr>;
          m2 = trackAbility (ms_ability m1) m1;
          m3 = m2\<lparr>ms_correct := ms_correct m2 + (if rs_isCorrect answer = Some True then 1 else 0)\<rparr>
      in replayProbe q (rs_sequenceNumber answer)
           (if was_answered answer then SigObjective (rs_isCorrect answer = Some True)
            else SigUnanswered) m3)"

definition replay_trait :: "response_row \<Rightarrow> question \<Rightarrow> module_state \<Rightarrow> module_state" where
  "replay_trait answer q m =
     (let replayed = (case q_personalityDetails q of
                        None \<Rightarrow> None | Some details \<Rightarrow> replayTraitAnswer details answer);
          m1 = (case replayed of
                  None \<Rightarrow> m
                | Some (weights, ranges) \<Rightarrow>
                    m\<lparr>ms_traitTallies := applyTraitWeights (ms_traitTallies m) weights (Some ranges)\<rparr>);
          m2 = (case q_personalityDetails q of
                  None \<Rightarrow> m1
                | Some details \<Rightarrow>
                    m1\<lparr>ms_patternCounts := bump_pattern (pd_pattern details) (ms_patternCounts m1)\<rparr>)
      in replayProbe q (rs_sequenceNumber answer)
           (case replayed of
              Some (weights, _) \<Rightarrow> if was_answered answer then SigTrait weights else SigUnanswered
            | None \<Rightarrow> SigUnanswered) m2)"

definition replay_answer :: "response_row \<Rightarrow> question \<Rightarrow> module_state \<Rightarrow> module_state" where
  "replay_answer answer q m =
     (let m' = m\<lparr>ms_seenQuestionIds := ms_seenQuestionIds m @ [rs_questionId answer],
                 ms_answered := ms_answered m + 1, ms_status := In_progress\<rparr>
      in if ms_scoringType m = OBJECTIVE then replay_objective answer q m'
         else replay_trait answer q m')"

definition is_module :: "string \<Rightarrow> module_state \<Rightarrow> bool" where
  "is_module i m \<longleftrightarrow> ms_moduleId m = i"

text \<open>The loop over the answers; \<open>answer.question\<close> is the joined row, never missing in a
  database that keeps its foreign keys.\<close>

fun replay_answers ::
  "bank \<Rightarrow> response_row list \<Rightarrow> module_state list \<Rightarrow> session_error + module_state list" where
  "replay_answers bank [] modules = Inr modules"
| "replay_answers bank (answer # answers) modules =
     (if \<not> list_ex (is_module (rs_moduleId answer)) modules then replay_answers bank answers modules
      else (case find_question bank (rs_questionId answer) of
              None \<Rightarrow> Inl MissingRelation
            | Some q \<Rightarrow>
                replay_answers bank answers
                  (update_first (is_module (rs_moduleId answer)) (replay_answer answer q) modules)))"

definition replay_result :: "module_state list \<Rightarrow> module_result_row \<Rightarrow> module_state list" where
  "replay_result modules result =
     (case mr_completedAt result of
        None \<Rightarrow> modules
      | Some t \<Rightarrow>
          update_first (is_module (mr_moduleId result))
            (\<lambda>m. m\<lparr>ms_status := Completed, ms_stopReason := mr_stopReason result,
                   ms_completedAt := Some t\<rparr>) modules)"

definition restart_module :: "int \<Rightarrow> module_state \<Rightarrow> module_state" where
  "restart_module now m =
     (if ms_status m = In_progress
      then m\<lparr>ms_startedAt := Some now,
             ms_deadlineAt := Some (now + int (ms_timeLimitSeconds m) * 1000)\<rparr>
      else m)"

text \<open>\<open>findIndex\<close>, with the length of the list for -1.\<close>

definition first_unfinished :: "module_state list \<Rightarrow> nat" where
  "first_unfinished modules = length (takeWhile (\<lambda>m. ms_status m = Completed) modules)"

definition answers_of :: "string \<Rightarrow> world \<Rightarrow> response_row list" where
  "answers_of sessionId w =
     sort_key rs_sequenceNumber (filter (\<lambda>r. rs_sessionId r = sessionId) (w_responses w))"

definition rehydrate :: "session_row \<Rightarrow> session_state handler" where
  "rehydrate session =
     bind_p (findOneForSession (sr_assessmentId session)) (\<lambda>assessment.
     bind_p (io (reading (\<lambda>w. (answers_of (sr_id session) w, w_bank w)))) (\<lambda>(answers, bank).
     bind_p (of_result (replay_answers bank answers (fresh_modules assessment))) (\<lambda>replayed.
     bind_p (find_rows (\<lambda>r. mr_sessionId r = sr_id session) w_results) (\<lambda>finished.
     bind_p date_now (\<lambda>now.
     bind_p (for_each (\<lambda>m.
               if ms_status m \<noteq> In_progress then ret m
               else then_p (startModuleClock (sr_id session) (ms_moduleId m)
                              (int (ms_timeLimitSeconds m)))
                      (ret (restart_module now m)))
             (foldl replay_result replayed finished)) (\<lambda>modules.
     let st = \<lparr>ss_sessionId = sr_id session, ss_candidateId = sr_candidateId session,
               ss_invitationId = sr_invitationId session,
               ss_assessmentId = sr_assessmentId session, ss_assessmentTitle = as_title assessment,
               ss_startedAt = sr_startedAt session, ss_expiresAt = sr_expiresAt session,
               ss_status = (if sr_status session = SESS_IN_PROGRESS then Live_in_progress
                            else Live_finished),
               ss_modules = modules, ss_currentModuleIndex = first_unfinished modules,
               ss_served = None, ss_answeredTotal = length answers\<rparr>
     in then_p (store_save st) (ret st)))))))"

end
