(* ===== verification/Session_Service.thy ===== *)
theory Session_Service
  imports Rehydrate
begin

section \<open>The calls a candidate and the workers make\<close>

text \<open>
  The public methods of \<open>sessions/sessions.service.ts\<close>, and the sweep of
  \<open>expired-session-sweeper.service.ts\<close> over them.
\<close>

definition load_session :: "string \<Rightarrow> string \<Rightarrow> session_state handler" where
  "load_session candidateId sessionId =
     bind_p (store_get sessionId) (\<lambda>live.
     case live of
       Some st \<Rightarrow> if ss_candidateId st \<noteq> candidateId then throw SessionNotFound else ret st
     | None \<Rightarrow>
         bind_p (find_row (\<lambda>r. sr_id r = sessionId) w_sessions) (\<lambda>row.
         case row of
           None \<Rightarrow> throw SessionNotFound
         | Some session \<Rightarrow>
             if sr_candidateId session \<noteq> candidateId then throw SessionNotFound
             else rehydrate session))"

definition resume :: "session_row \<Rightarrow> session_step handler" where
  "resume session =
     (if sr_status session \<noteq> SESS_IN_PROGRESS
      then bind_p (store_get (sr_id session)) (\<lambda>live.
           bind_p (case live of
                     Some st \<Rightarrow> toSessionView st (Some (sr_status session))
                   | None \<Rightarrow> finishedViewFromDb session) (\<lambda>view.
           ret (CompletedStep view)))
      else bind_p (store_get (sr_id session)) (\<lambda>live.
           bind_p (case live of Some st \<Rightarrow> ret st | None \<Rightarrow> rehydrate session) (\<lambda>st.
           advance st)))"

subsection \<open>Starting\<close>

definition session_budget :: "nat list \<Rightarrow> int" where
  "session_budget limits =
     foldl (\<lambda>total limit. total + int limit + INTERMISSION_SECONDS_PER_MODULE) 0 limits"

definition new_live_state :: "session_row \<Rightarrow> assessment_row \<Rightarrow> int \<Rightarrow> int \<Rightarrow> session_state" where
  "new_live_state session assessment now expiresAt =
     \<lparr>ss_sessionId = sr_id session, ss_candidateId = sr_candidateId session,
      ss_invitationId = sr_invitationId session, ss_assessmentId = as_id assessment,
      ss_assessmentTitle = as_title assessment, ss_startedAt = now, ss_expiresAt = expiresAt,
      ss_status = Live_in_progress, ss_modules = fresh_modules assessment,
      ss_currentModuleIndex = 0, ss_served = None, ss_answeredTotal = 0\<rparr>"

definition createSession :: "invitation_row \<Rightarrow> string \<Rightarrow> session_step handler" where
  "createSession invitation candidateId =
     bind_p (findOneForSession (iv_assessmentId invitation)) (\<lambda>assessment.
     if as_modules assessment = [] then throw NoModulesConfigured
     else
     bind_p date_now (\<lambda>now.
     let budgetSeconds = session_budget (map am_timeLimitSeconds (as_modules assessment));
         expiresAt = now + (budgetSeconds + START_GRACE_SECONDS) * 1000
     in bind_p (insert_session
          \<lparr>sr_id = '''', sr_invitationId = iv_id invitation,
           sr_assessmentId = iv_assessmentId invitation, sr_candidateId = candidateId,
           sr_status = SESS_IN_PROGRESS, sr_startedAt = now, sr_expiresAt = expiresAt,
           sr_submittedAt = None\<rparr>) (\<lambda>session.
        then_p (update_invitation (iv_id invitation) INV_IN_PROGRESS)
        (let st = new_live_state session assessment now expiresAt
         in then_p (store_save st)
           (then_p (scheduleAutoSubmit (sr_id session) (expiresAt - now))
             (advance st))))))"

text \<open>The part of \<open>start\<close> that two racing calls can both reach.\<close>

definition create_or_join :: "invitation_row \<Rightarrow> string \<Rightarrow> session_step handler" where
  "create_or_join invitation candidateId =
     try_catch (createSession invitation candidateId) (\<lambda>e.
       if e \<noteq> UniqueViolation then throw e
       else bind_p (find_row (\<lambda>r. sr_invitationId r = iv_id invitation) w_sessions) (\<lambda>winner.
            case winner of None \<Rightarrow> throw e | Some session \<Rightarrow> resume session))"

definition start :: "string \<Rightarrow> string \<Rightarrow> session_step handler" where
  "start candidateId invitationId =
     bind_p (find_row (\<lambda>r. iv_id r = invitationId) w_invitations) (\<lambda>found.
     case found of
       None \<Rightarrow> throw InvitationNotFound
     | Some invitation \<Rightarrow>
         if iv_candidateId invitation \<noteq> Some candidateId then throw InvitationNotFound
         else if iv_status invitation = INV_REVOKED \<or> iv_status invitation = INV_EXPIRED
         then throw InvitationNoLongerValid
         else
         bind_p (reading (\<lambda>w. List.find (\<lambda>a. as_id a = iv_assessmentId invitation) (w_assessments w)))
           (\<lambda>joined.
         case joined of
           None \<Rightarrow> throw MissingRelation
         | Some assessment \<Rightarrow>
             bind_p date_now (\<lambda>now.
             let state = windowState
                   (effectiveWindow \<lparr>wn_opensAt = as_opensAt assessment, wn_closesAt = as_closesAt assessment\<rparr>
                      (iv_opensAt invitation) (iv_expiresAt invitation)) now
             in if state = WindowNotYet then throw AssessmentNotOpen
                else if state = WindowClosed then throw AssessmentHasClosed
                else
                bind_p (find_row (\<lambda>r. sr_invitationId r = invitationId) w_sessions) (\<lambda>existing.
                case existing of
                  Some session \<Rightarrow> resume session
                | None \<Rightarrow> create_or_join invitation candidateId))))"

subsection \<open>The two engine-facing calls\<close>

definition currentStep :: "string \<Rightarrow> string \<Rightarrow> session_step handler" where
  "currentStep candidateId sessionId =
     bind_p (load_session candidateId sessionId) (\<lambda>st. advance st)"

definition beginSessionClock :: "session_state \<Rightarrow> int \<Rightarrow> session_state handler" where
  "beginSessionClock st now =
     (let budgetMs = foldl (\<lambda>total m. total
                + (int (ms_timeLimitSeconds m) + INTERMISSION_SECONDS_PER_MODULE) * 1000) 0 (ss_modules st);
          st' = st\<lparr>ss_startedAt := now, ss_expiresAt := now + budgetMs\<rparr>
      in then_p (update_session (ss_sessionId st)
                   (\<lambda>r. r\<lparr>sr_startedAt := now, sr_expiresAt := now + budgetMs\<rparr>))
        (then_p (removeAutoSubmit (ss_sessionId st))
        (then_p (scheduleAutoSubmit (ss_sessionId st) budgetMs)
        (ret st'))))"

definition start_module :: "int \<Rightarrow> module_state \<Rightarrow> module_state" where
  "start_module now m =
     m\<lparr>ms_status := In_progress, ms_startedAt := Some now,
       ms_deadlineAt := Some (now + int (ms_timeLimitSeconds m) * 1000)\<rparr>"

definition startCurrentModule :: "string \<Rightarrow> string \<Rightarrow> session_step handler" where
  "startCurrentModule candidateId sessionId =
     bind_p (load_session candidateId sessionId) (\<lambda>st.
     bind_p (case at_index (ss_modules st) (ss_currentModuleIndex st) of
               None \<Rightarrow> ret st
             | Some m \<Rightarrow>
                 if ms_status m \<noteq> Pending then ret st
                 else
                 bind_p date_now (\<lambda>now.
                 let isFirst = list_all (\<lambda>m. ms_status m = Pending) (ss_modules st);
                     st1 = put_module (start_module now m) st
                 in then_p (startModuleClock (ss_sessionId st) (ms_moduleId m)
                              (int (ms_timeLimitSeconds m)))
                   (bind_p (if isFirst then beginSessionClock st1 now else ret st1) (\<lambda>st2.
                    then_p (store_save st2) (ret st2))))) (\<lambda>st'.
     advance st'))"

record submit_dto =
  dto_questionId :: string
  dto_selectedOption :: "string option"
  dto_selectedOptions :: "string list option"

definition toSubmittedAnswer :: "submit_dto \<Rightarrow> session_error + submitted_answer" where
  "toSubmittedAnswer dto =
     (case (dto_selectedOption dto, dto_selectedOptions dto) of
        (Some _, Some _) \<Rightarrow> Inl BothAnswerShapes
      | (None, Some ks) \<Rightarrow> Inr (AnsRanking ks)
      | (Some k, None) \<Rightarrow> Inr (AnsOption k)
      | (None, None) \<Rightarrow> Inl NoAnswerShape)"

definition late :: "module_state \<Rightarrow> int \<Rightarrow> bool" where
  "late m now = (case ms_deadlineAt m of None \<Rightarrow> False | Some d \<Rightarrow> now > d + ANSWER_GRACE_MS)"

definition submitAnswer :: "string \<Rightarrow> string \<Rightarrow> submit_dto \<Rightarrow> session_step handler" where
  "submitAnswer candidateId sessionId dto =
     bind_p (of_result (toSubmittedAnswer dto)) (\<lambda>answer.
     bind_p (load_session candidateId sessionId) (\<lambda>st.
     bind_p date_now (\<lambda>now.
     if ss_status st = Live_finished then advance st
     else if now \<ge> ss_expiresAt st
     then bind_p (finalize st SESS_AUTO_SUBMITTED) (\<lambda>st'. advance st')
     else (case ss_served st of
       None \<Rightarrow> throw NothingOnScreen
     | Some served \<Rightarrow>
         if sv_questionId served \<noteq> dto_questionId dto then throw NotTheQuestionServed
         else (case at_index (ss_modules st) (ss_currentModuleIndex st) of
           None \<Rightarrow> throw ModuleAlreadyClosed
         | Some m \<Rightarrow>
             if ms_moduleId m \<noteq> sv_moduleId served then throw ModuleAlreadyClosed
             else if late m now then advance st
             else
             bind_p (loadServedQuestion (sv_questionId served)) (\<lambda>q.
             bind_p (applyAnswer st m q answer served now) (\<lambda>(st', _).
             then_p (store_save st') (advance st'))))))))"

subsection \<open>The workers\<close>

definition autoSubmitSession :: "string \<Rightarrow> bool handler" where
  "autoSubmitSession sessionId =
     bind_p (find_row (\<lambda>r. sr_id r = sessionId) w_sessions) (\<lambda>row.
     case row of
       None \<Rightarrow> ret False
     | Some session \<Rightarrow>
         if sr_status session \<noteq> SESS_IN_PROGRESS then ret False
         else bind_p (store_get sessionId) (\<lambda>live.
              bind_p (case live of Some st \<Rightarrow> ret st | None \<Rightarrow> rehydrate session) (\<lambda>st.
              bind_p (finalize st SESS_AUTO_SUBMITTED) (\<lambda>_. ret True))))"

definition SWEEP_GRACE_MS :: int where "SWEEP_GRACE_MS = 2 * 60 * 1000"
definition MAX_PER_SWEEP :: nat where "MAX_PER_SWEEP = 50"

definition overdue_sessions :: "int \<Rightarrow> world \<Rightarrow> string list" where
  "overdue_sessions now w =
     map sr_id (take MAX_PER_SWEEP (sort_key sr_expiresAt
       (filter (\<lambda>r. sr_status r = SESS_IN_PROGRESS \<and> sr_expiresAt r \<le> now - SWEEP_GRACE_MS)
          (w_sessions w))))"

text \<open>The number of sessions closed, and of those found.\<close>

definition sweep :: "(nat \<times> nat) handler" where
  "sweep =
     try_catch
       (bind_p date_now (\<lambda>now.
        bind_p (io (reading (overdue_sessions now))) (\<lambda>overdue.
        bind_p (for_each (\<lambda>i. try_catch (autoSubmitSession i) (\<lambda>_. ret False)) overdue) (\<lambda>closed.
        ret (length (filter (\<lambda>c. c) closed), length overdue)))))
       (\<lambda>_. ret (0, 0))"

end
