(* ===== verification/Session_Frame.thy ===== *)
theory Session_Frame
  imports Session_Service
begin

section \<open>What a request cannot do\<close>

text \<open>
  The locale \<open>session_frame\<close> is the contract between the session service and a property
  \<open>I\<close> of the world that should survive its requests: \<open>I\<close> must survive the primitive writes,
  where the rows and the live state written belong to a session of which \<open>mine\<close> holds, and
  a row is inserted only under its unique constraint. Every composite operation then keeps
  \<open>I\<close>, on success and on any failure at any point, as long as the session it works on is
  one of \<open>mine\<close>. It is interpreted below on the uniqueness of attempts, on the uniqueness of
  answers and results, and on the finality of a closed session.
\<close>

lemmas handler_defs = store_get_def store_save_def startModuleClock_def moduleRemainingMs_def
  clearModuleClock_def find_row_def find_rows_def findOneForSession_def

text \<open>
  The locale \<open>background\<close> is the part that concerns no session in particular: readings of
  the clock, the outcome of network calls, module clocks, invitations, the bank and the queues.
\<close>

locale background =
  fixes I :: "world \<Rightarrow> bool"
  assumes tick: "I w \<Longrightarrow> I (w\<lparr>w_clock := (\<lambda>n. w_clock w (Suc n))\<rparr>)"
    and network: "I w \<Longrightarrow> I (w\<lparr>w_faults := (\<lambda>n. w_faults w (Suc n))\<rparr>)"
    and put_clock: "I w \<Longrightarrow> I (w\<lparr>w_redis := redis_set (ClockKey i m) Mark t (w_redis w)\<rparr>)"
    and del_clock: "I w \<Longrightarrow> I (w\<lparr>w_redis := redis_del [ClockKey i m] (w_redis w)\<rparr>)"
    and set_invitations: "I w \<Longrightarrow> I (w\<lparr>w_invitations := iv\<rparr>)"
    and set_bank: "I w \<Longrightarrow> I (w\<lparr>w_bank := b\<rparr>)"
    and set_random: "I w \<Longrightarrow> I (w\<lparr>w_random := g\<rparr>)"
    and set_jobs: "I w \<Longrightarrow> I (w\<lparr>w_autoSubmit := q\<rparr>)"
    and set_reports: "I w \<Longrightarrow> I (w\<lparr>w_reportJobs := rq\<rparr>)"
begin

lemma keeps_clock [keeps_intros]: "keeps I date_now"
  by (simp add: keeps_wp wp_date_now tick)

lemma keeps_network [keeps_intros]: "keeps I m \<Longrightarrow> keeps I (io m)"
  by (simp add: keeps_wp wp_io Let_def network)

lemma keeps_reads [keeps_intros]:
  "keeps I (store_get i)" "keeps I (moduleRemainingMs i m)" "keeps I (find_row P t)"
  "keeps I (find_rows P' t')" "keeps I (findOneForSession a)" "keeps I (loadServedQuestion q)"
  unfolding handler_defs loadServedQuestion_def by (intro keeps_intros)+

lemma keeps_writes [keeps_intros]:
  "keeps I (startModuleClock i m s)" "keeps I (clearModuleClock i m)"
  "keeps I (update_invitation i st)" "keeps I (queue_add j t)" "keeps I (queue_remove j)"
  "keeps I (report_queue_add j)"
  unfolding handler_defs update_invitation_def queue_add_def queue_remove_def report_queue_add_def
  by (intro keeps_intros keeps_updating; simp add: put_clock del_clock set_invitations set_jobs set_reports)+

lemma keeps_engine [keeps_intros]:
  "keeps I (engine_nextStep m now)" "keeps I (engine_recordAnswer m q a n)"
proof -
  have call: "keeps I (\<lambda>w. let (s, r) = nextStep (w_bank w) m now (w_random w) in (Inr s, w\<lparr>w_random := r\<rparr>))"
    by (auto simp: keeps_def set_random split: prod.split)
  then show "keeps I (engine_nextStep m now)"
    unfolding engine_nextStep_def Let_def by (intro keeps_intros) (auto simp: Let_def)
  have "keeps I (case r of Inl e \<Rightarrow> throw (EngineError e)
      | Inr (out, st', bank') \<Rightarrow> then_p (io (updating (\<lambda>w. w\<lparr>w_bank := bank'\<rparr>))) (ret (out, st')))" for r
    by (auto simp: set_bank intro!: keeps_intros keeps_updating split: sum.split prod.split)
  then show "keeps I (engine_recordAnswer m q a n)"
    unfolding engine_recordAnswer_def by (intro keeps_intros)
qed

lemma keeps_views [keeps_intros]:
  "keeps I (toSessionView st v)" "keeps I (toQuestionStep st m s p)" "keeps I (finishedViewFromDb row)"
  "keeps I (completed_step st)"
  unfolding toSessionView_def toQuestionStep_def finishedViewFromDb_def completed_step_def
  by (intro keeps_intros)+

lemma keeps_queues [keeps_intros]:
  "keeps I (scheduleAutoSubmit i d)" "keeps I (removeAutoSubmit i)" "keeps I (enqueueReport i)"
  unfolding scheduleAutoSubmit_def removeAutoSubmit_def enqueueReport_def by (intro keeps_intros)+

lemma keeps_step: "keeps I m \<Longrightarrow> I w \<Longrightarrow> (\<And>x w'. I w' \<Longrightarrow> Q x w') \<Longrightarrow> (\<And>e w'. I w' \<Longrightarrow> E e w') \<Longrightarrow> wp m Q E w"
  by (rule wp_mono[where Q = "\<lambda>_. I" and E = "\<lambda>_. I"]) (simp_all add: keepsD)

end

text \<open>The part that concerns the session a request works on.\<close>

locale session_frame = background +
  fixes mine :: "string \<Rightarrow> bool" and row_ok :: "response_row \<Rightarrow> bool"
  assumes put_state: "mine (ss_sessionId st) \<Longrightarrow> I w \<Longrightarrow>
      I (w\<lparr>w_redis := redis_set (StateKey (ss_sessionId st)) (Blob st) t (w_redis w)\<rparr>)"
    and unanswered_ok: "rs_selectedOption row = None \<Longrightarrow> rs_selectedOptions row = None \<Longrightarrow> row_ok row"
    and put_response: "mine (rs_sessionId row) \<Longrightarrow> row_ok row \<Longrightarrow> I w \<Longrightarrow>
      \<not> list_ex (\<lambda>r. rs_sessionId r = rs_sessionId row \<and> rs_questionId r = rs_questionId row) (w_responses w) \<Longrightarrow>
      I (w\<lparr>w_responses := w_responses w @ [row]\<rparr>)"
    and put_result: "mine (mr_sessionId res) \<Longrightarrow> I w \<Longrightarrow>
      I (w\<lparr>w_results := upsert_rows res (w_results w)\<rparr>)"
    and set_session: "mine i \<Longrightarrow> I w \<Longrightarrow>
      (\<And>r. sr_id (f r) = sr_id r \<and> sr_invitationId (f r) = sr_invitationId r \<and>
            sr_candidateId (f r) = sr_candidateId r \<and> sr_assessmentId (f r) = sr_assessmentId r \<and>
            sr_startedAt (f r) = sr_startedAt r \<and> sr_expiresAt (f r) = sr_expiresAt r) \<Longrightarrow>
      I (w\<lparr>w_sessions := update_rows (\<lambda>r. sr_id r = i) f (w_sessions w)\<rparr>)"
begin

lemma keeps_save [keeps_intros]: "mine (ss_sessionId st) \<Longrightarrow> keeps I (store_save st)"
  unfolding store_save_def Let_def by (intro keeps_intros keeps_updating) (rule put_state)

lemma keeps_insert_response [keeps_intros]:
  "mine (rs_sessionId row) \<Longrightarrow> row_ok row \<Longrightarrow> keeps I (insert_response row)"
  unfolding insert_response_def by (intro keeps_network) (auto simp: keeps_def put_response)

lemma keeps_upsert [keeps_intros]: "mine (mr_sessionId row) \<Longrightarrow> keeps I (upsert_result row)"
  unfolding upsert_result_def by (intro keeps_intros keeps_updating) (rule put_result)

lemma keeps_update_session [keeps_intros]:
  "mine i \<Longrightarrow>
   (\<And>r. sr_id (f r) = sr_id r \<and> sr_invitationId (f r) = sr_invitationId r \<and>
         sr_candidateId (f r) = sr_candidateId r \<and> sr_assessmentId (f r) = sr_assessmentId r \<and>
         sr_startedAt (f r) = sr_startedAt r \<and> sr_expiresAt (f r) = sr_expiresAt r) \<Longrightarrow>
   keeps I (update_session i f)"
  unfolding update_session_def by (intro keeps_intros keeps_updating) (rule set_session)

text \<open>A method that works on a live state returns one of the same session.\<close>

definition same_session :: "session_state \<Rightarrow> session_state handler \<Rightarrow> bool" where
  "same_session st m \<longleftrightarrow> (\<forall>w. I w \<longrightarrow>
     wp m (\<lambda>st' w'. I w' \<and> ss_sessionId st' = ss_sessionId st) (\<lambda>_. I) w)"

lemma same_sessionD:
  "same_session st m \<Longrightarrow> I w \<Longrightarrow> wp m (\<lambda>st' w'. I w' \<and> ss_sessionId st' = ss_sessionId st) (\<lambda>_. I) w"
  by (simp add: same_session_def)

lemma applyAnswer_frame:
  assumes "mine (ss_sessionId st)" and "a = AnsUnanswered \<or> (\<forall>row. row_ok row)" and "I w"
  shows "wp (applyAnswer st m q a s now)
    (\<lambda>(st', _) w'. I w' \<and> ss_sessionId st' = ss_sessionId st) (\<lambda>_. I) w"
proof -
  have ok: "row_ok row"
    if "a = AnsUnanswered \<Longrightarrow> rs_selectedOption row = None \<and> rs_selectedOptions row = None" for row
    using assms(2) that unanswered_ok by auto
  show ?thesis
    unfolding applyAnswer_def Let_def wp_simps split_def
    by (rule keeps_step[OF keeps_engine(2) assms(3)])
      (rule keeps_step[OF keeps_insert_response]; simp add: assms(1) put_module_def ok)
qed

lemma completeModule_frame:
  assumes "mine (ss_sessionId st)" shows "same_session st (completeModule st m r now)"
proof -
  have tail: "wp (let m'' = m'\<lparr>ms_status := Completed, ms_completedAt := Some now, ms_stopReason := Some r\<rparr>
     in then_p (clearModuleClock (ss_sessionId st) (ms_moduleId m))
       (then_p (persistModuleResult (ss_sessionId st) m'') (ret (put_module m'' st'))))
     (\<lambda>st' w'. I w' \<and> ss_sessionId st' = ss_sessionId st) (\<lambda>_. I) w"
    if "I w" "ss_sessionId st' = ss_sessionId st" for st' m' w
    unfolding Let_def wp_simps persistModuleResult_def
    by (rule keeps_step[OF keeps_writes(2) that(1)], rule keeps_step[OF keeps_upsert])
      (simp_all add: module_result_def Let_def assms that(2) put_module_def)
  show ?thesis
    unfolding same_session_def completeModule_def wp_bind
  proof (intro allI impI)
    fix w assume "I w"
    show "wp (case served_here st m of
               None \<Rightarrow> ret (st, m)
             | Some served \<Rightarrow>
                 bind_p (loadServedQuestion (sv_questionId served)) (\<lambda>q.
                   applyAnswer st m q AnsUnanswered served now))
         (\<lambda>x. wp (case x of (st', m') \<Rightarrow>
             let m'' = m'\<lparr>ms_status := Completed, ms_completedAt := Some now, ms_stopReason := Some r\<rparr>
             in then_p (clearModuleClock (ss_sessionId st) (ms_moduleId m))
               (then_p (persistModuleResult (ss_sessionId st) m'') (ret (put_module m'' st'))))
           (\<lambda>st' w'. I w' \<and> ss_sessionId st' = ss_sessionId st) (\<lambda>_. I))
         (\<lambda>_. I) w"
    proof (cases "served_here st m")
      case None
      with \<open>I w\<close> tail show ?thesis by (simp add: wp_simps)
    next
      case (Some s)
      show ?thesis
        unfolding Some option.case wp_bind
        by (rule keeps_step[OF keeps_reads(6) \<open>I w\<close>])
          (auto intro!: wp_mono[OF applyAnswer_frame[OF assms disjI1[OF refl]]] tail)
    qed
  qed
qed

lemma finalize_frame:
  assumes "mine (ss_sessionId st)" shows "same_session st (finalize st status)"
proof -
  have rows: "keeps I (for_each (\<lambda>m. let m' = close_module now m
      in then_p (persistModuleResult (ss_sessionId st) m') (ret m')) (ss_modules st))" for now
    unfolding Let_def persistModuleResult_def
    by (intro keeps_intros) (simp add: module_result_def Let_def assms)
  show ?thesis
    unfolding same_session_def finalize_def wp_if wp_bind wp_then wp_ret Let_def
    using assms
    by (auto intro!: keeps_step[OF keeps_clock] keeps_step[OF rows[unfolded Let_def]]
        keeps_step[OF keeps_save] keeps_step[OF keeps_update_session] keeps_step[OF keeps_writes(3)]
        keeps_step[OF keeps_queues(2)] keeps_step[OF keeps_queues(3)])
qed

lemma advance_round_frame:
  assumes mine: "mine (ss_sessionId st)" and I: "I w"
  shows "wp (advance_round st)
    (\<lambda>r w'. I w' \<and> (case r of Inl st' \<Rightarrow> ss_sessionId st' = ss_sessionId st | Inr _ \<Rightarrow> True)) (\<lambda>_. I) w"
proof -
  note steps = keeps_step[OF keeps_clock] keeps_step[OF keeps_views(1)] keeps_step[OF keeps_views(2)]
    keeps_step[OF keeps_views(4)]
  have final: "wp (finalize st s) (\<lambda>x. wp (bind_p (completed_step x) (\<lambda>s. ret (Inr s)))
      (\<lambda>r w'. I w' \<and> (case r of Inl st' \<Rightarrow> ss_sessionId st' = ss_sessionId st | Inr _ \<Rightarrow> True)) (\<lambda>_. I)) (\<lambda>_. I) w"
    if "I w" for s w
    by (rule wp_mono[OF same_sessionD[OF finalize_frame[OF mine] that]])
      (auto simp: wp_simps intro!: steps)
  have closing: "wp (completeModule st m reason now) (\<lambda>st'.
      wp (then_p (store_save (next_module st')) (ret (Inl (next_module st'))))
      (\<lambda>r w'. I w' \<and> (case r of Inl st' \<Rightarrow> ss_sessionId st' = ss_sessionId st | Inr _ \<Rightarrow> True)) (\<lambda>_. I)) (\<lambda>_. I) w"
    if "I w" for m reason now w
    by (rule wp_mono[OF same_sessionD[OF completeModule_frame[OF mine] that]])
      (auto simp: wp_simps next_module_def mine intro!: keeps_step[OF keeps_save])
  show ?thesis
    unfolding advance_round_def wp_bind
    apply (rule keeps_step[OF keeps_clock I])
     apply (auto simp: wp_if wp_bind intro!: final split: option.split)
      apply (auto simp: wp_simps next_module_def mine serve_in_def put_module_def Let_def
        intro!: steps keeps_step[OF keeps_save] keeps_step[OF keeps_engine(1)] closing[unfolded next_module_def Suc_eq_plus1[symmetric]]
        split: next_step.split)
    done
qed

lemma advance_loop_frame:
  "mine (ss_sessionId st) \<Longrightarrow> keeps I (advance_loop n st)"
proof (induction n arbitrary: st)
  case 0
  then show ?case by (simp add: keeps_throw)
next
  case (Suc n)
  have "wp (advance_loop (Suc n) st) (\<lambda>_. I) (\<lambda>_. I) w" if "I w" for w
    unfolding advance_loop.simps wp_bind
    by (rule wp_mono[OF advance_round_frame[OF Suc.prems that]])
      (auto simp: wp_ret Suc.prems intro!: keepsD[OF Suc.IH] split: sum.splits)
  then show ?case by (simp add: keeps_wp)
qed

lemma advance_frame: "mine (ss_sessionId st) \<Longrightarrow> keeps I (advance st)"
  unfolding advance_def by (intro keeps_intros advance_loop_frame)

end

subsection \<open>The public calls\<close>

text \<open>
  To carry a property through whole requests, the contract is extended: live states sit
  under their own session's key, a session that is not \<open>mine\<close> is closed both in Redis and
  in its row, a closed state may be written for any session (\<open>rehydrate\<close> does), the clock
  columns of any row may be rebased (\<open>beginSessionClock\<close> does, without asking whether the
  session is closed), and a new session is \<open>mine\<close>.
\<close>

locale service_frame = session_frame +
  assumes every_row: "row_ok answerRow"
    and live_mine: "I w \<Longrightarrow> redis_get_state i (w_redis w) = Some st \<Longrightarrow>
      ss_sessionId st = i \<and> (mine i \<or> ss_status st = Live_finished)"
    and row_mine: "I w \<Longrightarrow> r \<in> set (w_sessions w) \<Longrightarrow> mine (sr_id r) \<or> sr_status r \<noteq> SESS_IN_PROGRESS"
    and put_finished: "ss_status st = Live_finished \<Longrightarrow> I w \<Longrightarrow>
      I (w\<lparr>w_redis := redis_set (StateKey (ss_sessionId st)) (Blob st) t (w_redis w)\<rparr>)"
    and set_row_clock: "I w \<Longrightarrow>
      I (w\<lparr>w_sessions := update_rows (\<lambda>r. sr_id r = i) (\<lambda>r. r\<lparr>sr_startedAt := a, sr_expiresAt := b\<rparr>) (w_sessions w)\<rparr>)"
    and add_session: "I w \<Longrightarrow>
      \<not> list_ex (\<lambda>r. sr_id r = sr_id row \<or> sr_invitationId r = sr_invitationId row) (w_sessions w) \<Longrightarrow>
      sr_status row = SESS_IN_PROGRESS \<Longrightarrow>
      mine (sr_id row) \<and> I (w\<lparr>w_sessions := w_sessions w @ [row]\<rparr>)"
    and set_uuids: "I w \<Longrightarrow> I (w\<lparr>w_uuids := u\<rparr>)"
begin

lemma row_open: "I w \<Longrightarrow> r \<in> set (w_sessions w) \<Longrightarrow> sr_status r = SESS_IN_PROGRESS \<Longrightarrow> mine (sr_id r)"
  using row_mine by blast

text \<open>A state some request may work on: its own session's, or a closed one.\<close>

definition workable :: "session_state \<Rightarrow> bool" where
  "workable st \<longleftrightarrow> mine (ss_sessionId st) \<or> ss_status st = Live_finished"

lemma keeps_save_workable: "workable st \<Longrightarrow> keeps I (store_save st)"
  unfolding store_save_def Let_def workable_def
  by (intro keeps_intros keeps_updating) (auto intro: put_state put_finished)

lemma advance_workable: "workable st \<Longrightarrow> keeps I (advance st)"
  unfolding workable_def
  by (auto simp: advance_frame) (simp add: advance_def keeps_views)

lemma finalize_workable:
  assumes "workable st" and "I w"
  shows "wp (finalize st s) (\<lambda>st' w'. I w' \<and> workable st') (\<lambda>_. I) w"
proof (cases "mine (ss_sessionId st)")
  case True
  show ?thesis
    by (rule wp_mono[OF same_sessionD[OF finalize_frame[OF True] assms(2)]])
      (simp_all add: workable_def True)
next
  case False
  with assms show ?thesis by (auto simp: workable_def finalize_def wp_ret)
qed

lemma rehydrate_workable:
  assumes "mine (sr_id row) \<or> sr_status row \<noteq> SESS_IN_PROGRESS" and "I w"
  shows "wp (rehydrate row) (\<lambda>st w'. I w' \<and> workable st) (\<lambda>_. I) w"
proof -
  have clocks: "keeps I (for_each (\<lambda>m.
      if ms_status m \<noteq> In_progress then ret m
      else then_p (startModuleClock i (ms_moduleId m) (int (ms_timeLimitSeconds m)))
             (ret (restart_module now m))) ms)" for i ms now
    by (intro keeps_intros)
  have ok: "sr_status row = SESS_IN_PROGRESS \<Longrightarrow> mine (sr_id row)" using assms(1) by auto
  show ?thesis
    unfolding rehydrate_def wp_bind Let_def
    by (auto intro!: keeps_step[OF keeps_reads(5) assms(2)] keeps_step[OF keeps_network[OF keeps_reading]]
        keeps_step[OF keeps_of_result] keeps_step[OF keeps_reads(4)] keeps_step[OF keeps_clock]
        keeps_step[OF clocks] keeps_step[OF keeps_save_workable]
        simp: wp_bind wp_then wp_ret workable_def ok split_def)
qed

lemma find_row_step:
  assumes "I w" and "\<And>r w'. I w' \<Longrightarrow> r \<in> set (t w') \<Longrightarrow> P r \<Longrightarrow> Q (Some r) w'" and "\<And>w'. I w' \<Longrightarrow> Q None w'"
    and "\<And>e w'. I w' \<Longrightarrow> E e w'"
  shows "wp (find_row P t) Q E w"
proof -
  have I': "I (w\<lparr>w_faults := (\<lambda>n. w_faults w (Suc n))\<rparr>)" using assms(1) by (rule network)
  have mem: "r \<in> set xs \<and> P r" if "List.find P xs = Some r" for r xs
    using that by (auto simp: find_Some_iff)
  show ?thesis
    unfolding find_row_def wp_io wp_reading Let_def
    using I' assms(2-4) by (cases "List.find P (t (w\<lparr>w_faults := \<lambda>n. w_faults w (Suc n)\<rparr>))")
      (auto dest: mem)
qed

lemma store_get_step:
  assumes "I w" and "\<And>st w'. I w' \<Longrightarrow> ss_sessionId st = i \<Longrightarrow> workable st \<Longrightarrow> Q (Some st) w'"
    and "\<And>w'. I w' \<Longrightarrow> Q None w'" and "\<And>e w'. I w' \<Longrightarrow> E e w'"
  shows "wp (store_get i) Q E w"
proof -
  have I': "I (w\<lparr>w_faults := (\<lambda>n. w_faults w (Suc n))\<rparr>)" using assms(1) by (rule network)
  show ?thesis
    unfolding store_get_def wp_io wp_reading Let_def
    using I' assms(2-4) live_mine[of w i]
    by (cases "redis_get_state i (w_redis w)") (auto simp: workable_def assms(1))
qed

lemma load_workable:
  assumes "I w"
  shows "wp (load_session c i) (\<lambda>st w'. I w' \<and> workable st) (\<lambda>_. I) w"
  unfolding load_session_def wp_bind
  by (rule store_get_step[OF assms])
    (auto simp: wp_simps intro!: find_row_step rehydrate_workable dest: row_open)

lemma resume_keeps:
  assumes "mine (sr_id row) \<or> sr_status row \<noteq> SESS_IN_PROGRESS"
  shows "keeps I (resume row)"
proof -
  have "wp (resume row) (\<lambda>_. I) (\<lambda>_. I) w" if "I w" for w
    unfolding resume_def wp_if wp_bind
    using that assms
    by (auto intro!: store_get_step keeps_step[OF keeps_views(1)] keeps_step[OF keeps_views(3)]
        wp_mono[OF rehydrate_workable[OF assms]] keepsD[OF advance_workable] simp: wp_ret)
  then show ?thesis by (simp add: keeps_wp)
qed

lemma insert_session_step:
  assumes "I w" and "sr_status row = SESS_IN_PROGRESS"
    and "\<And>i w'. I w' \<Longrightarrow> mine i \<Longrightarrow> Q (row\<lparr>sr_id := i\<rparr>) w'" and "\<And>e w'. I w' \<Longrightarrow> E e w'"
  shows "wp (insert_session row) Q E w"
proof -
  let ?w = "w\<lparr>w_faults := \<lambda>n. w_faults w (Suc n)\<rparr>"
  let ?u = "?w\<lparr>w_uuids := \<lambda>n. w_uuids ?w (Suc n)\<rparr>"
  have I': "I ?w" "I ?u"
    using network[OF assms(1)] set_uuids[of ?w] by simp_all
  have "mine (w_uuids w 0) \<and> I (?u\<lparr>w_sessions := w_sessions ?u @ [row\<lparr>sr_id := w_uuids w 0\<rparr>]\<rparr>)"
    if "\<not> list_ex (\<lambda>r. sr_id r = w_uuids w 0 \<or> sr_invitationId r = sr_invitationId row) (w_sessions w)"
    using add_session[OF I'(2), of "row\<lparr>sr_id := w_uuids w 0\<rparr>"] that assms(2) by simp
  then show ?thesis
    unfolding insert_session_def wp_io
    using I' assms(3)[of _ "w_uuids w 0"] assms(4) by (auto simp: Let_def wp_def)
qed

lemma createSession_keeps: "keeps I (createSession invitation c)"
proof -
  have "wp (createSession invitation c) (\<lambda>_. I) (\<lambda>_. I) w" if "I w" for w
    unfolding createSession_def wp_bind wp_if
    by (rule keeps_step[OF keeps_reads(5) that])
      (auto simp: wp_throw wp_bind wp_then Let_def workable_def new_live_state_def
        intro!: keeps_step[OF keeps_clock] insert_session_step keeps_step[OF keeps_writes(3)]
        keeps_step[OF keeps_save_workable] keeps_step[OF keeps_queues(1)] keepsD[OF advance_workable])
  then show ?thesis by (simp add: keeps_wp)
qed

lemma create_or_join_keeps: "keeps I (create_or_join invitation c)"
proof -
  have handle: "keeps I (if e \<noteq> UniqueViolation then throw e
       else bind_p (find_row (\<lambda>r. sr_invitationId r = iv_id invitation) w_sessions) (\<lambda>winner.
            case winner of None \<Rightarrow> throw e | Some session \<Rightarrow> resume session))" for e
  proof -
    have "wp (bind_p (find_row (\<lambda>r. sr_invitationId r = iv_id invitation) w_sessions) (\<lambda>winner.
            case winner of None \<Rightarrow> throw e | Some session \<Rightarrow> resume session)) (\<lambda>_. I) (\<lambda>_. I) w"
      if "I w" for w
      unfolding wp_bind using that
      by (auto intro!: find_row_step keepsD[OF resume_keeps] simp: wp_throw dest: row_open)
    then have "keeps I (bind_p (find_row (\<lambda>r. sr_invitationId r = iv_id invitation) w_sessions) (\<lambda>winner.
            case winner of None \<Rightarrow> throw e | Some session \<Rightarrow> resume session))"
      unfolding keeps_wp by blast
    then show ?thesis by (intro keeps_if keeps_throw)
  qed
  show ?thesis unfolding create_or_join_def by (intro keeps_try createSession_keeps handle)
qed

lemma start_keeps: "keeps I (start c i)"
proof -
  have "wp (start c i) (\<lambda>_. I) (\<lambda>_. I) w" if "I w" for w
    unfolding start_def wp_bind wp_if
    by (rule keeps_step[OF keeps_reads(3) that],
      auto simp: wp_throw wp_bind wp_if wp_reading Let_def
        intro!: keeps_step[OF keeps_clock] find_row_step keepsD[OF resume_keeps]
          keepsD[OF create_or_join_keeps] split: option.split,
      blast dest: row_open)
  then show ?thesis by (simp add: keeps_wp)
qed

lemma currentStep_keeps: "keeps I (currentStep c i)"
  unfolding currentStep_def keeps_wp wp_bind
  by (auto intro!: wp_mono[OF load_workable] keepsD[OF advance_workable])

lemma keeps_update_clock:
  "keeps I (update_session i (\<lambda>r. r\<lparr>sr_startedAt := a, sr_expiresAt := b\<rparr>))"
  unfolding update_session_def by (intro keeps_intros keeps_updating) (rule set_row_clock)

lemma startCurrentModule_keeps: "keeps I (startCurrentModule c i)"
proof -
  have begin_clock: "wp (beginSessionClock st now) (\<lambda>st' w'. I w' \<and> workable st') (\<lambda>_. I) w"
    if "I w" "workable st" for st now w
    unfolding beginSessionClock_def Let_def wp_then wp_ret
    using that by (auto simp: workable_def intro!: keeps_step[OF keeps_update_clock]
        keeps_step[OF keeps_queues(2)] keeps_step[OF keeps_queues(1)])
  have "wp (startCurrentModule c i) (\<lambda>_. I) (\<lambda>_. I) w" if "I w" for w
    unfolding startCurrentModule_def wp_bind
  proof (rule wp_mono[OF load_workable[OF that]])
    fix st w' assume st: "I w' \<and> workable st"
    have put: "workable (put_module m st)" for m
      using st by (simp add: workable_def put_module_def)
    show "wp (case at_index (ss_modules st) (ss_currentModuleIndex st) of
               None \<Rightarrow> ret st
             | Some m \<Rightarrow>
                 if ms_status m \<noteq> Pending then ret st
                 else
                 bind_p date_now (\<lambda>now.
                 let isFirst = list_all (\<lambda>m. ms_status m = Pending) (ss_modules st);
                     st1 = put_module (start_module now m) st
                 in then_p (startModuleClock (ss_sessionId st) (ms_moduleId m)
                              (int (ms_timeLimitSeconds m)))
                   (bind_p (if isFirst then beginSessionClock st1 now else ret st1) (\<lambda>st2.
                    then_p (store_save st2) (ret st2)))))
           (\<lambda>st'. wp (advance st') (\<lambda>_. I) (\<lambda>_. I)) (\<lambda>_. I) w'"
      using st put
      by (auto simp: wp_ret wp_if wp_bind wp_then Let_def
          intro!: keepsD[OF advance_workable] keeps_step[OF keeps_clock] keeps_step[OF keeps_writes(1)]
            wp_mono[OF begin_clock] keeps_step[OF keeps_save_workable] split: option.split)
  qed auto
  then show ?thesis by (simp add: keeps_wp)
qed

lemma submitAnswer_keeps: "keeps I (submitAnswer c i dto)"
proof -
  have "wp (submitAnswer c i dto) (\<lambda>_. I) (\<lambda>_. I) w" if "I w" for w
    unfolding submitAnswer_def wp_bind
  proof (rule keeps_step[OF keeps_of_result that], rule wp_mono[OF load_workable])
    fix answer st w' assume st: "I w' \<and> workable st"
    have save: "wp (store_save st') (\<lambda>_. wp (advance st') (\<lambda>_. I) (\<lambda>_. I)) (\<lambda>_. I) w"
      if "I w" "workable st'" for st' w
      using that by (auto intro!: keeps_step[OF keeps_save_workable] keepsD[OF advance_workable])
    have "wp (applyAnswer st m q answer s now) (\<lambda>x. wp (case x of (st', _) \<Rightarrow>
        then_p (store_save st') (advance st')) (\<lambda>_. I) (\<lambda>_. I)) (\<lambda>_. I) w"
      if "I w" "mine (ss_sessionId st)" for m q s now w
      by (rule wp_mono[OF applyAnswer_frame[OF that(2) _ that(1)]])
        (auto simp: wp_then workable_def that(2) every_row intro!: save)
    then show "wp date_now (\<lambda>now. wp (if ss_status st = Live_finished then advance st
     else if now \<ge> ss_expiresAt st
     then bind_p (finalize st SESS_AUTO_SUBMITTED) (\<lambda>st'. advance st')
     else (case ss_served st of
       None \<Rightarrow> throw NothingOnScreen
     | Some served \<Rightarrow>
         if sv_questionId served \<noteq> dto_questionId dto then throw NotTheQuestionServed
         else (case at_index (ss_modules st) (ss_currentModuleIndex st) of
           None \<Rightarrow> throw ModuleAlreadyClosed
         | Some m \<Rightarrow>
             if ms_moduleId m \<noteq> sv_moduleId served then throw ModuleAlreadyClosed
             else if late m now then advance st
             else
             bind_p (loadServedQuestion (sv_questionId served)) (\<lambda>q.
             bind_p (applyAnswer st m q answer served now) (\<lambda>(st', _).
             then_p (store_save st') (advance st')))))) (\<lambda>_. I) (\<lambda>_. I)) (\<lambda>_. I) w'"
      using st
      by (auto simp: wp_if wp_throw wp_bind workable_def
          intro!: keeps_step[OF keeps_clock] keepsD[OF advance_workable] wp_mono[OF finalize_workable]
            keeps_step[OF keeps_reads(6)] split: option.split)
  qed auto
  then show ?thesis by (simp add: keeps_wp)
qed

lemma autoSubmitSession_keeps: "keeps I (autoSubmitSession i)"
proof -
  have "wp (autoSubmitSession i) (\<lambda>_. I) (\<lambda>_. I) w" if "I w" for w
    unfolding autoSubmitSession_def wp_bind using that
    by (auto simp: wp_ret wp_if wp_bind intro!: find_row_step store_get_step wp_mono[OF finalize_workable]
        wp_mono[OF rehydrate_workable]) (blast dest: row_open)
  then show ?thesis by (simp add: keeps_wp)
qed

lemma sweep_keeps: "keeps I sweep"
  unfolding sweep_def by (intro keeps_intros autoSubmitSession_keeps)

lemmas service_keeps = start_keeps currentStep_keeps startCurrentModule_keeps submitAnswer_keeps
  autoSubmitSession_keeps sweep_keeps

end

end
