(* ===== verification/Session_Invariants.thy ===== *)
theory Session_Invariants
  imports Session_Frame
begin

section \<open>Invariants of the runtime\<close>

text \<open>
  The interpretations of the frame contract: an invitation has one attempt, a question is
  answered once per session and a module has one result row, and a closed session stays as
  it was closed. \<open>runtime_step\<close> interleaves the requests and workers with whatever the
  rest of the system does: keys leave Redis, and clocks, failures, ids, invitations,
  assessments, the bank and the queues change arbitrarily.
\<close>

inductive runtime_step :: "world \<Rightarrow> world \<Rightarrow> bool" where
  start: "runtime_step w (snd (start c i w))"
| stale_start: "runtime_step w (snd (create_or_join iv c w))"
| currentStep: "runtime_step w (snd (currentStep c i w))"
| startCurrentModule: "runtime_step w (snd (startCurrentModule c i w))"
| submitAnswer: "runtime_step w (snd (submitAnswer c i dto w))"
| autoSubmit: "runtime_step w (snd (autoSubmitSession i w))"
| sweep: "runtime_step w (snd (sweep w))"
| evict: "runtime_step w (w\<lparr>w_redis := (w_redis w)(k := None)\<rparr>)"
| elsewhere: "runtime_step w (w\<lparr>w_clock := c, w_random := g, w_faults := f, w_uuids := u,
    w_invitations := iv, w_assessments := a, w_bank := b, w_autoSubmit := q, w_reportJobs := rq\<rparr>)"

inductive reachable_world :: "world \<Rightarrow> bool" where
  empty: "w_sessions w = [] \<Longrightarrow> w_responses w = [] \<Longrightarrow> w_results w = [] \<Longrightarrow> w_redis w = Map.empty \<Longrightarrow>
    reachable_world w"
| step: "reachable_world w \<Longrightarrow> runtime_step w w' \<Longrightarrow> reachable_world w'"

definition live_keys :: "world \<Rightarrow> bool" where
  "live_keys w \<longleftrightarrow> (\<forall>i st. redis_get_state i (w_redis w) = Some st \<longrightarrow> ss_sessionId st = i)"

lemma live_keysD: "live_keys w \<Longrightarrow> redis_get_state i (w_redis w) = Some st \<Longrightarrow> ss_sessionId st = i"
  by (simp add: live_keys_def)

lemma redis_get_evict:
  "redis_get_state i (r(k := None)) = Some st \<Longrightarrow> redis_get_state i r = Some st"
  by (auto simp: redis_get_state_def split: if_splits)

lemma live_keys_writes [simp]:
  "live_keys w \<Longrightarrow> live_keys (w\<lparr>w_redis := redis_set (StateKey (ss_sessionId st)) (Blob st) t (w_redis w)\<rparr>)"
  "live_keys (w\<lparr>w_redis := redis_set (ClockKey i m) Mark t (w_redis w)\<rparr>) = live_keys w"
  "live_keys (w\<lparr>w_redis := redis_del [ClockKey i m] (w_redis w)\<rparr>) = live_keys w"
  "live_keys (w\<lparr>w_sessions := x1\<rparr>) = live_keys w"
  "live_keys (w\<lparr>w_responses := x2\<rparr>) = live_keys w"
  "live_keys (w\<lparr>w_results := x3\<rparr>) = live_keys w"
  "live_keys (w\<lparr>w_invitations := x4\<rparr>) = live_keys w"
  "live_keys (w\<lparr>w_bank := x5\<rparr>) = live_keys w"
  "live_keys (w\<lparr>w_random := x6\<rparr>) = live_keys w"
  "live_keys (w\<lparr>w_autoSubmit := x7\<rparr>) = live_keys w"
  "live_keys (w\<lparr>w_reportJobs := x8\<rparr>) = live_keys w"
  "live_keys (w\<lparr>w_uuids := x9\<rparr>) = live_keys w"
  "live_keys (w\<lparr>w_clock := x10\<rparr>) = live_keys w"
  "live_keys (w\<lparr>w_faults := x11\<rparr>) = live_keys w"
  "live_keys (w\<lparr>w_assessments := x12\<rparr>) = live_keys w"
  by (auto simp: live_keys_def redis_store.load_save redis_store.load_start redis_store.load_clear
      split: if_splits)

lemma update_rows_map: "(\<And>r. g (f r) = g r) \<Longrightarrow> map g (update_rows P f rows) = map g rows"
  by (simp add: update_rows_def)

subsection \<open>One attempt per invitation\<close>

definition attempts_unique :: "world \<Rightarrow> bool" where
  "attempts_unique w \<longleftrightarrow> live_keys w \<and> distinct (map sr_id (w_sessions w)) \<and>
     distinct (map sr_invitationId (w_sessions w))"

interpretation attempts: service_frame attempts_unique "\<lambda>_. True" "\<lambda>_. True"
proof unfold_locales
  fix i w and f :: "session_row \<Rightarrow> session_row"
  assume "attempts_unique w" and f: "\<And>r. sr_id (f r) = sr_id r \<and> sr_invitationId (f r) = sr_invitationId r \<and>
      sr_candidateId (f r) = sr_candidateId r \<and> sr_assessmentId (f r) = sr_assessmentId r \<and>
      sr_startedAt (f r) = sr_startedAt r \<and> sr_expiresAt (f r) = sr_expiresAt r"
  then show "attempts_unique (w\<lparr>w_sessions := update_rows (\<lambda>r. sr_id r = i) f (w_sessions w)\<rparr>)"
    by (simp add: attempts_unique_def update_rows_map)
next
  fix w and row :: session_row
  assume "attempts_unique w"
    "\<not> list_ex (\<lambda>r. sr_id r = sr_id row \<or> sr_invitationId r = sr_invitationId row) (w_sessions w)"
  then show "True \<and> attempts_unique (w\<lparr>w_sessions := w_sessions w @ [row]\<rparr>)"
    by (auto simp: attempts_unique_def list_ex_iff)
qed (auto simp: attempts_unique_def update_rows_map dest: live_keysD)

subsection \<open>One answer per question, one result per module\<close>

definition answers_unique :: "world \<Rightarrow> bool" where
  "answers_unique w \<longleftrightarrow> live_keys w \<and>
     distinct (map (\<lambda>r. (rs_sessionId r, rs_questionId r)) (w_responses w)) \<and>
     distinct (map (\<lambda>r. (mr_sessionId r, mr_moduleId r)) (w_results w))"

lemma upsert_distinct:
  assumes "distinct (map (\<lambda>r. (mr_sessionId r, mr_moduleId r)) rows)"
  shows "distinct (map (\<lambda>r. (mr_sessionId r, mr_moduleId r)) (upsert_rows row rows))"
proof -
  have "map (\<lambda>r. (mr_sessionId r, mr_moduleId r)) (update_rows (same_result row) (\<lambda>_. row) rows)
      = map (\<lambda>r. (mr_sessionId r, mr_moduleId r)) rows"
    by (auto simp: update_rows_def same_result_def)
  with assms show ?thesis by (auto simp: upsert_rows_def list_ex_iff same_result_def)
qed

interpretation answers: service_frame answers_unique "\<lambda>_. True" "\<lambda>_. True"
proof unfold_locales
  fix w and row :: response_row
  assume "answers_unique w"
    "\<not> list_ex (\<lambda>r. rs_sessionId r = rs_sessionId row \<and> rs_questionId r = rs_questionId row) (w_responses w)"
  then show "answers_unique (w\<lparr>w_responses := w_responses w @ [row]\<rparr>)"
    by (auto simp: answers_unique_def list_ex_iff)
qed (auto simp: answers_unique_def upsert_distinct dest: live_keysD)

subsection \<open>A closed session stays closed\<close>

text \<open>What a report is built from: the row's outcome, the answers and the results.\<close>

definition closed_as ::
  "string \<Rightarrow> session_status \<Rightarrow> int option \<Rightarrow> response_row list \<Rightarrow> module_result_row list \<Rightarrow> world \<Rightarrow> bool" where
  "closed_as i status submittedAt answers results w \<longleftrightarrow>
     live_keys w \<and>
     (\<forall>st. redis_get_state i (w_redis w) = Some st \<longrightarrow> ss_status st = Live_finished) \<and>
     (\<exists>r\<in>set (w_sessions w). sr_id r = i) \<and>
     (\<forall>r\<in>set (w_sessions w). sr_id r = i \<longrightarrow>
        sr_status r = status \<and> sr_submittedAt r = submittedAt \<and> status \<noteq> SESS_IN_PROGRESS) \<and>
     filter (\<lambda>r. rs_sessionId r = i) (w_responses w) = answers \<and>
     filter (\<lambda>r. mr_sessionId r = i) (w_results w) = results"

lemma filter_upsert_other:
  assumes "mr_sessionId row \<noteq> i"
  shows "filter (\<lambda>r. mr_sessionId r = i) (upsert_rows row rows) = filter (\<lambda>r. mr_sessionId r = i) rows"
proof -
  have "filter (\<lambda>r. mr_sessionId r = i) (update_rows (same_result row) (\<lambda>_. row) rows)
      = filter (\<lambda>r. mr_sessionId r = i) rows"
    using assms by (induction rows) (auto simp: update_rows_def same_result_def)
  with assms show ?thesis by (simp add: upsert_rows_def)
qed

lemma closed_update_rows:
  assumes "closed_as i s t A M w" and ids: "\<And>r. sr_id (f r) = sr_id r"
    and same: "\<And>r. sr_id r = i \<Longrightarrow> P r \<Longrightarrow> sr_status (f r) = sr_status r \<and> sr_submittedAt (f r) = sr_submittedAt r"
  shows "closed_as i s t A M (w\<lparr>w_sessions := update_rows P f (w_sessions w)\<rparr>)"
proof -
  let ?g = "\<lambda>r. if P r then f r else r"
  have g: "sr_id (?g r) = sr_id r" for r using ids by simp
  have rows: "\<exists>r\<in>set (w_sessions w). sr_id r = i"
      "\<And>r. r \<in> set (w_sessions w) \<Longrightarrow> sr_id r = i \<Longrightarrow>
         sr_status r = s \<and> sr_submittedAt r = t \<and> s \<noteq> SESS_IN_PROGRESS"
    using assms(1) by (auto simp: closed_as_def)
  obtain r where "r \<in> set (w_sessions w)" "sr_id r = i" using rows(1) by blast
  then have "\<exists>r\<in>set (map ?g (w_sessions w)). sr_id r = i"
    using g[of r] by (intro bexI[of _ "?g r"]) (auto simp del: if_split)
  moreover have "sr_status q = s \<and> sr_submittedAt q = t \<and> s \<noteq> SESS_IN_PROGRESS"
    if q: "q \<in> set (map ?g (w_sessions w))" "sr_id q = i" for q
  proof -
    obtain r where r: "r \<in> set (w_sessions w)" "q = ?g r" using q(1) by auto
    then have "sr_id r = i" using q(2) g by metis
    have "sr_status q = sr_status r \<and> sr_submittedAt q = sr_submittedAt r"
      using r(2) same[OF \<open>sr_id r = i\<close>] by simp
    with rows(2)[OF r(1) \<open>sr_id r = i\<close>] show ?thesis by simp
  qed
  moreover have "closed_as i s t A M (w\<lparr>w_sessions := R\<rparr>)"
    if "\<exists>r\<in>set R. sr_id r = i" "\<And>q. q \<in> set R \<Longrightarrow> sr_id q = i \<Longrightarrow>
        sr_status q = s \<and> sr_submittedAt q = t \<and> s \<noteq> SESS_IN_PROGRESS" for R
    using that assms(1) by (simp add: closed_as_def)
  ultimately show ?thesis unfolding update_rows_def by blast
qed

interpretation closed: service_frame "closed_as i s t A M" "\<lambda>j. j \<noteq> i" "\<lambda>_. True" for i s t A M
proof unfold_locales
  fix w e and st :: session_state
  assume "ss_sessionId st \<noteq> i" "closed_as i s t A M w"
  then show "closed_as i s t A M (w\<lparr>w_redis := redis_set (StateKey (ss_sessionId st)) (Blob st) e (w_redis w)\<rparr>)"
    by (simp add: closed_as_def redis_store.load_save)
next
  fix w e and st :: session_state
  assume "ss_status st = Live_finished" "closed_as i s t A M w"
  then show "closed_as i s t A M (w\<lparr>w_redis := redis_set (StateKey (ss_sessionId st)) (Blob st) e (w_redis w)\<rparr>)"
    by (simp add: closed_as_def redis_store.load_save)
next
  fix j w and f :: "session_row \<Rightarrow> session_row"
  assume "j \<noteq> i" "closed_as i s t A M w" and f: "\<And>r. sr_id (f r) = sr_id r \<and> sr_invitationId (f r) = sr_invitationId r \<and>
      sr_candidateId (f r) = sr_candidateId r \<and> sr_assessmentId (f r) = sr_assessmentId r \<and>
      sr_startedAt (f r) = sr_startedAt r \<and> sr_expiresAt (f r) = sr_expiresAt r"
  then show "closed_as i s t A M (w\<lparr>w_sessions := update_rows (\<lambda>r. sr_id r = j) f (w_sessions w)\<rparr>)"
    by (intro closed_update_rows) auto
next
  fix w j a b
  assume "closed_as i s t A M w"
  then show "closed_as i s t A M (w\<lparr>w_sessions :=
      update_rows (\<lambda>r. sr_id r = j) (\<lambda>r. r\<lparr>sr_startedAt := a, sr_expiresAt := b\<rparr>) (w_sessions w)\<rparr>)"
    by (intro closed_update_rows) auto
next
  fix w and row :: session_row
  assume "closed_as i s t A M w"
    "\<not> list_ex (\<lambda>r. sr_id r = sr_id row \<or> sr_invitationId r = sr_invitationId row) (w_sessions w)"
  then show "sr_id row \<noteq> i \<and> closed_as i s t A M (w\<lparr>w_sessions := w_sessions w @ [row]\<rparr>)"
    by (auto simp: closed_as_def list_ex_iff)
qed (auto dest: live_keysD simp: closed_as_def redis_store.load_start redis_store.load_clear filter_upsert_other)

subsection \<open>Through every step\<close>

lemma step_keeps:
  assumes "service_frame I mine row_ok"
    and ev: "\<And>w k. I w \<Longrightarrow> I (w\<lparr>w_redis := (w_redis w)(k := None)\<rparr>)"
    and oth: "\<And>w c g f u iv a b q rq. I w \<Longrightarrow> I (w\<lparr>w_clock := c, w_random := g, w_faults := f, w_uuids := u,
      w_invitations := iv, w_assessments := a, w_bank := b, w_autoSubmit := q, w_reportJobs := rq\<rparr>)"
    and step: "runtime_step w w'" and "I w"
  shows "I w'"
proof -
  have keeps_bool: "I (snd (m w))" if "keeps I m" for m :: "bool handler"
    using that \<open>I w\<close> by (simp add: keeps_def)
  have keeps_step: "I (snd (m w))" if "keeps I m" for m :: "session_step handler"
    using that \<open>I w\<close> by (simp add: keeps_def)
  have keeps_sweep: "I (snd (sweep w))"
    using service_frame.sweep_keeps[OF assms(1)] \<open>I w\<close> by (simp add: keeps_def)
  from step show ?thesis
  proof (cases rule: runtime_step.cases)
    case (start c i)
    then show ?thesis using keeps_step[OF service_frame.start_keeps[OF assms(1)]] by metis
  next
    case (stale_start iv c)
    then show ?thesis using keeps_step[OF service_frame.create_or_join_keeps[OF assms(1)]] by metis
  next
    case (currentStep c i)
    then show ?thesis using keeps_step[OF service_frame.currentStep_keeps[OF assms(1)]] by metis
  next
    case (startCurrentModule c i)
    then show ?thesis using keeps_step[OF service_frame.startCurrentModule_keeps[OF assms(1)]] by metis
  next
    case (submitAnswer c i dto)
    then show ?thesis using keeps_step[OF service_frame.submitAnswer_keeps[OF assms(1)]] by metis
  next
    case (autoSubmit i)
    then show ?thesis using keeps_bool[OF service_frame.autoSubmitSession_keeps[OF assms(1)]] by metis
  next
    case sweep
    then show ?thesis using keeps_sweep by metis
  next
    case (evict k)
    then show ?thesis using ev[OF \<open>I w\<close>] by metis
  next
    case (elsewhere c g f u iv a b q rq)
    then show ?thesis using oth[OF \<open>I w\<close>] by metis
  qed
qed

lemma live_keys_evict: "live_keys w \<Longrightarrow> live_keys (w\<lparr>w_redis := (w_redis w)(k := None)\<rparr>)"
  by (auto simp: live_keys_def dest: redis_get_evict)

lemma attempts_step: "runtime_step w w' \<Longrightarrow> attempts_unique w \<Longrightarrow> attempts_unique w'"
  by (rule step_keeps[OF attempts.service_frame_axioms])
    (auto simp: attempts_unique_def live_keys_evict)

lemma answers_step: "runtime_step w w' \<Longrightarrow> answers_unique w \<Longrightarrow> answers_unique w'"
  by (rule step_keeps[OF answers.service_frame_axioms])
    (auto simp: answers_unique_def live_keys_evict)

lemma closed_evict:
  "closed_as i s t A M w \<Longrightarrow> closed_as i s t A M (w\<lparr>w_redis := (w_redis w)(k := None)\<rparr>)"
  unfolding closed_as_def using redis_get_evict[of i "w_redis w" k]
  by (simp add: live_keys_evict)

lemma closed_step: "runtime_step w w' \<Longrightarrow> closed_as i s t A M w \<Longrightarrow> closed_as i s t A M w'"
  by (rule step_keeps[OF closed.service_frame_axioms],
      (assumption | rule closed_evict | simp add: closed_as_def)+)

lemma reachable_unique: "reachable_world w \<Longrightarrow> attempts_unique w \<and> answers_unique w"
proof (induction rule: reachable_world.induct)
  case (empty w)
  then show ?case by (simp add: attempts_unique_def answers_unique_def live_keys_def redis_get_state_def)
next
  case (step w w')
  then show ?case by (simp add: attempts_step answers_step)
qed

end
