(* ===== verification/Session_Behaviour.thy ===== *)
theory Session_Behaviour
  imports Session_Invariants
begin

section \<open>What a request does\<close>

text \<open>
  The functional behaviour of the runtime where calls over the network succeed: what
  \<open>finalize\<close> leaves behind, that the loop of \<open>advance\<close> always reaches an end, that answers
  are numbered without gaps, and that a late request records no choice.
\<close>

lemma wp_io_ok:
  "w_faults w = (\<lambda>_. False) \<Longrightarrow> wp (io m) Q E w = wp m Q E w"
  by (rule wp_io_reliable) (simp add: reliable_def)

lemmas store_defs = store_get_def store_save_def startModuleClock_def moduleRemainingMs_def
  clearModuleClock_def find_row_def find_rows_def findOneForSession_def
  update_session_def update_invitation_def insert_response_def upsert_result_def
  queue_add_def queue_remove_def report_queue_add_def

subsection \<open>The loop ends\<close>

text \<open>Errors other than the guard's.\<close>

definition no_guard_error :: "'a handler \<Rightarrow> bool" where
  "no_guard_error m \<longleftrightarrow> (\<forall>w. wp m (\<lambda>_ _. True) (\<lambda>e _. \<forall>i. e \<noteq> CouldNotAdvance i) w)"

named_theorems guard_intros "handlers that never raise the guard's error"

lemma guard_ret [guard_intros]: "no_guard_error (ret x)"
  by (simp add: no_guard_error_def wp_ret)

lemma guard_throw [guard_intros]: "(\<And>i. e \<noteq> CouldNotAdvance i) \<Longrightarrow> no_guard_error (throw e)"
  by (simp add: no_guard_error_def wp_throw)

lemma guard_bind [guard_intros]:
  "no_guard_error m \<Longrightarrow> (\<And>x. no_guard_error (f x)) \<Longrightarrow> no_guard_error (bind_p m f)"
  unfolding no_guard_error_def wp_bind by (blast intro: wp_mono)

lemma guard_then [guard_intros]:
  "no_guard_error m \<Longrightarrow> no_guard_error n \<Longrightarrow> no_guard_error (then_p m n)"
  by (simp add: then_p_def guard_bind)

lemma guard_simple [guard_intros]:
  "no_guard_error (reading f)" "no_guard_error (updating g)" "no_guard_error date_now"
  by (simp_all add: no_guard_error_def wp_simps)

lemma guard_io [guard_intros]: "no_guard_error m \<Longrightarrow> no_guard_error (io m)"
  by (simp add: no_guard_error_def wp_io Let_def)

lemma wp_always: "(\<And>x w. Q x w) \<Longrightarrow> (\<And>e w. E e w) \<Longrightarrow> wp m Q E w"
  by (simp add: wp_def split: prod.split sum.split)

lemma guard_try [guard_intros]: "(\<And>e. no_guard_error (h e)) \<Longrightarrow> no_guard_error (try_catch m h)"
  unfolding no_guard_error_def wp_try by (blast intro: wp_always)

lemma guard_if [guard_intros]:
  "(b \<Longrightarrow> no_guard_error m) \<Longrightarrow> (\<not> b \<Longrightarrow> no_guard_error n) \<Longrightarrow> no_guard_error (if b then m else n)"
  by simp

lemma guard_option [guard_intros]:
  "(v = None \<Longrightarrow> no_guard_error m) \<Longrightarrow> (\<And>x. v = Some x \<Longrightarrow> no_guard_error (f x)) \<Longrightarrow>
   no_guard_error (case v of None \<Rightarrow> m | Some x \<Rightarrow> f x)"
  by (cases v) simp_all

lemma guard_for_each [guard_intros]: "(\<And>x. no_guard_error (f x)) \<Longrightarrow> no_guard_error (for_each f xs)"
  by (induction xs) (auto intro!: guard_intros)

lemma guard_store [guard_intros]:
  "no_guard_error (store_get i)" "no_guard_error (store_save st)" "no_guard_error (startModuleClock i m s)"
  "no_guard_error (moduleRemainingMs i m)" "no_guard_error (clearModuleClock i m)"
  "no_guard_error (find_row P t)" "no_guard_error (find_rows P' t')" "no_guard_error (findOneForSession a)"
  "no_guard_error (update_session i f)" "no_guard_error (update_invitation j s')"
  "no_guard_error (upsert_result row)" "no_guard_error (loadServedQuestion q)"
  unfolding store_defs loadServedQuestion_def Let_def by (rule guard_intros | simp)+

lemma guard_writes [guard_intros]:
  "no_guard_error (insert_response row)" "no_guard_error (engine_nextStep m now)"
  "no_guard_error (engine_recordAnswer m q a n)"
proof -
  show "no_guard_error (insert_response row)"
    unfolding insert_response_def by (rule guard_io) (simp add: no_guard_error_def wp_def)
  have "no_guard_error (\<lambda>w. let (s, r) = nextStep (w_bank w) m now (w_random w) in (Inr s, w\<lparr>w_random := r\<rparr>))"
    by (simp add: no_guard_error_def wp_def split: prod.split)
  then show "no_guard_error (engine_nextStep m now)"
    unfolding engine_nextStep_def Let_def by (intro guard_if guard_io)
  show "no_guard_error (engine_recordAnswer m q a n)"
    by (auto simp: no_guard_error_def engine_recordAnswer_def wp_simps Let_def split: sum.splits)
qed

lemma guard_ops [guard_intros]:
  "no_guard_error (toSessionView st v)" "no_guard_error (completed_step st)"
  "no_guard_error (toQuestionStep st m s p)" "no_guard_error (removeAutoSubmit i)"
  "no_guard_error (enqueueReport i)" "no_guard_error (applyAnswer st m q a s now)"
  "no_guard_error (finalize st status)"
  unfolding toSessionView_def completed_step_def toQuestionStep_def removeAutoSubmit_def
    enqueueReport_def applyAnswer_def finalize_def persistModuleResult_def Let_def split_def
  by (rule guard_intros)+

lemma guard_completeModule [guard_intros]: "no_guard_error (completeModule st m reason now)"
  unfolding completeModule_def persistModuleResult_def Let_def split_def by (rule guard_intros)+

text \<open>A round that does not end moves on by one module.\<close>

lemma finalize_shape:
  "wp (finalize st s) (\<lambda>_ _. True) (\<lambda>e _. \<forall>i. e \<noteq> CouldNotAdvance i) w"
  using guard_ops(7) by (simp add: no_guard_error_def)

lemma put_module_index [simp]:
  "ss_currentModuleIndex (put_module m st) = ss_currentModuleIndex st"
  "length (ss_modules (put_module m st)) = length (ss_modules st)"
  "ss_expiresAt (put_module m st) = ss_expiresAt st"
  "ss_status (put_module m st) = ss_status st"
  "ss_sessionId (put_module m st) = ss_sessionId st"
  "ss_served (put_module m st) = ss_served st"
  "ss_answeredTotal (put_module m st) = ss_answeredTotal st"
  "ss_invitationId (put_module m st) = ss_invitationId st"
  by (simp_all add: put_module_def)

definition same_shape :: "session_state \<Rightarrow> session_state \<Rightarrow> bool" where
  "same_shape st st' \<longleftrightarrow> ss_currentModuleIndex st' = ss_currentModuleIndex st \<and>
     length (ss_modules st') = length (ss_modules st) \<and> ss_sessionId st' = ss_sessionId st \<and>
     ss_status st' = ss_status st \<and> ss_expiresAt st' = ss_expiresAt st"

lemma wp_guard: "no_guard_error m \<Longrightarrow> (\<And>x w'. Q x w') \<Longrightarrow>
    wp m Q (\<lambda>e _. \<forall>i. e \<noteq> CouldNotAdvance i) w"
  unfolding no_guard_error_def by (blast intro: wp_mono)

lemma applyAnswer_shape:
  "wp (applyAnswer st m q a s now) (\<lambda>(st', _) _. same_shape st st') (\<lambda>e _. \<forall>i. e \<noteq> CouldNotAdvance i) w"
  unfolding applyAnswer_def Let_def wp_simps split_def
  by (rule wp_guard[OF guard_writes(3)], rule wp_guard[OF guard_writes(1)]) (simp add: same_shape_def)

lemma completeModule_shape:
  "wp (completeModule st m r now) (\<lambda>st' _. same_shape st st') (\<lambda>e _. \<forall>i. e \<noteq> CouldNotAdvance i) w"
proof -
  have tail: "wp (case x of (st', m') \<Rightarrow>
      let m'' = m'\<lparr>ms_status := Completed, ms_completedAt := Some now, ms_stopReason := Some r\<rparr>
      in then_p (clearModuleClock (ss_sessionId st) (ms_moduleId m))
         (then_p (persistModuleResult (ss_sessionId st) m'') (ret (put_module m'' st'))))
      (\<lambda>st' _. same_shape st st') (\<lambda>e _. \<forall>i. e \<noteq> CouldNotAdvance i) w"
    if "same_shape st (fst x)" for x w
    unfolding Let_def split_def wp_simps persistModuleResult_def
    by (rule wp_guard[OF guard_store(5)], rule wp_guard[OF guard_store(11)])
      (use that in \<open>simp add: same_shape_def\<close>)
  show ?thesis
    unfolding completeModule_def wp_bind
  proof (cases "served_here st m")
    case None
    then show "wp (case served_here st m of None \<Rightarrow> ret (st, m)
          | Some served \<Rightarrow> bind_p (loadServedQuestion (sv_questionId served)) (\<lambda>q.
              applyAnswer st m q AnsUnanswered served now))
        (\<lambda>x. wp (case x of (st', m') \<Rightarrow>
      let m'' = m'\<lparr>ms_status := Completed, ms_completedAt := Some now, ms_stopReason := Some r\<rparr>
      in then_p (clearModuleClock (ss_sessionId st) (ms_moduleId m))
         (then_p (persistModuleResult (ss_sessionId st) m'') (ret (put_module m'' st'))))
      (\<lambda>st' _. same_shape st st') (\<lambda>e _. \<forall>i. e \<noteq> CouldNotAdvance i))
      (\<lambda>e _. \<forall>i. e \<noteq> CouldNotAdvance i) w"
      by (simp only: option.case wp_ret) (rule tail, simp add: same_shape_def)
  next
    case (Some s)
    show "wp (case served_here st m of None \<Rightarrow> ret (st, m)
          | Some served \<Rightarrow> bind_p (loadServedQuestion (sv_questionId served)) (\<lambda>q.
              applyAnswer st m q AnsUnanswered served now))
        (\<lambda>x. wp (case x of (st', m') \<Rightarrow>
      let m'' = m'\<lparr>ms_status := Completed, ms_completedAt := Some now, ms_stopReason := Some r\<rparr>
      in then_p (clearModuleClock (ss_sessionId st) (ms_moduleId m))
         (then_p (persistModuleResult (ss_sessionId st) m'') (ret (put_module m'' st'))))
      (\<lambda>st' _. same_shape st st') (\<lambda>e _. \<forall>i. e \<noteq> CouldNotAdvance i))
      (\<lambda>e _. \<forall>i. e \<noteq> CouldNotAdvance i) w"
      unfolding Some option.case wp_bind
      by (rule wp_guard[OF guard_store(12)], rule wp_mono[OF applyAnswer_shape], rule tail)
        (simp_all add: split_def)
  qed
qed

lemma advance_round_shape:
  "wp (advance_round st)
     (\<lambda>r _. case r of Inr _ \<Rightarrow> True
       | Inl st' \<Rightarrow> ss_currentModuleIndex st < length (ss_modules st) \<and>
           ss_currentModuleIndex st' = Suc (ss_currentModuleIndex st) \<and>
           length (ss_modules st') = length (ss_modules st))
     (\<lambda>e _. \<forall>i. e \<noteq> CouldNotAdvance i) w"
proof -
  have idx: "ss_currentModuleIndex st < length (ss_modules st)"
    if "at_index (ss_modules st) (ss_currentModuleIndex st) = Some m" for m
    using that by (simp add: at_index_def split: if_splits)
  show ?thesis
    unfolding advance_round_def wp_bind
    by (rule wp_guard[OF guard_simple(3)])
      (auto simp: wp_if wp_bind wp_then wp_ret idx next_module_def Let_def same_shape_def
        intro!: wp_guard[OF guard_ops(7)] wp_guard[OF guard_ops(2)] wp_guard[OF guard_store(2)]
          wp_guard[OF guard_ops(1)] wp_guard[OF guard_ops(3)] wp_guard[OF guard_writes(2)]
          wp_mono[OF completeModule_shape]
        split: option.split next_step.split)
qed

lemma advance_loop_ends:
  "length (ss_modules st) < n + ss_currentModuleIndex st \<Longrightarrow> 0 < n \<Longrightarrow> no_guard_error (advance_loop n st)"
proof (induction n arbitrary: st)
  case 0
  then show ?case by simp
next
  case (Suc n)
  have "wp (advance_loop (Suc n) st) (\<lambda>_ _. True) (\<lambda>e _. \<forall>i. e \<noteq> CouldNotAdvance i) w" for w
    unfolding advance_loop.simps wp_bind
  proof (rule wp_mono[OF advance_round_shape])
    fix w' and r :: "session_state + session_step"
    assume r: "case r of Inr _ \<Rightarrow> True
       | Inl st' \<Rightarrow> ss_currentModuleIndex st < length (ss_modules st) \<and>
           ss_currentModuleIndex st' = Suc (ss_currentModuleIndex st) \<and>
           length (ss_modules st') = length (ss_modules st)"
    show "wp (case r of Inl st' \<Rightarrow> advance_loop n st' | Inr s \<Rightarrow> ret s) (\<lambda>_ _. True)
        (\<lambda>e _. \<forall>i. e \<noteq> CouldNotAdvance i) w'"
    proof (cases r)
      case (Inl st')
      with r Suc.prems have "no_guard_error (advance_loop n st')"
        by (intro Suc.IH) auto
      with Inl show ?thesis by (simp add: no_guard_error_def)
    qed (simp add: wp_ret)
  qed
  then show ?case by (simp add: no_guard_error_def)
qed

subsection \<open>When no call fails\<close>

lemmas wp_ok = wp_ret wp_throw wp_bind wp_then wp_reading wp_updating wp_of_result wp_try wp_if
  wp_date_now wp_io_ok

definition closed_state :: "int \<Rightarrow> session_state \<Rightarrow> session_state" where
  "closed_state now st =
     st\<lparr>ss_modules := map (close_module now) (ss_modules st), ss_status := Live_finished, ss_served := None\<rparr>"

definition with_results :: "string \<Rightarrow> module_state list \<Rightarrow> module_result_row list \<Rightarrow> module_result_row list" where
  "with_results i ms rows = foldl (\<lambda>rows m. upsert_rows (module_result i m) rows) rows ms"

lemma persist_all:
  assumes "w_faults w = (\<lambda>_. False)"
    and "Q (map (close_module now) ms) (w\<lparr>w_results := with_results i (map (close_module now) ms) (w_results w)\<rparr>)"
  shows "wp (for_each (\<lambda>m. let m' = close_module now m in then_p (persistModuleResult i m') (ret m')) ms) Q E w"
proof (rule wp_for_each[where Inv = "\<lambda>xs ys w'. ys = map (close_module now) xs \<and>
    w' = w\<lparr>w_results := with_results i (map (close_module now) xs) (w_results w)\<rparr>"])
  show "[] = map (close_module now) [] \<and>
      w = w\<lparr>w_results := with_results i (map (close_module now) []) (w_results w)\<rparr>"
    by (simp add: with_results_def)
qed (use assms in \<open>auto simp: Let_def persistModuleResult_def upsert_result_def wp_ok with_results_def\<close>)

lemma finalize_closes:
  assumes "w_faults w = (\<lambda>_. False)" and "ss_status st = Live_in_progress"
  shows "wp (finalize st status) (\<lambda>st' w'. w_faults w' = (\<lambda>_. False) \<and>
      st' = closed_state (w_clock w 0) st \<and>
      (\<forall>i. redis_get_state i (w_redis w') = (if i = ss_sessionId st then Some st' else redis_get_state i (w_redis w))) \<and>
      w_sessions w' = update_rows (\<lambda>r. sr_id r = ss_sessionId st)
        (\<lambda>r. r\<lparr>sr_status := status, sr_submittedAt := Some (w_clock w 0)\<rparr>) (w_sessions w) \<and>
      w_invitations w' = update_rows (\<lambda>r. iv_id r = ss_invitationId st)
        (\<lambda>r. r\<lparr>iv_status := INV_COMPLETED\<rparr>) (w_invitations w) \<and>
      w_results w' = with_results (ss_sessionId st) (map (close_module (w_clock w 0)) (ss_modules st)) (w_results w) \<and>
      w_responses w' = w_responses w \<and> w_bank w' = w_bank w \<and> w_random w' = w_random w \<and>
      w_assessments w' = w_assessments w \<and>
      (\<exists>n. w_clock w' = (\<lambda>k. w_clock w (n + k))) \<and>
      autoSubmitJobId (ss_sessionId st) \<notin> fst ` set (w_autoSubmit w') \<and>
      reportJobId (ss_sessionId st) \<in> set (w_reportJobs w')) (\<lambda>_ _. False) w"
proof -
  have reports: "wp (enqueueReport i) (\<lambda>_. Q) E w"
    if "w_faults w = (\<lambda>_. False)"
      "\<And>rq. reportJobId i \<in> set rq \<Longrightarrow> Q (w\<lparr>w_reportJobs := rq\<rparr>)" for i w Q and E :: "session_error \<Rightarrow> world \<Rightarrow> bool"
    using that(1) that(2)[of "w_reportJobs w"] that(2)[of "w_reportJobs w @ [reportJobId i]"]
    by (simp add: enqueueReport_def report_queue_add_def wp_ok)
  have jobs: "wp (removeAutoSubmit i) (\<lambda>_. Q) E w"
    if "w_faults w = (\<lambda>_. False)"
      "Q (w\<lparr>w_autoSubmit := filter (\<lambda>j. fst j \<noteq> autoSubmitJobId i) (w_autoSubmit w)\<rparr>)"
    for i w Q and E :: "session_error \<Rightarrow> world \<Rightarrow> bool"
    using that by (simp add: removeAutoSubmit_def queue_remove_def wp_ok)
  have "\<exists>n. (\<lambda>k. w_clock w (Suc (Suc (Suc k)))) = (\<lambda>k. w_clock w (n + k))"
    by (rule exI[of _ 3]) (simp add: fun_eq_iff numeral_3_eq_3)
  then show ?thesis
    unfolding finalize_def wp_if wp_bind
    apply (simp only: assms(2) live_status.distinct if_False wp_date_now wp_bind)
    apply (rule persist_all)
     apply (simp add: assms)
    apply (simp add: assms Let_def wp_ok store_save_def update_session_def update_invitation_def)
    apply (rule jobs)
     apply (simp add: assms)
    apply (simp only: wp_then wp_ret)
    apply (rule reports)
     apply (simp add: assms)
    apply (auto simp: assms wp_ret closed_state_def redis_store.load_save)
    done
qed

lemma finalize_finished: "ss_status st = Live_finished \<Longrightarrow> finalize st s = ret st"
  by (simp add: finalize_def)

subsection \<open>Answers are numbered without gaps\<close>

definition answers_in :: "string \<Rightarrow> world \<Rightarrow> response_row list" where
  "answers_in i w = filter (\<lambda>r. rs_sessionId r = i) (w_responses w)"

definition numbered :: "world \<Rightarrow> bool" where
  "numbered w \<longleftrightarrow>
     (\<forall>i. map rs_sequenceNumber (answers_in i w) = [1..<Suc (length (answers_in i w))])"

text \<open>The counter of a live state is the number of answers stored for its session.\<close>

definition agrees :: "session_state \<Rightarrow> world \<Rightarrow> bool" where
  "agrees st w \<longleftrightarrow> ss_answeredTotal st = length (answers_in (ss_sessionId st) w)"

definition known :: "world \<Rightarrow> bool" where
  "known w \<longleftrightarrow> (\<forall>r\<in>set (w_responses w). \<exists>s\<in>set (w_sessions w). sr_id s = rs_sessionId r)"

definition in_step :: "world \<Rightarrow> bool" where
  "in_step w \<longleftrightarrow> w_faults w = (\<lambda>_. False) \<and> known w \<and> numbered w \<and>
     (\<forall>i st. redis_get_state i (w_redis w) = Some st \<longrightarrow> ss_sessionId st = i \<and> agrees st w)"

text \<open>Between an insert and the save that follows it, the stored state may lag behind.\<close>

definition in_step_but :: "session_state \<Rightarrow> world \<Rightarrow> bool" where
  "in_step_but st w \<longleftrightarrow> w_faults w = (\<lambda>_. False) \<and> known w \<and> numbered w \<and> agrees st w \<and>
     (\<forall>i st'. redis_get_state i (w_redis w) = Some st' \<longrightarrow> ss_sessionId st' = i \<and>
        (i \<noteq> ss_sessionId st \<longrightarrow> agrees st' w))"

lemma answers_in_frame [simp]:
  "answers_in i (w\<lparr>w_clock := a1\<rparr>) = answers_in i w"
  "answers_in i (w\<lparr>w_faults := a2\<rparr>) = answers_in i w"
  "answers_in i (w\<lparr>w_redis := a3\<rparr>) = answers_in i w"
  "answers_in i (w\<lparr>w_invitations := a4\<rparr>) = answers_in i w"
  "answers_in i (w\<lparr>w_bank := a5\<rparr>) = answers_in i w"
  "answers_in i (w\<lparr>w_random := a6\<rparr>) = answers_in i w"
  "answers_in i (w\<lparr>w_autoSubmit := a7\<rparr>) = answers_in i w"
  "answers_in i (w\<lparr>w_reportJobs := a8\<rparr>) = answers_in i w"
  "answers_in i (w\<lparr>w_results := a9\<rparr>) = answers_in i w"
  "answers_in i (w\<lparr>w_sessions := a10\<rparr>) = answers_in i w"
  "answers_in i (w\<lparr>w_uuids := a11\<rparr>) = answers_in i w"
  by (simp_all add: answers_in_def)

lemma known_frame [simp]:
  "known (w\<lparr>w_clock := a1\<rparr>) = known w"
  "known (w\<lparr>w_faults := a2\<rparr>) = known w"
  "known (w\<lparr>w_redis := a3\<rparr>) = known w"
  "known (w\<lparr>w_invitations := a4\<rparr>) = known w"
  "known (w\<lparr>w_bank := a5\<rparr>) = known w"
  "known (w\<lparr>w_random := a6\<rparr>) = known w"
  "known (w\<lparr>w_autoSubmit := a7\<rparr>) = known w"
  "known (w\<lparr>w_reportJobs := a8\<rparr>) = known w"
  "known (w\<lparr>w_results := a9\<rparr>) = known w"
  "known (w\<lparr>w_uuids := a10\<rparr>) = known w"
  by (simp_all add: known_def)

lemma known_update:
  assumes "\<And>r. sr_id (f r) = sr_id r"
  shows "known (w\<lparr>w_sessions := update_rows P f (w_sessions w)\<rparr>) = known w"
proof -
  have "sr_id ` set (update_rows P f (w_sessions w)) = sr_id ` set (w_sessions w)"
    using assms update_rows_map[of sr_id f P "w_sessions w"] by (metis list.set_map)
  then have "(\<exists>s\<in>set (update_rows P f (w_sessions w)). sr_id s = i) = (\<exists>s\<in>set (w_sessions w). sr_id s = i)" for i
    by (metis (mono_tags) image_iff)
  then show ?thesis by (simp add: known_def)
qed

lemmas step_defs = in_step_def in_step_but_def numbered_def agrees_def

interpretation steady: background in_step
  by unfold_locales (auto simp: step_defs redis_store.load_start redis_store.load_clear)

interpretation steady_but: background "in_step_but st" for st
  by unfold_locales (auto simp: step_defs redis_store.load_start redis_store.load_clear)

lemma in_step_weaken: "in_step w \<Longrightarrow> agrees st w \<Longrightarrow> in_step_but st w"
  by (auto simp: step_defs)

lemma agrees_cong:
  "ss_answeredTotal st' = ss_answeredTotal st \<Longrightarrow> ss_sessionId st' = ss_sessionId st \<Longrightarrow>
   agrees st' w = agrees st w"
  "ss_answeredTotal st' = ss_answeredTotal st \<Longrightarrow> ss_sessionId st' = ss_sessionId st \<Longrightarrow>
   in_step_but st' w = in_step_but st w"
  by (simp_all add: step_defs)

lemma agrees_frame [simp]:
  "agrees st (w\<lparr>w_clock := a1\<rparr>) = agrees st w"
  "agrees st (w\<lparr>w_redis := a3\<rparr>) = agrees st w"
  "agrees st (w\<lparr>w_bank := a5\<rparr>) = agrees st w"
  "agrees st (w\<lparr>w_random := a6\<rparr>) = agrees st w"
  "agrees st (w\<lparr>w_autoSubmit := a7\<rparr>) = agrees st w"
  "agrees st (w\<lparr>w_results := a9\<rparr>) = agrees st w"
  "agrees st (w\<lparr>w_sessions := a10\<rparr>) = agrees st w"
  by (simp_all add: agrees_def)

text \<open>A read, or a write that concerns no session, keeps a state and the world in step.\<close>

definition together :: "session_state \<Rightarrow> world \<Rightarrow> bool" where
  "together st w \<longleftrightarrow> in_step w \<and> agrees st w"

lemma together_in_step: "together st w \<Longrightarrow> in_step w"
  by (simp add: together_def)

interpretation joint: background "together st" for st
  by unfold_locales (auto simp: together_def step_defs redis_store.load_start redis_store.load_clear)

lemma store_save_in_step:
  assumes "in_step_but st w" and "\<And>w'. together st w' \<Longrightarrow> Q () w'"
  shows "wp (store_save st) Q E w"
  unfolding store_save_def wp_bind wp_date_now Let_def
  using assms(1)
  by (simp add: wp_io_ok wp_updating in_step_but_def)
    (rule assms(2), auto simp: together_def step_defs redis_store.load_save split: if_splits)

lemma answers_in_snoc:
  "answers_in i (w\<lparr>w_responses := w_responses w @ [row]\<rparr>) =
   answers_in i w @ (if i = rs_sessionId row then [row] else [])"
  by (simp add: answers_in_def)

lemma numbered_snoc:
  assumes "numbered w" and "rs_sequenceNumber row = Suc (length (answers_in (rs_sessionId row) w))"
  shows "numbered (w\<lparr>w_responses := w_responses w @ [row]\<rparr>)"
  unfolding numbered_def
proof
  fix i
  have "map rs_sequenceNumber (answers_in i w) = [1..<Suc (length (answers_in i w))]"
    using assms(1) by (simp only: numbered_def)
  then show "map rs_sequenceNumber (answers_in i (w\<lparr>w_responses := w_responses w @ [row]\<rparr>))
      = [1..<Suc (length (answers_in i (w\<lparr>w_responses := w_responses w @ [row]\<rparr>)))]"
    using assms(2) by (simp add: answers_in_snoc)
qed

lemma insert_response_in_step:
  assumes w: "together st w" and row: "rs_sessionId row = ss_sessionId st"
      "rs_sequenceNumber row = ss_answeredTotal st + 1"
    and st': "ss_sessionId st' = ss_sessionId st" "ss_answeredTotal st' = ss_answeredTotal st + 1"
    and post: "\<And>w'. in_step_but st' w' \<Longrightarrow> Q () w'"
  shows "wp (insert_response row) Q (\<lambda>_. in_step) w"
proof -
  let ?w = "w\<lparr>w_responses := w_responses w @ [row]\<rparr>"
  have F: "w_faults w = (\<lambda>_. False)" using w by (simp add: together_def in_step_def)
  have "numbered ?w"
    using w row by (intro numbered_snoc) (simp_all add: together_def in_step_def agrees_def)
  moreover have "known ?w" if "list_ex (\<lambda>s. sr_id s = rs_sessionId row) (w_sessions w)"
    using w that by (auto simp: together_def in_step_def known_def list_ex_iff)
  moreover have "agrees st' ?w"
    using w row st' by (simp add: together_def agrees_def answers_in_snoc)
  moreover have "agrees st2 ?w = agrees st2 w" if "ss_sessionId st2 \<noteq> ss_sessionId st" for st2
    using that row by (simp add: agrees_def answers_in_snoc)
  ultimately have "in_step_but st' ?w" if "list_ex (\<lambda>s. sr_id s = rs_sessionId row) (w_sessions w)"
    using w st' F that by (auto simp: in_step_but_def together_def in_step_def)
  from post[OF this] show ?thesis
    using w unfolding insert_response_def wp_io_ok[OF F] by (simp add: wp_def together_def)
qed

lemma applyAnswer_in_step:
  assumes "together st w"
  shows "wp (applyAnswer st m q a s now)
    (\<lambda>(st', _) w'. in_step_but st' w' \<and> ss_sessionId st' = ss_sessionId st) (\<lambda>_. in_step) w"
proof -
  let ?next = "st\<lparr>ss_answeredTotal := ss_answeredTotal st + 1\<rparr>"
  have same: "in_step_but ?next w \<Longrightarrow>
      in_step_but (put_module m' (st\<lparr>ss_answeredTotal := ss_answeredTotal st + 1, ss_served := None\<rparr>)) w" for m' w
    by (subst agrees_cong(2)[of _ ?next]) simp_all
  show ?thesis
    unfolding applyAnswer_def Let_def wp_bind
    by (rule joint.keeps_step[OF joint.keeps_engine(2) assms])
      (auto simp: wp_then wp_ret together_def split_def
        intro!: insert_response_in_step[where st = st and st' = ?next] dest: same)
qed

lemma in_step_but_step:
  "keeps (in_step_but st) m \<Longrightarrow> in_step_but st w \<Longrightarrow> (\<And>e w'. in_step_but st w' \<Longrightarrow> E e w') \<Longrightarrow>
   (\<And>x w'. in_step_but st w' \<Longrightarrow> Q x w') \<Longrightarrow> wp m Q E w"
  by (rule steady_but.keeps_step)

text \<open>With no failing call, what follows the insert cannot throw.\<close>

lemma completeModule_in_step:
  assumes "together st w"
  shows "wp (completeModule st m r now)
    (\<lambda>st' w'. in_step_but st' w' \<and> ss_sessionId st' = ss_sessionId st) (\<lambda>_. in_step) w"
proof -
  have tail: "wp (case x of (st', m') \<Rightarrow>
      let m'' = m'\<lparr>ms_status := Completed, ms_completedAt := Some now, ms_stopReason := Some r\<rparr>
      in then_p (clearModuleClock (ss_sessionId st) (ms_moduleId m))
         (then_p (persistModuleResult (ss_sessionId st) m'') (ret (put_module m'' st'))))
      (\<lambda>st' w'. in_step_but st' w' \<and> ss_sessionId st' = ss_sessionId st) (\<lambda>_. in_step) w"
    if x: "in_step_but (fst x) w" "ss_sessionId (fst x) = ss_sessionId st" for x w
  proof -
    have F: "w_faults w = (\<lambda>_. False)" using x(1) by (simp add: in_step_but_def)
    obtain st' m' where st': "x = (st', m')" by fastforce
    have "in_step_but (put_module m'' st') (w\<lparr>w_redis := redis_del [ClockKey i j] (w_redis w), w_results := rs\<rparr>)"
      for m'' i j rs
      using x(1) st' by (auto simp: step_defs redis_store.load_clear)
    then show ?thesis
      using x(2) F by (simp add: st' Let_def clearModuleClock_def persistModuleResult_def upsert_result_def wp_ok)
  qed
  show ?thesis
    unfolding completeModule_def wp_bind
  proof (cases "served_here st m")
    case None
    show "wp (case served_here st m of None \<Rightarrow> ret (st, m)
          | Some served \<Rightarrow> bind_p (loadServedQuestion (sv_questionId served)) (\<lambda>q.
              applyAnswer st m q AnsUnanswered served now))
        (\<lambda>x. wp (case x of (st', m') \<Rightarrow>
      let m'' = m'\<lparr>ms_status := Completed, ms_completedAt := Some now, ms_stopReason := Some r\<rparr>
      in then_p (clearModuleClock (ss_sessionId st) (ms_moduleId m))
         (then_p (persistModuleResult (ss_sessionId st) m'') (ret (put_module m'' st'))))
      (\<lambda>st' w'. in_step_but st' w' \<and> ss_sessionId st' = ss_sessionId st) (\<lambda>_. in_step)) (\<lambda>_. in_step) w"
      unfolding None option.case wp_ret
      by (rule tail) (use assms in \<open>simp_all add: together_def in_step_weaken\<close>)
  next
    case (Some s)
    show "wp (case served_here st m of None \<Rightarrow> ret (st, m)
          | Some served \<Rightarrow> bind_p (loadServedQuestion (sv_questionId served)) (\<lambda>q.
              applyAnswer st m q AnsUnanswered served now))
        (\<lambda>x. wp (case x of (st', m') \<Rightarrow>
      let m'' = m'\<lparr>ms_status := Completed, ms_completedAt := Some now, ms_stopReason := Some r\<rparr>
      in then_p (clearModuleClock (ss_sessionId st) (ms_moduleId m))
         (then_p (persistModuleResult (ss_sessionId st) m'') (ret (put_module m'' st'))))
      (\<lambda>st' w'. in_step_but st' w' \<and> ss_sessionId st' = ss_sessionId st) (\<lambda>_. in_step)) (\<lambda>_. in_step) w"
      unfolding Some option.case wp_bind
      by (rule joint.keeps_step[OF joint.keeps_reads(6) assms], rule wp_mono[OF applyAnswer_in_step], assumption,
          rule tail) (simp_all add: split_def together_def)
  qed
qed

lemma finalize_in_step:
  assumes "together st w"
  shows "wp (finalize st s) (\<lambda>st' w'. together st' w') (\<lambda>_. in_step) w"
proof (cases "ss_status st")
  case Live_in_progress
  have F: "w_faults w = (\<lambda>_. False)" using assms by (simp add: together_def in_step_def)
  show ?thesis
  proof (rule wp_mono[OF finalize_closes[OF F Live_in_progress]])
    fix st' and w' :: world
    assume post: "w_faults w' = (\<lambda>_. False) \<and>
      st' = closed_state (w_clock w 0) st \<and>
      (\<forall>i. redis_get_state i (w_redis w') = (if i = ss_sessionId st then Some st' else redis_get_state i (w_redis w))) \<and>
      w_sessions w' = update_rows (\<lambda>r. sr_id r = ss_sessionId st)
        (\<lambda>r. r\<lparr>sr_status := s, sr_submittedAt := Some (w_clock w 0)\<rparr>) (w_sessions w) \<and>
      w_invitations w' = update_rows (\<lambda>r. iv_id r = ss_invitationId st)
        (\<lambda>r. r\<lparr>iv_status := INV_COMPLETED\<rparr>) (w_invitations w) \<and>
      w_results w' = with_results (ss_sessionId st) (map (close_module (w_clock w 0)) (ss_modules st)) (w_results w) \<and>
      w_responses w' = w_responses w \<and> w_bank w' = w_bank w \<and> w_random w' = w_random w \<and>
      w_assessments w' = w_assessments w \<and>
      (\<exists>n. w_clock w' = (\<lambda>k. w_clock w (n + k))) \<and>
      autoSubmitJobId (ss_sessionId st) \<notin> fst ` set (w_autoSubmit w') \<and>
      reportJobId (ss_sessionId st) \<in> set (w_reportJobs w')"
    then have "answers_in i w' = answers_in i w" for i by (simp add: answers_in_def)
    moreover have "known w'"
    proof -
      have "known (w\<lparr>w_sessions := w_sessions w'\<rparr>)"
        using post assms known_update[of "\<lambda>r. r\<lparr>sr_status := s, sr_submittedAt := Some (w_clock w 0)\<rparr>"]
        by (simp add: together_def in_step_def)
      then show ?thesis using post by (simp add: known_def)
    qed
    ultimately show "together st' w'"
      using post assms by (auto simp: together_def step_defs closed_state_def split: if_splits)
  qed simp
qed (use assms in \<open>simp add: finalize_finished wp_ret\<close>)

lemma advance_round_in_step:
  assumes "together st w"
  shows "wp (advance_round st)
    (\<lambda>r w'. in_step w' \<and> (case r of Inl st' \<Rightarrow> agrees st' w' | Inr _ \<Rightarrow> True)) (\<lambda>_. in_step) w"
proof -
  have save: "wp (store_save st') Q E w"
    if "in_step_but st' w" "\<And>w'. together st' w' \<Longrightarrow> Q () w'" for st' w Q and E :: "session_error \<Rightarrow> world \<Rightarrow> bool"
    using that by (rule store_save_in_step)
  have final: "wp (finalize st s) (\<lambda>x. wp (bind_p (completed_step x) (\<lambda>s. ret (Inr s)))
      (\<lambda>r w'. in_step w' \<and> (case r of Inl st' \<Rightarrow> agrees st' w' | Inr _ \<Rightarrow> True)) (\<lambda>_. in_step)) (\<lambda>_. in_step) w"
    if "together st w" for s w
    by (rule wp_mono[OF finalize_in_step[OF that]])
      (auto simp: wp_bind wp_ret together_def intro!: steady.keeps_step[OF steady.keeps_views(4)])
  have closing: "wp (completeModule st m reason now) (\<lambda>st'.
      wp (then_p (store_save (next_module st')) (ret (Inl (next_module st'))))
      (\<lambda>r w'. in_step w' \<and> (case r of Inl st' \<Rightarrow> agrees st' w' | Inr _ \<Rightarrow> True)) (\<lambda>_. in_step)) (\<lambda>_. in_step) w"
    if "together st w" for m reason now w
  proof (rule wp_mono[OF completeModule_in_step[OF that]])
    fix st' w' assume "in_step_but st' w' \<and> ss_sessionId st' = ss_sessionId st"
    then have "in_step_but (next_module st') w'"
      by (subst agrees_cong(2)[of _ st']) (simp_all add: next_module_def)
    then show "wp (then_p (store_save (next_module st')) (ret (Inl (next_module st'))))
      (\<lambda>r w'. in_step w' \<and> (case r of Inl st' \<Rightarrow> agrees st' w' | Inr _ \<Rightarrow> True)) (\<lambda>_. in_step) w'"
      by (auto simp: wp_then wp_ret together_def intro!: save)
  qed simp
  have moved: "in_step_but st' w'" if "together st w'" "ss_answeredTotal st' = ss_answeredTotal st"
      "ss_sessionId st' = ss_sessionId st" for st' w'
    using that agrees_cong(1)[of st' st w'] by (auto simp: together_def intro: in_step_weaken)
  have on: "together st w' \<Longrightarrow> in_step w'" for w' by (simp add: together_def)
  note views = steady.keeps_step[OF steady.keeps_views(1)] steady.keeps_step[OF steady.keeps_views(2)]
  show ?thesis
    unfolding advance_round_def wp_bind
    by (rule joint.keeps_step[OF joint.keeps_clock assms],
      auto simp: wp_if wp_bind wp_then wp_ret Let_def on intro!: final closing views save
          joint.keeps_step[OF joint.keeps_engine(1)]
        intro: moved simp: next_module_def[of st] serve_in_def together_def[of "_\<lparr>ss_currentModuleIndex := _\<rparr>"]
          together_def[of "put_module _ _"]
        split: option.split next_step.split,
      rule moved, simp_all)
qed

text \<open>The whole loop, and with it every request that ends in it.\<close>

lemma advance_loop_in_step:
  "together st w \<Longrightarrow> wp (advance_loop n st) (\<lambda>_. in_step) (\<lambda>_. in_step) w"
proof (induction n arbitrary: st w)
  case 0
  then show ?case by (simp add: wp_throw together_def)
next
  case (Suc n)
  show ?case
    unfolding advance_loop.simps wp_bind
    by (rule wp_mono[OF advance_round_in_step[OF Suc.prems]])
      (auto simp: wp_ret together_def[symmetric] intro!: Suc.IH split: sum.splits)
qed

lemma advance_in_step: "together st w \<Longrightarrow> wp (advance st) (\<lambda>_. in_step) (\<lambda>_. in_step) w"
  unfolding advance_def wp_if
  by (auto intro!: advance_loop_in_step joint.keeps_step[OF joint.keeps_views(4)] simp: together_def)

lemma store_get_in_step:
  assumes "in_step w" and "\<And>st w'. together st w' \<Longrightarrow> ss_sessionId st = i \<Longrightarrow> Q (Some st) w'"
    and "\<And>w'. in_step w' \<Longrightarrow> Q None w'"
  shows "wp (store_get i) Q (\<lambda>_. in_step) w"
proof -
  have F: "w_faults w = (\<lambda>_. False)" using assms(1) by (simp add: in_step_def)
  show ?thesis
    unfolding store_get_def wp_io_ok[OF F] wp_reading
    using assms by (cases "redis_get_state i (w_redis w)") (auto simp: together_def in_step_def)
qed

lemma answers_of_length: "length (answers_of i w) = length (answers_in i w)"
  by (simp add: answers_of_def answers_in_def)

lemma rehydrate_in_step:
  assumes "in_step w"
  shows "wp (rehydrate row) together (\<lambda>_. in_step) w"
proof -
  have rest: "wp (bind_p (of_result (replay_answers bank answers (fresh_modules assessment))) (\<lambda>replayed.
     bind_p (find_rows (\<lambda>r. mr_sessionId r = sr_id row) w_results) (\<lambda>finished.
     bind_p date_now (\<lambda>now.
     bind_p (for_each (\<lambda>m.
               if ms_status m \<noteq> In_progress then ret m
               else then_p (startModuleClock (sr_id row) (ms_moduleId m) (int (ms_timeLimitSeconds m)))
                      (ret (restart_module now m)))
             (foldl replay_result replayed finished)) (\<lambda>modules.
     let st = \<lparr>ss_sessionId = sr_id row, ss_candidateId = sr_candidateId row,
               ss_invitationId = sr_invitationId row,
               ss_assessmentId = sr_assessmentId row, ss_assessmentTitle = as_title assessment,
               ss_startedAt = sr_startedAt row, ss_expiresAt = sr_expiresAt row,
               ss_status = (if sr_status row = SESS_IN_PROGRESS then Live_in_progress else Live_finished),
               ss_modules = modules, ss_currentModuleIndex = first_unfinished modules,
               ss_served = None, ss_answeredTotal = length answers\<rparr>
     in then_p (store_save st) (ret st)))))) together (\<lambda>_. in_step) w"
    if w: "in_step w" "length answers = length (answers_in (sr_id row) w)" for w bank answers assessment
  proof -
    define st0 where "st0 = (undefined :: session_state)\<lparr>ss_sessionId := sr_id row,
      ss_answeredTotal := length answers\<rparr>"
    have t0: "together st0 w" using w by (simp add: together_def agrees_def st0_def)
    have clocks: "keeps (together st0) (for_each (\<lambda>m.
        if ms_status m \<noteq> In_progress then ret m
        else then_p (startModuleClock (sr_id row) (ms_moduleId m) (int (ms_timeLimitSeconds m)))
               (ret (restart_module now m))) ms)" for ms now
      by (intro keeps_intros)
    have save: "wp (store_save st) (\<lambda>_. together st) (\<lambda>_. in_step) w'"
      if "together st0 w'" "ss_sessionId st = sr_id row" "ss_answeredTotal st = length answers" for st w'
    proof (rule store_save_in_step)
      have "agrees st w'" using that agrees_cong(1)[of st st0 w'] by (simp add: together_def st0_def)
      with that(1) show "in_step_but st w'" by (simp add: together_def in_step_weaken)
    qed
    have on: "together st0 w' \<Longrightarrow> in_step w'" for w' by (simp add: together_def)
    show ?thesis
      unfolding wp_bind Let_def wp_then wp_ret
      by (intro joint.keeps_step[OF keeps_of_result t0] joint.keeps_step[OF joint.keeps_reads(4)]
          joint.keeps_step[OF joint.keeps_clock] joint.keeps_step[OF clocks] save on) simp_all
  qed
  have F: "w_faults w = (\<lambda>_. False)" if "in_step w" for w using that by (simp add: in_step_def)
  show ?thesis
    unfolding rehydrate_def
  proof (subst wp_bind, rule steady.keeps_step[OF steady.keeps_reads(5) assms])
    fix assessment w' assume w': "in_step w'"
    show "wp (bind_p (io (reading (\<lambda>w. (answers_of (sr_id row) w, w_bank w)))) (\<lambda>(answers, bank).
     bind_p (of_result (replay_answers bank answers (fresh_modules assessment))) (\<lambda>replayed.
     bind_p (find_rows (\<lambda>r. mr_sessionId r = sr_id row) w_results) (\<lambda>finished.
     bind_p date_now (\<lambda>now.
     bind_p (for_each (\<lambda>m.
               if ms_status m \<noteq> In_progress then ret m
               else then_p (startModuleClock (sr_id row) (ms_moduleId m) (int (ms_timeLimitSeconds m)))
                      (ret (restart_module now m)))
             (foldl replay_result replayed finished)) (\<lambda>modules.
     let st = \<lparr>ss_sessionId = sr_id row, ss_candidateId = sr_candidateId row,
               ss_invitationId = sr_invitationId row,
               ss_assessmentId = sr_assessmentId row, ss_assessmentTitle = as_title assessment,
               ss_startedAt = sr_startedAt row, ss_expiresAt = sr_expiresAt row,
               ss_status = (if sr_status row = SESS_IN_PROGRESS then Live_in_progress else Live_finished),
               ss_modules = modules, ss_currentModuleIndex = first_unfinished modules,
               ss_served = None, ss_answeredTotal = length answers\<rparr>
     in then_p (store_save st) (ret st))))))) together (\<lambda>_. in_step) w'"
      unfolding wp_bind[of "io _"] wp_io_ok[OF F[OF w']] wp_reading prod.case
      by (rule rest[OF w' answers_of_length])
  qed
qed

lemma load_in_step:
  assumes "in_step w"
  shows "wp (load_session c i) together (\<lambda>_. in_step) w"
  unfolding load_session_def wp_bind
  by (rule store_get_in_step[OF assms])
    (auto simp: wp_if wp_throw wp_ret wp_bind dest: together_in_step
      intro!: rehydrate_in_step steady.keeps_step[OF steady.keeps_reads(3)] split: option.split)

lemma submitAnswer_in_step:
  assumes "in_step w"
  shows "wp (submitAnswer c i dto) (\<lambda>_. in_step) (\<lambda>_. in_step) w"
  unfolding submitAnswer_def wp_bind
proof (rule steady.keeps_step[OF keeps_of_result assms], rule wp_mono[OF load_in_step])
  fix answer st w' assume st: "together st w'"
  have store: "wp (then_p (store_save st') (advance st')) (\<lambda>_. in_step) (\<lambda>_. in_step) w"
    if "in_step_but st' w" for st' w
    unfolding wp_then by (rule store_save_in_step[OF that advance_in_step])
  have recorded: "wp (applyAnswer st m q answer s now) (\<lambda>x. wp (case x of (st', _) \<Rightarrow>
        then_p (store_save st') (advance st')) (\<lambda>_. in_step) (\<lambda>_. in_step)) (\<lambda>_. in_step) w"
    if "together st w" for m q s now w
    by (rule wp_mono[OF applyAnswer_in_step[OF that]]) (auto intro!: store)
  show "wp date_now (\<lambda>now. wp (if ss_status st = Live_finished then advance st
     else if now \<ge> ss_expiresAt st
     then bind_p (finalize st SESS_AUTO_SUBMITTED) (\<lambda>st'. advance st')
     else (case ss_served st of
       None \<Rightarrow> throw NothingOnScreen
     | Some served \<Rightarrow>
         if sv_questionId served \<noteq> dto_questionId dto then throw NotTheQuestionServed
         else (case at_index (ss_modules st) (ss_currentModuleIndex st) of
           None \<Rightarrow> throw ModuleAlreadyClosed
         | Some m \<Rightarrow>
             if ms_moduleId m \<noteq> sv_moduleId served then throw ModuleAlreadyClosed
             else if late m now then advance st
             else
             bind_p (loadServedQuestion (sv_questionId served)) (\<lambda>q.
             bind_p (applyAnswer st m q answer served now) (\<lambda>(st', _).
             then_p (store_save st') (advance st')))))) (\<lambda>_. in_step) (\<lambda>_. in_step)) (\<lambda>_. in_step) w'"
    by (rule joint.keeps_step[OF joint.keeps_clock st])
      (auto simp: wp_if wp_throw wp_bind intro!: advance_in_step wp_mono[OF finalize_in_step]
        joint.keeps_step[OF joint.keeps_reads(6)] recorded dest: together_in_step split: option.split)
qed auto

end
