(* ===== verification/Session_Numbering.thy ===== *)
theory Session_Numbering
  imports Session_Behaviour
begin

section \<open>Numbering through every call\<close>

text \<open>
  The rest of the requests keep \<open>in_step\<close>: the live counter of a session is the number of
  answers stored for it, and the stored answers are numbered from one in the order of
  insertion. A new session starts at zero because its generated id is unused.
\<close>

lemma currentStep_in_step: "in_step w \<Longrightarrow> wp (currentStep c i) (\<lambda>_. in_step) (\<lambda>_. in_step) w"
  unfolding currentStep_def wp_bind
  by (rule wp_mono[OF load_in_step]) (auto intro: advance_in_step)

lemma in_step_set_session:
  assumes "\<And>r. sr_id (f r) = sr_id r"
  shows "in_step (w\<lparr>w_sessions := update_rows P f (w_sessions w)\<rparr>) = in_step w"
  using known_update[OF assms, of P w] by (simp add: step_defs)

lemma keeps_session_update:
  assumes "\<And>r. sr_id (f r) = sr_id r"
  shows "keeps (together st) (update_session i f)"
  unfolding update_session_def
  by (intro joint.keeps_network keeps_updating) (simp add: together_def in_step_set_session assms)

lemma together_cong:
  "ss_answeredTotal st' = ss_answeredTotal st \<Longrightarrow> ss_sessionId st' = ss_sessionId st \<Longrightarrow>
   together st' w = together st w"
  by (simp add: together_def agrees_cong(1)[of st' st])

lemma beginSessionClock_in_step:
  assumes "together st w"
  shows "wp (beginSessionClock st now) together (\<lambda>_. in_step) w"
proof -
  have upd: "keeps (together st) (update_session i (\<lambda>r. r\<lparr>sr_startedAt := a, sr_expiresAt := b\<rparr>))" for i a b
    by (rule keeps_session_update) simp
  show ?thesis
    unfolding beginSessionClock_def Let_def wp_then wp_ret
    by (rule joint.keeps_step[OF upd assms], rule joint.keeps_step[OF joint.keeps_queues(2)], assumption,
        rule joint.keeps_step[OF joint.keeps_queues(1)], assumption)
      (simp_all add: together_def agrees_def)
qed

lemma together_save: "together st w \<Longrightarrow> in_step_but st w"
  by (simp add: together_def in_step_weaken)

lemma startCurrentModule_in_step:
  assumes "in_step w"
  shows "wp (startCurrentModule c i) (\<lambda>_. in_step) (\<lambda>_. in_step) w"
  unfolding startCurrentModule_def wp_bind
proof (rule wp_mono[OF load_in_step[OF assms]])
  fix st w' assume st: "together st w'"
  have save: "wp (store_save st') (\<lambda>_. together st') (\<lambda>_. in_step) v" if "together st' v" for st' v
    by (rule store_save_in_step[OF together_save[OF that]])
  have put: "together (put_module m st) v = together st v" for m v
    by (rule together_cong) simp_all
  show "wp (case at_index (ss_modules st) (ss_currentModuleIndex st) of
               None \<Rightarrow> ret st
             | Some m \<Rightarrow>
                 if ms_status m \<noteq> Pending then ret st
                 else
                 bind_p date_now (\<lambda>now.
                 let isFirst = list_all (\<lambda>m. ms_status m = Pending) (ss_modules st);
                     st1 = put_module (start_module now m) st
                 in then_p (startModuleClock (ss_sessionId st) (ms_moduleId m)
                              (int (ms_timeLimitSeconds m)))
                   (bind_p (if isFirst then beginSessionClock st1 now else ret st1) (\<lambda>st2.
                    then_p (store_save st2) (ret st2)))))
           (\<lambda>st'. wp (advance st') (\<lambda>_. in_step) (\<lambda>_. in_step)) (\<lambda>_. in_step) w'"
    using st
    by (auto simp: wp_ret wp_if wp_bind wp_then Let_def put
        intro!: advance_in_step joint.keeps_step[OF joint.keeps_clock[where st = st]]
          joint.keeps_step[OF joint.keeps_writes(1)[where st = st]] wp_mono[OF beginSessionClock_in_step]
          wp_mono[OF save] split: option.split)
      (auto dest: together_in_step)
qed auto

lemma autoSubmitSession_in_step:
  assumes "in_step w"
  shows "wp (autoSubmitSession i) (\<lambda>_. in_step) (\<lambda>_. in_step) w"
  unfolding autoSubmitSession_def wp_bind
proof (rule steady.keeps_step[OF steady.keeps_reads(3) assms])
  fix found w' assume "in_step w'"
  then show "wp (case found of None \<Rightarrow> ret False
      | Some session \<Rightarrow>
          if sr_status session \<noteq> SESS_IN_PROGRESS then ret False
          else bind_p (store_get i) (\<lambda>live.
               bind_p (case live of Some st \<Rightarrow> ret st | None \<Rightarrow> rehydrate session) (\<lambda>st.
               bind_p (finalize st SESS_AUTO_SUBMITTED) (\<lambda>_. ret True))))
      (\<lambda>_. in_step) (\<lambda>_. in_step) w'"
    by (auto simp: wp_ret wp_if wp_bind
        intro!: store_get_in_step wp_mono[OF finalize_in_step] wp_mono[OF rehydrate_in_step]
        split: option.split) (auto simp: together_def)
qed

lemma sweep_in_step: "in_step w \<Longrightarrow> wp sweep (\<lambda>_. in_step) (\<lambda>_. in_step) w"
proof -
  have auto_submit: "keeps in_step (autoSubmitSession i)" for i
    using autoSubmitSession_in_step by (simp add: keeps_wp)
  have "keeps in_step sweep"
    unfolding sweep_def by (intro keeps_intros auto_submit)
  then show "in_step w \<Longrightarrow> ?thesis" by (simp add: keeps_wp)
qed

lemma resume_in_step:
  assumes "in_step w"
  shows "wp (resume row) (\<lambda>_. in_step) (\<lambda>_. in_step) w"
proof -
  have views: "keeps in_step (toSessionView st v)" "keeps in_step (finishedViewFromDb row)" for st v
    by (intro keeps_intros)+
  show ?thesis
    unfolding resume_def wp_if wp_bind
    using assms by (auto simp: wp_ret
        intro!: store_get_in_step steady.keeps_step[OF views(1)] steady.keeps_step[OF views(2)]
          wp_mono[OF rehydrate_in_step] advance_in_step dest: together_in_step split: option.split)
qed

lemma insert_session_in_step:
  assumes "in_step w"
  shows "wp (insert_session row) (\<lambda>r w'. in_step w' \<and> answers_in (sr_id r) w' = []) (\<lambda>_. in_step) w"
proof -
  have F: "w_faults w = (\<lambda>_. False)" using assms by (simp add: in_step_def)
  let ?i = "w_uuids w 0" and ?v = "w\<lparr>w_uuids := (\<lambda>n. w_uuids w (Suc n))\<rparr>"
  let ?row = "row\<lparr>sr_id := ?i\<rparr>"
  have ids: "in_step ?v" using assms by (simp add: step_defs)
  have more: "in_step (?v\<lparr>w_sessions := w_sessions w @ [?row]\<rparr>)"
    using ids by (auto simp: step_defs known_def)
  have fresh: "answers_in ?i w = []" if "\<not> (\<exists>r\<in>set (w_sessions w). sr_id r = ?i)"
    using assms that by (auto simp: in_step_def known_def answers_in_def filter_empty_conv)
  show ?thesis
    unfolding insert_session_def wp_io_ok[OF F]
    using ids more fresh by (auto simp: wp_def Let_def list_ex_iff)
qed

lemma createSession_in_step:
  assumes "in_step w"
  shows "wp (createSession iv c) (\<lambda>_. in_step) (\<lambda>_. in_step) w"
proof -
  have save: "wp (store_save st) (\<lambda>_. together st) (\<lambda>_. in_step) v"
    if "in_step v" "answers_in (ss_sessionId st) v = []" "ss_answeredTotal st = 0" for st v
    by (rule store_save_in_step, rule in_step_weaken) (use that in \<open>simp_all add: agrees_def\<close>)
  have inv: "wp (update_invitation i s) (\<lambda>_ v'. in_step v' \<and> answers_in j v' = []) (\<lambda>_. in_step) v"
    if "in_step v" "answers_in j v = []" for i s j v
  proof -
    have F: "w_faults v = (\<lambda>_. False)" using that by (simp add: in_step_def)
    show ?thesis
      unfolding update_invitation_def wp_io_ok[OF F] wp_updating
      using that by (simp add: steady.set_invitations)
  qed
  show ?thesis
    unfolding createSession_def wp_bind
    apply (rule steady.keeps_step[OF steady.keeps_reads(5) assms])
     apply (auto simp: wp_if wp_throw wp_bind wp_then Let_def new_live_state_def
        intro!: steady.keeps_step[OF steady.keeps_clock] wp_mono[OF insert_session_in_step]
          wp_mono[OF inv] wp_mono[OF save] joint.keeps_step[OF joint.keeps_queues(1)] advance_in_step)
     apply (auto simp: together_def)
    done
qed

lemma create_or_join_keeps_step: "keeps in_step (create_or_join iv c)"
proof -
  have "keeps in_step (createSession iv c)" "keeps in_step (resume row)" for row
    using createSession_in_step resume_in_step by (simp_all add: keeps_wp)
  then show ?thesis
    unfolding create_or_join_def by (intro keeps_intros)
qed

lemma start_in_step:
  assumes "in_step w"
  shows "wp (start c i) (\<lambda>_. in_step) (\<lambda>_. in_step) w"
proof -
  have "keeps in_step (resume row)" for row using resume_in_step by (simp add: keeps_wp)
  then have "keeps in_step (start c i)"
    unfolding start_def Let_def by (intro keeps_intros create_or_join_keeps_step)
  with assms show ?thesis by (simp add: keeps_wp)
qed

lemmas requests_in_step = start_in_step currentStep_in_step startCurrentModule_in_step
  submitAnswer_in_step autoSubmitSession_in_step sweep_in_step

text \<open>The runtime where no call over the network fails.\<close>

inductive quiet_world :: "world \<Rightarrow> bool" where
  empty: "w_sessions w = [] \<Longrightarrow> w_responses w = [] \<Longrightarrow> w_redis w = Map.empty \<Longrightarrow>
    w_faults w = (\<lambda>_. False) \<Longrightarrow> quiet_world w"
| step: "quiet_world w \<Longrightarrow> runtime_step w w' \<Longrightarrow> w_faults w' = (\<lambda>_. False) \<Longrightarrow> quiet_world w'"

lemma in_step_elsewhere:
  "in_step w \<Longrightarrow> f = (\<lambda>_. False) \<Longrightarrow> in_step (w\<lparr>w_clock := c, w_random := g, w_faults := f, w_uuids := u,
    w_invitations := iv, w_assessments := a, w_bank := b, w_autoSubmit := q, w_reportJobs := rq\<rparr>)"
  by (simp add: step_defs known_def answers_in_def)

lemma in_step_evict: "in_step w \<Longrightarrow> in_step (w\<lparr>w_redis := (w_redis w)(k := None)\<rparr>)"
  by (auto simp: step_defs dest: redis_get_evict)

lemma runtime_step_in_step:
  assumes "runtime_step w w'" and "in_step w" and "w_faults w' = (\<lambda>_. False)"
  shows "in_step w'"
  using assms(1)
proof (cases rule: runtime_step.cases)
  case (stale_start iv c)
  then show ?thesis using create_or_join_keeps_step assms(2) by (simp add: keeps_def)
next
  case (elsewhere c g f u iv a b q rq)
  then show ?thesis using in_step_elsewhere[OF assms(2)] assms(3) by simp
qed (use assms(2) requests_in_step in_step_evict in \<open>auto simp: wp_snd\<close>)

lemma quiet_in_step: "quiet_world w \<Longrightarrow> in_step w"
proof (induction rule: quiet_world.induct)
  case (empty w)
  then show ?case by (simp add: step_defs known_def answers_in_def redis_get_state_def)
next
  case (step w w')
  then show ?case by (simp add: runtime_step_in_step)
qed

end
