(* ===== verification/Session_Properties.thy ===== *)
theory Session_Properties
  imports Session_Numbering Engine_Properties
begin

section \<open>The properties of the candidate runtime\<close>

text \<open>
  What a request may and may not do, over the handlers of the session service. The sample
  world serves the instances: one assessment of one objective module, a question on screen.
\<close>

definition sample_module :: assessment_module where
  "sample_module = \<lparr>am_moduleId = ''m'', am_slug = ''numeracy'', am_name = ''Numeracy'',
     am_description = None, am_scoringType = OBJECTIVE, am_traits = None, am_questionCount = 2,
     am_timeLimitSeconds = 600\<rparr>"

definition sample_assessment :: assessment_row where
  "sample_assessment = \<lparr>as_id = ''a'', as_title = ''Entry test'', as_organisationId = ''org'',
     as_opensAt = None, as_closesAt = Some 5000000, as_modules = [sample_module], as_questionPool = []\<rparr>"

definition sample_invitation :: invitation_row where
  "sample_invitation = \<lparr>iv_id = ''i'', iv_assessmentId = ''a'', iv_email = ''c@x.org'',
     iv_source = By_recruiter, iv_candidateId = Some ''c'',
     iv_status = INV_PENDING, iv_opensAt = None, iv_expiresAt = None, iv_createdAt = 0\<rparr>"

definition sample_session :: session_row where
  "sample_session = \<lparr>sr_id = ''s'', sr_invitationId = ''i'', sr_assessmentId = ''a'',
     sr_candidateId = ''c'', sr_status = SESS_IN_PROGRESS, sr_startedAt = 0, sr_expiresAt = 720000,
     sr_submittedAt = None\<rparr>"

definition empty_world :: world where
  "empty_world = \<lparr>w_clock = (\<lambda>n. 1000 + int n), w_random = (\<lambda>_. 0), w_faults = (\<lambda>_. False),
     w_uuids = (\<lambda>n. ''s'' @ replicate n CHR ''x''), w_redis = Map.empty, w_sessions = [],
     w_invitations = [sample_invitation], w_responses = [], w_results = [],
     w_assessments = [sample_assessment], w_bank = sample_bank, w_autoSubmit = [], w_reportJobs = []\<rparr>"

definition running_module :: module_state where
  "running_module = (start_module 0 sample_state)\<lparr>ms_seenQuestionIds := [''q1'']\<rparr>"

definition live_sample :: session_state where
  "live_sample = \<lparr>ss_sessionId = ''s'', ss_candidateId = ''c'', ss_invitationId = ''i'',
     ss_assessmentId = ''a'', ss_assessmentTitle = ''Entry test'', ss_startedAt = 0,
     ss_expiresAt = 720000, ss_status = Live_in_progress, ss_modules = [running_module],
     ss_currentModuleIndex = 0,
     ss_served = Some \<lparr>sv_questionId = ''q1'', sv_moduleId = ''m'', sv_servedAt = 500\<rparr>,
     ss_answeredTotal = 0\<rparr>"

definition running_world :: world where
  "running_world = empty_world\<lparr>w_sessions := [sample_session],
     w_redis := [StateKey ''s'' \<mapsto> (Blob live_sample, 99000000), ClockKey ''s'' ''m'' \<mapsto> (Mark, 600000)]\<rparr>"

lemmas world_samples = sample_module_def sample_assessment_def sample_invitation_def
  sample_session_def empty_world_def running_module_def live_sample_def running_world_def
  start_module_def sample_defs

subsection \<open>A sitting from start to end\<close>

text \<open>
  The sample candidate starts, begins the only section, and answers both of its questions.
  The handlers are executed symbolically, the estimates stay unevaluated.
\<close>

definition sample_dto :: submit_dto where
  "sample_dto = \<lparr>dto_questionId = ''q1'', dto_selectedOption = Some ''A'', dto_selectedOptions = None\<rparr>"

definition started_world :: world where
  "started_world = snd (start ''c'' ''i'' empty_world)"

definition begun_world :: world where
  "begun_world = snd (startCurrentModule ''c'' ''s'' started_world)"

definition answered_world :: world where
  "answered_world = snd (submitAnswer ''c'' ''s'' sample_dto begun_world)"

definition finished_world :: world where
  "finished_world = snd (submitAnswer ''c'' ''s'' (sample_dto\<lparr>dto_questionId := ''q2''\<rparr>) answered_world)"

lemmas request_defs = start_def bind_p_def then_p_def ret_def throw_def try_catch_def of_result_def reading_def
  updating_def io_def find_row_def Let_def world_samples date_now_def windowState_def effectiveWindow_def
  create_or_join_def createSession_def findOneForSession_def insert_session_def new_live_state_def
  update_invitation_def store_save_def scheduleAutoSubmit_def queue_add_def advance_def advance_round_def
  fresh_modules_def module_config_def at_index_def toSessionView_def session_budget_def session_constants
  numeral_3_eq_3 redis_set_def redis_pttl_def redis_del_def startCurrentModule_def load_session_def store_get_def
  redis_get_state_def startModuleClock_def beginSessionClock_def put_module_def removeAutoSubmit_def
  queue_remove_def update_session_def update_rows_def engine_nextStep_def nextStep_def ceil_seconds_def
  on_screen_def served_here_def serve_in_def toQuestionStep_def moduleRemainingMs_def

lemmas select_defs = selectNext_def selectDueTwinId_def dueTwin_def shouldStop_def CONTINUE_def deadline_passed_def
  selectProbeOpenerId_def selectId_def selectObjectiveId_def objective_shortlist_def eligible_def baseQuery_def
  visible_to_org_def question_is_servable_def pickRandom_def math_random_def rng_tail_def blockedGroups_def
  find_question_def twin_rows_def markProbeServed_def markServed_def truthy_def wantsNewPair_def canOpenPair_def
  difficulty_gap_def mcq_times_used_def SELECTOR_SHORTLIST_SIZE_def PROBE_MAX_PAIRS_def PROBE_GAP_QUESTIONS_def
  STARTING_ABILITY_def

lemmas answer_defs = sample_dto_def toSubmittedAnswer_def submitAnswer_def late_def ANSWER_GRACE_MS_def
  loadServedQuestion_def applyAnswer_def engine_recordAnswer_def recordAnswer_def recordObjectiveAnswer_def
  evaluateMcq_def assertKnownOption_def insert_response_def score_objective_def registerProbe_def
  update_mcq_row_def update_question_def trackAbility_def STABILITY_WINDOW_def

lemmas close_defs = completeModule_def clearModuleClock_def persistModuleResult_def upsert_result_def next_module_def
  finalize_def close_module_def enqueueReport_def report_queue_add_def completed_step_def

declare request_defs [simp] select_defs [simp] answer_defs [simp] close_defs [simp]

lemmas started_eq = started_world_def[simplified]
lemmas begun_eq = begun_world_def[unfolded started_eq, simplified]
lemmas answered_eq = answered_world_def[unfolded begun_eq, simplified]

lemma finished_world_rows:
  "map rs_questionId (w_responses finished_world) = [''q1'', ''q2'']"
  "map rs_sessionId (w_responses finished_world) = [''s'', ''s'']"
  "map sr_status (w_sessions finished_world) = [SESS_COMPLETED]"
  "w_faults finished_world = (\<lambda>_. False)"
  unfolding finished_world_def answered_eq by simp_all

declare request_defs [simp del] select_defs [simp del] answer_defs [simp del] close_defs [simp del]

lemma finished_world_quiet: "quiet_world finished_world"
proof -
  have calm: "w_faults empty_world = (\<lambda>_. False)" "w_faults started_world = (\<lambda>_. False)"
    "w_faults begun_world = (\<lambda>_. False)" "w_faults answered_world = (\<lambda>_. False)"
    by (simp_all add: empty_world_def started_eq begun_eq answered_eq)
  have "quiet_world empty_world" by (rule quiet_world.empty) (simp_all add: empty_world_def)
  then have "quiet_world started_world"
    unfolding started_world_def by (rule quiet_world.step[OF _ runtime_step.start]) (fold started_world_def, rule calm)
  then have "quiet_world begun_world"
    unfolding begun_world_def by (rule quiet_world.step[OF _ runtime_step.startCurrentModule]) (fold begun_world_def, rule calm)
  then have "quiet_world answered_world"
    unfolding answered_world_def by (rule quiet_world.step[OF _ runtime_step.submitAnswer]) (fold answered_world_def, rule calm)
  then show ?thesis
    unfolding finished_world_def by (rule quiet_world.step[OF _ runtime_step.submitAnswer]) (fold finished_world_def, rule finished_world_rows(4))
qed

text \<open>C6: The answers of every session are numbered 1, 2, 3, ... in the order they were stored,
  across its modules, whatever requests and workers interleave and whenever Redis loses the
  live state; and the live counter a candidate sees is the number of answers stored. This
  holds as long as no call to the database, the queue or Redis fails; when one fails between storing an
  answer and saving the live state, the counter is one short.\<close>

theorem answers_numbered:
  assumes "quiet_world w"
  shows "map rs_sequenceNumber (filter (\<lambda>r. rs_sessionId r = i) (w_responses w))
      = [1..<Suc (length (filter (\<lambda>r. rs_sessionId r = i) (w_responses w)))] \<and>
    (\<forall>st. redis_get_state i (w_redis w) = Some st \<longrightarrow>
       ss_answeredTotal st = length (filter (\<lambda>r. rs_sessionId r = i) (w_responses w)))"
proof -
  have on: "in_step w" by (rule quiet_in_step[OF assms])
  then have "ss_answeredTotal st = length (answers_in i w)"
    if "redis_get_state i (w_redis w) = Some st" for st
    using that by (auto simp: in_step_def agrees_def)
  with on show ?thesis unfolding in_step_def numbered_def answers_in_def by blast
qed

theorem answers_numbered_witness:
  "map rs_sequenceNumber (filter (\<lambda>r. rs_sessionId r = ''s'') (w_responses finished_world)) = [1, 2] \<and>
   map rs_questionId (w_responses finished_world) = [''q1'', ''q2'']"
proof -
  have "filter (\<lambda>r. rs_sessionId r = ''s'') rows = rows" if "map rs_sessionId rows = replicate (length rows) ''s''"
    for rows :: "response_row list"
    using that by (induction rows) auto
  moreover have "length (w_responses finished_world) = 2"
    using arg_cong[OF finished_world_rows(1), of length] by simp
  ultimately show ?thesis
    using answers_numbered[OF finished_world_quiet, of "''s''"] finished_world_rows(1,2)
    by (simp add: numeral_2_eq_2 upt_rec)
qed

subsection \<open>Closing\<close>

text \<open>C7: A closed session stays as it was closed: through any sequence of requests, sweeps,
  failures and losses of Redis, its status, its time of submission, its answers and its
  module results do not change, and no live state of it is open again.\<close>

theorem closed_session_frozen:
  assumes "runtime_step\<^sup>*\<^sup>* w w'" and "closed_as i status t answers results w"
  shows "closed_as i status t answers results w'"
  using assms(1,2) by (induction rule: rtranclp_induct) (auto intro: closed_step)

text \<open>C8: The loop behind every request terminates in a step for the candidate: the guard
  against a non-terminating engine never fires, whatever the state, the bank and the
  failures.\<close>

theorem advance_always_arrives:
  "fst (advance st w) \<noteq> Inl (CouldNotAdvance i)"
proof -
  have "no_guard_error (advance st)"
    unfolding advance_def by (intro guard_if guard_ops advance_loop_ends) simp_all
  then have "wp (advance st) (\<lambda>_ _. True) (\<lambda>e _. \<forall>i. e \<noteq> CouldNotAdvance i) w"
    by (simp add: no_guard_error_def)
  then show ?thesis by (cases "advance st w") (auto simp: wp_def split: sum.splits)
qed

text \<open>The rows \<open>finalize\<close> writes.\<close>

lemma upsert_self: "row \<in> set (upsert_rows row rows)"
  by (auto simp: upsert_rows_def update_rows_def list_ex_iff same_result_def)

lemma upsert_keeps_other:
  "r \<in> set rows \<Longrightarrow> \<not> same_result row r \<Longrightarrow> r \<in> set (upsert_rows row rows)"
  by (auto simp: upsert_rows_def update_rows_def)

lemma with_results_keep:
  "r \<in> set rows \<Longrightarrow> (\<And>m. m \<in> set ms \<Longrightarrow> \<not> same_result (module_result i m) r) \<Longrightarrow>
   r \<in> set (with_results i ms rows)"
  unfolding with_results_def by (induction ms arbitrary: rows) (auto intro: upsert_keeps_other)

lemma module_result_ids [simp]:
  "mr_sessionId (module_result i m) = i" "mr_moduleId (module_result i m) = ms_moduleId m"
  by (simp_all add: module_result_def Let_def)

lemma with_results_all:
  assumes "distinct (map ms_moduleId ms)" and "m \<in> set ms"
  shows "module_result i m \<in> set (with_results i ms rows)"
  using assms
proof (induction ms arbitrary: rows)
  case (Cons a ms)
  show ?case
  proof (cases "m = a")
    case True
    have "\<not> same_result (module_result i m') (module_result i a)" if "m' \<in> set ms" for m'
      using that Cons.prems(1) by (auto simp: same_result_def) (metis imageI)
    then have "module_result i a \<in> set (with_results i ms (upsert_rows (module_result i a) rows))"
      by (intro with_results_keep upsert_self)
    with True show ?thesis by (simp add: with_results_def)
  next
    case False
    with Cons show ?thesis by (simp add: with_results_def)
  qed
qed simp

lemma close_module_id [simp]: "ms_moduleId (close_module now m) = ms_moduleId m"
  by (simp add: close_module_def)

lemma autoSubmit_of_closed:
  assumes "w_faults w = (\<lambda>_. False)" and "\<And>r. r \<in> set (w_sessions w) \<Longrightarrow> sr_id r = i \<Longrightarrow> sr_status r \<noteq> SESS_IN_PROGRESS"
  shows "autoSubmitSession i w = (Inr False, w)"
proof -
  have F: "w\<lparr>w_faults := (\<lambda>n. w_faults w (Suc n))\<rparr> = w" using assms(1) by (simp add: fun_eq_iff)
  have "sr_status r \<noteq> SESS_IN_PROGRESS" if "List.find (\<lambda>r. sr_id r = i) (w_sessions w) = Some r" for r
    using that assms(2) by (auto simp: find_Some_iff)
  then show ?thesis
    using assms(1) F
    by (auto simp: autoSubmitSession_def bind_p_def find_row_def io_def reading_def ret_def Let_def
        split: option.split)
qed

text \<open>C9: Closing a session, where the calls succeed, closes all of it: the row gets its final
  status and the time, every module its result row, the invitation is completed, the
  auto-submit job is gone and exactly this report is queued; no answer is touched. From
  then on the session is closed, and a worker that comes back to it does nothing.\<close>

theorem finalize_closes_session:
  assumes "w_faults w = (\<lambda>_. False)" and "live_keys w"
    and "ss_status st = Live_in_progress" and "distinct (map ms_moduleId (ss_modules st))"
    and "\<exists>r\<in>set (w_sessions w). sr_id r = ss_sessionId st" and "status \<noteq> SESS_IN_PROGRESS"
  shows "\<exists>st' w'. finalize st status w = (Inr st', w') \<and>
    closed_as (ss_sessionId st) status (Some (w_clock w 0))
      (filter (\<lambda>r. rs_sessionId r = ss_sessionId st) (w_responses w))
      (filter (\<lambda>r. mr_sessionId r = ss_sessionId st) (w_results w')) w' \<and>
    (\<forall>m\<in>set (ss_modules st). module_result (ss_sessionId st) (close_module (w_clock w 0) m) \<in> set (w_results w')) \<and>
    (\<forall>r\<in>set (w_invitations w'). iv_id r = ss_invitationId st \<longrightarrow> iv_status r = INV_COMPLETED) \<and>
    autoSubmitJobId (ss_sessionId st) \<notin> fst ` set (w_autoSubmit w') \<and>
    reportJobId (ss_sessionId st) \<in> set (w_reportJobs w') \<and>
    autoSubmitSession (ss_sessionId st) w' = (Inr False, w')"
proof -
  let ?i = "ss_sessionId st" and ?now = "w_clock w 0"
  let ?ms = "map (close_module ?now) (ss_modules st)"
  obtain st' w' where run: "finalize st status w = (Inr st', w')" and quiet: "w_faults w' = (\<lambda>_. False)"
    and st': "st' = closed_state ?now st"
    and redis: "\<And>i. redis_get_state i (w_redis w') = (if i = ?i then Some st' else redis_get_state i (w_redis w))"
    and rows: "w_sessions w' = update_rows (\<lambda>r. sr_id r = ?i)
        (\<lambda>r. r\<lparr>sr_status := status, sr_submittedAt := Some ?now\<rparr>) (w_sessions w)"
    and inv: "w_invitations w' = update_rows (\<lambda>r. iv_id r = ss_invitationId st)
        (\<lambda>r. r\<lparr>iv_status := INV_COMPLETED\<rparr>) (w_invitations w)"
    and res: "w_results w' = with_results ?i ?ms (w_results w)" and resp: "w_responses w' = w_responses w"
    and jobs: "autoSubmitJobId ?i \<notin> fst ` set (w_autoSubmit w')" "reportJobId ?i \<in> set (w_reportJobs w')"
    using finalize_closes[OF assms(1,3), of status] unfolding wp_def
    by (auto split: prod.splits sum.splits)
  have ids: "sr_id st2 = ?i" "sr_status st2 = status" "sr_submittedAt st2 = Some ?now"
    if "st2 \<in> set (w_sessions w')" "sr_id st2 = ?i" for st2
    using that by (auto simp: rows update_rows_def)
  have "ss_status st' = Live_finished" "ss_sessionId st' = ?i" by (simp_all add: st' closed_state_def)
  moreover have "\<exists>r\<in>set (w_sessions w'). sr_id r = ?i"
  proof -
    have "sr_id ` set (w_sessions w') = sr_id ` set (w_sessions w)"
      unfolding rows set_map[symmetric] by (subst update_rows_map) simp_all
    with assms(5) show ?thesis by (metis (mono_tags, lifting) image_iff)
  qed
  ultimately have closed: "closed_as ?i status (Some ?now) (filter (\<lambda>r. rs_sessionId r = ?i) (w_responses w))
      (filter (\<lambda>r. mr_sessionId r = ?i) (w_results w')) w'"
    using redis assms(2,6) ids by (auto simp: closed_as_def live_keys_def resp split: if_splits)
  have "distinct (map ms_moduleId ?ms)" using assms(4) by (simp add: comp_def)
  then have results: "module_result ?i (close_module ?now m) \<in> set (w_results w')" if "m \<in> set (ss_modules st)" for m
    unfolding res using that by (intro with_results_all) auto
  have done_again: "autoSubmitSession ?i w' = (Inr False, w')"
    by (rule autoSubmit_of_closed[OF quiet]) (use ids assms(6) in auto)
  have invs: "\<forall>r\<in>set (w_invitations w'). iv_id r = ss_invitationId st \<longrightarrow> iv_status r = INV_COMPLETED"
    by (auto simp: inv update_rows_def)
  show ?thesis
    using run closed results invs jobs done_again by blast
qed

lemma running_world_basics:
  "w_faults running_world = (\<lambda>_. False)" "live_keys running_world"
  by (auto simp: world_samples live_keys_def redis_get_state_def split: if_splits)

theorem finalize_closes_session_witness:
  "\<exists>st' w'. finalize live_sample SESS_COMPLETED running_world = (Inr st', w') \<and>
     reportJobId ''s'' \<in> set (w_reportJobs w') \<and>
     closed_as ''s'' SESS_COMPLETED (Some 1000) [] (filter (\<lambda>r. mr_sessionId r = ''s'') (w_results w')) w'"
proof -
  have "ss_status live_sample = Live_in_progress" "distinct (map ms_moduleId (ss_modules live_sample))"
    "\<exists>r\<in>set (w_sessions running_world). sr_id r = ss_sessionId live_sample" "SESS_COMPLETED \<noteq> SESS_IN_PROGRESS"
    and basics: "ss_sessionId live_sample = ''s''" "w_clock running_world 0 = 1000" "w_responses running_world = []"
    by (simp_all add: world_samples)
  from finalize_closes_session[OF running_world_basics this(1-4)] show ?thesis
    by (auto simp: basics)
qed

definition closed_world :: world where
  "closed_world = running_world\<lparr>w_redis := Map.empty,
     w_sessions := [sample_session\<lparr>sr_status := SESS_COMPLETED, sr_submittedAt := Some 700000\<rparr>]\<rparr>"

theorem closed_session_frozen_witness:
  "closed_as ''s'' SESS_COMPLETED (Some 700000) [] [] (snd (submitAnswer ''c'' ''s'' sample_dto (snd (sweep closed_world))))"
proof -
  have "closed_as ''s'' SESS_COMPLETED (Some 700000) [] [] closed_world"
    by (simp add: closed_as_def closed_world_def world_samples live_keys_def redis_get_state_def)
  moreover have "runtime_step\<^sup>*\<^sup>* closed_world (snd (submitAnswer ''c'' ''s'' sample_dto (snd (sweep closed_world))))"
    by (rule converse_rtranclp_into_rtranclp[OF runtime_step.sweep r_into_rtranclp[of runtime_step, OF runtime_step.submitAnswer]])
  ultimately show ?thesis using closed_session_frozen by blast
qed

lemma run_of_wp: "wp m P (\<lambda>_ _. False) w \<Longrightarrow> \<exists>x w'. m w = (Inr x, w') \<and> P x w'"
  by (auto simp: wp_def split: prod.splits sum.splits)

subsection \<open>The question on screen\<close>

lemma ticked:
  "w_faults w = (\<lambda>_. False) \<Longrightarrow> wp (toSessionView st v) Q E w =
     (let now = w_clock w 0 in Q \<lparr>vw_sessionId = ss_sessionId st, vw_assessmentId = ss_assessmentId st,
        vw_assessmentTitle = ss_assessmentTitle st,
        vw_status = or_else v (if ss_status st = Live_finished then SESS_COMPLETED else SESS_IN_PROGRESS),
        vw_startedAt = ss_startedAt st, vw_expiresAt = ss_expiresAt st,
        vw_sessionRemainingMs = max 0 (ss_expiresAt st - now),
        vw_currentModuleIndex = ss_currentModuleIndex st,
        vw_modules = map toModuleView (ss_modules st)\<rparr> (w\<lparr>w_clock := (\<lambda>n. w_clock w (Suc n))\<rparr>))"
  by (simp add: toSessionView_def wp_ok Let_def)

definition later :: "nat \<Rightarrow> world \<Rightarrow> world" where
  "later k w = w\<lparr>w_clock := (\<lambda>n. w_clock w (n + k))\<rparr>"

lemma later_simps:
  "w_faults (later k w) = w_faults w" "w_redis (later k w) = w_redis w" "w_bank (later k w) = w_bank w"
  "w_clock (later k w) n = w_clock w (n + k)" "w_sessions (later k w) = w_sessions w"
  "w_responses (later k w) = w_responses w"
  "(later k w)\<lparr>w_clock := (\<lambda>n. w_clock w (Suc (n + k)))\<rparr> = later (Suc k) w"
  "w\<lparr>w_clock := (\<lambda>n. w_clock w (Suc n))\<rparr> = later 1 w"
  by (simp_all add: later_def)

lemma wp_now: "wp date_now Q E (later k w) = Q (w_clock w k) (later (Suc k) w)"
  by (simp add: wp_date_now later_simps)

lemma advance_on_screen:
  assumes "ss_status st = Live_in_progress" and "w_clock w k < ss_expiresAt st"
    and "at_index (ss_modules st) (ss_currentModuleIndex st) = Some m" and "ms_status m = In_progress"
    and "on_screen st m (w_clock w k) = Some s"
  shows "wp (advance st) Q E (later k w) = wp (toQuestionStep st m s None) Q E (later (Suc k) w)"
proof -
  obtain n where n: "length (ss_modules st) * 2 + 3 = Suc n" by simp
  show ?thesis
    unfolding advance_def n advance_loop.simps advance_round_def wp_if wp_bind wp_now
    using assms by (simp add: wp_bind wp_ret_fun)
qed

lemma shows_question:
  assumes "w_faults w = (\<lambda>_. False)"
    and "preloaded = Some q \<or> preloaded = None \<and>
      List.find (\<lambda>q. q_id q = sv_questionId s) (bk_questions (w_bank w)) = Some q"
    and "\<And>view left k. Q (QuestionStep view (toModuleView m) (toQuestionView q m) (ss_answeredTotal st + 1)
        (ms_answered m) (ms_questionCount m) left) (later k w)"
  shows "wp (toQuestionStep st m s preloaded) Q E (later k w)"
proof -
  have ok: "w_faults (later k w) = (\<lambda>_. False)" for k using assms(1) by (simp add: later_simps)
  have "wp (toQuestionStep st m s (Some q)) Q E (later k w)"
  proof (cases "let ttl = redis_pttl (ClockKey (ss_sessionId st) (ms_moduleId m)) (w_clock w k) (w_redis w)
      in if ttl \<ge> 0 then Some ttl else None")
    case None
    then show ?thesis
      using assms(3) by (auto simp: toQuestionStep_def wp_bind wp_ret moduleRemainingMs_def wp_now wp_reading
          wp_io_ok[OF ok] toSessionView_def Let_def later_simps split: option.split)
  next
    case (Some r)
    then show ?thesis
      using assms(3) by (simp add: toQuestionStep_def wp_bind wp_ret moduleRemainingMs_def wp_now wp_reading
          wp_io_ok[OF ok] toSessionView_def later_simps)
  qed
  moreover have "wp (toQuestionStep st m s None) Q E (later k w) = wp (toQuestionStep st m s (Some q)) Q E (later k w)"
    if "List.find (\<lambda>q. q_id q = sv_questionId s) (bk_questions (w_bank w)) = Some q"
    unfolding toQuestionStep_def using that
    by (simp add: wp_bind wp_ret loadServedQuestion_def find_row_def wp_io_ok[OF ok] wp_reading later_simps)
  ultimately show ?thesis using assms(2) by auto
qed

text \<open>While its clocks run, asking again for the current step shows the same question,
  whatever else is in the bank, with the counters of the stored state, and changes nothing:
  a reload neither draws a new question nor costs an answer.\<close>

theorem question_stays_on_screen:
  assumes "w_faults w = (\<lambda>_. False)" and "redis_get_state i (w_redis w) = Some st"
    and "ss_candidateId st = c" and "ss_status st = Live_in_progress"
    and "at_index (ss_modules st) (ss_currentModuleIndex st) = Some m" and "ms_status m = In_progress"
    and "ss_served st = Some s" and "sv_moduleId s = ms_moduleId m"
    and "List.find (\<lambda>q. q_id q = sv_questionId s) (bk_questions (w_bank w)) = Some q"
    and "\<And>n. w_clock w n < ss_expiresAt st \<and> \<not> deadline_passed m (w_clock w n)"
  shows "\<exists>view left k. currentStep c i w =
    (Inr (QuestionStep view (toModuleView m) (toQuestionView q m) (ss_answeredTotal st + 1)
        (ms_answered m) (ms_questionCount m) left), later k w)"
proof -
  have here: "on_screen st m (w_clock w k) = Some s" for k
    using assms(7,8,10) by (simp add: on_screen_def served_here_def)
  have ok: "w_faults (later k w) = (\<lambda>_. False)" for k using assms(1) by (simp add: later_simps)
  have "wp (advance st) (\<lambda>x w'. \<exists>view left k. x = QuestionStep view (toModuleView m)
      (toQuestionView q m) (ss_answeredTotal st + 1) (ms_answered m) (ms_questionCount m) left \<and>
      w' = later k w) (\<lambda>_ _. False) (later 0 w)"
    unfolding advance_on_screen[OF assms(4) assms(10)[THEN conjunct1] assms(5,6) here]
    by (rule shows_question[OF assms(1)]) (use assms(9) in blast)+
  then have "wp (currentStep c i) (\<lambda>x w'. \<exists>view left k. x = QuestionStep view (toModuleView m)
      (toQuestionView q m) (ss_answeredTotal st + 1) (ms_answered m) (ms_questionCount m) left \<and>
      w' = later k w) (\<lambda>_ _. False) (later 0 w)"
    unfolding currentStep_def load_session_def store_defs wp_bind wp_io_ok[OF ok] wp_reading
    using assms(2,3) by (simp add: wp_ret later_simps)
  then have "\<exists>x w'. currentStep c i w = (Inr x, w') \<and> (\<exists>view left k. x = QuestionStep view (toModuleView m)
      (toQuestionView q m) (ss_answeredTotal st + 1) (ms_answered m) (ms_questionCount m) left \<and>
      w' = later k w)"
    by (intro run_of_wp) (simp add: later_def)
  then show ?thesis by blast
qed

theorem question_stays_on_screen_witness:
  "\<exists>view left k. currentStep ''c'' ''s'' (running_world\<lparr>w_clock := (\<lambda>_. 1000)\<rparr>) =
    (Inr (QuestionStep view (toModuleView running_module) (toQuestionView (sample_mcq ''q1'' 1000) running_module)
      1 0 2 left), later k (running_world\<lparr>w_clock := (\<lambda>_. 1000)\<rparr>))"
proof -
  have "w_faults (running_world\<lparr>w_clock := (\<lambda>_. 1000)\<rparr>) = (\<lambda>_. False)"
    "redis_get_state ''s'' (w_redis (running_world\<lparr>w_clock := (\<lambda>_. 1000)\<rparr>)) = Some live_sample"
    "ss_candidateId live_sample = ''c''" "ss_status live_sample = Live_in_progress"
    "at_index (ss_modules live_sample) (ss_currentModuleIndex live_sample) = Some running_module"
    "ms_status running_module = In_progress"
    "ss_served live_sample = Some \<lparr>sv_questionId = ''q1'', sv_moduleId = ''m'', sv_servedAt = 500\<rparr>"
    "sv_moduleId \<lparr>sv_questionId = ''q1'', sv_moduleId = ''m'', sv_servedAt = 500\<rparr> = ms_moduleId running_module"
    "List.find (\<lambda>q. q_id q = sv_questionId \<lparr>sv_questionId = ''q1'', sv_moduleId = ''m'', sv_servedAt = 500\<rparr>)
      (bk_questions (w_bank (running_world\<lparr>w_clock := (\<lambda>_. 1000)\<rparr>))) = Some (sample_mcq ''q1'' 1000)"
    "\<And>n. w_clock (running_world\<lparr>w_clock := (\<lambda>_. 1000)\<rparr>) n < ss_expiresAt live_sample \<and>
      \<not> deadline_passed running_module (w_clock (running_world\<lparr>w_clock := (\<lambda>_. 1000)\<rparr>) n)"
    by (simp_all add: world_samples redis_get_state_def at_index_def deadline_passed_def)
  from question_stays_on_screen[OF this] show ?thesis by (simp add: world_samples)
qed

subsection \<open>Deadlines\<close>

lemma load_live:
  assumes "w_faults w = (\<lambda>_. False)" and "redis_get_state i (w_redis w) = Some st" and "ss_candidateId st = c"
  shows "wp (load_session c i) Q E w = Q st w"
  unfolding load_session_def store_get_def wp_bind wp_io_ok[OF assms(1)] wp_reading
  using assms(2,3) by (simp add: wp_ret)

text \<open>An answer that arrives when the session's time is up is not scored: the session is
  auto-submitted in the same request, the candidate gets the final page, and no answer and
  no question statistic is written.\<close>

theorem answer_after_the_session_closes_it:
  assumes "w_faults w = (\<lambda>_. False)" and "redis_get_state i (w_redis w) = Some st" and "ss_sessionId st = i"
    and "ss_candidateId st = c" and "ss_status st = Live_in_progress"
    and "toSubmittedAnswer dto = Inr answer" and "ss_expiresAt st \<le> w_clock w 0"
  shows "\<exists>view w'. submitAnswer c i dto w = (Inr (CompletedStep view), w') \<and>
    w_responses w' = w_responses w \<and> w_bank w' = w_bank w \<and>
    (\<forall>r\<in>set (w_sessions w'). sr_id r = i \<longrightarrow>
       sr_status r = SESS_AUTO_SUBMITTED \<and> sr_submittedAt r = Some (w_clock w 1))"
proof -
  have F: "w_faults (later 1 w) = (\<lambda>_. False)" and now: "w_clock (later 1 w) 0 = w_clock w 1"
    using assms(1) by (simp_all add: later_simps)
  have closes: "wp (finalize st SESS_AUTO_SUBMITTED) (\<lambda>st'. wp (advance st') (\<lambda>x w'. (\<exists>view. x = CompletedStep view) \<and>
      w_responses w' = w_responses w \<and> w_bank w' = w_bank w \<and>
      (\<forall>r\<in>set (w_sessions w'). sr_id r = i \<longrightarrow>
         sr_status r = SESS_AUTO_SUBMITTED \<and> sr_submittedAt r = Some (w_clock w 1))) (\<lambda>_ _. False))
      (\<lambda>_ _. False) (later 1 w)"
  proof (rule wp_mono[OF finalize_closes[OF F assms(5), of SESS_AUTO_SUBMITTED]], elim conjE)
    fix st' and w' :: world assume "st' = closed_state (w_clock (later 1 w) 0) st" "w_faults w' = (\<lambda>_. False)"
      and same: "w_responses w' = w_responses (later 1 w)" "w_bank w' = w_bank (later 1 w)"
      and rows: "w_sessions w' = update_rows (\<lambda>r. sr_id r = ss_sessionId st)
        (\<lambda>r. r\<lparr>sr_status := SESS_AUTO_SUBMITTED, sr_submittedAt := Some (w_clock (later 1 w) 0)\<rparr>)
        (w_sessions (later 1 w))"
    then have fin: "ss_status st' = Live_finished" by (simp add: closed_state_def)
    have "sr_status r = SESS_AUTO_SUBMITTED \<and> sr_submittedAt r = Some (w_clock w 1)"
      if r: "r \<in> set (w_sessions w')" "sr_id r = i" for r
    proof -
      obtain r0 where "r = (if sr_id r0 = i then r0\<lparr>sr_status := SESS_AUTO_SUBMITTED,
          sr_submittedAt := Some (w_clock w 1)\<rparr> else r0)"
        using r(1) unfolding rows update_rows_def set_map assms(3) now by (elim imageE) blast
      with r(2) show ?thesis by (cases "sr_id r0 = i") simp_all
    qed
    then show "wp (advance st') (\<lambda>x w'. (\<exists>view. x = CompletedStep view) \<and>
      w_responses w' = w_responses w \<and> w_bank w' = w_bank w \<and>
      (\<forall>r\<in>set (w_sessions w'). sr_id r = i \<longrightarrow>
         sr_status r = SESS_AUTO_SUBMITTED \<and> sr_submittedAt r = Some (w_clock w 1))) (\<lambda>_ _. False) w'"
      using same fin
      by (simp add: advance_def completed_step_def toSessionView_def wp_bind wp_date_now wp_ret later_def)
  qed simp
  have "wp (submitAnswer c i dto) (\<lambda>x w'. (\<exists>view. x = CompletedStep view) \<and>
      w_responses w' = w_responses w \<and> w_bank w' = w_bank w \<and>
      (\<forall>r\<in>set (w_sessions w'). sr_id r = i \<longrightarrow>
         sr_status r = SESS_AUTO_SUBMITTED \<and> sr_submittedAt r = Some (w_clock w 1))) (\<lambda>_ _. False) w"
    unfolding submitAnswer_def wp_bind wp_of_result assms(6) sum.case load_live[OF assms(1,2,4)]
      wp_date_now later_simps wp_if
    using assms(5,7) closes by (simp add: wp_bind)
  from run_of_wp[OF this] show ?thesis by blast
qed

theorem answer_after_the_session_closes_it_witness:
  "\<exists>view w'. submitAnswer ''c'' ''s'' sample_dto (running_world\<lparr>w_clock := (\<lambda>n. 720000 + int n)\<rparr>)
     = (Inr (CompletedStep view), w') \<and> w_responses w' = []"
proof -
  let ?w = "running_world\<lparr>w_clock := (\<lambda>n. 720000 + int n)\<rparr>"
  have "w_faults ?w = (\<lambda>_. False)" "redis_get_state ''s'' (w_redis ?w) = Some live_sample"
    "ss_sessionId live_sample = ''s''" "ss_candidateId live_sample = ''c''"
    "ss_status live_sample = Live_in_progress"
    "toSubmittedAnswer sample_dto = Inr (AnsOption ''A'')" "ss_expiresAt live_sample \<le> w_clock ?w 0"
    by (simp_all add: world_samples redis_get_state_def toSubmittedAnswer_def sample_dto_def)
  moreover have "w_responses ?w = []" by (simp add: world_samples)
  ultimately show ?thesis using answer_after_the_session_closes_it[of ?w "''s''" live_sample "''c''" sample_dto] by metis
qed

text \<open>What a request leaves behind that records no choice.\<close>

definition only_blanks_since :: "response_row list \<Rightarrow> world \<Rightarrow> bool" where
  "only_blanks_since R w \<longleftrightarrow>
     (\<forall>r\<in>set (w_responses w). r \<in> set R \<or> rs_selectedOption r = None \<and> rs_selectedOptions r = None)"

interpretation blanks: session_frame "only_blanks_since R" "\<lambda>_. True"
  "\<lambda>row. rs_selectedOption row = None \<and> rs_selectedOptions row = None" for R
  by unfold_locales (auto simp: only_blanks_since_def)

text \<open>C10: An answer that arrives more than two seconds after its module's deadline is not
  recorded: whatever else the request goes on to do, no new row carries a choice, so the
  question counts as unanswered at most.\<close>

theorem late_answer_is_not_recorded:
  assumes "w_faults w = (\<lambda>_. False)" and "redis_get_state i (w_redis w) = Some st"
    and "ss_candidateId st = c"
    and "at_index (ss_modules st) (ss_currentModuleIndex st) = Some m"
    and "ms_deadlineAt m = Some d" and "d + 2000 < w_clock w 0"
    and "r \<in> set (w_responses (snd (submitAnswer c i dto w)))" and "r \<notin> set (w_responses w)"
  shows "rs_selectedOption r = None \<and> rs_selectedOptions r = None"
proof -
  let ?I = "only_blanks_since (w_responses w)"
  have start: "?I w" by (simp add: only_blanks_since_def)
  have late: "late m (w_clock w 0)" using assms(5,6) by (simp add: late_def ANSWER_GRACE_MS_def)
  have tick: "?I (w\<lparr>w_clock := (\<lambda>n. w_clock w (Suc n))\<rparr>)" by (rule blanks.tick[OF start])
  have go_on: "wp (advance st') (\<lambda>_. ?I) (\<lambda>_. ?I) w'" if "?I w'" for st' w'
    by (rule keepsD[OF blanks.advance_frame that]) simp
  have "wp (submitAnswer c i dto) (\<lambda>_. ?I) (\<lambda>_. ?I) w"
    unfolding submitAnswer_def wp_bind wp_of_result load_live[OF assms(1-3)] wp_date_now
    using start tick late assms(4)
    by (auto simp: wp_if wp_throw wp_bind intro!: go_on
        wp_mono[OF blanks.same_sessionD[OF blanks.finalize_frame]] split: sum.split option.split)
  then show ?thesis
    using assms(7,8) unfolding wp_snd only_blanks_since_def by blast
qed

theorem late_answer_is_not_recorded_witness:
  "rs_selectedOption ` set (w_responses (snd (submitAnswer ''c'' ''s'' sample_dto (running_world\<lparr>w_clock := (\<lambda>_. 602001)\<rparr>))))
     \<subseteq> {None}"
proof (rule image_subsetI)
  let ?w = "running_world\<lparr>w_clock := (\<lambda>_. 602001)\<rparr>"
  fix r assume r: "r \<in> set (w_responses (snd (submitAnswer ''c'' ''s'' sample_dto ?w)))"
  have "w_faults ?w = (\<lambda>_. False)" "redis_get_state ''s'' (w_redis ?w) = Some live_sample"
    "ss_candidateId live_sample = ''c''"
    "at_index (ss_modules live_sample) (ss_currentModuleIndex live_sample) = Some running_module"
    "ms_deadlineAt running_module = Some 600000" "600000 + 2000 < w_clock ?w 0"
    by (simp_all add: world_samples redis_get_state_def at_index_def)
  moreover have "r \<notin> set (w_responses ?w)" by (simp add: world_samples)
  ultimately show "rs_selectedOption r \<in> {None}"
    using late_answer_is_not_recorded[OF _ _ _ _ _ _ r] by blast
qed

subsection \<open>Starting\<close>

text \<open>C11: Starting succeeds, or touches a session, only for the invitation's own candidate, while
  the invitation is neither revoked nor expired and its effective window is open at the
  time of the request; any other request leaves sessions, invitations, answers and Redis
  as they were, whether or not a call fails.\<close>

theorem start_admits_only_invited:
  assumes "start c i w = (r, w')"
    and "(\<exists>s. r = Inr s) \<or> w_sessions w' \<noteq> w_sessions w \<or> w_invitations w' \<noteq> w_invitations w \<or>
      w_responses w' \<noteq> w_responses w \<or> w_redis w' \<noteq> w_redis w"
  shows "\<exists>iv\<in>set (w_invitations w). iv_id iv = i \<and> iv_candidateId iv = Some c \<and>
    iv_status iv \<notin> {INV_REVOKED, INV_EXPIRED} \<and>
    (\<exists>a\<in>set (w_assessments w). as_id a = iv_assessmentId iv \<and>
      windowState (effectiveWindow \<lparr>wn_opensAt = as_opensAt a, wn_closesAt = as_closesAt a\<rparr>
        (iv_opensAt iv) (iv_expiresAt iv)) (w_clock w 0) = WindowOpen)"
proof (rule ccontr)
  assume refused: "\<not> ?thesis"
  let ?same = "\<lambda>v. w_sessions v = w_sessions w \<and> w_invitations v = w_invitations w \<and>
    w_responses v = w_responses w \<and> w_redis v = w_redis w"
  have found: "List.find P xs = Some x \<Longrightarrow> x \<in> set xs \<and> P x" for P xs and x :: 'z
    by (auto simp: find_Some_iff)
  have closed: "windowState v now = WindowNotYet \<or> windowState v now = WindowClosed"
    if "windowState v now \<noteq> WindowOpen" for v now
    using that by (cases "windowState v now") auto
  have "wp (start c i) (\<lambda>_ _. False) (\<lambda>_. ?same) w"
    unfolding start_def find_row_def wp_bind wp_io wp_reading Let_def
    using refused by (auto simp: wp_if wp_throw wp_bind wp_reading wp_date_now
        dest!: found closed split: option.split if_splits)
  then show False
    using assms by (auto simp: wp_def split: sum.splits)
qed

theorem start_admits_only_invited_witness:
  "windowState (effectiveWindow \<lparr>wn_opensAt = None, wn_closesAt = Some 5000000\<rparr> None None) 1000 = WindowOpen"
proof -
  have "\<exists>s. fst (start ''c'' ''i'' empty_world) = Inr s"
    by (simp add: start_def bind_p_def find_row_def io_def reading_def Let_def world_samples date_now_def
        windowState_def effectiveWindow_def create_or_join_def try_catch_def createSession_def
        findOneForSession_def ret_def insert_session_def new_live_state_def then_p_def update_invitation_def
        updating_def store_save_def scheduleAutoSubmit_def queue_add_def advance_def advance_round_def
        fresh_modules_def module_config_def at_index_def toSessionView_def session_budget_def
        session_constants numeral_3_eq_3 redis_set_def)
  then obtain s w' where "start ''c'' ''i'' empty_world = (Inr s, w')" by (cases "start ''c'' ''i'' empty_world") auto
  from start_admits_only_invited[OF this] show ?thesis by (simp add: world_samples)
qed

text \<open>Two calls that start the same invitation at once end in one session: the one that
  loses the race for the unique row joins the winner's session, exactly as a resume would,
  and reports no error of its own.\<close>

theorem losing_the_race_joins_the_winner:
  assumes "w_faults w = (\<lambda>_. False)"
    and "List.find (\<lambda>r. sr_invitationId r = iv_id iv) (w_sessions w) = Some winner"
    and "List.find (\<lambda>a. as_id a = iv_assessmentId iv) (w_assessments w) = Some a" and "as_modules a \<noteq> []"
  shows "create_or_join iv c w =
    resume winner (w\<lparr>w_clock := (\<lambda>n. w_clock w (Suc n)), w_uuids := (\<lambda>n. w_uuids w (Suc n))\<rparr>)"
proof -
  let ?w = "w\<lparr>w_clock := (\<lambda>n. w_clock w (Suc n)), w_uuids := (\<lambda>n. w_uuids w (Suc n))\<rparr>"
  have io_ok: "io m v = m v" if "w_faults v = (\<lambda>_. False)" for m :: "'z handler" and v
  proof -
    have same: "v\<lparr>w_faults := (\<lambda>_. False)\<rparr> = v" using that by (cases v) simp
    show ?thesis by (simp only: io_def Let_def that same if_False)
  qed
  have taken: "list_ex (\<lambda>r. sr_id r = j \<or> sr_invitationId r = iv_id iv) (w_sessions w)" for j
    using assms(2) by (auto simp: find_Some_iff list_ex_iff)
  have "createSession iv c w = (Inl UniqueViolation, ?w)"
    using assms by (simp add: createSession_def findOneForSession_def find_row_def bind_p_def io_ok reading_def
        ret_def date_now_def insert_session_def Let_def taken)
  then show ?thesis
    using assms(1,2) by (simp add: create_or_join_def try_catch_def bind_p_def find_row_def io_ok reading_def)
qed

theorem losing_the_race_joins_the_winner_witness:
  "create_or_join sample_invitation ''c'' running_world =
    resume sample_session (running_world\<lparr>w_clock := (\<lambda>n. w_clock running_world (Suc n)),
      w_uuids := (\<lambda>n. w_uuids running_world (Suc n))\<rparr>)"
  by (rule losing_the_race_joins_the_winner[where a = sample_assessment]) (simp_all add: world_samples)

subsection \<open>The session clock\<close>

definition clock_set_to :: "string \<Rightarrow> int \<Rightarrow> int \<Rightarrow> world \<Rightarrow> bool" where
  "clock_set_to i a b w \<longleftrightarrow>
     (\<forall>r\<in>set (w_sessions w). sr_id r = i \<longrightarrow> sr_startedAt r = a \<and> sr_expiresAt r = b)"

lemma update_rows_cases:
  assumes "r \<in> set (update_rows P f rows)"
  obtains r0 where "r0 \<in> set rows" "P r0" "r = f r0" | "r \<in> set rows" "\<not> P r"
  using assms unfolding update_rows_def set_map by (elim imageE) (metis (full_types))

lemma clock_set_update:
  assumes "clock_set_to i a b w"
    and "\<And>r. sr_id (f r) = sr_id r \<and> sr_startedAt (f r) = sr_startedAt r \<and> sr_expiresAt (f r) = sr_expiresAt r"
  shows "clock_set_to i a b (w\<lparr>w_sessions := update_rows P f (w_sessions w)\<rparr>)"
  unfolding clock_set_to_def
proof (intro ballI impI)
  fix r assume "r \<in> set (w_sessions (w\<lparr>w_sessions := update_rows P f (w_sessions w)\<rparr>))" "sr_id r = i"
  then obtain r0 where "r0 \<in> set (w_sessions w)" "r = (if P r0 then f r0 else r0)"
    unfolding update_rows_def by (auto simp del: if_split)
  with \<open>sr_id r = i\<close> assms show "sr_startedAt r = a \<and> sr_expiresAt r = b"
    by (auto simp: clock_set_to_def split: if_splits)
qed

interpretation clock: session_frame "clock_set_to i a b" "\<lambda>_. True"
  "\<lambda>row. rs_selectedOption row = None \<and> rs_selectedOptions row = None" for i a b
  by unfold_locales ((rule clock_set_update; simp) | simp add: clock_set_to_def)+

definition begun_budget :: "module_state list \<Rightarrow> int" where
  "begun_budget ms = (\<Sum>m\<leftarrow>ms. (int (ms_timeLimitSeconds m) + 120) * 1000)"

lemma budget_sum:
  "foldl (\<lambda>total m. total + (int (ms_timeLimitSeconds m) + INTERMISSION_SECONDS_PER_MODULE) * 1000) n ms
   = n + begun_budget ms"
  by (induction ms arbitrary: n) (simp_all add: INTERMISSION_SECONDS_PER_MODULE_def begun_budget_def)

lemma put_module_same_limit:
  assumes "at_index (ss_modules st) (ss_currentModuleIndex st) = Some m"
    and "ms_timeLimitSeconds m' = ms_timeLimitSeconds m"
  shows "begun_budget (ss_modules (put_module m' st)) = begun_budget (ss_modules st)"
proof -
  have "map ms_timeLimitSeconds (ss_modules (put_module m' st)) = map ms_timeLimitSeconds (ss_modules st)"
    using assms by (auto simp: put_module_def at_index_def map_update list_update_id split: if_splits)
      (metis list_update_id length_map nth_map)
  then have "map (\<lambda>n. (int n + 120) * 1000) (map ms_timeLimitSeconds (ss_modules (put_module m' st))) =
      map (\<lambda>n. (int n + 120) * 1000) (map ms_timeLimitSeconds (ss_modules st))" by simp
  then show ?thesis by (simp add: comp_def begun_budget_def)
qed

lemma start_module_limit [simp]: "ms_timeLimitSeconds (start_module now m) = ms_timeLimitSeconds m"
  by (simp add: start_module_def)

lemma beginSessionClock_sets:
  assumes "w_faults w = (\<lambda>_. False)"
  shows "wp (beginSessionClock st now) (\<lambda>st' w'. w_faults w' = (\<lambda>_. False) \<and>
     (let b = now + begun_budget (ss_modules st)
      in st' = st\<lparr>ss_startedAt := now, ss_expiresAt := b\<rparr> \<and> clock_set_to (ss_sessionId st) now b w' \<and>
         w_sessions w' = update_rows (\<lambda>r. sr_id r = ss_sessionId st)
           (\<lambda>r. r\<lparr>sr_startedAt := now, sr_expiresAt := b\<rparr>) (w_sessions w) \<and>
         autoSubmitJobId (ss_sessionId st) \<in> fst ` set (w_autoSubmit w'))) E w"
proof -
  have "sr_startedAt r = a \<and> sr_expiresAt r = b"
    if "r \<in> set (update_rows (\<lambda>r. sr_id r = j) (\<lambda>r. r\<lparr>sr_startedAt := a, sr_expiresAt := b\<rparr>) rows)" "sr_id r = j"
    for r j a b and rows :: "session_row list"
    using that by (elim update_rows_cases) simp_all
  then show ?thesis
    unfolding beginSessionClock_def Let_def budget_sum
    using assms by (simp add: wp_ok update_session_def removeAutoSubmit_def scheduleAutoSubmit_def
        queue_add_def queue_remove_def clock_set_to_def)
qed

text \<open>Beginning the first module starts the session's clock: whatever the request goes on
  to do, the session row then starts at the moment of the request and expires after the
  time limits of all its modules plus two minutes for each, so time spent before it is
  given back.\<close>

theorem first_module_starts_the_clock:
  assumes "w_faults w = (\<lambda>_. False)" and "redis_get_state i (w_redis w) = Some st" and "ss_sessionId st = i"
    and "ss_candidateId st = c" and "\<And>m. m \<in> set (ss_modules st) \<Longrightarrow> ms_status m = Pending"
    and "ss_currentModuleIndex st < length (ss_modules st)"
    and "r \<in> set (w_sessions (snd (startCurrentModule c i w)))" and "sr_id r = i"
  shows "sr_startedAt r = w_clock w 0 \<and>
    sr_expiresAt r = w_clock w 0 + (\<Sum>m\<leftarrow>ss_modules st. (int (ms_timeLimitSeconds m) + 120) * 1000)"
proof -
  let ?b = "w_clock w 0 + begun_budget (ss_modules st)"
  let ?I = "clock_set_to i (w_clock w 0) ?b"
  obtain m where m: "at_index (ss_modules st) (ss_currentModuleIndex st) = Some m" "ms_status m = Pending"
    using assms(5,6) by (simp add: at_index_def)
  have first: "list_all (\<lambda>m. ms_status m = Pending) (ss_modules st)" using assms(5) by (simp add: list_all_iff)
  let ?st = "put_module (start_module (w_clock w 0) m) st"
  have go_on: "wp (then_p (store_save st') (ret st')) (\<lambda>st'. wp (advance st') (\<lambda>_. ?I) (\<lambda>_. ?I)) (\<lambda>_. ?I) w'"
    if "?I w'" for st' w'
    unfolding wp_then wp_ret
    by (rule clock.keeps_step[OF clock.keeps_save that]) (simp_all add: keepsD[OF clock.advance_frame])
  have begin_clock: "wp (beginSessionClock ?st (w_clock w 0))
      (\<lambda>st2. wp (then_p (store_save st2) (ret st2)) (\<lambda>st'. wp (advance st') (\<lambda>_. ?I) (\<lambda>_. ?I)) (\<lambda>_. ?I)) (\<lambda>_. ?I) v"
    if "w_faults v = (\<lambda>_. False)" for v
    by (rule wp_mono[OF beginSessionClock_sets[OF that]])
      (auto simp: Let_def put_module_same_limit[OF m(1)] assms(3) intro: go_on)
  have "wp (startCurrentModule c i) (\<lambda>_. ?I) (\<lambda>_. ?I) w"
    unfolding startCurrentModule_def wp_bind load_live[OF assms(1,2,4)]
    using m first assms(1) begin_clock
    by (simp add: wp_ok Let_def startModuleClock_def)
  with assms(7,8) show ?thesis
    unfolding begun_budget_def[symmetric] by (simp add: wp_snd clock_set_to_def)
qed

definition intro_session :: session_state where
  "intro_session = live_sample\<lparr>ss_modules := [sample_state], ss_served := None\<rparr>"

definition intro_world :: world where
  "intro_world = running_world\<lparr>w_redis := [StateKey ''s'' \<mapsto> (Blob intro_session, 99000000)]\<rparr>"

lemma intro_facts:
  "redis_get_state ''s'' (w_redis intro_world) = Some intro_session" "w_faults intro_world = (\<lambda>_. False)"
  "w_clock intro_world n = 1000 + int n" "w_sessions intro_world = [sample_session]"
  "ss_sessionId intro_session = ''s''" "ss_candidateId intro_session = ''c''"
  "ss_currentModuleIndex intro_session < length (ss_modules intro_session)"
  "m \<in> set (ss_modules intro_session) \<Longrightarrow> ms_status m = Pending"
  "begun_budget (ss_modules intro_session) = 720000"
  by (auto simp: begun_budget_def intro_world_def intro_session_def world_samples redis_get_state_def)

theorem first_module_starts_the_clock_witness:
  "sr_expiresAt ` {r \<in> set (w_sessions (snd (startCurrentModule ''c'' ''s'' intro_world))). sr_id r = ''s''}
     \<subseteq> {721000}"
  using first_module_starts_the_clock[OF intro_facts(2,1,5,6,8,7), folded begun_budget_def]
  by (auto simp: intro_facts)

text \<open>Pressing Begin on a session that was auto-submitted before its first module began
  moves the clock of the closed session: the candidate only gets the final page, but the
  row starts now, after it was submitted, with a new deadline, and a job is queued to
  submit it again.\<close>

theorem begin_moves_the_clock_of_a_closed_session:
  assumes "w_faults w = (\<lambda>_. False)" and "redis_get_state i (w_redis w) = Some st" and "ss_sessionId st = i"
    and "ss_candidateId st = c" and "ss_status st = Live_finished"
    and "\<And>m. m \<in> set (ss_modules st) \<Longrightarrow> ms_status m = Pending"
    and "ss_currentModuleIndex st < length (ss_modules st)"
  shows "\<exists>view w'. startCurrentModule c i w = (Inr (CompletedStep view), w') \<and>
    w_sessions w' = update_rows (\<lambda>r. sr_id r = i)
      (\<lambda>r. r\<lparr>sr_startedAt := w_clock w 0, sr_expiresAt := w_clock w 0 +
        (\<Sum>m\<leftarrow>ss_modules st. (int (ms_timeLimitSeconds m) + 120) * 1000)\<rparr>) (w_sessions w) \<and>
    autoSubmitJobId i \<in> fst ` set (w_autoSubmit w')"
proof -
  let ?b = "w_clock w 0 + begun_budget (ss_modules st)"
  let ?Q = "\<lambda>x w'. (\<exists>view. x = CompletedStep view) \<and> w_sessions w' = update_rows (\<lambda>r. sr_id r = i)
      (\<lambda>r. r\<lparr>sr_startedAt := w_clock w 0, sr_expiresAt := ?b\<rparr>) (w_sessions w) \<and>
    autoSubmitJobId i \<in> fst ` set (w_autoSubmit w')"
  obtain m where m: "at_index (ss_modules st) (ss_currentModuleIndex st) = Some m" "ms_status m = Pending"
    using assms(6,7) by (simp add: at_index_def)
  have first: "list_all (\<lambda>m. ms_status m = Pending) (ss_modules st)" using assms(6) by (simp add: list_all_iff)
  let ?st = "put_module (start_module (w_clock w 0) m) st"
  have final: "wp (then_p (store_save st') (ret st')) (\<lambda>st'. wp (advance st') ?Q (\<lambda>_ _. False)) (\<lambda>_ _. False) v"
    if "w_faults v = (\<lambda>_. False)" "ss_status st' = Live_finished"
      "w_sessions v = update_rows (\<lambda>r. sr_id r = i)
        (\<lambda>r. r\<lparr>sr_startedAt := w_clock w 0, sr_expiresAt := ?b\<rparr>) (w_sessions w)"
      "autoSubmitJobId i \<in> fst ` set (w_autoSubmit v)" for st' v
    unfolding advance_def completed_step_def toSessionView_def store_save_def wp_if
    using that by (simp add: wp_ok Let_def)
  have begin_clock: "wp (beginSessionClock ?st (w_clock w 0))
      (\<lambda>st2. wp (then_p (store_save st2) (ret st2)) (\<lambda>st'. wp (advance st') ?Q (\<lambda>_ _. False)) (\<lambda>_ _. False))
      (\<lambda>_ _. False) v"
    if "w_faults v = (\<lambda>_. False)" "w_sessions v = w_sessions w" for v
  proof (rule wp_mono[OF beginSessionClock_sets[OF that(1)]])
    fix st2 v' assume new: "w_faults v' = (\<lambda>_. False) \<and> (let b = w_clock w 0 + begun_budget (ss_modules ?st)
      in st2 = ?st\<lparr>ss_startedAt := w_clock w 0, ss_expiresAt := b\<rparr> \<and> clock_set_to (ss_sessionId ?st) (w_clock w 0) b v' \<and>
         w_sessions v' = update_rows (\<lambda>r. sr_id r = ss_sessionId ?st)
           (\<lambda>r. r\<lparr>sr_startedAt := w_clock w 0, sr_expiresAt := b\<rparr>) (w_sessions v) \<and>
         autoSubmitJobId (ss_sessionId ?st) \<in> fst ` set (w_autoSubmit v'))"
    have same: "begun_budget (ss_modules ?st) = begun_budget (ss_modules st)"
      by (rule put_module_same_limit[OF m(1)]) simp
    show "wp (then_p (store_save st2) (ret st2)) (\<lambda>st'. wp (advance st') ?Q (\<lambda>_ _. False)) (\<lambda>_ _. False) v'"
      by (rule final) (use new assms(3,5) that(2) in \<open>simp_all add: Let_def same\<close>)
  qed simp
  have "wp (startCurrentModule c i) ?Q (\<lambda>_ _. False) w"
    unfolding startCurrentModule_def wp_bind load_live[OF assms(1,2,4)]
    using m first assms(1) begin_clock
    by (simp add: wp_ok Let_def startModuleClock_def)
  from run_of_wp[OF this] show ?thesis unfolding begun_budget_def by blast
qed

definition closed_intro :: session_state where
  "closed_intro = intro_session\<lparr>ss_status := Live_finished\<rparr>"

definition closed_intro_world :: world where
  "closed_intro_world = intro_world\<lparr>w_redis := [StateKey ''s'' \<mapsto> (Blob closed_intro, 99000000)],
     w_sessions := [sample_session\<lparr>sr_status := SESS_AUTO_SUBMITTED, sr_submittedAt := Some 900\<rparr>]\<rparr>"

theorem begin_moves_the_clock_of_a_closed_session_witness:
  "\<exists>view w'. startCurrentModule ''c'' ''s'' closed_intro_world = (Inr (CompletedStep view), w') \<and>
     w_sessions w' = [sample_session\<lparr>sr_status := SESS_AUTO_SUBMITTED, sr_submittedAt := Some 900,
       sr_startedAt := 1000, sr_expiresAt := 721000\<rparr>]"
proof -
  have "w_faults closed_intro_world = (\<lambda>_. False)"
    "redis_get_state ''s'' (w_redis closed_intro_world) = Some closed_intro"
    "ss_sessionId closed_intro = ''s''" "ss_candidateId closed_intro = ''c''" "ss_status closed_intro = Live_finished"
    "\<And>m. m \<in> set (ss_modules closed_intro) \<Longrightarrow> ms_status m = Pending"
    "ss_currentModuleIndex closed_intro < length (ss_modules closed_intro)"
    and facts: "begun_budget (ss_modules closed_intro) = 720000"
    "w_clock closed_intro_world 0 = 1000"
    "w_sessions closed_intro_world = [sample_session\<lparr>sr_status := SESS_AUTO_SUBMITTED, sr_submittedAt := Some 900\<rparr>]"
    "sr_id sample_session = ''s''"
    by (simp_all add: begun_budget_def closed_intro_world_def closed_intro_def intro_facts intro_world_def redis_get_state_def
        world_samples intro_session_def)
  from begin_moves_the_clock_of_a_closed_session[OF this(1-7), folded begun_budget_def] show ?thesis
    by (auto simp: facts update_rows_def)
qed

text \<open>A session whose live state was saved as finished, but whose row was not updated, is
  never repaired by its workers: auto-submit, and so each sweep, reports success and
  changes nothing while that state stays in Redis.\<close>

theorem half_closed_session_is_skipped:
  assumes "w_faults w = (\<lambda>_. False)" and "redis_get_state i (w_redis w) = Some st"
    and "ss_status st = Live_finished"
    and "List.find (\<lambda>r. sr_id r = i) (w_sessions w) = Some row" and "sr_status row = SESS_IN_PROGRESS"
  shows "autoSubmitSession i w = (Inr True, w)"
proof -
  have same: "w\<lparr>w_faults := (\<lambda>_. False)\<rparr> = w" using assms(1) by (cases w) simp
  have io_ok: "io m w = m w" for m :: "'z handler"
    by (simp only: io_def Let_def assms(1) same if_False)
  show ?thesis
    using assms(2-5) by (simp add: autoSubmitSession_def bind_p_def find_row_def store_get_def io_ok reading_def
        ret_def finalize_def)
qed

lemma failed_close:
  "\<exists>w'. finalize intro_session SESS_AUTO_SUBMITTED (intro_world\<lparr>w_faults := (\<lambda>n. n = 2)\<rparr>)
     = (Inl StorageFailure, w') \<and> w_sessions w' = [sample_session] \<and>
     redis_get_state ''s'' (w_redis w') = Some (closed_state 1000 intro_session)"
  by (simp add: finalize_def intro_world_def intro_session_def world_samples bind_p_def then_p_def date_now_def
      persistModuleResult_def upsert_result_def io_def updating_def ret_def Let_def store_save_def
      update_session_def close_module_def closed_state_def redis_store.load_save)

theorem half_closed_session_is_skipped_witness:
  "\<exists>w'. finalize intro_session SESS_AUTO_SUBMITTED (intro_world\<lparr>w_faults := (\<lambda>n. n = 2)\<rparr>)
     = (Inl StorageFailure, w') \<and>
     autoSubmitSession ''s'' (w'\<lparr>w_faults := (\<lambda>_. False)\<rparr>) = (Inr True, w'\<lparr>w_faults := (\<lambda>_. False)\<rparr>)"
proof -
  obtain w' where "finalize intro_session SESS_AUTO_SUBMITTED (intro_world\<lparr>w_faults := (\<lambda>n. n = 2)\<rparr>)
      = (Inl StorageFailure, w')" and w': "w_sessions w' = [sample_session]"
      "redis_get_state ''s'' (w_redis w') = Some (closed_state 1000 intro_session)"
    using failed_close by blast
  moreover have "autoSubmitSession ''s'' (w'\<lparr>w_faults := (\<lambda>_. False)\<rparr>) = (Inr True, w'\<lparr>w_faults := (\<lambda>_. False)\<rparr>)"
    by (rule half_closed_session_is_skipped[where st = "closed_state 1000 intro_session" and row = sample_session])
      (use w' in \<open>simp_all add: closed_state_def sample_session_def\<close>)
  ultimately show ?thesis by blast
qed

end
