(* ===== verification/Assessment_Properties.thy ===== *)
theory Assessment_Properties
  imports Assessments Session_Properties
begin

section \<open>What a stored assessment promises\<close>

text \<open>
  A question pool is checked before it is stored so that a section can run its course; a
  rejected request leaves nothing behind. The first property joins the question bank, the
  assessment service and the engine; the second shows where the check falls short.
\<close>

subsection \<open>What an accepted pool contains\<close>

lemma distinct_ids_distinct: "distinct (map f xs) \<Longrightarrow> distinct xs"
  by (simp add: distinct_map)

lemma pool_check_ok:
  assumes "pool_check questions configs ids org = Inr ()" and "config \<in> set configs"
  defines "chosen \<equiv> filter (\<lambda>q. q_id q \<in> set ids \<and> visible_to_org questions org q \<and>
     q_moduleId q = pc_moduleId config \<and> q_status q = ACTIVE \<and> \<not> q_isSample q) questions"
  shows "pc_questionCount config \<le> length chosen"
proof -
  let ?visible = "filter (\<lambda>q. q_id q \<in> set ids \<and> visible_to_org questions org q) questions"
  from assms(1) have none: "filter q_isSample ?visible = []" and all: "\<forall>c\<in>set configs. enough_for ?visible c = Inr ()"
    by (auto simp: pool_check_def Let_def each_ok_Inr split: if_splits)
  have "filter (\<lambda>q. q_moduleId q = pc_moduleId config \<and> q_status q = ACTIVE) ?visible = chosen"
    using none by (auto simp: chosen_def filter_empty_conv intro!: filter_cong)
  with all assms(2) show ?thesis
    by (fastforce simp: enough_for_def Let_def split: if_splits)
qed

lemma fresh_one:
  assumes "distinct (map f xs)" and "length seen < length xs"
  shows "\<exists>x\<in>set xs. f x \<notin> set seen"
proof (rule ccontr)
  assume "\<not> ?thesis"
  then have "f ` set xs \<subseteq> set seen" by auto
  then have "card (f ` set xs) \<le> card (set seen)" by (simp add: card_mono)
  moreover have "card (f ` set xs) = length xs" using distinct_card[OF assms(1)] by simp
  ultimately show False using assms(2) card_length[of seen] by linarith
qed

lemma setQuestionPool_result:
  assumes "setQuestionPool i ids org ws = (Inr a, ws')" and "ids \<noteq> []"
  obtains a0 where "List.find (\<lambda>a. as_id a = i \<and> as_organisationId a = org) (ws_assessments ws) = Some a0"
    "pool_check (bk_questions (ws_bank ws)) (map (\<lambda>c. \<lparr>pc_moduleId = am_moduleId c,
       pc_questionCount = am_questionCount c, pc_name = am_name c\<rparr>) (as_modules a0)) (js_set ids) org = Inr ()"
    "ws' = set_world (store_pool i (js_set ids)) ws"
    "List.find (\<lambda>a. as_id a = i \<and> as_organisationId a = org) (ws_assessments ws') = Some a"
proof -
  have "length (js_set ids) > 0" using assms(2) by (cases ids) auto
  with assms(1) that show thesis
    by (auto simp: setQuestionPool_def assessments_findOne_def load_assessment_def run_simps Let_def
        assertPoolIsUsable_def split: option.splits)
qed

lemma find_update_rows:
  "(\<And>r. P (f r) = P r) \<Longrightarrow>
   List.find P (update_rows Q f rows) = map_option (\<lambda>r. if Q r then f r else r) (List.find P rows)"
  by (induction rows) (auto simp: update_rows_def)

text \<open>The modules of an assessment survive a change of its pool.\<close>

lemma setQuestionPool_effect:
  assumes "setQuestionPool i ids org ws = (Inr a, ws')" and "ids \<noteq> []" and "c \<in> set (as_modules a)"
  shows "as_id a = i \<and> as_organisationId a = org \<and>
    bk_questions (ws_bank ws') = bk_questions (ws_bank ws) \<and>
    {p \<in> set (bk_pool (ws_bank ws')). fst p = i} = {i} \<times> set ids \<and>
    am_questionCount c \<le> length (filter (\<lambda>q. q_id q \<in> set ids \<and> visible_to_org (bk_questions (ws_bank ws)) org q \<and>
       q_moduleId q = am_moduleId c \<and> q_status q = ACTIVE \<and> \<not> q_isSample q) (bk_questions (ws_bank ws)))"
proof -
  obtain a0 where r: "List.find (\<lambda>a. as_id a = i \<and> as_organisationId a = org) (ws_assessments ws) = Some a0"
    "pool_check (bk_questions (ws_bank ws)) (map (\<lambda>c. \<lparr>pc_moduleId = am_moduleId c,
       pc_questionCount = am_questionCount c, pc_name = am_name c\<rparr>) (as_modules a0)) (js_set ids) org = Inr ()"
    "ws' = set_world (store_pool i (js_set ids)) ws"
    "List.find (\<lambda>a. as_id a = i \<and> as_organisationId a = org) (ws_assessments ws') = Some a"
    using setQuestionPool_result[OF assms(1,2)] by blast
  have "a = (if as_id a0 = i then a0\<lparr>as_questionPool := js_set ids\<rparr> else a0)"
    using r(1,4) by (simp add: r(3) set_world_def store_pool_def find_update_rows)
  then have "as_modules a = as_modules a0" by (cases "as_id a0 = i") simp_all
  with pool_check_ok[OF r(2), of "\<lparr>pc_moduleId = am_moduleId c, pc_questionCount = am_questionCount c, pc_name = am_name c\<rparr>"]
    assms(3) find_row_mem[OF r(4)]
  show ?thesis by (auto simp: r(3) set_world_def store_pool_def)
qed

lemma nextStep_pool:
  assumes "fst (selectNext bank st (r :: rng)) \<noteq> None"
  shows "fst (nextStep bank st now r) \<in> range NextQuestion \<union> {ModuleComplete TIME_EXPIRED, ModuleComplete MAX_QUESTIONS}"
proof -
  have "or_else (sd_reason (shouldStop st now)) MAX_QUESTIONS \<in> {TIME_EXPIRED, MAX_QUESTIONS}"
    using shouldStop_cases(2)[of st now] by (cases "sd_reason (shouldStop st now)") auto
  with assms show ?thesis
    by (auto simp: nextStep_def Let_def split: prod.splits option.splits)
qed

text \<open>C18: A curated pool the service accepted never runs a section dry. Unless it contains
  repeat probes, as long as fewer questions than the section asks for have been shown the
  engine finds another one from the pool: the section can only end on time or complete,
  never with the pool exhausted.\<close>

theorem accepted_pool_never_runs_dry:
  assumes "setQuestionPool i ids org ws = (Inr a, ws')" and "ids \<noteq> []" and "c \<in> set (as_modules a)"
    and "reachable_catalogue modules cg" and "cg_bank cg = ws_bank ws"
    and "List.find (\<lambda>m. me_id m = am_moduleId c) modules = Some m"
    and "ms_moduleId st = am_moduleId c" "ms_scoringType st = me_scoringType m"
      "ms_organisationId st = org" "ms_assessmentId st = i"
    and "length (ms_seenQuestionIds st) < am_questionCount c"
    and "\<forall>q\<in>set (bk_questions (ws_bank ws)). q_id q \<in> set ids \<longrightarrow> q_probeGroup q = None"
  shows "fst (nextStep (ws_bank ws') st now r)
    \<in> range NextQuestion \<union> {ModuleComplete TIME_EXPIRED, ModuleComplete MAX_QUESTIONS}"
proof (rule nextStep_pool)
  note eff = setQuestionPool_effect[OF assms(1-3)]
  let ?rows = "bk_questions (ws_bank ws)"
  let ?chosen = "filter (\<lambda>q. q_id q \<in> set ids \<and> visible_to_org ?rows org q \<and>
       q_moduleId q = am_moduleId c \<and> q_status q = ACTIVE \<and> \<not> q_isSample q) ?rows"
  have ok: "catalogue_ok modules cg" by (rule reachable_catalogue_ok[OF assms(4)])
  then have dist: "distinct (map q_id ?rows)" by (simp add: catalogue_ok_def assms(5)[symmetric])
  obtain q where q: "q \<in> set ?chosen" "q_id q \<notin> set (ms_seenQuestionIds st)"
    using fresh_one[of q_id ?chosen "ms_seenQuestionIds st"] distinct_map_filter[OF dist] eff assms(11) by auto
  with eff assms(7,9,10,12) have "eligible (ws_bank ws') st q"
    by (auto simp: eligible_def question_is_servable_def)
  moreover have "usable (ms_scoringType st) x" if "x \<in> set ?rows" "q_moduleId x = ms_moduleId st" for x
  proof -
    have "row_valid modules x" using ok that(1) by (simp add: catalogue_ok_def assms(5)[symmetric])
    from row_valid_module[OF this, of m] that(2) assms(6,7,8) show ?thesis
      by (auto simp: usable_def split: if_splits)
  qed
  then have "bank_typed (ws_bank ws') st" using eff by (simp add: bank_typed_def)
  ultimately show "fst (selectNext (ws_bank ws') st r) \<noteq> None"
    using selectNext_exhausted[of "ws_bank ws'" st r] dist eff q(1) by auto
qed

definition staffed :: "bank \<Rightarrow> nat \<Rightarrow> workspace" where
  "staffed bank n =
     \<lparr>ws_world = empty_world\<lparr>w_bank := bank, w_assessments :=
        [sample_assessment\<lparr>as_modules := [sample_module\<lparr>am_questionCount := n\<rparr>]\<rparr>]\<rparr>,
      ws_modules = [sample_entry], ws_companies = [], ws_companyOf = []\<rparr>"

lemmas staffed_defs = staffed_def empty_world_def sample_assessment_def sample_module_def

text \<open>Choosing the pool of the only assessment, evaluated.\<close>

lemma staffed_pool:
  assumes "pool_check (bk_questions bank) [\<lparr>pc_moduleId = ''m'', pc_questionCount = n, pc_name = ''Numeracy''\<rparr>]
      (js_set ids) ''org'' = Inr ()"
  shows "\<exists>a ws' c. setQuestionPool ''a'' ids ''org'' (staffed bank n) = (Inr a, ws') \<and>
     c \<in> set (as_modules a) \<and> am_moduleId c = ''m'' \<and> am_questionCount c = n"
  using assms
  by (simp add: setQuestionPool_def assessments_findOne_def load_assessment_def bind_p_def then_p_def reading_def
      ret_def updating_def assertPoolIsUsable_def Let_def set_world_def store_pool_def update_rows_def staffed_defs)

theorem accepted_pool_never_runs_dry_witness:
  "\<exists>a ws'. setQuestionPool ''a'' [''q''] ''org'' (staffed (cg_bank seeded_catalogue) 1) = (Inr a, ws') \<and>
     fst (nextStep (ws_bank ws') sample_state 0 (\<lambda>_. 0))
       \<in> range NextQuestion \<union> {ModuleComplete TIME_EXPIRED, ModuleComplete MAX_QUESTIONS}"
proof -
  let ?bank = "cg_bank seeded_catalogue"
  have "pool_check (bk_questions ?bank) [\<lparr>pc_moduleId = ''m'', pc_questionCount = 1, pc_name = ''Numeracy''\<rparr>]
      (js_set [''q'']) ''org'' = Inr ()"
    by (simp add: pool_check_def enough_for_def Let_def seeded_catalogue_rows created_row_def catalogue_samples
        visible_to_org_def)
  then obtain a ws' c where run: "setQuestionPool ''a'' [''q''] ''org'' (staffed ?bank 1) = (Inr a, ws')"
    and c: "c \<in> set (as_modules a)" "am_moduleId c = ''m''" "am_questionCount c = 1"
    using staffed_pool by blast
  have "fst (nextStep (ws_bank ws') sample_state 0 (\<lambda>_. 0))
      \<in> range NextQuestion \<union> {ModuleComplete TIME_EXPIRED, ModuleComplete MAX_QUESTIONS}"
    by (rule accepted_pool_never_runs_dry[OF run _ c(1) seeded_catalogue_reachable, where m = sample_entry])
      (simp_all add: c staffed_defs sample_entry_def sample_defs seeded_catalogue_rows created_row_def
        sample_question_dto_def truthy_def)
  with run show ?thesis by blast
qed

text \<open>The check counts the two halves of a repeat probe as two questions, but the engine
  holds the second half back for eight answers. A section whose accepted pool is one pair of
  twins therefore ends with its pool exhausted after the first of them, although it asks for
  both.\<close>

theorem twins_starve_an_accepted_pool:
  assumes "setQuestionPool i ids org ws = (Inr a, ws')" and "ids \<noteq> []" and "c \<in> set (as_modules a)"
    and "ms_moduleId st = am_moduleId c" "ms_organisationId st = org" "ms_assessmentId st = i" "ms_poolRestricted st"
    and "distinct (map q_id (bk_questions (ws_bank ws)))"
    and "\<forall>q\<in>set (bk_questions (ws_bank ws)). q_id q \<in> set ids \<longrightarrow> q_probeGroup q = Some g" and "g \<noteq> ''''"
    and "g \<in> set (ms_servedProbeGroups st)" and "ms_answered st < 8" "ms_answered st < ms_questionCount st"
      "\<not> deadline_passed st now"
  shows "fst (nextStep (ws_bank ws') st now r) \<in> {ModuleComplete POOL_EXHAUSTED, ModuleComplete CONFIDENCE_REACHED}"
proof -
  note eff = setQuestionPool_effect[OF assms(1-3)]
  have none: "\<not> eligible (ws_bank ws') st q" if q: "q \<in> set (bk_questions (ws_bank ws'))" for q
  proof
    assume e: "eligible (ws_bank ws') st q"
    then have "(i, q_id q) \<in> {p \<in> set (bk_pool (ws_bank ws')). fst p = i}"
      using assms(6,7) by (simp add: eligible_def)
    then have "q_id q \<in> set ids" using eff by auto
    with assms(9) q eff have "q_probeGroup q = Some g" by auto
    with eligible_twin_due[OF e this] assms(10,11) have "dueTwin st = Some g" by auto
    then show False using assms(12) by (auto simp: dueTwin_def pair_due_def PROBE_GAP_QUESTIONS_def find_Some_iff)
  qed
  have "fst (selectNext (ws_bank ws') st r) = None"
    using selectNext_eligible[of "ws_bank ws'" st r] assms(8) eff none
    by (cases "selectNext (ws_bank ws') st r"; cases "fst (selectNext (ws_bank ws') st r)") auto
  then show ?thesis
    using assms(13,14) shouldStop_cases(1)[of st now]
    by (auto simp: nextStep_def Let_def split: prod.splits)
qed

definition twin_bank :: bank where
  "twin_bank = \<lparr>bk_questions = map (\<lambda>i. (sample_mcq i 1000)\<lparr>q_probeGroup := Some ''pg''\<rparr>) [''q1'', ''q2''], bk_pool = []\<rparr>"

theorem twins_starve_an_accepted_pool_witness:
  "\<exists>a ws'. setQuestionPool ''a'' [''q1'', ''q2''] ''org'' (staffed twin_bank 2) = (Inr a, ws') \<and>
     fst (nextStep (ws_bank ws') (serve_question (hd (bk_questions twin_bank)) sample_state
        \<lparr>ms_poolRestricted := True, ms_answered := 1\<rparr>) 0 (\<lambda>_. 0))
       \<in> {ModuleComplete POOL_EXHAUSTED, ModuleComplete CONFIDENCE_REACHED}"
proof -
  have "pool_check (bk_questions twin_bank) [\<lparr>pc_moduleId = ''m'', pc_questionCount = 2, pc_name = ''Numeracy''\<rparr>]
      (js_set [''q1'', ''q2'']) ''org'' = Inr ()"
    by (simp add: pool_check_def enough_for_def Let_def twin_bank_def sample_mcq_def visible_to_org_def)
  then obtain a ws' c where run: "setQuestionPool ''a'' [''q1'', ''q2''] ''org'' (staffed twin_bank 2) = (Inr a, ws')"
    and c: "c \<in> set (as_modules a)" "am_moduleId c = ''m''"
    using staffed_pool by blast
  have "fst (nextStep (ws_bank ws') (serve_question (hd (bk_questions twin_bank)) sample_state
        \<lparr>ms_poolRestricted := True, ms_answered := 1\<rparr>) 0 (\<lambda>_. 0))
       \<in> {ModuleComplete POOL_EXHAUSTED, ModuleComplete CONFIDENCE_REACHED}"
    by (rule twins_starve_an_accepted_pool[OF run _ c(1), where g = "''pg''"])
      (simp_all add: c staffed_defs sample_defs twin_bank_def serve_question_def markProbeServed_def
        markServed_def truthy_def deadline_passed_def)
  with run show ?thesis by blast
qed

subsection \<open>Creating an assessment\<close>

lemma find_append_new: "(\<And>x. x \<in> set xs \<Longrightarrow> \<not> P x) \<Longrightarrow> P y \<Longrightarrow> List.find P (xs @ [y]) = Some y"
  by (induction xs) auto

lemma update_rows_absent: "(\<And>x. x \<in> set xs \<Longrightarrow> \<not> P x) \<Longrightarrow> update_rows P f xs = xs"
  by (induction xs) (auto simp: update_rows_def)

lemma update_rows_append: "update_rows P f (xs @ ys) = update_rows P f xs @ update_rows P f ys"
  by (simp add: update_rows_def)

text \<open>The row a new assessment gets, loaded back.\<close>

definition new_assessment :: "create_assessment_dto \<Rightarrow> string \<Rightarrow> workspace \<Rightarrow> assessment_row" where
  "new_assessment dto org ws =
     \<lparr>as_id = w_uuids (ws_world ws) 0, as_title = js_trim (ca_title dto), as_organisationId = org,
      as_opensAt = ca_opensAt dto, as_closesAt = ca_closesAt dto,
      as_modules = ordered_modules (ws_modules ws) (ca_modules dto),
      as_questionPool = js_set (or_else (ca_questionIds dto) [])\<rparr>"

lemma insert_then_find:
  assumes "insert_assessment dto pool org ws = (r, ws1)" and "pool = js_set (or_else (ca_questionIds dto) [])"
  shows "case r of Inl e \<Rightarrow> ws1 = ws
    | Inr i \<Rightarrow> assessments_findOne i org ws1 = (Inr (new_assessment dto org ws), ws1) \<and>
        ws_assessments ws1 = ws_assessments ws @ [new_assessment dto org ws]"
proof (cases "list_ex (\<lambda>a. as_id a = w_uuids (ws_world ws) 0) (ws_assessments ws)")
  case True
  with assms(1) show ?thesis by (auto simp: insert_assessment_def Let_def)
next
  case False
  let ?w = "ws_world ws" and ?n = "new_assessment dto org ws"
  have fresh: "\<not> as_id a = w_uuids ?w 0" if "a \<in> set (w_assessments ?w)" for a
    using False that by (auto simp: list_ex_iff)
  have rows: "w_assessments (ws_world ws1) = w_assessments ?w @ [?n]" and r: "r = Inr (w_uuids ?w 0)"
    using assms False fresh
    by (auto simp: insert_assessment_def Let_def store_pool_def update_rows_append update_rows_absent)
      (simp add: update_rows_def new_assessment_def)
  have "List.find (\<lambda>a. as_id a = w_uuids ?w 0 \<and> as_organisationId a = org) (w_assessments ?w @ [?n]) = Some ?n"
    using fresh by (intro find_append_new) (auto simp: new_assessment_def)
  with r rows show ?thesis
    by (simp add: assessments_findOne_def load_assessment_def bind_p_def reading_def ret_def)
qed

lemma ordered_modules_ids:
  "am_moduleId ` set (ordered_modules modules ms) = ad_moduleId ` set ms"
proof -
  have "am_moduleId (module_row modules m) = ad_moduleId m" for m
    by (simp add: module_row_def Let_def)
  moreover have "snd ` set (enumerate 0 ms) = set ms"
    by (metis list.set_map map_snd_enumerate)
  then have "(\<lambda>x. ad_moduleId (snd x)) ` set (enumerate 0 ms) = ad_moduleId ` set ms"
    by (metis image_image)
  ultimately show ?thesis by (simp add: ordered_modules_def image_image)
qed

lemma dto_check_ok:
  assumes "distinct (map me_id modules)" and "dto_check modules dto = Inr ()"
  shows "distinct (map ad_moduleId (ca_modules dto)) \<and>
    ad_moduleId ` set (ca_modules dto) \<subseteq> me_id ` {m \<in> set modules. me_isActive m} \<and>
    (case (ca_opensAt dto, ca_closesAt dto) of (Some t, Some u) \<Rightarrow> t < u | _ \<Rightarrow> True)"
proof -
  let ?ids = "map ad_moduleId (ca_modules dto)"
  let ?found = "filter (\<lambda>m. me_id m \<in> set ?ids) modules"
  have d: "distinct ?ids" and len: "length ?found = length ?ids" and act: "filter (\<lambda>m. \<not> me_isActive m) ?found = []"
    and win: "case (ca_opensAt dto, ca_closesAt dto) of (Some t, Some u) \<Rightarrow> t < u | _ \<Rightarrow> True"
    using assms(2) by (auto simp: dto_check_def Let_def length_js_set split: if_splits option.splits)
  have "card (set (map me_id ?found)) = length ?ids"
    using distinct_card[OF distinct_map_filter[OF assms(1)]] len by (metis length_map)
  then have "set (map me_id ?found) = set ?ids"
    using distinct_card[OF d] by (intro card_subset_eq) auto
  then have "set ?ids \<subseteq> me_id ` {m \<in> set modules. me_isActive m}"
    using act by (force simp: filter_empty_conv)
  with d win show ?thesis by simp
qed

lemma wp_pool: "wp (assertPoolIsUsable configs ids org) Q E ws =
    (case pool_check (bk_questions (ws_bank ws)) configs ids org of Inl e \<Rightarrow> E e ws | Inr u \<Rightarrow> Q u ws)"
  by (simp add: assertPoolIsUsable_def wp_def)

text \<open>Creating an assessment is all or nothing. A rejected request - a repeated, unknown or
  retired subject, a window that closes before it opens, a company or a question the
  organisation may not use, a pool too thin - leaves every table as it was; an accepted one
  adds exactly one assessment, of this organisation, with one section per subject, a window
  that opens before it closes, and the chosen questions as its pool.\<close>

theorem create_assessment_all_or_nothing:
  assumes "distinct (map me_id (ws_modules ws))"
  shows "case createAssessment dto org ws of
     (Inl e, ws') \<Rightarrow> ws' = ws
   | (Inr a, ws') \<Rightarrow> a = new_assessment dto org ws \<and> ws_assessments ws' = ws_assessments ws @ [a] \<and>
       distinct (map ad_moduleId (ca_modules dto)) \<and>
       set (map am_moduleId (as_modules a)) = ad_moduleId ` set (ca_modules dto) \<and>
       ad_moduleId ` set (ca_modules dto) \<subseteq> me_id ` {m \<in> set (ws_modules ws). me_isActive m} \<and>
       (case (ca_opensAt dto, ca_closesAt dto) of (Some t, Some u) \<Rightarrow> t < u | _ \<Rightarrow> True)"
proof -
  let ?modules = "ws_modules ws"
  let ?pool = "js_set (or_else (ca_questionIds dto) [])"
  let ?G = "\<lambda>a ws'. a = new_assessment dto org ws \<and> ws_assessments ws' = ws_assessments ws @ [a] \<and>
       distinct (map ad_moduleId (ca_modules dto)) \<and>
       set (map am_moduleId (as_modules a)) = ad_moduleId ` set (ca_modules dto) \<and>
       ad_moduleId ` set (ca_modules dto) \<subseteq> me_id ` {m \<in> set ?modules. me_isActive m} \<and>
       (case (ca_opensAt dto, ca_closesAt dto) of (Some t, Some u) \<Rightarrow> t < u | _ \<Rightarrow> True)"
  have good: "?G a ws'" if ok: "dto_check ?modules dto = Inr ()" and a: "a = new_assessment dto org ws"
    and rows: "ws_assessments ws' = ws_assessments ws @ [new_assessment dto org ws]" for a ws'
    using dto_check_ok[OF assms ok] rows by (simp add: a new_assessment_def ordered_modules_ids)
  have insert: "wp (bind_p (insert_assessment dto ?pool org) (\<lambda>i. assessments_findOne i org)) ?G (\<lambda>_ ws'. ws' = ws) ws"
    if that: "dto_check ?modules dto = Inr ()"
  proof -
    obtain r ws1 where i: "insert_assessment dto ?pool org ws = (r, ws1)" by fastforce
    note f = insert_then_find[OF i refl]
    show ?thesis
    proof (cases r)
      case (Inl e)
      with i f show ?thesis by (simp add: wp_def bind_p_def)
    next
      case (Inr j)
      with f have find: "assessments_findOne j org ws1 = (Inr (new_assessment dto org ws), ws1)"
        and rows: "ws_assessments ws1 = ws_assessments ws @ [new_assessment dto org ws]" by simp_all
      have "bind_p (insert_assessment dto ?pool org) (\<lambda>i. assessments_findOne i org) ws
          = (Inr (new_assessment dto org ws), ws1)"
        using i Inr find by (simp add: bind_p_def)
      with good[OF that refl rows] show ?thesis by (simp only: wp_def prod.case sum.case)
    qed
  qed
  have "wp (createAssessment dto org) ?G (\<lambda>_ ws'. ws' = ws) ws"
  proof (cases "dto_check ?modules dto")
    case (Inl e)
    then show ?thesis by (simp add: createAssessment_def wp_simps)
  next
    case (Inr u)
    then show ?thesis
      using insert
      by (auto simp: createAssessment_def wp_bind wp_reading wp_then wp_of_result wp_if wp_ret wp_throw Let_def
          assertUsable_def company_findOneOrThrow_def wp_pool split: option.split sum.split)
  qed
  then show ?thesis by (simp add: wp_def split: prod.splits sum.splits)
qed

theorem create_assessment_all_or_nothing_witness:
  "\<exists>e. createAssessment \<lparr>ca_title = ''Round'', ca_modules = [], ca_opensAt = Some 5, ca_closesAt = Some 5,
      ca_questionIds = None, ca_companyId = None\<rparr> ''org'' (staffed sample_bank 2) = (Inl e, staffed sample_bank 2)"
proof -
  let ?dto = "\<lparr>ca_title = ''Round'', ca_modules = [], ca_opensAt = Some 5, ca_closesAt = Some 5,
      ca_questionIds = None, ca_companyId = None\<rparr>"
  obtain r ws' where run: "createAssessment ?dto ''org'' (staffed sample_bank 2) = (r, ws')" by fastforce
  have "r = Inl WindowClosesBeforeItOpens"
    using run by (simp add: createAssessment_def bind_p_def then_p_def reading_def of_result_def dto_check_def Let_def
        staffed_def)
  with run create_assessment_all_or_nothing[of "staffed sample_bank 2" ?dto "''org''"] show ?thesis
    by (simp add: staffed_def)
qed

end
