(* ===== verification/Behavioral_Profiles.thy ===== *)
theory Behavioral_Profiles
  imports Engine_Types
begin

section \<open>Behavioural composites\<close>

text \<open>
  \<open>reports/behavioral-profiles.ts\<close> with the constants it takes from
  \<open>reports/report.constants.ts\<close>: the five composites over the workplace traits, the
  evidence floor, and the behavioural index. \<open>new Map(traits.map(...))\<close> keeps the last
  trait of a key.
\<close>

record reported_trait =
  rt_key :: string
  rt_label :: string
  rt_score :: real
  rt_confidence :: real
  rt_consistency :: "real option"

record profile_definition =
  pf_key :: string
  pf_label :: string
  pf_weights :: "real jsobj"

definition MIN_TRAIT_CONFIDENCE :: real where "MIN_TRAIT_CONFIDENCE = 1 / 2"
definition BEHAVIORAL_STRONG_AT :: real where "BEHAVIORAL_STRONG_AT = 65"
definition BEHAVIORAL_MODERATE_AT :: real where "BEHAVIORAL_MODERATE_AT = 45"

definition BEHAVIORAL_PROFILES :: "profile_definition list" where
  "BEHAVIORAL_PROFILES =
     [\<lparr>pf_key = ''leadership_readiness'', pf_label = ''Leadership Readiness'',
       pf_weights = [(''leadership'', 35 / 100), (''ownership'', 20 / 100), (''communication'', 20 / 100),
         (''accountability'', 15 / 100), (''risk_tolerance'', 10 / 100)]\<rparr>,
      \<lparr>pf_key = ''collaboration'', pf_label = ''Team Collaboration'',
       pf_weights = [(''teamwork'', 35 / 100), (''empathy'', 30 / 100), (''communication'', 25 / 100),
         (''integrity'', 10 / 100)]\<rparr>,
      \<lparr>pf_key = ''reliability'', pf_label = ''Reliability & Follow-Through'',
       pf_weights = [(''accountability'', 35 / 100), (''ownership'', 30 / 100), (''integrity'', 25 / 100),
         (''resilience'', 10 / 100)]\<rparr>,
      \<lparr>pf_key = ''resilience_under_pressure'', pf_label = ''Adaptability Under Pressure'',
       pf_weights = [(''adaptability'', 40 / 100), (''resilience'', 35 / 100), (''risk_tolerance'', 15 / 100),
         (''ownership'', 10 / 100)]\<rparr>,
      \<lparr>pf_key = ''integrity_judgment'', pf_label = ''Integrity & Judgment'',
       pf_weights = [(''integrity'', 50 / 100), (''accountability'', 25 / 100), (''ownership'', 15 / 100),
         (''empathy'', 10 / 100)]\<rparr>]"

datatype profile_band = Strong | Moderate | Developing

record contribution_view =
  cv_key :: string
  cv_label :: string
  cv_score :: real
  cv_weight :: real

record profile_score =
  ps_key :: string
  ps_label :: string
  ps_score :: "real option"
  ps_confidence :: real
  ps_band :: "profile_band option"
  ps_contributions :: "contribution_view list"

record behavioral_assessment =
  ba_profiles :: "profile_score list"
  ba_index :: "real option"
  ba_confidence :: real

definition bandFor :: "real \<Rightarrow> profile_band" where
  "bandFor score =
     (if score \<ge> BEHAVIORAL_STRONG_AT then Strong
      else if score \<ge> BEHAVIORAL_MODERATE_AT then Moderate else Developing)"

definition trait_by_key :: "reported_trait list \<Rightarrow> string \<Rightarrow> reported_trait option" where
  "trait_by_key traits key = List.find (\<lambda>t. rt_key t = key) (rev traits)"

text \<open>The measured traits of a composite, each with its share.\<close>

definition measured_shares :: "reported_trait list \<Rightarrow> profile_definition \<Rightarrow> (reported_trait \<times> real) list" where
  "measured_shares traits d =
     List.map_filter (\<lambda>(key, weight).
       case trait_by_key traits key of
         None \<Rightarrow> None
       | Some t \<Rightarrow> if rt_confidence t > 0 then Some (t, weight) else None) (pf_weights d)"

definition weighted_mean :: "('a \<Rightarrow> real) \<Rightarrow> ('a \<times> real) list \<Rightarrow> real" where
  "weighted_mean f shares =
     foldl (\<lambda>sum (x, w). sum + f x * w) 0 shares / foldl (\<lambda>sum (x, w). sum + w) 0 shares"

definition profile_of :: "reported_trait list \<Rightarrow> profile_definition \<Rightarrow> profile_score option" where
  "profile_of traits d =
     (let shares = measured_shares traits d;
          totalWeight = foldl (\<lambda>sum (x, w). sum + w) 0 shares
      in if totalWeight = 0 then None
         else
         (let score = weighted_mean rt_score shares;
              confidence = weighted_mean rt_confidence shares;
              reportable = (confidence \<ge> MIN_TRAIT_CONFIDENCE)
          in Some
            \<lparr>ps_key = pf_key d, ps_label = pf_label d,
             ps_score = (if reportable then Some (round1 score) else None),
             ps_confidence = round2 confidence,
             ps_band = (if reportable then Some (bandFor score) else None),
             ps_contributions = sort_desc cv_weight (map (\<lambda>(t, w).
               \<lparr>cv_key = rt_key t, cv_label = rt_label t, cv_score = rt_score t,
                cv_weight = round2 (w / totalWeight)\<rparr>) shares)\<rparr>))"

definition behavioralIndex :: "profile_score list \<Rightarrow> real option" where
  "behavioralIndex profiles =
     (let confident = List.map_filter ps_score profiles
      in if confident = [] then None else Some (round1 (mean confident)))"

definition buildBehavioralProfiles :: "reported_trait list \<Rightarrow> behavioral_assessment" where
  "buildBehavioralProfiles traits =
     (let profiles = List.map_filter (profile_of traits) BEHAVIORAL_PROFILES
      in \<lparr>ba_profiles = profiles, ba_index = behavioralIndex profiles,
          ba_confidence = (if profiles \<noteq> [] then round2 (mean (map ps_confidence profiles)) else 0)\<rparr>)"

subsection \<open>Weighted means\<close>

lemma foldl_shares:
  "foldl (\<lambda>sum (x, w). sum + f x * w) a xs = a + sum_list (map (\<lambda>(x, w). f x * w) xs)"
  "foldl (\<lambda>sum (x, w). sum + w) b xs = b + sum_list (map snd xs)" for a b :: real
  by (induction xs arbitrary: a b) auto

lemma weighted_mean_sum:
  "weighted_mean f xs = sum_list (map (\<lambda>(x, w). f x * w) xs) / sum_list (map snd xs)"
  by (simp add: weighted_mean_def foldl_shares)

lemma weighted_sum_bounds:
  fixes f :: "'a \<Rightarrow> real"
  assumes "\<And>x w. (x, w) \<in> set xs \<Longrightarrow> 0 < w \<and> lo \<le> f x \<and> f x \<le> hi"
  shows "lo * sum_list (map snd xs) \<le> sum_list (map (\<lambda>(x, w). f x * w) xs) \<and>
    sum_list (map (\<lambda>(x, w). f x * w) xs) \<le> hi * sum_list (map snd xs)"
  using assms
proof (induction xs)
  case (Cons p xs)
  obtain x w where p: "p = (x, w)" by fastforce
  have "0 < w" "lo \<le> f x" "f x \<le> hi" using Cons.prems[of x w] p by auto
  then have "lo * w \<le> f x * w" "f x * w \<le> hi * w" by (simp_all add: mult_right_mono)
  moreover have "lo * sum_list (map snd xs) \<le> sum_list (map (\<lambda>(x, w). f x * w) xs) \<and>
    sum_list (map (\<lambda>(x, w). f x * w) xs) \<le> hi * sum_list (map snd xs)"
    using Cons.prems by (intro Cons.IH) auto
  ultimately show ?case using p by (simp add: distrib_left)
qed simp

lemma shares_positive:
  fixes xs :: "('a \<times> real) list"
  assumes "xs \<noteq> []" and "\<And>x w. (x, w) \<in> set xs \<Longrightarrow> 0 < w"
  shows "0 < sum_list (map snd xs)"
proof -
  have "0 \<le> sum_list (map snd ys)" if "\<And>x w. (x, w) \<in> set ys \<Longrightarrow> 0 < w" for ys :: "('a \<times> real) list"
    using that by (intro sum_list_nonneg) (auto intro: less_imp_le)
  note nonneg = this
  obtain x w ys where xs: "xs = (x, w) # ys" using assms(1) by (cases xs) auto
  have "0 < w" "0 \<le> sum_list (map snd ys)" using assms(2) xs by (auto intro: nonneg)
  with xs show ?thesis by simp
qed

lemma weighted_mean_between:
  assumes "xs \<noteq> []" and "\<And>x w. (x, w) \<in> set xs \<Longrightarrow> 0 < w \<and> lo \<le> f x \<and> f x \<le> hi"
  shows "lo \<le> weighted_mean f xs \<and> weighted_mean f xs \<le> hi"
  using weighted_sum_bounds[of xs lo f hi] shares_positive[of xs] assms
  by (simp add: weighted_mean_sum field_simps)

text \<open>The authored weights.\<close>

lemma profile_weights:
  assumes "d \<in> set BEHAVIORAL_PROFILES"
  shows "sum_list (obj_values (pf_weights d)) = 1" "well_keyed (pf_weights d)"
    "\<And>k w. (k, w) \<in> set (pf_weights d) \<Longrightarrow> 0 < w"
  using assms by (auto simp: BEHAVIORAL_PROFILES_def well_keyed_def)

lemma trait_by_key_in: "trait_by_key traits k = Some t \<Longrightarrow> t \<in> set traits \<and> rt_key t = k"
  by (auto simp: trait_by_key_def find_Some_iff) (metis nth_mem set_rev length_rev)

lemma in_measured_shares:
  "(t, w) \<in> set (measured_shares traits d) \<longleftrightarrow>
    (\<exists>k. (k, w) \<in> set (pf_weights d) \<and> trait_by_key traits k = Some t \<and> 0 < rt_confidence t)"
  by (force simp: measured_shares_def set_map_filter split: option.splits if_splits)

lemma measured_shares_facts:
  assumes "d \<in> set BEHAVIORAL_PROFILES" and "(t, w) \<in> set (measured_shares traits d)"
  shows "0 < w" "t \<in> set traits" "0 < rt_confidence t" "(rt_key t, w) \<in> set (pf_weights d)"
  using assms profile_weights(3)[OF assms(1)] trait_by_key_in unfolding in_measured_shares by blast+

lemma profile_of_None_iff:
  assumes "d \<in> set BEHAVIORAL_PROFILES"
  shows "profile_of traits d = None \<longleftrightarrow> measured_shares traits d = []"
  using shares_positive[of "measured_shares traits d"] measured_shares_facts(1)[OF assms, of _ _ traits]
  by (cases "measured_shares traits d = []") (auto simp: profile_of_def Let_def foldl_shares)

text \<open>An unmeasured trait is as good as absent.\<close>

lemma find_rev_distinct:
  "distinct (map rt_key ts) \<Longrightarrow> trait_by_key ts k = Some t \<longleftrightarrow> t \<in> set ts \<and> rt_key t = k"
proof -
  assume d: "distinct (map rt_key ts)"
  have "trait_by_key ts k = Some t" if "t \<in> set ts" "rt_key t = k"
  proof (cases "trait_by_key ts k")
    case None
    with that show ?thesis by (auto simp: trait_by_key_def find_None_iff)
  next
    case (Some u)
    then have "u \<in> set ts" "rt_key u = k" using trait_by_key_in by blast+
    with that d Some show ?thesis by (metis (mono_tags, lifting) distinct_map inj_onD)
  qed
  then show ?thesis using trait_by_key_in by blast
qed

lemma measured_shares_only_measured:
  assumes "distinct (map rt_key traits)"
  shows "measured_shares (filter (\<lambda>t. 0 < rt_confidence t) traits) d = measured_shares traits d"
proof -
  have d': "distinct (map rt_key (filter (\<lambda>t. 0 < rt_confidence t) traits))"
    using assms by (simp add: distinct_map_filter)
  have "(case trait_by_key (filter (\<lambda>t. 0 < rt_confidence t) traits) k of None \<Rightarrow> None
        | Some t \<Rightarrow> if rt_confidence t > 0 then Some (t, w) else None) =
      (case trait_by_key traits k of None \<Rightarrow> None
        | Some t \<Rightarrow> if rt_confidence t > 0 then Some (t, w) else None)" for k and w :: real
  proof (cases "trait_by_key traits k")
    case None
    then have "trait_by_key (filter (\<lambda>t. 0 < rt_confidence t) traits) k = None"
      by (auto simp: trait_by_key_def find_None_iff)
    with None show ?thesis by simp
  next
    case (Some t)
    then have t: "t \<in> set traits" "rt_key t = k" using trait_by_key_in by blast+
    show ?thesis
    proof (cases "0 < rt_confidence t")
      case True
      then have "trait_by_key (filter (\<lambda>t. 0 < rt_confidence t) traits) k = Some t"
        using t by (simp add: find_rev_distinct[OF d'])
      with Some show ?thesis by simp
    next
      case False
      have "u \<notin> set (filter (\<lambda>t. 0 < rt_confidence t) traits) \<or> rt_key u \<noteq> k" for u
        using False t Some find_rev_distinct[OF assms, of k u] by auto
      then have "trait_by_key (filter (\<lambda>t. 0 < rt_confidence t) traits) k = None"
        using find_rev_distinct[OF d', of k] by (cases "trait_by_key (filter (\<lambda>t. 0 < rt_confidence t) traits) k") auto
      with Some False show ?thesis by simp
    qed
  qed
  then show ?thesis unfolding measured_shares_def by (intro map_filter_cong) auto
qed

lemma buildBehavioralProfiles_only_measured:
  "distinct (map rt_key traits) \<Longrightarrow>
   buildBehavioralProfiles (filter (\<lambda>t. 0 < rt_confidence t) traits) = buildBehavioralProfiles traits"
proof -
  assume "distinct (map rt_key traits)"
  then have "profile_of (filter (\<lambda>t. 0 < rt_confidence t) traits) = profile_of traits"
    by (simp add: profile_of_def fun_eq_iff measured_shares_only_measured)
  then show ?thesis by (simp add: buildBehavioralProfiles_def)
qed

lemma profile_score_bounds:
  assumes d: "d \<in> set BEHAVIORAL_PROFILES" and p: "profile_of traits d = Some p" and s: "ps_score p = Some s"
    and lo: "\<And>t. t \<in> set traits \<Longrightarrow> 0 < rt_confidence t \<Longrightarrow> rt_key t \<in> set (obj_keys (pf_weights d)) \<Longrightarrow>
      lo \<le> rt_score t \<and> rt_score t \<le> hi"
  shows "round1 lo \<le> s \<and> s \<le> round1 hi"
proof -
  have ne: "measured_shares traits d \<noteq> []" using p profile_of_None_iff[OF d, of traits] by auto
  have "lo \<le> rt_score t \<and> rt_score t \<le> hi" if "(t, w) \<in> set (measured_shares traits d)" for t w
    using measured_shares_facts[OF d that] lo by (force simp: image_iff)
  then have "lo \<le> weighted_mean rt_score (measured_shares traits d) \<and>
      weighted_mean rt_score (measured_shares traits d) \<le> hi"
    using measured_shares_facts(1)[OF d] by (intro weighted_mean_between ne) auto
  moreover have "s = round1 (weighted_mean rt_score (measured_shares traits d))"
    using p s by (auto simp: profile_of_def Let_def split: if_splits)
  ultimately show ?thesis by (auto intro: round1_mono)
qed

end
