(* ===== verification/Report_Builder.thy ===== *)
theory Report_Builder
  imports Behavioral_Profiles
begin

section \<open>Building a report\<close>

text \<open>
  \<open>reports/report-builder.ts\<close> and the rest of \<open>reports/report.constants.ts\<close>: the scores,
  the recommendation, the findings and the narrative, from module results already
  computed. A sentence template of the code is a constructor of \<open>sentence\<close> or
  \<open>finding\<close> with the values it interpolates; joining the sentences with blanks is left
  out. The recommendations are ordered by how favourable they are.
\<close>

datatype hiring_recommendation =
  NOT_RECOMMENDED | BORDERLINE | RECOMMENDED | STRONGLY_RECOMMENDED

fun favour :: "hiring_recommendation \<Rightarrow> nat" where
  "favour NOT_RECOMMENDED = 0"
| "favour BORDERLINE = 1"
| "favour RECOMMENDED = 2"
| "favour STRONGLY_RECOMMENDED = 3"

lemma favour_inject: "favour a = favour b \<longleftrightarrow> a = b"
  by (cases a; cases b) simp_all

instantiation hiring_recommendation :: linorder
begin

definition less_eq_hiring_recommendation where "a \<le> b \<longleftrightarrow> favour a \<le> favour b"
definition less_hiring_recommendation where "a < b \<longleftrightarrow> favour a < favour b"

instance
  by standard (auto simp: less_eq_hiring_recommendation_def less_hiring_recommendation_def favour_inject[symmetric])

end

datatype proctoring_event =
  TAB_SWITCH | FULLSCREEN_EXIT | FACE_ABSENT | MULTIPLE_FACES | FACE_NOT_FRAMED
  | MULTIPLE_DISPLAYS_DETECTED | BACKGROUND_NOISE

definition ABILITY_FLOOR :: real where "ABILITY_FLOOR = 600"
definition ABILITY_CEILING :: real where "ABILITY_CEILING = 1400"
definition STRONG_SCORE :: real where "STRONG_SCORE = 65"
definition WEAK_SCORE :: real where "WEAK_SCORE = 35"
definition MIN_FINDING_CONFIDENCE :: real where "MIN_FINDING_CONFIDENCE = 8 / 10"
definition MIN_FINDING_ANSWERS :: nat where "MIN_FINDING_ANSWERS = 3"
definition STRONGLY_RECOMMENDED_AT :: real where "STRONGLY_RECOMMENDED_AT = 75"
definition RECOMMENDED_AT :: real where "RECOMMENDED_AT = 55"
definition BORDERLINE_AT :: real where "BORDERLINE_AT = 40"
definition MIN_COVERAGE_RATIO :: real where "MIN_COVERAGE_RATIO = 6 / 10"
definition CONSISTENT_AT :: real where "CONSISTENT_AT = 7 / 10"
definition VARIED_AT :: real where "VARIED_AT = 4 / 10"
definition ABILITY_WEIGHT :: real where "ABILITY_WEIGHT = 7 / 10"
definition BEHAVIORAL_WEIGHT :: real where "BEHAVIORAL_WEIGHT = 3 / 10"

lemmas report_constants = ABILITY_FLOOR_def ABILITY_CEILING_def STRONG_SCORE_def WEAK_SCORE_def
  MIN_FINDING_CONFIDENCE_def MIN_FINDING_ANSWERS_def STRONGLY_RECOMMENDED_AT_def RECOMMENDED_AT_def
  BORDERLINE_AT_def MIN_COVERAGE_RATIO_def CONSISTENT_AT_def VARIED_AT_def ABILITY_WEIGHT_def
  BEHAVIORAL_WEIGHT_def MIN_TRAIT_CONFIDENCE_def BEHAVIORAL_STRONG_AT_def BEHAVIORAL_MODERATE_AT_def

subsection \<open>Input and output\<close>

record divergent_trait =
  dt_key :: string
  dt_label :: string
  dt_first :: real
  dt_second :: real

record reported_probe_pair =
  rp_firstSequence :: nat
  rp_secondSequence :: "nat option"
  rp_agreement :: "real option"
  rp_flipped :: "bool option"
  rp_divergentTraits :: "divergent_trait list"

record probe_summary_view =
  pv_agreement :: "real option"
  pv_resolved :: nat
  pv_unresolved :: nat
  pv_pairs :: "reported_probe_pair list"

record module_summary =
  mu_moduleId :: string
  mu_name :: string
  mu_slug :: string
  mu_scoringType :: scoring_type
  mu_abilityScore :: "real option"
  mu_score :: "real option"
  mu_questionsAnswered :: nat
  mu_questionsCorrect :: nat
  mu_expectedByChance :: "real option"
  mu_questionCount :: nat
  mu_traits :: "reported_trait list"
  mu_consistency :: "real option"
  mu_probes :: "probe_summary_view option"
  mu_legacyTraitModel :: bool

type_synonym violation_count = "proctoring_event \<times> nat"

record report_input =
  ri_candidateName :: string
  ri_assessmentTitle :: string
  ri_sessionStatus :: session_status
  ri_modules :: "module_summary list"
  ri_violations :: "violation_count list"

datatype finding =
    SectionScored string real
  | TraitScored string real
  | ProfileScored string "real option"
  | AnsweredOnly string nat nat

datatype sentence =
    NoScoredSection string string
  | BehaviourOnly string string nat real
  | ScoredSections string real string nat nat
  | StrongestSection string "real option" string "real option"
  | ProfileStrongest string real
  | ProfilePointsTo string real string real
  | ProfileCarries real int
  | OneTrait string real
  | HighestLowest string real string real
  | SameWay | VariedNoticeably | BroadlyConsistent
  | AllProbesMatched nat | NoProbeMatched nat | SomeProbesMatched nat nat
  | SubmittedAutomatically
  | CoverageLow
  | NoSignals
  | Signals "(nat \<times> string) list"

record built_report =
  br_summary :: "sentence list"
  br_strengths :: "finding list"
  br_weaknesses :: "finding list"
  br_hiringRecommendation :: "hiring_recommendation option"
  br_overallScore :: "real option"
  br_abilityScore :: "real option"
  br_behavioralScore :: "real option"
  br_profiles :: "profile_score list"

subsection \<open>Scores\<close>

definition expectedCorrectByChance :: "nat list \<Rightarrow> real option" where
  "expectedCorrectByChance optionCounts =
     (let usable = filter (\<lambda>c. c > 0) optionCounts
      in if usable = [] then None else Some (round1 (foldl (\<lambda>sum c. sum + 1 / real c) 0 usable)))"

definition normaliseAbility :: "real \<Rightarrow> real" where
  "normaliseAbility ability =
     (let span = ABILITY_CEILING - ABILITY_FLOOR;
          ratio = (ability - ABILITY_FLOOR) / span
      in round1 (min 1 (max 0 ratio) * 100))"

definition blendScores :: "real option \<Rightarrow> real option \<Rightarrow> real option" where
  "blendScores abilityScore behavioralScore =
     (let parts = (case abilityScore of None \<Rightarrow> [] | Some a \<Rightarrow> [(a, ABILITY_WEIGHT)])
                @ (case behavioralScore of None \<Rightarrow> [] | Some b \<Rightarrow> [(b, BEHAVIORAL_WEIGHT)])
      in if parts = [] then None
         else (let totalWeight = foldl (\<lambda>sum p. sum + snd p) 0 parts
               in Some (round1 (foldl (\<lambda>sum p. sum + fst p * snd p) 0 parts / totalWeight))))"

definition coverageRatio :: "module_summary list \<Rightarrow> real" where
  "coverageRatio modules =
     (let expected = foldl (\<lambda>total m. total + mu_questionCount m) 0 modules
      in if expected = 0 then 1
         else (let answered = foldl (\<lambda>total m. total + mu_questionsAnswered m) 0 modules
               in min 1 (real answered / real expected)))"

definition banded :: "real \<Rightarrow> hiring_recommendation" where
  "banded overallScore =
     (if overallScore \<ge> STRONGLY_RECOMMENDED_AT then STRONGLY_RECOMMENDED
      else if overallScore \<ge> RECOMMENDED_AT then RECOMMENDED
      else if overallScore \<ge> BORDERLINE_AT then BORDERLINE
      else NOT_RECOMMENDED)"

definition recommend :: "real option \<Rightarrow> real \<Rightarrow> hiring_recommendation option" where
  "recommend overallScore coverage =
     (case overallScore of
        None \<Rightarrow> None
      | Some s \<Rightarrow>
          (let band = banded s
           in if coverage \<ge> MIN_COVERAGE_RATIO then Some band
              else Some (if band = STRONGLY_RECOMMENDED \<or> band = RECOMMENDED then BORDERLINE else band)))"

subsection \<open>Findings\<close>

definition establishedProfiles :: "behavioral_assessment \<Rightarrow> profile_score list" where
  "establishedProfiles b = filter (\<lambda>p. ps_confidence p \<ge> MIN_FINDING_CONFIDENCE) (ba_profiles b)"

definition establishedTraits :: "module_summary \<Rightarrow> reported_trait list" where
  "establishedTraits m = filter (\<lambda>t. rt_confidence t \<ge> MIN_FINDING_CONFIDENCE) (mu_traits m)"

definition isEstablished :: "module_summary \<Rightarrow> bool" where
  "isEstablished m \<longleftrightarrow> mu_questionsAnswered m \<ge> MIN_FINDING_ANSWERS"

definition module_finding :: "(real \<Rightarrow> bool) \<Rightarrow> module_summary \<Rightarrow> finding list" where
  "module_finding P m =
     (case mu_score m of
        None \<Rightarrow> []
      | Some s \<Rightarrow> if P s \<and> isEstablished m then [SectionScored (mu_name m) s] else [])"

definition trait_findings :: "(real \<Rightarrow> bool) \<Rightarrow> module_summary \<Rightarrow> finding list" where
  "trait_findings P m =
     map (\<lambda>t. TraitScored (rt_label t) (rt_score t)) (filter (\<lambda>t. P (rt_score t)) (establishedTraits m))"

definition profile_findings :: "profile_band \<Rightarrow> behavioral_assessment \<Rightarrow> finding list" where
  "profile_findings band b =
     map (\<lambda>p. ProfileScored (ps_label p) (ps_score p))
       (filter (\<lambda>p. ps_band p = Some band) (establishedProfiles b))"

definition collectStrengths :: "module_summary list \<Rightarrow> behavioral_assessment \<Rightarrow> finding list" where
  "collectStrengths modules b =
     concat (map (\<lambda>m. module_finding (\<lambda>s. s \<ge> STRONG_SCORE) m @ trait_findings (\<lambda>s. s \<ge> STRONG_SCORE) m) modules)
     @ profile_findings Strong b"

definition collectWeaknesses :: "module_summary list \<Rightarrow> behavioral_assessment \<Rightarrow> finding list" where
  "collectWeaknesses modules b =
     concat (map (\<lambda>m. module_finding (\<lambda>s. s \<le> WEAK_SCORE) m @ trait_findings (\<lambda>s. s \<le> WEAK_SCORE) m
       @ (if 0 < mu_questionsAnswered m \<and> mu_questionsAnswered m < mu_questionCount m
          then [AnsweredOnly (mu_name m) (mu_questionsAnswered m) (mu_questionCount m)] else [])) modules)
     @ profile_findings Developing b"

subsection \<open>The narrative\<close>

definition describeProfiles :: "behavioral_assessment \<Rightarrow> bool \<Rightarrow> sentence list" where
  "describeProfiles b hasAbilityScore =
     (case ba_index b of
        None \<Rightarrow> []
      | Some index \<Rightarrow>
          (let profiles = List.map_filter (\<lambda>p. case ps_score p of None \<Rightarrow> None
                 | Some s \<Rightarrow> if ps_confidence p \<ge> MIN_FINDING_CONFIDENCE then Some (p, s) else None) (ba_profiles b);
               weighting = (if hasAbilityScore
                 then [ProfileCarries index (js_round (BEHAVIORAL_WEIGHT * 100))] else []);
               ranked = sort_desc snd profiles
           in if ranked = [] then weighting
              else (let (best, high) = hd ranked; (worst, low) = last ranked
                    in (if ps_key best = ps_key worst then ProfileStrongest (ps_label best) high
                        else ProfilePointsTo (ps_label best) high (ps_label worst) low) # weighting)))"

definition describeTraits :: "module_summary list \<Rightarrow> sentence list" where
  "describeTraits modules =
     (let traits = concat (map establishedTraits modules)
      in if traits = [] then []
         else (let ranked = sort_desc rt_score traits; highest = hd ranked; lowest = last ranked
               in if rt_key highest = rt_key lowest then [OneTrait (rt_label highest) (rt_score highest)]
                  else [HighestLowest (rt_label highest) (rt_score highest)
                          (rt_label lowest) (rt_score lowest)]))"

definition describeConsistency :: "module_summary list \<Rightarrow> sentence list" where
  "describeConsistency modules =
     (let measured = List.map_filter mu_consistency modules
      in if measured = [] then []
         else if mean measured \<ge> CONSISTENT_AT then [SameWay]
         else if mean measured \<le> VARIED_AT then [VariedNoticeably]
         else [BroadlyConsistent])"

definition describeProbes :: "module_summary list \<Rightarrow> sentence list" where
  "describeProbes modules =
     (let agreements = List.map_filter rp_agreement
            (concat (map (\<lambda>m. case mu_probes m of None \<Rightarrow> [] | Some p \<Rightarrow> pv_pairs p) modules));
          consistent = length (filter (\<lambda>a. a \<ge> CONSISTENT_AT) agreements)
      in if agreements = [] then []
         else if consistent = length agreements then [AllProbesMatched (length agreements)]
         else if consistent = 0 then [NoProbeMatched (length agreements)]
         else [SomeProbesMatched consistent (length agreements)])"

fun VIOLATION_LABEL :: "proctoring_event \<Rightarrow> string \<times> string" where
  "VIOLATION_LABEL TAB_SWITCH = (''tab switch'', ''tab switches'')"
| "VIOLATION_LABEL FULLSCREEN_EXIT = (''full-screen exit'', ''full-screen exits'')"
| "VIOLATION_LABEL FACE_ABSENT = (''period with no face visible'', ''periods with no face visible'')"
| "VIOLATION_LABEL FACE_NOT_FRAMED =
     (''period with the face not properly in view'', ''periods with the face not properly in view'')"
| "VIOLATION_LABEL MULTIPLE_FACES =
     (''sighting of more than one face'', ''sightings of more than one face'')"
| "VIOLATION_LABEL BACKGROUND_NOISE = (''period of background noise'', ''periods of background noise'')"
| "VIOLATION_LABEL MULTIPLE_DISPLAYS_DETECTED = (''multi-display detection'', ''multi-display detections'')"

definition describeViolations :: "violation_count list \<Rightarrow> sentence list" where
  "describeViolations violations =
     (let present = filter (\<lambda>v. snd v > 0) violations
      in if present = [] then [NoSignals]
         else [Signals (map (\<lambda>(e, n). (n, if n = 1 then fst (VIOLATION_LABEL e) else snd (VIOLATION_LABEL e)))
                 present)])"

definition scored_modules :: "module_summary list \<Rightarrow> module_summary list" where
  "scored_modules modules =
     filter (\<lambda>m. mu_scoringType m = OBJECTIVE \<and> mu_questionsAnswered m > 0) modules"

text \<open>All sentences but the one on proctoring.\<close>

definition narrative_body ::
  "report_input \<Rightarrow> real option \<Rightarrow> behavioral_assessment \<Rightarrow> real \<Rightarrow> sentence list" where
  "narrative_body input abilityScore b coverage =
     (let name = (if ri_candidateName input = '''' then ''The candidate'' else ri_candidateName input);
          title = ri_assessmentTitle input;
          objective = scored_modules (ri_modules input);
          answered = foldl (\<lambda>total m. total + mu_questionsAnswered m) 0 (ri_modules input);
          opening =
            (case abilityScore of
               None \<Rightarrow>
                 (case ba_index b of
                    None \<Rightarrow> [NoScoredSection name title]
                  | Some index \<Rightarrow> [BehaviourOnly name title answered index])
             | Some a \<Rightarrow>
                 ScoredSections name a title (length objective) answered #
                 (let ranked = sort_desc (\<lambda>m. or_else (mu_score m) 0) objective
                  in if ranked \<noteq> [] \<and> mu_moduleId (hd ranked) \<noteq> mu_moduleId (last ranked)
                     then [StrongestSection (mu_name (hd ranked)) (mu_score (hd ranked))
                             (mu_name (last ranked)) (mu_score (last ranked))] else []))
      in opening @ describeProfiles b (abilityScore \<noteq> None) @ describeTraits (ri_modules input)
         @ describeConsistency (ri_modules input) @ describeProbes (ri_modules input)
         @ (if ri_sessionStatus input = SESS_AUTO_SUBMITTED then [SubmittedAutomatically] else [])
         @ (if coverage < MIN_COVERAGE_RATIO then [CoverageLow] else []))"

definition buildNarrative ::
  "report_input \<Rightarrow> real option \<Rightarrow> behavioral_assessment \<Rightarrow> real \<Rightarrow> sentence list" where
  "buildNarrative input abilityScore b coverage =
     narrative_body input abilityScore b coverage @ describeViolations (ri_violations input)"

definition objective_mean :: "module_summary list \<Rightarrow> real option" where
  "objective_mean modules =
     (let attempted = filter (\<lambda>m. mu_questionsAnswered m > 0)
            (filter (\<lambda>m. mu_scoringType m = OBJECTIVE) modules)
      in if length attempted > 0
         then Some (round1 (foldl (\<lambda>total m. total + or_else (mu_score m) 0) 0 attempted
                              / real (length attempted)))
         else None)"

definition buildReport :: "report_input \<Rightarrow> built_report" where
  "buildReport input =
     (let abilityScore = objective_mean (ri_modules input);
          behavioral = buildBehavioralProfiles (concat (map mu_traits (ri_modules input)));
          overallScore = blendScores abilityScore (ba_index behavioral);
          coverage = coverageRatio (ri_modules input)
      in \<lparr>br_summary = buildNarrative input abilityScore behavioral coverage,
          br_strengths = collectStrengths (ri_modules input) behavioral,
          br_weaknesses = collectWeaknesses (ri_modules input) behavioral,
          br_hiringRecommendation = recommend overallScore coverage,
          br_overallScore = overallScore, br_abilityScore = abilityScore,
          br_behavioralScore = ba_index behavioral, br_profiles = ba_profiles behavioral\<rparr>)"

end
