(* ===== verification/Report_Properties.thy ===== *)
theory Report_Properties
  imports Report_Builder
begin

section \<open>The properties of a report\<close>

text \<open>
  What a recruiter may rely on when reading a report: the scale of its scores, the rule
  behind the recommendation, and the evidence behind a finding.
\<close>

subsection \<open>Scales\<close>

lemma normaliseAbility_range: "0 \<le> normaliseAbility a \<and> normaliseAbility a \<le> 100"
  unfolding normaliseAbility_def Let_def by (rule round1_percent) auto

lemma normaliseAbility_mono: "a \<le> b \<Longrightarrow> normaliseAbility a \<le> normaliseAbility b"
  unfolding normaliseAbility_def Let_def report_constants
  by (intro round1_mono mult_right_mono) (auto simp: min_def max_def divide_right_mono)

lemma normaliseAbility_ends: "normaliseAbility 600 = 0" "normaliseAbility 1400 = 100" "normaliseAbility 1000 = 50"
  by (simp_all add: normaliseAbility_def report_constants)

lemma round1_fix_mean:
  assumes "xs \<noteq> []" "\<And>x. x \<in> set xs \<Longrightarrow> 0 \<le> x \<and> x \<le> 100"
  shows "0 \<le> round1 (mean xs) \<and> round1 (mean xs) \<le> 100"
  using mean_between[OF assms] by (intro round1_percent) auto

definition modules_on_scale :: "module_summary list \<Rightarrow> bool" where
  "modules_on_scale modules \<longleftrightarrow>
     (\<forall>m\<in>set modules. (\<forall>s. mu_score m = Some s \<longrightarrow> 0 \<le> s \<and> s \<le> 100) \<and>
        (\<forall>t\<in>set (mu_traits m). 0 \<le> rt_score t \<and> rt_score t \<le> 100))"

lemma objective_mean_range:
  assumes "modules_on_scale modules" and "objective_mean modules = Some a"
  shows "0 \<le> a \<and> a \<le> 100"
proof -
  let ?att = "filter (\<lambda>m. mu_questionsAnswered m > 0) (filter (\<lambda>m. mu_scoringType m = OBJECTIVE) modules)"
  let ?scores = "map (\<lambda>m. or_else (mu_score m) 0) ?att"
  have "objective_mean modules = (if ?att = [] then None else Some (round1 (mean ?scores)))"
    by (simp add: objective_mean_def Let_def mean_def foldl_map)
  moreover have "0 \<le> or_else (mu_score m) 0 \<and> or_else (mu_score m) 0 \<le> 100" if "m \<in> set modules" for m
    using assms(1) that by (cases "mu_score m") (auto simp: modules_on_scale_def)
  then have "?att \<noteq> [] \<Longrightarrow> 0 \<le> round1 (mean ?scores) \<and> round1 (mean ?scores) \<le> 100"
    by (intro round1_fix_mean) auto
  ultimately show ?thesis using assms(2) by (auto split: if_splits simp del: filter_filter)
qed

lemma index_range:
  assumes "\<And>t. t \<in> set traits \<Longrightarrow> 0 \<le> rt_score t \<and> rt_score t \<le> 100"
    and "ba_index (buildBehavioralProfiles traits) = Some b"
  shows "0 \<le> b \<and> b \<le> 100"
proof -
  let ?ps = "List.map_filter (profile_of traits) BEHAVIORAL_PROFILES"
  have "0 \<le> s \<and> s \<le> 100" if s: "s \<in> set (List.map_filter ps_score ?ps)" for s
  proof -
    obtain d p where dp: "d \<in> set BEHAVIORAL_PROFILES" "profile_of traits d = Some p" "ps_score p = Some s"
      using s by (auto simp: set_map_filter)
    have "round1 0 \<le> s \<and> s \<le> round1 100"
      by (rule profile_score_bounds[OF dp]) (use assms(1) in blast)
    then show ?thesis by simp
  qed
  moreover have "b = round1 (mean (List.map_filter ps_score ?ps))" "List.map_filter ps_score ?ps \<noteq> []"
    using assms(2) by (auto simp: buildBehavioralProfiles_def behavioralIndex_def Let_def split: if_splits)
  ultimately show ?thesis using round1_fix_mean by blast
qed

lemma blend_between:
  assumes "blendScores (Some a) (Some b) = Some s"
  shows "round1 (min a b) \<le> s \<and> s \<le> round1 (max a b)"
proof -
  have s: "s = round1 (a * (7 / 10) + b * (3 / 10))"
    using assms by (simp add: blendScores_def report_constants)
  have "min a b \<le> a * (7 / 10) + b * (3 / 10) \<and> a * (7 / 10) + b * (3 / 10) \<le> max a b"
    by (auto simp: min_def max_def)
  then show ?thesis unfolding s by (auto intro: round1_mono)
qed

lemma blend_half:
  "blendScores (Some a) None = Some (round1 a)" "blendScores None (Some b) = Some (round1 b)"
  "blendScores None None = None"
  by (simp_all add: blendScores_def report_constants)

lemma blend_None: "blendScores a b = None \<longleftrightarrow> a = None \<and> b = None"
  by (cases a; cases b) (simp_all add: blendScores_def)

lemma scores_on_scale:
  assumes "modules_on_scale (ri_modules input)"
  shows "case br_overallScore (buildReport input) of
      None \<Rightarrow> br_abilityScore (buildReport input) = None \<and> br_behavioralScore (buildReport input) = None
    | Some s \<Rightarrow> 0 \<le> s \<and> s \<le> 100 \<and>
        (case (br_abilityScore (buildReport input), br_behavioralScore (buildReport input)) of
           (Some a, Some b) \<Rightarrow> round1 (min a b) \<le> s \<and> s \<le> round1 (max a b)
         | (Some a, None) \<Rightarrow> s = round1 a
         | (None, Some b) \<Rightarrow> s = round1 b
         | (None, None) \<Rightarrow> False)"
proof -
  let ?b = "buildBehavioralProfiles (concat (map mu_traits (ri_modules input)))"
  have parts: "br_overallScore (buildReport input) = blendScores (objective_mean (ri_modules input)) (ba_index ?b)"
    "br_abilityScore (buildReport input) = objective_mean (ri_modules input)"
    "br_behavioralScore (buildReport input) = ba_index ?b"
    by (simp_all add: buildReport_def Let_def)
  have a: "0 \<le> a \<and> a \<le> 100" if "objective_mean (ri_modules input) = Some a" for a
    using objective_mean_range[OF assms that] .
  have b: "0 \<le> b \<and> b \<le> 100" if "ba_index ?b = Some b" for b
    using assms by (intro index_range[OF _ that]) (auto simp: modules_on_scale_def)
  show ?thesis
  proof (cases "objective_mean (ri_modules input)"; cases "ba_index ?b")
    fix x y assume xy: "objective_mean (ri_modules input) = Some x" "ba_index ?b = Some y"
    obtain s where s: "blendScores (Some x) (Some y) = Some s"
      using blend_None[of "Some x" "Some y"] by auto
    have "0 \<le> round1 (min x y)" "round1 (max x y) \<le> 100"
      using a[OF xy(1)] b[OF xy(2)] round1_percent[of "min x y"] round1_percent[of "max x y"] by auto
    with blend_between[OF s] show ?thesis by (simp add: parts xy s)
  qed (use a b round1_percent in \<open>auto simp: parts blend_half\<close>)
qed

text \<open>Every score of a report stays on the 0-100 scale of the modules it is made of, and
  the headline lies between its two halves, ability and behaviour; a half that was not
  measured drops out instead of counting as zero.\<close>

theorem report_scores_on_scale:
  assumes "modules_on_scale (ri_modules input)"
  shows "case br_overallScore (buildReport input) of
      None \<Rightarrow> br_abilityScore (buildReport input) = None \<and> br_behavioralScore (buildReport input) = None
    | Some s \<Rightarrow> 0 \<le> s \<and> s \<le> 100 \<and>
        (case (br_abilityScore (buildReport input), br_behavioralScore (buildReport input)) of
           (Some a, Some b) \<Rightarrow> round1 (min a b) \<le> s \<and> s \<le> round1 (max a b)
         | (Some a, None) \<Rightarrow> s = round1 a
         | (None, Some b) \<Rightarrow> s = round1 b
         | (None, None) \<Rightarrow> False)"
  using assms by (rule scores_on_scale)

definition sample_trait :: "string \<Rightarrow> real \<Rightarrow> reported_trait" where
  "sample_trait k s = \<lparr>rt_key = k, rt_label = k, rt_score = s, rt_confidence = 1, rt_consistency = None\<rparr>"

definition sample_summary :: module_summary where
  "sample_summary = \<lparr>mu_moduleId = ''m'', mu_name = ''Numeracy'', mu_slug = ''numeracy'',
     mu_scoringType = OBJECTIVE, mu_abilityScore = Some 1200, mu_score = Some 75,
     mu_questionsAnswered = 8, mu_questionsCorrect = 6, mu_expectedByChance = Some 2,
     mu_questionCount = 10, mu_traits = [sample_trait ''integrity'' 40], mu_consistency = None,
     mu_probes = None, mu_legacyTraitModel = False\<rparr>"

definition sample_input :: report_input where
  "sample_input = \<lparr>ri_candidateName = ''Ada'', ri_assessmentTitle = ''Entry test'',
     ri_sessionStatus = SESS_COMPLETED, ri_modules = [sample_summary], ri_violations = [(TAB_SWITCH, 9)]\<rparr>"

lemma sample_on_scale: "modules_on_scale (ri_modules sample_input)"
  by (auto simp: modules_on_scale_def sample_input_def sample_summary_def sample_trait_def)

theorem report_scores_on_scale_witness:
  "case br_overallScore (buildReport sample_input) of None \<Rightarrow> False | Some s \<Rightarrow> 0 \<le> s \<and> s \<le> 100"
proof -
  have "br_abilityScore (buildReport sample_input) = Some 75"
    by (simp add: buildReport_def Let_def objective_mean_def sample_input_def sample_summary_def round1_def)
  with report_scores_on_scale[OF sample_on_scale] show ?thesis by (auto split: option.splits)
qed

subsection \<open>The recommendation\<close>

lemma banded_mono: "a \<le> b \<Longrightarrow> banded a \<le> banded b"
  by (auto simp: banded_def report_constants less_eq_hiring_recommendation_def)

text \<open>C13: A better score never gets a worse recommendation, and neither do more answers; below
  three fifths of the questions asked for, a recommendation is at best borderline, and
  there is none exactly when there is no score.\<close>

theorem recommendation_monotone_and_capped:
  assumes "a \<le> b" and "c \<le> d"
  shows "the (recommend (Some a) c) \<le> the (recommend (Some b) d) \<and>
    (recommend s c = None \<longleftrightarrow> s = None) \<and>
    (if c < 6 / 10 then the (recommend (Some a) c) \<le> BORDERLINE else recommend (Some a) c = Some (banded a))"
proof -
  have cap: "the (recommend (Some x) e) = (if e < 6 / 10 then min BORDERLINE (banded x) else banded x)" for x e
    by (cases "banded x")
      (simp_all add: recommend_def report_constants Let_def min_def less_eq_hiring_recommendation_def)
  have "recommend (Some a) c = Some (banded a)" if "\<not> c < 6 / 10"
    using that by (simp add: recommend_def report_constants Let_def)
  moreover have "recommend s c = None \<longleftrightarrow> s = None"
    by (simp add: recommend_def Let_def split: option.split)
  moreover have "the (recommend (Some a) c) \<le> the (recommend (Some b) d)"
    using banded_mono[OF assms(1)] assms(2) by (auto simp: cap min_le_iff_disj)
  ultimately show ?thesis by (simp add: cap)
qed

theorem recommendation_monotone_and_capped_witness:
  "the (recommend (Some 80) (1 / 2)) \<le> BORDERLINE"
  using recommendation_monotone_and_capped[of 80 80 "1 / 2" "1 / 2"] by simp

text \<open>C14: Proctoring moves nothing but the narrative: with any other signals recorded, the
  scores, the recommendation, the strengths and the weaknesses are the same, and of the
  narrative only the last sentence changes.\<close>

theorem proctoring_never_moves_the_outcome:
  "(buildReport (input\<lparr>ri_violations := v\<rparr>))\<lparr>br_summary := []\<rparr> = (buildReport input)\<lparr>br_summary := []\<rparr> \<and>
   butlast (br_summary (buildReport (input\<lparr>ri_violations := v\<rparr>))) = butlast (br_summary (buildReport input)) \<and>
   last (br_summary (buildReport input)) \<in> {NoSignals} \<union> range Signals"
proof -
  obtain s where s: "\<And>v. describeViolations v = [s v]" "\<And>v. s v \<in> {NoSignals} \<union> range Signals"
  proof (rule that[of "\<lambda>v. hd (describeViolations v)"])
    show "describeViolations v = [hd (describeViolations v)]" for v
      by (simp add: describeViolations_def Let_def)
    show "hd (describeViolations v) \<in> {NoSignals} \<union> range Signals" for v
      by (simp add: describeViolations_def Let_def)
  qed
  have "narrative_body (input\<lparr>ri_violations := v\<rparr>) = narrative_body input"
    by (simp add: narrative_body_def fun_eq_iff)
  then have "br_summary (buildReport (input\<lparr>ri_violations := v\<rparr>)) =
      butlast (br_summary (buildReport input)) @ [s v]"
    by (simp add: buildReport_def buildNarrative_def Let_def s)
  moreover have "last (br_summary (buildReport input)) = s (ri_violations input)"
    by (simp add: buildReport_def buildNarrative_def Let_def s)
  moreover have "(buildReport (input\<lparr>ri_violations := v\<rparr>))\<lparr>br_summary := []\<rparr> = (buildReport input)\<lparr>br_summary := []\<rparr>"
    by (simp add: buildReport_def Let_def)
  ultimately show ?thesis using s by simp
qed

subsection \<open>Findings\<close>

text \<open>C15: What a report says in favour of a candidate or against them rests on evidence. A
  section it names scored at least 65 (at most 35 for a weakness) with three answers or
  more behind it; a trait it names scored so with a confidence of four fifths; a composite
  is in the strong (the developing) band with that confidence. The one remark that needs no
  such evidence is that a section was answered only in part: it says how much was answered,
  is made only of a section with some answers missing, and is never a strength.\<close>

theorem findings_rest_on_evidence:
  "(\<forall>f\<in>set (br_strengths (buildReport input)). case f of
      SectionScored n s \<Rightarrow> \<exists>m\<in>set (ri_modules input). mu_name m = n \<and> mu_score m = Some s \<and> 65 \<le> s \<and> 3 \<le> mu_questionsAnswered m
    | TraitScored l s \<Rightarrow> \<exists>m\<in>set (ri_modules input). \<exists>t\<in>set (mu_traits m). rt_label t = l \<and> rt_score t = s \<and> 65 \<le> s \<and> 8 / 10 \<le> rt_confidence t
    | ProfileScored l s \<Rightarrow> \<exists>p\<in>set (br_profiles (buildReport input)). ps_label p = l \<and> ps_score p = s \<and> ps_band p = Some Strong \<and> 8 / 10 \<le> ps_confidence p
    | AnsweredOnly _ _ _ \<Rightarrow> False) \<and>
   (\<forall>f\<in>set (br_weaknesses (buildReport input)). case f of
      SectionScored n s \<Rightarrow> \<exists>m\<in>set (ri_modules input). mu_name m = n \<and> mu_score m = Some s \<and> s \<le> 35 \<and> 3 \<le> mu_questionsAnswered m
    | TraitScored l s \<Rightarrow> \<exists>m\<in>set (ri_modules input). \<exists>t\<in>set (mu_traits m). rt_label t = l \<and> rt_score t = s \<and> s \<le> 35 \<and> 8 / 10 \<le> rt_confidence t
    | ProfileScored l s \<Rightarrow> \<exists>p\<in>set (br_profiles (buildReport input)). ps_label p = l \<and> ps_score p = s \<and> ps_band p = Some Developing \<and> 8 / 10 \<le> ps_confidence p
    | AnsweredOnly n a q \<Rightarrow> \<exists>m\<in>set (ri_modules input). mu_name m = n \<and> 0 < a \<and> a < q \<and> mu_questionsAnswered m = a \<and> mu_questionCount m = q)"
proof -
  let ?b = "buildBehavioralProfiles (concat (map mu_traits (ri_modules input)))"
  have parts: "br_profiles (buildReport input) = ba_profiles ?b"
    "br_strengths (buildReport input) = collectStrengths (ri_modules input) ?b"
    "br_weaknesses (buildReport input) = collectWeaknesses (ri_modules input) ?b"
    by (simp_all add: buildReport_def Let_def)
  have strong: "case f of
      SectionScored n s \<Rightarrow> \<exists>m\<in>set (ri_modules input). mu_name m = n \<and> mu_score m = Some s \<and> 65 \<le> s \<and> 3 \<le> mu_questionsAnswered m
    | TraitScored l s \<Rightarrow> \<exists>m\<in>set (ri_modules input). \<exists>t\<in>set (mu_traits m). rt_label t = l \<and> rt_score t = s \<and> 65 \<le> s \<and> 8 / 10 \<le> rt_confidence t
    | ProfileScored l s \<Rightarrow> \<exists>p\<in>set (ba_profiles ?b). ps_label p = l \<and> ps_score p = s \<and> ps_band p = Some Strong \<and> 8 / 10 \<le> ps_confidence p
    | AnsweredOnly _ _ _ \<Rightarrow> False" if "f \<in> set (br_strengths (buildReport input))" for f
    using that unfolding parts collectStrengths_def module_finding_def trait_findings_def
      profile_findings_def establishedTraits_def establishedProfiles_def isEstablished_def report_constants
    by (auto split: option.splits if_splits) blast
  have weak: "case f of
      SectionScored n s \<Rightarrow> \<exists>m\<in>set (ri_modules input). mu_name m = n \<and> mu_score m = Some s \<and> s \<le> 35 \<and> 3 \<le> mu_questionsAnswered m
    | TraitScored l s \<Rightarrow> \<exists>m\<in>set (ri_modules input). \<exists>t\<in>set (mu_traits m). rt_label t = l \<and> rt_score t = s \<and> s \<le> 35 \<and> 8 / 10 \<le> rt_confidence t
    | ProfileScored l s \<Rightarrow> \<exists>p\<in>set (ba_profiles ?b). ps_label p = l \<and> ps_score p = s \<and> ps_band p = Some Developing \<and> 8 / 10 \<le> ps_confidence p
    | AnsweredOnly n a q \<Rightarrow> \<exists>m\<in>set (ri_modules input). mu_name m = n \<and> 0 < a \<and> a < q \<and> mu_questionsAnswered m = a \<and> mu_questionCount m = q" if "f \<in> set (br_weaknesses (buildReport input))" for f
    using that unfolding parts collectWeaknesses_def module_finding_def trait_findings_def
      profile_findings_def establishedTraits_def establishedProfiles_def isEstablished_def report_constants
    by (auto split: option.splits if_splits) blast
  show ?thesis unfolding parts(1) by (intro conjI ballI strong weak)
qed

text \<open>A report with a strength and no weakness.\<close>

theorem findings_rest_on_evidence_witness:
  "let input = sample_input\<lparr>ri_modules := [sample_summary\<lparr>mu_questionsAnswered := 10, mu_traits := []\<rparr>]\<rparr>;
     report = buildReport input
   in br_weaknesses report = [] \<and> SectionScored ''Numeracy'' 75 \<in> set (br_strengths report) \<and>
     (\<exists>m\<in>set (ri_modules input). mu_name m = ''Numeracy'' \<and> mu_score m = Some 75 \<and> 3 \<le> mu_questionsAnswered m)"
proof -
  let ?i = "sample_input\<lparr>ri_modules := [sample_summary\<lparr>mu_questionsAnswered := 10, mu_traits := []\<rparr>]\<rparr>"
  have f: "SectionScored ''Numeracy'' 75 \<in> set (br_strengths (buildReport ?i))"
    by (simp add: buildReport_def Let_def collectStrengths_def module_finding_def
        isEstablished_def report_constants sample_input_def sample_summary_def)
  have "measured_shares [] d = []" for d
    by (simp add: measured_shares_def trait_by_key_def List.map_filter_def split_def)
  then have none: "profile_of [] d = None" for d by (simp add: profile_of_def)
  have w: "br_weaknesses (buildReport ?i) = []"
    by (simp add: buildBehavioralProfiles_def none List.map_filter_def buildReport_def Let_def collectWeaknesses_def module_finding_def trait_findings_def
        profile_findings_def establishedTraits_def establishedProfiles_def isEstablished_def report_constants
        sample_input_def sample_summary_def sample_trait_def)
  from findings_rest_on_evidence[of ?i, THEN conjunct1, THEN bspec, OF f]
  have "\<exists>m\<in>set (ri_modules ?i). mu_name m = ''Numeracy'' \<and> mu_score m = Some 75 \<and> 3 \<le> mu_questionsAnswered m"
    by (auto simp only: finding.case)
  with f w show ?thesis by (simp only: Let_def)
qed

text \<open>A composite says only what was measured: it is a mean of the scores of its measured
  traits, hence between their lowest and highest up to rounding; a trait of confidence zero
  is as good as absent; and below a confidence of one half no score and no band is shown.\<close>

theorem composite_of_measured_traits:
  assumes "distinct (map rt_key traits)"
    and "p \<in> set (ba_profiles (buildBehavioralProfiles traits))"
  shows "buildBehavioralProfiles (filter (\<lambda>t. 0 < rt_confidence t) traits) = buildBehavioralProfiles traits \<and>
    (\<exists>d\<in>set BEHAVIORAL_PROFILES. ps_key p = pf_key d \<and>
      (let used = filter (\<lambda>t. 0 < rt_confidence t \<and> rt_key t \<in> set (obj_keys (pf_weights d))) traits
       in used \<noteq> [] \<and>
         (case ps_score p of
            None \<Rightarrow> ps_band p = None
          | Some s \<Rightarrow> round1 (js_min (map rt_score used)) \<le> s \<and> s \<le> round1 (js_max (map rt_score used)))))"
proof -
  obtain d where d: "d \<in> set BEHAVIORAL_PROFILES" and p: "profile_of traits d = Some p"
    using assms(2) by (auto simp: buildBehavioralProfiles_def Let_def set_map_filter)
  let ?used = "filter (\<lambda>t. 0 < rt_confidence t \<and> rt_key t \<in> set (obj_keys (pf_weights d))) traits"
  have key: "ps_key p = pf_key d" and band: "ps_score p = None \<Longrightarrow> ps_band p = None"
    using p by (auto simp: profile_of_def Let_def split: if_splits)
  obtain t w where "(t, w) \<in> set (measured_shares traits d)"
    using p profile_of_None_iff[OF d, of traits] by (cases "measured_shares traits d") auto
  from measured_shares_facts[OF d this] have "t \<in> set ?used" by (force simp: image_iff)
  then have used: "?used \<noteq> []" by (auto simp del: set_filter)
  have "round1 (js_min (map rt_score ?used)) \<le> s \<and> s \<le> round1 (js_max (map rt_score ?used))"
    if "ps_score p = Some s" for s
    by (rule profile_score_bounds[OF d p that]) (intro conjI js_min_le js_max_ge; auto intro!: imageI)
  with band used key d buildBehavioralProfiles_only_measured[OF assms(1)] show ?thesis
    by (auto simp: Let_def intro!: bexI[of _ d] split: option.split)
qed

theorem composite_of_measured_traits_witness:
  "buildBehavioralProfiles (filter (\<lambda>t. 0 < rt_confidence t) [sample_trait ''integrity'' 40]) =
   buildBehavioralProfiles [sample_trait ''integrity'' 40]"
proof -
  let ?ts = "[sample_trait ''integrity'' 40]"
  have shares: "measured_shares ?ts (BEHAVIORAL_PROFILES ! 4) = [(sample_trait ''integrity'' 40, 50 / 100)]"
    by (simp add: measured_shares_def BEHAVIORAL_PROFILES_def trait_by_key_def sample_trait_def map_filter_simps)
  have "BEHAVIORAL_PROFILES ! 4 \<in> set BEHAVIORAL_PROFILES"
    by (rule nth_mem) (simp add: BEHAVIORAL_PROFILES_def)
  moreover from this obtain p where "profile_of ?ts (BEHAVIORAL_PROFILES ! 4) = Some p"
    using profile_of_None_iff[of "BEHAVIORAL_PROFILES ! 4" ?ts] shares by force
  ultimately have "p \<in> set (ba_profiles (buildBehavioralProfiles ?ts))"
    by (auto simp: buildBehavioralProfiles_def Let_def set_map_filter)
  from composite_of_measured_traits[OF _ this] show ?thesis by simp
qed

end
