(* ===== verification/Accounts.thy ===== *)
theory Accounts
  imports Session_World
begin

section \<open>Accounts\<close>

text \<open>
  The tables and the operations of \<open>users/users.service.ts\<close>, with the rules of
  \<open>users/directory-visibility.ts\<close>. Invitations, sessions, answers and assessments are
  those of the candidate runtime (\<open>ac_db\<close>).

  Argon2, SHA-256 and the JWT signer are third-party code: they are the parameters of type
  \<open>crypto\<close>. \<open>sound_crypto\<close> states what they document: a hash verifies exactly the secret
  it was made from, digests of different tokens differ, and a refresh token is determined
  by no other \<open>jti\<close> than its own. Random values are drawn from the stream \<open>ac_random\<close>.
\<close>

subsection \<open>State\<close>

datatype user_role = CANDIDATE | RECRUITER_ADMIN

datatype org_role = VIEWER | HIRING_MANAGER | ADMIN | OWNER

fun ORG_ROLE_RANK :: "org_role \<Rightarrow> nat" where
  "ORG_ROLE_RANK VIEWER = 0"
| "ORG_ROLE_RANK HIRING_MANAGER = 1"
| "ORG_ROLE_RANK ADMIN = 2"
| "ORG_ROLE_RANK OWNER = 3"

lemma ORG_ROLE_RANK_inject: "ORG_ROLE_RANK a = ORG_ROLE_RANK b \<longleftrightarrow> a = b"
  by (cases a; cases b) simp_all

instantiation org_role :: linorder
begin

definition less_eq_org_role where "a \<le> b \<longleftrightarrow> ORG_ROLE_RANK a \<le> ORG_ROLE_RANK b"
definition less_org_role where "a < b \<longleftrightarrow> ORG_ROLE_RANK a < ORG_ROLE_RANK b"

instance
  by standard (auto simp: less_eq_org_role_def less_org_role_def ORG_ROLE_RANK_inject[symmetric])

end

record recent_refresh_token =
  rr_hash :: string
  rr_at :: int

record user_row =
  us_id :: string
  us_email :: string
  us_passwordHash :: string
  us_hashedRefreshToken :: "string option"
  us_recentRefreshTokens :: "recent_refresh_token list option"
  us_fullName :: string
  us_role :: user_role
  us_organisationId :: "string option"
  us_orgRole :: "org_role option"
  us_isActive :: bool
  us_mustChangePassword :: bool

record reset_token =
  pt_id :: string
  pt_userId :: string
  pt_tokenHash :: string
  pt_expiresAt :: int
  pt_usedAt :: "int option"

record organisation_row =
  or_id :: string
  or_name :: string
  or_slug :: string
  or_logoUrl :: "string option"
  or_accentColor :: "string option"
  or_supportEmail :: "string option"

text \<open>The columns of a public link on its assessment, with their defaults.\<close>

record link_columns =
  lk_tokenHash :: "string option"
  lk_enabled :: bool
  lk_expiresAt :: "int option"
  lk_maxAttempts :: "int option"
  lk_emailDomain :: "string option"

definition no_link :: link_columns where
  "no_link = \<lparr>lk_tokenHash = None, lk_enabled = False, lk_expiresAt = None, lk_maxAttempts = None,
     lk_emailDomain = None\<rparr>"

datatype mail_job =
    Password_reset_mail string string
  | Invite_mail string string "string option"
  | Completed_mail string string string string string
  | Rejection_mail string string string string "string option"
  | Candidate_mail string string string string string "string option"

record accounts =
  ac_clock :: "nat \<Rightarrow> int"
  ac_random :: "nat \<Rightarrow> string"
  ac_mailDown :: "nat \<Rightarrow> bool"
  ac_db :: world
  ac_users :: "user_row list"
  ac_tokens :: "reset_token list"
  ac_organisations :: "organisation_row list"
  ac_mail :: "mail_job list"
  ac_links :: "link_columns jsobj"

record crypto =
  cr_hash :: "string \<Rightarrow> string \<Rightarrow> string"
  cr_verify :: "string \<Rightarrow> string \<Rightarrow> bool"
  cr_digest :: "string \<Rightarrow> string"
  cr_access :: "string \<Rightarrow> string \<Rightarrow> user_role \<Rightarrow> string"
  cr_refresh :: "string \<Rightarrow> string \<Rightarrow> user_role \<Rightarrow> string \<Rightarrow> string"

definition sound_crypto :: "crypto \<Rightarrow> bool" where
  "sound_crypto cr \<longleftrightarrow>
     (\<forall>salt p q. cr_verify cr (cr_hash cr salt p) q \<longleftrightarrow> p = q) \<and>
     (\<forall>a b. cr_digest cr a = cr_digest cr b \<longrightarrow> a = b) \<and>
     (\<forall>i e r j i' e' r' j'. cr_refresh cr i e r j = cr_refresh cr i' e' r' j' \<longrightarrow> j = j')"

datatype account_error =
    EmailTaken
  | NotInvited
  | OrganisationNameRequired
  | BadCredentials
  | AccountDeactivated
  | WrongPortal user_role
  | RefreshInvalid
  | ResetLinkInvalid
  | UserNotFound
  | CannotDeleteYourself
  | OwnershipNeedsOwner
  | LastOwner
  | CurrentPasswordWrong
  | DuplicateKey
  | MailQueueDown
  | RecruiterAddress
  | InvitationMissing
  | AlreadyStarted string
  | AlreadyInvited string
  | InvalidInviteRow string
  | WindowReversed
  | LinkRefused link_message
  | DomainRefused string
  | FullNameRequired
  | NoSuchAssessment string

type_synonym 'a account_op = "(account_error, accounts, 'a) prog"

definition clock_now :: "int account_op" where
  "clock_now = (\<lambda>ac. (Inr (ac_clock ac 0), ac\<lparr>ac_clock := (\<lambda>n. ac_clock ac (Suc n))\<rparr>))"

definition random_value :: "string account_op" where
  "random_value = (\<lambda>ac. (Inr (ac_random ac 0), ac\<lparr>ac_random := (\<lambda>n. ac_random ac (Suc n))\<rparr>))"

text \<open>\<open>emailQueue.add\<close>, which throws when the queue is unreachable.\<close>

definition mail_add :: "mail_job \<Rightarrow> unit account_op" where
  "mail_add job = (\<lambda>ac. let ac' = ac\<lparr>ac_mailDown := (\<lambda>n. ac_mailDown ac (Suc n))\<rparr>
     in if ac_mailDown ac 0 then (Inl MailQueueDown, ac')
        else (Inr (), ac'\<lparr>ac_mail := ac_mail ac @ [job]\<rparr>))"

definition set_users :: "(user_row list \<Rightarrow> user_row list) \<Rightarrow> accounts \<Rightarrow> accounts" where
  "set_users f ac = ac\<lparr>ac_users := f (ac_users ac)\<rparr>"

definition set_db :: "(world \<Rightarrow> world) \<Rightarrow> accounts \<Rightarrow> accounts" where
  "set_db f ac = ac\<lparr>ac_db := f (ac_db ac)\<rparr>"

abbreviation users_where :: "(user_row \<Rightarrow> bool) \<Rightarrow> accounts \<Rightarrow> user_row option" where
  "users_where P ac \<equiv> List.find P (ac_users ac)"

definition update_user :: "string \<Rightarrow> (user_row \<Rightarrow> user_row) \<Rightarrow> unit account_op" where
  "update_user i f = updating (set_users (update_rows (\<lambda>u. us_id u = i) f))"

subsection \<open>Reading and writing one account\<close>

definition findById :: "string \<Rightarrow> user_row option account_op" where
  "findById i = reading (users_where (\<lambda>u. us_id u = i))"

definition findByEmail :: "string \<Rightarrow> user_row option account_op" where
  "findByEmail email = reading (users_where (\<lambda>u. us_email u = js_toLowerCase email))"

definition getOrThrow :: "string \<Rightarrow> user_row account_op" where
  "getOrThrow i = bind_p (findById i) (\<lambda>u. case u of None \<Rightarrow> throw UserNotFound | Some u \<Rightarrow> ret u)"

text \<open>\<open>email\<close> has a unique index and the id is generated.\<close>

definition create_user :: "user_row \<Rightarrow> user_row account_op" where
  "create_user data =
     bind_p random_value (\<lambda>i. (\<lambda>ac.
       let u = data\<lparr>us_id := i, us_email := js_toLowerCase (us_email data)\<rparr>
       in if list_ex (\<lambda>r. us_id r = i \<or> us_email r = us_email u) (ac_users ac) then (Inl DuplicateKey, ac)
          else (Inr u, set_users (\<lambda>us. us @ [u]) ac)))"

definition blank_user :: user_row where
  "blank_user = \<lparr>us_id = '''', us_email = '''', us_passwordHash = '''', us_hashedRefreshToken = None,
     us_recentRefreshTokens = None, us_fullName = '''', us_role = CANDIDATE, us_organisationId = None,
     us_orgRole = None, us_isActive = True, us_mustChangePassword = False\<rparr>"

definition updateName :: "string \<Rightarrow> string \<Rightarrow> user_row account_op" where
  "updateName i fullName =
     bind_p (getOrThrow i) (\<lambda>u.
     then_p (update_user i (\<lambda>r. r\<lparr>us_fullName := js_trim fullName\<rparr>)) (ret (u\<lparr>us_fullName := js_trim fullName\<rparr>)))"

definition changePassword :: "crypto \<Rightarrow> string \<Rightarrow> string \<Rightarrow> string \<Rightarrow> unit account_op" where
  "changePassword cr i currentPassword newPassword =
     bind_p (findById i) (\<lambda>u. case u of
       None \<Rightarrow> throw UserNotFound
     | Some u \<Rightarrow>
         if \<not> cr_verify cr (us_passwordHash u) currentPassword then throw CurrentPasswordWrong
         else bind_p random_value (\<lambda>salt.
           update_user i (\<lambda>r. r\<lparr>us_passwordHash := cr_hash cr salt newPassword, us_mustChangePassword := False\<rparr>)))"

definition setPassword :: "crypto \<Rightarrow> string \<Rightarrow> string \<Rightarrow> unit account_op" where
  "setPassword cr i newPassword =
     bind_p random_value (\<lambda>salt.
     bind_p (findById i) (\<lambda>u. case u of
       None \<Rightarrow> throw UserNotFound
     | Some _ \<Rightarrow>
         update_user i (\<lambda>r. r\<lparr>us_passwordHash := cr_hash cr salt newPassword, us_mustChangePassword := False\<rparr>)))"

subsection \<open>Roles inside an organisation\<close>

definition setOrgRole :: "string \<Rightarrow> org_role \<Rightarrow> string \<Rightarrow> string \<Rightarrow> user_row account_op" where
  "setOrgRole userId orgRole organisationId actingUserId =
     bind_p (reading (users_where (\<lambda>u. us_id u = userId \<and> us_organisationId u = Some organisationId))) (\<lambda>target.
     case target of None \<Rightarrow> throw UserNotFound | Some target \<Rightarrow>
     bind_p (reading (users_where (\<lambda>u. us_id u = actingUserId \<and> us_organisationId u = Some organisationId))) (\<lambda>actor.
     let actorIsOwner = (case actor of None \<Rightarrow> False | Some a \<Rightarrow> us_orgRole a = Some OWNER);
         touchesOwnership = (orgRole = OWNER \<or> us_orgRole target = Some OWNER)
     in if touchesOwnership \<and> \<not> actorIsOwner then throw OwnershipNeedsOwner
        else bind_p (reading (\<lambda>ac. length (filter (\<lambda>u. us_organisationId u = Some organisationId \<and>
                us_orgRole u = Some OWNER) (ac_users ac)))) (\<lambda>owners.
          if us_orgRole target = Some OWNER \<and> orgRole \<noteq> OWNER \<and> owners \<le> 1 then throw LastOwner
          else then_p (update_user userId (\<lambda>r. r\<lparr>us_orgRole := Some orgRole\<rparr>))
                 (ret (target\<lparr>us_orgRole := Some orgRole\<rparr>)))))"

text \<open>\<open>canActivate\<close> of \<open>OrgRolesGuard\<close>, for a route that requires a role.\<close>

definition org_role_allows :: "org_role option \<Rightarrow> user_row \<Rightarrow> bool" where
  "org_role_allows required u \<longleftrightarrow>
     (case required of None \<Rightarrow> True
      | Some needed \<Rightarrow> (case us_orgRole u of None \<Rightarrow> False | Some r \<Rightarrow> ORG_ROLE_RANK needed \<le> ORG_ROLE_RANK r))"

subsection \<open>The directory, and deleting people\<close>

definition belongs_to :: "accounts \<Rightarrow> string \<Rightarrow> string \<Rightarrow> bool" where
  "belongs_to ac assessmentId organisationId \<longleftrightarrow>
     list_ex (\<lambda>a. as_id a = assessmentId \<and> as_organisationId a = organisationId) (w_assessments (ac_db ac))"

definition addressed_to :: "user_row \<Rightarrow> invitation_row \<Rightarrow> bool" where
  "addressed_to u i \<longleftrightarrow> iv_candidateId i = Some (us_id u) \<or> js_toLowerCase (iv_email i) = js_toLowerCase (us_email u)"

text \<open>\<open>PERSON_VISIBLE_TO_ORG\<close>.\<close>

definition person_visible_to_org :: "accounts \<Rightarrow> string \<Rightarrow> user_row \<Rightarrow> bool" where
  "person_visible_to_org ac organisationId u \<longleftrightarrow>
     (us_role u = RECRUITER_ADMIN \<and> us_organisationId u = Some organisationId) \<or>
     (us_role u = CANDIDATE \<and>
      list_ex (\<lambda>i. belongs_to ac (iv_assessmentId i) organisationId \<and> addressed_to u i) (w_invitations (ac_db ac)))"

definition findVisibleOrThrow :: "string \<Rightarrow> string \<Rightarrow> user_row account_op" where
  "findVisibleOrThrow i organisationId =
     bind_p (reading (\<lambda>ac. users_where (\<lambda>u. us_id u = i \<and> person_visible_to_org ac organisationId u) ac)) (\<lambda>p.
     case p of None \<Rightarrow> throw UserNotFound | Some p \<Rightarrow> ret p)"

record deletion_result =
  dl_accountDeleted :: bool
  dl_sessions :: nat
  dl_invitations :: nat

text \<open>
  Deleting a user: its foreign keys cascade to the sessions and invitations that name the
  user as their candidate, to what hangs off those sessions, and to the reset tokens.
\<close>

definition drop_user :: "string \<Rightarrow> accounts \<Rightarrow> accounts" where
  "drop_user i ac =
     (let w = ac_db ac; gone = sr_id ` set (filter (\<lambda>s. sr_candidateId s = i) (w_sessions w))
      in ac\<lparr>ac_users := filter (\<lambda>u. us_id u \<noteq> i) (ac_users ac),
           ac_tokens := filter (\<lambda>t. pt_userId t \<noteq> i) (ac_tokens ac),
           ac_db := w\<lparr>w_sessions := filter (\<lambda>s. sr_candidateId s \<noteq> i) (w_sessions w),
             w_responses := filter (\<lambda>r. rs_sessionId r \<notin> gone) (w_responses w),
             w_results := filter (\<lambda>r. mr_sessionId r \<notin> gone) (w_results w),
             w_invitations := filter (\<lambda>v. iv_candidateId v \<noteq> Some i) (w_invitations w)\<rparr>\<rparr>)"

text \<open>The transaction that deletes a candidate's traces inside one organisation.\<close>

definition erase_candidate :: "user_row \<Rightarrow> string \<Rightarrow> accounts \<Rightarrow> accounts \<times> deletion_result" where
  "erase_candidate person organisationId ac =
     (let mine = (\<lambda>s. belongs_to ac (sr_assessmentId s) organisationId \<and> sr_candidateId s = us_id person);
          invited = (\<lambda>i. belongs_to ac (iv_assessmentId i) organisationId \<and> addressed_to person i);
          w = ac_db ac; gone = sr_id ` set (filter mine (w_sessions w));
          w' = w\<lparr>w_sessions := filter (\<lambda>s. \<not> mine s) (w_sessions w),
                 w_responses := filter (\<lambda>r. rs_sessionId r \<notin> gone) (w_responses w),
                 w_results := filter (\<lambda>r. mr_sessionId r \<notin> gone) (w_results w),
                 w_invitations := filter (\<lambda>i. \<not> invited i) (w_invitations w)\<rparr>;
          ac' = set_db (\<lambda>_. w') ac;
          accountDeleted = (length (filter (addressed_to person) (w_invitations w')) = 0)
      in (if accountDeleted then drop_user (us_id person) ac' else ac',
          \<lparr>dl_accountDeleted = accountDeleted, dl_sessions = length (filter mine (w_sessions w)),
           dl_invitations = length (filter invited (w_invitations w))\<rparr>))"

definition deletePerson :: "string \<Rightarrow> string \<Rightarrow> string \<Rightarrow> deletion_result account_op" where
  "deletePerson i organisationId actingUserId =
     bind_p (findVisibleOrThrow i organisationId) (\<lambda>person.
     if us_id person = actingUserId then throw CannotDeleteYourself
     else if us_role person = RECRUITER_ADMIN
     then then_p (updating (drop_user (us_id person)))
            (ret \<lparr>dl_accountDeleted = True, dl_sessions = 0, dl_invitations = 0\<rparr>)
     else (\<lambda>ac. let (ac', r) = erase_candidate person organisationId ac in (Inr r, ac')))"

subsection \<open>Provisioning\<close>

definition createByAdmin ::
  "crypto \<Rightarrow> string \<Rightarrow> string \<Rightarrow> user_role \<Rightarrow> string \<Rightarrow> org_role option \<Rightarrow> (user_row \<times> string) account_op" where
  "createByAdmin cr rawEmail fullName role organisationId orgRole =
     (let email = js_toLowerCase (js_trim rawEmail)
      in bind_p (findByEmail email) (\<lambda>existing.
         if existing \<noteq> None then throw EmailTaken
         else bind_p random_value (\<lambda>temporaryPassword.
              bind_p random_value (\<lambda>salt.
              bind_p (create_user (blank_user\<lparr>us_email := email, us_fullName := js_trim fullName, us_role := role,
                us_passwordHash := cr_hash cr salt temporaryPassword,
                us_organisationId := (if role = RECRUITER_ADMIN then Some organisationId else None),
                us_orgRole := (if role = RECRUITER_ADMIN then Some (or_else orgRole HIRING_MANAGER) else None)\<rparr>))
              (\<lambda>u. ret (u, temporaryPassword))))))"

definition provisionCandidateForInvite ::
  "crypto \<Rightarrow> string \<Rightarrow> string \<Rightarrow> (string \<times> string) option account_op" where
  "provisionCandidateForInvite cr email fullName =
     (let normalised = js_toLowerCase (js_trim email)
      in bind_p (findByEmail normalised) (\<lambda>existing.
         if existing \<noteq> None then ret None
         else bind_p random_value (\<lambda>temporaryPassword.
              bind_p random_value (\<lambda>salt.
              bind_p (create_user (blank_user\<lparr>us_email := normalised,
                us_fullName := (if js_trim fullName = '''' then normalised else js_trim fullName),
                us_role := CANDIDATE, us_passwordHash := cr_hash cr salt temporaryPassword,
                us_mustChangePassword := True\<rparr>))
              (\<lambda>u. ret (Some (us_id u, temporaryPassword)))))))"

definition deleteProvisionedIfUnused :: "string \<Rightarrow> bool account_op" where
  "deleteProvisionedIfUnused email =
     bind_p (findByEmail email) (\<lambda>found. case found of
       None \<Rightarrow> ret False
     | Some u \<Rightarrow>
         if us_role u \<noteq> CANDIDATE then ret False
         else if \<not> us_mustChangePassword u then ret False
         else bind_p (reading (\<lambda>ac. (length (filter (addressed_to u) (w_invitations (ac_db ac))),
                length (filter (\<lambda>s. sr_candidateId s = us_id u) (w_sessions (ac_db ac)))))) (\<lambda>(invitations, sessions).
           if invitations > 0 \<or> sessions > 0 then ret False
           else then_p (updating (drop_user (us_id u))) (ret True)))"

subsection \<open>Refresh-token columns\<close>

definition startRefreshTokenChain :: "string \<Rightarrow> string \<Rightarrow> unit account_op" where
  "startRefreshTokenChain userId hash =
     update_user userId (\<lambda>r. r\<lparr>us_hashedRefreshToken := Some hash, us_recentRefreshTokens := Some []\<rparr>)"

definition rotateRefreshToken ::
  "string \<Rightarrow> string \<Rightarrow> string option \<Rightarrow> recent_refresh_token list \<Rightarrow> unit account_op" where
  "rotateRefreshToken userId newHash supersededHash recent =
     bind_p clock_now (\<lambda>now.
     update_user userId (\<lambda>r. r\<lparr>us_hashedRefreshToken := Some newHash,
       us_recentRefreshTokens := Some (case supersededHash of
           None \<Rightarrow> recent | Some h \<Rightarrow> \<lparr>rr_hash = h, rr_at = now\<rparr> # recent)\<rparr>))"

definition clearRefreshTokens :: "string \<Rightarrow> unit account_op" where
  "clearRefreshTokens userId =
     update_user userId (\<lambda>r. r\<lparr>us_hashedRefreshToken := None, us_recentRefreshTokens := Some []\<rparr>)"

end
