(* ===== verification/Auth.thy ===== *)
theory Auth
  imports Accounts
begin

section \<open>Signing in, refreshing and resetting a password\<close>

text \<open>
  \<open>auth/auth.service.ts\<close>. A request for a new password and a refresh are split where the
  code awaits the database, so that the steps of several requests can interleave: each
  piece is one statement, and the whole method is their composition.
\<close>

definition MAX_RECENT_REFRESH_TOKENS :: nat where "MAX_RECENT_REFRESH_TOKENS = 5"
definition RESET_TOKEN_TTL_MINUTES :: int where "RESET_TOKEN_TTL_MINUTES = 60"

datatype registration_type = REG_CANDIDATE | REG_RECRUITER

datatype login_portal = PORTAL_CANDIDATE | PORTAL_RECRUITER

record register_dto =
  rg_email :: string
  rg_password :: string
  rg_fullName :: string
  rg_accountType :: "registration_type option"
  rg_organisationName :: "string option"

record login_dto =
  lg_email :: string
  lg_password :: string
  lg_portal :: "login_portal option"

record auth_result =
  au_accessToken :: string
  au_refreshToken :: string
  au_user :: user_row

subsection \<open>Tokens\<close>

definition liveRecentTokens :: "int \<Rightarrow> user_row \<Rightarrow> recent_refresh_token list account_op" where
  "liveRecentTokens windowMs u =
     (if windowMs \<le> 0 then ret []
      else bind_p clock_now (\<lambda>now.
        ret (take MAX_RECENT_REFRESH_TOKENS
          (filter (\<lambda>entry. rr_at entry \<ge> now - windowMs) (or_else (us_recentRefreshTokens u) [])))))"

definition matchesRecentToken :: "crypto \<Rightarrow> int \<Rightarrow> user_row \<Rightarrow> string \<Rightarrow> bool account_op" where
  "matchesRecentToken cr windowMs u presentedToken =
     bind_p (liveRecentTokens windowMs u) (\<lambda>entries. ret (list_ex (\<lambda>e. cr_verify cr (rr_hash e) presentedToken) entries))"

datatype issue_mode = New_session | Rotate

definition issueTokens :: "crypto \<Rightarrow> int \<Rightarrow> user_row \<Rightarrow> issue_mode \<Rightarrow> auth_result account_op" where
  "issueTokens cr windowMs u mode =
     bind_p random_value (\<lambda>jti.
     bind_p random_value (\<lambda>salt.
     let refreshToken = cr_refresh cr (us_id u) (us_email u) (us_role u) jti;
         newHash = cr_hash cr salt refreshToken
     in then_p (case mode of
           Rotate \<Rightarrow> bind_p (liveRecentTokens windowMs u) (\<lambda>recent.
             rotateRefreshToken (us_id u) newHash (us_hashedRefreshToken u) (take (MAX_RECENT_REFRESH_TOKENS - 1) recent))
         | New_session \<Rightarrow> startRefreshTokenChain (us_id u) newHash)
       (ret \<lparr>au_accessToken = cr_access cr (us_id u) (us_email u) (us_role u),
             au_refreshToken = refreshToken, au_user = u\<rparr>)))"

subsection \<open>Registering\<close>

definition hasInvitation :: "string \<Rightarrow> bool account_op" where
  "hasInvitation email =
     reading (\<lambda>ac. list_ex (\<lambda>i. iv_email i = js_toLowerCase email) (w_invitations (ac_db ac)))"

definition linkUserToInvitations :: "string \<Rightarrow> string \<Rightarrow> unit account_op" where
  "linkUserToInvitations userId email =
     updating (set_db (\<lambda>w. w\<lparr>w_invitations :=
       update_rows (\<lambda>i. iv_email i = js_toLowerCase email \<and> iv_candidateId i = None)
         (\<lambda>i. i\<lparr>iv_candidateId := Some userId\<rparr>) (w_invitations w)\<rparr>))"

definition registerCandidate :: "crypto \<Rightarrow> int \<Rightarrow> register_dto \<Rightarrow> string \<Rightarrow> auth_result account_op" where
  "registerCandidate cr windowMs dto email =
     bind_p (hasInvitation email) (\<lambda>invited.
     if \<not> invited then throw NotInvited
     else bind_p random_value (\<lambda>salt.
          bind_p (create_user (blank_user\<lparr>us_email := email, us_passwordHash := cr_hash cr salt (rg_password dto),
            us_fullName := rg_fullName dto, us_role := CANDIDATE\<rparr>)) (\<lambda>u.
          then_p (linkUserToInvitations (us_id u) email) (issueTokens cr windowMs u New_session))))"

text \<open>
  \<open>organisations.createForSignup\<close>, whose choice of a free slug is the parameter
  \<open>slug_for\<close>; the organisation and its first member are one transaction.
\<close>

definition create_owner ::
  "(string \<Rightarrow> organisation_row list \<Rightarrow> string) \<Rightarrow> string \<Rightarrow> user_row \<Rightarrow> user_row account_op" where
  "create_owner slug_for organisationName data =
     bind_p random_value (\<lambda>orgId. (\<lambda>ac.
       let organisation = \<lparr>or_id = orgId, or_name = organisationName,
             or_slug = slug_for organisationName (ac_organisations ac),
             or_logoUrl = None, or_accentColor = None, or_supportEmail = None\<rparr>;
           (r, ac1) = create_user (data\<lparr>us_organisationId := Some orgId\<rparr>) ac
       in case r of
            Inl e \<Rightarrow> (Inl e, ac)
          | Inr u \<Rightarrow> if list_ex (\<lambda>g. or_id g = orgId) (ac_organisations ac) then (Inl DuplicateKey, ac)
                     else (Inr u, ac1\<lparr>ac_organisations := ac_organisations ac @ [organisation]\<rparr>)))"

definition registerRecruiter ::
  "crypto \<Rightarrow> int \<Rightarrow> (string \<Rightarrow> organisation_row list \<Rightarrow> string) \<Rightarrow> register_dto \<Rightarrow> string \<Rightarrow> auth_result account_op" where
  "registerRecruiter cr windowMs slug_for dto email =
     (case truthy (map_option js_trim (rg_organisationName dto)) of
        None \<Rightarrow> throw OrganisationNameRequired
      | Some organisationName \<Rightarrow>
          bind_p random_value (\<lambda>salt.
          bind_p (create_owner slug_for organisationName (blank_user\<lparr>us_email := email,
            us_passwordHash := cr_hash cr salt (rg_password dto), us_fullName := rg_fullName dto,
            us_role := RECRUITER_ADMIN, us_orgRole := Some OWNER\<rparr>)) (\<lambda>u.
          issueTokens cr windowMs u New_session)))"

definition register ::
  "crypto \<Rightarrow> int \<Rightarrow> (string \<Rightarrow> organisation_row list \<Rightarrow> string) \<Rightarrow> register_dto \<Rightarrow> auth_result account_op" where
  "register cr windowMs slug_for dto =
     (let email = js_toLowerCase (js_trim (rg_email dto))
      in bind_p (findByEmail email) (\<lambda>existing.
         if existing \<noteq> None then throw EmailTaken
         else if rg_accountType dto = Some REG_RECRUITER then registerRecruiter cr windowMs slug_for dto email
         else registerCandidate cr windowMs dto email))"

subsection \<open>Signing in and out\<close>

definition assertPortalMatchesRole :: "login_portal option \<Rightarrow> user_role \<Rightarrow> account_error + unit" where
  "assertPortalMatchesRole portal role =
     (case portal of
        None \<Rightarrow> Inr ()
      | Some p \<Rightarrow> if role = (if p = PORTAL_RECRUITER then RECRUITER_ADMIN else CANDIDATE) then Inr ()
                  else Inl (WrongPortal role))"

definition login :: "crypto \<Rightarrow> int \<Rightarrow> login_dto \<Rightarrow> auth_result account_op" where
  "login cr windowMs dto =
     bind_p (findByEmail (lg_email dto)) (\<lambda>u. case u of
       None \<Rightarrow> throw BadCredentials
     | Some u \<Rightarrow>
         if \<not> cr_verify cr (us_passwordHash u) (lg_password dto) then throw BadCredentials
         else if \<not> us_isActive u then throw AccountDeactivated
         else then_p (of_result (assertPortalMatchesRole (lg_portal dto) (us_role u)))
                (issueTokens cr windowMs u New_session))"

text \<open>A refresh after its row has been read; \<open>refresh\<close> is the read and the rest.\<close>

definition refresh_with :: "crypto \<Rightarrow> int \<Rightarrow> user_row option \<Rightarrow> string \<Rightarrow> auth_result account_op" where
  "refresh_with cr windowMs found presentedToken =
     (case found of
        None \<Rightarrow> throw RefreshInvalid
      | Some u \<Rightarrow>
          (case (us_isActive u, us_hashedRefreshToken u) of
             (True, Some current) \<Rightarrow>
               if cr_verify cr current presentedToken then issueTokens cr windowMs u Rotate
               else bind_p (matchesRecentToken cr windowMs u presentedToken) (\<lambda>recent.
                 if recent then issueTokens cr windowMs u Rotate
                 else then_p (clearRefreshTokens (us_id u)) (throw RefreshInvalid))
           | _ \<Rightarrow> throw RefreshInvalid))"

definition refresh :: "crypto \<Rightarrow> int \<Rightarrow> string \<Rightarrow> string \<Rightarrow> auth_result account_op" where
  "refresh cr windowMs userId presentedToken =
     bind_p (findById userId) (\<lambda>found. refresh_with cr windowMs found presentedToken)"

definition logout :: "string \<Rightarrow> unit account_op" where
  "logout userId = clearRefreshTokens userId"

subsection \<open>Password resets\<close>

definition mintResetLink :: "crypto \<Rightarrow> string \<Rightarrow> string account_op" where
  "mintResetLink cr userId =
     bind_p random_value (\<lambda>token.
     bind_p clock_now (\<lambda>now.
     bind_p random_value (\<lambda>i. (\<lambda>ac.
       if list_ex (\<lambda>t. pt_id t = i \<or> pt_tokenHash t = cr_digest cr token) (ac_tokens ac) then (Inl DuplicateKey, ac)
       else (Inr token, ac\<lparr>ac_tokens := ac_tokens ac @ [\<lparr>pt_id = i, pt_userId = userId,
              pt_tokenHash = cr_digest cr token, pt_expiresAt = now + RESET_TOKEN_TTL_MINUTES * 60000,
              pt_usedAt = None\<rparr>]\<rparr>)))))"

definition requestPasswordReset :: "crypto \<Rightarrow> string \<Rightarrow> unit account_op" where
  "requestPasswordReset cr email =
     bind_p (findByEmail (js_toLowerCase (js_trim email))) (\<lambda>u. case u of
       None \<Rightarrow> ret ()
     | Some u \<Rightarrow>
         bind_p (mintResetLink cr (us_id u)) (\<lambda>token.
           try_catch (mail_add (Password_reset_mail (us_email u) token)) (\<lambda>_. ret ())))"

definition issueResetLinkForOperator :: "crypto \<Rightarrow> string \<Rightarrow> string option account_op" where
  "issueResetLinkForOperator cr email =
     bind_p (findByEmail (js_toLowerCase (js_trim email))) (\<lambda>u. case u of
       None \<Rightarrow> ret None
     | Some u \<Rightarrow> bind_p (mintResetLink cr (us_id u)) (\<lambda>token. ret (Some token)))"

text \<open>The statements of \<open>resetPassword\<close>: look the record up, claim it, burn the rest.\<close>

definition reset_lookup :: "crypto \<Rightarrow> string \<Rightarrow> reset_token account_op" where
  "reset_lookup cr token =
     bind_p (reading (\<lambda>ac. List.find (\<lambda>t. pt_tokenHash t = cr_digest cr token) (ac_tokens ac))) (\<lambda>found.
     case found of
       None \<Rightarrow> throw ResetLinkInvalid
     | Some record \<Rightarrow>
         if pt_usedAt record \<noteq> None then throw ResetLinkInvalid
         else bind_p clock_now (\<lambda>now. if pt_expiresAt record < now then throw ResetLinkInvalid else ret record))"

definition mark_used :: "(reset_token \<Rightarrow> bool) \<Rightarrow> int \<Rightarrow> accounts \<Rightarrow> accounts" where
  "mark_used P now ac = ac\<lparr>ac_tokens :=
     update_rows (\<lambda>t. P t \<and> pt_usedAt t = None) (\<lambda>t. t\<lparr>pt_usedAt := Some now\<rparr>) (ac_tokens ac)\<rparr>"

definition reset_claim :: "reset_token \<Rightarrow> unit account_op" where
  "reset_claim record =
     bind_p clock_now (\<lambda>now. (\<lambda>ac.
       let affected = length (filter (\<lambda>t. pt_id t = pt_id record \<and> pt_usedAt t = None) (ac_tokens ac));
           ac' = mark_used (\<lambda>t. pt_id t = pt_id record) now ac
       in if affected = 0 then (Inl ResetLinkInvalid, ac') else (Inr (), ac')))"

definition reset_burn :: "reset_token \<Rightarrow> unit account_op" where
  "reset_burn record = bind_p clock_now (\<lambda>now. updating (mark_used (\<lambda>t. pt_userId t = pt_userId record) now))"

definition resetPassword :: "crypto \<Rightarrow> string \<Rightarrow> string \<Rightarrow> unit account_op" where
  "resetPassword cr token newPassword =
     bind_p (reset_lookup cr token) (\<lambda>record.
     then_p (reset_claim record)
    (then_p (reset_burn record)
    (then_p (setPassword cr (pt_userId record) newPassword)
     (clearRefreshTokens (pt_userId record)))))"

end
