(* ===== verification/Invitations.thy ===== *)
theory Invitations
  imports Auth
begin

section \<open>Inviting candidates\<close>

text \<open>
  \<open>invitations/invitations.service.ts\<close> with \<open>bulk-invite/invite-row-mapper.ts\<close> and
  \<open>candidate-attempt.ts\<close>: inviting one address or a sheet of them, withdrawing, removing
  and rescheduling, the two operations behind a public link, and the candidate's view of
  the own attempt. A spreadsheet row is an object of strings; an \<open>InviteRowError\<close> is one
  of the errors \<open>RecruiterAddress\<close> and \<open>InvalidInviteRow\<close>. Names in a greeting, log lines
  and the address a self-registered candidate came from are left out.
\<close>

subsection \<open>Rows of a sheet\<close>

record invite_row =
  ir_fullName :: string
  ir_email :: string

text \<open>\<open>/^[^\s@]+@[^\s@]+\.[^\s@]+$/\<close>.\<close>

fun dot_inside :: "string \<Rightarrow> bool" where
  "dot_inside (a # b # c # s) \<longleftrightarrow> b = CHR ''.'' \<or> dot_inside (b # c # s)"
| "dot_inside _ \<longleftrightarrow> False"

definition EMAIL_RE :: "string \<Rightarrow> bool" where
  "EMAIL_RE s \<longleftrightarrow>
     (let local_part = takeWhile (\<lambda>c. c \<noteq> CHR ''@'') s;
          rest = dropWhile (\<lambda>c. c \<noteq> CHR ''@'') s
      in \<not> list_ex js_whitespace s \<and> local_part \<noteq> [] \<and>
         (case rest of [] \<Rightarrow> False | _ # domain \<Rightarrow> CHR ''@'' \<notin> set domain \<and> dot_inside domain))"

definition mapInviteRow :: "string jsobj \<Rightarrow> account_error + invite_row" where
  "mapInviteRow row =
     (let email = (case obj_get row ''email'' of None \<Rightarrow> '''' | Some e \<Rightarrow> js_toLowerCase (js_trim e))
      in if email = '''' then Inl (InvalidInviteRow ''missing email'')
         else if \<not> EMAIL_RE email then Inl (InvalidInviteRow email)
         else Inr \<lparr>ir_fullName = js_trim (case obj_get row ''name'' of Some n \<Rightarrow> n
                     | None \<Rightarrow> or_else (obj_get row ''full_name'') ''''),
                   ir_email = email\<rparr>)"

subsection \<open>Rows of the table\<close>

definition owned_assessment :: "string \<Rightarrow> string \<Rightarrow> assessment_row account_op" where
  "owned_assessment i organisationId =
     bind_p (reading (\<lambda>ac. List.find (\<lambda>a. as_id a = i \<and> as_organisationId a = organisationId) (w_assessments (ac_db ac))))
       (\<lambda>found. case found of None \<Rightarrow> throw (NoSuchAssessment i) | Some a \<Rightarrow> ret a)"

definition find_invitation :: "string \<Rightarrow> string \<Rightarrow> invitation_row option account_op" where
  "find_invitation assessmentId email =
     reading (\<lambda>ac. List.find (\<lambda>v. iv_assessmentId v = assessmentId \<and> iv_email v = email) (w_invitations (ac_db ac)))"

text \<open>An insert: the id and the creation time are generated, (assessment, email) is unique.\<close>

definition save_invitation ::
  "string \<Rightarrow> string \<Rightarrow> string option \<Rightarrow> invitation_source \<Rightarrow> invitation_row account_op" where
  "save_invitation assessmentId email candidateId source =
     bind_p random_value (\<lambda>i. bind_p clock_now (\<lambda>now. (\<lambda>ac.
       let v = \<lparr>iv_id = i, iv_assessmentId = assessmentId, iv_email = email, iv_source = source,
                iv_candidateId = candidateId, iv_status = INV_PENDING, iv_opensAt = None,
                iv_expiresAt = None, iv_createdAt = now\<rparr>
       in if list_ex (\<lambda>r. iv_id r = i \<or> iv_assessmentId r = assessmentId \<and> iv_email r = email) (w_invitations (ac_db ac))
          then (Inl DuplicateKey, ac)
          else (Inr v, set_db (\<lambda>w. w\<lparr>w_invitations := w_invitations w @ [v]\<rparr>) ac))))"

definition set_invitation :: "string \<Rightarrow> (invitation_row \<Rightarrow> invitation_row) \<Rightarrow> unit account_op" where
  "set_invitation i f = updating (set_db (\<lambda>w. w\<lparr>w_invitations := update_rows (\<lambda>v. iv_id v = i) f (w_invitations w)\<rparr>))"

definition delete_invitations :: "(invitation_row \<Rightarrow> bool) \<Rightarrow> unit account_op" where
  "delete_invitations P = updating (set_db (\<lambda>w. w\<lparr>w_invitations := filter (\<lambda>v. \<not> P v) (w_invitations w)\<rparr>))"

definition invitation_findOneOrThrow :: "string \<Rightarrow> string \<Rightarrow> invitation_row account_op" where
  "invitation_findOneOrThrow invitationId organisationId =
     bind_p (reading (\<lambda>ac. List.find (\<lambda>v. iv_id v = invitationId \<and> belongs_to ac (iv_assessmentId v) organisationId)
       (w_invitations (ac_db ac)))) (\<lambda>found.
     case found of None \<Rightarrow> throw InvitationMissing | Some v \<Rightarrow> ret v)"

subsection \<open>What a recruiter sees\<close>

record window_view =
  wv_overrideOpensAt :: "int option"
  wv_overrideExpiresAt :: "int option"
  wv_opensAt :: "int option"
  wv_closesAt :: "int option"
  wv_state :: window_state

definition windowViewOf :: "invitation_row \<Rightarrow> assessment_row \<Rightarrow> int \<Rightarrow> window_view" where
  "windowViewOf v a now =
     (let w = effectiveWindow \<lparr>wn_opensAt = as_opensAt a, wn_closesAt = as_closesAt a\<rparr> (iv_opensAt v) (iv_expiresAt v)
      in \<lparr>wv_overrideOpensAt = iv_opensAt v, wv_overrideExpiresAt = iv_expiresAt v,
          wv_opensAt = wn_opensAt w, wv_closesAt = wn_closesAt w, wv_state = windowState w now\<rparr>)"

record invitation_view =
  vi_id :: string
  vi_email :: string
  vi_status :: invitation_status
  vi_registered :: bool
  vi_candidateName :: "string option"
  vi_createdAt :: int
  vi_window :: "window_view option"

text \<open>\<open>toView\<close>, with the assessment relation the caller loaded, if it did.\<close>

definition invitation_toView :: "invitation_row \<Rightarrow> assessment_row option \<Rightarrow> invitation_view account_op" where
  "invitation_toView v a =
     bind_p (reading (\<lambda>ac. users_where (\<lambda>u. Some (us_id u) = iv_candidateId v) ac)) (\<lambda>candidate.
     bind_p clock_now (\<lambda>now.
     ret \<lparr>vi_id = iv_id v, vi_email = iv_email v, vi_status = iv_status v, vi_registered = (iv_candidateId v \<noteq> None),
          vi_candidateName = map_option us_fullName candidate, vi_createdAt = iv_createdAt v,
          vi_window = map_option (\<lambda>a. windowViewOf v a now) a\<rparr>))"

definition reload_invitation :: "string \<Rightarrow> invitation_row account_op" where
  "reload_invitation i =
     bind_p (reading (\<lambda>ac. List.find (\<lambda>v. iv_id v = i) (w_invitations (ac_db ac)))) (\<lambda>found.
     case found of None \<Rightarrow> throw InvitationMissing | Some v \<Rightarrow> ret v)"

subsection \<open>Inviting\<close>

definition enqueueInvite :: "crypto \<Rightarrow> string \<Rightarrow> string \<Rightarrow> string \<Rightarrow> unit account_op" where
  "enqueueInvite cr email candidateName assessmentTitle =
     bind_p (provisionCandidateForInvite cr email candidateName) (\<lambda>provisioned.
     then_p (case provisioned of None \<Rightarrow> ret () | Some (userId, _) \<Rightarrow> linkUserToInvitations userId email)
       (try_catch (mail_add (Invite_mail email assessmentTitle (map_option snd provisioned))) (\<lambda>_. ret ())))"

definition inviteOne :: "crypto \<Rightarrow> string \<Rightarrow> string \<Rightarrow> string \<Rightarrow> string \<Rightarrow> (bool \<times> invitation_row) account_op" where
  "inviteOne cr assessmentId assessmentTitle email fullName =
     bind_p (findByEmail email) (\<lambda>existingUser.
     if (case existingUser of None \<Rightarrow> False | Some u \<Rightarrow> us_role u = RECRUITER_ADMIN) then throw RecruiterAddress
     else bind_p (find_invitation assessmentId email) (\<lambda>already.
       case already of
         Some v \<Rightarrow> ret (False, v)
       | None \<Rightarrow> bind_p (save_invitation assessmentId email (map_option us_id existingUser) By_recruiter) (\<lambda>v.
           then_p (enqueueInvite cr email fullName assessmentTitle) (ret (True, v)))))"

definition inviteSingle ::
  "crypto \<Rightarrow> string \<Rightarrow> string \<Rightarrow> string option \<Rightarrow> string \<Rightarrow> invitation_view account_op" where
  "inviteSingle cr assessmentId rawEmail fullName organisationId =
     bind_p (owned_assessment assessmentId organisationId) (\<lambda>assessment.
     let email = js_toLowerCase (js_trim rawEmail)
     in bind_p (inviteOne cr assessmentId (as_title assessment) email (js_trim (or_else fullName '''')))
          (\<lambda>(created, invitation).
        if \<not> created then throw (AlreadyInvited email)
        else bind_p (reload_invitation (iv_id invitation)) (\<lambda>v. invitation_toView v (Some assessment))))"

record invite_failure =
  if_row :: nat
  if_email :: "string option"
  if_reason :: account_error

record bulk_invite_result =
  bi_totalRows :: nat
  bi_invited :: nat
  bi_skipped :: nat
  bi_failures :: "invite_failure list"

text \<open>What becomes of one row, and the loop over them with the addresses already seen.\<close>

datatype invite_outcome = Row_invited | Row_skipped | Row_failed invite_failure

definition invite_one_row ::
  "crypto \<Rightarrow> string \<Rightarrow> string \<Rightarrow> string list \<Rightarrow> nat \<Rightarrow> string jsobj \<Rightarrow> (invite_outcome \<times> string list) account_op" where
  "invite_one_row cr assessmentId assessmentTitle seen index raw =
     (let failed = (\<lambda>e. Row_failed \<lparr>if_row = index + 2, if_email = map_option js_trim (obj_get raw ''email''), if_reason = e\<rparr>)
      in case mapInviteRow raw of
           Inl e \<Rightarrow> ret (failed e, seen)
         | Inr r \<Rightarrow>
             if ir_email r \<in> set seen then ret (Row_skipped, seen)
             else try_catch
               (bind_p (inviteOne cr assessmentId assessmentTitle (ir_email r) (ir_fullName r)) (\<lambda>(created, _).
                  ret (if created then Row_invited else Row_skipped, ir_email r # seen)))
               (\<lambda>e. ret (failed e, ir_email r # seen)))"

fun invite_rows ::
  "crypto \<Rightarrow> string \<Rightarrow> string \<Rightarrow> string list \<Rightarrow> nat \<Rightarrow> string jsobj list \<Rightarrow> invite_outcome list account_op" where
  "invite_rows cr assessmentId assessmentTitle seen index [] = ret []"
| "invite_rows cr assessmentId assessmentTitle seen index (raw # rows) =
     bind_p (invite_one_row cr assessmentId assessmentTitle seen index raw) (\<lambda>(out, seen').
     bind_p (invite_rows cr assessmentId assessmentTitle seen' (Suc index) rows) (\<lambda>outs. ret (out # outs)))"

definition failures_of :: "invite_outcome list \<Rightarrow> invite_failure list" where
  "failures_of outs = List.map_filter (\<lambda>x. case x of Row_failed f \<Rightarrow> Some f | _ \<Rightarrow> None) outs"

definition bulkInvite :: "crypto \<Rightarrow> string \<Rightarrow> string jsobj list \<Rightarrow> string \<Rightarrow> bulk_invite_result account_op" where
  "bulkInvite cr assessmentId rows organisationId =
     bind_p (owned_assessment assessmentId organisationId) (\<lambda>assessment.
     bind_p (invite_rows cr assessmentId (as_title assessment) [] 0 rows) (\<lambda>outs.
     ret \<lparr>bi_totalRows = length rows, bi_invited = count_list outs Row_invited, bi_skipped = count_list outs Row_skipped,
          bi_failures = failures_of outs\<rparr>))"

subsection \<open>Withdrawing and moving\<close>

definition removeInvitation :: "string \<Rightarrow> string \<Rightarrow> bool account_op" where
  "removeInvitation invitationId organisationId =
     bind_p (invitation_findOneOrThrow invitationId organisationId) (\<lambda>invitation.
     bind_p (reading (\<lambda>ac. list_ex (\<lambda>s. sr_invitationId s = invitationId) (w_sessions (ac_db ac)))) (\<lambda>session.
     if session then throw (AlreadyStarted (iv_email invitation))
     else then_p (delete_invitations (\<lambda>v. iv_id v = invitationId))
            (deleteProvisionedIfUnused (iv_email invitation))))"

definition revokeInvitation :: "string \<Rightarrow> string \<Rightarrow> invitation_view account_op" where
  "revokeInvitation invitationId organisationId =
     bind_p (invitation_findOneOrThrow invitationId organisationId) (\<lambda>invitation.
     then_p (if iv_status invitation \<noteq> INV_REVOKED
             then set_invitation invitationId (\<lambda>v. v\<lparr>iv_status := INV_REVOKED\<rparr>) else ret ())
       (bind_p (reload_invitation invitationId) (\<lambda>v. invitation_toView v None)))"

text \<open>A change is absent, or sets the override to a date or to null.\<close>

definition reschedule ::
  "string \<Rightarrow> string \<Rightarrow> int option option \<Rightarrow> int option option \<Rightarrow> invitation_view account_op" where
  "reschedule invitationId organisationId opensAt expiresAt =
     bind_p (reading (\<lambda>ac. List.find (\<lambda>v. iv_id v = invitationId) (w_invitations (ac_db ac)))) (\<lambda>found.
     bind_p (reading (\<lambda>ac. case found of None \<Rightarrow> None
        | Some v \<Rightarrow> List.find (\<lambda>a. as_id a = iv_assessmentId v \<and> as_organisationId a = organisationId) (w_assessments (ac_db ac))))
     (\<lambda>a. case (found, a) of
        (Some v, Some a) \<Rightarrow>
          let v' = v\<lparr>iv_opensAt := or_else opensAt (iv_opensAt v), iv_expiresAt := or_else expiresAt (iv_expiresAt v)\<rparr>;
              w = effectiveWindow \<lparr>wn_opensAt = as_opensAt a, wn_closesAt = as_closesAt a\<rparr> (iv_opensAt v') (iv_expiresAt v')
          in (case (wn_opensAt w, wn_closesAt w) of
                (Some s, Some e) \<Rightarrow>
                  if s \<ge> e then throw WindowReversed
                  else then_p (set_invitation invitationId (\<lambda>_. v')) (invitation_toView v' (Some a))
              | _ \<Rightarrow> then_p (set_invitation invitationId (\<lambda>_. v')) (invitation_toView v' (Some a)))
      | _ \<Rightarrow> throw InvitationMissing))"

subsection \<open>Behind a public link\<close>

definition createSelfRegistered ::
  "string \<Rightarrow> string \<Rightarrow> string option \<Rightarrow> (bool \<times> invitation_row) account_op" where
  "createSelfRegistered assessmentId email candidateId =
     (let normalised = js_toLowerCase (js_trim email)
      in bind_p (find_invitation assessmentId normalised) (\<lambda>already. case already of
           Some v \<Rightarrow> ret (False, v)
         | None \<Rightarrow> bind_p (save_invitation assessmentId normalised candidateId Self_registered) (\<lambda>v. ret (True, v))))"

definition discardSelfRegistered :: "string \<Rightarrow> unit account_op" where
  "discardSelfRegistered invitationId =
     delete_invitations (\<lambda>v. iv_id v = invitationId \<and> iv_source v = Self_registered \<and> iv_status v = INV_PENDING)"

end
