(* ===== verification/Report_Data.thy ===== *)
theory Report_Data
  imports Report_Properties Assessments Invitations
begin

section \<open>What a report is computed from\<close>

text \<open>
  The reading half of \<open>reports/reports.service.ts\<close>, with \<open>reports/attempt-timing.ts\<close> and
  \<open>invitations/candidate-branding.ts\<close>: the summary of each module from the stored results,
  the evidence behind each answer, and the standing of the attempts at one assessment. What
  an option says about behaviour, which is only displayed, is left out.
\<close>

subsection \<open>Text\<close>

fun digits :: "nat \<Rightarrow> string" where
  "digits n = (if n < 10 then [char_of (48 + n)] else digits (n div 10) @ [char_of (48 + n mod 10)])"

declare digits.simps [simp del]

text \<open>\<open>s.split(c)\<close> for one character, and \<open>xs.join(s)\<close>.\<close>

fun split_on :: "char \<Rightarrow> string \<Rightarrow> string list" where
  "split_on c [] = [[]]"
| "split_on c (x # xs) =
     (if x = c then [] # split_on c xs
      else (case split_on c xs of [] \<Rightarrow> [[x]] | w # ws \<Rightarrow> (x # w) # ws))"

fun join_with :: "string \<Rightarrow> string list \<Rightarrow> string" where
  "join_with sep [] = []"
| "join_with sep [w] = w"
| "join_with sep (w # v # ws) = w @ sep @ join_with sep (v # ws)"

definition upper_char :: "char \<Rightarrow> char" where
  "upper_char c = (if of_char c \<in> {97..122 :: nat} then char_of (of_char c - 32 :: nat) else c)"

definition capitalise :: "string \<Rightarrow> string" where
  "capitalise word = (case word of [] \<Rightarrow> [] | c # cs \<Rightarrow> upper_char c # cs)"

definition humanise :: "string \<Rightarrow> string" where
  "humanise key = join_with '' '' (map capitalise (split_on CHR ''_'' key))"

subsection \<open>Time\<close>

record attempt_timing =
  tm_startedAt :: int
  tm_submittedAt :: "int option"
  tm_elapsedSeconds :: "int option"
  tm_timeOnQuestionsSeconds :: "int option"
  tm_autoSubmitted :: bool

definition attemptTiming :: "session_row \<Rightarrow> int list option \<Rightarrow> attempt_timing" where
  "attemptTiming session timeTakenMs =
     \<lparr>tm_startedAt = sr_startedAt session, tm_submittedAt = sr_submittedAt session,
      tm_elapsedSeconds = map_option (\<lambda>submittedAt.
        max 0 (js_round (real_of_int (submittedAt - sr_startedAt session) / 1000))) (sr_submittedAt session),
      tm_timeOnQuestionsSeconds = map_option (\<lambda>ts.
        js_round (real_of_int (foldl (\<lambda>total ms. total + ms) 0 ts) / 1000)) timeTakenMs,
      tm_autoSubmitted = (sr_status session = SESS_AUTO_SUBMITTED)\<rparr>"

definition padStart2 :: "string \<Rightarrow> string" where
  "padStart2 s = replicate (2 - length s) CHR ''0'' @ s"

definition formatDuration :: "nat \<Rightarrow> string" where
  "formatDuration seconds =
     (if seconds < 60 then digits seconds @ ''s''
      else let minutes = seconds div 60; rest = seconds mod 60
           in if minutes < 60
              then (if rest = 0 then digits minutes @ ''m'' else digits minutes @ ''m '' @ digits rest @ ''s'')
              else digits (minutes div 60) @ ''h '' @ padStart2 (digits (minutes mod 60)) @ ''m'')"

subsection \<open>Branding\<close>

record branding =
  bd_name :: string
  bd_logoUrl :: "string option"
  bd_accentColor :: "string option"
  bd_supportEmail :: "string option"

text \<open>\<open>a ?? b\<close> where both may be null.\<close>

definition coalesce :: "'a option \<Rightarrow> 'a option \<Rightarrow> 'a option" where
  "coalesce a b = (case a of None \<Rightarrow> b | Some x \<Rightarrow> Some x)"

definition resolveBranding :: "organisation_row option \<Rightarrow> company_row option \<Rightarrow> string option \<Rightarrow> branding" where
  "resolveBranding organisation company platformSupportEmail =
     \<lparr>bd_name = or_else (coalesce (map_option co_name company) (map_option or_name organisation)) ''AdaptiveHire'',
      bd_logoUrl = coalesce (Option.bind company co_logoUrl) (Option.bind organisation or_logoUrl),
      bd_accentColor = coalesce (Option.bind company co_accentColor) (Option.bind organisation or_accentColor),
      bd_supportEmail = coalesce (Option.bind company co_supportEmail)
        (coalesce (Option.bind organisation or_supportEmail) platformSupportEmail)\<rparr>"

subsection \<open>The summary of a module\<close>

definition buildTraits :: "module_result_row \<Rightarrow> module_entry \<Rightarrow> reported_trait list \<times> bool" where
  "buildTraits result m =
     (case mr_traitScores result of
        None \<Rightarrow> ([], False)
      | Some scores \<Rightarrow>
          let definitions = or_else (me_traits m) [];
              overlaps = list_ex (\<lambda>d. td_key d \<in> set (obj_keys scores)) definitions
          in if \<not> overlaps \<and> obj_keys scores \<noteq> []
             then (map (\<lambda>(key, s). \<lparr>rt_key = key, rt_label = humanise key, rt_score = round1 (ts_score s),
                     rt_confidence = ts_confidence s, rt_consistency = ts_consistency s\<rparr>) scores, True)
             else (map (\<lambda>d.
                 let measured = obj_get scores (td_key d); raw = or_else (map_option ts_score measured) 50
                 in \<lparr>rt_key = td_key d, rt_label = td_label d,
                     rt_score = (if td_invertForReport d then round1 (100 - raw) else round1 raw),
                     rt_confidence = or_else (map_option ts_confidence measured) 0,
                     rt_consistency = Option.bind measured ts_consistency\<rparr>) definitions, False))"

definition moduleConsistency :: "reported_trait list \<Rightarrow> real option" where
  "moduleConsistency traits =
     (let measured = List.map_filter rt_consistency traits
      in if measured = [] then None else Some (round2 (mean measured)))"

text \<open>\<open>new Map(traits.map(...)).get(key)\<close>: the last trait of a key.\<close>

definition label_in :: "trait_definition list \<Rightarrow> string \<Rightarrow> string" where
  "label_in traits key =
     or_else (map_option td_label (List.find (\<lambda>t. td_key t = key) (rev traits))) (humanise key)"

definition buildProbes :: "module_result_row \<Rightarrow> module_entry \<Rightarrow> probe_summary_view option" where
  "buildProbes result m =
     (case mr_probeResults result of
        None \<Rightarrow> None
      | Some stored \<Rightarrow>
          if pr_pairs stored = [] then None
          else Some \<lparr>pv_agreement = pr_agreement stored, pv_resolved = pr_resolved stored, pv_unresolved = pr_unresolved stored,
            pv_pairs = map (\<lambda>pair. \<lparr>rp_firstSequence = pp_firstSequence pair, rp_secondSequence = pp_secondSequence pair,
              rp_agreement = pp_agreement pair, rp_flipped = pp_flipped pair,
              rp_divergentTraits = map (\<lambda>t. \<lparr>dt_key = dv_key t, dt_label = label_in (or_else (me_traits m) []) (dv_key t),
                dt_first = dv_first t, dt_second = dv_second t\<rparr>) (pp_divergentTraits pair)\<rparr>) (pr_pairs stored)\<rparr>)"

text \<open>The number of options of each question answered, by module; then what chance expects.\<close>

definition option_counts :: "bank \<Rightarrow> response_row list \<Rightarrow> nat list jsobj" where
  "option_counts bank answers =
     foldl (\<lambda>byModule answer.
       let options = (case Option.bind (find_question bank (rs_questionId answer)) q_mcqDetails of
             None \<Rightarrow> 0 | Some d \<Rightarrow> length (md_options d))
       in obj_set (rs_moduleId answer) (or_else (obj_get byModule (rs_moduleId answer)) [] @ [options]) byModule) [] answers"

definition expectedByChance :: "bank \<Rightarrow> response_row list \<Rightarrow> real jsobj" where
  "expectedByChance bank answers =
     List.map_filter (\<lambda>(moduleId, counts). map_option (Pair moduleId) (expectedCorrectByChance counts))
       (option_counts bank answers)"

definition module_summary_of ::
  "assessment_module list \<Rightarrow> real jsobj \<Rightarrow> module_result_row \<times> module_entry \<Rightarrow> module_summary" where
  "module_summary_of configs chance = (\<lambda>(result, m).
     let ability = mr_abilityScore result; isObjective = (me_scoringType m = OBJECTIVE);
         (traits, legacyTraitModel) = buildTraits result m
     in \<lparr>mu_moduleId = mr_moduleId result, mu_name = me_name m, mu_slug = me_slug m, mu_scoringType = me_scoringType m,
         mu_abilityScore = (if isObjective then ability else None),
         mu_score = (if isObjective then map_option normaliseAbility ability else None),
         mu_questionsAnswered = mr_questionsAnswered result, mu_questionsCorrect = mr_questionsCorrect result,
         mu_expectedByChance = (if isObjective then obj_get chance (mr_moduleId result) else None),
         mu_questionCount = or_else (map_option am_questionCount (List.find (\<lambda>c. am_moduleId c = mr_moduleId result) configs)) 0,
         mu_traits = traits, mu_consistency = moduleConsistency traits, mu_probes = buildProbes result m,
         mu_legacyTraitModel = legacyTraitModel\<rparr>)"

text \<open>In the order of the assessment; each result with its module of the catalogue.\<close>

definition ordered_results :: "assessment_module list \<Rightarrow> module_result_row list \<Rightarrow> module_result_row list" where
  "ordered_results configs results =
     List.map_filter (\<lambda>c. List.find (\<lambda>r. mr_moduleId r = am_moduleId c) results) configs"

definition module_entry_of :: "module_entry list \<Rightarrow> string \<Rightarrow> module_entry option" where
  "module_entry_of catalogue i = List.find (\<lambda>m. me_id m = i) catalogue"

definition with_entry :: "module_entry list \<Rightarrow> module_result_row \<Rightarrow> (module_result_row \<times> module_entry) option" where
  "with_entry catalogue r = map_option (Pair r) (module_entry_of catalogue (mr_moduleId r))"

definition buildModuleSummaries :: "module_entry list \<Rightarrow> world \<Rightarrow> session_row \<Rightarrow> module_summary list" where
  "buildModuleSummaries catalogue w session =
     (let results = filter (\<lambda>r. mr_sessionId r = sr_id session) (w_results w);
          configs = (case List.find (\<lambda>a. as_id a = sr_assessmentId session) (w_assessments w) of
            None \<Rightarrow> [] | Some a \<Rightarrow> as_modules a);
          chance = expectedByChance (w_bank w) (filter (\<lambda>r. rs_sessionId r = sr_id session) (w_responses w))
      in map (module_summary_of configs chance) (List.map_filter (with_entry catalogue) (ordered_results configs results)))"

subsection \<open>The evidence behind an answer\<close>

datatype probe_role = First_half | Twin_half

record probe_answer_link =
  pk_role :: probe_role
  pk_partnerSequence :: "nat option"
  pk_gap :: "int option"
  pk_agreement :: "real option"
  pk_flipped :: "bool option"

definition link_pair :: "(nat \<times> probe_answer_link) list \<Rightarrow> probe_pair \<Rightarrow> (nat \<times> probe_answer_link) list" where
  "link_pair links pair =
     (let gap = map_option (\<lambda>s. int s - int (pp_firstSequence pair)) (pp_secondSequence pair);
          links' = AList.update (pp_firstSequence pair) \<lparr>pk_role = First_half, pk_partnerSequence = pp_secondSequence pair,
            pk_gap = gap, pk_agreement = pp_agreement pair, pk_flipped = pp_flipped pair\<rparr> links
      in case pp_secondSequence pair of
           None \<Rightarrow> links'
         | Some s \<Rightarrow> AList.update s \<lparr>pk_role = Twin_half, pk_partnerSequence = Some (pp_firstSequence pair),
             pk_gap = gap, pk_agreement = pp_agreement pair, pk_flipped = pp_flipped pair\<rparr> links')"

definition probeLinksFor :: "module_result_row list \<Rightarrow> (nat \<times> probe_answer_link) list" where
  "probeLinksFor results =
     foldl link_pair [] (concat (map (\<lambda>r. case mr_probeResults r of None \<Rightarrow> [] | Some p \<Rightarrow> pr_pairs p) results))"

definition contributionsFor :: "question \<Rightarrow> response_row \<Rightarrow> real jsobj" where
  "contributionsFor q answer =
     (case q_personalityDetails q of
        None \<Rightarrow> []
      | Some details \<Rightarrow>
          (case (rs_selectedOptions answer, truthy (rs_selectedOption answer)) of
             (Some (k # ks), _) \<Rightarrow>
               (case evaluateRanking details (k # ks) of Inl e \<Rightarrow> [] | Inr r \<Rightarrow> er_traitWeights r)
           | (_, Some k) \<Rightarrow>
               (case evaluatePersonality details k of Inl e \<Rightarrow> [] | Inr r \<Rightarrow> er_traitWeights r)
           | _ \<Rightarrow> []))"

record trait_contribution =
  tc_key :: string
  tc_label :: string
  tc_weight :: real

record answer_detail =
  an_sequenceNumber :: nat
  an_moduleName :: string
  an_questionText :: string
  an_selectedOption :: "string option"
  an_selectedOptionText :: "string option"
  an_correctOption :: "string option"
  an_isCorrect :: "bool option"
  an_difficultyAtServe :: "real option"
  an_abilityAfter :: "real option"
  an_timeTakenMs :: int
  an_pattern :: "behavioral_pattern option"
  an_ranking :: "(string \<times> string) list option"
  an_probe :: "probe_answer_link option"
  an_traitContributions :: "trait_contribution list"

text \<open>The options of a question, of either kind, as keys and texts.\<close>

definition question_options :: "question \<Rightarrow> (string \<times> string) list" where
  "question_options q =
     (case q_mcqDetails q of
        Some d \<Rightarrow> map (\<lambda>opt. (mo_key opt, mo_text opt)) (md_options d)
      | None \<Rightarrow> (case q_personalityDetails q of
          Some d \<Rightarrow> map (\<lambda>opt. (po_key opt, po_text opt)) (pd_options d)
        | None \<Rightarrow> []))"

definition ranked_choice :: "question \<Rightarrow> string \<Rightarrow> string \<times> string" where
  "ranked_choice q key =
     (key, or_else (map_option po_text (List.find (\<lambda>opt. po_key opt = key)
       (case q_personalityDetails q of None \<Rightarrow> [] | Some d \<Rightarrow> pd_options d))) key)"

text \<open>One row of the detail, its label index built from the modules of all answers.\<close>

definition trait_labels :: "(response_row \<times> module_entry \<times> question) list \<Rightarrow> string jsobj" where
  "trait_labels answers =
     foldl (\<lambda>labels (answer, m, q).
       foldl (\<lambda>labels t. obj_set (rs_moduleId answer @ '':'' @ td_key t) (td_label t) labels) labels (or_else (me_traits m) []))
       [] answers"

definition answer_detail_of ::
  "string jsobj \<Rightarrow> (nat \<times> probe_answer_link) list \<Rightarrow> response_row \<times> module_entry \<times> question \<Rightarrow> answer_detail" where
  "answer_detail_of labels links = (\<lambda>(answer, m, q).
     \<lparr>an_sequenceNumber = rs_sequenceNumber answer, an_moduleName = me_name m, an_questionText = q_questionText q,
      an_selectedOption = rs_selectedOption answer,
      an_selectedOptionText = Option.bind (rs_selectedOption answer) (map_of (question_options q)),
      an_correctOption = map_option md_correctOption (q_mcqDetails q), an_isCorrect = rs_isCorrect answer,
      an_difficultyAtServe = rs_questionDifficultyAtServe answer, an_abilityAfter = rs_abilityEstimateAfter answer,
      an_timeTakenMs = rs_timeTakenMs answer, an_pattern = Option.bind (q_personalityDetails q) pd_pattern,
      an_ranking = map_option (map (ranked_choice q)) (rs_selectedOptions answer),
      an_probe = map_of links (rs_sequenceNumber answer),
      an_traitContributions = sort_desc (\<lambda>t. \<bar>tc_weight t\<bar>) (map (\<lambda>(key, weight).
        \<lparr>tc_key = key, tc_label = or_else (obj_get labels (rs_moduleId answer @ '':'' @ key)) (humanise key),
         tc_weight = round2 weight\<rparr>) (contributionsFor q answer))\<rparr>)"

text \<open>The stored answers of a session in their order, with module and question joined.\<close>

definition joined_answers ::
  "module_entry list \<Rightarrow> world \<Rightarrow> string \<Rightarrow> (response_row \<times> module_entry \<times> question) list" where
  "joined_answers catalogue w sessionId =
     List.map_filter (\<lambda>r.
       case (module_entry_of catalogue (rs_moduleId r), find_question (w_bank w) (rs_questionId r)) of
         (Some m, Some q) \<Rightarrow> Some (r, m, q)
       | _ \<Rightarrow> None)
     (sort_key rs_sequenceNumber (filter (\<lambda>r. rs_sessionId r = sessionId) (w_responses w)))"

definition answer_details :: "module_entry list \<Rightarrow> world \<Rightarrow> string \<Rightarrow> answer_detail list" where
  "answer_details catalogue w sessionId =
     (let answers = joined_answers catalogue w sessionId;
          links = probeLinksFor (filter (\<lambda>r. mr_sessionId r = sessionId) (w_results w))
      in map (answer_detail_of (trait_labels answers) links) answers)"

end
