(* ===== verification/Report_Service.thy ===== *)
theory Report_Service
  imports Report_Data
begin

section \<open>Reports, standings and reviews\<close>

text \<open>
  The rest of \<open>reports/reports.service.ts\<close>: generating and reading reports, the attempts
  of an assessment with their standing, and what a recruiting team decides and writes. The
  state is the accounts with the tables the reports add. The spreadsheet and PDF files are
  left out up to the choice and order of their rows, as are time stamps that are only shown.
  A row that a foreign key guarantees and that is missing all the same is the error
  \<open>BrokenReference\<close>. \<open>platformSupportEmail\<close> is the configured address.
\<close>

datatype review_decision = SHORTLISTED | REJECTED

record report_row =
  rw_sessionId :: string
  rw_summary :: "sentence list"
  rw_strengths :: "finding list"
  rw_weaknesses :: "finding list"
  rw_hiringRecommendation :: "hiring_recommendation option"
  rw_overallScore :: "real option"
  rw_abilityScore :: "real option"
  rw_behavioralScore :: "real option"
  rw_generatedAt :: "int option"

record review_row =
  rv_id :: string
  rv_sessionId :: string
  rv_organisationId :: string
  rv_decision :: "review_decision option"
  rv_tags :: "string list"
  rv_note :: "string option"
  rv_rejectionEmailSentAt :: "int option"
  rv_updatedById :: "string option"

record message_row =
  cm_id :: string
  cm_sessionId :: string
  cm_organisationId :: string
  cm_body :: string
  cm_sentTo :: string
  cm_sentById :: "string option"
  cm_sentAt :: int

record proctoring_log =
  pg_sessionId :: string
  pg_eventType :: proctoring_event
  pg_occurredAt :: int

record desk =
  dk_accounts :: accounts
  dk_modules :: "module_entry list"
  dk_companies :: "company_row list"
  dk_companyOf :: "(string \<times> string) list"
  dk_createdBy :: "(string \<times> string) list"
  dk_reports :: "report_row list"
  dk_reviews :: "review_row list"
  dk_messages :: "message_row list"
  dk_logs :: "proctoring_log list"
  dk_platformSupportEmail :: "string option"

abbreviation dk_world :: "desk \<Rightarrow> world" where
  "dk_world d \<equiv> ac_db (dk_accounts d)"

datatype desk_error =
    SessionMissing string
  | CohortMissing string
  | AlreadyTold
  | MarkRejectedFirst
  | AlreadySent int
  | NothingToSend
  | BrokenReference
  | DeskDuplicate
  | OrganisationMissing
  | CompanyMissing
  | CompanyNameTaken string
  | AccountError account_error

type_synonym 'a desk_op = "(desk_error, desk, 'a) prog"

definition on_accounts :: "'a account_op \<Rightarrow> 'a desk_op" where
  "on_accounts m = (\<lambda>d. let (r, ac) = m (dk_accounts d) in (map_sum AccountError id r, d\<lparr>dk_accounts := ac\<rparr>))"

text \<open>A value that must be there.\<close>

definition expecting :: "desk_error \<Rightarrow> 'a option \<Rightarrow> 'a desk_op" where
  "expecting e x = (case x of None \<Rightarrow> throw e | Some y \<Rightarrow> ret y)"

subsection \<open>Sessions\<close>

record loaded_session =
  ld_session :: session_row
  ld_candidate :: user_row
  ld_assessment :: assessment_row
  ld_source :: invitation_source

definition join_session :: "desk \<Rightarrow> session_row \<Rightarrow> loaded_session option" where
  "join_session d s =
     (case (List.find (\<lambda>u. us_id u = sr_candidateId s) (ac_users (dk_accounts d)),
            List.find (\<lambda>a. as_id a = sr_assessmentId s) (w_assessments (dk_world d))) of
        (Some u, Some a) \<Rightarrow> Some \<lparr>ld_session = s, ld_candidate = u, ld_assessment = a,
          ld_source = or_else (map_option iv_source
            (List.find (\<lambda>v. iv_id v = sr_invitationId s) (w_invitations (dk_world d)))) By_recruiter\<rparr>
      | _ \<Rightarrow> None)"

definition load_where :: "(desk \<Rightarrow> session_row \<Rightarrow> bool) \<Rightarrow> string \<Rightarrow> loaded_session desk_op" where
  "load_where P sessionId =
     bind_p (reading (\<lambda>d. (List.find (\<lambda>s. sr_id s = sessionId \<and> P d s) (w_sessions (dk_world d)), d))) (\<lambda>(found, d).
     bind_p (expecting (SessionMissing sessionId) found) (\<lambda>s. expecting BrokenReference (join_session d s)))"

definition loadUnscoped :: "string \<Rightarrow> loaded_session desk_op" where
  "loadUnscoped sessionId = load_where (\<lambda>d s. True) sessionId"

definition loadSession :: "string \<Rightarrow> string \<Rightarrow> loaded_session desk_op" where
  "loadSession sessionId organisationId =
     load_where (\<lambda>d s. belongs_to (dk_accounts d) (sr_assessmentId s) organisationId) sessionId"

subsection \<open>Generating\<close>

definition countViolations :: "proctoring_log list \<Rightarrow> string \<Rightarrow> violation_count list" where
  "countViolations logs sessionId =
     (let mine = map pg_eventType (filter (\<lambda>l. pg_sessionId l = sessionId) logs)
      in map (\<lambda>e. (e, count_list mine e)) (js_set mine))"

definition upsert_report :: "report_row \<Rightarrow> report_row list \<Rightarrow> report_row list" where
  "upsert_report row rows =
     (if list_ex (\<lambda>r. rw_sessionId r = rw_sessionId row) rows
      then update_rows (\<lambda>r. rw_sessionId r = rw_sessionId row) (\<lambda>_. row) rows else rows @ [row])"

definition report_of :: "desk \<Rightarrow> loaded_session \<Rightarrow> built_report" where
  "report_of d ld =
     buildReport \<lparr>ri_candidateName = us_fullName (ld_candidate ld), ri_assessmentTitle = as_title (ld_assessment ld),
       ri_sessionStatus = sr_status (ld_session ld),
       ri_modules = buildModuleSummaries (dk_modules d) (dk_world d) (ld_session ld),
       ri_violations = countViolations (dk_logs d) (sr_id (ld_session ld))\<rparr>"

definition report_row_of :: "string \<Rightarrow> built_report \<Rightarrow> int \<Rightarrow> report_row" where
  "report_row_of sessionId built now =
     \<lparr>rw_sessionId = sessionId, rw_summary = br_summary built, rw_strengths = br_strengths built,
      rw_weaknesses = br_weaknesses built, rw_hiringRecommendation = br_hiringRecommendation built,
      rw_overallScore = br_overallScore built, rw_abilityScore = br_abilityScore built,
      rw_behavioralScore = br_behavioralScore built, rw_generatedAt = Some now\<rparr>"

definition completion_recipient :: "desk \<Rightarrow> assessment_row \<Rightarrow> user_row option" where
  "completion_recipient d a =
     (let creator = List.find (\<lambda>u. map_of (dk_createdBy d) (as_id a) = Some (us_id u)) (ac_users (dk_accounts d))
      in if (case creator of None \<Rightarrow> False | Some u \<Rightarrow> us_isActive u) then creator
         else List.find (\<lambda>u. us_organisationId u = Some (as_organisationId a) \<and> us_orgRole u = Some OWNER \<and> us_isActive u)
           (ac_users (dk_accounts d)))"

definition notifyCompletion :: "loaded_session \<Rightarrow> unit desk_op" where
  "notifyCompletion ld =
     try_catch
       (bind_p (reading (\<lambda>d. completion_recipient d (ld_assessment ld))) (\<lambda>recipient. case recipient of
          None \<Rightarrow> ret ()
        | Some u \<Rightarrow> on_accounts (mail_add (Completed_mail (us_email u) (us_fullName u) (us_fullName (ld_candidate ld))
            (as_title (ld_assessment ld)) (''/admin/reports/'' @ sr_id (ld_session ld))))))
       (\<lambda>_. ret ())"

definition generate :: "string \<Rightarrow> report_row desk_op" where
  "generate sessionId =
     bind_p (loadUnscoped sessionId) (\<lambda>ld.
     bind_p (reading (\<lambda>d. report_of d ld)) (\<lambda>built.
     bind_p (on_accounts clock_now) (\<lambda>now.
     then_p (updating (\<lambda>d. d\<lparr>dk_reports := upsert_report (report_row_of sessionId built now) (dk_reports d)\<rparr>))
    (then_p (notifyCompletion ld)
    (bind_p (reading (\<lambda>d. List.find (\<lambda>r. rw_sessionId r = sessionId) (dk_reports d))) (expecting BrokenReference))))))"

definition regenerate :: "string \<Rightarrow> string \<Rightarrow> report_row desk_op" where
  "regenerate sessionId organisationId =
     then_p (bind_p (loadSession sessionId organisationId) (\<lambda>_. ret ())) (generate sessionId)"

subsection \<open>Reading\<close>

record report_summary_view =
  sm_session :: loaded_session
  sm_timing :: attempt_timing
  sm_report :: report_row
  sm_modules :: "module_summary list"
  sm_profiles :: "profile_score list"
  sm_violations :: "violation_count list"

definition report_summary :: "string \<Rightarrow> string \<Rightarrow> report_summary_view desk_op" where
  "report_summary sessionId organisationId =
     bind_p (loadSession sessionId organisationId) (\<lambda>ld.
     bind_p (reading (\<lambda>d. List.find (\<lambda>r. rw_sessionId r = sessionId) (dk_reports d))) (\<lambda>found.
     bind_p (case found of None \<Rightarrow> generate sessionId | Some r \<Rightarrow> ret r) (\<lambda>report.
     reading (\<lambda>d.
       let modules = buildModuleSummaries (dk_modules d) (dk_world d) (ld_session ld)
       in \<lparr>sm_session = ld,
           sm_timing = attemptTiming (ld_session ld)
             (Some (map rs_timeTakenMs (filter (\<lambda>r. rs_sessionId r = sessionId) (w_responses (dk_world d))))),
           sm_report = report, sm_modules = modules,
           sm_profiles = ba_profiles (buildBehavioralProfiles (concat (map mu_traits modules))),
           sm_violations = countViolations (dk_logs d) sessionId\<rparr>))))"

definition report_detail :: "string \<Rightarrow> string \<Rightarrow> (answer_detail list \<times> proctoring_log list) desk_op" where
  "report_detail sessionId organisationId =
     bind_p (loadSession sessionId organisationId) (\<lambda>_.
     reading (\<lambda>d. (answer_details (dk_modules d) (dk_world d) sessionId,
       sort_key pg_occurredAt (filter (\<lambda>l. pg_sessionId l = sessionId) (dk_logs d)))))"

subsection \<open>Attempts and their standing\<close>

record attempt_item =
  at_sessionId :: string
  at_assessmentId :: string
  at_candidateId :: string
  at_candidateName :: string
  at_candidateEmail :: string
  at_source :: invitation_source
  at_status :: session_status
  at_timing :: attempt_timing
  at_questionsAnswered :: nat
  at_overallScore :: "real option"
  at_abilityScore :: "real option"
  at_behavioralScore :: "real option"
  at_hiringRecommendation :: "hiring_recommendation option"
  at_violationCount :: nat
  at_review :: "review_row option"

record ranked_attempt = attempt_item +
  at_rank :: "nat option"
  at_cohortSize :: nat

definition attempt_item_of :: "desk \<Rightarrow> string \<Rightarrow> loaded_session \<Rightarrow> attempt_item" where
  "attempt_item_of d organisationId ld =
     (let s = ld_session ld; i = sr_id s;
          report = List.find (\<lambda>r. rw_sessionId r = i) (dk_reports d);
          mine = filter (\<lambda>r. mr_sessionId r = i) (w_results (dk_world d))
      in \<lparr>at_sessionId = i, at_assessmentId = sr_assessmentId s, at_candidateId = sr_candidateId s,
          at_candidateName = us_fullName (ld_candidate ld), at_candidateEmail = us_email (ld_candidate ld),
          at_source = ld_source ld, at_status = sr_status s, at_timing = attemptTiming s None,
          at_questionsAnswered = foldl (\<lambda>total r. total + mr_questionsAnswered r) 0 mine,
          at_overallScore = Option.bind report rw_overallScore,
          at_abilityScore = Option.bind report rw_abilityScore,
          at_behavioralScore = Option.bind report rw_behavioralScore,
          at_hiringRecommendation = Option.bind report rw_hiringRecommendation,
          at_violationCount = length (filter (\<lambda>l. pg_sessionId l = i) (dk_logs d)),
          at_review = List.find (\<lambda>r. rv_sessionId r = i \<and> rv_organisationId r = organisationId) (dk_reviews d)\<rparr>)"

text \<open>\<open>scored.forEach\<close> with the entry before it; then each row looks its session up.\<close>

fun assign_ranks :: "nat \<Rightarrow> (string \<times> real) option \<Rightarrow> (string \<times> real) list \<Rightarrow> nat jsobj \<Rightarrow> nat jsobj" where
  "assign_ranks index previous [] ranks = ranks"
| "assign_ranks index previous ((i, score) # entries) ranks =
     assign_ranks (Suc index) (Some (i, score)) entries
       (obj_set i (case previous of
            Some (j, s) \<Rightarrow> if s = score then or_else (obj_get ranks j) (index + 1) else index + 1
          | None \<Rightarrow> index + 1) ranks)"

definition rankByScore :: "attempt_item list \<Rightarrow> ranked_attempt list" where
  "rankByScore rows =
     (let scored = sort_desc snd (List.map_filter (\<lambda>row. map_option (Pair (at_sessionId row)) (at_overallScore row)) rows);
          ranks = assign_ranks 0 None scored []
      in map (\<lambda>row. attempt_item.extend row
           \<lparr>at_rank = obj_get ranks (at_sessionId row), at_cohortSize = length scored\<rparr>) rows)"

definition newest_first :: "session_row list \<Rightarrow> session_row list" where
  "newest_first = sort_key (\<lambda>s. - sr_startedAt s)"

definition listForAssessment :: "string \<Rightarrow> string \<Rightarrow> ranked_attempt list desk_op" where
  "listForAssessment assessmentId organisationId =
     bind_p (reading (\<lambda>d. belongs_to (dk_accounts d) assessmentId organisationId)) (\<lambda>owned.
     if \<not> owned then throw (CohortMissing assessmentId)
     else reading (\<lambda>d. rankByScore (map (attempt_item_of d organisationId) (List.map_filter (join_session d)
       (newest_first (filter (\<lambda>s. sr_assessmentId s = assessmentId) (w_sessions (dk_world d))))))))"

definition listForOrganisation :: "string \<Rightarrow> nat option \<Rightarrow> attempt_item list desk_op" where
  "listForOrganisation organisationId limit =
     reading (\<lambda>d. map (attempt_item_of d organisationId) (List.map_filter (join_session d)
       (take (min (or_else limit 200) 500)
         (newest_first (filter (\<lambda>s. belongs_to (dk_accounts d) (sr_assessmentId s) organisationId) (w_sessions (dk_world d)))))))"

text \<open>The rows of the exported sheet.\<close>

definition exportCohort :: "string \<Rightarrow> string \<Rightarrow> string list \<Rightarrow> ranked_attempt list desk_op" where
  "exportCohort assessmentId organisationId sessionIds =
     bind_p (listForAssessment assessmentId organisationId) (\<lambda>all.
     ret (if sessionIds \<noteq> [] then List.map_filter (\<lambda>i. List.find (\<lambda>row. at_sessionId row = i) (rev all)) sessionIds else all))"

subsection \<open>Reviews\<close>

record review_input =
  si_decision :: "review_decision option option"
  si_tags :: "string list option"
  si_note :: "string option option"

definition find_review :: "string \<Rightarrow> string \<Rightarrow> review_row option desk_op" where
  "find_review sessionId organisationId =
     reading (\<lambda>d. List.find (\<lambda>r. rv_sessionId r = sessionId \<and> rv_organisationId r = organisationId) (dk_reviews d))"

text \<open>\<open>reviews.save\<close> of a row that exists, and of a new one.\<close>

definition save_review :: "review_row \<Rightarrow> unit desk_op" where
  "save_review row = updating (\<lambda>d. d\<lparr>dk_reviews := update_rows (\<lambda>r. rv_id r = rv_id row) (\<lambda>_. row) (dk_reviews d)\<rparr>)"

definition insert_review :: "review_row \<Rightarrow> review_row desk_op" where
  "insert_review row =
     bind_p (on_accounts random_value) (\<lambda>i. (\<lambda>d.
       if list_ex (\<lambda>r. rv_id r = i \<or> rv_sessionId r = rv_sessionId row \<and> rv_organisationId r = rv_organisationId row) (dk_reviews d)
       then (Inl DeskDuplicate, d)
       else (Inr (row\<lparr>rv_id := i\<rparr>), d\<lparr>dk_reviews := dk_reviews d @ [row\<lparr>rv_id := i\<rparr>]\<rparr>)))"

definition senderFor :: "loaded_session \<Rightarrow> string \<Rightarrow> (string \<times> string option) desk_op" where
  "senderFor ld organisationId =
     bind_p (reading (\<lambda>d. List.find (\<lambda>g. or_id g = organisationId) (ac_organisations (dk_accounts d)))) (\<lambda>found.
     bind_p (expecting BrokenReference found) (\<lambda>organisation.
     reading (\<lambda>d.
       let company = List.find (\<lambda>c. map_of (dk_companyOf d) (as_id (ld_assessment ld)) = Some (co_id c)) (dk_companies d);
           b = resolveBranding (Some organisation) company (dk_platformSupportEmail d)
       in (bd_name b, bd_supportEmail b))))"

definition queueRejection :: "string \<Rightarrow> string \<Rightarrow> review_row \<Rightarrow> (int \<times> string) desk_op" where
  "queueRejection sessionId organisationId review =
     bind_p (loadSession sessionId organisationId) (\<lambda>ld.
     bind_p (senderFor ld organisationId) (\<lambda>(name, replyTo).
     bind_p (on_accounts clock_now) (\<lambda>sentAt.
     then_p (save_review (review\<lparr>rv_rejectionEmailSentAt := Some sentAt\<rparr>))
    (then_p (try_catch
       (on_accounts (mail_add (Rejection_mail (us_email (ld_candidate ld)) (us_fullName (ld_candidate ld)) name
          (as_title (ld_assessment ld)) replyTo)))
       (\<lambda>e. then_p (save_review (review\<lparr>rv_rejectionEmailSentAt := None\<rparr>)) (throw e)))
     (ret (sentAt, us_email (ld_candidate ld)))))))"

definition reviewed :: "string \<Rightarrow> string \<Rightarrow> string \<Rightarrow> review_input \<Rightarrow> review_row option \<Rightarrow> review_row" where
  "reviewed sessionId organisationId actorId input existing =
     \<lparr>rv_id = (case existing of None \<Rightarrow> '''' | Some r \<Rightarrow> rv_id r), rv_sessionId = sessionId, rv_organisationId = organisationId,
      rv_decision = or_else (si_decision input) (Option.bind existing rv_decision),
      rv_tags = or_else (coalesce (si_tags input) (map_option rv_tags existing)) [],
      rv_note = or_else (si_note input) (Option.bind existing rv_note),
      rv_rejectionEmailSentAt = Option.bind existing rv_rejectionEmailSentAt,
      rv_updatedById = Some actorId\<rparr>"

text \<open>\<open>saveReview\<close> after the row was looked up; the method is the look-up and the rest.\<close>

definition saveReview_with ::
  "string \<Rightarrow> string \<Rightarrow> string \<Rightarrow> review_input \<Rightarrow> review_row option \<Rightarrow> review_row desk_op" where
  "saveReview_with sessionId organisationId actorId input existing =
     (let told = Option.bind existing rv_rejectionEmailSentAt
      in if told \<noteq> None \<and> si_decision input \<noteq> None \<and> si_decision input \<noteq> Some (Some REJECTED) then throw AlreadyTold
         else bind_p
           (let row = reviewed sessionId organisationId actorId input existing
            in case existing of None \<Rightarrow> insert_review row | Some _ \<Rightarrow> then_p (save_review row) (ret row)) (\<lambda>saved.
         then_p
           (if si_decision input = Some (Some REJECTED) \<and> told = None
            then try_catch (bind_p (queueRejection sessionId organisationId saved) (\<lambda>_. ret ())) (\<lambda>_. ret ()) else ret ())
          (bind_p (reading (\<lambda>d. List.find (\<lambda>r. rv_id r = rv_id saved) (dk_reviews d))) (expecting BrokenReference))))"

definition saveReview :: "string \<Rightarrow> string \<Rightarrow> string \<Rightarrow> review_input \<Rightarrow> review_row desk_op" where
  "saveReview sessionId organisationId actorId input =
     bind_p (loadSession sessionId organisationId) (\<lambda>_.
     bind_p (find_review sessionId organisationId) (saveReview_with sessionId organisationId actorId input))"

definition sendRejectionEmail :: "string \<Rightarrow> string \<Rightarrow> (int \<times> string) desk_op" where
  "sendRejectionEmail sessionId organisationId =
     bind_p (loadSession sessionId organisationId) (\<lambda>_.
     bind_p (find_review sessionId organisationId) (\<lambda>found. case found of
       None \<Rightarrow> throw MarkRejectedFirst
     | Some review \<Rightarrow>
         if rv_decision review \<noteq> Some REJECTED then throw MarkRejectedFirst
         else (case rv_rejectionEmailSentAt review of
                 Some t \<Rightarrow> throw (AlreadySent t)
               | None \<Rightarrow> queueRejection sessionId organisationId review)))"

subsection \<open>Messages\<close>

definition save_message :: "message_row \<Rightarrow> message_row desk_op" where
  "save_message row =
     bind_p (on_accounts random_value) (\<lambda>i. bind_p (on_accounts clock_now) (\<lambda>now. (\<lambda>d.
       let row' = row\<lparr>cm_id := i, cm_sentAt := now\<rparr>
       in if list_ex (\<lambda>r. cm_id r = i) (dk_messages d) then (Inl DeskDuplicate, d)
          else (Inr row', d\<lparr>dk_messages := dk_messages d @ [row']\<rparr>))))"

definition sendCandidateMessage :: "string \<Rightarrow> string \<Rightarrow> string \<Rightarrow> string \<Rightarrow> message_row desk_op" where
  "sendCandidateMessage sessionId organisationId actorId body =
     bind_p (loadSession sessionId organisationId) (\<lambda>ld.
     bind_p (senderFor ld organisationId) (\<lambda>(name, replyTo).
     let trimmed = js_trim body
     in if trimmed = '''' then throw NothingToSend
        else then_p (on_accounts (mail_add (Candidate_mail (us_email (ld_candidate ld)) (us_fullName (ld_candidate ld)) name
               (as_title (ld_assessment ld)) trimmed replyTo)))
             (save_message \<lparr>cm_id = '''', cm_sessionId = sessionId, cm_organisationId = organisationId, cm_body = trimmed,
                cm_sentTo = us_email (ld_candidate ld), cm_sentById = Some actorId, cm_sentAt = 0\<rparr>)))"

definition listCandidateMessages :: "string \<Rightarrow> string \<Rightarrow> message_row list desk_op" where
  "listCandidateMessages sessionId organisationId =
     bind_p (loadSession sessionId organisationId) (\<lambda>_.
     reading (\<lambda>d. sort_key (\<lambda>m. - cm_sentAt m)
       (filter (\<lambda>m. cm_sessionId m = sessionId \<and> cm_organisationId m = organisationId) (dk_messages d))))"

end
