(* ===== verification/Candidate_View.thy ===== *)
theory Candidate_View
  imports Report_Service
begin

section \<open>What a candidate sees of the own attempt\<close>

text \<open>
  \<open>invitations/candidate-attempt.ts\<close>, the candidate-facing half of
  \<open>invitations/invitations.service.ts\<close> and \<open>question-bank/practice.service.ts\<close>: the status
  bar, the participation figures, the lists of invitations and the practice questions. The
  description of an assessment, which is only displayed, is left out. Rows are kept in the
  order of insertion, which is that of their creation times.
\<close>

subsection \<open>The status bar\<close>

datatype stage_key = St_invited | St_started | St_submitted | St_under_review

datatype stage_state = Stage_done | Stage_current | Stage_upcoming | Stage_stopped

record attempt_stage =
  sg_key :: stage_key
  sg_label :: string
  sg_note :: string
  sg_at :: "int option"
  sg_state :: stage_state

fun STAGE_COPY :: "stage_key \<Rightarrow> string \<times> string" where
  "STAGE_COPY St_invited = (''Invited'', ''A recruiting team added you to this assessment.'')"
| "STAGE_COPY St_started = (''Started'', ''You opened the assessment and began the first section.'')"
| "STAGE_COPY St_submitted = (''Submitted'', ''Your answers were recorded and the attempt was closed.'')"
| "STAGE_COPY St_under_review =
     (''With the recruiting team'', ''Your attempt is ready for the recruiting team to review.'')"

record stage_input =
  in_invitationStatus :: invitation_status
  in_invitedAt :: int
  in_startedAt :: "int option"
  in_submittedAt :: "int option"
  in_reviewReadyAt :: "int option"

definition stage_order :: "stage_key list" where
  "stage_order = [St_invited, St_started, St_submitted, St_under_review]"

fun reachedAt :: "stage_input \<Rightarrow> stage_key \<Rightarrow> int option" where
  "reachedAt x St_invited = Some (in_invitedAt x)"
| "reachedAt x St_started = in_startedAt x"
| "reachedAt x St_submitted = in_submittedAt x"
| "reachedAt x St_under_review = in_reviewReadyAt x"

definition halted :: "stage_input \<Rightarrow> bool" where
  "halted x \<longleftrightarrow> in_submittedAt x = None \<and>
     (in_invitationStatus x = INV_REVOKED \<or> in_invitationStatus x = INV_EXPIRED)"

definition lastReached :: "stage_input \<Rightarrow> nat" where
  "lastReached x = foldl (\<lambda>furthest (index, key). if reachedAt x key \<noteq> None then index else furthest) 0
     (enumerate 0 stage_order)"

definition buildStages :: "stage_input \<Rightarrow> attempt_stage list" where
  "buildStages x =
     map (\<lambda>(index, key).
       \<lparr>sg_key = key, sg_label = fst (STAGE_COPY key), sg_note = snd (STAGE_COPY key), sg_at = reachedAt x key,
        sg_state = (if reachedAt x key \<noteq> None
          then (if index = lastReached x then Stage_current else Stage_done)
          else if halted x then Stage_stopped else Stage_upcoming)\<rparr>)
     (enumerate 0 stage_order)"

subsection \<open>Participation\<close>

record attempt_section =
  se_moduleId :: string
  se_name :: string
  se_questionsAnswered :: nat
  se_timeOnQuestionsSeconds :: int
  se_startedAt :: "int option"
  se_completedAt :: "int option"

record pace_entry =
  pe_sequenceNumber :: nat
  pe_moduleName :: string
  pe_seconds :: int
  pe_answered :: bool

record candidate_attempt =
  ct_status :: session_status
  ct_startedAt :: int
  ct_submittedAt :: "int option"
  ct_questionsAnswered :: nat
  ct_timeOnQuestionsSeconds :: int
  ct_averageSecondsPerQuestion :: "int option"
  ct_sections :: "attempt_section list"
  ct_pace :: "pace_entry list"

definition row_answered :: "response_row \<Rightarrow> bool" where
  "row_answered r \<longleftrightarrow> rs_selectedOption r \<noteq> None \<or> rs_selectedOptions r \<noteq> None"

definition secondsOf :: "response_row list \<Rightarrow> int" where
  "secondsOf rows = js_round (real_of_int (foldl (\<lambda>total r. total + rs_timeTakenMs r) 0 rows) / 1000)"

text \<open>
  Sections are sorted by their start as text, \<open>''~''\<close> standing for none; the collation of
  \<open>localeCompare\<close> puts that symbol before every digit.
\<close>

definition sat_order :: "attempt_section list \<Rightarrow> attempt_section list" where
  "sat_order sections =
     filter (\<lambda>s. se_startedAt s = None) sections @
     sort_key (\<lambda>s. or_else (se_startedAt s) 0) (filter (\<lambda>s. se_startedAt s \<noteq> None) sections)"

definition buildAttempt :: "module_entry list \<Rightarrow> world \<Rightarrow> session_row \<Rightarrow> candidate_attempt" where
  "buildAttempt catalogue w session =
     (let results = filter (\<lambda>r. mr_sessionId r = sr_id session) (w_results w);
          responses = sort_key rs_sequenceNumber (filter (\<lambda>r. rs_sessionId r = sr_id session) (w_responses w));
          answered = filter row_answered responses;
          name_of = (\<lambda>i. or_else (map_option me_name (module_entry_of catalogue i)) '''');
          timeOnQuestionsSeconds = secondsOf answered
      in \<lparr>ct_status = sr_status session, ct_startedAt = sr_startedAt session, ct_submittedAt = sr_submittedAt session,
          ct_questionsAnswered = length answered, ct_timeOnQuestionsSeconds = timeOnQuestionsSeconds,
          ct_averageSecondsPerQuestion = (if length answered \<noteq> 0
            then Some (js_round (real_of_int timeOnQuestionsSeconds / real (length answered))) else None),
          ct_sections = sat_order (map (\<lambda>result.
            \<lparr>se_moduleId = mr_moduleId result, se_name = name_of (mr_moduleId result),
             se_questionsAnswered = mr_questionsAnswered result,
             se_timeOnQuestionsSeconds = secondsOf (filter (\<lambda>r. rs_moduleId r = mr_moduleId result) answered),
             se_startedAt = mr_startedAt result, se_completedAt = mr_completedAt result\<rparr>) results),
          ct_pace = map (\<lambda>r. \<lparr>pe_sequenceNumber = rs_sequenceNumber r, pe_moduleName = name_of (rs_moduleId r),
            pe_seconds = js_round (real_of_int (rs_timeTakenMs r) / 1000), pe_answered = row_answered r\<rparr>) responses\<rparr>)"

subsection \<open>One invitation, and all of them\<close>

record candidate_invitation_view =
  cw_id :: string
  cw_status :: invitation_status
  cw_createdAt :: int
  cw_assessmentId :: string
  cw_title :: string
  cw_sections :: "(string \<times> nat) list"
  cw_totalTimeSeconds :: nat
  cw_organisation :: branding
  cw_window :: window_view

record candidate_attempt_view = candidate_invitation_view +
  cw_stages :: "attempt_stage list"
  cw_attempt :: "candidate_attempt option"

text \<open>The invitations of a candidate, each with its assessment.\<close>

definition own_invitations :: "desk \<Rightarrow> string \<Rightarrow> (invitation_row \<times> assessment_row) list" where
  "own_invitations d candidateId =
     (case List.find (\<lambda>u. us_id u = candidateId) (ac_users (dk_accounts d)) of
        None \<Rightarrow> []
      | Some u \<Rightarrow> List.map_filter (\<lambda>v. map_option (Pair v)
            (List.find (\<lambda>a. as_id a = iv_assessmentId v) (w_assessments (dk_world d))))
          (filter (addressed_to u) (w_invitations (dk_world d))))"

definition assessment_branding :: "desk \<Rightarrow> assessment_row \<Rightarrow> branding" where
  "assessment_branding d a =
     resolveBranding (List.find (\<lambda>g. or_id g = as_organisationId a) (ac_organisations (dk_accounts d)))
       (List.find (\<lambda>c. map_of (dk_companyOf d) (as_id a) = Some (co_id c)) (dk_companies d)) (dk_platformSupportEmail d)"

definition candidate_view_of :: "desk \<Rightarrow> int \<Rightarrow> invitation_row \<times> assessment_row \<Rightarrow> candidate_invitation_view" where
  "candidate_view_of d now = (\<lambda>(v, a).
     \<lparr>cw_id = iv_id v, cw_status = iv_status v, cw_createdAt = iv_createdAt v, cw_assessmentId = as_id a, cw_title = as_title a,
      cw_sections = map (\<lambda>m. (am_name m, am_timeLimitSeconds m)) (as_modules a),
      cw_totalTimeSeconds = foldl (\<lambda>total m. total + am_timeLimitSeconds m) 0 (as_modules a),
      cw_organisation = assessment_branding d a, cw_window = windowViewOf v a now\<rparr>)"

definition attemptForCandidate :: "string \<Rightarrow> string \<Rightarrow> candidate_attempt_view desk_op" where
  "attemptForCandidate invitationId candidateId =
     bind_p (reading (\<lambda>d. List.find (\<lambda>(v, a). iv_id v = invitationId) (own_invitations d candidateId))) (\<lambda>found.
     bind_p (expecting (AccountError InvitationMissing) found) (\<lambda>(v, a).
     bind_p (reading (\<lambda>d. List.find (\<lambda>s. sr_invitationId s = iv_id v) (w_sessions (dk_world d)))) (\<lambda>session.
     bind_p (reading (\<lambda>d. Option.bind session (\<lambda>s. if sr_submittedAt s = None then None
        else List.find (\<lambda>r. rw_sessionId r = sr_id s) (dk_reports d)))) (\<lambda>report.
     bind_p (on_accounts clock_now) (\<lambda>now.
     reading (\<lambda>d. candidate_invitation_view.extend (candidate_view_of d now (v, a))
       \<lparr>cw_stages = buildStages \<lparr>in_invitationStatus = iv_status v, in_invitedAt = iv_createdAt v,
          in_startedAt = map_option sr_startedAt session, in_submittedAt = Option.bind session sr_submittedAt,
          in_reviewReadyAt = Option.bind report rw_generatedAt\<rparr>,
        cw_attempt = map_option (buildAttempt (dk_modules d) (dk_world d)) session\<rparr>))))))"

definition listForCandidate :: "string \<Rightarrow> candidate_invitation_view list desk_op" where
  "listForCandidate candidateId =
     bind_p (on_accounts clock_now) (\<lambda>now.
     reading (\<lambda>d. map (candidate_view_of d now) (rev (own_invitations d candidateId))))"

definition invitations_of_assessment :: "string \<Rightarrow> string \<Rightarrow> invitation_view list account_op" where
  "invitations_of_assessment assessmentId organisationId =
     bind_p (owned_assessment assessmentId organisationId) (\<lambda>a.
     bind_p (reading (\<lambda>ac. rev (filter (\<lambda>v. iv_assessmentId v = assessmentId) (w_invitations (ac_db ac)))))
       (for_each (\<lambda>v. invitation_toView v (Some a))))"

subsection \<open>Practice\<close>

definition PRACTICE_TARGET :: nat where "PRACTICE_TARGET = 3"

record practice_question =
  pq_id :: string
  pq_moduleName :: string
  pq_scoringType :: scoring_type
  pq_text :: string
  pq_options :: "(string \<times> string) list"
  pq_pattern :: "behavioral_pattern option"
  pq_correctOption :: "string option"

text \<open>The query; \<open>collation\<close> is how the database orders the names of modules.\<close>

definition practice_rows ::
  "(string \<Rightarrow> nat) \<Rightarrow> module_entry list \<Rightarrow> question list \<Rightarrow> string list \<Rightarrow> string \<Rightarrow> (question \<times> module_entry) list" where
  "practice_rows collation catalogue questions moduleIds organisationId =
     sort_key (\<lambda>(q, m). collation (me_name m)) (sort_key (\<lambda>(q, m). if q_organisationId q = None then 1 else (0::nat))
       (List.map_filter (\<lambda>q. map_option (Pair q) (module_entry_of catalogue (q_moduleId q)))
         (filter (\<lambda>q. q_moduleId q \<in> set moduleIds \<and> q_isSample q \<and> q_status q = ACTIVE \<and>
            visible_to_org questions organisationId q) questions)))"

definition byModule :: "(question \<times> module_entry) list \<Rightarrow> (question \<times> module_entry) list jsobj" where
  "byModule rows = foldl (\<lambda>queues x.
     obj_set (q_moduleId (fst x)) (or_else (obj_get queues (q_moduleId (fst x))) [] @ [x]) queues) [] rows"

text \<open>One round over the queues, then rounds until the target is met or nothing is left.\<close>

fun practice_round :: "nat \<Rightarrow> 'a list list \<Rightarrow> 'a list \<Rightarrow> 'a list list \<times> 'a list" where
  "practice_round target [] picked = ([], picked)"
| "practice_round target (queue # queues) picked =
     (if length picked \<ge> target then (queue # queues, picked)
      else (case queue of
              [] \<Rightarrow> (let (rest, p) = practice_round target queues picked in ([] # rest, p))
            | x # xs \<Rightarrow> (let (rest, p) = practice_round target queues (picked @ [x]) in (xs # rest, p))))"

lemma practice_round_size:
  "length picked < target \<Longrightarrow> list_ex (\<lambda>q. q \<noteq> []) queues \<Longrightarrow>
   length picked < length (snd (practice_round target queues picked))"
  and practice_round_grows: "length picked \<le> length (snd (practice_round target queues picked))"
proof -
  show grows: "length picked \<le> length (snd (practice_round target queues picked))" for queues :: "'a list list" and picked
  proof (induction target queues picked rule: practice_round.induct)
    case (2 target queue queues picked)
    then show ?case by (cases queue) (auto split: prod.split)
  qed simp
  show "length picked < target \<Longrightarrow> list_ex (\<lambda>q. q \<noteq> []) queues \<Longrightarrow>
      length picked < length (snd (practice_round target queues picked))"
  proof (induction queues)
    case (Cons queue queues)
    show ?case
    proof (cases queue)
      case Nil
      with Cons show ?thesis by (simp add: case_prod_beta)
    next
      case (Cons x xs)
      with grows[of "picked @ [x]" queues] \<open>length picked < target\<close> show ?thesis by (simp add: case_prod_beta)
    qed
  qed simp
qed

function practice_pick :: "nat \<Rightarrow> 'a list list \<Rightarrow> 'a list \<Rightarrow> 'a list" where
  "practice_pick target queues picked =
     (if length picked < target \<and> list_ex (\<lambda>q. q \<noteq> []) queues
      then (let (rest, p) = practice_round target queues picked in practice_pick target rest p) else picked)"
  by auto
termination
proof (relation "measure (\<lambda>(target, queues, picked). target - length picked)", goal_cases)
  case (2 target queues picked round rest p)
  have "p = snd (practice_round target queues picked)" using 2(2,3) by (metis snd_conv)
  with 2(1) show ?case using practice_round_size[of picked target queues] by auto
qed simp

declare practice_pick.simps [simp del]

definition practice_view :: "question \<times> module_entry \<Rightarrow> practice_question" where
  "practice_view = (\<lambda>(q, m).
     let objective = (me_scoringType m = OBJECTIVE)
     in \<lparr>pq_id = q_id q, pq_moduleName = me_name m, pq_scoringType = me_scoringType m, pq_text = q_questionText q,
         pq_options = (if objective
           then (case q_mcqDetails q of None \<Rightarrow> [] | Some d \<Rightarrow> map (\<lambda>opt. (mo_key opt, mo_text opt)) (md_options d))
           else (case q_personalityDetails q of None \<Rightarrow> [] | Some d \<Rightarrow> map (\<lambda>opt. (po_key opt, po_text opt)) (pd_options d))),
         pq_pattern = (if objective then None else Option.bind (q_personalityDetails q) pd_pattern),
         pq_correctOption = (if objective then map_option md_correctOption (q_mcqDetails q) else None)\<rparr>)"

definition forModules ::
  "(string \<Rightarrow> nat) \<Rightarrow> module_entry list \<Rightarrow> question list \<Rightarrow> string list \<Rightarrow> string \<Rightarrow> practice_question list" where
  "forModules collation catalogue questions moduleIds organisationId =
     (if moduleIds = [] then []
      else map practice_view (practice_pick PRACTICE_TARGET
        (obj_values (byModule (practice_rows collation catalogue questions moduleIds organisationId))) []))"

definition practiceForCandidate :: "(string \<Rightarrow> nat) \<Rightarrow> string \<Rightarrow> string \<Rightarrow> practice_question list desk_op" where
  "practiceForCandidate collation invitationId candidateId =
     bind_p (reading (\<lambda>d. List.find (\<lambda>(v, a). iv_id v = invitationId) (own_invitations d candidateId))) (\<lambda>found.
     bind_p (expecting (AccountError InvitationMissing) found) (\<lambda>(v, a).
     reading (\<lambda>d. forModules collation (dk_modules d) (bk_questions (w_bank (dk_world d)))
       (map am_moduleId (as_modules a)) (as_organisationId a))))"

end
