(* ===== verification/Public_Entry.thy ===== *)
theory Public_Entry
  imports Invitations
begin

section \<open>Public links and entering through one\<close>

text \<open>
  \<open>assessments/public-link.service.ts\<close> and \<open>public-entry/public-entry.service.ts\<close>. The
  columns of a link are \<open>ac_links\<close>, keyed by the assessment; an assessment without an entry
  has their defaults. Entering goes through \<open>register\<close> and \<open>login\<close> of \<open>Auth\<close>. The intro
  page, which only displays, is left out, as is the URL built around a token.
\<close>

subsection \<open>Links\<close>

definition links_of :: "accounts \<Rightarrow> string \<Rightarrow> link_columns" where
  "links_of ac i = or_else (obj_get (ac_links ac) i) no_link"

record link_settings =
  st_enabled :: "bool option"
  st_expiresAt :: "int option option"
  st_maxAttempts :: "int option option"
  st_emailDomain :: "string option option"

definition applySettings :: "link_settings \<Rightarrow> link_columns \<Rightarrow> link_columns" where
  "applySettings settings l = l
     \<lparr>lk_expiresAt := or_else (st_expiresAt settings) (lk_expiresAt l),
      lk_maxAttempts := or_else (st_maxAttempts settings) (lk_maxAttempts l),
      lk_emailDomain := (case st_emailDomain settings of None \<Rightarrow> lk_emailDomain l
        | Some d \<Rightarrow> truthy (map_option (\<lambda>d. strip_at (js_toLowerCase (js_trim d))) d))\<rparr>"

definition attemptsUsed :: "string \<Rightarrow> accounts \<Rightarrow> nat" where
  "attemptsUsed assessmentId ac =
     length (filter (\<lambda>v. iv_assessmentId v = assessmentId \<and> iv_source v = Self_registered) (w_invitations (ac_db ac)))"

definition link_config :: "assessment_row \<Rightarrow> link_columns \<Rightarrow> public_link_config" where
  "link_config a l = \<lparr>pl_tokenHash = lk_tokenHash l, pl_enabled = lk_enabled l, pl_expiresAt = lk_expiresAt l,
     pl_maxAttempts = lk_maxAttempts l, pl_emailDomain = lk_emailDomain l,
     pl_window = \<lparr>wn_opensAt = as_opensAt a, wn_closesAt = as_closesAt a\<rparr>\<rparr>"

definition stateOf :: "assessment_row \<Rightarrow> public_link_state account_op" where
  "stateOf a =
     bind_p (reading (\<lambda>ac. (links_of ac (as_id a), attemptsUsed (as_id a) ac))) (\<lambda>(l, used).
     bind_p clock_now (\<lambda>now. ret (publicLinkState (link_config a l) (int used) now)))"

record link_view =
  lv_configured :: bool
  lv_link :: link_columns
  lv_attemptsUsed :: nat
  lv_state :: public_link_state

definition describe_link :: "assessment_row \<Rightarrow> link_view account_op" where
  "describe_link a =
     bind_p (reading (\<lambda>ac. (links_of ac (as_id a), attemptsUsed (as_id a) ac))) (\<lambda>(l, used).
     bind_p (stateOf a) (\<lambda>state.
     ret \<lparr>lv_configured = (lk_tokenHash l \<noteq> None), lv_link = l, lv_attemptsUsed = used, lv_state = state\<rparr>))"

definition save_link :: "string \<Rightarrow> (link_columns \<Rightarrow> link_columns) \<Rightarrow> unit account_op" where
  "save_link i f = updating (\<lambda>ac. ac\<lparr>ac_links := obj_set i (f (links_of ac i)) (ac_links ac)\<rparr>)"

definition rotate_link :: "crypto \<Rightarrow> string \<Rightarrow> string \<Rightarrow> link_settings \<Rightarrow> (string \<times> link_view) account_op" where
  "rotate_link cr assessmentId organisationId settings =
     bind_p (owned_assessment assessmentId organisationId) (\<lambda>a.
     bind_p random_value (\<lambda>token.
     then_p (save_link assessmentId (\<lambda>l. applySettings settings
         (l\<lparr>lk_tokenHash := Some (cr_digest cr token), lk_enabled := or_else (st_enabled settings) True\<rparr>)))
       (bind_p (describe_link a) (\<lambda>v. ret (token, v)))))"

definition update_link :: "string \<Rightarrow> string \<Rightarrow> link_settings \<Rightarrow> link_view account_op" where
  "update_link assessmentId organisationId settings =
     bind_p (owned_assessment assessmentId organisationId) (\<lambda>a.
     then_p (save_link assessmentId (\<lambda>l. applySettings settings
         (l\<lparr>lk_enabled := or_else (st_enabled settings) (lk_enabled l)\<rparr>)))
       (describe_link a))"

definition revoke_link :: "string \<Rightarrow> string \<Rightarrow> link_view account_op" where
  "revoke_link assessmentId organisationId =
     bind_p (owned_assessment assessmentId organisationId) (\<lambda>a.
     then_p (save_link assessmentId (\<lambda>l. l\<lparr>lk_tokenHash := None, lk_enabled := False\<rparr>)) (describe_link a))"

definition resolveByToken :: "crypto \<Rightarrow> string \<Rightarrow> assessment_row option account_op" where
  "resolveByToken cr token =
     (let trimmed = js_trim token
      in if trimmed = '''' then ret None
         else reading (\<lambda>ac. List.find (\<lambda>a. lk_tokenHash (links_of ac (as_id a)) = Some (cr_digest cr trimmed))
                (w_assessments (ac_db ac))))"

subsection \<open>Entering\<close>

definition resolve_link :: "crypto \<Rightarrow> string \<Rightarrow> assessment_row account_op" where
  "resolve_link cr token =
     bind_p (resolveByToken cr token) (\<lambda>found. case found of
       None \<Rightarrow> throw (LinkRefused MsgNotValid)
     | Some a \<Rightarrow> ret a)"

definition assertOpen :: "assessment_row \<Rightarrow> unit account_op" where
  "assertOpen a =
     bind_p (stateOf a) (\<lambda>state. case PUBLIC_LINK_MESSAGE state of
       None \<Rightarrow> ret ()
     | Some message \<Rightarrow> throw (LinkRefused message))"

definition assertDomainAllowed :: "assessment_row \<Rightarrow> string \<Rightarrow> unit account_op" where
  "assertDomainAllowed a email =
     bind_p (reading (\<lambda>ac. lk_emailDomain (links_of ac (as_id a)))) (\<lambda>domain.
     if emailAllowedByDomain email domain then ret () else throw (DomainRefused (or_else domain '''')))"

datatype entry_step = Step_create | Step_password

definition checkEmail :: "crypto \<Rightarrow> string \<Rightarrow> string \<Rightarrow> (entry_step \<times> string) account_op" where
  "checkEmail cr token rawEmail =
     bind_p (resolve_link cr token) (\<lambda>a.
     then_p (assertOpen a)
    (let email = js_toLowerCase (js_trim rawEmail)
     in then_p (assertDomainAllowed a email)
       (bind_p (findByEmail email) (\<lambda>existing.
          ret (if existing = None then Step_create else Step_password, email)))))"

definition enterWithNewAccount ::
  "crypto \<Rightarrow> int \<Rightarrow> (string \<Rightarrow> organisation_row list \<Rightarrow> string) \<Rightarrow> assessment_row \<Rightarrow> string \<Rightarrow> string \<Rightarrow>
   string option \<Rightarrow> (auth_result \<times> string) account_op" where
  "enterWithNewAccount cr windowMs slug_for a email password fullName =
     (case truthy (map_option js_trim fullName) of
        None \<Rightarrow> throw FullNameRequired
      | Some name \<Rightarrow>
          bind_p (createSelfRegistered (as_id a) email None) (\<lambda>(_, invitation).
          bind_p (try_catch
              (register cr windowMs slug_for \<lparr>rg_email = email, rg_password = password, rg_fullName = name,
                 rg_accountType = Some REG_CANDIDATE, rg_organisationName = None\<rparr>)
              (\<lambda>e. then_p (discardSelfRegistered (iv_id invitation)) (throw e)))
            (\<lambda>result. ret (result, iv_id invitation))))"

definition enterWithExistingAccount ::
  "crypto \<Rightarrow> int \<Rightarrow> assessment_row \<Rightarrow> string \<Rightarrow> string \<Rightarrow> (auth_result \<times> string) account_op" where
  "enterWithExistingAccount cr windowMs a email password =
     bind_p (login cr windowMs \<lparr>lg_email = email, lg_password = password, lg_portal = Some PORTAL_CANDIDATE\<rparr>) (\<lambda>result.
     bind_p (createSelfRegistered (as_id a) email (Some (us_id (au_user result)))) (\<lambda>(_, invitation).
     ret (result, iv_id invitation)))"

definition enter ::
  "crypto \<Rightarrow> int \<Rightarrow> (string \<Rightarrow> organisation_row list \<Rightarrow> string) \<Rightarrow> string \<Rightarrow> string \<Rightarrow> string \<Rightarrow> string option \<Rightarrow>
   (auth_result \<times> string) account_op" where
  "enter cr windowMs slug_for token rawEmail password fullName =
     bind_p (resolve_link cr token) (\<lambda>a.
     then_p (assertOpen a)
    (let email = js_toLowerCase (js_trim rawEmail)
     in then_p (assertDomainAllowed a email)
       (bind_p (findByEmail email) (\<lambda>existing. case existing of
          Some _ \<Rightarrow> enterWithExistingAccount cr windowMs a email password
        | None \<Rightarrow> enterWithNewAccount cr windowMs slug_for a email password fullName))))"

end
