(* ===== verification/Invitation_Steps.thy ===== *)
theory Invitation_Steps
  imports Public_Entry
begin

section \<open>Steps of the account operations\<close>

text \<open>
  What the small operations read and write, as equations of the weakest precondition, and
  the relation \<open>only_provisions\<close> between the accounts before and after inviting.
\<close>

lemma wp_clock_now [wp_simps]: "wp clock_now Q E ac = Q (ac_clock ac 0) (ac\<lparr>ac_clock := (\<lambda>n. ac_clock ac (Suc n))\<rparr>)"
  by (simp add: wp_def clock_now_def)

lemma wp_random_value [wp_simps]: "wp random_value Q E ac = Q (ac_random ac 0) (ac\<lparr>ac_random := (\<lambda>n. ac_random ac (Suc n))\<rparr>)"
  by (simp add: wp_def random_value_def)

lemma wp_mail_add [wp_simps]:
  "wp (mail_add job) Q E ac =
     (let ac' = ac\<lparr>ac_mailDown := (\<lambda>n. ac_mailDown ac (Suc n))\<rparr>
      in if ac_mailDown ac 0 then E MailQueueDown ac' else Q () (ac'\<lparr>ac_mail := ac_mail ac @ [job]\<rparr>))"
  by (simp add: wp_def mail_add_def Let_def)

lemma wp_findByEmail [wp_simps]: "wp (findByEmail email) Q E ac = Q (users_where (\<lambda>u. us_email u = js_toLowerCase email) ac) ac"
  by (simp add: findByEmail_def wp_reading)

lemma wp_findById [wp_simps]: "wp (findById i) Q E ac = Q (users_where (\<lambda>u. us_id u = i) ac) ac"
  by (simp add: findById_def wp_reading)

lemma wp_create_user [wp_simps]:
  "wp (create_user data) Q E ac =
     (let i = ac_random ac 0; ac' = ac\<lparr>ac_random := (\<lambda>n. ac_random ac (Suc n))\<rparr>;
          u = data\<lparr>us_id := i, us_email := js_toLowerCase (us_email data)\<rparr>
      in if list_ex (\<lambda>r. us_id r = i \<or> us_email r = us_email u) (ac_users ac) then E DuplicateKey ac'
         else Q u (ac'\<lparr>ac_users := ac_users ac @ [u]\<rparr>))"
  by (simp add: wp_def create_user_def bind_p_def random_value_def set_users_def Let_def)

lemma wp_save_invitation [wp_simps]:
  "wp (save_invitation a email c source) Q E ac =
     (let v = \<lparr>iv_id = ac_random ac 0, iv_assessmentId = a, iv_email = email, iv_source = source,
                iv_candidateId = c, iv_status = INV_PENDING, iv_opensAt = None, iv_expiresAt = None,
                iv_createdAt = ac_clock ac 0\<rparr>;
          ac' = ac\<lparr>ac_random := (\<lambda>n. ac_random ac (Suc n)), ac_clock := (\<lambda>n. ac_clock ac (Suc n))\<rparr>
      in if list_ex (\<lambda>r. iv_id r = ac_random ac 0 \<or> iv_assessmentId r = a \<and> iv_email r = email) (w_invitations (ac_db ac))
         then E DuplicateKey ac'
         else Q v (set_db (\<lambda>w. w\<lparr>w_invitations := w_invitations w @ [v]\<rparr>) ac'))"
  by (simp add: wp_def save_invitation_def bind_p_def random_value_def clock_now_def set_db_def Let_def)

lemma wp_find_invitation [wp_simps]:
  "wp (find_invitation a email) Q E ac =
     Q (List.find (\<lambda>v. iv_assessmentId v = a \<and> iv_email v = email) (w_invitations (ac_db ac))) ac"
  by (simp add: find_invitation_def wp_reading)

lemma wp_option [wp_simps]:
  "wp (case x of None \<Rightarrow> m | Some y \<Rightarrow> f y) Q E s = (case x of None \<Rightarrow> wp m Q E s | Some y \<Rightarrow> wp (f y) Q E s)"
  by (cases x) simp_all

lemma wp_prod [wp_simps]: "wp (case p of (a, b) \<Rightarrow> f a b) Q E s = (case p of (a, b) \<Rightarrow> wp (f a b) Q E s)"
  by (cases p) simp_all

lemma wp_prod_app: "wp (case p of (a, b) \<Rightarrow> f a b) Q E = (case p of (a, b) \<Rightarrow> wp (f a b) Q E)"
  by (cases p) simp_all

lemma wp_True: "wp m (\<lambda>_ _. True) (\<lambda>_ _. True) s"
  by (simp add: wp_def split: prod.split sum.split)

subsection \<open>Inviting only provisions\<close>

definition key :: "invitation_row \<Rightarrow> string \<times> string \<times> string \<times> invitation_source \<times> invitation_status" where
  "key v = (iv_id v, iv_assessmentId v, iv_email v, iv_source v, iv_status v)"

text \<open>The mails carry a password only for an account made on the way.\<close>

definition mail_for :: "user_row list \<Rightarrow> mail_job \<Rightarrow> bool" where
  "mail_for news m = (case m of
      Invite_mail to title (Some pw) \<Rightarrow> js_toLowerCase (js_trim to) \<in> us_email ` set news
    | Invite_mail to title None \<Rightarrow> True
    | _ \<Rightarrow> False)"

definition provisioned_for :: "user_row list \<Rightarrow> user_row \<Rightarrow> bool" where
  "provisioned_for olds u \<longleftrightarrow> us_role u = CANDIDATE \<and> us_mustChangePassword u \<and> us_organisationId u = None \<and>
     us_hashedRefreshToken u = None \<and> us_email u \<notin> us_email ` set olds"

definition only_provisions :: "accounts \<Rightarrow> accounts \<Rightarrow> bool" where
  "only_provisions ac ac' \<longleftrightarrow>
     (\<exists>news mails. ac_users ac' = ac_users ac @ news \<and> list_all (provisioned_for (ac_users ac)) news \<and>
        ac_mail ac' = ac_mail ac @ mails \<and> list_all (mail_for news) mails) \<and>
     ac_tokens ac' = ac_tokens ac \<and> ac_organisations ac' = ac_organisations ac \<and> ac_links ac' = ac_links ac"

lemma only_provisions_refl [simp]: "only_provisions ac ac"
  by (auto simp: only_provisions_def)

lemma mail_for_mono: "set news \<subseteq> set news' \<Longrightarrow> mail_for news m \<Longrightarrow> mail_for news' m"
  by (auto simp: mail_for_def split: mail_job.splits option.splits)

lemma only_provisions_trans:
  assumes "only_provisions a b" "only_provisions b c"
  shows "only_provisions a c"
proof -
  obtain n1 m1 where 1: "ac_users b = ac_users a @ n1" "list_all (provisioned_for (ac_users a)) n1"
    "ac_mail b = ac_mail a @ m1" "list_all (mail_for n1) m1"
    using assms(1) by (auto simp: only_provisions_def)
  obtain n2 m2 where 2: "ac_users c = ac_users b @ n2" "list_all (provisioned_for (ac_users b)) n2"
    "ac_mail c = ac_mail b @ m2" "list_all (mail_for n2) m2"
    using assms(2) by (auto simp: only_provisions_def)
  have "list_all (provisioned_for (ac_users a)) (n1 @ n2)"
    using 1 2 by (auto simp: list_all_iff provisioned_for_def image_Un)
  moreover have "list_all (mail_for (n1 @ n2)) (m1 @ m2)"
    using 1(4) 2(4) by (auto simp: list_all_iff intro: mail_for_mono)
  ultimately have "\<exists>news mails. ac_users c = ac_users a @ news \<and> list_all (provisioned_for (ac_users a)) news \<and>
      ac_mail c = ac_mail a @ mails \<and> list_all (mail_for news) mails"
    using 1(1,3) 2(1,3) by (intro exI[of _ "n1 @ n2"] exI[of _ "m1 @ m2"]) simp
  with assms show ?thesis by (simp add: only_provisions_def)
qed

lemma only_provisions_same:
  "ac_users b = ac_users a \<Longrightarrow> ac_mail b = ac_mail a \<Longrightarrow> ac_tokens b = ac_tokens a \<Longrightarrow>
   ac_organisations b = ac_organisations a \<Longrightarrow> ac_links b = ac_links a \<Longrightarrow> only_provisions a b"
  by (auto simp: only_provisions_def)

text \<open>A step that provisions, whatever its result, keeps \<open>only_provisions\<close> from any start.\<close>

lemma keeps_only_provisions:
  "(\<And>s. wp m (\<lambda>_. only_provisions s) (\<lambda>_. only_provisions s) s) \<Longrightarrow> keeps (only_provisions ac) m"
  unfolding keeps_wp by (blast intro: wp_mono only_provisions_trans)

lemma lower_idem [simp]: "js_toLowerCase (js_toLowerCase s) = js_toLowerCase s"
  by (simp add: js_toLowerCase_def comp_def)

end
