(* ===== verification/Account_Properties.thy ===== *)
theory Account_Properties
  imports Auth Session_Properties
begin

section \<open>The properties of accounts\<close>

text \<open>
  Who may change or remove whom. The sample crypto hashes by identity, which meets the
  documented laws; the sample accounts are an owner, an administrator and a candidate of
  one organisation.
\<close>

definition sample_crypto :: crypto where
  "sample_crypto = \<lparr>cr_hash = (\<lambda>salt p. p), cr_verify = (=), cr_digest = id,
     cr_access = (\<lambda>i e r. i), cr_refresh = (\<lambda>i e r j. j)\<rparr>"

lemma sample_crypto_sound: "sound_crypto sample_crypto"
  by (auto simp: sound_crypto_def sample_crypto_def)

definition owner :: user_row where
  "owner = blank_user\<lparr>us_id := ''o'', us_email := ''o@x.org'', us_passwordHash := ''pw'', us_role := RECRUITER_ADMIN,
     us_organisationId := Some ''org'', us_orgRole := Some OWNER, us_hashedRefreshToken := Some ''t0'',
     us_recentRefreshTokens := Some []\<rparr>"

definition administrator :: user_row where
  "administrator = owner\<lparr>us_id := ''b'', us_email := ''b@x.org'', us_orgRole := Some ADMIN\<rparr>"

definition candidate :: user_row where
  "candidate = blank_user\<lparr>us_id := ''c'', us_email := ''c@x.org''\<rparr>"

definition sample_accounts :: accounts where
  "sample_accounts = \<lparr>ac_clock = (\<lambda>n. 1000 + int n), ac_random = (\<lambda>n. replicate (Suc n) CHR ''r''),
     ac_mailDown = (\<lambda>_. False), ac_db = running_world, ac_users = [owner, administrator, candidate],
     ac_tokens = [\<lparr>pt_id = ''p'', pt_userId = ''o'', pt_tokenHash = ''link'', pt_expiresAt = 9000, pt_usedAt = None\<rparr>],
     ac_organisations = [\<lparr>or_id = ''org'', or_name = ''Org'', or_slug = ''org'',
       or_logoUrl = None, or_accentColor = None, or_supportEmail = None\<rparr>], ac_mail = [], ac_links = []\<rparr>"

lemmas account_samples = sample_crypto_def owner_def administrator_def candidate_def sample_accounts_def blank_user_def

subsection \<open>Owners\<close>

definition owners :: "string \<Rightarrow> accounts \<Rightarrow> user_row list" where
  "owners org ac = filter (\<lambda>u. us_organisationId u = Some org \<and> us_orgRole u = Some OWNER) (ac_users ac)"

lemma find_Some_id:
  "List.find P xs = Some x \<Longrightarrow> x \<in> set xs \<and> P x"
  by (auto simp: find_Some_iff)

lemma two_in_list: "Suc 0 < length xs \<Longrightarrow> distinct (map f xs) \<Longrightarrow> \<exists>x\<in>set xs. f x \<noteq> k"
proof (cases xs)
  case (Cons a ys)
  assume "Suc 0 < length xs" "distinct (map f xs)"
  with Cons obtain b zs where "xs = a # b # zs" by (cases ys) auto
  with \<open>distinct (map f xs)\<close> show ?thesis by auto
qed simp

definition with_role :: "string \<Rightarrow> org_role \<Rightarrow> accounts \<Rightarrow> accounts" where
  "with_role i role = set_users (update_rows (\<lambda>u. us_id u = i) (\<lambda>u. u\<lparr>us_orgRole := Some role\<rparr>))"

lemma with_role_users:
  "ac_users (with_role i role ac) = map (\<lambda>u. if us_id u = i then u\<lparr>us_orgRole := Some role\<rparr> else u) (ac_users ac)"
  by (simp add: with_role_def set_users_def update_rows_def)

lemma owners_untouched:
  assumes "\<And>u. u \<in> set (ac_users ac) \<Longrightarrow> us_id u = i \<Longrightarrow>
    us_organisationId u \<noteq> Some g \<or> role \<noteq> OWNER \<and> us_orgRole u \<noteq> Some OWNER"
  shows "owners g (with_role i role ac) = owners g ac"
proof -
  have "filter (\<lambda>u. us_organisationId u = Some g \<and> us_orgRole u = Some OWNER)
        (map (\<lambda>u. if us_id u = i then u\<lparr>us_orgRole := Some role\<rparr> else u) us) =
      filter (\<lambda>u. us_organisationId u = Some g \<and> us_orgRole u = Some OWNER) us" if "set us \<subseteq> set (ac_users ac)" for us
    using that assms by (induction us) auto
  then show ?thesis by (simp add: owners_def with_role_users)
qed

lemma owners_kept: "u \<in> set (owners g ac) \<Longrightarrow> us_id u \<noteq> i \<Longrightarrow> u \<in> set (owners g (with_role i role ac))"
  unfolding owners_def with_role_users by force

lemma owner_made:
  assumes "u \<in> set (ac_users ac)" "us_id u = i" "us_organisationId u = Some g"
  shows "owners g (with_role i OWNER ac) \<noteq> []"
proof -
  have "u\<lparr>us_orgRole := Some OWNER\<rparr> \<in> set (ac_users (with_role i OWNER ac))"
    unfolding with_role_users set_map by (rule image_eqI[of _ _ u]) (use assms in simp_all)
  then show ?thesis
    using assms(3) unfolding owners_def filter_empty_conv by (metis user_row.select_convs(8,9) user_row.surjective user_row.update_convs(9))
qed

lemma outside_kept:
  assumes "\<And>u. u \<in> set (ac_users ac) \<Longrightarrow> us_id u = i \<Longrightarrow> us_organisationId u = Some g"
  shows "filter (\<lambda>u. us_organisationId u \<noteq> Some g) (ac_users (with_role i role ac)) =
    filter (\<lambda>u. us_organisationId u \<noteq> Some g) (ac_users ac)"
proof -
  have "filter (\<lambda>u. us_organisationId u \<noteq> Some g) (map (\<lambda>u. if us_id u = i then u\<lparr>us_orgRole := Some role\<rparr> else u) us) =
      filter (\<lambda>u. us_organisationId u \<noteq> Some g) us" if "set us \<subseteq> set (ac_users ac)" for us
    using that assms by (induction us) auto
  then show ?thesis by (simp add: with_role_users)
qed

lemma setOrgRole_users:
  assumes "setOrgRole userId orgRole org actor ac = (r, ac')"
  shows "(\<exists>e. r = Inl e) \<and> ac' = ac \<or>
    (\<exists>target. target \<in> set (ac_users ac) \<and> us_id target = userId \<and> us_organisationId target = Some org \<and>
       ac' = with_role userId orgRole ac \<and>
       (us_orgRole target = Some OWNER \<and> orgRole \<noteq> OWNER \<longrightarrow> Suc 0 < length (owners org ac)) \<and>
       (us_orgRole target = Some OWNER \<or> orgRole = OWNER \<longrightarrow>
          actor \<in> us_id ` set (owners org ac)))"
proof -
  let ?t = "users_where (\<lambda>u. us_id u = userId \<and> us_organisationId u = Some org) ac"
  show ?thesis
  proof (cases ?t)
    case None
    with assms show ?thesis by (auto simp: setOrgRole_def bind_p_def reading_def throw_def)
  next
    case (Some target)
    from find_Some_id[OF Some] Some assms show ?thesis
      by (auto simp: setOrgRole_def bind_p_def then_p_def reading_def throw_def ret_def update_user_def updating_def
          owners_def with_role_def Let_def split: if_splits option.splits dest!: find_Some_id)
  qed
qed

text \<open>C23: Changing roles never leaves an organisation without an owner, and only an owner
  touches ownership: whatever \<open>setOrgRole\<close> is asked, an organisation that had an owner still
  has one, everyone outside the organisation keeps their row, and a change that makes
  or unmakes an owner was asked by an owner.\<close>

theorem set_org_role_keeps_an_owner:
  assumes "setOrgRole userId orgRole org actor ac = (r, ac')"
    and ids: "distinct (map us_id (ac_users ac))"
    and some: "owners g ac \<noteq> []"
  shows "owners g ac' \<noteq> [] \<and>
    (set (owners g ac') = set (owners g ac) \<or> g = org \<and> actor \<in> us_id ` set (owners org ac)) \<and>
    filter (\<lambda>u. us_organisationId u \<noteq> Some org) (ac_users ac') = filter (\<lambda>u. us_organisationId u \<noteq> Some org) (ac_users ac)"
  using setOrgRole_users[OF assms(1)]
proof (elim disjE exE conjE)
  fix target
  assume t: "target \<in> set (ac_users ac)" "us_id target = userId" "us_organisationId target = Some org"
    and ac': "ac' = with_role userId orgRole ac"
    and last: "us_orgRole target = Some OWNER \<and> orgRole \<noteq> OWNER \<longrightarrow> Suc 0 < length (owners org ac)"
    and actor: "us_orgRole target = Some OWNER \<or> orgRole = OWNER \<longrightarrow> actor \<in> us_id ` set (owners org ac)"
  have only: "u = target" if "u \<in> set (ac_users ac)" "us_id u = userId" for u
    using ids t(1,2) that by (metis inj_on_contraD distinct_map)
  have outside: "filter (\<lambda>u. us_organisationId u \<noteq> Some org) (ac_users ac') =
      filter (\<lambda>u. us_organisationId u \<noteq> Some org) (ac_users ac)"
    unfolding ac' by (rule outside_kept) (use only t(3) in blast)
  show ?thesis
  proof (cases "g = org \<and> (us_orgRole target = Some OWNER \<or> orgRole = OWNER)")
    case False
    then have "owners g ac' = owners g ac"
      unfolding ac' by (intro owners_untouched) (use only t(3) in auto)
    with some outside show ?thesis by simp
  next
    case True
    have "owners g ac' \<noteq> []"
    proof (cases "orgRole = OWNER")
      case True
      with t \<open>g = org \<and> _\<close> show ?thesis unfolding ac' by (auto dest: owner_made)
    next
      case False
      with True last have "Suc 0 < length (owners g ac)" by simp
      moreover have "distinct (map us_id (owners g ac))"
        using ids unfolding owners_def by (rule distinct_map_filter)
      ultimately obtain v where "v \<in> set (owners g ac)" "us_id v \<noteq> userId"
        using two_in_list[of "owners g ac" us_id userId] by blast
      then have "v \<in> set (owners g ac')" unfolding ac' by (rule owners_kept)
      then show ?thesis by (metis list.set(1) empty_iff)
    qed
    moreover have "g = org \<and> actor \<in> us_id ` set (owners org ac)" using actor True by simp
    ultimately show ?thesis using outside by simp
  qed
qed (use some in simp)

theorem set_org_role_keeps_an_owner_witness:
  "owners ''org'' (snd (setOrgRole ''o'' VIEWER ''org'' ''o'' sample_accounts)) \<noteq> []"
  using set_org_role_keeps_an_owner[OF prod.collapse[symmetric], of sample_accounts "''org''" "''o''" VIEWER "''org''" "''o''"]
  by (simp add: account_samples owners_def)

text \<open>
  That is of requests that follow one another. The code awaits between counting the owners
  and saving, and nothing locks the rows: of two overlapping requests both may read before
  either saves. \<open>setOrgRole_late\<close> is the rest of a request that has read the accounts
  \<open>seen\<close>.
\<close>

definition setOrgRole_late :: "string \<Rightarrow> org_role \<Rightarrow> string \<Rightarrow> string \<Rightarrow> accounts \<Rightarrow> user_row account_op" where
  "setOrgRole_late userId orgRole organisationId actingUserId seen =
     (case fst (setOrgRole userId orgRole organisationId actingUserId seen) of
        Inl e \<Rightarrow> throw e
      | Inr target \<Rightarrow> then_p (update_user userId (\<lambda>r. r\<lparr>us_orgRole := Some orgRole\<rparr>)) (ret target))"

lemma setOrgRole_on_time: "setOrgRole_late i role org actor ac ac = setOrgRole i role org actor ac"
  by (auto simp: setOrgRole_late_def setOrgRole_def bind_p_def then_p_def reading_def ret_def throw_def Let_def
      update_user_def updating_def split: option.split)

text \<open>Two owners who step down at the same time leave the organisation without one.\<close>

lemma overlapping_demotions_leave_no_owner:
  assumes "distinct (map us_id (ac_users ac))" and "owners org ac = [a, b]"
    and "first = setOrgRole_late (us_id a) VIEWER org (us_id a) ac ac"
    and "second = setOrgRole_late (us_id b) VIEWER org (us_id b) ac (snd first)"
  shows "(\<exists>u v. fst first = Inr u \<and> fst second = Inr v) \<and> owners org (snd second) = []"
proof -
  have mem: "x \<in> set (ac_users ac)" "us_organisationId x = Some org" "us_orgRole x = Some OWNER" if "x \<in> {a, b}" for x
    using arg_cong[OF assms(2), of set] that by (auto simp: owners_def)
  have find: "List.find (\<lambda>u. us_id u = us_id x \<and> us_organisationId u = Some org) (ac_users ac) = Some x"
    if x: "x \<in> {a, b}" for x
  proof -
    have "us_id u \<noteq> us_id x" if "u \<in> set (ac_users ac)" "u \<noteq> x" for u
      using assms(1) mem(1)[OF x] that by (auto simp: distinct_map inj_on_def)
    with mem[OF x] show ?thesis by (cases "List.find (\<lambda>u. us_id u = us_id x \<and> us_organisationId u = Some org) (ac_users ac)")
      (auto simp: find_None_iff dest: find_Some_id)
  qed
  have passes: "\<exists>u. fst (setOrgRole (us_id x) VIEWER org (us_id x) ac) = Inr u" if "x \<in> {a, b}" for x
    using find[OF that] mem[OF that] assms(2)
    by (simp add: setOrgRole_def bind_p_def then_p_def reading_def ret_def Let_def update_user_def updating_def owners_def)
  have late: "snd (setOrgRole_late (us_id x) VIEWER org (us_id x) ac w) = with_role (us_id x) VIEWER w \<and>
      (\<exists>u. fst (setOrgRole_late (us_id x) VIEWER org (us_id x) ac w) = Inr u)" if "x \<in> {a, b}" for x w
    using passes[OF that] by (auto simp: setOrgRole_late_def then_p_def bind_p_def ret_def update_user_def updating_def with_role_def)
  have "u = a \<or> u = b" if "u \<in> set (ac_users ac)" "us_organisationId u = Some org" "us_orgRole u = Some OWNER" for u
    using arg_cong[OF assms(2), of set] that by (auto simp: owners_def)
  then have "owners org (with_role (us_id b) VIEWER (with_role (us_id a) VIEWER ac)) = []"
    by (auto simp: owners_def with_role_def update_rows_def set_users_def filter_empty_conv split: if_splits)
  then show ?thesis using late[of a ac] late[of b "snd first"] by (simp add: assms(3,4))
qed

text \<open>Deleting is not so careful: a recruiter of the organisation who may delete people,
  an administrator for instance, can delete its only owner, and the organisation is left
  without one, although \<open>setOrgRole\<close> refuses an administrator the demotion of the
  same person.\<close>

theorem an_administrator_can_delete_the_last_owner:
  assumes "distinct (map us_id (ac_users ac))"
    and "owners org ac = [v]" "us_role v = RECRUITER_ADMIN"
    and "actor \<noteq> us_id v"
  shows "\<exists>ac'. deletePerson (us_id v) org actor ac =
      (Inr \<lparr>dl_accountDeleted = True, dl_sessions = 0, dl_invitations = 0\<rparr>, ac') \<and> owners org ac' = [] \<and>
    fst (setOrgRole (us_id v) VIEWER org actor ac) = Inl OwnershipNeedsOwner"
proof -
  have v: "v \<in> set (ac_users ac)" "us_organisationId v = Some org" "us_orgRole v = Some OWNER"
    using arg_cong[OF assms(2), of set] by (auto simp: owners_def)
  have find: "List.find P (ac_users ac) = Some v" if "P v" "\<And>u. P u \<Longrightarrow> us_id u = us_id v" for P
  proof (cases "List.find P (ac_users ac)")
    case None
    with v(1) that(1) show ?thesis by (auto simp: find_None_iff)
  next
    case (Some u)
    with that(2) v(1) assms(1) show ?thesis
      by (metis find_Some_id distinct_map inj_on_contraD)
  qed
  have "owners org (drop_user (us_id v) ac) = filter (\<lambda>u. us_id u \<noteq> us_id v) (owners org ac)"
    by (simp add: owners_def drop_user_def Let_def conj_commute)
  then have "owners org (drop_user (us_id v) ac) = []"
    by (simp add: assms(2))
  moreover have "deletePerson (us_id v) org actor ac =
      (Inr \<lparr>dl_accountDeleted = True, dl_sessions = 0, dl_invitations = 0\<rparr>, drop_user (us_id v) ac)"
    using v assms(3,4) find[of "\<lambda>u. us_id u = us_id v \<and> person_visible_to_org ac org u"]
    by (simp add: deletePerson_def findVisibleOrThrow_def bind_p_def then_p_def reading_def ret_def updating_def
        person_visible_to_org_def)
  moreover have "actor \<notin> us_id ` set (owners org ac)"
    using assms(2,4) by simp
  then have "us_orgRole a \<noteq> Some OWNER" if "users_where (\<lambda>u. us_id u = actor \<and> us_organisationId u = Some org) ac = Some a" for a
    using find_Some_id[OF that] by (auto simp: owners_def image_iff)
  then have "fst (setOrgRole (us_id v) VIEWER org actor ac) = Inl OwnershipNeedsOwner"
    using v find[of "\<lambda>u. us_id u = us_id v \<and> us_organisationId u = Some org"]
    by (auto simp: setOrgRole_def bind_p_def reading_def throw_def Let_def split: option.splits)
  ultimately show ?thesis by blast
qed

theorem an_administrator_can_delete_the_last_owner_witness:
  "owners ''org'' (snd (deletePerson ''o'' ''org'' ''b'' sample_accounts)) = []"
  using an_administrator_can_delete_the_last_owner[of sample_accounts "''org''" owner "''b''"]
  by (auto simp: account_samples owners_def)

subsection \<open>Deleting a candidate\<close>

text \<open>The records that other organisations hold.\<close>

definition elsewhere_sessions :: "string \<Rightarrow> accounts \<Rightarrow> session_row list" where
  "elsewhere_sessions org ac = filter (\<lambda>s. \<not> belongs_to ac (sr_assessmentId s) org) (w_sessions (ac_db ac))"

definition elsewhere_invitations :: "string \<Rightarrow> accounts \<Rightarrow> invitation_row list" where
  "elsewhere_invitations org ac = filter (\<lambda>v. \<not> belongs_to ac (iv_assessmentId v) org) (w_invitations (ac_db ac))"

definition elsewhere_answers :: "string \<Rightarrow> accounts \<Rightarrow> response_row list" where
  "elsewhere_answers org ac = filter (\<lambda>r. rs_sessionId r \<in> sr_id ` set (elsewhere_sessions org ac)) (w_responses (ac_db ac))"

text \<open>What the foreign keys and the start of a session guarantee: a session stands on an
  invitation of its candidate to its assessment.\<close>

definition linked :: "world \<Rightarrow> bool" where
  "linked w \<longleftrightarrow> distinct (map sr_id (w_sessions w)) \<and>
     (\<forall>s\<in>set (w_sessions w). \<exists>v\<in>set (w_invitations w).
        iv_assessmentId v = sr_assessmentId s \<and> iv_candidateId v = Some (sr_candidateId s))"

lemma deletePerson_cases:
  assumes "deletePerson i org actor ac = (r, ac')"
  shows "ac' = ac \<or> (\<exists>p. p \<in> set (ac_users ac) \<and> us_id p = i \<and>
    (us_role p = RECRUITER_ADMIN \<and> ac' = drop_user i ac \<or> us_role p = CANDIDATE \<and> ac' = fst (erase_candidate p org ac)))"
  using assms
  by (auto simp: deletePerson_def findVisibleOrThrow_def bind_p_def then_p_def reading_def ret_def throw_def updating_def
      person_visible_to_org_def split: option.splits if_splits prod.splits dest!: find_Some_id)

lemma filter_sub: "(\<And>x. x \<in> set xs \<Longrightarrow> P x \<Longrightarrow> Q x) \<Longrightarrow> filter P (filter Q xs) = filter P xs"
  by (induction xs) auto

text \<open>The transaction, before the account itself may go.\<close>

definition wiped :: "user_row \<Rightarrow> string \<Rightarrow> accounts \<Rightarrow> accounts" where
  "wiped p org ac =
     (let mine = (\<lambda>s. belongs_to ac (sr_assessmentId s) org \<and> sr_candidateId s = us_id p);
          gone = sr_id ` set (filter mine (w_sessions (ac_db ac)))
      in set_db (\<lambda>w. w\<lparr>w_sessions := filter (\<lambda>s. \<not> mine s) (w_sessions w),
           w_responses := filter (\<lambda>r. rs_sessionId r \<notin> gone) (w_responses w),
           w_results := filter (\<lambda>r. mr_sessionId r \<notin> gone) (w_results w),
           w_invitations := filter (\<lambda>v. \<not> (belongs_to ac (iv_assessmentId v) org \<and> addressed_to p v)) (w_invitations w)\<rparr>) ac)"

lemma erase_wiped:
  "fst (erase_candidate p org ac) =
     (if filter (addressed_to p) (w_invitations (ac_db (wiped p org ac))) = []
      then drop_user (us_id p) (wiped p org ac) else wiped p org ac)"
  by (simp add: erase_candidate_def wiped_def Let_def set_db_def)

lemma belongs_wiped: "belongs_to (wiped p org ac) = belongs_to ac"
  by (simp add: belongs_to_def wiped_def set_db_def Let_def fun_eq_iff)

lemma elsewhere_wiped:
  assumes "linked (ac_db ac)"
  shows "elsewhere_sessions org (wiped p org ac) = elsewhere_sessions org ac"
    and "elsewhere_invitations org (wiped p org ac) = elsewhere_invitations org ac"
    and "elsewhere_answers org (wiped p org ac) = elsewhere_answers org ac"
proof -
  show s: "elsewhere_sessions org (wiped p org ac) = elsewhere_sessions org ac"
    unfolding elsewhere_sessions_def belongs_wiped
    by (simp add: wiped_def set_db_def Let_def) (rule filter_cong, auto)
  show "elsewhere_invitations org (wiped p org ac) = elsewhere_invitations org ac"
    unfolding elsewhere_invitations_def belongs_wiped
    by (simp add: wiped_def set_db_def Let_def) (rule filter_cong, auto)
  have "s = s'" if "sr_id s = sr_id s'" "s \<in> set (w_sessions (ac_db ac))" "s' \<in> set (w_sessions (ac_db ac))" for s s'
    using assms that by (auto simp: linked_def distinct_map inj_on_def)
  then show "elsewhere_answers org (wiped p org ac) = elsewhere_answers org ac"
    unfolding elsewhere_answers_def s
    by (simp add: wiped_def set_db_def Let_def) (rule filter_cong, auto simp: elsewhere_sessions_def, metis)
qed

lemma linked_wiped: "linked (ac_db ac) \<Longrightarrow> distinct (map sr_id (w_sessions (ac_db (wiped p org ac))))"
  by (simp add: linked_def wiped_def set_db_def Let_def distinct_map_filter)

lemma belongs_dropped: "belongs_to (drop_user i ac) = belongs_to ac"
  by (simp add: belongs_to_def drop_user_def Let_def fun_eq_iff)

lemma elsewhere_dropped:
  assumes "distinct (map sr_id (w_sessions (ac_db ac)))"
    and s: "\<And>s. s \<in> set (elsewhere_sessions org ac) \<Longrightarrow> sr_candidateId s \<noteq> i"
    and v: "\<And>v. v \<in> set (elsewhere_invitations org ac) \<Longrightarrow> iv_candidateId v \<noteq> Some i"
  shows "elsewhere_sessions org (drop_user i ac) = elsewhere_sessions org ac"
    and "elsewhere_invitations org (drop_user i ac) = elsewhere_invitations org ac"
    and "elsewhere_answers org (drop_user i ac) = elsewhere_answers org ac"
proof -
  show s': "elsewhere_sessions org (drop_user i ac) = elsewhere_sessions org ac"
    using s unfolding elsewhere_sessions_def belongs_dropped
    by (simp add: drop_user_def Let_def) (rule filter_cong, auto)
  show "elsewhere_invitations org (drop_user i ac) = elsewhere_invitations org ac"
    using v unfolding elsewhere_invitations_def belongs_dropped
    by (simp add: drop_user_def Let_def) (rule filter_cong, auto)
  have "s = s'" if "sr_id s = sr_id s'" "s \<in> set (w_sessions (ac_db ac))" "s' \<in> set (w_sessions (ac_db ac))" for s s'
    using assms(1) that by (auto simp: distinct_map inj_on_def)
  then have "rs_sessionId r \<notin> sr_id ` set (filter (\<lambda>s. sr_candidateId s = i) (w_sessions (ac_db ac)))"
    if "rs_sessionId r \<in> sr_id ` set (elsewhere_sessions org ac)" for r
    using that s by (auto simp: elsewhere_sessions_def) metis
  then show "elsewhere_answers org (drop_user i ac) = elsewhere_answers org ac"
    unfolding elsewhere_answers_def s'
    by (simp add: drop_user_def Let_def) (rule filter_cong, auto)
qed

text \<open>Once no invitation addresses the candidate, nothing of theirs is left elsewhere.\<close>

lemma nothing_left_elsewhere:
  assumes linked: "linked (ac_db ac)"
    and none: "filter (addressed_to p) (w_invitations (ac_db (wiped p org ac))) = []"
  shows "v \<in> set (elsewhere_invitations org ac) \<Longrightarrow> \<not> addressed_to p v"
    and "s \<in> set (elsewhere_sessions org ac) \<Longrightarrow> sr_candidateId s \<noteq> us_id p"
proof -
  show inv: "\<not> addressed_to p v" if "v \<in> set (elsewhere_invitations org ac)" for v
    using that none unfolding elsewhere_wiped(2)[OF linked, of org p, symmetric]
    by (auto simp: elsewhere_invitations_def filter_empty_conv)
  assume s: "s \<in> set (elsewhere_sessions org ac)"
  then obtain v where "v \<in> set (w_invitations (ac_db ac))" "iv_assessmentId v = sr_assessmentId s"
    "iv_candidateId v = Some (sr_candidateId s)"
    using linked by (auto simp: linked_def elsewhere_sessions_def)
  with s inv[of v] show "sr_candidateId s \<noteq> us_id p"
    by (auto simp: elsewhere_sessions_def elsewhere_invitations_def addressed_to_def)
qed

lemma erase_elsewhere:
  assumes "linked (ac_db ac)"
  shows "elsewhere_sessions org (fst (erase_candidate p org ac)) = elsewhere_sessions org ac"
    and "elsewhere_invitations org (fst (erase_candidate p org ac)) = elsewhere_invitations org ac"
    and "elsewhere_answers org (fst (erase_candidate p org ac)) = elsewhere_answers org ac"
proof -
  note w = elsewhere_wiped[OF assms, of org p]
  have d: "elsewhere_sessions org (drop_user (us_id p) (wiped p org ac)) = elsewhere_sessions org ac \<and>
      elsewhere_invitations org (drop_user (us_id p) (wiped p org ac)) = elsewhere_invitations org ac \<and>
      elsewhere_answers org (drop_user (us_id p) (wiped p org ac)) = elsewhere_answers org ac"
    if none: "filter (addressed_to p) (w_invitations (ac_db (wiped p org ac))) = []"
  proof -
    note n = nothing_left_elsewhere[OF assms none]
    have s: "sr_candidateId s \<noteq> us_id p" if "s \<in> set (elsewhere_sessions org (wiped p org ac))" for s
      using n(2) that unfolding w(1) .
    have v: "iv_candidateId v \<noteq> Some (us_id p)" if "v \<in> set (elsewhere_invitations org (wiped p org ac))" for v
      using n(1) that unfolding w(2) by (auto simp: addressed_to_def)
    show ?thesis
      using elsewhere_dropped[where ac = "wiped p org ac" and org = org and i = "us_id p",
          OF linked_wiped[OF assms] s v] w by simp
  qed
  show "elsewhere_sessions org (fst (erase_candidate p org ac)) = elsewhere_sessions org ac"
    using d w unfolding erase_wiped by simp
  show "elsewhere_invitations org (fst (erase_candidate p org ac)) = elsewhere_invitations org ac"
    using d w unfolding erase_wiped by simp
  show "elsewhere_answers org (fst (erase_candidate p org ac)) = elsewhere_answers org ac"
    using d w unfolding erase_wiped by simp
qed

text \<open>Deleting a candidate stays inside the organisation that does it: the sessions,
  invitations and answers of every other organisation are those of before, every
  other account keeps its row, and the candidate's own account goes only when no
  invitation of any organisation addresses them any more.\<close>

theorem deleting_a_candidate_stays_inside:
  assumes "linked (ac_db ac)"
    and "users_where (\<lambda>u. us_id u = i) ac = Some p" "us_role p = CANDIDATE"
    and ids: "distinct (map us_id (ac_users ac))"
    and "deletePerson i org actor ac = (r, ac')"
  shows "elsewhere_sessions org ac' = elsewhere_sessions org ac \<and>
    elsewhere_invitations org ac' = elsewhere_invitations org ac \<and>
    elsewhere_answers org ac' = elsewhere_answers org ac \<and>
    filter (\<lambda>u. us_id u \<noteq> i) (ac_users ac') = filter (\<lambda>u. us_id u \<noteq> i) (ac_users ac) \<and>
    (p \<in> set (ac_users ac') \<or> filter (addressed_to p) (elsewhere_invitations org ac) = [])"
proof -
  have p: "p \<in> set (ac_users ac)" "us_id p = i"
    using find_Some_id[OF assms(2)] by auto
  have "u = p" if "u \<in> set (ac_users ac)" "us_id u = i" for u
    using ids p that by (metis distinct_map inj_on_contraD)
  then consider "ac' = ac" | "ac' = fst (erase_candidate p org ac)"
    using deletePerson_cases[OF assms(5)] assms(3) by force
  then show ?thesis
  proof cases
    case 1
    with p(1) show ?thesis by simp
  next
    case 2
    have users: "ac_users (wiped p org ac) = ac_users ac"
      by (simp add: wiped_def set_db_def Let_def)
    show ?thesis
    proof (cases "filter (addressed_to p) (w_invitations (ac_db (wiped p org ac))) = []")
      case True
      with nothing_left_elsewhere(1)[OF assms(1) True] erase_elsewhere[OF assms(1), of org p] show ?thesis
        unfolding 2 by (simp add: erase_wiped drop_user_def users p(2) Let_def filter_empty_conv)
    next
      case False
      with p(1) erase_elsewhere[OF assms(1), of org p] show ?thesis
        unfolding 2 by (simp add: erase_wiped users)
    qed
  qed
qed

theorem deleting_a_candidate_stays_inside_witness:
  "filter (\<lambda>u. us_id u \<noteq> ''c'') (ac_users (snd (deletePerson ''c'' ''org'' ''o'' sample_accounts))) =
     [owner, administrator]"
proof -
  have "linked (ac_db sample_accounts)"
    by (simp add: linked_def sample_accounts_def running_world_def empty_world_def sample_session_def sample_invitation_def)
  moreover have "users_where (\<lambda>u. us_id u = ''c'') sample_accounts = Some candidate" "us_role candidate = CANDIDATE"
    "distinct (map us_id (ac_users sample_accounts))"
    "filter (\<lambda>u. us_id u \<noteq> ''c'') (ac_users sample_accounts) = [owner, administrator]"
    by (simp_all add: account_samples)
  ultimately show ?thesis
    using deleting_a_candidate_stays_inside[OF _ _ _ _ prod.collapse[symmetric], of sample_accounts "''c''" candidate "''org''" "''o''"]
    by simp
qed

end
