(* ===== verification/Invitation_Properties.thy ===== *)
theory Invitation_Properties
  imports Invitation_Steps Account_Properties
begin

section \<open>The properties of inviting\<close>

text \<open>
  What inviting, from the form or from a sheet, may do to the accounts and whom it mails.
\<close>

subsection \<open>Existing accounts\<close>

lemma wp_linkUser [wp_simps]: "wp (linkUserToInvitations i email) Q E ac = Q ()
  (set_db (\<lambda>w. w\<lparr>w_invitations := update_rows (\<lambda>v. iv_email v = js_toLowerCase email \<and> iv_candidateId v = None)
     (\<lambda>v. v\<lparr>iv_candidateId := Some i\<rparr>) (w_invitations w)\<rparr>) ac)"
  by (simp add: linkUserToInvitations_def wp_updating)

lemma provision_wp:
  "wp (provisionCandidateForInvite cr email name) Q E ac =
     (let e = js_toLowerCase (js_trim email)
      in case users_where (\<lambda>u. us_email u = e) ac of Some _ \<Rightarrow> Q None ac
       | None \<Rightarrow>
          let ac' = ac\<lparr>ac_random := (\<lambda>n. ac_random ac (Suc (Suc (Suc n))))\<rparr>;
              u = blank_user\<lparr>us_fullName := (if js_trim name = '''' then e else js_trim name),
                us_role := CANDIDATE, us_passwordHash := cr_hash cr (ac_random ac 1) (ac_random ac 0),
                us_mustChangePassword := True, us_id := ac_random ac 2, us_email := e\<rparr>
          in if list_ex (\<lambda>r. us_id r = ac_random ac 2 \<or> us_email r = e) (ac_users ac) then E DuplicateKey ac'
             else Q (Some (ac_random ac 2, ac_random ac 0)) (ac'\<lparr>ac_users := ac_users ac @ [u]\<rparr>))"
  by (auto simp: provisionCandidateForInvite_def wp_simps Let_def numeral_2_eq_2 split: option.split)

lemma only_provisions_provision:
  assumes "ac_users ac' = ac_users ac @ [n]" "ac_mail ac' = ac_mail ac @ mails" "list_all (mail_for [n]) mails"
    and "users_where (\<lambda>u. us_email u = us_email n) ac = None"
    and "us_role n = CANDIDATE" "us_mustChangePassword n" "us_organisationId n = None" "us_hashedRefreshToken n = None"
    and "ac_tokens ac' = ac_tokens ac" "ac_organisations ac' = ac_organisations ac" "ac_links ac' = ac_links ac"
  shows "only_provisions ac ac'"
proof -
  have "provisioned_for (ac_users ac) n"
    using assms(4-8) by (auto simp: provisioned_for_def find_None_iff)
  then show ?thesis using assms(1-3,9-) unfolding only_provisions_def by fastforce
qed

lemma enqueueInvite_provisions: "keeps (only_provisions ac) (enqueueInvite cr email name title)"
proof (rule keeps_only_provisions)
  fix s
  show "wp (enqueueInvite cr email name title) (\<lambda>_. only_provisions s) (\<lambda>_. only_provisions s) s"
  proof (cases "users_where (\<lambda>u. us_email u = js_toLowerCase (js_trim email)) s")
    case (Some u)
    then show ?thesis
      by (auto simp: enqueueInvite_def wp_simps provision_wp Let_def only_provisions_def mail_for_def)
  next
    case None
    let ?e = "js_toLowerCase (js_trim email)"
    let ?dup = "list_ex (\<lambda>r. us_id r = ac_random s 2 \<or> us_email r = ?e) (ac_users s)"
    let ?n = "blank_user\<lparr>us_fullName := (if js_trim name = '''' then ?e else js_trim name),
        us_role := CANDIDATE, us_passwordHash := cr_hash cr (ac_random s 1) (ac_random s 0),
        us_mustChangePassword := True, us_id := ac_random s 2, us_email := ?e\<rparr>"
    note step = enqueueInvite_def wp_simps provision_wp Let_def set_db_def None
    have new: "only_provisions s ac'" if "ac_users ac' = ac_users s @ [?n]" "ac_mail ac' = ac_mail s @ mails"
      "list_all (mail_for [?n]) mails" "ac_tokens ac' = ac_tokens s" "ac_organisations ac' = ac_organisations s"
      "ac_links ac' = ac_links s" for ac' mails
      using that(1-3) by (rule only_provisions_provision) (simp_all add: None that(4-6) blank_user_def)
    consider "?dup" | "\<not> ?dup" "ac_mailDown s 0" | "\<not> ?dup" "\<not> ac_mailDown s 0" by blast
    then show ?thesis
    proof cases
      case 1
      then show ?thesis by (simp add: step only_provisions_same split del: if_split)
    next
      case 2
      then show ?thesis by (simp add: step split del: if_split) (rule new[where mails = "[]"]; simp)
    next
      case 3
      then show ?thesis
        by (simp add: step split del: if_split)
          (rule new[where mails = "[Invite_mail email title (Some (ac_random s 0))]"]; simp add: mail_for_def)
    qed
  qed
qed

lemma inviteOne_provisions: "keeps (only_provisions ac) (inviteOne cr a title email name)"
proof -
  have "keeps (only_provisions ac) (save_invitation a email c source)" for c source
    by (rule keeps_only_provisions) (simp add: wp_simps Let_def set_db_def only_provisions_same)
  then show ?thesis
    unfolding inviteOne_def findByEmail_def find_invitation_def
    by (intro keeps_intros enqueueInvite_provisions; assumption)
qed

lemma keeps_prod [keeps_intros]: "(\<And>a b. p = (a, b) \<Longrightarrow> keeps I (f a b)) \<Longrightarrow> keeps I (case p of (a, b) \<Rightarrow> f a b)"
  by (cases p) simp

lemma invite_rows_provisions: "keeps (only_provisions ac) (invite_rows cr a title seen n rows)"
proof (induction rows arbitrary: seen n)
  case Nil
  then show ?case by (simp add: keeps_ret)
next
  case (Cons raw rows)
  have "keeps (only_provisions ac) (invite_one_row cr a title seen n raw)"
    unfolding invite_one_row_def Let_def
    by (cases "mapInviteRow raw") (auto intro!: keeps_intros inviteOne_provisions)
  then show ?case
    by (auto intro!: keeps_intros Cons.IH)
qed

lemma clock_provisions: "keeps (only_provisions ac) clock_now"
  by (rule keeps_only_provisions) (simp add: wp_simps only_provisions_same)

text \<open>Inviting never touches an account that exists: whatever is invited, from the
  form or from a sheet, and however it ends, every account of before is still there
  unchanged, the new ones are candidates of no organisation on addresses that had none,
  and a mail carries a password only to an address whose account was made on the way.\<close>

theorem inviting_never_touches_an_existing_account:
  "only_provisions ac (snd (bulkInvite cr assessmentId rows organisationId ac)) \<and>
   only_provisions ac (snd (inviteSingle cr assessmentId email fullName organisationId ac))"
proof
  have "keeps (only_provisions ac) (bulkInvite cr assessmentId rows organisationId)"
    unfolding bulkInvite_def owned_assessment_def by (intro keeps_intros invite_rows_provisions)
  then show "only_provisions ac (snd (bulkInvite cr assessmentId rows organisationId ac))"
    by (simp add: keeps_def)
  have "keeps (only_provisions ac) (inviteSingle cr assessmentId email fullName organisationId)"
    unfolding inviteSingle_def owned_assessment_def reload_invitation_def invitation_toView_def Let_def
    by (intro keeps_intros inviteOne_provisions clock_provisions)
  then show "only_provisions ac (snd (inviteSingle cr assessmentId email fullName organisationId ac))"
    by (simp add: keeps_def)
qed

subsection \<open>A sheet of rows\<close>

abbreviation invs :: "accounts \<Rightarrow> invitation_row list" where
  "invs ac \<equiv> w_invitations (ac_db ac)"

definition invited_to :: "string \<Rightarrow> accounts \<Rightarrow> string set" where
  "invited_to a ac = iv_email ` {v \<in> set (invs ac). iv_assessmentId v = a}"

text \<open>The table grew by pending invitations to one assessment, on addresses that had none.\<close>

definition grows_by :: "string \<Rightarrow> (string \<times> string) list \<Rightarrow> accounts \<Rightarrow> accounts \<Rightarrow> bool" where
  "grows_by a news ac ac' \<longleftrightarrow>
     map key (invs ac') = map key (invs ac) @ map (\<lambda>(i, e). (i, a, e, By_recruiter, INV_PENDING)) news \<and>
     distinct (map snd news) \<and> snd ` set news \<inter> invited_to a ac = {}"

lemma invited_to_keys: "invited_to a ac = (\<lambda>(i, b, e, s, t). e) ` {k \<in> set (map key (invs ac)). fst (snd k) = a}"
  by (force simp: invited_to_def key_def)

lemma grows_refl: "map key (invs ac') = map key (invs ac) \<Longrightarrow> grows_by a [] ac ac'"
  by (simp add: grows_by_def)

lemma addresses_of_keys:
  "(\<lambda>(i, b, e, s, t). e) ` {k \<in> A \<union> (\<lambda>(i, e). (i, a, e, x, y)) ` M. fst (snd k) = a} =
   (\<lambda>(i, b, e, s, t). e) ` {k \<in> A. fst (snd k) = a} \<union> snd ` M"
  by force

lemma grows_trans:
  assumes "grows_by a m s t" "grows_by a n t u"
  shows "grows_by a (m @ n) s u"
proof -
  have k: "set (map key (invs t)) =
      set (map key (invs s)) \<union> (\<lambda>(i, e). (i, a, e, By_recruiter, INV_PENDING)) ` set m"
  proof -
    have "map key (invs t) = map key (invs s) @ map (\<lambda>(i, e). (i, a, e, By_recruiter, INV_PENDING)) m"
      using assms(1) by (simp add: grows_by_def)
    from arg_cong[OF this, of set] show ?thesis by (simp only: set_append set_map)
  qed
  have "invited_to a t = invited_to a s \<union> snd ` set m"
    unfolding invited_to_keys k addresses_of_keys ..
  with assms show ?thesis by (auto simp: grows_by_def)
qed

lemma key_unlinked: "map key (update_rows P (\<lambda>v. v\<lparr>iv_candidateId := c\<rparr>) vs) = map key vs"
  by (simp add: update_rows_def key_def)

lemma enqueueInvite_keys: "keeps (\<lambda>ac. map key (invs ac) = ks) (enqueueInvite cr email name title)"
  unfolding keeps_wp
  by (auto simp: enqueueInvite_def wp_simps provision_wp Let_def set_db_def key_unlinked split: option.split)

lemma inviteOne_grows:
  "wp (inviteOne cr a title email name) (\<lambda>(created, _) s'. \<exists>news. length news = of_bool created \<and> grows_by a news s s')
     (\<lambda>_ s'. \<exists>news. length news \<le> Suc 0 \<and> grows_by a news s s') s"
proof -
  have q: "wp (then_p (enqueueInvite cr email name title) (ret (True, v)))
      (\<lambda>(created, _) s'. \<exists>news. length news = of_bool created \<and> grows_by a news s s')
      (\<lambda>_ s'. \<exists>news. length news \<le> Suc 0 \<and> grows_by a news s s') s1"
    if "grows_by a [x] s s1" for s1 x v
    unfolding wp_then
  proof (rule wp_mono[OF keepsD[OF enqueueInvite_keys refl]])
    fix s' assume "map key (invs s') = map key (invs s1)"
    with that have g: "grows_by a [x] s s'" by (simp add: grows_by_def)
    then show "wp (ret (True, v)) (\<lambda>(created, _) s'. \<exists>news. length news = of_bool created \<and> grows_by a news s s')
        (\<lambda>_ s'. \<exists>news. length news \<le> Suc 0 \<and> grows_by a news s s') s'"
      unfolding wp_ret by (auto intro!: exI[of _ "[x]"])
    from g show "\<exists>news. length news \<le> Suc 0 \<and> grows_by a news s s'"
      by (auto intro!: exI[of _ "[x]"])
  qed
  have new: "grows_by a [(i, email)] s s1"
    if "\<not> list_ex (\<lambda>r. iv_id r = i \<or> iv_assessmentId r = a \<and> iv_email r = email) (invs s)"
      "invs s1 = invs s @ [v]" "key v = (i, a, email, By_recruiter, INV_PENDING)" for i s1 v
    using that by (auto simp: grows_by_def invited_to_def list_ex_iff)
  show ?thesis
    unfolding inviteOne_def wp_bind wp_if wp_throw wp_findByEmail wp_find_invitation wp_option wp_ret wp_save_invitation
    by (auto simp: Let_def set_db_def key_def intro!: q new exI[of _ "[]"] grows_refl split: option.split)
qed

definition row_outcome :: "string \<Rightarrow> nat \<Rightarrow> accounts \<Rightarrow> invite_outcome \<Rightarrow> accounts \<Rightarrow> bool" where
  "row_outcome a n s out s' \<longleftrightarrow> (\<exists>news. grows_by a news s s' \<and>
     (case out of Row_invited \<Rightarrow> length news = 1 | Row_skipped \<Rightarrow> news = []
      | Row_failed f \<Rightarrow> length news \<le> 1 \<and> if_row f = n + 2))"

lemma invite_one_row_outcome:
  "wp (invite_one_row cr a title seen n raw) (\<lambda>(out, _). row_outcome a n s out) (\<lambda>_ _. False) s"
proof (cases "mapInviteRow raw")
  case (Inl e)
  then show ?thesis
    by (simp add: invite_one_row_def wp_ret Let_def row_outcome_def) (rule exI[of _ "[]"], simp add: grows_refl)
next
  case (Inr r)
  show ?thesis
  proof (cases "ir_email r \<in> set seen")
    case True
    with Inr show ?thesis by (simp add: invite_one_row_def wp_ret Let_def row_outcome_def grows_refl)
  next
    case False
    have "wp (inviteOne cr a title (ir_email r) (ir_fullName r))
        (\<lambda>(created, v) s'. row_outcome a n s (if created then Row_invited else Row_skipped) s')
        (\<lambda>e s'. row_outcome a n s (Row_failed \<lparr>if_row = n + 2, if_email = map_option js_trim (obj_get raw ''email''), if_reason = e\<rparr>) s') s"
      by (rule wp_mono[OF inviteOne_grows]) (auto simp: row_outcome_def split: prod.splits)
    with Inr False show ?thesis
      unfolding invite_one_row_def by (simp add: Let_def wp_try wp_bind wp_ret wp_ret_fun wp_prod_app case_prod_beta')
  qed
qed

definition rows_outcome :: "string \<Rightarrow> nat \<Rightarrow> nat \<Rightarrow> accounts \<Rightarrow> invite_outcome list \<Rightarrow> accounts \<Rightarrow> bool" where
  "rows_outcome a n k s outs s' \<longleftrightarrow> length outs = k \<and>
     (\<exists>news. grows_by a news s s' \<and> count_list outs Row_invited \<le> length news \<and>
        length news \<le> count_list outs Row_invited + length (failures_of outs)) \<and>
     sorted_wrt (<) (map if_row (failures_of outs)) \<and>
     (\<forall>f\<in>set (failures_of outs). n + 2 \<le> if_row f \<and> if_row f < n + 2 + k)"

lemma rows_outcome_Cons:
  assumes "row_outcome a n s out t" "rows_outcome a (Suc n) k t outs u"
  shows "rows_outcome a n (Suc k) s (out # outs) u"
proof -
  obtain m where m: "grows_by a m s t" "case out of Row_invited \<Rightarrow> length m = 1 | Row_skipped \<Rightarrow> m = []
      | Row_failed f \<Rightarrow> length m \<le> 1 \<and> if_row f = n + 2"
    using assms(1) by (auto simp: row_outcome_def)
  obtain news where news: "grows_by a news t u" "count_list outs Row_invited \<le> length news"
    "length news \<le> count_list outs Row_invited + length (failures_of outs)"
    using assms(2) by (auto simp: rows_outcome_def)
  have "grows_by a (m @ news) s u" using grows_trans m(1) news(1) by blast
  moreover have "count_list (out # outs) Row_invited \<le> length (m @ news) \<and>
      length (m @ news) \<le> count_list (out # outs) Row_invited + length (failures_of (out # outs))"
    using m(2) news(2,3) by (auto simp: failures_of_def map_filter_simps split: invite_outcome.splits)
  ultimately show ?thesis
    using assms(2) m(2) unfolding rows_outcome_def
    by (fastforce simp: failures_of_def map_filter_simps split: invite_outcome.splits)
qed

lemma invite_rows_outcome:
  "wp (invite_rows cr a title seen n rows) (rows_outcome a n (length rows) s) (\<lambda>_ _. False) s"
proof (induction rows arbitrary: seen n s)
  case Nil
  have "rows_outcome a n 0 s [] s"
    by (auto simp: rows_outcome_def failures_of_def map_filter_simps intro: grows_refl)
  then show ?case by (simp add: wp_ret)
next
  case (Cons raw rows)
  show ?case
    unfolding invite_rows.simps wp_bind
  proof (rule wp_mono[OF invite_one_row_outcome[of cr a title seen n raw s]])
    fix x :: "invite_outcome \<times> string list" and t assume "(case x of (out, _) \<Rightarrow> row_outcome a n s out) t"
    then obtain out seen' where x: "x = (out, seen')" "row_outcome a n s out t" by (cases x) auto
    have "wp (invite_rows cr a title seen' (Suc n) rows) (\<lambda>outs. rows_outcome a n (Suc (length rows)) s (out # outs)) (\<lambda>_ _. False) t"
      by (rule wp_mono[OF Cons.IH]) (auto intro: rows_outcome_Cons[OF x(2)])
    then show "wp (case x of (out, seen') \<Rightarrow> bind_p (invite_rows cr a title seen' (Suc n) rows) (\<lambda>outs. ret (out # outs)))
        (rows_outcome a n (length (raw # rows)) s) (\<lambda>_ _. False) t"
      by (simp add: x(1) wp_bind wp_ret_fun)
  qed
qed

lemma outcomes_add_up: "count_list outs Row_invited + count_list outs Row_skipped + length (failures_of outs) = length outs"
  by (induction outs) (auto simp: failures_of_def map_filter_simps split: invite_outcome.splits)

text \<open>C24: A bulk invitation accounts for every row of the sheet: invited, skipped and failed
  add up to the rows, the failures name different rows in the order of the sheet, and
  the invitations table only grew, by pending invitations to this assessment on
  different addresses that had none there: one for each row counted as invited, and at
  most one more for each failed row.\<close>

theorem bulk_invite_accounts_for_every_row:
  assumes "bulkInvite cr a rows org ac = (Inr result, ac')"
  shows "bi_totalRows result = length rows \<and>
    bi_invited result + bi_skipped result + length (bi_failures result) = length rows \<and>
    sorted_wrt (<) (map if_row (bi_failures result)) \<and>
    (if_row ` set (bi_failures result) \<subseteq> {2..<length rows + 2}) \<and>
    (\<exists>news. map key (invs ac') = map key (invs ac) @ map (\<lambda>(i, e). (i, a, e, By_recruiter, INV_PENDING)) news \<and>
       distinct (map snd news) \<and> snd ` set news \<inter> invited_to a ac = {} \<and>
       bi_invited result \<le> length news \<and> length news \<le> bi_invited result + length (bi_failures result))"
proof -
  from assms obtain title outs where run: "invite_rows cr a title [] 0 rows ac = (Inr outs, ac')"
    and result: "result = \<lparr>bi_totalRows = length rows, bi_invited = count_list outs Row_invited,
      bi_skipped = count_list outs Row_skipped, bi_failures = failures_of outs\<rparr>"
    unfolding bulkInvite_def owned_assessment_def
    by (auto simp: run_simps split: option.splits)
  have "rows_outcome a 0 (length rows) ac outs ac'"
    using wp_result[OF run invite_rows_outcome] .
  then show ?thesis
    using outcomes_add_up[of outs] by (fastforce simp: result rows_outcome_def grows_by_def)
qed

definition sample_sheet :: "string jsobj list" where
  "sample_sheet = [[(''email'', ''c@x.org'')], [(''email'', ''c.x.org'')], [(''name'', '' Nia ''), (''email'', ''N@x.org'')]]"

lemma sample_rows:
  "mapInviteRow [(''email'', ''c@x.org'')] = Inr \<lparr>ir_fullName = '''', ir_email = ''c@x.org''\<rparr>"
  "mapInviteRow [(''email'', ''c.x.org'')] = Inl (InvalidInviteRow ''c.x.org'')"
  "mapInviteRow [(''name'', '' Nia ''), (''email'', ''N@x.org'')] = Inr \<lparr>ir_fullName = ''Nia'', ir_email = ''n@x.org''\<rparr>"
  "js_toLowerCase ''c@x.org'' = ''c@x.org''" "js_toLowerCase ''n@x.org'' = ''n@x.org''"
  "js_trim ''n@x.org'' = ''n@x.org''" "js_trim ''Nia'' = ''Nia''" "js_trim ''c.x.org'' = ''c.x.org''"
  by code_simp+

lemma sample_bulk:
  "fst (bulkInvite sample_crypto ''a'' sample_sheet ''org'' sample_accounts) =
     Inr \<lparr>bi_totalRows = 3, bi_invited = 1, bi_skipped = 1, bi_failures =
       [\<lparr>if_row = 3, if_email = Some ''c.x.org'', if_reason = InvalidInviteRow ''c.x.org''\<rparr>]\<rparr>"
  by (simp add: bulkInvite_def sample_sheet_def sample_rows owned_assessment_def bind_p_def then_p_def try_catch_def reading_def
      ret_def throw_def invite_one_row_def inviteOne_def findByEmail_def find_invitation_def save_invitation_def
      random_value_def clock_now_def enqueueInvite_def provisionCandidateForInvite_def create_user_def
      linkUserToInvitations_def mail_add_def updating_def set_db_def set_users_def Let_def failures_of_def
      map_filter_simps account_samples running_world_def empty_world_def sample_assessment_def sample_invitation_def)

theorem bulk_invite_accounts_for_every_row_witness:
  "\<exists>result ac'. bulkInvite sample_crypto ''a'' sample_sheet ''org'' sample_accounts = (Inr result, ac') \<and>
     bi_invited result = 1 \<and> bi_invited result + bi_skipped result + length (bi_failures result) = length sample_sheet"
proof -
  obtain ac' where run: "bulkInvite sample_crypto ''a'' sample_sheet ''org'' sample_accounts =
    (Inr \<lparr>bi_totalRows = 3, bi_invited = 1, bi_skipped = 1, bi_failures =
       [\<lparr>if_row = 3, if_email = Some ''c.x.org'', if_reason = InvalidInviteRow ''c.x.org''\<rparr>]\<rparr>, ac')"
    using sample_bulk by (metis prod.collapse)
  from bulk_invite_accounts_for_every_row[OF run] run show ?thesis by simp
qed

end
