(* ===== verification/Reset_Links.thy ===== *)
theory Reset_Links
  imports Auth
begin

section \<open>A reset link works once\<close>

text \<open>
  Several requests to set a new password run at the same time, each one a sequence of
  database statements, and between any two of them other requests, new links and the rest
  of the platform make their own. A request is in the phase its last statement left it in.
\<close>

datatype reset_phase =
    Asked
  | Looked reset_token
  | Claimed reset_token
  | Burned reset_token
  | Changed reset_token
  | Redeemed reset_token
  | Refused

record reset_request =
  rq_token :: string
  rq_newPassword :: string
  rq_phase :: reset_phase

definition after :: "'a account_op \<Rightarrow> ('a \<Rightarrow> reset_phase) \<Rightarrow> accounts \<Rightarrow> reset_phase \<times> accounts" where
  "after m f ac = (case m ac of (Inl e, ac') \<Rightarrow> (Refused, ac') | (Inr x, ac') \<Rightarrow> (f x, ac'))"

text \<open>The next statement of a request.\<close>

definition statement :: "crypto \<Rightarrow> reset_request \<Rightarrow> accounts \<Rightarrow> reset_phase \<times> accounts" where
  "statement cr q =
     (case rq_phase q of
        Asked \<Rightarrow> after (reset_lookup cr (rq_token q)) Looked
      | Looked r \<Rightarrow> after (reset_claim r) (\<lambda>_. Claimed r)
      | Claimed r \<Rightarrow> after (reset_burn r) (\<lambda>_. Burned r)
      | Burned r \<Rightarrow> after (setPassword cr (pt_userId r) (rq_newPassword q)) (\<lambda>_. Changed r)
      | Changed r \<Rightarrow> after (clearRefreshTokens (pt_userId r)) (\<lambda>_. Redeemed r)
      | Redeemed r \<Rightarrow> (\<lambda>ac. (Redeemed r, ac))
      | Refused \<Rightarrow> (\<lambda>ac. (Refused, ac)))"

definition run_statement :: "crypto \<Rightarrow> reset_request \<times> accounts \<Rightarrow> reset_request \<times> accounts" where
  "run_statement cr = (\<lambda>(q, ac). let (p, ac') = statement cr q ac in (q\<lparr>rq_phase := p\<rparr>, ac'))"

text \<open>Undisturbed, the five statements are the method.\<close>

lemma statements_are_resetPassword:
  "(let (q, ac') = (run_statement cr ^^ 5) (\<lparr>rq_token = token, rq_newPassword = pw, rq_phase = Asked\<rparr>, ac)
    in case resetPassword cr token pw ac of
         (Inl e, ac'') \<Rightarrow> rq_phase q = Refused \<and> ac' = ac''
       | (Inr u, ac'') \<Rightarrow> (\<exists>r. rq_phase q = Redeemed r) \<and> ac' = ac'')"
  by (simp add: eval_nat_numeral resetPassword_def bind_p_def then_p_def run_statement_def statement_def after_def
      split: prod.splits sum.splits)

subsection \<open>The system\<close>

record reset_system =
  sy_accounts :: accounts
  sy_requests :: "reset_request list"

text \<open>The link a request has taken for itself.\<close>

definition taken :: "reset_request \<Rightarrow> reset_token option" where
  "taken q = (case rq_phase q of Claimed r \<Rightarrow> Some r | Burned r \<Rightarrow> Some r | Changed r \<Rightarrow> Some r
     | Redeemed r \<Rightarrow> Some r | _ \<Rightarrow> None)"

definition taken_ids :: "reset_system \<Rightarrow> string list" where
  "taken_ids S = map pt_id (List.map_filter taken (sy_requests S))"

text \<open>
  Elsewhere: accounts, clocks and queues change at will; the tokens only by minting one with
  an id that was never used (ids are UUIDs), by being spent, or by being deleted with their
  account.
\<close>

definition tokens_evolve :: "reset_system \<Rightarrow> accounts \<Rightarrow> bool" where
  "tokens_evolve S ac' \<longleftrightarrow>
     (\<forall>t'\<in>set (ac_tokens ac'). pt_usedAt t' = None \<longrightarrow>
        t' \<in> set (ac_tokens (sy_accounts S)) \<or> pt_id t' \<notin> set (taken_ids S))"

inductive reset_step :: "crypto \<Rightarrow> reset_system \<Rightarrow> reset_system \<Rightarrow> bool" for cr where
  arrives: "reset_step cr S (S\<lparr>sy_requests := sy_requests S @ [\<lparr>rq_token = token, rq_newPassword = pw, rq_phase = Asked\<rparr>]\<rparr>)"
| proceeds: "i < length (sy_requests S) \<Longrightarrow> run_statement cr (sy_requests S ! i, sy_accounts S) = (q, ac') \<Longrightarrow>
    reset_step cr S (S\<lparr>sy_accounts := ac', sy_requests := (sy_requests S)[i := q]\<rparr>)"
| elsewhere: "tokens_evolve S ac' \<Longrightarrow> reset_step cr S (S\<lparr>sy_accounts := ac'\<rparr>)"

inductive reachable_reset :: "crypto \<Rightarrow> reset_system \<Rightarrow> bool" for cr where
  start: "reachable_reset cr \<lparr>sy_accounts = ac, sy_requests = []\<rparr>"
| step: "reachable_reset cr S \<Longrightarrow> reset_step cr S S' \<Longrightarrow> reachable_reset cr S'"

definition reset_inv :: "reset_system \<Rightarrow> bool" where
  "reset_inv S \<longleftrightarrow> distinct (taken_ids S) \<and>
     (\<forall>t\<in>set (ac_tokens (sy_accounts S)). pt_usedAt t = None \<longrightarrow> pt_id t \<notin> set (taken_ids S))"

text \<open>What one statement does to the tokens, and to what the request holds.\<close>

lemma update_user_tokens [simp]: "ac_tokens (snd (update_user i f ac)) = ac_tokens ac"
  by (simp add: update_user_def updating_def set_users_def)

lemma setPassword_tokens: "setPassword cr i pw ac = (r, ac') \<Longrightarrow> ac_tokens ac' = ac_tokens ac"
  by (auto simp: setPassword_def bind_p_def random_value_def findById_def reading_def throw_def update_user_def
      updating_def set_users_def split: option.splits)

lemma reset_lookup_tokens: "reset_lookup cr token ac = (r, ac') \<Longrightarrow> ac_tokens ac' = ac_tokens ac"
  by (auto simp: reset_lookup_def bind_p_def reading_def throw_def ret_def clock_now_def
      split: option.splits if_splits)

lemma unused_after_mark:
  "t \<in> set (ac_tokens (mark_used P now ac)) \<Longrightarrow> pt_usedAt t = None \<Longrightarrow> t \<in> set (ac_tokens ac) \<and> \<not> P t"
  by (auto simp: mark_used_def update_rows_def split: if_splits)

text \<open>Either the request keeps what it had and no token becomes unused, or it claims a token
  that was unused and marks it.\<close>

lemma statement_effect:
  assumes "run_statement cr (q, ac) = (q', ac')"
  shows "(\<forall>t\<in>set (ac_tokens ac'). pt_usedAt t = None \<longrightarrow> t \<in> set (ac_tokens ac)) \<and>
    (taken q' = taken q \<or> taken q' = None \<or>
     (\<exists>r. taken q' = Some r \<and> taken q = None \<and>
        (\<exists>t\<in>set (ac_tokens ac). pt_id t = pt_id r \<and> pt_usedAt t = None) \<and>
        (\<forall>t\<in>set (ac_tokens ac'). pt_usedAt t = None \<longrightarrow> pt_id t \<noteq> pt_id r)))"
proof -
  obtain p where p: "statement cr q ac = (p, ac')" "q' = q\<lparr>rq_phase := p\<rparr>"
    using assms by (auto simp: run_statement_def split: prod.splits)
  show ?thesis
  proof (cases "rq_phase q")
    case Asked
    with p reset_lookup_tokens[of cr "rq_token q" ac] show ?thesis
      by (auto simp: statement_def after_def taken_def split: prod.splits sum.splits)
  next
    case (Looked r)
    let ?now = "ac_clock ac 0" and ?ac1 = "ac\<lparr>ac_clock := (\<lambda>n. ac_clock ac (Suc n))\<rparr>"
    have ac': "ac' = mark_used (\<lambda>t. pt_id t = pt_id r) ?now ?ac1"
      and ph: "p = (if filter (\<lambda>t. pt_id t = pt_id r \<and> pt_usedAt t = None) (ac_tokens ac) = [] then Refused else Claimed r)"
      using p(1) Looked by (auto simp: statement_def after_def reset_claim_def bind_p_def clock_now_def Let_def
          split: if_splits)
    have "t \<in> set (ac_tokens ac) \<and> pt_id t \<noteq> pt_id r" if "t \<in> set (ac_tokens ac')" "pt_usedAt t = None" for t
      using unused_after_mark[of t _ _ ?ac1] that unfolding ac' by auto
    with Looked p(2) ph show ?thesis
      by (auto simp: taken_def filter_empty_conv)
  next
    case (Claimed r)
    then have "ac' = mark_used (\<lambda>t. pt_userId t = pt_userId r) (ac_clock ac 0) (ac\<lparr>ac_clock := (\<lambda>n. ac_clock ac (Suc n))\<rparr>)"
      "p = Burned r"
      using p(1) by (auto simp: statement_def after_def reset_burn_def bind_p_def clock_now_def updating_def)
    with Claimed p(2) unused_after_mark[of _ _ _ "ac\<lparr>ac_clock := (\<lambda>n. ac_clock ac (Suc n))\<rparr>"] show ?thesis
      by (auto simp: taken_def)
  next
    case (Burned r)
    with p setPassword_tokens[of cr "pt_userId r" "rq_newPassword q" ac] show ?thesis
      by (auto simp: statement_def after_def taken_def split: prod.splits sum.splits)
  next
    case (Changed r)
    with p show ?thesis
      by (auto simp: statement_def after_def taken_def clearRefreshTokens_def update_user_def updating_def set_users_def)
  qed (use p in \<open>auto simp: statement_def taken_def\<close>)
qed

subsection \<open>The invariant\<close>

definition held :: "reset_request list \<Rightarrow> string list" where
  "held qs = map pt_id (List.map_filter taken qs)"

lemma held_simps [simp]:
  "held [] = []"
  "held (q # qs) = (case taken q of None \<Rightarrow> held qs | Some r \<Rightarrow> pt_id r # held qs)"
  "held (ps @ qs) = held ps @ held qs"
  by (auto simp: held_def map_filter_simps map_filter_append split: option.splits)

lemma taken_ids_held: "taken_ids S = held (sy_requests S)"
  by (simp add: taken_ids_def held_def)

lemma reset_inv_proceeds:
  assumes inv: "reset_inv \<lparr>sy_accounts = ac, sy_requests = ps @ q # qs\<rparr>"
    and run: "run_statement cr (q, ac) = (q', ac')"
  shows "reset_inv \<lparr>sy_accounts = ac', sy_requests = ps @ q' # qs\<rparr>"
proof -
  note effect = statement_effect[OF run]
  then have unused: "t \<in> set (ac_tokens ac)" if "t \<in> set (ac_tokens ac')" "pt_usedAt t = None" for t
    using that by blast
  consider (same) "taken q' = taken q" | (loses) "taken q' = None"
    | (claims) r t where "taken q' = Some r" "taken q = None" "t \<in> set (ac_tokens ac)" "pt_id t = pt_id r"
        "pt_usedAt t = None" "\<forall>t\<in>set (ac_tokens ac'). pt_usedAt t = None \<longrightarrow> pt_id t \<noteq> pt_id r"
    using effect by (elim conjE disjE exE bexE) auto
  then show ?thesis
  proof cases
    case claims
    then have "pt_id r \<notin> set (held ps) \<union> set (held qs)"
      using inv by (fastforce simp: reset_inv_def taken_ids_held)
    with claims inv unused show ?thesis
      by (auto simp: reset_inv_def taken_ids_held)
  qed (use inv unused in \<open>auto simp: reset_inv_def taken_ids_held split: option.splits\<close>)
qed

lemma reset_inv_step: "reset_step cr S S' \<Longrightarrow> reset_inv S \<Longrightarrow> reset_inv S'"
proof (induction rule: reset_step.cases)
  case (arrives S token pw)
  then show ?case by (simp add: reset_inv_def taken_ids_held taken_def)
next
  case (proceeds i S q' ac')
  define ps q qs where "ps = take i (sy_requests S)" "q = sy_requests S ! i" "qs = drop (Suc i) (sy_requests S)"
  have split: "sy_requests S = ps @ q # qs" "(sy_requests S)[i := q'] = ps @ q' # qs"
    using proceeds(3) by (simp_all add: ps_q_qs_def id_take_nth_drop upd_conv_take_nth_drop)
  have "S = \<lparr>sy_accounts = sy_accounts S, sy_requests = ps @ q # qs\<rparr>"
    using split(1) by simp
  then have "reset_inv \<lparr>sy_accounts = sy_accounts S, sy_requests = ps @ q # qs\<rparr>"
    using proceeds(1,5) by metis
  moreover have "run_statement cr (q, sy_accounts S) = (q', ac')"
    using proceeds(4) by (simp add: ps_q_qs_def)
  ultimately have "reset_inv \<lparr>sy_accounts = ac', sy_requests = ps @ q' # qs\<rparr>"
    by (rule reset_inv_proceeds)
  with proceeds(2) split(2) show ?case by (simp add: reset_inv_def taken_ids_held)
next
  case (elsewhere S ac')
  then show ?case by (auto simp: reset_inv_def tokens_evolve_def taken_ids_held)
qed

lemma reachable_reset_inv: "reachable_reset cr S \<Longrightarrow> reset_inv S"
proof (induction rule: reachable_reset.induct)
  case (start ac)
  then show ?case by (simp add: reset_inv_def taken_ids_held)
next
  case (step S S')
  then show ?case using reset_inv_step by blast
qed

text \<open>Minting a link is one of the steps made elsewhere, its id being a fresh UUID.\<close>

lemma mint_tokens:
  "mintResetLink cr userId ac = (r, ac') \<Longrightarrow>
   ac_tokens ac' = ac_tokens ac \<or>
   (\<exists>t. ac_tokens ac' = ac_tokens ac @ [t] \<and> pt_id t = ac_random ac 1 \<and> pt_userId t = userId)"
  by (auto simp: mintResetLink_def bind_p_def random_value_def clock_now_def split: if_splits)

lemma minting_is_elsewhere:
  assumes "mintResetLink cr userId (sy_accounts S) = (r, ac')"
    and "ac_random (sy_accounts S) 1 \<notin> set (taken_ids S)"
  shows "tokens_evolve S ac'"
  using mint_tokens[OF assms(1)] assms(2) by (auto simp: tokens_evolve_def)

end
