(* ===== verification/Auth_Properties.thy ===== *)
theory Auth_Properties
  imports Account_Properties Reset_Links
begin

section \<open>The properties of signing in, refreshing and resetting\<close>

text \<open>
  A link to reset a password under any interleaving of requests, what a new password
  replaces, and the rotation of refresh tokens, whose statements can overlap.
\<close>

lemma sound_verify: "sound_crypto cr \<Longrightarrow> cr_verify cr (cr_hash cr salt p) q \<longleftrightarrow> p = q"
  unfolding sound_crypto_def by blast

lemma sound_refresh: "sound_crypto cr \<Longrightarrow> cr_refresh cr i e r j = cr_refresh cr i' e' r' j' \<Longrightarrow> j = j'"
  unfolding sound_crypto_def by blast

text \<open>C19: A reset link works once: however the statements of concurrent requests interleave
  with each other, with new links and with everything else, no two requests
  ever take the same link for themselves.\<close>

theorem reset_link_is_single_use:
  assumes "reachable_reset cr S"
  shows "distinct (taken_ids S)"
  using reachable_reset_inv[OF assms] by (simp add: reset_inv_def)

definition asks :: "string \<Rightarrow> reset_request" where
  "asks pw = \<lparr>rq_token = ''link'', rq_newPassword = pw, rq_phase = Asked\<rparr>"

text \<open>Two requests with the same link: both look it up before either claims it.\<close>

definition two_requests :: "nat list \<Rightarrow> reset_system" where
  "two_requests is = foldl (\<lambda>S i. case run_statement sample_crypto (sy_requests S ! i, sy_accounts S) of
       (q, ac') \<Rightarrow> S\<lparr>sy_accounts := ac', sy_requests := (sy_requests S)[i := q]\<rparr>)
     \<lparr>sy_accounts = sample_accounts, sy_requests = [asks ''a'', asks ''b'']\<rparr> is"

lemma two_requests_length: "length (sy_requests (two_requests is)) = 2"
  by (induction "is" rule: rev_induct) (simp_all add: two_requests_def split: prod.split)

lemma two_requests_reachable: "set is \<subseteq> {0, 1} \<Longrightarrow> reachable_reset sample_crypto (two_requests is)"
proof (induction "is" rule: rev_induct)
  case Nil
  have "reachable_reset sample_crypto \<lparr>sy_accounts = sample_accounts, sy_requests = [asks ''a'']\<rparr>"
    using reachable_reset.step[OF reachable_reset.start reset_step.arrives, of sample_crypto sample_accounts "''link''" "''a''"]
    by (simp add: asks_def)
  from reachable_reset.step[OF this reset_step.arrives, of "''link''" "''b''"]
  show ?case by (simp add: two_requests_def asks_def)
next
  case (snoc i "is")
  then have "reachable_reset sample_crypto (two_requests is)" "i < length (sy_requests (two_requests is))"
    by (auto simp: two_requests_length)
  obtain q ac' where q: "run_statement sample_crypto (sy_requests (two_requests is) ! i, sy_accounts (two_requests is)) = (q, ac')"
    by fastforce
  have "two_requests (is @ [i]) = (two_requests is)\<lparr>sy_accounts := ac', sy_requests := (sy_requests (two_requests is))[i := q]\<rparr>"
    using q by (simp add: two_requests_def)
  with reachable_reset.step[OF \<open>reachable_reset _ _\<close> reset_step.proceeds[OF \<open>i < _\<close> q]]
  show ?case by simp
qed

theorem reset_link_is_single_use_witness:
  "distinct (taken_ids (two_requests [0, 1, 0, 1])) \<and> taken_ids (two_requests [0, 1, 0, 1]) = [''p'']"
proof
  show "distinct (taken_ids (two_requests [0, 1, 0, 1]))"
    by (rule reset_link_is_single_use[OF two_requests_reachable]) simp
  show "taken_ids (two_requests [0, 1, 0, 1]) = [''p'']"
    by (simp add: two_requests_def asks_def taken_ids_def taken_def run_statement_def statement_def after_def
        reset_lookup_def reset_claim_def bind_p_def reading_def clock_now_def ret_def throw_def mark_used_def
        update_rows_def account_samples map_filter_simps)
qed

subsection \<open>Setting a new password\<close>

definition credentials_reset :: "string \<Rightarrow> user_row \<Rightarrow> user_row" where
  "credentials_reset h u = u\<lparr>us_passwordHash := h, us_mustChangePassword := False,
     us_hashedRefreshToken := None, us_recentRefreshTokens := Some []\<rparr>"

lemma update_rows_twice:
  "(\<And>r. P (f r) = P r) \<Longrightarrow> update_rows P g (update_rows P f rs) = update_rows P (g \<circ> f) rs"
  by (simp add: update_rows_def)

lemma updated_row:
  assumes "u \<in> set rs" "K u = k" "\<And>v. v \<in> set rs \<Longrightarrow> K v = k \<Longrightarrow> v = u" "\<And>v. K (f v) = K v"
  shows "{v \<in> set (update_rows (\<lambda>r. K r = k) f rs). K v = k} = {f u}"
proof (intro set_eqI iffI)
  fix v assume "v \<in> {v \<in> set (update_rows (\<lambda>r. K r = k) f rs). K v = k}"
  then obtain r where r: "r \<in> set rs" "v = (if K r = k then f r else r)" "K v = k"
    by (auto simp: update_rows_def)
  then have "K r = k" by (metis assms(4))
  with r assms(3) show "v \<in> {f u}" by simp
next
  fix v assume "v \<in> {f u}"
  moreover have "f u \<in> set (update_rows (\<lambda>r. K r = k) f rs)"
    unfolding update_rows_def set_map by (rule image_eqI[of _ _ u]) (simp_all add: assms(1,2))
  ultimately show "v \<in> {v \<in> set (update_rows (\<lambda>r. K r = k) f rs). K v = k}"
    using assms(2,4) by simp
qed

lemma other_rows:
  "(\<And>v. K (f v) = K v) \<Longrightarrow>
   filter (\<lambda>v. K v \<noteq> k) (update_rows (\<lambda>r. K r = k) f rs) = filter (\<lambda>v. K v \<noteq> k) rs"
  by (induction rs) (simp_all add: update_rows_def)

lemma reset_lookup_run:
  assumes "reset_lookup cr token ac = (Inr r, ac')"
  shows "List.find (\<lambda>t. pt_tokenHash t = cr_digest cr token) (ac_tokens ac) = Some r \<and> pt_usedAt r = None \<and>
    ac_clock ac 0 \<le> pt_expiresAt r \<and> ac' = ac\<lparr>ac_clock := (\<lambda>n. ac_clock ac (Suc n))\<rparr>"
  using assms by (auto simp: reset_lookup_def bind_p_def reading_def throw_def ret_def clock_now_def
      split: option.splits if_splits)

text \<open>What \<open>resetPassword\<close> leaves in the two tables.\<close>

lemma resetPassword_run:
  assumes "resetPassword cr token pw ac = (Inr (), ac')"
  obtains r now now' salt where
    "List.find (\<lambda>t. pt_tokenHash t = cr_digest cr token) (ac_tokens ac) = Some r"
    "pt_usedAt r = None" "ac_clock ac 0 \<le> pt_expiresAt r"
    "\<exists>u\<in>set (ac_users ac). us_id u = pt_userId r"
    "ac_users ac' = update_rows (\<lambda>u. us_id u = pt_userId r) (credentials_reset (cr_hash cr salt pw)) (ac_users ac)"
    "ac_tokens ac' = update_rows (\<lambda>t. pt_userId t = pt_userId r \<and> pt_usedAt t = None) (\<lambda>t. t\<lparr>pt_usedAt := Some now'\<rparr>)
       (update_rows (\<lambda>t. pt_id t = pt_id r \<and> pt_usedAt t = None) (\<lambda>t. t\<lparr>pt_usedAt := Some now\<rparr>) (ac_tokens ac))"
proof -
  from assms obtain r ac1 ac2 ac3 ac4 where run: "reset_lookup cr token ac = (Inr r, ac1)"
    "reset_claim r ac1 = (Inr (), ac2)" "reset_burn r ac2 = (Inr (), ac3)"
    "setPassword cr (pt_userId r) pw ac3 = (Inr (), ac4)" "clearRefreshTokens (pt_userId r) ac4 = (Inr (), ac')"
    unfolding resetPassword_def run_simps by auto
  note l = reset_lookup_run[OF run(1)]
  have c: "ac2 = mark_used (\<lambda>t. pt_id t = pt_id r) (ac_clock ac1 0) (ac1\<lparr>ac_clock := (\<lambda>n. ac_clock ac1 (Suc n))\<rparr>)"
    using run(2) by (auto simp: reset_claim_def bind_p_def clock_now_def Let_def split: if_splits)
  have b: "ac3 = mark_used (\<lambda>t. pt_userId t = pt_userId r) (ac_clock ac2 0) (ac2\<lparr>ac_clock := (\<lambda>n. ac_clock ac2 (Suc n))\<rparr>)"
    using run(3) by (auto simp: reset_burn_def bind_p_def clock_now_def updating_def)
  have u1: "ac_users ac3 = ac_users ac" using l c b by (simp add: mark_used_def)
  have s: "ac_users ac4 = update_rows (\<lambda>u. us_id u = pt_userId r)
      (\<lambda>u. u\<lparr>us_passwordHash := cr_hash cr (ac_random ac3 0) pw, us_mustChangePassword := False\<rparr>) (ac_users ac)"
    and in_users: "\<exists>u\<in>set (ac_users ac). us_id u = pt_userId r"
    using run(4) u1 by (auto simp: setPassword_def bind_p_def random_value_def findById_def reading_def throw_def
        update_user_def updating_def set_users_def split: option.splits dest!: find_Some_id)
  have t: "ac_tokens ac4 = ac_tokens ac3" using setPassword_tokens[OF run(4)] .
  have e: "ac' = set_users (update_rows (\<lambda>u. us_id u = pt_userId r)
      (\<lambda>u. u\<lparr>us_hashedRefreshToken := None, us_recentRefreshTokens := Some []\<rparr>)) ac4"
    using run(5) by (simp add: clearRefreshTokens_def update_user_def updating_def)
  show thesis
  proof (rule that)
    show "ac_users ac' = update_rows (\<lambda>u. us_id u = pt_userId r)
        (credentials_reset (cr_hash cr (ac_random ac3 0) pw)) (ac_users ac)"
      by (simp add: e s set_users_def update_rows_twice o_def credentials_reset_def[abs_def])
    show "ac_tokens ac' = update_rows (\<lambda>t. pt_userId t = pt_userId r \<and> pt_usedAt t = None)
        (\<lambda>t. t\<lparr>pt_usedAt := Some (ac_clock ac2 0)\<rparr>)
       (update_rows (\<lambda>t. pt_id t = pt_id r \<and> pt_usedAt t = None) (\<lambda>t. t\<lparr>pt_usedAt := Some (ac_clock ac1 0)\<rparr>) (ac_tokens ac))"
      using l c b t by (simp add: e set_users_def mark_used_def)
  qed (use l in_users in blast)+
qed

text \<open>C20: A successful reset replaces every credential: the link existed, was unused and had
  not expired; its user's password verifies the new one and nothing else, no refresh token
  of theirs survives, every reset link of theirs is used up, every other
  account is as before, and the same link asked again is refused.\<close>

theorem reset_replaces_every_credential:
  assumes "sound_crypto cr" "distinct (map us_id (ac_users ac))"
    and run: "resetPassword cr token pw ac = (Inr (), ac')"
  shows "\<exists>r u h. List.find (\<lambda>t. pt_tokenHash t = cr_digest cr token) (ac_tokens ac) = Some r \<and>
    pt_usedAt r = None \<and> ac_clock ac 0 \<le> pt_expiresAt r \<and>
    u \<in> set (ac_users ac) \<and> us_id u = pt_userId r \<and>
    {v \<in> set (ac_users ac'). us_id v = pt_userId r} = {credentials_reset h u} \<and>
    (\<forall>q. cr_verify cr h q \<longleftrightarrow> q = pw) \<and>
    {t \<in> set (ac_tokens ac'). pt_userId t = pt_userId r \<and> pt_usedAt t = None} = {} \<and>
    filter (\<lambda>v. us_id v \<noteq> pt_userId r) (ac_users ac') = filter (\<lambda>v. us_id v \<noteq> pt_userId r) (ac_users ac) \<and>
    fst (resetPassword cr token pw' ac') = Inl ResetLinkInvalid"
  using resetPassword_run[OF run]
proof cases
  case (1 r now now' salt)
  let ?h = "cr_hash cr salt pw"
  obtain u where u: "u \<in> set (ac_users ac)" "us_id u = pt_userId r"
    using 1(4) by auto
  have only: "v = u" if "v \<in> set (ac_users ac)" "us_id v = pt_userId r" for v
    using assms(2) u that by (metis distinct_map inj_on_contraD)
  have row: "{v \<in> set (ac_users ac'). us_id v = pt_userId r} = {credentials_reset ?h u}"
    unfolding 1(5) by (rule updated_row[where K = us_id, OF u]) (use only in \<open>auto simp: credentials_reset_def\<close>)
  have others: "filter (\<lambda>v. us_id v \<noteq> pt_userId r) (ac_users ac') = filter (\<lambda>v. us_id v \<noteq> pt_userId r) (ac_users ac)"
    unfolding 1(5) by (rule other_rows) (simp add: credentials_reset_def)
  have used: "{t \<in> set (ac_tokens ac'). pt_userId t = pt_userId r \<and> pt_usedAt t = None} = {}"
    by (auto simp: 1(6) update_rows_def split: if_splits)
  have again: "fst (resetPassword cr token pw' ac') = Inl ResetLinkInvalid"
  proof -
    let ?H = "\<lambda>t. pt_tokenHash t = cr_digest cr token"
    have upd: "List.find ?H (update_rows P (\<lambda>t. t\<lparr>pt_usedAt := x\<rparr>) ts) =
        map_option (\<lambda>t. if P t then t\<lparr>pt_usedAt := x\<rparr> else t) (List.find ?H ts)" for P x ts
      by (induction ts) (auto simp: update_rows_def)
    have "List.find ?H (ac_tokens ac') = Some (r\<lparr>pt_usedAt := Some now\<rparr>)"
      using 1(2) by (simp add: 1(6) upd 1(1))
    then show ?thesis
      by (simp add: resetPassword_def reset_lookup_def bind_p_def reading_def throw_def)
  qed
  have "cr_verify cr ?h q \<longleftrightarrow> q = pw" for q
    by (metis sound_verify[OF assms(1)])
  with 1(1-3) u row others used again show ?thesis by blast
qed

theorem reset_replaces_every_credential_witness:
  "fst (resetPassword sample_crypto ''link'' ''again''
     (snd (resetPassword sample_crypto ''link'' ''new'' sample_accounts))) = Inl ResetLinkInvalid"
proof -
  have ids: "distinct (map us_id (ac_users sample_accounts))"
    by (simp add: account_samples)
  have run: "resetPassword sample_crypto ''link'' ''new'' sample_accounts =
      (Inr (), snd (resetPassword sample_crypto ''link'' ''new'' sample_accounts))"
    by (simp add: prod_eq_iff resetPassword_def reset_lookup_def reset_claim_def reset_burn_def setPassword_def
        clearRefreshTokens_def update_user_def findById_def random_value_def updating_def set_users_def then_p_def
        bind_p_def reading_def clock_now_def ret_def mark_used_def update_rows_def account_samples)
  from reset_replaces_every_credential[OF sample_crypto_sound ids run, of "''again''"] show ?thesis by blast
qed

subsection \<open>Refreshing\<close>

definition live_at :: "int \<Rightarrow> int \<Rightarrow> user_row \<Rightarrow> recent_refresh_token list" where
  "live_at windowMs now u = (if windowMs \<le> 0 then []
     else take MAX_RECENT_REFRESH_TOKENS (filter (\<lambda>e. rr_at e \<ge> now - windowMs) (or_else (us_recentRefreshTokens u) [])))"

definition knows :: "crypto \<Rightarrow> string \<Rightarrow> recent_refresh_token list \<Rightarrow> bool" where
  "knows cr token = list_ex (\<lambda>e. cr_verify cr (rr_hash e) token)"

definition rotated :: "string \<Rightarrow> recent_refresh_token list \<Rightarrow> user_row \<Rightarrow> user_row" where
  "rotated h rs u = u\<lparr>us_hashedRefreshToken := Some h, us_recentRefreshTokens := Some rs\<rparr>"

definition revoked :: "user_row \<Rightarrow> user_row" where
  "revoked u = u\<lparr>us_hashedRefreshToken := None, us_recentRefreshTokens := Some []\<rparr>"

lemma liveRecentTokens_run:
  "\<exists>ac1. liveRecentTokens windowMs u ac = (Inr (live_at windowMs (ac_clock ac 0) u), ac1) \<and>
     ac_users ac1 = ac_users ac \<and> ac_random ac1 = ac_random ac"
  by (simp add: liveRecentTokens_def live_at_def bind_p_def ret_def clock_now_def)

lemma issue_rotate_run:
  assumes "us_hashedRefreshToken u = Some c"
  shows "\<exists>salt now t ac'. issueTokens cr windowMs u Rotate ac =
      (Inr \<lparr>au_accessToken = cr_access cr (us_id u) (us_email u) (us_role u),
            au_refreshToken = cr_refresh cr (us_id u) (us_email u) (us_role u) (ac_random ac 0), au_user = u\<rparr>, ac') \<and>
    ac_users ac' = update_rows (\<lambda>r. us_id r = us_id u)
      (rotated (cr_hash cr salt (cr_refresh cr (us_id u) (us_email u) (us_role u) (ac_random ac 0)))
        (\<lparr>rr_hash = c, rr_at = t\<rparr> # take (MAX_RECENT_REFRESH_TOKENS - 1) (live_at windowMs now u))) (ac_users ac) \<and>
    ac_random ac' = (\<lambda>n. ac_random ac (Suc (Suc n)))"
proof -
  let ?ac = "ac\<lparr>ac_random := (\<lambda>n. ac_random ac (Suc (Suc n)))\<rparr>"
  obtain ac1 where live: "liveRecentTokens windowMs u ?ac = (Inr (live_at windowMs (ac_clock ac 0) u), ac1)"
    "ac_users ac1 = ac_users ac" "ac_random ac1 = (\<lambda>n. ac_random ac (Suc (Suc n)))"
    using liveRecentTokens_run[of windowMs u ?ac] by auto
  show ?thesis
    by (rule exI[of _ "ac_random ac 1"], rule exI[of _ "ac_clock ac 0"], rule exI[of _ "ac_clock ac1 0"])
      (simp add: issueTokens_def bind_p_def then_p_def random_value_def live ret_def
        clock_now_def rotateRefreshToken_def update_user_def updating_def set_users_def assms rotated_def[abs_def] Let_def)
qed

lemma refresh_revokes:
  assumes "us_isActive u" "us_hashedRefreshToken u = Some c" "\<not> cr_verify cr c token"
    "\<not> knows cr token (live_at windowMs (ac_clock ac 0) u)"
  shows "\<exists>ac'. refresh_with cr windowMs (Some u) token ac = (Inl RefreshInvalid, ac') \<and>
    ac_users ac' = update_rows (\<lambda>r. us_id r = us_id u) revoked (ac_users ac)"
  using assms
  by (auto simp: refresh_with_def matchesRecentToken_def liveRecentTokens_def live_at_def knows_def bind_p_def then_p_def
      ret_def throw_def clock_now_def clearRefreshTokens_def update_user_def updating_def set_users_def revoked_def[abs_def])

lemma refresh_rotates:
  assumes "us_isActive u" "us_hashedRefreshToken u = Some c"
    "cr_verify cr c token \<or> knows cr token (live_at windowMs (ac_clock ac 0) u)"
  obtains salt now t ac' where "refresh_with cr windowMs (Some u) token ac =
      (Inr \<lparr>au_accessToken = cr_access cr (us_id u) (us_email u) (us_role u),
            au_refreshToken = cr_refresh cr (us_id u) (us_email u) (us_role u) (ac_random ac 0), au_user = u\<rparr>, ac')"
    "ac_users ac' = update_rows (\<lambda>r. us_id r = us_id u)
      (rotated (cr_hash cr salt (cr_refresh cr (us_id u) (us_email u) (us_role u) (ac_random ac 0)))
        (\<lparr>rr_hash = c, rr_at = t\<rparr> # take (MAX_RECENT_REFRESH_TOKENS - 1) (live_at windowMs now u))) (ac_users ac)"
    "ac_random ac' = (\<lambda>n. ac_random ac (Suc (Suc n)))"
proof -
  obtain ac1 where live: "liveRecentTokens windowMs u ac = (Inr (live_at windowMs (ac_clock ac 0) u), ac1)"
    "ac_users ac1 = ac_users ac" "ac_random ac1 = ac_random ac"
    using liveRecentTokens_run by blast
  have "refresh_with cr windowMs (Some u) token ac = issueTokens cr windowMs u Rotate (if cr_verify cr c token then ac else ac1)"
    using assms live by (auto simp: refresh_with_def matchesRecentToken_def bind_p_def ret_def knows_def)
  with issue_rotate_run[OF assms(2), of cr windowMs "if cr_verify cr c token then ac else ac1"] live(2,3) that
  show thesis by (auto split: if_splits)
qed

text \<open>C21: A refresh rotates the chain or revokes it. It succeeds exactly when the account is
  active and the token presented is the current one or one of the five latest superseded
  within the window; then the row holds a new hash that verifies the returned token and
  nothing else, with the old one first among at most five recent ones. Any other token for
  an active session clears every token of the user; no other account is touched.\<close>

theorem refresh_rotates_or_revokes:
  assumes "sound_crypto cr" "distinct (map us_id (ac_users ac))"
    and found: "users_where (\<lambda>u. us_id u = i) ac = Some u"
    and run: "refresh cr windowMs i token ac = (r, ac')"
  shows "filter (\<lambda>v. us_id v \<noteq> i) (ac_users ac') = filter (\<lambda>v. us_id v \<noteq> i) (ac_users ac) \<and>
    (case (us_isActive u, us_hashedRefreshToken u) of
       (True, Some c) \<Rightarrow>
         if cr_verify cr c token \<or> knows cr token (live_at windowMs (ac_clock ac 0) u)
         then \<exists>res h rs. r = Inr res \<and> au_user res = u \<and>
           {v \<in> set (ac_users ac'). us_id v = i} = {rotated h rs u} \<and>
           (\<forall>t. cr_verify cr h t \<longleftrightarrow> t = au_refreshToken res) \<and>
           length rs \<le> MAX_RECENT_REFRESH_TOKENS \<and> rr_hash (hd rs) = c
         else r = Inl RefreshInvalid \<and> {v \<in> set (ac_users ac'). us_id v = i} = {revoked u}
     | _ \<Rightarrow> r = Inl RefreshInvalid \<and> ac' = ac)"
proof -
  have u: "u \<in> set (ac_users ac)" "us_id u = i" using find_Some_id[OF found] by auto
  have only: "v = u" if "v \<in> set (ac_users ac)" "us_id v = i" for v
    using assms(2) u that by (metis distinct_map inj_on_contraD)
  have rw: "refresh_with cr windowMs (Some u) token ac = (r, ac')"
    using run by (simp add: refresh_def findById_def bind_p_def reading_def found)
  have row: "{v \<in> set (ac_users ac'). us_id v = i} = {f u}"
    and others: "filter (\<lambda>v. us_id v \<noteq> i) (ac_users ac') = filter (\<lambda>v. us_id v \<noteq> i) (ac_users ac)"
    if "ac_users ac' = update_rows (\<lambda>r. us_id r = us_id u) f (ac_users ac)" "\<And>v. us_id (f v) = us_id v" for f
    using updated_row[where K = us_id, OF u only that(2)] other_rows[where K = us_id, OF that(2)] that(1) u(2) by simp_all
  show ?thesis
  proof (cases "us_isActive u \<and> us_hashedRefreshToken u \<noteq> None")
    case False
    with rw have "r = Inl RefreshInvalid \<and> ac' = ac"
      by (auto simp: refresh_with_def throw_def split: bool.splits option.splits)
    with False show ?thesis by (auto split: bool.splits option.splits)
  next
    case True
    then obtain c where c: "us_isActive u" "us_hashedRefreshToken u = Some c" by blast
    show ?thesis
    proof (cases "cr_verify cr c token \<or> knows cr token (live_at windowMs (ac_clock ac 0) u)")
      case False
      with refresh_revokes[OF c, of cr token windowMs ac] rw row[of revoked] others[of revoked] c
      show ?thesis by (auto simp: revoked_def)
    next
      case True
      obtain salt now t ac'' where run: "refresh_with cr windowMs (Some u) token ac =
          (Inr \<lparr>au_accessToken = cr_access cr (us_id u) (us_email u) (us_role u),
            au_refreshToken = cr_refresh cr (us_id u) (us_email u) (us_role u) (ac_random ac 0), au_user = u\<rparr>, ac'')"
        and users'': "ac_users ac'' = update_rows (\<lambda>r. us_id r = us_id u)
          (rotated (cr_hash cr salt (cr_refresh cr (us_id u) (us_email u) (us_role u) (ac_random ac 0)))
            (\<lparr>rr_hash = c, rr_at = t\<rparr> # take (MAX_RECENT_REFRESH_TOKENS - 1) (live_at windowMs now u))) (ac_users ac)"
        by (rule refresh_rotates[OF c True])
      have r: "r = Inr \<lparr>au_accessToken = cr_access cr (us_id u) (us_email u) (us_role u),
            au_refreshToken = cr_refresh cr (us_id u) (us_email u) (us_role u) (ac_random ac 0), au_user = u\<rparr>"
        and "ac'' = ac'"
        using rw run by simp_all
      note users = users''[unfolded \<open>ac'' = ac'\<close>]
      have id: "us_id (rotated h rs v) = us_id v" for h rs v by (simp add: rotated_def)
      have "\<exists>res h rs. r = Inr res \<and> au_user res = u \<and>
           {v \<in> set (ac_users ac'). us_id v = i} = {rotated h rs u} \<and>
           (\<forall>t. cr_verify cr h t \<longleftrightarrow> t = au_refreshToken res) \<and>
           length rs \<le> MAX_RECENT_REFRESH_TOKENS \<and> rr_hash (hd rs) = c"
        unfolding r row[OF users id]
        by (rule exI, rule exI[of _ "cr_hash cr salt (cr_refresh cr (us_id u) (us_email u) (us_role u) (ac_random ac 0))"],
            rule exI[of _ "\<lparr>rr_hash = c, rr_at = t\<rparr> # take (MAX_RECENT_REFRESH_TOKENS - 1) (live_at windowMs now u)"],
            intro conjI, rule refl)
          (simp_all add: sound_verify[OF assms(1)] MAX_RECENT_REFRESH_TOKENS_def eq_commute)
      with others[OF users id] c True show ?thesis by simp
    qed
  qed
qed

theorem refresh_rotates_or_revokes_witness:
  "{v \<in> set (ac_users (snd (refresh sample_crypto 0 ''o'' ''stolen'' sample_accounts))). us_id v = ''o''} = {revoked owner}"
proof -
  have "distinct (map us_id (ac_users sample_accounts))" "users_where (\<lambda>u. us_id u = ''o'') sample_accounts = Some owner"
    by (simp_all add: account_samples)
  from refresh_rotates_or_revokes[OF sample_crypto_sound this prod.collapse[symmetric], of 0 "''stolen''"]
  show ?thesis
    by (simp add: account_samples live_at_def knows_def)
qed

lemma live_at_subset: "set (live_at windowMs now u) \<subseteq> set (or_else (us_recentRefreshTokens u) [])"
  by (auto simp: live_at_def dest: in_set_takeD)

lemma find_user:
  assumes "users_where (\<lambda>u. us_id u = i) ac = Some u" "\<And>v. us_id (f v) = us_id v"
    and "ac_users ac' = update_rows (\<lambda>r. us_id r = us_id u) f (ac_users ac)"
  shows "users_where (\<lambda>u. us_id u = i) ac' = Some (f u)"
proof -
  have "us_id u = i" using find_Some_id[OF assms(1)] by simp
  moreover have "List.find (\<lambda>u. us_id u = i) (map (\<lambda>r. if us_id r = i then f r else r) us) =
      map_option f (List.find (\<lambda>u. us_id u = i) us)" for us
    by (induction us) (simp_all add: assms(2))
  ultimately show ?thesis using assms(1,3) by (simp add: update_rows_def)
qed

lemma rotated_twice: "update_rows (\<lambda>r. us_id r = i) (rotated h rs) (update_rows (\<lambda>r. us_id r = i) (rotated h' rs') us) =
  update_rows (\<lambda>r. us_id r = i) (rotated h rs) us"
  by (subst update_rows_twice) (simp_all add: rotated_def[abs_def] o_def)

text \<open>C22: Two refreshes that overlap strand the session: when both have read the row before
  either writes it, both succeed, but the second write drops the token the first one
  returned. Its holder is refused at the next refresh, and that refusal revokes the
  token of the other one too.\<close>

theorem overlapping_refreshes_strand_the_session:
  assumes "sound_crypto cr" and found: "users_where (\<lambda>u. us_id u = i) ac = Some u"
    and c: "us_isActive u" "us_hashedRefreshToken u = Some c" and "cr_verify cr c token"
    and fresh: "ac_random ac 0 \<noteq> ac_random ac 2"
    and first: "refresh_with cr windowMs (Some u) token ac = (ra, ac1)"
    and second: "refresh_with cr windowMs (Some u) token ac1 = (rb, ac2)"
    and old: "\<not> cr_verify cr c (cr_refresh cr i (us_email u) (us_role u) (ac_random ac 0))"
      "\<not> knows cr (cr_refresh cr i (us_email u) (us_role u) (ac_random ac 0)) (or_else (us_recentRefreshTokens u) [])"
  shows "\<exists>sa sb ac3. ra = Inr sa \<and> rb = Inr sb \<and>
    refresh cr windowMs i (au_refreshToken sa) ac2 = (Inl RefreshInvalid, ac3) \<and>
    fst (refresh cr windowMs i (au_refreshToken sb) ac3) = Inl RefreshInvalid"
proof -
  let ?tok = "\<lambda>j. cr_refresh cr (us_id u) (us_email u) (us_role u) j"
  have id: "us_id u = i" using find_Some_id[OF found] by simp
  obtain salt now t ac1' where a: "refresh_with cr windowMs (Some u) token ac =
      (Inr \<lparr>au_accessToken = cr_access cr (us_id u) (us_email u) (us_role u), au_refreshToken = ?tok (ac_random ac 0), au_user = u\<rparr>, ac1')"
    "ac_users ac1' = update_rows (\<lambda>r. us_id r = us_id u) (rotated (cr_hash cr salt (?tok (ac_random ac 0)))
      (\<lparr>rr_hash = c, rr_at = t\<rparr> # take (MAX_RECENT_REFRESH_TOKENS - 1) (live_at windowMs now u))) (ac_users ac)"
    "ac_random ac1' = (\<lambda>n. ac_random ac (Suc (Suc n)))"
    by (rule refresh_rotates[OF c disjI1[OF assms(5)]])
  obtain salt' now' t' ac2' where b: "refresh_with cr windowMs (Some u) token ac1 =
      (Inr \<lparr>au_accessToken = cr_access cr (us_id u) (us_email u) (us_role u), au_refreshToken = ?tok (ac_random ac1 0), au_user = u\<rparr>, ac2')"
    "ac_users ac2' = update_rows (\<lambda>r. us_id r = us_id u) (rotated (cr_hash cr salt' (?tok (ac_random ac1 0)))
      (\<lparr>rr_hash = c, rr_at = t'\<rparr> # take (MAX_RECENT_REFRESH_TOKENS - 1) (live_at windowMs now' u))) (ac_users ac1)"
    by (rule refresh_rotates[OF c disjI1[OF assms(5)]])
  define h rs where "h = cr_hash cr salt' (?tok (ac_random ac1 0))"
    and "rs = \<lparr>rr_hash = c, rr_at = t'\<rparr> # take (MAX_RECENT_REFRESH_TOKENS - 1) (live_at windowMs now' u)"
  have users: "ac_users ac2 = update_rows (\<lambda>r. us_id r = us_id u) (rotated h rs) (ac_users ac)"
    using a b first second by (simp add: h_def rs_def rotated_twice)
  have found2: "users_where (\<lambda>u. us_id u = i) ac2 = Some (rotated h rs u)"
    by (rule find_user[OF found _ users]) (simp add: rotated_def)
  have "?tok (ac_random ac1 0) \<noteq> ?tok (ac_random ac 0)"
    using sound_refresh[OF assms(1)] fresh a(1,3) first by (metis Pair_inject Suc_1 One_nat_def)
  then have not_current: "\<not> cr_verify cr h (?tok (ac_random ac 0))"
    by (simp add: h_def sound_verify[OF assms(1)])
  have "set (live_at windowMs now'' (rotated h rs u)) \<subseteq> {\<lparr>rr_hash = c, rr_at = t'\<rparr>} \<union> set (or_else (us_recentRefreshTokens u) [])" for now''
    using live_at_subset[of windowMs now'' "rotated h rs u"] live_at_subset[of windowMs now' u]
    by (auto simp: rotated_def rs_def dest: in_set_takeD)
  then have not_recent: "\<not> knows cr (?tok (ac_random ac 0)) (live_at windowMs now'' (rotated h rs u))" for now''
    using old id unfolding knows_def list_ex_iff by force
  have "us_isActive (rotated h rs u)" "us_hashedRefreshToken (rotated h rs u) = Some h" using c by (simp_all add: rotated_def)
  from refresh_revokes[OF this not_current not_recent] obtain ac3 where
    refused: "refresh_with cr windowMs (Some (rotated h rs u)) (?tok (ac_random ac 0)) ac2 = (Inl RefreshInvalid, ac3)"
    and users3: "ac_users ac3 = update_rows (\<lambda>r. us_id r = us_id (rotated h rs u)) revoked (ac_users ac2)"
    by blast
  have "users_where (\<lambda>u. us_id u = i) ac3 = Some (revoked (rotated h rs u))"
    by (rule find_user[OF found2 _ users3]) (simp add: revoked_def)
  then have "fst (refresh cr windowMs i tok' ac3) = Inl RefreshInvalid" for tok'
    by (simp add: refresh_def findById_def bind_p_def reading_def refresh_with_def revoked_def throw_def split: bool.split)
  moreover have "refresh cr windowMs i (?tok (ac_random ac 0)) ac2 = (Inl RefreshInvalid, ac3)"
    using refused by (simp add: refresh_def findById_def bind_p_def reading_def found2)
  ultimately show ?thesis using a(1) b(1) first second by auto
qed

definition both_refresh :: "nat \<Rightarrow> (account_error + auth_result) \<times> accounts" where
  "both_refresh n = (if n = 0 then refresh_with sample_crypto 0 (Some owner) ''t0'' sample_accounts
     else refresh_with sample_crypto 0 (Some owner) ''t0''
       (snd (refresh_with sample_crypto 0 (Some owner) ''t0'' sample_accounts)))"

theorem overlapping_refreshes_strand_the_session_witness:
  "\<exists>sa sb ac3. fst (both_refresh 0) = Inr sa \<and> fst (both_refresh 1) = Inr sb \<and>
     refresh sample_crypto 0 ''o'' (au_refreshToken sa) (snd (both_refresh 1)) = (Inl RefreshInvalid, ac3) \<and>
     fst (refresh sample_crypto 0 ''o'' (au_refreshToken sb) ac3) = Inl RefreshInvalid"
proof -
  have "users_where (\<lambda>u. us_id u = ''o'') sample_accounts = Some owner" "us_isActive owner"
    "us_hashedRefreshToken owner = Some ''t0''" "cr_verify sample_crypto ''t0'' ''t0''"
    "ac_random sample_accounts 0 \<noteq> ac_random sample_accounts 2"
    "\<not> cr_verify sample_crypto ''t0'' (cr_refresh sample_crypto ''o'' (us_email owner) (us_role owner) (ac_random sample_accounts 0))"
    "\<not> knows sample_crypto (cr_refresh sample_crypto ''o'' (us_email owner) (us_role owner) (ac_random sample_accounts 0))
       (or_else (us_recentRefreshTokens owner) [])"
    by (simp_all add: account_samples knows_def numeral_2_eq_2)
  note facts = this
  show ?thesis
    by (rule overlapping_refreshes_strand_the_session[OF sample_crypto_sound facts(1-5)]) (use facts(6,7) in
        \<open>simp_all add: both_refresh_def\<close>)
qed

end
