(* ===== verification/Entry_Properties.thy ===== *)
theory Entry_Properties
  imports Invitation_Properties Auth_Properties
begin

section \<open>The properties of entering through a public link\<close>

text \<open>
  What signing in and registering leave of the invitations and of the other accounts, for
  the properties of links.
\<close>

subsection \<open>What signing in and registering leave alone\<close>

definition credentials :: "user_row \<Rightarrow> string \<times> string \<times> string \<times> user_role \<times> string option" where
  "credentials u = (us_id u, us_email u, us_passwordHash u, us_role u, us_organisationId u)"

text \<open>The invitations, up to the candidate they are linked to, and the accounts, up to
  their refresh tokens.\<close>

definition settled :: "accounts \<Rightarrow> accounts \<Rightarrow> bool" where
  "settled ac ac' \<longleftrightarrow> map key (invs ac') = map key (invs ac) \<and>
     map credentials (ac_users ac') = map credentials (ac_users ac)"

lemma settled_refl [simp]: "settled ac ac" by (simp add: settled_def)

lemma settled_trans: "settled a b \<Longrightarrow> settled b c \<Longrightarrow> settled a c" by (simp add: settled_def)

lemma credentials_updated: "(\<And>u. credentials (f u) = credentials u) \<Longrightarrow> map credentials (update_rows P f us) = map credentials us"
  by (simp add: update_rows_def)

lemma issueTokens_wp:
  "wp (issueTokens cr windowMs u New_session) (\<lambda>res s'. settled s s' \<and> au_user res = u) (\<lambda>_ _. False) s"
  by (simp add: issueTokens_def startRefreshTokenChain_def update_user_def wp_simps set_users_def settled_def
      credentials_updated credentials_def Let_def)

lemma login_wp:
  "wp (login cr windowMs dto)
     (\<lambda>res s'. settled s s' \<and> au_user res \<in> set (ac_users s) \<and> us_email (au_user res) = js_toLowerCase (lg_email dto) \<and>
        cr_verify cr (us_passwordHash (au_user res)) (lg_password dto) \<and> us_isActive (au_user res) \<and>
        (lg_portal dto = Some PORTAL_CANDIDATE \<longrightarrow> us_role (au_user res) = CANDIDATE))
     (\<lambda>_ s'. s' = s) s"
proof (cases "users_where (\<lambda>u. us_email u = js_toLowerCase (lg_email dto)) s")
  case None
  then show ?thesis by (simp add: login_def wp_simps)
next
  case (Some u)
  note u = find_Some_id[OF Some]
  show ?thesis
  proof (cases "assertPortalMatchesRole (lg_portal dto) (us_role u)")
    case (Inl e)
    with Some show ?thesis by (simp add: login_def wp_simps)
  next
    case (Inr x)
    then have "lg_portal dto = Some PORTAL_CANDIDATE \<longrightarrow> us_role u = CANDIDATE"
      by (auto simp: assertPortalMatchesRole_def split: option.splits if_splits)
    with Some Inr u show ?thesis
      by (auto simp: login_def wp_simps intro!: wp_mono[OF issueTokens_wp])
  qed
qed

definition with_user :: "user_row \<Rightarrow> accounts \<Rightarrow> accounts \<Rightarrow> bool" where
  "with_user u ac ac' \<longleftrightarrow> map key (invs ac') = map key (invs ac) \<and>
     map credentials (ac_users ac') = map credentials (ac_users ac) @ [credentials u]"

lemma register_candidate_wp:
  assumes "rg_accountType dto \<noteq> Some REG_RECRUITER" "e = js_toLowerCase (js_trim (rg_email dto))"
  shows "wp (register cr windowMs slug_for dto)
     (\<lambda>res s'. with_user (au_user res) s s' \<and> us_email (au_user res) = e \<and> us_role (au_user res) = CANDIDATE \<and>
        us_organisationId (au_user res) = None \<and> e \<notin> us_email ` set (ac_users s))
     (\<lambda>err s'. settled s s' \<and> (err = EmailTaken \<longleftrightarrow> e \<in> us_email ` set (ac_users s))) s"
proof (cases "users_where (\<lambda>u. us_email u = e) s")
  case (Some u)
  with find_Some_id[OF Some] show ?thesis
    using assms by (auto simp: register_def wp_simps Let_def intro: rev_image_eqI)
next
  case None
  then have new: "e \<notin> us_email ` set (ac_users s)" by (auto simp: find_None_iff)
  have issue: "wp (issueTokens cr windowMs u New_session)
      (\<lambda>res s'. with_user (au_user res) s s' \<and> us_email (au_user res) = e \<and> us_role (au_user res) = CANDIDATE \<and>
        us_organisationId (au_user res) = None)
      (\<lambda>err s'. settled s s' \<and> err \<noteq> EmailTaken) s1"
    if "with_user u s s1" "us_email u = e" "us_role u = CANDIDATE" "us_organisationId u = None" for u s1
    by (rule wp_mono[OF issueTokens_wp]) (use that in \<open>auto simp: with_user_def settled_def\<close>)
  show ?thesis
    unfolding register_def registerCandidate_def hasInvitation_def
    using assms None new
    by (auto simp: wp_simps Let_def settled_def set_db_def with_user_def key_unlinked credentials_def blank_user_def
        intro!: wp_mono[OF issue])
qed

end
