(* ===== verification/Link_Properties.thy ===== *)
theory Link_Properties
  imports Entry_Properties
begin

section \<open>Entering through a public link\<close>

text \<open>
  What \<open>enter\<close> of \<open>Public_Entry\<close> comes to, refused or admitted, what two overlapping
  entries do to each other, and that rotating a link replaces its token.
\<close>

subsection \<open>The steps\<close>

lemma createSelfRegistered_wp:
  "wp (createSelfRegistered a email c)
     (\<lambda>(created, v) s'. ac_users s' = ac_users s \<and> iv_assessmentId v = a \<and> iv_email v = js_toLowerCase (js_trim email) \<and>
        (if created then invs s' = invs s @ [v] \<and> iv_id v \<notin> iv_id ` set (invs s) \<and> iv_source v = Self_registered \<and>
             iv_status v = INV_PENDING \<and> iv_email v \<notin> invited_to a s
         else s' = s \<and> List.find (\<lambda>v. iv_assessmentId v = a \<and> iv_email v = js_toLowerCase (js_trim email)) (invs s) = Some v))
     (\<lambda>err s'. settled s s' \<and> invs s' = invs s) s"
  by (auto simp: createSelfRegistered_def wp_simps Let_def settled_def set_db_def invited_to_def list_ex_iff
      dest!: find_Some_id split: option.split)

definition quiet :: "accounts \<Rightarrow> accounts \<Rightarrow> bool" where
  "quiet s s' \<longleftrightarrow> (\<exists>c. s' = s\<lparr>ac_clock := c\<rparr>)"

lemma quiet_refl [simp]: "quiet s s"
  unfolding quiet_def by (rule exI[of _ "ac_clock s"]) simp

lemma quiet_fields: "quiet s s' \<Longrightarrow> ac_users s' = ac_users s \<and> invs s' = invs s \<and> ac_links s' = ac_links s \<and> settled s s'"
  by (auto simp: quiet_def settled_def)

definition link_admits :: "crypto \<Rightarrow> string \<Rightarrow> string \<Rightarrow> int \<Rightarrow> accounts \<Rightarrow> assessment_row \<Rightarrow> bool" where
  "link_admits cr token email now s a \<longleftrightarrow> a \<in> set (w_assessments (ac_db s)) \<and>
     lk_tokenHash (links_of s (as_id a)) = Some (cr_digest cr (js_trim token)) \<and>
     publicLinkState (link_config a (links_of s (as_id a))) (int (attemptsUsed (as_id a) s)) now = LinkOpen \<and>
     emailAllowedByDomain email (lk_emailDomain (links_of s (as_id a)))"

lemma PUBLIC_LINK_MESSAGE_None: "PUBLIC_LINK_MESSAGE st = None \<longleftrightarrow> st = LinkOpen"
  by (cases st) (simp_all add: PUBLIC_LINK_MESSAGE_def)

text \<open>The checks before the branch.\<close>

lemma resolve_link_wp:
  assumes "\<And>a. a \<in> set (w_assessments (ac_db s)) \<Longrightarrow> lk_tokenHash (links_of s (as_id a)) = Some (cr_digest cr (js_trim token)) \<Longrightarrow> Q a s"
    and "\<And>err. E err s"
  shows "wp (resolve_link cr token) Q E s"
  using assms by (auto simp: resolve_link_def resolveByToken_def Let_def wp_simps dest!: find_Some_id split: option.split)

lemma assertOpen_wp:
  assumes "publicLinkState (link_config a (links_of s (as_id a))) (int (attemptsUsed (as_id a) s)) (ac_clock s 0) = LinkOpen \<Longrightarrow>
      Q () (s\<lparr>ac_clock := \<lambda>n. ac_clock s (Suc n)\<rparr>)"
    and "\<And>err. E err (s\<lparr>ac_clock := \<lambda>n. ac_clock s (Suc n)\<rparr>)"
  shows "wp (assertOpen a) Q E s"
  using assms by (simp add: assertOpen_def stateOf_def wp_simps flip: PUBLIC_LINK_MESSAGE_None split: option.split)

lemma assertDomainAllowed_wp:
  assumes "emailAllowedByDomain email (lk_emailDomain (links_of s (as_id a))) \<Longrightarrow> Q () s" and "\<And>err. E err s"
  shows "wp (assertDomainAllowed a email) Q E s"
  using assms by (simp add: assertDomainAllowed_def wp_simps)

lemma entry_checks_wp:
  assumes "\<And>a s'. link_admits cr token email (ac_clock s 0) s a \<Longrightarrow> quiet s s' \<Longrightarrow> wp (f a) Q E s'"
    and "\<And>err s'. quiet s s' \<Longrightarrow> E err s'"
  shows "wp (bind_p (resolve_link cr token) (\<lambda>a. then_p (assertOpen a) (then_p (assertDomainAllowed a email) (f a)))) Q E s"
  unfolding wp_bind wp_then
proof (rule resolve_link_wp)
  let ?s = "s\<lparr>ac_clock := \<lambda>n. ac_clock s (Suc n)\<rparr>"
  have links: "links_of ?s = links_of s" and q: "quiet s ?s"
    by (auto simp: links_of_def quiet_def fun_eq_iff)
  fix a
  assume "a \<in> set (w_assessments (ac_db s))" "lk_tokenHash (links_of s (as_id a)) = Some (cr_digest cr (js_trim token))"
  then show "wp (assertOpen a) (\<lambda>_. wp (assertDomainAllowed a email) (\<lambda>_. wp (f a) Q E) E) E s"
    by (intro assertOpen_wp assertDomainAllowed_wp assms q) (simp_all add: link_admits_def links)
qed (simp add: assms(2))

subsection \<open>Both branches\<close>

text \<open>Refused: no invitation that was not there, no account, no password changed.\<close>

definition refused :: "accounts \<Rightarrow> accounts \<Rightarrow> bool" where
  "refused s s' \<longleftrightarrow> set (map key (invs s')) \<subseteq> set (map key (invs s)) \<and>
     map credentials (ac_users s') = map credentials (ac_users s)"

definition admitted :: "crypto \<Rightarrow> string \<Rightarrow> string \<Rightarrow> assessment_row \<Rightarrow> accounts \<Rightarrow> auth_result \<times> string \<Rightarrow> accounts \<Rightarrow> bool" where
  "admitted cr email password a s r s' \<longleftrightarrow>
     (let u = au_user (fst r)
      in us_email u = email \<and> us_role u = CANDIDATE \<and>
         (if email \<in> us_email ` set (ac_users s)
          then u \<in> set (ac_users s) \<and> us_isActive u \<and> cr_verify cr (us_passwordHash u) password \<and>
            map credentials (ac_users s') = map credentials (ac_users s)
          else us_organisationId u = None \<and> map credentials (ac_users s') = map credentials (ac_users s) @ [credentials u]) \<and>
         (\<exists>v\<in>set (invs s'). iv_id v = snd r \<and> iv_assessmentId v = as_id a \<and> iv_email v = email))"

lemma keys_of_row:
  assumes "v \<in> set vs" "map key ws = map key vs"
  shows "\<exists>w\<in>set ws. key w = key v"
proof -
  have "key v \<in> set (map key ws)" unfolding assms(2) set_map by (rule imageI) (rule assms(1))
  then obtain w where "key v = key w" "w \<in> set ws" unfolding set_map by (rule imageE)
  then show ?thesis by (intro bexI[of _ w]) simp_all
qed

lemma existing_account_wp:
  assumes "js_toLowerCase (js_trim email) = email" "email \<in> us_email ` set (ac_users s)"
  shows "wp (enterWithExistingAccount cr windowMs a email password) (admitted cr email password a s) (\<lambda>_. refused s) s"
  unfolding enterWithExistingAccount_def wp_bind
proof (rule wp_mono[OF login_wp])
  fix res :: auth_result and s1
  assume login: "settled s s1 \<and> au_user res \<in> set (ac_users s) \<and>
    us_email (au_user res) = js_toLowerCase (lg_email \<lparr>lg_email = email, lg_password = password, lg_portal = Some PORTAL_CANDIDATE\<rparr>) \<and>
    cr_verify cr (us_passwordHash (au_user res)) (lg_password \<lparr>lg_email = email, lg_password = password, lg_portal = Some PORTAL_CANDIDATE\<rparr>) \<and>
    us_isActive (au_user res) \<and>
    (lg_portal \<lparr>lg_email = email, lg_password = password, lg_portal = Some PORTAL_CANDIDATE\<rparr> = Some PORTAL_CANDIDATE \<longrightarrow>
      us_role (au_user res) = CANDIDATE)"
  have lower: "js_toLowerCase email = email" using assms(1) by (metis lower_idem)
  show "wp (createSelfRegistered (as_id a) email (Some (us_id (au_user res))))
      (\<lambda>x. wp (case x of (_, invitation) \<Rightarrow> ret (res, iv_id invitation)) (admitted cr email password a s) (\<lambda>_. refused s))
      (\<lambda>_. refused s) s1"
  proof (rule wp_mono[OF createSelfRegistered_wp], goal_cases)
    case (1 x s2)
    obtain created v where x: "x = (created, v)" by (cases x) auto
    have "v \<in> set (invs s2)" using 1 x by (auto split: if_splits dest: find_Some_id)
    moreover have "ac_users s2 = ac_users s1" "iv_assessmentId v = as_id a" "iv_email v = email"
      using 1 x assms(1) by auto
    ultimately show ?case using x login assms(2) lower
      by (auto simp: wp_ret admitted_def settled_def Let_def)
  next
    case (2 e s2)
    then have "map key (invs s2) = map key (invs s)" "map credentials (ac_users s2) = map credentials (ac_users s)"
      using login by (simp_all add: settled_def)
    then show ?case by (simp only: refused_def subset_refl simp_thms)
  qed
qed (simp add: refused_def)

lemma keys_discarded:
  "set (map key (filter (\<lambda>v. \<not> (iv_id v = i \<and> iv_source v = Self_registered \<and> iv_status v = INV_PENDING)) vs)) \<subseteq>
   set (map key vs) - {(i, a, e, Self_registered, INV_PENDING)}"
  by (auto simp: key_def)

lemma new_account_wp:
  assumes "js_toLowerCase (js_trim email) = email" "email \<notin> us_email ` set (ac_users s)"
  shows "wp (enterWithNewAccount cr windowMs slug_for a email password fullName) (admitted cr email password a s) (\<lambda>_. refused s) s"
proof (cases "truthy (map_option js_trim fullName)")
  case None
  then show ?thesis by (simp add: enterWithNewAccount_def wp_throw refused_def)
next
  case (Some name)
  let ?dto = "\<lparr>rg_email = email, rg_password = password, rg_fullName = name,
     rg_accountType = Some REG_CANDIDATE, rg_organisationName = None\<rparr>"
  have step: "wp (try_catch (register cr windowMs slug_for ?dto) (\<lambda>e. then_p (discardSelfRegistered (iv_id v)) (throw e)))
      (\<lambda>res s'. admitted cr email password a s (res, iv_id v) s') (\<lambda>_. refused s) s1"
    if users: "ac_users s1 = ac_users s" and v: "v \<in> set (invs s1)" "iv_assessmentId v = as_id a" "iv_email v = email"
      and keys: "set (map key (invs s1)) - {(iv_id v, as_id a, email, Self_registered, INV_PENDING)} \<subseteq> set (map key (invs s))"
    for v s1
    unfolding wp_try
  proof (rule wp_mono[OF register_candidate_wp[where e = email]])
    fix res :: auth_result and s2
    assume r: "with_user (au_user res) s1 s2 \<and> us_email (au_user res) = email \<and> us_role (au_user res) = CANDIDATE \<and>
        us_organisationId (au_user res) = None \<and> email \<notin> us_email ` set (ac_users s1)"
    with keys_of_row[OF v(1), of "invs s2"] v(2,3) have "\<exists>w\<in>set (invs s2). iv_id w = iv_id v \<and> iv_assessmentId w = as_id a \<and> iv_email w = email"
      by (auto simp: with_user_def key_def)
    with r assms(2) users show "admitted cr email password a s (res, iv_id v) s2"
      by (simp add: admitted_def with_user_def Let_def)
  next
    fix err s2
    assume "settled s1 s2 \<and> (err = EmailTaken \<longleftrightarrow> email \<in> us_email ` set (ac_users s1))"
    then have k: "map key (invs s2) = map key (invs s1)" and c: "map credentials (ac_users s2) = map credentials (ac_users s)"
      using users by (simp_all add: settled_def)
    have "set (map key (filter (\<lambda>w. \<not> (iv_id w = iv_id v \<and> iv_source w = Self_registered \<and> iv_status w = INV_PENDING)) (invs s2)))
        \<subseteq> set (map key (invs s))"
      using keys_discarded[of "iv_id v" "invs s2" "as_id a" email] keys k by (metis (no_types, lifting) subset_trans)
    with c show "wp (then_p (discardSelfRegistered (iv_id v)) (throw err)) (\<lambda>res s'. admitted cr email password a s (res, iv_id v) s') (\<lambda>_. refused s) s2"
      by (simp add: discardSelfRegistered_def delete_invitations_def wp_simps refused_def set_db_def del: set_map)
  qed (use assms in simp_all)
  show ?thesis
    unfolding enterWithNewAccount_def Some option.case wp_bind
  proof (rule wp_mono[OF createSelfRegistered_wp], goal_cases)
    case (1 x s1)
    obtain created v where x: "x = (created, v)" by (cases x) auto
    from 1 have c: "ac_users s1 = ac_users s" "iv_assessmentId v = as_id a" "iv_email v = email"
      "if created then invs s1 = invs s @ [v] \<and> iv_source v = Self_registered \<and> iv_status v = INV_PENDING else s1 = s \<and> v \<in> set (invs s)"
      using assms(1) by (auto simp: x split: if_splits dest: find_Some_id)
    then have "wp (try_catch (register cr windowMs slug_for ?dto) (\<lambda>e. then_p (discardSelfRegistered (iv_id v)) (throw e)))
      (\<lambda>res s'. admitted cr email password a s (res, iv_id v) s') (\<lambda>_. refused s) s1"
      by (intro step) (auto simp: key_def split: if_splits)
    then show ?case by (simp add: x wp_bind wp_ret_fun)
  next
    case (2 e s1)
    then have "map key (invs s1) = map key (invs s)" "map credentials (ac_users s1) = map credentials (ac_users s)"
      by (simp_all add: settled_def)
    then show ?case by (simp only: refused_def subset_refl simp_thms)
  qed
qed

subsection \<open>Normalised addresses\<close>

lemma last_dropWhile: "dropWhile P xs \<noteq> [] \<Longrightarrow> last (dropWhile P xs) = last xs"
  by (metis last_appendR takeWhile_dropWhile_id)

lemma trim_ends:
  assumes "js_trim x \<noteq> []"
  shows "\<not> js_whitespace (hd (js_trim x))" and "\<not> js_whitespace (last (js_trim x))"
proof -
  let ?y = "dropWhile js_whitespace x" and ?z = "dropWhile js_whitespace (rev (dropWhile js_whitespace x))"
  have t: "js_trim x = rev ?z" and z: "?z \<noteq> []" using assms by (simp_all add: js_trim_def)
  have y: "?y \<noteq> []" using z by (metis dropWhile.simps(1) rev.simps(1))
  have "last ?z = hd ?y" using last_dropWhile[OF z] y by (simp add: last_rev)
  with hd_dropWhile[OF y] z show "\<not> js_whitespace (hd (js_trim x))" by (simp add: t hd_rev)
  from hd_dropWhile[OF z] show "\<not> js_whitespace (last (js_trim x))" by (simp add: t last_rev)
qed

lemma whitespace_lower [simp]: "js_whitespace (lower_char c) = js_whitespace c"
  by (auto simp: js_whitespace_def of_char_lower Let_def)

lemma normalised [simp]: "js_toLowerCase (js_trim (js_toLowerCase (js_trim x))) = js_toLowerCase (js_trim x)"
proof (cases "js_trim x = []")
  case True
  have "js_trim [] = []" by (simp add: js_trim_def)
  then show ?thesis by (simp add: True js_toLowerCase_def)
next
  case False
  then have "js_trim (js_toLowerCase (js_trim x)) = js_toLowerCase (js_trim x)"
    using trim_ends[OF False] by (intro js_trim_id) (auto simp: js_toLowerCase_def hd_map last_map)
  then show ?thesis by simp
qed

subsection \<open>The outcome of an entry\<close>

lemma admitted_quiet: "quiet s s1 \<Longrightarrow> admitted cr e pw a s1 r s' \<Longrightarrow> admitted cr e pw a s r s'"
  by (drule quiet_fields) (simp only: admitted_def)

lemma refused_quiet: "quiet s s1 \<Longrightarrow> refused s1 s' \<Longrightarrow> refused s s'"
  by (drule quiet_fields) (simp only: refused_def)

lemma enter_wp:
  fixes raw defines "e \<equiv> js_toLowerCase (js_trim raw)"
  shows "wp (enter cr windowMs slug_for token raw password fullName)
     (\<lambda>r s'. \<exists>a. link_admits cr token e (ac_clock s 0) s a \<and> admitted cr e password a s r s')
     (\<lambda>_. refused s) s"
  unfolding enter_def Let_def e_def[symmetric]
proof (rule entry_checks_wp)
  fix a s1
  assume a: "link_admits cr token e (ac_clock s 0) s a" and q: "quiet s s1"
  have norm: "js_toLowerCase (js_trim e) = e" and low: "js_toLowerCase e = e" by (simp_all add: e_def)
  let ?Q = "\<lambda>r s'. \<exists>a. link_admits cr token e (ac_clock s 0) s a \<and> admitted cr e password a s r s'"
  have lift: "wp m ?Q (\<lambda>_. refused s) s1" if "wp m (admitted cr e password a s1) (\<lambda>_. refused s1) s1" for m
    using that by (rule wp_mono) (use a q in \<open>auto intro: admitted_quiet refused_quiet\<close>)
  show "wp (bind_p (findByEmail e) (\<lambda>existing. case existing of
          Some _ \<Rightarrow> enterWithExistingAccount cr windowMs a e password
        | None \<Rightarrow> enterWithNewAccount cr windowMs slug_for a e password fullName)) ?Q (\<lambda>_. refused s) s1"
  proof (cases "users_where (\<lambda>u. us_email u = e) s1")
    case None
    then have "e \<notin> us_email ` set (ac_users s1)" by (auto simp: find_None_iff)
    from lift[OF new_account_wp[OF norm this]] None show ?thesis by (simp add: wp_bind wp_findByEmail low)
  next
    case (Some u)
    then have "e \<in> us_email ` set (ac_users s1)" by (auto dest: find_Some_id)
    from lift[OF existing_account_wp[OF norm this]] Some show ?thesis by (simp add: wp_bind wp_findByEmail low)
  qed
next
  fix err s' assume "quiet s s'"
  then show "refused s s'" by (auto simp: refused_def dest: quiet_fields)
qed

text \<open>C25: Entering through a public link admits only who may: the token is that of a link
  that was open for the address, and either the address had an account whose password
  was given, which is an active candidate and stays as it was, or a candidate account of
  no organisation was made for it; the invitation returned is one to that assessment on
  that address.\<close>

theorem entry_admits_only_proven_candidates:
  assumes "enter cr windowMs slug_for token raw password fullName ac = (Inr (res, i), ac')"
    and "email = js_toLowerCase (js_trim raw)"
  shows "\<exists>a. a \<in> set (w_assessments (ac_db ac)) \<and>
    lk_tokenHash (links_of ac (as_id a)) = Some (cr_digest cr (js_trim token)) \<and>
    publicLinkState (link_config a (links_of ac (as_id a))) (int (attemptsUsed (as_id a) ac)) (ac_clock ac 0) = LinkOpen \<and>
    emailAllowedByDomain email (lk_emailDomain (links_of ac (as_id a))) \<and>
    us_email (au_user res) = email \<and> us_role (au_user res) = CANDIDATE \<and>
    (if email \<in> us_email ` set (ac_users ac)
     then au_user res \<in> set (ac_users ac) \<and> us_isActive (au_user res) \<and>
       cr_verify cr (us_passwordHash (au_user res)) password \<and>
       map credentials (ac_users ac') = map credentials (ac_users ac)
     else us_organisationId (au_user res) = None \<and>
       map credentials (ac_users ac') = map credentials (ac_users ac) @ [credentials (au_user res)]) \<and>
    (\<exists>v\<in>set (invs ac'). iv_id v = i \<and> iv_assessmentId v = as_id a \<and> iv_email v = email)"
  using wp_result[OF assms(1) enter_wp]
  unfolding assms(2)[symmetric] link_admits_def admitted_def Let_def fst_conv snd_conv by (simp only: conj_assoc)

text \<open>The sample accounts with an open link to the sample assessment, and a newcomer.\<close>

definition linked_accounts :: accounts where
  "linked_accounts = sample_accounts\<lparr>ac_links := [(''a'', no_link\<lparr>lk_tokenHash := Some ''token'', lk_enabled := True\<rparr>)]\<rparr>"

definition newcomer :: "string \<Rightarrow> (account_error + auth_result \<times> string) \<times> accounts" where
  "newcomer token = enter sample_crypto 0 (\<lambda>n gs. n) token '' N@x.org '' ''pw'' (Some ''N'') linked_accounts"

theorem entry_admits_only_proven_candidates_witness:
  "\<exists>res i. fst (newcomer ''token'') = Inr (res, i) \<and> us_role (au_user res) = CANDIDATE \<and> us_organisationId (au_user res) = None \<and>
     map credentials (ac_users (snd (newcomer ''token''))) = map credentials (ac_users linked_accounts) @ [credentials (au_user res)]"
proof -
  have "\<not> isl (fst (newcomer ''token''))" by code_simp
  then obtain p where "fst (newcomer ''token'') = Inr p" by (cases "fst (newcomer ''token'')") auto
  then obtain res i where ok: "fst (newcomer ''token'') = Inr (res, i)" by (cases p) auto
  then have run: "enter sample_crypto 0 (\<lambda>n gs. n) ''token'' '' N@x.org '' ''pw'' (Some ''N'') linked_accounts =
      (Inr (res, i), snd (newcomer ''token''))"
    by (simp add: newcomer_def prod_eq_iff)
  have "''n@x.org'' = js_toLowerCase (js_trim '' N@x.org '')" "''n@x.org'' \<notin> us_email ` set (ac_users linked_accounts)" by code_simp+
  with entry_admits_only_proven_candidates[OF run, of "''n@x.org''"] ok show ?thesis by auto
qed

text \<open>C26: A refused entry grants nothing: whatever the reason, from a wrong password to a
  clash of ids half-way through signing up, no invitation exists afterwards that did
  not before, no account was made and no password or role changed.\<close>

theorem a_refused_entry_grants_nothing:
  assumes "enter cr windowMs slug_for token raw password fullName ac = (Inl err, ac')"
  shows "set (map key (invs ac')) \<subseteq> set (map key (invs ac)) \<and>
    map credentials (ac_users ac') = map credentials (ac_users ac)"
  using enter_wp[of cr windowMs slug_for token raw password fullName ac] assms
  by (simp add: wp_def refused_def)

theorem a_refused_entry_grants_nothing_witness:
  "map credentials (ac_users (snd (newcomer ''other''))) = map credentials (ac_users linked_accounts)"
proof -
  have "isl (fst (newcomer ''other''))" by code_simp
  then obtain e where "fst (newcomer ''other'') = Inl e" by (cases "fst (newcomer ''other'')") auto
  then have "enter sample_crypto 0 (\<lambda>n gs. n) ''other'' '' N@x.org '' ''pw'' (Some ''N'') linked_accounts = (Inl e, snd (newcomer ''other''))"
    by (simp add: newcomer_def prod_eq_iff)
  from a_refused_entry_grants_nothing[OF this] show ?thesis ..
qed

subsection \<open>Entering twice\<close>

lemma emails_of: "us_email ` set us = (fst \<circ> snd) ` set (map credentials us)"
  by (simp add: image_comp comp_def credentials_def)

lemma with_user_email: "with_user u s s' \<Longrightarrow> us_email u \<in> us_email ` set (ac_users s')"
  unfolding emails_of with_user_def by (simp add: credentials_def del: set_map)

lemma signed_up:
  assumes "map key (invs s) = ks" "with_user u s s' \<and> us_email u = e \<and> rest"
  shows "map key (invs s') = ks \<and> e \<in> us_email ` set (ac_users s')"
  using assms with_user_email[of u s s'] by (auto simp only: with_user_def)

lemma discard_refused_wp: "wp (then_p (discardSelfRegistered i) (throw e)) Q (\<lambda>_ _. True) s"
  by (simp add: discardSelfRegistered_def delete_invitations_def wp_simps)

lemma fresh_entry_wp:
  assumes "js_toLowerCase (js_trim email) = email" "email \<notin> us_email ` set (ac_users s)" "email \<notin> invited_to (as_id a) s"
  shows "wp (enterWithNewAccount cr windowMs slug_for a email password fullName)
     (\<lambda>r s'. map key (invs s') = map key (invs s) @ [(snd r, as_id a, email, Self_registered, INV_PENDING)] \<and>
        email \<in> us_email ` set (ac_users s')) (\<lambda>_ _. True) s"
proof (cases "truthy (map_option js_trim fullName)")
  case None
  then show ?thesis by (simp add: enterWithNewAccount_def wp_throw)
next
  case (Some name)
  show ?thesis
    unfolding enterWithNewAccount_def Some option.case wp_bind
  proof (rule wp_mono[OF createSelfRegistered_wp], goal_cases)
    case (1 x s1)
    obtain created v where x: "x = (created, v)" by (cases x) auto
    have c: "created" "invs s1 = invs s @ [v]" "ac_users s1 = ac_users s"
      "key v = (iv_id v, as_id a, email, Self_registered, INV_PENDING)"
      using 1 assms(1,3) by (auto simp: x key_def invited_to_def split: if_splits dest: find_Some_id)
    from c have keys: "map key (invs s1) = map key (invs s) @ [(iv_id v, as_id a, email, Self_registered, INV_PENDING)]" by simp
    show ?case
      unfolding x prod.case wp_bind wp_try wp_ret_fun
      by (rule wp_mono[OF register_candidate_wp[where e = email]])
        (use assms(1,2) c(3) in \<open>simp_all add: discard_refused_wp\<close>, erule signed_up[OF keys])
  qed simp
qed

lemma second_entry_wp:
  assumes "js_toLowerCase (js_trim email) = email" "email \<in> us_email ` set (ac_users s)" "js_trim name \<noteq> []"
    and v: "List.find (\<lambda>v. iv_assessmentId v = as_id a \<and> iv_email v = email) (invs s) = Some v"
      "iv_source v = Self_registered" "iv_status v = INV_PENDING"
    and only: "\<And>k. k \<in> set (map key (invs s)) \<Longrightarrow> fst (snd k) = as_id a \<Longrightarrow> fst (snd (snd k)) = email \<Longrightarrow> k = key v"
  shows "wp (enterWithNewAccount cr windowMs slug_for a email password (Some name)) (\<lambda>_ _. False)
     (\<lambda>err s'. err = EmailTaken \<and> email \<notin> invited_to (as_id a) s' \<and> map credentials (ac_users s') = map credentials (ac_users s)) s"
proof -
  have gone: "email \<notin> invited_to (as_id a) (set_db (\<lambda>w. w\<lparr>w_invitations := filter (\<lambda>w. \<not> (iv_id w = iv_id v \<and>
      iv_source w = Self_registered \<and> iv_status w = INV_PENDING)) (w_invitations w)\<rparr>) s')" if k: "map key (invs s') = map key (invs s)" for s'
  proof -
    have "key w = key v" if "w \<in> set (invs s')" "iv_assessmentId w = as_id a" "iv_email w = email" for w
    proof (rule only)
      show "key w \<in> set (map key (invs s))" unfolding k[symmetric] set_map by (rule imageI) (rule that(1))
    qed (use that in \<open>simp_all add: key_def\<close>)
    with v(2,3) show ?thesis by (force simp: invited_to_def set_db_def key_def)
  qed
  from assms(3) have "truthy (map_option js_trim (Some name)) = Some (js_trim name)" by (simp add: truthy_def)
  then show ?thesis
    by (simp add: enterWithNewAccount_def createSelfRegistered_def wp_simps Let_def assms(1) v(1))
      (rule wp_mono[OF register_candidate_wp[where e = email]],
        use assms(1,2) gone in \<open>auto simp: discardSelfRegistered_def delete_invitations_def wp_simps settled_def set_db_def\<close>)
qed

text \<open>C27: Signing up twice destroys the invitation. Two requests for the same new address, a
  double click for instance, both find no account; the first signs up and is given its
  invitation; the second is refused because the address is now taken, and its clean-up
  deletes that very invitation, although it had not created it: the candidate is left
  with an account and without the attempt just entered.\<close>

theorem entering_twice_destroys_the_invitation:
  assumes "js_toLowerCase (js_trim email) = email"
    and "email \<notin> us_email ` set (ac_users ac)" "email \<notin> invited_to (as_id a) ac" "js_trim name \<noteq> []"
    and "enterWithNewAccount cr windowMs slug_for a email password fullName ac = (Inr (res, i), ac')"
    and "enterWithNewAccount cr windowMs slug_for a email password' (Some name) ac' = (r, ac'')"
  shows "email \<in> invited_to (as_id a) ac' \<and> r = Inl EmailTaken \<and>
    email \<in> us_email ` set (ac_users ac'') \<and> email \<notin> invited_to (as_id a) ac''"
proof -
  let ?k = "(i, as_id a, email, Self_registered, INV_PENDING)"
  from wp_result[OF assms(5) fresh_entry_wp[OF assms(1-3)]]
  have keys: "map key (invs ac') = map key (invs ac) @ [?k]" and taken: "email \<in> us_email ` set (ac_users ac')" by simp_all
  have only: "k = ?k" if "k \<in> set (map key (invs ac'))" "fst (snd k) = as_id a" "fst (snd (snd k)) = email" for k
    using that assms(3) unfolding keys invited_to_keys set_append by (cases k) (force simp del: set_map)
  have "?k \<in> set (map key (invs ac'))" unfolding keys by simp
  then have invited: "email \<in> invited_to (as_id a) ac'" 
    unfolding invited_to_keys by (intro image_eqI[where x = ?k]) simp_all
  then obtain v where v: "List.find (\<lambda>v. iv_assessmentId v = as_id a \<and> iv_email v = email) (invs ac') = Some v"
    using find_None_iff[of "\<lambda>v. iv_assessmentId v = as_id a \<and> iv_email v = email" "invs ac'"] by (fastforce simp: invited_to_def)
  have "key v = ?k" by (rule only) (use find_Some_id[OF v] in \<open>auto simp: key_def\<close>)
  then have "wp (enterWithNewAccount cr windowMs slug_for a email password' (Some name)) (\<lambda>_ _. False)
     (\<lambda>err s'. err = EmailTaken \<and> email \<notin> invited_to (as_id a) s' \<and> map credentials (ac_users s') = map credentials (ac_users ac')) ac'"
    using only by (intro second_entry_wp[OF assms(1) taken assms(4) v]) (simp_all add: key_def)
  with invited taken assms(6) show ?thesis
    by (cases r) (simp_all add: wp_def emails_of del: set_map)
qed

theorem entering_twice_destroys_the_invitation_witness:
  "\<exists>res i ac'. enterWithNewAccount sample_crypto 0 (\<lambda>n gs. n) sample_assessment ''n@x.org'' ''pw'' (Some ''N'') linked_accounts =
       (Inr (res, i), ac') \<and>
     fst (enterWithNewAccount sample_crypto 0 (\<lambda>n gs. n) sample_assessment ''n@x.org'' ''pw'' (Some ''N'') ac') = Inl EmailTaken"
proof -
  let ?m = "enterWithNewAccount sample_crypto 0 (\<lambda>n gs. n) sample_assessment ''n@x.org'' ''pw'' (Some ''N'')"
  have "\<not> isl (fst (?m linked_accounts))" by code_simp
  then obtain p where "fst (?m linked_accounts) = Inr p" by (cases "fst (?m linked_accounts)") auto
  then obtain res i where run: "?m linked_accounts = (Inr (res, i), snd (?m linked_accounts))"
    by (cases p) (auto simp: prod_eq_iff)
  have facts: "js_toLowerCase (js_trim ''n@x.org'') = ''n@x.org''" "''n@x.org'' \<notin> us_email ` set (ac_users linked_accounts)"
    "''n@x.org'' \<notin> invited_to (as_id sample_assessment) linked_accounts" "js_trim ''N'' \<noteq> []"
    by code_simp+
  from entering_twice_destroys_the_invitation[OF facts run prod.collapse[symmetric]] run show ?thesis by blast
qed

subsection \<open>Rotating a link\<close>

lemma find_only: "x \<in> set xs \<Longrightarrow> (\<And>y. y \<in> set xs \<Longrightarrow> P y \<longleftrightarrow> y = x) \<Longrightarrow> List.find P xs = Some x"
  by (induction xs) auto

lemma links_saved: "ac_links s' = obj_set i l (ac_links s) \<Longrightarrow> links_of s' = (links_of s)(i := l)"
  by (auto simp: links_of_def fun_eq_iff)

lemma rotate_link_wp:
  "wp (rotate_link cr i organisationId settings)
     (\<lambda>(token, _) s'. (\<exists>a\<in>set (w_assessments (ac_db s)). as_id a = i \<and> as_organisationId a = organisationId) \<and> ac_db s' = ac_db s \<and>
        ac_links s' = obj_set i (applySettings settings ((links_of s i)\<lparr>lk_tokenHash := Some (cr_digest cr token),
          lk_enabled := or_else (st_enabled settings) True\<rparr>)) (ac_links s))
     (\<lambda>_ _. True) s"
proof (cases "List.find (\<lambda>a. as_id a = i \<and> as_organisationId a = organisationId) (w_assessments (ac_db s))")
  case None
  then show ?thesis by (simp add: rotate_link_def owned_assessment_def wp_simps)
next
  case (Some a)
  with find_Some_id[OF Some] show ?thesis
    by (auto simp: rotate_link_def owned_assessment_def save_link_def describe_link_def stateOf_def wp_simps links_of_def)
qed

text \<open>Rotating a link round-trips and revokes: the token returned is answered by the
  assessment, enabled unless asked otherwise, and no other token, the one handed out
  before among them, is answered by it any more, as long as its digest differs.\<close>

theorem rotated_link_replaces_the_old:
  assumes "rotate_link cr i organisationId settings ac = (Inr (token, view), ac')"
    and "js_trim token = token" "token \<noteq> ''''"
    and "inj_on as_id (set (w_assessments (ac_db ac)))"
    and "\<And>j. j \<noteq> i \<Longrightarrow> lk_tokenHash (links_of ac j) \<noteq> Some (cr_digest cr token)"
  shows "\<exists>a. as_id a = i \<and> as_organisationId a = organisationId \<and> fst (resolveByToken cr token ac') = Inr (Some a) \<and>
    lk_enabled (links_of ac' i) = or_else (st_enabled settings) True \<and>
    (cr_digest cr (js_trim old) \<noteq> cr_digest cr token \<longrightarrow> fst (resolveByToken cr old ac') \<noteq> Inr (Some a))"
proof -
  from wp_result[OF assms(1) rotate_link_wp] obtain a
    where a: "a \<in> set (w_assessments (ac_db ac))" "as_id a = i" "as_organisationId a = organisationId"
    and rows: "w_assessments (ac_db ac') = w_assessments (ac_db ac)"
    and links: "links_of ac' = (links_of ac)(i := applySettings settings ((links_of ac i)\<lparr>lk_tokenHash := Some (cr_digest cr token),
        lk_enabled := or_else (st_enabled settings) True\<rparr>))"
    by (auto dest: links_saved)
  have hash: "lk_tokenHash (links_of ac' i) = Some (cr_digest cr token)" "lk_enabled (links_of ac' i) = or_else (st_enabled settings) True"
    by (simp_all add: links applySettings_def)
  have only: "lk_tokenHash (links_of ac' (as_id b)) = Some (cr_digest cr token) \<longleftrightarrow> b = a" if "b \<in> set (w_assessments (ac_db ac))" for b
    using that a assms(4,5) hash by (cases "as_id b = i") (auto simp: links inj_on_def)
  then have "List.find (\<lambda>b. lk_tokenHash (links_of ac' (as_id b)) = Some (cr_digest cr token)) (w_assessments (ac_db ac')) = Some a"
    unfolding rows using a(1) by (intro find_only) auto
  then have "fst (resolveByToken cr token ac') = Inr (Some a)"
    using assms(2,3) by (simp add: resolveByToken_def reading_def)
  moreover have "fst (resolveByToken cr old ac') \<noteq> Inr (Some a)" if "cr_digest cr (js_trim old) \<noteq> cr_digest cr token"
    using that hash(1) a(2) by (auto simp: resolveByToken_def reading_def ret_def Let_def dest!: find_Some_id)
  ultimately show ?thesis using a hash by blast
qed

definition defaults :: link_settings where
  "defaults = \<lparr>st_enabled = None, st_expiresAt = None, st_maxAttempts = None, st_emailDomain = None\<rparr>"

theorem rotated_link_replaces_the_old_witness:
  "\<exists>a. as_id a = ''a'' \<and> fst (resolveByToken sample_crypto ''r'' (snd (rotate_link sample_crypto ''a'' ''org'' defaults linked_accounts))) = Inr (Some a) \<and>
     fst (resolveByToken sample_crypto ''token'' (snd (rotate_link sample_crypto ''a'' ''org'' defaults linked_accounts))) \<noteq> Inr (Some a)"
proof -
  let ?m = "rotate_link sample_crypto ''a'' ''org'' defaults"
  have "map_sum id fst (fst (?m linked_accounts)) = Inr ''r''" by code_simp
  then obtain view where run: "?m linked_accounts = (Inr (''r'', view), snd (?m linked_accounts))"
    by (cases "fst (?m linked_accounts)") (auto simp: prod_eq_iff)
  have one: "w_assessments (ac_db linked_accounts) = [sample_assessment]"
    by (simp add: linked_accounts_def sample_accounts_def world_samples)
  have free: "lk_tokenHash (links_of linked_accounts j) \<noteq> Some (cr_digest sample_crypto ''r'')" for j
    by (simp add: links_of_def linked_accounts_def sample_crypto_def no_link_def)
  have trims: "js_trim ''r'' = ''r''" "cr_digest sample_crypto (js_trim ''token'') \<noteq> cr_digest sample_crypto ''r''" by code_simp+
  show ?thesis
    using rotated_link_replaces_the_old[OF run trims(1) _ _ free, of "''token''"] trims(2) by (auto simp: one)
qed

end
