(* ===== verification/Review_Properties.thy ===== *)
theory Review_Properties
  imports Report_Service Link_Properties
begin

section \<open>The properties of reviews\<close>

text \<open>
  What the reviews of an attempt promise, as an abstract machine: a decision is open until
  the candidate is told, and then final. Every request on the desk is a step of the machine
  (\<open>request_refines\<close>), and the machine alone gives the bounds on what is mailed.
\<close>

subsection \<open>The machine\<close>

datatype standing = Open "review_decision option" | Told

text \<open>A step, with the number of rejections it mails.\<close>

inductive decides :: "standing \<Rightarrow> nat \<Rightarrow> standing \<Rightarrow> bool" where
  stays: "decides x 0 x"
| decided: "decides (Open a) 0 (Open b)"
| told: "decides (Open a) 1 Told"

inductive_cases decides_from_Told: "decides Told n y"
inductive_simps decides_Open: "decides (Open a) n y"

lemma decides_counts: "decides x n y \<Longrightarrow> of_bool (x = Told) + n = (of_bool (y = Told) :: nat)"
  by (erule decides.cases) simp_all

fun total_for :: "('q \<Rightarrow> 's \<Rightarrow> 's) \<Rightarrow> ('q \<Rightarrow> 's \<Rightarrow> nat) \<Rightarrow> ('q \<Rightarrow> 'k) \<Rightarrow> 'k \<Rightarrow> 'q list \<Rightarrow> 's \<Rightarrow> nat" where
  "total_for run sent subject k [] s = 0"
| "total_for run sent subject k (q # qs) s =
     (if subject q = k then sent q s else 0) + total_for run sent subject k qs (run q s)"

locale decision_machine =
  fixes standing_at :: "'s \<Rightarrow> 'k \<Rightarrow> standing"
    and run :: "'q \<Rightarrow> 's \<Rightarrow> 's"
    and sent :: "'q \<Rightarrow> 's \<Rightarrow> nat"
    and subject :: "'q \<Rightarrow> 'k"
    and ok :: "'s \<Rightarrow> bool"
  assumes step: "ok s \<Longrightarrow> decides (standing_at s (subject q)) (sent q s) (standing_at (run q s) (subject q))"
    and elsewhere: "ok s \<Longrightarrow> k \<noteq> subject q \<Longrightarrow> standing_at (run q s) k = standing_at s k"
    and still_ok: "ok s \<Longrightarrow> ok (run q s)"
begin

lemma ok_after: "ok s \<Longrightarrow> ok (fold run qs s)"
  by (induction qs arbitrary: s) (simp_all add: still_ok)

lemma told_stays: "ok s \<Longrightarrow> standing_at s k = Told \<Longrightarrow> standing_at (fold run qs s) k = Told"
proof (induction qs arbitrary: s)
  case (Cons q qs)
  have "standing_at (run q s) k = Told"
  proof (cases "k = subject q")
    case True
    with step[OF Cons.prems(1), of q] Cons.prems(2) show ?thesis by (auto elim: decides_from_Told)
  next
    case False
    with elsewhere[OF Cons.prems(1)] Cons.prems(2) show ?thesis by simp
  qed
  with Cons show ?case by (simp add: still_ok)
qed simp

text \<open>Told exactly when one rejection was mailed on the way.\<close>

lemma mailed_once:
  "ok s \<Longrightarrow> of_bool (standing_at s k = Told) + total_for run sent subject k qs s =
     (of_bool (standing_at (fold run qs s) k = Told) :: nat)"
proof (induction qs arbitrary: s)
  case (Cons q qs)
  have "of_bool (standing_at s k = Told) + (if subject q = k then sent q s else 0) =
      (of_bool (standing_at (run q s) k = Told) :: nat)"
    using step[OF Cons.prems, of q] elsewhere[OF Cons.prems, of k q] by (auto dest: decides_counts)
  with Cons.IH[OF still_ok[OF Cons.prems, of q]] show ?case by simp
qed simp

end

subsection \<open>Steps of the desk\<close>

lemma wp_on_accounts [wp_simps]:
  "wp (on_accounts m) Q E d = wp m (\<lambda>x ac. Q x (d\<lparr>dk_accounts := ac\<rparr>)) (\<lambda>e ac. E (AccountError e) (d\<lparr>dk_accounts := ac\<rparr>)) (dk_accounts d)"
  by (simp add: wp_def on_accounts_def split: prod.splits sum.splits)

lemma wp_expecting [wp_simps]: "wp (expecting e x) Q E d = (case x of None \<Rightarrow> E e d | Some y \<Rightarrow> Q y d)"
  by (simp add: expecting_def wp_simps split: option.split)

lemma loadSession_wp:
  assumes "\<And>ld. belongs_to (dk_accounts d) (sr_assessmentId (ld_session ld)) organisationId \<Longrightarrow> sr_id (ld_session ld) = i \<Longrightarrow> Q ld d"
    and "\<And>e. E e d"
  shows "wp (loadSession i organisationId) Q E d"
  using assms by (auto simp: loadSession_def load_where_def join_session_def wp_simps dest!: find_Some_id split: option.splits)

lemma senderFor_wp: "(\<And>x. Q x d) \<Longrightarrow> (\<And>e. E e d) \<Longrightarrow> wp (senderFor ld organisationId) Q E d"
  by (auto simp: senderFor_def wp_simps Let_def split: option.split)

fun is_rejection :: "mail_job \<Rightarrow> bool" where
  "is_rejection (Rejection_mail to_address name company title reply) \<longleftrightarrow> True"
| "is_rejection _ \<longleftrightarrow> False"

definition rejections :: "desk \<Rightarrow> nat" where
  "rejections d = length (filter is_rejection (ac_mail (dk_accounts d)))"

subsection \<open>The table of reviews\<close>

definition rkey :: "review_row \<Rightarrow> string \<times> string" where
  "rkey r = (rv_sessionId r, rv_organisationId r)"

definition row_standing :: "review_row \<Rightarrow> standing" where
  "row_standing r = (if rv_rejectionEmailSentAt r \<noteq> None then Told else Open (rv_decision r))"

definition standing_in :: "review_row list \<Rightarrow> string \<times> string \<Rightarrow> standing" where
  "standing_in rs k = (case List.find (\<lambda>r. rkey r = k) rs of None \<Rightarrow> Open None | Some r \<Rightarrow> row_standing r)"

definition table_ok :: "review_row list \<Rightarrow> bool" where
  "table_ok rs \<longleftrightarrow> distinct (map rv_id rs) \<and> distinct (map rkey rs) \<and>
     (\<forall>r\<in>set rs. rv_rejectionEmailSentAt r \<noteq> None \<longrightarrow> rv_decision r = Some REJECTED)"

definition swap_row :: "review_row \<Rightarrow> review_row list \<Rightarrow> review_row list" where
  "swap_row row = update_rows (\<lambda>r. rv_id r = rv_id row) (\<lambda>_. row)"

lemma swap_row_Cons: "swap_row y (r # rs) = (if rv_id r = rv_id y then y else r) # swap_row y rs"
  by (simp add: swap_row_def update_rows_def)

lemma swap_row_Nil [simp]: "swap_row y [] = []"
  by (simp add: swap_row_def update_rows_def)

lemma swap_row_absent: "rv_id y \<notin> rv_id ` set rs \<Longrightarrow> swap_row y rs = rs"
  by (induction rs) (auto simp: swap_row_Cons)

lemma swap_row_same: "distinct (map rv_id rs) \<Longrightarrow> y \<in> set rs \<Longrightarrow> swap_row y rs = rs"
  by (induction rs) (auto simp: swap_row_Cons swap_row_absent rev_image_eqI)

lemma swap_row_twice: "rv_id a = rv_id b \<Longrightarrow> swap_row a (swap_row b rs) = swap_row a rs"
  by (simp add: swap_row_def update_rows_def)

lemma swap_row_maps: "(\<And>r. r \<in> set rs \<Longrightarrow> rv_id r = rv_id y \<Longrightarrow> f r = f y) \<Longrightarrow> map f (swap_row y rs) = map f rs"
  by (simp add: swap_row_def update_rows_def)

lemma swapped_in: "y \<in> set rs \<Longrightarrow> rv_id y = rv_id y' \<Longrightarrow> y' \<in> set (swap_row y' rs)"
  by (force simp: swap_row_def update_rows_def)

lemma find_swapped:
  "rkey x = rkey y \<Longrightarrow> x \<in> set rs \<Longrightarrow> rv_id x = rv_id y \<Longrightarrow> distinct (map rv_id rs) \<Longrightarrow> distinct (map rkey rs) \<Longrightarrow>
   List.find (\<lambda>r. rkey r = k) (swap_row y rs) = (if k = rkey y then Some y else List.find (\<lambda>r. rkey r = k) rs)"
proof (induction rs)
  case (Cons r rs)
  show ?case
  proof (cases "r = x")
    case True
    with Cons.prems have "swap_row y (r # rs) = y # rs" by (auto simp: swap_row_Cons swap_row_absent)
    with True Cons.prems show ?thesis by simp
  next
    case False
    with Cons.prems have "rv_id r \<noteq> rv_id y" "rkey r \<noteq> rkey y" "x \<in> set rs" by (auto simp: rev_image_eqI)
    with Cons show ?thesis by (auto simp: swap_row_Cons)
  qed
qed simp

lemma swap_keeps:
  assumes "table_ok rs" "x \<in> set rs" "rv_id x = rv_id y" "rkey x = rkey y"
    and "rv_rejectionEmailSentAt y \<noteq> None \<Longrightarrow> rv_decision y = Some REJECTED"
  shows "table_ok (swap_row y rs)"
    and "standing_in (swap_row y rs) k = (if k = rkey y then row_standing y else standing_in rs k)"
proof -
  have only: "r = x" if "r \<in> set rs" "rv_id r = rv_id y" for r
    using that assms(1-3) by (auto simp: table_ok_def distinct_map inj_on_def)
  have "map rv_id (swap_row y rs) = map rv_id rs" "map rkey (swap_row y rs) = map rkey rs"
    using only assms(3,4) by (auto intro!: swap_row_maps)
  moreover have "rv_decision r = Some REJECTED" if "r \<in> set (swap_row y rs)" "rv_rejectionEmailSentAt r \<noteq> None" for r
    using that assms(1,5) by (auto simp: table_ok_def swap_row_def update_rows_def split: if_splits)
  ultimately show "table_ok (swap_row y rs)" using assms(1) by (auto simp: table_ok_def)
  show "standing_in (swap_row y rs) k = (if k = rkey y then row_standing y else standing_in rs k)"
    using find_swapped[OF assms(4,2,3)] assms(1) by (auto simp: standing_in_def table_ok_def)
qed

lemma append_keeps:
  assumes "table_ok rs" "rv_id y \<notin> rv_id ` set rs" "rkey y \<notin> rkey ` set rs" "rv_rejectionEmailSentAt y = None"
  shows "table_ok (rs @ [y])"
    and "standing_in (rs @ [y]) k = (if k = rkey y then row_standing y else standing_in rs k)"
proof -
  show "table_ok (rs @ [y])" using assms by (auto simp: table_ok_def)
  have "List.find (\<lambda>r. rkey r = k) (rs @ [y]) =
      (if k = rkey y then Some y else List.find (\<lambda>r. rkey r = k) rs)"
    using assms(3) by (induction rs) auto
  then show "standing_in (rs @ [y]) k = (if k = rkey y then row_standing y else standing_in rs k)"
    by (simp add: standing_in_def)
qed

subsection \<open>Requests\<close>

lemma wp_swallowed: "wp (try_catch (bind_p m (\<lambda>_. ret ())) (\<lambda>_. ret ())) Q E s = wp m (\<lambda>_. Q ()) (\<lambda>_. Q ()) s"
  by (simp add: wp_try wp_bind wp_ret_fun)

lemma save_review_swap: "save_review row = updating (\<lambda>d. d\<lparr>dk_reviews := swap_row row (dk_reviews d)\<rparr>)"
  by (simp add: save_review_def swap_row_def)

lemma queueRejection_wp:
  assumes "review \<in> set (dk_reviews d)" "distinct (map rv_id (dk_reviews d))" "rv_rejectionEmailSentAt review = None"
  shows "wp (queueRejection i organisationId review)
     (\<lambda>_ d'. rejections d' = Suc (rejections d) \<and>
        (\<exists>t. dk_reviews d' = swap_row (review\<lparr>rv_rejectionEmailSentAt := Some t\<rparr>) (dk_reviews d)))
     (\<lambda>_ d'. rejections d' = rejections d \<and> dk_reviews d' = dk_reviews d) d"
proof -
  have undone: "swap_row (review\<lparr>rv_rejectionEmailSentAt := None\<rparr>) (swap_row (review\<lparr>rv_rejectionEmailSentAt := Some t\<rparr>) (dk_reviews d)) = dk_reviews d" for t
  proof -
    have "review\<lparr>rv_rejectionEmailSentAt := None\<rparr> = review" using assms(3) by simp
    with assms(1,2) show ?thesis by (simp add: swap_row_twice swap_row_same)
  qed
  show ?thesis
    unfolding queueRejection_def wp_bind
    by (intro loadSession_wp senderFor_wp)
      (use undone in \<open>auto simp: wp_simps save_review_swap rejections_def Let_def\<close>)
qed

datatype review_request =
    Review string string string review_input
  | Reject_by_mail string string
  | Write_to string string string string

fun subject :: "review_request \<Rightarrow> string \<times> string" where
  "subject (Review s g actor input) = (s, g)"
| "subject (Reject_by_mail s g) = (s, g)"
| "subject (Write_to s g actor body) = (s, g)"

fun perform :: "review_request \<Rightarrow> desk \<Rightarrow> desk" where
  "perform (Review s g actor input) d = snd (saveReview s g actor input d)"
| "perform (Reject_by_mail s g) d = snd (sendRejectionEmail s g d)"
| "perform (Write_to s g actor body) d = snd (sendCandidateMessage s g actor body d)"

definition mailed :: "review_request \<Rightarrow> desk \<Rightarrow> nat" where
  "mailed q d = rejections (perform q d) - rejections d"

definition standing_of :: "desk \<Rightarrow> string \<times> string \<Rightarrow> standing" where
  "standing_of d = standing_in (dk_reviews d)"

text \<open>What one request about \<open>k\<close> may do.\<close>

definition moves :: "string \<times> string \<Rightarrow> desk \<Rightarrow> desk \<Rightarrow> bool" where
  "moves k d d' \<longleftrightarrow> table_ok (dk_reviews d') \<and> rejections d \<le> rejections d' \<and>
     decides (standing_of d k) (rejections d' - rejections d) (standing_of d' k) \<and>
     (\<forall>k'. k' \<noteq> k \<longrightarrow> standing_of d' k' = standing_of d k')"

lemma moves_still:
  "table_ok (dk_reviews d) \<Longrightarrow> dk_reviews d' = dk_reviews d \<Longrightarrow> rejections d' = rejections d \<Longrightarrow> moves k d d'"
  by (simp add: moves_def standing_of_def stays)

text \<open>Telling the candidate, from a row that is in the table.\<close>

lemma telling_wp:
  assumes "table_ok (dk_reviews d)" "review \<in> set (dk_reviews d)" "rv_rejectionEmailSentAt review = None"
    "rv_decision review = Some REJECTED"
  shows "wp (queueRejection i g review)
     (\<lambda>_ d'. table_ok (dk_reviews d') \<and> rejections d' = Suc (rejections d) \<and>
        (\<forall>k. standing_of d' k = (if k = rkey review then Told else standing_of d k)))
     (\<lambda>_ d'. rejections d' = rejections d \<and> dk_reviews d' = dk_reviews d) d"
proof (rule wp_mono[OF queueRejection_wp])
  fix x d'
  assume "rejections d' = Suc (rejections d) \<and>
    (\<exists>t. dk_reviews d' = swap_row (review\<lparr>rv_rejectionEmailSentAt := Some t\<rparr>) (dk_reviews d))"
  then obtain t where t: "dk_reviews d' = swap_row (review\<lparr>rv_rejectionEmailSentAt := Some t\<rparr>) (dk_reviews d)"
    and n: "rejections d' = Suc (rejections d)" by blast
  note s = swap_keeps[OF assms(1,2), of "review\<lparr>rv_rejectionEmailSentAt := Some t\<rparr>"]
  show "table_ok (dk_reviews d') \<and> rejections d' = Suc (rejections d) \<and>
      (\<forall>k. standing_of d' k = (if k = rkey review then Told else standing_of d k))"
    using s(1) s(2) assms(4) n by (simp add: t standing_of_def rkey_def row_standing_def)
qed (use assms in \<open>simp_all add: table_ok_def\<close>)

lemma wp_insert_review:
  "wp (insert_review row) Q E d =
     (let ac = dk_accounts d; i = ac_random ac 0; d' = d\<lparr>dk_accounts := ac\<lparr>ac_random := \<lambda>n. ac_random ac (Suc n)\<rparr>\<rparr>
      in if list_ex (\<lambda>r. rv_id r = i \<or> rv_sessionId r = rv_sessionId row \<and> rv_organisationId r = rv_organisationId row) (dk_reviews d)
         then E DeskDuplicate d' else Q (row\<lparr>rv_id := i\<rparr>) (d'\<lparr>dk_reviews := dk_reviews d @ [row\<lparr>rv_id := i\<rparr>]\<rparr>))"
  by (simp add: wp_def insert_review_def bind_p_def on_accounts_def random_value_def Let_def)

text \<open>Saving the decision, then telling if it was to reject.\<close>

lemma review_row_saved:
  assumes "table_ok (dk_reviews d)" "existing = List.find (\<lambda>r. rv_sessionId r = s \<and> rv_organisationId r = g) (dk_reviews d)"
    and "\<not> (Option.bind existing rv_rejectionEmailSentAt \<noteq> None \<and> si_decision input \<noteq> None \<and> si_decision input \<noteq> Some (Some REJECTED))"
    and row_def: "row = reviewed s g actor input existing"
  shows "wp (case existing of None \<Rightarrow> insert_review row | Some _ \<Rightarrow> then_p (save_review row) (ret row))
     (\<lambda>saved d'. table_ok (dk_reviews d') \<and> rejections d' = rejections d \<and> saved \<in> set (dk_reviews d') \<and> rkey saved = (s, g) \<and>
        rv_decision saved = rv_decision row \<and> rv_rejectionEmailSentAt saved = rv_rejectionEmailSentAt row \<and>
        (\<forall>k. standing_of d' k = (if k = (s, g) then row_standing row else standing_of d k)))
     (\<lambda>_ d'. rejections d' = rejections d \<and> dk_reviews d' = dk_reviews d) d"
proof (cases existing)
  case None
  then have fresh: "rkey row \<notin> rkey ` set (dk_reviews d)" "rv_rejectionEmailSentAt row = None"
    using assms(2) None by (auto simp: find_None_iff row_def reviewed_def rkey_def)
  have k: "rkey row = (s, g)" by (simp add: row_def reviewed_def rkey_def)
  let ?row = "row\<lparr>rv_id := ac_random (dk_accounts d) 0\<rparr>"
  have rs: "row_standing ?row = row_standing row" "rkey ?row = (s, g)" "rv_rejectionEmailSentAt ?row = None"
    using fresh k by (simp_all add: row_standing_def rkey_def)
  show ?thesis
  proof (cases "ac_random (dk_accounts d) 0 \<in> rv_id ` set (dk_reviews d)")
    case True
    then show ?thesis by (auto simp: None wp_insert_review Let_def list_ex_iff rejections_def)
  next
    case False
    have new: "rkey ?row \<notin> rkey ` set (dk_reviews d)" using fresh(1) k rs(2) by simp
    have "table_ok (dk_reviews d @ [?row])" "standing_in (dk_reviews d @ [?row]) j =
        (if j = (s, g) then row_standing row else standing_in (dk_reviews d) j)" for j
      using append_keeps[OF assms(1) _ new rs(3)] False rs(1,2) by simp_all
    with rs(2) show ?thesis
      by (simp add: None wp_insert_review Let_def list_ex_iff rejections_def standing_of_def)
  qed
next
  case (Some r)
  with assms(2) have r: "r \<in> set (dk_reviews d)" "rkey r = (s, g)"
    using find_Some_id[of _ "dk_reviews d" r] by (auto simp: rkey_def)
  have row: "rv_id row = rv_id r" "rkey row = rkey r" using r by (simp_all add: row_def reviewed_def Some rkey_def)
  have "rv_decision row = Some REJECTED" if "rv_rejectionEmailSentAt row \<noteq> None"
    using that assms(1,3) r(1) by (auto simp: row_def reviewed_def Some table_ok_def or_else_def split: option.splits)
  note s = swap_keeps[OF assms(1) r(1) row(1)[symmetric] row(2)[symmetric] this]
  show ?thesis
    using s swapped_in[OF r(1), of row] row r
    by (simp add: Some save_review_swap wp_simps standing_of_def rejections_def)
qed

lemma standing_of_found:
  "standing_of d (s, g) = (case List.find (\<lambda>r. rv_sessionId r = s \<and> rv_organisationId r = g) (dk_reviews d) of
     None \<Rightarrow> Open None | Some r \<Rightarrow> row_standing r)"
  by (simp add: standing_of_def standing_in_def rkey_def)

lemma saved_moves:
  assumes "table_ok (dk_reviews d')" "rejections d' = rejections d"
    and "\<forall>k. standing_of d' k = (if k = (s, g) then row_standing row else standing_of d k)"
    and "standing_of d (s, g) = Told \<longleftrightarrow> rv_rejectionEmailSentAt row \<noteq> None"
  shows "moves (s, g) d d'"
proof (cases "standing_of d (s, g)")
  case Told
  with assms show ?thesis by (simp add: moves_def row_standing_def stays)
next
  case (Open a)
  with assms show ?thesis by (simp add: moves_def row_standing_def decided)
qed

lemma told_moves:
  assumes "table_ok (dk_reviews d'')" "rejections d'' = Suc (rejections d)" "standing_of d (s, g) \<noteq> Told"
    and "\<forall>k. standing_of d'' k = (if k = (s, g) then Told else standing_of d' k)"
    and "\<forall>k. k \<noteq> (s, g) \<longrightarrow> standing_of d' k = standing_of d k"
  shows "moves (s, g) d d''"
proof (cases "standing_of d (s, g)")
  case (Open a)
  with assms show ?thesis using told[of a] by (simp add: moves_def)
qed (use assms(3) in simp)

lemma saveReview_with_moves:
  assumes "table_ok (dk_reviews d)" "existing = List.find (\<lambda>r. rv_sessionId r = s \<and> rv_organisationId r = g) (dk_reviews d)"
  shows "wp (saveReview_with s g actor input existing) (\<lambda>_. moves (s, g) d) (\<lambda>_. moves (s, g) d) d"
proof (cases "Option.bind existing rv_rejectionEmailSentAt \<noteq> None \<and> si_decision input \<noteq> None \<and> si_decision input \<noteq> Some (Some REJECTED)")
  case True
  then show ?thesis by (simp add: saveReview_with_def Let_def wp_simps moves_still[OF assms(1)])
next
  case False
  let ?row = "reviewed s g actor input existing" and ?told = "Option.bind existing rv_rejectionEmailSentAt"
  have was: "standing_of d (s, g) = Told \<longleftrightarrow> rv_rejectionEmailSentAt ?row \<noteq> None" "rv_rejectionEmailSentAt ?row = ?told"
    by (auto simp: standing_of_found assms(2)[symmetric] reviewed_def row_standing_def split: option.splits)
  have read: "wp (bind_p (reading f) (expecting e)) (\<lambda>_. moves (s, g) d) (\<lambda>_. moves (s, g) d) d' = moves (s, g) d d'" for f e d'
    by (simp add: wp_simps split: option.split)
  show ?thesis
    unfolding saveReview_with_def Let_def if_not_P[OF False] wp_bind[of "case existing of None \<Rightarrow> _ | Some _ \<Rightarrow> _"] wp_then[of "if _ then _ else _"] read
  proof (rule wp_mono[OF review_row_saved[OF assms False refl]], goal_cases)
    case (1 saved d')
    then have still: "moves (s, g) d d'" using was by (intro saved_moves) auto
    show ?case
    proof (cases "si_decision input = Some (Some REJECTED) \<and> ?told = None")
      case True
      have told_open: "rv_decision saved = Some REJECTED" "rv_rejectionEmailSentAt saved = None" "standing_of d (s, g) \<noteq> Told"
        using 1 True was by (simp_all add: reviewed_def)
      have "wp (queueRejection s g saved) (\<lambda>_. moves (s, g) d) (\<lambda>_. moves (s, g) d) d'"
      proof (rule wp_mono[OF telling_wp[of d' saved]], goal_cases)
        case (5 x d'')
        then show ?case using 1 told_open by (intro told_moves[of _ d s g d']) simp_all
      next
        case (6 e d'')
        with still show ?case by (simp add: moves_def standing_of_def)
      qed (use 1 told_open in simp_all)
      with True show ?thesis by (simp add: wp_swallowed)
    next
      case False
      then show ?thesis using still by (simp only: if_False wp_ret)
    qed
  next
    case (2 e d')
    then show ?case by (intro moves_still[OF assms(1)]) simp_all
  qed
qed

lemma saveReview_moves:
  "table_ok (dk_reviews d) \<Longrightarrow> wp (saveReview s g actor input) (\<lambda>_. moves (s, g) d) (\<lambda>_. moves (s, g) d) d"
  unfolding saveReview_def wp_bind find_review_def wp_reading
  by (intro loadSession_wp saveReview_with_moves) (simp_all add: moves_still)

lemma sendRejectionEmail_moves:
  assumes "table_ok (dk_reviews d)"
  shows "wp (sendRejectionEmail s g) (\<lambda>_. moves (s, g) d) (\<lambda>_. moves (s, g) d) d"
proof -
  have "wp (queueRejection s g r) (\<lambda>_. moves (s, g) d) (\<lambda>_. moves (s, g) d) d"
    if r: "List.find (\<lambda>r. rv_sessionId r = s \<and> rv_organisationId r = g) (dk_reviews d) = Some r"
      "rv_decision r = Some REJECTED" "rv_rejectionEmailSentAt r = None" for r
  proof (rule wp_mono[OF telling_wp[OF assms _ r(3,2)]], goal_cases)
    case (2 x d')
    with r find_Some_id[OF r(1)] show ?case
      by (intro told_moves[of _ d s g d]) (simp_all add: standing_of_found row_standing_def rkey_def)
  qed (use find_Some_id[OF r(1)] moves_still[OF assms] in simp_all)
  then show ?thesis
    unfolding sendRejectionEmail_def wp_bind find_review_def wp_reading
    by (intro loadSession_wp) (auto simp: wp_simps moves_still[OF assms] split: option.split)
qed

lemma sendCandidateMessage_moves:
  "table_ok (dk_reviews d) \<Longrightarrow> wp (sendCandidateMessage s g actor body) (\<lambda>_. moves (s, g) d) (\<lambda>_. moves (s, g) d) d"
  unfolding sendCandidateMessage_def wp_bind Let_def
  by (intro loadSession_wp senderFor_wp)
    (auto simp: wp_simps save_message_def wp_def[of "\<lambda>d. if _ d then _ d else _ d"] moves_still rejections_def Let_def)

lemma perform_moves:
  assumes "table_ok (dk_reviews d)"
  shows "moves (subject q) d (perform q d)"
  using saveReview_moves[OF assms] sendRejectionEmail_moves[OF assms] sendCandidateMessage_moves[OF assms]
  by (cases q) (simp_all add: wp_snd)

interpretation reviews: decision_machine standing_of perform mailed subject "\<lambda>d. table_ok (dk_reviews d)"
  by unfold_locales (use perform_moves in \<open>auto simp: moves_def mailed_def\<close>)

subsection \<open>What the reviews promise\<close>

text \<open>The sample desk: the sample accounts with the running session, nothing decided yet.\<close>

definition desk_entry :: module_entry where
  "desk_entry = \<lparr>me_id = ''m'', me_slug = ''numeracy'', me_name = ''Numeracy'', me_description = None,
     me_scoringType = OBJECTIVE, me_traits = None, me_isActive = True\<rparr>"

definition sample_desk :: desk where
  "sample_desk = \<lparr>dk_accounts = sample_accounts, dk_modules = [desk_entry], dk_companies = [], dk_companyOf = [],
     dk_createdBy = [], dk_reports = [], dk_reviews = [], dk_messages = [], dk_logs = [], dk_platformSupportEmail = None\<rparr>"

definition reject_input :: review_input where
  "reject_input = \<lparr>si_decision = Some (Some REJECTED), si_tags = None, si_note = None\<rparr>"

definition shortlist_input :: review_input where
  "shortlist_input = \<lparr>si_decision = Some (Some SHORTLISTED), si_tags = None, si_note = None\<rparr>"

definition noted_row :: review_row where
  "noted_row = \<lparr>rv_id = ''n'', rv_sessionId = ''s'', rv_organisationId = ''org'', rv_decision = None, rv_tags = [],
     rv_note = Some ''looks good'', rv_rejectionEmailSentAt = None, rv_updatedById = None\<rparr>"

lemma sample_table: "table_ok (dk_reviews sample_desk)" "table_ok [noted_row]"
  by (simp_all add: sample_desk_def table_ok_def noted_row_def)

text \<open>C28: Reviews refine the decision machine: every request about an attempt, whoever makes
  it and whether it succeeds or fails half-way, moves the standing of that attempt by one
  step of the machine that mails exactly what the step says, leaves the standing of every
  other attempt and of every other organisation alone, and keeps the table of reviews well
  formed.\<close>

theorem review_requests_refine_the_decision:
  assumes "table_ok (dk_reviews d)"
  shows "decides (standing_of d (subject q)) (rejections (perform q d) - rejections d) (standing_of (perform q d) (subject q)) \<and>
    (k \<noteq> subject q \<longrightarrow> standing_of (perform q d) k = standing_of d k) \<and>
    rejections d \<le> rejections (perform q d) \<and> table_ok (dk_reviews (perform q d))"
  using perform_moves[OF assms, of q] unfolding moves_def by blast

theorem review_requests_refine_the_decision_witness:
  "decides (standing_of sample_desk (''s'', ''org'')) (rejections (perform (Review ''s'' ''org'' ''o'' reject_input) sample_desk) - 0)
     (standing_of (perform (Review ''s'' ''org'' ''o'' reject_input) sample_desk) (''s'', ''org''))"
  using review_requests_refine_the_decision[OF sample_table(1), of "Review ''s'' ''org'' ''o'' reject_input"]
  by (simp add: rejections_def sample_desk_def sample_accounts_def)

text \<open>C29: A candidate is turned down by mail at most once, whatever the team does: over any
  sequence of reviews, retries and messages, with the queue failing at any of them, the
  number of rejections mailed about an attempt is one exactly if the review passes from
  not told to told on the way, and none otherwise.\<close>

theorem rejection_is_mailed_at_most_once:
  assumes "table_ok (dk_reviews d)"
  shows "total_for perform mailed subject k qs d =
    (if standing_of d k \<noteq> Told \<and> standing_of (fold perform qs d) k = Told then 1 else 0)"
  using reviews.mailed_once[OF assms, of k qs] reviews.told_stays[OF assms, of k qs]
  by (auto split: if_splits)

theorem rejection_is_mailed_at_most_once_witness:
  "total_for perform mailed subject (''s'', ''org'')
     [Review ''s'' ''org'' ''o'' reject_input, Reject_by_mail ''s'' ''org'', Review ''s'' ''org'' ''o'' reject_input] sample_desk = 1"
proof -
  let ?qs = "[Review ''s'' ''org'' ''o'' reject_input, Reject_by_mail ''s'' ''org'', Review ''s'' ''org'' ''o'' reject_input]"
  have "standing_of sample_desk (''s'', ''org'') \<noteq> Told \<and> standing_of (fold perform ?qs sample_desk) (''s'', ''org'') = Told" by code_simp
  with rejection_is_mailed_at_most_once[OF sample_table(1), of "(''s'', ''org'')" ?qs] show ?thesis by simp
qed

text \<open>A rejection the candidate was told about is final: no later sequence of requests
  changes the decision or forgets that the candidate knows.\<close>

theorem a_told_rejection_is_final:
  assumes "table_ok (dk_reviews d)" "standing_of d (s, g) = Told"
  shows "\<exists>r\<in>set (dk_reviews (fold perform qs d)). rv_sessionId r = s \<and> rv_organisationId r = g \<and>
    rv_decision r = Some REJECTED \<and> rv_rejectionEmailSentAt r \<noteq> None"
proof -
  have "standing_of (fold perform qs d) (s, g) = Told" and ok: "table_ok (dk_reviews (fold perform qs d))"
    using reviews.told_stays[OF assms] reviews.ok_after[OF assms(1)] by simp_all
  then obtain r where r: "List.find (\<lambda>r. rv_sessionId r = s \<and> rv_organisationId r = g) (dk_reviews (fold perform qs d)) = Some r"
    "rv_rejectionEmailSentAt r \<noteq> None"
    by (auto simp: standing_of_found row_standing_def split: option.splits if_splits)
  with find_Some_id[OF r(1)] ok show ?thesis by (auto simp: table_ok_def)
qed

theorem a_told_rejection_is_final_witness:
  "\<exists>r\<in>set (dk_reviews (fold perform [Review ''s'' ''org'' ''o'' shortlist_input]
      (perform (Review ''s'' ''org'' ''o'' reject_input) sample_desk))). rv_decision r = Some REJECTED"
proof -
  let ?d = "perform (Review ''s'' ''org'' ''o'' reject_input) sample_desk"
  have "standing_of ?d (''s'', ''org'') = Told" by code_simp
  moreover have "table_ok (dk_reviews ?d)" using reviews.still_ok[OF sample_table(1)] .
  ultimately show ?thesis
    using a_told_rejection_is_final[of ?d "''s''" "''org''" "[Review ''s'' ''org'' ''o'' shortlist_input]"] by blast
qed

text \<open>Two reviewers who both read the row before either wrote it.\<close>

lemma find_swapped_id:
  "x \<in> set rs \<Longrightarrow> rv_id x = rv_id y \<Longrightarrow> List.find (\<lambda>r. rv_id r = rv_id y) (swap_row y rs) = Some y"
  by (induction rs) (auto simp: swap_row_Cons)

lemma rejecting_wp:
  assumes "rv_rejectionEmailSentAt r = None" "si_decision input = Some (Some REJECTED)"
    and "row = reviewed s g actor input (Some r)"
    and "wp (queueRejection s g row) (\<lambda>_. P) (\<lambda>_. P) (d\<lparr>dk_reviews := swap_row row (dk_reviews d)\<rparr>)"
    and "\<And>d'. P d' \<Longrightarrow> case List.find (\<lambda>z. rv_id z = rv_id row) (dk_reviews d') of None \<Rightarrow> E BrokenReference d' | Some y \<Rightarrow> Q y d'"
  shows "wp (saveReview_with s g actor input (Some r)) Q E d"
  unfolding saveReview_with_def Let_def assms(3)[symmetric]
  using assms(1,2)
  by (auto simp: wp_then wp_bind wp_ret wp_swallowed save_review_swap wp_updating wp_reading wp_expecting
      intro!: wp_mono[OF assms(4)] dest: assms(5))

lemma stale_rejection_wp:
  assumes "table_ok (dk_reviews d)" "x \<in> set (dk_reviews d)" "rv_id x = rv_id r" "rkey x = (s, g)"
    and "rv_rejectionEmailSentAt r = None" "si_decision input = Some (Some REJECTED)"
  shows "wp (saveReview_with s g actor input (Some r))
     (\<lambda>saved d'. table_ok (dk_reviews d') \<and> saved \<in> set (dk_reviews d') \<and> rv_id saved = rv_id r \<and> rkey saved = (s, g) \<and>
        (rv_rejectionEmailSentAt saved \<noteq> None \<longrightarrow> rejections d' = Suc (rejections d))) (\<lambda>_ _. True) d"
proof -
  let ?row = "reviewed s g actor input (Some r)"
  let ?d = "d\<lparr>dk_reviews := swap_row ?row (dk_reviews d)\<rparr>"
  have row: "rv_id x = rv_id ?row" "rkey x = rkey ?row" "rv_rejectionEmailSentAt ?row = None" "rv_decision ?row = Some REJECTED"
    and r: "rv_id ?row = rv_id r" "rkey ?row = (s, g)"
    using assms(3-6) by (simp_all add: reviewed_def rkey_def)
  have ok: "table_ok (dk_reviews ?d)" "?row \<in> set (dk_reviews ?d)"
    using swap_keeps(1)[OF assms(1,2) row(1,2)] swapped_in[OF assms(2) row(1)] row(3) by simp_all
  have told: "table_ok (swap_row (?row\<lparr>rv_rejectionEmailSentAt := Some t\<rparr>) (dk_reviews ?d))"
    "?row\<lparr>rv_rejectionEmailSentAt := Some t\<rparr> \<in> set (swap_row (?row\<lparr>rv_rejectionEmailSentAt := Some t\<rparr>) (dk_reviews ?d))" for t
    using row(4) swap_keeps(1)[OF ok, of "?row\<lparr>rv_rejectionEmailSentAt := Some t\<rparr>"] swapped_in[OF ok(2)]
    by (simp_all add: rkey_def)
  let ?P = "\<lambda>d'. (\<exists>t. dk_reviews d' = swap_row (?row\<lparr>rv_rejectionEmailSentAt := Some t\<rparr>) (dk_reviews ?d) \<and>
      rejections d' = Suc (rejections d)) \<or> dk_reviews d' = dk_reviews ?d"
  show ?thesis
  proof (rule rejecting_wp[OF assms(5,6) refl, where P = ?P])
    show "wp (queueRejection s g ?row) (\<lambda>_. ?P) (\<lambda>_. ?P) ?d"
      by (rule wp_mono[OF queueRejection_wp[OF ok(2) _ row(3)]]) (use ok(1) in \<open>auto simp: table_ok_def rejections_def\<close>)
  next
    fix d' assume "?P d'"
    then consider t where "dk_reviews d' = swap_row (?row\<lparr>rv_rejectionEmailSentAt := Some t\<rparr>) (dk_reviews ?d)"
        "rejections d' = Suc (rejections d)" | "dk_reviews d' = dk_reviews ?d" by blast
    then show "case List.find (\<lambda>z. rv_id z = rv_id ?row) (dk_reviews d') of None \<Rightarrow> True
      | Some saved \<Rightarrow> table_ok (dk_reviews d') \<and> saved \<in> set (dk_reviews d') \<and> rv_id saved = rv_id r \<and> rkey saved = (s, g) \<and>
          (rv_rejectionEmailSentAt saved \<noteq> None \<longrightarrow> rejections d' = Suc (rejections d))"
    proof cases
      case (1 t)
      with find_swapped_id[OF ok(2), of "?row\<lparr>rv_rejectionEmailSentAt := Some t\<rparr>"] told[of t] r show ?thesis
        by (simp add: rkey_def)
    next
      case 2
      with find_swapped_id[OF assms(2) row(1)] ok r row(3) show ?thesis by simp
    qed
  qed
qed

text \<open>C30: Two overlapping rejections mail the candidate twice. When two requests to reject,
  a double click or two colleagues, both look the review up before either has written its
  own, the check that nothing was sent yet passes in both: each stamps the review and
  queues a mail, although the code means a second mail to be impossible.\<close>

theorem overlapping_rejections_mail_twice:
  assumes "table_ok (dk_reviews d)" "r \<in> set (dk_reviews d)" "rkey r = (s, g)" "rv_rejectionEmailSentAt r = None"
    and "si_decision input = Some (Some REJECTED)"
    and "saveReview_with s g actor input (Some r) d = (Inr r1, d1)" "rv_rejectionEmailSentAt r1 \<noteq> None"
    and "saveReview_with s g actor' input (Some r) d1 = (Inr r2, d2)" "rv_rejectionEmailSentAt r2 \<noteq> None"
  shows "rejections d2 = rejections d + 2"
proof -
  from wp_result[OF assms(6) stale_rejection_wp[OF assms(1,2) refl assms(3-5)]] assms(7)
  have first: "table_ok (dk_reviews d1)" "r1 \<in> set (dk_reviews d1)" "rv_id r1 = rv_id r" "rkey r1 = (s, g)"
    "rejections d1 = Suc (rejections d)" by simp_all
  from wp_result[OF assms(8) stale_rejection_wp[OF first(1-4) assms(4,5)]] assms(9) first(5)
  show ?thesis by simp
qed

theorem overlapping_rejections_mail_twice_witness:
  "rejections (snd (saveReview_with ''s'' ''org'' ''b'' reject_input (Some noted_row)
     (snd (saveReview_with ''s'' ''org'' ''o'' reject_input (Some noted_row) (sample_desk\<lparr>dk_reviews := [noted_row]\<rparr>))))) = 2"
proof -
  let ?d = "sample_desk\<lparr>dk_reviews := [noted_row]\<rparr>"
  let ?m = "\<lambda>actor. saveReview_with ''s'' ''org'' actor reject_input (Some noted_row)"
  have "map_sum id rv_rejectionEmailSentAt (fst (?m ''o'' ?d)) = Inr (Some 1000)"
    "map_sum id rv_rejectionEmailSentAt (fst (?m ''b'' (snd (?m ''o'' ?d)))) = Inr (Some 1001)" by code_simp+
  then obtain r1 r2 where runs: "?m ''o'' ?d = (Inr r1, snd (?m ''o'' ?d))" "rv_rejectionEmailSentAt r1 \<noteq> None"
    "?m ''b'' (snd (?m ''o'' ?d)) = (Inr r2, snd (?m ''b'' (snd (?m ''o'' ?d))))" "rv_rejectionEmailSentAt r2 \<noteq> None"
    by (cases "fst (?m ''o'' ?d)"; cases "fst (?m ''b'' (snd (?m ''o'' ?d)))") (auto simp: prod_eq_iff)
  have "table_ok (dk_reviews ?d)" "noted_row \<in> set (dk_reviews ?d)" "rkey noted_row = (''s'', ''org'')"
    "rv_rejectionEmailSentAt noted_row = None" "si_decision reject_input = Some (Some REJECTED)"
    using sample_table(2) by (simp_all add: noted_row_def rkey_def reject_input_def)
  from overlapping_rejections_mail_twice[OF this runs] show ?thesis
    by (simp add: rejections_def sample_desk_def sample_accounts_def)
qed

subsection \<open>Tenants and messages\<close>

lemma foreign_session:
  assumes "\<And>s. s \<in> set (w_sessions (dk_world d)) \<Longrightarrow> sr_id s = i \<Longrightarrow> \<not> belongs_to (dk_accounts d) (sr_assessmentId s) g"
  shows "loadSession i g d = (Inl (SessionMissing i), d)"
proof -
  have "List.find (\<lambda>s. sr_id s = i \<and> belongs_to (dk_accounts d) (sr_assessmentId s) g) (w_sessions (dk_world d)) = None"
    using assms by (auto simp: find_None_iff)
  then show ?thesis
    by (simp add: loadSession_def load_where_def bind_p_def reading_def expecting_def throw_def)
qed

text \<open>C31: Another organisation's attempt is invisible: reading its report or its answers,
  recomputing it, deciding on it, mailing its candidate or listing what was written all
  answer as they do for an id that does not exist, and change nothing.\<close>

theorem another_organisations_attempt_is_invisible:
  assumes "\<And>s. s \<in> set (w_sessions (dk_world d)) \<Longrightarrow> sr_id s = i \<Longrightarrow> \<not> belongs_to (dk_accounts d) (sr_assessmentId s) g"
  shows "report_summary i g d = (Inl (SessionMissing i), d) \<and> report_detail i g d = (Inl (SessionMissing i), d) \<and>
    regenerate i g d = (Inl (SessionMissing i), d) \<and> saveReview i g actor input d = (Inl (SessionMissing i), d) \<and>
    sendRejectionEmail i g d = (Inl (SessionMissing i), d) \<and>
    sendCandidateMessage i g actor body d = (Inl (SessionMissing i), d) \<and>
    listCandidateMessages i g d = (Inl (SessionMissing i), d)"
  by (simp add: report_summary_def report_detail_def regenerate_def saveReview_def sendRejectionEmail_def
      sendCandidateMessage_def listCandidateMessages_def bind_p_def then_p_def foreign_session[OF assms])

theorem another_organisations_attempt_is_invisible_witness:
  "report_summary ''s'' ''other'' sample_desk = (Inl (SessionMissing ''s''), sample_desk)"
proof -
  have "\<not> belongs_to (dk_accounts sample_desk) i ''other''" for i
    by (simp add: belongs_to_def sample_desk_def sample_accounts_def world_samples)
  with another_organisations_attempt_is_invisible[of sample_desk "''s''" "''other''"] show ?thesis by blast
qed

text \<open>What the record says was written to a candidate was written: a message enters the
  record only together with a mail of the same words to the same address, also when the
  request fails afterwards, and a queue that is down leaves no record.\<close>

theorem a_recorded_message_was_sent:
  shows "let d' = snd (sendCandidateMessage i g actor body d)
    in dk_messages d' = dk_messages d \<or>
       (\<exists>m name title reply. dk_messages d' = dk_messages d @ [m] \<and> cm_body m = js_trim body \<and> cm_body m \<noteq> '''' \<and>
          cm_sessionId m = i \<and> cm_organisationId m = g \<and>
          ac_mail (dk_accounts d') = ac_mail (dk_accounts d) @ [Candidate_mail (cm_sentTo m) name (fst title) (snd title) (cm_body m) reply])"
proof -
  let ?I = "\<lambda>d'. dk_messages d' = dk_messages d \<or>
     (\<exists>m name title reply. dk_messages d' = dk_messages d @ [m] \<and> cm_body m = js_trim body \<and> cm_body m \<noteq> '''' \<and>
        cm_sessionId m = i \<and> cm_organisationId m = g \<and>
        ac_mail (dk_accounts d') = ac_mail (dk_accounts d) @ [Candidate_mail (cm_sentTo m) name (fst title) (snd title) (cm_body m) reply])"
  have "wp (sendCandidateMessage i g actor body) (\<lambda>_. ?I) (\<lambda>_. ?I) d"
    unfolding sendCandidateMessage_def wp_bind Let_def
    by (intro loadSession_wp senderFor_wp)
      (auto simp: wp_simps save_message_def wp_def[of "\<lambda>d. if _ d then _ d else _ d"] Let_def)
  then show ?thesis by (simp add: wp_snd Let_def)
qed

end
