(* ===== verification/Standing_Properties.thy ===== *)
theory Standing_Properties
  imports Review_Properties
begin

section \<open>The properties of reports and standings\<close>

text \<open>
  The standing of an attempt as a count, what generating a report stores and mails, and the
  scale of what it stores.
\<close>

subsection \<open>Standings\<close>

definition above :: "real \<Rightarrow> ('k \<times> real) list \<Rightarrow> nat" where
  "above x entries = length (filter (\<lambda>e. snd e > x) entries)"

lemma above_append: "above x (xs @ ys) = above x xs + above x ys"
  by (simp add: above_def)

lemma above_sort: "above x (sort_key f xs) = above x xs"
  by (metis above_def mset_filter mset_sort size_mset)

text \<open>In a descending list, whoever is above an entry stands before it.\<close>

lemma descending_above:
  assumes "sorted_wrt (\<lambda>a b. snd b \<le> snd a) (ps @ (i, x) # es)"
  shows "above x ((i, x) # es) = 0"
    and "\<And>p. p \<in> set ps \<Longrightarrow> x \<le> snd p"
  using assms by (force simp: above_def filter_empty_conv sorted_wrt_append)+

lemma descending_last:
  fixes ps :: "('k \<times> real) list"
  assumes "sorted_wrt (\<lambda>a b. snd b \<le> snd a) ps" "ps \<noteq> []" "p \<in> set ps"
  shows "snd (last ps) \<le> snd p"
  using assms by (induction ps) auto

lemma all_above: "(\<And>p. p \<in> set ps \<Longrightarrow> x < snd p) \<Longrightarrow> above x ps = length ps"
  by (simp add: above_def filter_id_conv)

lemma assign_ranks_outside:
  "i \<notin> fst ` set es \<Longrightarrow> obj_get (assign_ranks n prev es ranks) i = obj_get ranks i"
  by (induction es arbitrary: n prev ranks) (auto split: option.splits)

lemma assign_ranks_counts:
  assumes "sorted_wrt (\<lambda>a b. snd b \<le> snd a) (ps @ es)" "distinct (map fst (ps @ es))"
    and "\<And>i x. (i, x) \<in> set ps \<Longrightarrow> obj_get ranks i = Some (Suc (above x (ps @ es)))"
    and "prev = (if ps = [] then None else Some (last ps))" "(i, x) \<in> set (ps @ es)"
  shows "obj_get (assign_ranks (length ps) prev es ranks) i = Some (Suc (above x (ps @ es)))"
  using assms
proof (induction es arbitrary: ps prev ranks)
  case (Cons e es)
  obtain j y where e: "e = (j, y)" by (cases e)
  let ?all = "ps @ e # es"
  let ?rank = "case prev of Some (k, s) \<Rightarrow> if s = y then or_else (obj_get ranks k) (length ps + 1) else length ps + 1 | None \<Rightarrow> length ps + 1"
  have count: "above y ?all = above y ps" and ge: "\<And>p. p \<in> set ps \<Longrightarrow> y \<le> snd p"
    using descending_above[of ps j y es] Cons.prems(1) by (simp_all add: e above_append)
  have rank: "?rank = Suc (above y ?all)"
  proof (cases "ps = []")
    case True
    with Cons.prems(4) count show ?thesis by (simp add: above_def)
  next
    case False
    obtain k s where last: "last ps = (k, s)" by (cases "last ps")
    with False have mem: "(k, s) \<in> set ps" by (metis last_in_set)
    show ?thesis
    proof (cases "s = y")
      case True
      with Cons.prems(3)[OF mem] Cons.prems(4) False last show ?thesis by simp
    next
      case neq: False
      have "sorted_wrt (\<lambda>a b. snd b \<le> snd a) ps" using Cons.prems(1) by (simp add: sorted_wrt_append)
      from descending_last[OF this False] have "y < snd p" if "p \<in> set ps" for p
        using that neq ge[OF mem] last by fastforce
      from all_above[OF this] count Cons.prems(4) False last neq show ?thesis by simp
    qed
  qed
  have "obj_get (assign_ranks (length (ps @ [e])) (Some e) es (obj_set j ?rank ranks)) i = Some (Suc (above x ((ps @ [e]) @ es)))"
  proof (rule Cons.IH)
    fix i x assume "(i, x) \<in> set (ps @ [e])"
    then show "obj_get (obj_set j ?rank ranks) i = Some (Suc (above x ((ps @ [e]) @ es)))"
      using Cons.prems(2,3) rank e by (auto simp: rev_image_eqI)
  qed (use Cons.prems in simp_all)
  then show ?case by (simp add: e)
qed simp

definition scored :: "attempt_item list \<Rightarrow> (string \<times> real) list" where
  "scored rows = List.map_filter (\<lambda>row. map_option (Pair (at_sessionId row)) (at_overallScore row)) rows"

lemma scored_Nil [simp]: "scored [] = []"
  by (simp add: scored_def map_filter_simps)

lemma scored_Cons: "scored (r # rows) = (case at_overallScore r of None \<Rightarrow> [] | Some x \<Rightarrow> [(at_sessionId r, x)]) @ scored rows"
  by (simp add: scored_def map_filter_simps split: option.split)

lemma scored_mem: "(i, x) \<in> set (scored rows) \<longleftrightarrow> (i, Some x) \<in> (\<lambda>r. (at_sessionId r, at_overallScore r)) ` set rows"
proof (induction rows)
  case (Cons r rows)
  show ?case unfolding scored_Cons set_append Un_iff Cons.IH
    by (cases "at_overallScore r") simp_all
qed simp

lemma scored_distinct: "distinct (map at_sessionId rows) \<Longrightarrow> distinct (map fst (scored rows))"
proof (induction rows)
  case (Cons r rows)
  have "at_sessionId r \<notin> fst ` set (scored rows)"
  proof
    assume "at_sessionId r \<in> fst ` set (scored rows)"
    then obtain x where "(at_sessionId r, x) \<in> set (scored rows)" by force
    then have "at_sessionId r \<in> at_sessionId ` set rows" unfolding scored_mem by blast
    with Cons.prems show False by simp
  qed
  with Cons show ?case by (simp add: scored_Cons split: option.split)
qed simp

lemma scored_above: "above x (scored rows) = length (filter (\<lambda>r. case at_overallScore r of None \<Rightarrow> False | Some y \<Rightarrow> y > x) rows)"
  by (induction rows) (auto simp: scored_Cons above_def split: option.splits)

text \<open>C32: The standing is the competition ranking of the cohort: an attempt with a score has
  as many attempts before it as have a strictly higher score, so equal scores share a place
  and the next one skips, whatever the order the attempts are listed in; an attempt without
  a score has no place, and the cohort counts exactly those that have one.\<close>

theorem standing_counts_who_did_better:
  assumes "distinct (map at_sessionId rows)"
  shows "rankByScore rows = map (\<lambda>row. attempt_item.extend row
    \<lparr>at_rank = map_option (\<lambda>x. Suc (length (filter (\<lambda>r. case at_overallScore r of None \<Rightarrow> False | Some y \<Rightarrow> y > x) rows)))
       (at_overallScore row),
     at_cohortSize = length (filter (\<lambda>r. at_overallScore r \<noteq> None) rows)\<rparr>) rows"
proof -
  let ?es = "sort_desc snd (scored rows)"
  have sorted: "sorted_wrt (\<lambda>a b. snd b \<le> snd a) ?es"
    using sorted_sort_key[of "\<lambda>e. - snd e" "scored rows"] by (simp add: sorted_map)
  have dist: "distinct (map fst ?es)"
    using scored_distinct[OF assms] by (simp add: distinct_map)
  have rank: "obj_get (assign_ranks 0 None ?es []) (at_sessionId r) = map_option (\<lambda>x. Suc (above x (scored rows))) (at_overallScore r)"
    if r: "r \<in> set rows" for r
  proof (cases "at_overallScore r")
    case None
    have "at_sessionId r \<notin> fst ` set ?es"
    proof
      assume "at_sessionId r \<in> fst ` set ?es"
      then obtain x where "(at_sessionId r, x) \<in> set (scored rows)" by force
      then obtain r' where r': "r' \<in> set rows" "at_sessionId r' = at_sessionId r" "at_overallScore r' = Some x"
        unfolding scored_mem by force
      have "inj_on at_sessionId (set rows)" using assms by (simp only: distinct_map)
      then have "r' = r" by (rule inj_onD[OF _ r'(2,1) r])
      with r'(3) None show False by simp
    qed
    with None show ?thesis by (simp add: assign_ranks_outside)
  next
    case (Some x)
    have "(at_sessionId r, x) \<in> set (scored rows)"
      unfolding scored_mem by (rule image_eqI[OF _ r]) (simp add: Some)
    then have "(at_sessionId r, x) \<in> set ([] @ ?es)" by simp
    from assign_ranks_counts[of "[]" ?es, OF _ _ _ _ this] sorted dist Some show ?thesis
      by (simp add: above_sort)
  qed
  have size: "length ?es = length (filter (\<lambda>r. at_overallScore r \<noteq> None) rows)"
  proof -
    have "length (scored rows) = length (filter (\<lambda>r. at_overallScore r \<noteq> None) rows)"
      by (induction rows) (auto simp: scored_Cons split: option.splits)
    then show ?thesis by simp
  qed
  show ?thesis
    unfolding rankByScore_def Let_def scored_def[symmetric] size
    by (rule map_cong[OF refl]) (simp add: rank scored_above)
qed

text \<open>Three attempts, two of them level.\<close>

definition sample_attempt :: "string \<Rightarrow> real option \<Rightarrow> attempt_item" where
  "sample_attempt i score = \<lparr>at_sessionId = i, at_assessmentId = ''a'', at_candidateId = ''c'', at_candidateName = ''C'',
     at_candidateEmail = ''c@x.org'', at_source = By_recruiter, at_status = SESS_COMPLETED,
     at_timing = attemptTiming sample_session None, at_questionsAnswered = 2, at_overallScore = score, at_abilityScore = score,
     at_behavioralScore = None, at_hiringRecommendation = None, at_violationCount = 0, at_review = None\<rparr>"

theorem standing_counts_who_did_better_witness:
  "map at_rank (rankByScore [sample_attempt ''x'' (Some 40), sample_attempt ''y'' None, sample_attempt ''z'' (Some 70), sample_attempt ''w'' (Some 70)]) =
     [Some 3, None, Some 1, Some 1]"
  by (subst standing_counts_who_did_better) (simp_all add: sample_attempt_def attempt_item.extend_def)

subsection \<open>Generating\<close>

definition evidence :: "desk \<Rightarrow> module_entry list \<times> world \<times> user_row list \<times> proctoring_log list \<times> (string \<times> string) list \<times>
    review_row list \<times> message_row list" where
  "evidence d = (dk_modules d, dk_world d, ac_users (dk_accounts d), dk_logs d, dk_createdBy d, dk_reviews d, dk_messages d)"

lemma same_evidence:
  assumes "evidence d' = evidence d"
  shows "join_session d' = join_session d" and "report_of d' = report_of d" and "completion_recipient d' = completion_recipient d"
    and "dk_world d' = dk_world d"
  using assms
  by (simp_all add: evidence_def join_session_def report_of_def completion_recipient_def fun_eq_iff cong: if_cong option.case_cong)

definition completion_mail :: "loaded_session \<Rightarrow> user_row \<Rightarrow> mail_job" where
  "completion_mail ld u = Completed_mail (us_email u) (us_fullName u) (us_fullName (ld_candidate ld))
     (as_title (ld_assessment ld)) (''/admin/reports/'' @ sr_id (ld_session ld))"

lemma find_upserted: "List.find (\<lambda>r. rw_sessionId r = rw_sessionId row) (upsert_report row rows) = Some row"
proof (cases "list_ex (\<lambda>r. rw_sessionId r = rw_sessionId row) rows")
  case True
  then show ?thesis unfolding upsert_report_def if_P[OF True] update_rows_def by (induction rows) auto
next
  case False
  then show ?thesis unfolding upsert_report_def if_not_P[OF False] by (induction rows) auto
qed

lemma upsert_keys:
  "map rw_sessionId (upsert_report row rows) =
     (if rw_sessionId row \<in> rw_sessionId ` set rows then map rw_sessionId rows else map rw_sessionId rows @ [rw_sessionId row])"
  by (auto simp: upsert_report_def update_rows_def list_ex_iff intro: rev_image_eqI)

definition generated :: "string \<Rightarrow> desk \<Rightarrow> report_row \<Rightarrow> desk \<Rightarrow> bool" where
  "generated i d r d' \<longleftrightarrow> evidence d' = evidence d \<and> dk_reports d' = upsert_report r (dk_reports d) \<and>
     (\<exists>s ld now. List.find (\<lambda>s. sr_id s = i) (w_sessions (dk_world d)) = Some s \<and> join_session d s = Some ld \<and>
        r = report_row_of i (report_of d ld) now \<and>
        (ac_mailDown (dk_accounts d) = (\<lambda>_. False) \<longrightarrow> ac_mailDown (dk_accounts d') = (\<lambda>_. False) \<and>
          ac_mail (dk_accounts d') = ac_mail (dk_accounts d) @
            (case completion_recipient d (ld_assessment ld) of None \<Rightarrow> [] | Some u \<Rightarrow> [completion_mail ld u])))"

definition cannot_load :: "string \<Rightarrow> desk \<Rightarrow> bool" where
  "cannot_load i d \<longleftrightarrow> Option.bind (List.find (\<lambda>s. sr_id s = i) (w_sessions (dk_world d))) (join_session d) = None"

lemma notifyCompletion_wp:
  assumes "evidence d = evidence d0"
  shows "wp (notifyCompletion ld) (\<lambda>_ d'. evidence d' = evidence d0 \<and> dk_reports d' = dk_reports d \<and>
     (ac_mailDown (dk_accounts d) = (\<lambda>_. False) \<longrightarrow> ac_mailDown (dk_accounts d') = (\<lambda>_. False) \<and>
        ac_mail (dk_accounts d') = ac_mail (dk_accounts d) @
          (case completion_recipient d0 (ld_assessment ld) of None \<Rightarrow> [] | Some u \<Rightarrow> [completion_mail ld u]))) E d"
  using assms same_evidence(3)[OF assms]
  by (auto simp: notifyCompletion_def wp_simps evidence_def Let_def completion_mail_def split: option.split)

lemma generate_wp: "wp (generate i) (generated i d) (\<lambda>_ d'. cannot_load i d) d"
  unfolding generate_def loadUnscoped_def load_where_def wp_bind wp_then wp_reading wp_expecting wp_on_accounts wp_updating
    prod.case wp_clock_now
proof (simp only: simp_thms option.case split: option.split, intro conjI allI impI)
  fix s ld
  assume found: "List.find (\<lambda>s. sr_id s = i) (w_sessions (dk_world d)) = Some s" "join_session d s = Some ld"
  let ?now = "ac_clock (dk_accounts d) 0" and ?r = "report_row_of i (report_of d ld) (ac_clock (dk_accounts d) 0)"
  let ?d = "d\<lparr>dk_accounts := (dk_accounts d)\<lparr>ac_clock := \<lambda>n. ac_clock (dk_accounts d) (Suc n)\<rparr>\<rparr>"
  have r: "rw_sessionId ?r = i" by (simp add: report_row_of_def)
  show "wp (notifyCompletion ld)
     (\<lambda>_ d'. (List.find (\<lambda>r. rw_sessionId r = i) (dk_reports d') = None \<longrightarrow> cannot_load i d) \<and>
        (\<forall>y. List.find (\<lambda>r. rw_sessionId r = i) (dk_reports d') = Some y \<longrightarrow> generated i d y d'))
     (\<lambda>_ d'. cannot_load i d) (?d\<lparr>dk_reports := upsert_report ?r (dk_reports ?d)\<rparr>)"
  proof (rule wp_mono[OF notifyCompletion_wp[of _ d]], goal_cases)
    case (2 u d')
    have "List.find (\<lambda>r. rw_sessionId r = i) (upsert_report ?r (dk_reports d)) = Some ?r"
      using find_upserted[of ?r] unfolding r .
    with 2 found show ?case by (auto simp: generated_def)
  qed (simp_all add: evidence_def)
qed (simp_all add: cannot_load_def)

lemma generate_runs:
  assumes "\<not> cannot_load i d"
  obtains r where "generate i d = (Inr r, snd (generate i d))" and "generated i d r (snd (generate i d))"
  using generate_wp[of i d] assms by (cases "generate i d"; cases "fst (generate i d)") (auto simp: wp_def)

lemma sample_loads: "\<not> cannot_load ''s'' sample_desk"
  by (simp add: cannot_load_def join_session_def sample_desk_def account_samples world_samples)

lemma upsert_twice: "rw_sessionId a = rw_sessionId b \<Longrightarrow> upsert_report a (upsert_report b rows) = upsert_report a rows"
proof (cases "list_ex (\<lambda>r. rw_sessionId r = rw_sessionId b) rows")
  case True
  then have "list_ex (\<lambda>r. rw_sessionId r = rw_sessionId b) (update_rows (\<lambda>r. rw_sessionId r = rw_sessionId b) (\<lambda>_. b) rows)"
    by (induction rows) (auto simp: update_rows_def)
  moreover assume "rw_sessionId a = rw_sessionId b"
  ultimately show ?thesis using True by (simp add: upsert_report_def update_rows_def)
next
  case False
  then have "map (\<lambda>r. if rw_sessionId r = rw_sessionId b then x else r) rows = rows" for x
    by (intro map_idI) (simp add: list_ex_iff)
  moreover assume "rw_sessionId a = rw_sessionId b"
  ultimately show ?thesis using False by (simp add: upsert_report_def update_rows_def)
qed

text \<open>Generating a report again stores the same report and mails again: the row computed
  twice from the same evidence differs only in its time stamp, there is one row per
  session, and neither the answers nor what the team decided is touched; but the owner of
  the requisition is notified each time, so the job the queue retries and the report a
  recruiter recomputes both announce the attempt anew, although the method is documented
  as idempotent.\<close>

theorem generating_again_stores_the_same_and_mails_again:
  assumes "generate i d = (Inr r, d1)" and "generate i d1 = (Inr r', d2)"
    and "ac_mailDown (dk_accounts d) = (\<lambda>_. False)" and "distinct (map rw_sessionId (dk_reports d))"
  shows "r'\<lparr>rw_generatedAt := rw_generatedAt r\<rparr> = r \<and> dk_reports d2 = upsert_report r' (dk_reports d) \<and>
    distinct (map rw_sessionId (dk_reports d2)) \<and> dk_world d2 = dk_world d \<and> dk_reviews d2 = dk_reviews d \<and>
    (\<exists>s ld mails. List.find (\<lambda>s. sr_id s = i) (w_sessions (dk_world d)) = Some s \<and> join_session d s = Some ld \<and>
      mails = (case completion_recipient d (ld_assessment ld) of None \<Rightarrow> [] | Some u \<Rightarrow> [completion_mail ld u]) \<and>
      ac_mail (dk_accounts d2) = ac_mail (dk_accounts d) @ mails @ mails)"
proof -
  have first: "generated i d r d1" and second: "generated i d1 r' d2"
    using wp_result[OF assms(1) generate_wp] wp_result[OF assms(2) generate_wp] .
  then have ev: "evidence d1 = evidence d" "evidence d2 = evidence d" by (simp_all add: generated_def)
  from first obtain s ld now where one: "List.find (\<lambda>s. sr_id s = i) (w_sessions (dk_world d)) = Some s" "join_session d s = Some ld"
      "r = report_row_of i (report_of d ld) now" "dk_reports d1 = upsert_report r (dk_reports d)"
      "ac_mailDown (dk_accounts d1) = (\<lambda>_. False)"
      "ac_mail (dk_accounts d1) = ac_mail (dk_accounts d) @
        (case completion_recipient d (ld_assessment ld) of None \<Rightarrow> [] | Some u \<Rightarrow> [completion_mail ld u])"
    using assms(3) unfolding generated_def by blast
  from second obtain now' where two: "r' = report_row_of i (report_of d ld) now'" "dk_reports d2 = upsert_report r' (dk_reports d1)"
      "ac_mail (dk_accounts d2) = ac_mail (dk_accounts d1) @
        (case completion_recipient d (ld_assessment ld) of None \<Rightarrow> [] | Some u \<Rightarrow> [completion_mail ld u])"
    unfolding generated_def same_evidence[OF ev(1)] using one(1,2,5) by auto
  have key: "rw_sessionId r' = i" "rw_sessionId r = i" by (simp_all add: two(1) one(3) report_row_of_def)
  then have reports: "dk_reports d2 = upsert_report r' (dk_reports d)" by (simp add: two(2) one(4) upsert_twice)
  have "distinct (map rw_sessionId (dk_reports d2))" unfolding reports upsert_keys using assms(4) by (simp split: if_split)
  moreover have "r'\<lparr>rw_generatedAt := rw_generatedAt r\<rparr> = r" by (simp add: two(1) one(3) report_row_of_def)
  ultimately show ?thesis
    using reports same_evidence(4)[OF ev(2)] ev(2) one(1,2,6) two(3) by (auto simp: evidence_def)
qed

theorem generating_again_stores_the_same_and_mails_again_witness:
  "\<exists>r r'. generate ''s'' sample_desk = (Inr r, snd (generate ''s'' sample_desk)) \<and>
     fst (generate ''s'' (snd (generate ''s'' sample_desk))) = Inr r' \<and> r'\<lparr>rw_generatedAt := rw_generatedAt r\<rparr> = r"
proof -
  let ?d1 = "snd (generate ''s'' sample_desk)"
  obtain r where first: "generate ''s'' sample_desk = (Inr r, ?d1)" "generated ''s'' sample_desk r ?d1"
    by (rule generate_runs[OF sample_loads])
  then have "\<not> cannot_load ''s'' ?d1"
    using sample_loads same_evidence[of ?d1 sample_desk] by (simp add: cannot_load_def generated_def)
  then obtain r' where second: "generate ''s'' ?d1 = (Inr r', snd (generate ''s'' ?d1))"
    by (rule generate_runs)
  note runs = first(1) second
  have "ac_mailDown (dk_accounts sample_desk) = (\<lambda>_. False)" "distinct (map rw_sessionId (dk_reports sample_desk))"
    by (simp_all add: sample_desk_def sample_accounts_def)
  from generating_again_stores_the_same_and_mails_again[OF runs this] have "r'\<lparr>rw_generatedAt := rw_generatedAt r\<rparr> = r" by (rule conjunct1)
  note facts = runs(1) arg_cong[OF runs(2), of fst, unfolded fst_conv] this
  show ?thesis by (rule exI[of _ r], rule exI[of _ r']) (intro conjI facts)
qed

subsection \<open>Scales\<close>

definition stored_on_scale :: "module_result_row list \<Rightarrow> bool" where
  "stored_on_scale results \<longleftrightarrow> (\<forall>r\<in>set results. \<forall>scores. mr_traitScores r = Some scores \<longrightarrow>
     (\<forall>(k, t)\<in>set scores. 0 \<le> ts_score t \<and> ts_score t \<le> 100))"

lemma round1_lower: "0 \<le> x \<Longrightarrow> 0 \<le> round1 x" and round1_upper: "x \<le> 100 \<Longrightarrow> round1 x \<le> 100"
  using round1_mono[of 0 x] round1_mono[of x 100] by simp_all

lemma buildTraits_on_scale:
  assumes "\<And>scores k t. mr_traitScores r = Some scores \<Longrightarrow> (k, t) \<in> set scores \<Longrightarrow> 0 \<le> ts_score t \<and> ts_score t \<le> 100"
    and "rt \<in> set (fst (buildTraits r m))"
  shows "0 \<le> rt_score rt \<and> rt_score rt \<le> 100"
proof (cases "mr_traitScores r")
  case None
  with assms(2) show ?thesis by (simp add: buildTraits_def)
next
  case (Some scores)
  have raw: "0 \<le> or_else (map_option ts_score (obj_get scores k)) 50 \<and> or_else (map_option ts_score (obj_get scores k)) 50 \<le> 100" for k
    using assms(1)[OF Some map_of_SomeD, of k] by (cases "obj_get scores k") simp_all
  show ?thesis
    using assms(2) assms(1)[OF Some] raw
    by (auto simp: buildTraits_def Some Let_def split: if_splits intro!: round1_lower round1_upper)
qed

lemma summaries_on_scale:
  assumes "stored_on_scale (w_results w)"
  shows "modules_on_scale (buildModuleSummaries catalogue w s)"
proof -
  have score: "0 \<le> x \<and> x \<le> 100" if "mu_score (module_summary_of cs chance p) = Some x" for cs chance p x
    using that normaliseAbility_range by (auto simp: module_summary_of_def Let_def split: prod.splits if_splits)
  have traits: "mu_traits (module_summary_of cs chance (r, m)) = fst (buildTraits r m)" for cs chance r m
    by (simp add: module_summary_of_def Let_def split: prod.split)
  have stored: "fst p \<in> set rs" if "p \<in> set (List.map_filter (with_entry catalogue) (ordered_results cs rs))" for p cs rs
    using that by (auto simp: set_map_filter with_entry_def ordered_results_def dest!: find_Some_id)
  show ?thesis
    unfolding modules_on_scale_def buildModuleSummaries_def Let_def
  proof (intro ballI conjI allI impI, goal_cases)
    case (1 su x)
    then show ?case using score by auto
  next
    case (2 su x)
    then show ?case using score by auto
  next
    case (3 su rt)
    then obtain r m cs chance where "r \<in> set (w_results w)" "rt \<in> set (fst (buildTraits r m))"
      using stored by (force simp: traits)
    then show ?case using buildTraits_on_scale[of r rt m] assms by (force simp: stored_on_scale_def)
  next
    case (4 su rt)
    then obtain r m cs chance where "r \<in> set (w_results w)" "rt \<in> set (fst (buildTraits r m))"
      using stored by (force simp: traits)
    then show ?case using buildTraits_on_scale[of r rt m] assms by (force simp: stored_on_scale_def)
  qed
qed

lemma halves_on_scale:
  assumes "modules_on_scale (ri_modules input)"
  shows "br_abilityScore (buildReport input) = Some a \<Longrightarrow> 0 \<le> a \<and> a \<le> 100"
    and "br_behavioralScore (buildReport input) = Some b \<Longrightarrow> 0 \<le> b \<and> b \<le> 100"
proof -
  assume "br_abilityScore (buildReport input) = Some a"
  then show "0 \<le> a \<and> a \<le> 100" using objective_mean_range[OF assms] by (simp add: buildReport_def Let_def)
next
  assume "br_behavioralScore (buildReport input) = Some b"
  then have index: "ba_index (buildBehavioralProfiles (concat (map mu_traits (ri_modules input)))) = Some b"
    by (simp add: buildReport_def Let_def)
  show "0 \<le> b \<and> b \<le> 100"
    by (rule index_range[OF _ index]) (use assms in \<open>auto simp: modules_on_scale_def\<close>)
qed

text \<open>The whole way from stored results to a stored report stays on the 0-100 scale: when
  the trait scores the candidate's modules were closed with are on it, so are the headline
  and both halves of the report generated from them, whatever the abilities, the weights
  and the labels that were flipped, and the headline is missing only when both halves are.\<close>

theorem generated_report_on_scale:
  assumes "generate i d = (Inr r, d')" and "stored_on_scale (w_results (dk_world d))"
  shows "(\<forall>x\<in>set_option (rw_abilityScore r) \<union> set_option (rw_behavioralScore r). 0 \<le> x \<and> x \<le> 100) \<and>
    (case rw_overallScore r of
      None \<Rightarrow> rw_abilityScore r = None \<and> rw_behavioralScore r = None \<and> rw_hiringRecommendation r = None
    | Some s \<Rightarrow> 0 \<le> s \<and> s \<le> 100 \<and> rw_hiringRecommendation r \<noteq> None \<and>
        (case (rw_abilityScore r, rw_behavioralScore r) of
           (Some a, Some b) \<Rightarrow> round1 (min a b) \<le> s \<and> s \<le> round1 (max a b)
         | (Some a, None) \<Rightarrow> s = round1 a
         | (None, Some b) \<Rightarrow> s = round1 b
         | (None, None) \<Rightarrow> False))"
proof -
  from wp_result[OF assms(1) generate_wp] obtain ld now where r: "r = report_row_of i (report_of d ld) now"
    by (auto simp: generated_def)
  have "modules_on_scale (buildModuleSummaries (dk_modules d) (dk_world d) (ld_session ld))"
    by (rule summaries_on_scale[OF assms(2)])
  note halves = halves_on_scale[of "\<lparr>ri_candidateName = us_fullName (ld_candidate ld), ri_assessmentTitle = as_title (ld_assessment ld),
       ri_sessionStatus = sr_status (ld_session ld), ri_modules = buildModuleSummaries (dk_modules d) (dk_world d) (ld_session ld),
       ri_violations = countViolations (dk_logs d) (sr_id (ld_session ld))\<rparr>", simplified, OF this, folded report_of_def]
    and scale = scores_on_scale[of "\<lparr>ri_candidateName = us_fullName (ld_candidate ld), ri_assessmentTitle = as_title (ld_assessment ld),
       ri_sessionStatus = sr_status (ld_session ld), ri_modules = buildModuleSummaries (dk_modules d) (dk_world d) (ld_session ld),
       ri_violations = countViolations (dk_logs d) (sr_id (ld_session ld))\<rparr>", simplified, OF this, folded report_of_def]
  have "br_hiringRecommendation (report_of d ld) = None \<longleftrightarrow> br_overallScore (report_of d ld) = None"
    by (simp add: report_of_def buildReport_def Let_def recommend_def split: option.split)
  with scale halves show ?thesis
    by (auto simp: r report_row_of_def split: option.splits)
qed

theorem generated_report_on_scale_witness:
  "\<exists>r. fst (generate ''s'' sample_desk) = Inr r \<and> (case rw_overallScore r of None \<Rightarrow> True | Some s \<Rightarrow> 0 \<le> s \<and> s \<le> 100)"
proof -
  obtain r where run: "generate ''s'' sample_desk = (Inr r, snd (generate ''s'' sample_desk))"
    by (rule generate_runs[OF sample_loads])
  have "stored_on_scale (w_results (dk_world sample_desk))"
    by (simp add: stored_on_scale_def sample_desk_def sample_accounts_def world_samples)
  from generated_report_on_scale[OF run this] have "case rw_overallScore r of None \<Rightarrow> True | Some s \<Rightarrow> 0 \<le> s \<and> s \<le> 100"
    by (cases "rw_overallScore r") simp_all
  note facts = arg_cong[OF run, of fst, unfolded fst_conv] this
  show ?thesis by (rule exI[of _ r]) (intro conjI facts)
qed

end
