(* ===== verification/Candidate_Properties.thy ===== *)
theory Candidate_Properties
  imports Candidate_View Standing_Properties
begin

section \<open>The properties of the candidate's view\<close>

text \<open>
  The view is a function of participation alone, the status bar has one place, and the
  practice questions are never the questions of the test.
\<close>

subsection \<open>Participation, never performance\<close>

text \<open>A desk with everything that says how the candidate did erased.\<close>

definition unscored_response :: "response_row \<Rightarrow> response_row" where
  "unscored_response r = r\<lparr>rs_questionId := '''', rs_selectedOption := map_option (\<lambda>_. '''') (rs_selectedOption r),
     rs_selectedOptions := map_option (\<lambda>_. []) (rs_selectedOptions r), rs_isCorrect := None,
     rs_abilityEstimateAfter := None, rs_questionDifficultyAtServe := None\<rparr>"

definition unscored_result :: "module_result_row \<Rightarrow> module_result_row" where
  "unscored_result r = r\<lparr>mr_abilityScore := None, mr_traitScores := None, mr_probeResults := None,
     mr_questionsCorrect := 0, mr_stopReason := None\<rparr>"

definition unscored_report :: "report_row \<Rightarrow> report_row" where
  "unscored_report r = r\<lparr>rw_summary := [], rw_strengths := [], rw_weaknesses := [], rw_hiringRecommendation := None,
     rw_overallScore := None, rw_abilityScore := None, rw_behavioralScore := None\<rparr>"

definition unscored_world :: "world \<Rightarrow> world" where
  "unscored_world w = w\<lparr>w_responses := map unscored_response (w_responses w), w_results := map unscored_result (w_results w),
     w_bank := \<lparr>bk_questions = [], bk_pool = []\<rparr>, w_redis := Map.empty\<rparr>"

definition without_performance :: "desk \<Rightarrow> desk" where
  "without_performance d = d\<lparr>dk_accounts := set_db unscored_world (dk_accounts d),
     dk_reports := map unscored_report (dk_reports d), dk_reviews := [], dk_messages := [], dk_logs := []\<rparr>"

lemma unscored_fields [simp]:
  "rs_sessionId (unscored_response r) = rs_sessionId r" "rs_moduleId (unscored_response r) = rs_moduleId r"
  "rs_sequenceNumber (unscored_response r) = rs_sequenceNumber r" "rs_timeTakenMs (unscored_response r) = rs_timeTakenMs r"
  "row_answered (unscored_response r) = row_answered r"
  "mr_sessionId (unscored_result m) = mr_sessionId m" "mr_moduleId (unscored_result m) = mr_moduleId m"
  "mr_questionsAnswered (unscored_result m) = mr_questionsAnswered m" "mr_startedAt (unscored_result m) = mr_startedAt m"
  "mr_completedAt (unscored_result m) = mr_completedAt m" "rw_sessionId (unscored_report p) = rw_sessionId p"
  "rw_generatedAt (unscored_report p) = rw_generatedAt p"
  by (simp_all add: unscored_response_def unscored_result_def unscored_report_def row_answered_def)

lemma filter_map_same: "(\<And>x. P (f x) = P x) \<Longrightarrow> filter P (map f xs) = map f (filter P xs)"
  by (simp add: filter_map comp_def)

lemma find_map_same: "(\<And>x. P (f x) = P x) \<Longrightarrow> List.find P (map f xs) = map_option f (List.find P xs)"
  by (induction xs) simp_all

lemma insort_key_map: "(\<And>x. k (f x) = k x) \<Longrightarrow> insort_key k (f x) (map f xs) = map f (insort_key k x xs)"
  by (induction xs) simp_all

lemma sort_key_map: "(\<And>x. k (f x) = k x) \<Longrightarrow> sort_key k (map f xs) = map f (sort_key k xs)"
  by (induction xs) (simp_all add: insort_key_map)

lemma foldl_plus_map: "(\<And>x. g (f x) = g x) \<Longrightarrow> foldl (\<lambda>t r. t + g r) a (map f xs) = foldl (\<lambda>t r. t + g r) (a :: int) xs"
  by (simp add: foldl_map)

lemma secondsOf_unscored [simp]: "secondsOf (map unscored_response rs) = secondsOf rs"
  by (simp add: secondsOf_def foldl_plus_map[of rs_timeTakenMs])

lemma buildAttempt_unscored: "buildAttempt catalogue (unscored_world w) = buildAttempt catalogue w"
  by (rule ext) (simp add: buildAttempt_def unscored_world_def Let_def filter_map_same sort_key_map comp_def)

lemma own_invitations_unscored: "own_invitations (without_performance d) c = own_invitations d c"
  by (simp add: own_invitations_def without_performance_def set_db_def unscored_world_def cong: option.case_cong)

lemma candidate_view_unscored: "candidate_view_of (without_performance d) = candidate_view_of d"
  by (simp add: fun_eq_iff candidate_view_of_def assessment_branding_def without_performance_def set_db_def)

text \<open>C33: A candidate sees participation and never performance: what the page of the own
  attempt and the list of invitations show is the same on a desk from which every score,
  chosen option, correctness, difficulty, ability, trait, stop reason, question, report
  content, recommendation, review, message and proctoring event has been erased.\<close>

theorem candidate_sees_participation_only:
  "fst (attemptForCandidate i c (without_performance d)) = fst (attemptForCandidate i c d) \<and>
   fst (listForCandidate c (without_performance d)) = fst (listForCandidate c d)"
proof
  have world: "dk_world (without_performance d) = unscored_world (dk_world d)" "dk_modules (without_performance d) = dk_modules d"
    and clock: "ac_clock (dk_accounts (without_performance d)) = ac_clock (dk_accounts d)"
    and reports: "dk_reports (without_performance d) = map unscored_report (dk_reports d)"
    by (simp_all add: without_performance_def set_db_def)
  have sessions: "w_sessions (unscored_world w) = w_sessions w" for w by (simp add: unscored_world_def)
  have later: "candidate_view_of (d'\<lparr>dk_accounts := (dk_accounts d')\<lparr>ac_clock := f\<rparr>\<rparr>) = candidate_view_of d'"
    "own_invitations (d'\<lparr>dk_accounts := (dk_accounts d')\<lparr>ac_clock := f\<rparr>\<rparr>) = own_invitations d'" for d' f
    by (simp_all add: fun_eq_iff candidate_view_of_def assessment_branding_def own_invitations_def cong: option.case_cong)
  show "fst (listForCandidate c (without_performance d)) = fst (listForCandidate c d)"
    by (simp add: listForCandidate_def bind_p_def on_accounts_def clock_now_def reading_def later clock
        own_invitations_unscored candidate_view_unscored)
  show "fst (attemptForCandidate i c (without_performance d)) = fst (attemptForCandidate i c d)"
  proof (cases "List.find (\<lambda>(v, a). iv_id v = i) (own_invitations d c)")
    case None
    then show ?thesis
      by (simp add: attemptForCandidate_def bind_p_def reading_def expecting_def throw_def own_invitations_unscored)
  next
    case (Some va)
    obtain v a where va: "va = (v, a)" by (cases va)
    let ?session = "List.find (\<lambda>s. sr_invitationId s = iv_id v) (w_sessions (dk_world d))"
    have ready: "Option.bind (Option.bind ?session (\<lambda>s. if sr_submittedAt s = None then None
          else List.find (\<lambda>r. rw_sessionId r = sr_id s) (dk_reports (without_performance d)))) rw_generatedAt =
        Option.bind (Option.bind ?session (\<lambda>s. if sr_submittedAt s = None then None
          else List.find (\<lambda>r. rw_sessionId r = sr_id s) (dk_reports d))) rw_generatedAt"
      by (cases ?session) (simp_all add: reports find_map_same bind_map_option comp_def)
    show ?thesis using Some va ready
      by (simp add: attemptForCandidate_def bind_p_def reading_def expecting_def ret_def own_invitations_unscored
          on_accounts_def clock_now_def later clock candidate_view_unscored world sessions reports buildAttempt_unscored
          del: Option.bind_assoc)
  qed
qed

subsection \<open>The status bar\<close>

lemma lastReached_cases:
  "lastReached x = (if in_reviewReadyAt x \<noteq> None then 3 else if in_submittedAt x \<noteq> None then 2 else if in_startedAt x \<noteq> None then 1 else 0)"
  by (simp add: lastReached_def stage_order_def eval_nat_numeral)

text \<open>The status bar shows one place: exactly one stage is current and it is the furthest
  reached, the stages reached before it are done, and no stage that was not reached is
  done or current; those are stopped exactly when the invitation was withdrawn or lapsed
  before the attempt was submitted, and upcoming otherwise.\<close>

theorem status_bar_shows_one_place:
  "\<exists>n. n < 4 \<and> reachedAt x (stage_order ! n) \<noteq> None \<and> filter (\<lambda>k. reachedAt x (stage_order ! k) \<noteq> None) [Suc n..<4] = [] \<and>
     map sg_key (buildStages x) = stage_order \<and> map sg_at (buildStages x) = map (reachedAt x) stage_order \<and>
     map sg_state (buildStages x) = map (\<lambda>k.
       if reachedAt x (stage_order ! k) = None then (if halted x then Stage_stopped else Stage_upcoming)
       else if k = n then Stage_current else Stage_done) [0..<4]"
proof (intro exI conjI)
  show "lastReached x < 4" by (simp add: lastReached_cases)
  show "reachedAt x (stage_order ! lastReached x) \<noteq> None"
    by (simp add: lastReached_cases stage_order_def eval_nat_numeral)
  show "filter (\<lambda>k. reachedAt x (stage_order ! k) \<noteq> None) [Suc (lastReached x)..<4] = []"
    by (simp add: lastReached_cases stage_order_def upt_rec eval_nat_numeral)
  show "map sg_key (buildStages x) = stage_order" "map sg_at (buildStages x) = map (reachedAt x) stage_order"
    by (simp_all add: buildStages_def stage_order_def)
  show "map sg_state (buildStages x) = map (\<lambda>k.
       if reachedAt x (stage_order ! k) = None then (if halted x then Stage_stopped else Stage_upcoming)
       else if k = lastReached x then Stage_current else Stage_done) [0..<4]"
    by (simp add: buildStages_def stage_order_def upt_rec eval_nat_numeral)
qed

subsection \<open>Practice\<close>

lemma practice_round_conserves:
  "mset (snd (practice_round t qs p)) + mset (concat (fst (practice_round t qs p))) = mset p + mset (concat qs)"
proof (induction t qs p rule: practice_round.induct)
  case (2 t queue qs p)
  then show ?case by (cases queue) (simp_all add: case_prod_beta)
qed simp

lemma practice_round_bound: "length p \<le> t \<Longrightarrow> length (snd (practice_round t qs p)) \<le> t"
proof (induction t qs p rule: practice_round.induct)
  case (2 t queue qs p)
  then show ?case by (cases queue) (simp_all add: case_prod_beta)
qed simp

lemma practice_pick_takes:
  "length p \<le> t \<Longrightarrow> length (practice_pick t qs p) = min t (length p + length (concat qs)) \<and>
     mset (practice_pick t qs p) \<subseteq># mset p + mset (concat qs)"
proof (induction t qs p rule: practice_pick.induct)
  case (1 t qs p)
  show ?case
  proof (cases "length p < t \<and> list_ex (\<lambda>q. q \<noteq> []) qs")
    case True
    let ?r = "practice_round t qs p"
    have all: "mset (snd ?r) + mset (concat (fst ?r)) = mset p + mset (concat qs)" by (rule practice_round_conserves)
    then have "length (snd ?r) + length (concat (fst ?r)) = length p + length (concat qs)"
      by (metis size_mset size_union)
    moreover have "length (snd ?r) \<le> t" using True by (intro practice_round_bound) simp
    ultimately show ?thesis
      using 1(1)[OF True refl, of "fst ?r" "snd ?r"] True all
      by (subst practice_pick.simps, subst practice_pick.simps) (simp add: case_prod_beta)
  next
    case False
    then have "length p = t \<or> concat qs = []" using 1(2) by (auto simp: list_ex_iff concat_eq_Nil_conv)
    then have "length p = min t (length p + length (concat qs))"
      using 1(2) by (elim disjE) (simp_all del: concat_eq_Nil_conv)
    moreover have "practice_pick t qs p = p" using False by (subst practice_pick.simps) (simp only: if_False)
    ultimately show ?thesis by (simp only:) simp
  qed
qed

lemma queue_added:
  "mset (concat (obj_values (obj_set k (or_else (obj_get queues k) [] @ [x]) queues))) = add_mset x (mset (concat (obj_values queues)))"
  by (induction queues) (auto simp: or_else_def)

lemma byModule_rows: "mset (concat (obj_values (byModule rows))) = mset rows"
proof -
  have "mset (concat (obj_values (foldl (\<lambda>queues x. obj_set (q_moduleId (fst x)) (or_else (obj_get queues (q_moduleId (fst x))) [] @ [x]) queues) qs rows))) =
      mset (concat (obj_values qs)) + mset rows" for qs
  proof (induction rows arbitrary: qs)
    case (Cons x rows)
    show ?case by (simp only: foldl_Cons Cons.IH queue_added) simp
  qed simp
  from this[of "[]"] show ?thesis by (simp add: byModule_def)
qed

lemma practice_row_sample:
  assumes "(q, m) \<in> set (practice_rows collation catalogue questions moduleIds g)"
  shows "q \<in> set questions \<and> q_isSample q \<and> q_status q = ACTIVE \<and> q_moduleId q \<in> set moduleIds \<and> visible_to_org questions g q \<and>
    module_entry_of catalogue (q_moduleId q) = Some m"
  using assms by (auto simp: practice_rows_def set_map_filter)

lemma forModules_rows:
  assumes "moduleIds \<noteq> []" and rows: "rows = practice_rows collation catalogue questions moduleIds g"
  shows "\<exists>picked. forModules collation catalogue questions moduleIds g = map practice_view picked \<and>
    length picked = min 3 (length rows) \<and> set picked \<subseteq> set rows"
proof (intro exI conjI)
  let ?picked = "practice_pick PRACTICE_TARGET (obj_values (byModule rows)) []"
  have multi: "mset (concat (obj_values (byModule rows))) = mset rows" by (rule byModule_rows)
  then have size: "length (concat (obj_values (byModule rows))) = length rows" by (rule mset_eq_length)
  have takes: "length ?picked = min PRACTICE_TARGET (length (concat (obj_values (byModule rows))))"
    "mset ?picked \<subseteq># mset (concat (obj_values (byModule rows)))"
    using practice_pick_takes[of "[]" PRACTICE_TARGET "obj_values (byModule rows)"] by simp_all
  show "forModules collation catalogue questions moduleIds g = map practice_view ?picked"
    using assms by (simp add: forModules_def)
  show "length ?picked = min 3 (length rows)" using takes(1) by (simp only: size PRACTICE_TARGET_def)
  show "set ?picked \<subseteq> set rows" using takes(2) set_mset_mono[of "mset ?picked" "mset rows"] by (simp only: multi set_mset_mset)
qed

text \<open>Practice is a rehearsal on the right questions: a candidate is shown three of them,
  or all there are when there are fewer; each is an active sample of a subject of the
  assessment that its organisation may see; and no question the engine selects, in any
  state of any run on this bank, is one that was shown, so practice gives nothing away.\<close>

theorem practice_previews_no_served_question:
  assumes "distinct (map q_id (bk_questions bank))" and "moduleIds \<noteq> []"
    and "p \<in> set (forModules collation catalogue (bk_questions bank) moduleIds g)"
    and "selectNext bank st r = (Some q, r')"
  shows "length (forModules collation catalogue (bk_questions bank) moduleIds g) =
      min 3 (length (practice_rows collation catalogue (bk_questions bank) moduleIds g)) \<and>
    (\<exists>x\<in>set (bk_questions bank). q_id x = pq_id p \<and> q_isSample x \<and> q_status x = ACTIVE \<and>
      q_moduleId x \<in> set moduleIds \<and> visible_to_org (bk_questions bank) g x) \<and>
    q_id q \<noteq> pq_id p"
proof -
  obtain picked where picked: "forModules collation catalogue (bk_questions bank) moduleIds g = map practice_view picked"
    "length picked = min 3 (length (practice_rows collation catalogue (bk_questions bank) moduleIds g))"
    "set picked \<subseteq> set (practice_rows collation catalogue (bk_questions bank) moduleIds g)"
    using forModules_rows[OF assms(2) refl] by blast
  from assms(3) obtain x m where x: "(x, m) \<in> set picked" "p = practice_view (x, m)" by (auto simp: picked(1))
  then have row: "(x, m) \<in> set (practice_rows collation catalogue (bk_questions bank) moduleIds g)" using picked(3) by blast
  note sample = practice_row_sample[OF row]
  have id: "pq_id p = q_id x" by (simp add: x(2) practice_view_def Let_def)
  have q: "q \<in> set (bk_questions bank)" "\<not> q_isSample q"
    using selectNext_eligible[OF assms(1,4)] by (simp_all add: eligible_def question_is_servable_def)
  have "q_id q \<noteq> q_id x" using sample q assms(1) by (auto dest: eq_key_imp_eq_value simp: distinct_map inj_on_def)
  then show ?thesis using sample picked(1,2) id by auto
qed

text \<open>A bank with one question of the test and one of practice.\<close>

definition rehearsal_bank :: bank where
  "rehearsal_bank = \<lparr>bk_questions = [sample_mcq ''q1'' 1000, (sample_mcq ''p1'' 1000)\<lparr>q_isSample := True\<rparr>], bk_pool = []\<rparr>"

theorem practice_previews_no_served_question_witness:
  "\<exists>q r' p. selectNext rehearsal_bank sample_state (\<lambda>_. 1 / 4) = (Some q, r') \<and> q_id q \<noteq> pq_id p \<and>
     forModules (\<lambda>_. 0) [desk_entry] (bk_questions rehearsal_bank) [''m''] ''org'' = [p]"
proof -
  have dist: "distinct (map q_id (bk_questions rehearsal_bank))" by (simp add: rehearsal_bank_def sample_mcq_def)
  have "eligible rehearsal_bank sample_state (sample_mcq ''q1'' 1000)"
    by (simp add: eligible_def visible_to_org_def question_is_servable_def rehearsal_bank_def sample_defs)
  moreover have "bank_typed rehearsal_bank sample_state"
    by (simp add: bank_typed_def usable_def rehearsal_bank_def sample_defs)
  ultimately have "fst (selectNext rehearsal_bank sample_state (\<lambda>_. 1 / 4)) \<noteq> None"
    using selectNext_exhausted[OF dist, of sample_state "\<lambda>_. 1 / 4"] by (auto simp: rehearsal_bank_def)
  then obtain q r' where served: "selectNext rehearsal_bank sample_state (\<lambda>_. 1 / 4) = (Some q, r')"
    by (metis eq_fst_iff option.exhaust)
  have rows: "practice_rows (\<lambda>_. 0) [desk_entry] (bk_questions rehearsal_bank) [''m''] ''org'' =
      [((sample_mcq ''p1'' 1000)\<lparr>q_isSample := True\<rparr>, desk_entry)]"
    by (simp add: practice_rows_def rehearsal_bank_def sample_mcq_def desk_entry_def module_entry_of_def visible_to_org_def)
  obtain p where p: "forModules (\<lambda>_. 0) [desk_entry] (bk_questions rehearsal_bank) [''m''] ''org'' = [p]"
    using forModules_rows[of "[''m'']" _ "\<lambda>_. 0" "[desk_entry]" "bk_questions rehearsal_bank" "''org''"] rows
    by (auto simp: length_Suc_conv)
  then show ?thesis
    using practice_previews_no_served_question[OF dist _ _ served, of "[''m'']" p "\<lambda>_. 0" "[desk_entry]" "''org''"] served by auto
qed

end
