(* ===== verification/Candidate_Screen.thy ===== *)
theory Candidate_Screen
  imports Session_Service
begin

section \<open>The screen a candidate answers on\<close>

text \<open>
  \<open>frontend/src/routes/candidate/TakeAssessment.tsx\<close> with \<open>hooks/useSession.ts\<close> and
  \<open>components/assessment/QuestionCard.tsx\<close> and \<open>RankingQuestion.tsx\<close>, as a machine: the
  step the server last sent, what the candidate has chosen or placed for it, and the calls
  that are under way. A reply replaces the whole step, whichever call it answers; React
  empties the choice when another question comes. Text and layout are left out.
\<close>

datatype session_call =
    Start_call string
  | Current_call string
  | Start_module_call string
  | Answer_call string submit_dto

record screen =
  sc_invitation :: string
  sc_startedFor :: bool
  sc_step :: "session_step option"
  sc_failed :: bool
  sc_loading :: bool
  sc_busy :: bool
  sc_sessionId :: "string option"
  sc_cameraReady :: bool
  sc_selected :: "string option"
  sc_ranked :: "string list"
  sc_calls :: "session_call list"

definition opened_screen :: "string \<Rightarrow> screen" where
  "opened_screen i = \<lparr>sc_invitation = i, sc_startedFor = False, sc_step = None, sc_failed = False, sc_loading = True,
     sc_busy = False, sc_sessionId = None, sc_cameraReady = False, sc_selected = None, sc_ranked = [], sc_calls = []\<rparr>"

fun step_session :: "session_step \<Rightarrow> session_view" where
  "step_session (ModuleIntro v m) = v"
| "step_session (QuestionStep v m q seq answered asked ms) = v"
| "step_session (CompletedStep v) = v"

fun step_question :: "session_step \<Rightarrow> question_view option" where
  "step_question (QuestionStep v m q seq answered asked ms) = Some q"
| "step_question _ = None"

fun is_intro :: "session_step \<Rightarrow> bool" where
  "is_intro (ModuleIntro v m) \<longleftrightarrow> True"
| "is_intro _ \<longleftrightarrow> False"

definition question_shown :: "screen \<Rightarrow> question_view option" where
  "question_shown s = Option.bind (sc_step s) step_question"

definition shown_keys :: "screen \<Rightarrow> string list" where
  "shown_keys s = (case question_shown s of None \<Rightarrow> [] | Some v \<Rightarrow> map fst (qv_options v))"

subsection \<open>Ranking\<close>

definition rank_pool :: "screen \<Rightarrow> string list" where
  "rank_pool s = filter (\<lambda>k. k \<notin> set (sc_ranked s)) (shown_keys s)"

definition rank_complete :: "screen \<Rightarrow> bool" where
  "rank_complete s \<longleftrightarrow> length (sc_ranked s) = length (shown_keys s)"

definition rank_move :: "nat \<Rightarrow> bool \<Rightarrow> string list \<Rightarrow> string list" where
  "rank_move i up ks =
     (if up then (if i = 0 \<or> i \<ge> length ks then ks else ks[i := ks ! (i - 1), i - 1 := ks ! i])
      else (if i + 1 \<ge> length ks then ks else ks[i := ks ! (i + 1), i + 1 := ks ! i]))"

definition is_ranking_shown :: "screen \<Rightarrow> bool" where
  "is_ranking_shown s \<longleftrightarrow> Option.bind (question_shown s) qv_pattern = Some RANKING"

subsection \<open>Calls\<close>

text \<open>\<open>apply\<close>: the card keeps its state only while the same question stays.\<close>

definition apply_step :: "session_step \<Rightarrow> screen \<Rightarrow> screen" where
  "apply_step next s =
     (let same = map_option qv_id (step_question next) = map_option qv_id (question_shown s) \<and> step_question next \<noteq> None
      in s\<lparr>sc_sessionId := Some (vw_sessionId (step_session next)), sc_step := Some next, sc_failed := False,
           sc_selected := (if same then sc_selected s else None), sc_ranked := (if same then sc_ranked s else [])\<rparr>)"

definition run_call :: "(string \<Rightarrow> session_call) \<Rightarrow> screen \<Rightarrow> screen" where
  "run_call call s =
     (case sc_sessionId s of None \<Rightarrow> s | Some i \<Rightarrow> s\<lparr>sc_busy := True, sc_calls := sc_calls s @ [call i]\<rparr>)"

fun is_start :: "session_call \<Rightarrow> bool" where
  "is_start (Start_call i) \<longleftrightarrow> True"
| "is_start _ \<longleftrightarrow> False"

definition settled_call :: "nat \<Rightarrow> screen \<Rightarrow> screen" where
  "settled_call n s =
     (let c = sc_calls s ! n; s' = s\<lparr>sc_calls := take n (sc_calls s) @ drop (Suc n) (sc_calls s)\<rparr>
      in if is_start c then s'\<lparr>sc_loading := False\<rparr> else s'\<lparr>sc_busy := False\<rparr>)"

definition failed_call :: "nat \<Rightarrow> screen \<Rightarrow> screen" where
  "failed_call n s =
     settled_call n (if is_start (sc_calls s ! n) then s\<lparr>sc_startedFor := False, sc_failed := True\<rparr> else s\<lparr>sc_failed := True\<rparr>)"

subsection \<open>Events\<close>

text \<open>What the form on screen hands over when it is submitted.\<close>

definition submission :: "screen \<Rightarrow> submit_dto option" where
  "submission s =
     (case question_shown s of
        None \<Rightarrow> None
      | Some v \<Rightarrow>
          if sc_busy s then None
          else if is_ranking_shown s
          then (if rank_complete s
                then Some \<lparr>dto_questionId = qv_id v, dto_selectedOption = None, dto_selectedOptions = Some (sc_ranked s)\<rparr> else None)
          else map_option (\<lambda>k. \<lparr>dto_questionId = qv_id v, dto_selectedOption = Some k, dto_selectedOptions = None\<rparr>)
                 (truthy (sc_selected s)))"

datatype screen_event =
    Mounted
  | Reply nat session_step
  | Failed nat
  | Camera bool
  | Select string
  | Place string
  | Unplace string
  | Move nat bool
  | Start_over
  | Press_submit
  | Press_begin
  | Timer_expired

fun screen_step :: "screen_event \<Rightarrow> screen \<Rightarrow> screen" where
  "screen_step Mounted s =
     (if sc_invitation s = '''' \<or> sc_startedFor s then s
      else s\<lparr>sc_startedFor := True, sc_calls := sc_calls s @ [Start_call (sc_invitation s)]\<rparr>)"
| "screen_step (Reply n next) s = (if n < length (sc_calls s) then apply_step next (settled_call n s) else s)"
| "screen_step (Failed n) s = (if n < length (sc_calls s) then failed_call n s else s)"
| "screen_step (Camera on) s = s\<lparr>sc_cameraReady := on\<rparr>"
| "screen_step (Select k) s =
     (if k \<in> set (shown_keys s) \<and> \<not> is_ranking_shown s \<and> \<not> sc_busy s then s\<lparr>sc_selected := Some k\<rparr> else s)"
| "screen_step (Place k) s =
     (if k \<in> set (rank_pool s) \<and> is_ranking_shown s \<and> \<not> sc_busy s then s\<lparr>sc_ranked := sc_ranked s @ [k]\<rparr> else s)"
| "screen_step (Unplace k) s =
     (if is_ranking_shown s \<and> \<not> sc_busy s then s\<lparr>sc_ranked := filter (\<lambda>j. j \<noteq> k) (sc_ranked s)\<rparr> else s)"
| "screen_step (Move i up) s =
     (if is_ranking_shown s \<and> \<not> sc_busy s then s\<lparr>sc_ranked := rank_move i up (sc_ranked s)\<rparr> else s)"
| "screen_step Start_over s = (if is_ranking_shown s \<and> \<not> sc_busy s then s\<lparr>sc_ranked := []\<rparr> else s)"
| "screen_step Press_submit s =
     (case submission s of None \<Rightarrow> s | Some dto \<Rightarrow> run_call (\<lambda>i. Answer_call i dto) s)"
| "screen_step Press_begin s =
     (if (case sc_step s of None \<Rightarrow> False | Some next \<Rightarrow> is_intro next) \<and> sc_cameraReady s \<and> \<not> sc_busy s
      then run_call Start_module_call s else s)"
| "screen_step Timer_expired s = (if question_shown s \<noteq> None then run_call Current_call s else s)"

definition screen_after :: "string \<Rightarrow> screen_event list \<Rightarrow> screen" where
  "screen_after i events = fold screen_step events (opened_screen i)"

end
