(* ===== verification/Candidate_Screen_Properties.thy ===== *)
theory Candidate_Screen_Properties
  imports Candidate_Screen Question_Bank_Properties
begin

section \<open>What the screen can send\<close>

text \<open>
  Every state of the screen keeps a choice among the options it shows, and a ranking that
  places none of them twice; so what it sends is what the engine accepts, and everything the
  engine accepts can be sent.
\<close>

subsection \<open>The options stay those of the question\<close>

text \<open>The questions a list of events brings.\<close>

fun replied :: "screen_event \<Rightarrow> question_view option" where
  "replied (Reply n reply) = step_question reply"
| "replied _ = None"

definition brought :: "screen_event list \<Rightarrow> question_view set" where
  "brought events = {v. Some v \<in> replied ` set events}"

definition one_view_each :: "question_view set \<Rightarrow> bool" where
  "one_view_each V \<longleftrightarrow> (\<forall>v\<in>V. \<forall>u\<in>V. qv_id v = qv_id u \<longrightarrow> map fst (qv_options v) = map fst (qv_options u))"

definition screen_ok :: "question_view set \<Rightarrow> screen \<Rightarrow> bool" where
  "screen_ok V s \<longleftrightarrow>
     (\<forall>v. question_shown s = Some v \<longrightarrow> v \<in> V) \<and>
     (\<forall>k. sc_selected s = Some k \<longrightarrow> k \<in> set (shown_keys s)) \<and>
     distinct (sc_ranked s) \<and> set (sc_ranked s) \<subseteq> set (shown_keys s)"

lemma shown_of_step:
  assumes "sc_step s' = sc_step s"
  shows "question_shown s' = question_shown s" "shown_keys s' = shown_keys s" "is_ranking_shown s' = is_ranking_shown s"
  using assms by (simp_all add: question_shown_def shown_keys_def is_ranking_shown_def)

lemma shown_of_choice [simp]:
  "question_shown (s\<lparr>sc_ranked := ks\<rparr>) = question_shown s" "shown_keys (s\<lparr>sc_ranked := ks\<rparr>) = shown_keys s"
  "is_ranking_shown (s\<lparr>sc_ranked := ks\<rparr>) = is_ranking_shown s"
  "question_shown (s\<lparr>sc_selected := k\<rparr>) = question_shown s" "shown_keys (s\<lparr>sc_selected := k\<rparr>) = shown_keys s"
  "is_ranking_shown (s\<lparr>sc_selected := k\<rparr>) = is_ranking_shown s"
  by (simp_all add: question_shown_def shown_keys_def is_ranking_shown_def)

lemma screen_ok_same:
  assumes "screen_ok V s" "sc_step s' = sc_step s" "sc_selected s' = sc_selected s" "sc_ranked s' = sc_ranked s"
  shows "screen_ok V s'"
  using assms(1) unfolding screen_ok_def shown_of_step[OF assms(2)] assms(3,4) .

lemma call_keeps [simp]:
  "sc_step (run_call c s) = sc_step s" "sc_selected (run_call c s) = sc_selected s" "sc_ranked (run_call c s) = sc_ranked s"
  "sc_step (settled_call n s) = sc_step s" "sc_selected (settled_call n s) = sc_selected s" "sc_ranked (settled_call n s) = sc_ranked s"
  "sc_step (failed_call n s) = sc_step s" "sc_selected (failed_call n s) = sc_selected s" "sc_ranked (failed_call n s) = sc_ranked s"
  by (simp_all add: run_call_def settled_call_def failed_call_def Let_def split: option.splits)

lemma swap_mset: "i < length ks \<Longrightarrow> j < length ks \<Longrightarrow> mset (ks[i := ks ! j, j := ks ! i]) = mset ks"
  by (rule mset_swap)

lemma rank_move_mset [simp]: "mset (rank_move i up ks) = mset ks"
  by (auto simp: rank_move_def intro!: swap_mset)

lemma rank_move_keeps: "distinct (rank_move i up ks) = distinct ks" "set (rank_move i up ks) = set ks"
  using mset_eq_imp_distinct_iff[OF rank_move_mset, of i up ks] mset_eq_setD[OF rank_move_mset, of i up ks] by simp_all

lemma apply_step_ok:
  assumes "screen_ok V s" "one_view_each V" "\<And>v. step_question reply = Some v \<Longrightarrow> v \<in> V"
  shows "screen_ok V (apply_step reply s)"
proof -
  let ?s = "apply_step reply s"
  have shown: "question_shown ?s = step_question reply" by (simp add: apply_step_def question_shown_def Let_def)
  then have keys: "shown_keys ?s = (case step_question reply of None \<Rightarrow> [] | Some v \<Rightarrow> map fst (qv_options v))"
    by (simp add: shown_keys_def)
  show ?thesis
  proof (cases "map_option qv_id (step_question reply) = map_option qv_id (question_shown s) \<and> step_question reply \<noteq> None")
    case True
    then obtain v u where v: "step_question reply = Some v" "question_shown s = Some u" "qv_id v = qv_id u"
      by (cases "question_shown s") auto
    then have "map fst (qv_options v) = map fst (qv_options u)"
      using assms unfolding one_view_each_def screen_ok_def by blast
    then have "shown_keys ?s = shown_keys s" using keys v by (simp add: shown_keys_def)
    moreover have "sc_selected ?s = sc_selected s" "sc_ranked ?s = sc_ranked s"
      using True by (simp_all add: apply_step_def)
    ultimately show ?thesis using assms(1,3) shown v(1) by (simp add: screen_ok_def)
  next
    case False
    then have "sc_selected ?s = None" "sc_ranked ?s = []" by (auto simp: apply_step_def)
    then show ?thesis using assms(3) shown by (simp add: screen_ok_def)
  qed
qed

lemma screen_step_ok:
  assumes "screen_ok V s" "one_view_each V" "\<And>v. replied e = Some v \<Longrightarrow> v \<in> V"
  shows "screen_ok V (screen_step e s)"
proof (cases e)
  case (Reply n reply)
  have "screen_ok V (settled_call n s)" by (rule screen_ok_same[OF assms(1)]) simp_all
  then show ?thesis using apply_step_ok[OF _ assms(2), of "settled_call n s" reply] assms(1,3) Reply by simp
next
  case (Place k)
  then show ?thesis using assms(1) by (auto simp: screen_ok_def rank_pool_def)
next
  case (Unplace k)
  then show ?thesis using assms(1) by (auto simp: screen_ok_def)
next
  case (Move i up)
  then show ?thesis using assms(1) by (auto simp: screen_ok_def rank_move_keeps)
next
  case (Select k)
  then show ?thesis using assms(1) by (auto simp: screen_ok_def)
next
  case Start_over
  then show ?thesis using assms(1) by (auto simp: screen_ok_def)
qed (auto intro: screen_ok_same[OF assms(1)] simp: assms(1) split: option.splits)

lemma screen_fold_ok:
  assumes "screen_ok V s" "one_view_each V" "brought events \<subseteq> V"
  shows "screen_ok V (fold screen_step events s)"
  using assms(1,3)
proof (induction events arbitrary: s)
  case (Cons e events)
  have "\<And>v. replied e = Some v \<Longrightarrow> v \<in> V" "brought events \<subseteq> V"
    using Cons.prems(2) by (force simp: brought_def)+
  then show ?case using Cons.IH[OF screen_step_ok[OF Cons.prems(1) assms(2)]] by simp
qed simp

lemma opened_ok: "screen_ok V (opened_screen i)"
  by (simp add: screen_ok_def opened_screen_def question_shown_def shown_keys_def)

subsection \<open>The views of one catalogue\<close>

definition served_view :: "module_entry list \<Rightarrow> catalogue \<Rightarrow> question \<Rightarrow> module_state \<Rightarrow> question_view \<Rightarrow> bool" where
  "served_view modules cg q st v \<longleftrightarrow>
     (\<exists>m r r'. List.find (\<lambda>m. me_id m = ms_moduleId st) modules = Some m \<and> ms_scoringType st = me_scoringType m \<and>
        selectNext (cg_bank cg) st r = (Some q, r')) \<and> v = toQuestionView q st"

lemma served_views_agree:
  assumes "reachable_catalogue modules cg" "served_view modules cg q st v" "served_view modules cg q' st' v'" "qv_id v = qv_id v'"
  shows "v = v'"
proof -
  note ok = reachable_catalogue_ok[OF assms(1)]
  have d: "distinct (map q_id (rows_of cg))" using ok by (simp add: catalogue_ok_def)
  have q: "q \<in> set (rows_of cg)" "eligible (cg_bank cg) st q" "q' \<in> set (rows_of cg)" "eligible (cg_bank cg) st' q'"
    using assms(2,3) selectNext_eligible[OF d] by (auto simp: served_view_def)
  have "q_id q = q_id q'" using assms(2-4) by (simp add: served_view_def toQuestionView_def)
  then have "q = q'" using q(1,3) d by (auto dest: eq_key_imp_eq_value simp: distinct_map inj_on_def)
  moreover from this have "ms_moduleId st = ms_moduleId st'" using q(2,4) by (simp add: eligible_def)
  then have "ms_scoringType st = ms_scoringType st'" using assms(2,3) by (auto simp: served_view_def)
  ultimately show ?thesis using assms(2,3) by (simp add: served_view_def toQuestionView_def)
qed

subsection \<open>Choosing\<close>

text \<open>A choice, in the clicks that make it.\<close>

fun clicks :: "submitted_answer \<Rightarrow> screen_event list" where
  "clicks AnsUnanswered = []"
| "clicks (AnsOption k) = [Select k]"
| "clicks (AnsRanking ks) = Start_over # map Place ks"

lemma place_all:
  assumes "is_ranking_shown s" "\<not> sc_busy s" "distinct (sc_ranked s @ ks)" "set ks \<subseteq> set (shown_keys s)"
  shows "fold screen_step (map Place ks) s = s\<lparr>sc_ranked := sc_ranked s @ ks\<rparr>"
  using assms
proof (induction ks arbitrary: s)
  case (Cons k ks)
  let ?s = "s\<lparr>sc_ranked := sc_ranked s @ [k]\<rparr>"
  have "screen_step (Place k) s = ?s" using Cons.prems by (simp add: rank_pool_def)
  moreover have "fold screen_step (map Place ks) ?s = ?s\<lparr>sc_ranked := sc_ranked ?s @ ks\<rparr>"
    using Cons.prems by (intro Cons.IH) auto
  ultimately show ?case by simp
qed simp

text \<open>What the clicks send, as the server reads it.\<close>

definition sends :: "screen \<Rightarrow> submitted_answer \<Rightarrow> bool" where
  "sends s answer \<longleftrightarrow>
     (case submission s of None \<Rightarrow> False
      | Some dto \<Rightarrow> map_option qv_id (question_shown s) = Some (dto_questionId dto) \<and> toSubmittedAnswer dto = Inr answer)"

lemma sends_option: "\<not> is_ranking_shown s \<Longrightarrow> question_shown s = Some v \<Longrightarrow>
    sends s answer \<longleftrightarrow> \<not> sc_busy s \<and> (\<exists>k. sc_selected s = Some k \<and> k \<noteq> '''' \<and> answer = AnsOption k)"
  by (auto simp: sends_def submission_def toSubmittedAnswer_def truthy_def split: option.splits)

lemma sends_ranking: "is_ranking_shown s \<Longrightarrow> question_shown s = Some v \<Longrightarrow>
    sends s answer \<longleftrightarrow> \<not> sc_busy s \<and> rank_complete s \<and> answer = AnsRanking (sc_ranked s)"
  by (auto simp: sends_def submission_def toSubmittedAnswer_def)

lemma sends_shows: "sends s answer \<Longrightarrow> \<exists>v. question_shown s = Some v"
  by (auto simp: sends_def submission_def split: option.splits)

text \<open>The answers a view offers, as the engine reads them.\<close>

fun offered :: "question_view \<Rightarrow> submitted_answer \<Rightarrow> bool" where
  "offered v AnsUnanswered \<longleftrightarrow> False"
| "offered v (AnsOption k) \<longleftrightarrow> qv_pattern v \<noteq> Some RANKING \<and> k \<in> set (map fst (qv_options v))"
| "offered v (AnsRanking ks) \<longleftrightarrow> qv_pattern v = Some RANKING \<and> mset ks = mset (map fst (qv_options v))"

lemma complete_mset:
  assumes "distinct ks" "distinct xs" "set ks \<subseteq> set xs" "length ks = length xs"
  shows "mset ks = mset xs"
proof -
  have "set ks = set xs"
    using assms by (intro card_subset_eq) (simp_all add: distinct_card)
  then show ?thesis using assms(1,2) by (simp add: set_eq_iff_mset_eq_distinct)
qed

lemma sends_offered:
  assumes "screen_ok V s" "question_shown s = Some v" "distinct (map fst (qv_options v))" "sends s answer"
  shows "offered v answer"
proof -
  have keys: "shown_keys s = map fst (qv_options v)" using assms(2) by (simp add: shown_keys_def)
  show ?thesis
  proof (cases "is_ranking_shown s")
    case True
    then have "answer = AnsRanking (sc_ranked s)" "length (sc_ranked s) = length (shown_keys s)"
      using assms(2,4) by (simp_all add: sends_ranking rank_complete_def)
    moreover have "mset (sc_ranked s) = mset (shown_keys s)"
      using assms(1,3) keys calculation(2) by (intro complete_mset) (simp_all add: screen_ok_def)
    ultimately show ?thesis using True keys assms(2) by (simp add: is_ranking_shown_def)
  next
    case False
    then show ?thesis using assms(1,2,4) keys by (auto simp: sends_option screen_ok_def is_ranking_shown_def)
  qed
qed

lemma offered_sends:
  assumes "screen_ok V s" "question_shown s = Some v" "distinct (map fst (qv_options v))" "\<not> sc_busy s"
    and "answer \<noteq> AnsOption ''''" "offered v answer"
  shows "sends (fold screen_step (clicks answer) s) answer"
proof -
  have keys: "shown_keys s = map fst (qv_options v)" using assms(2) by (simp add: shown_keys_def)
  show ?thesis
  proof (cases answer)
    case (AnsRanking ks)
    then have R: "is_ranking_shown s" and m: "mset ks = mset (shown_keys s)"
      using assms(2,6) keys by (simp_all add: is_ranking_shown_def)
    have ks: "distinct ks" "set ks = set (shown_keys s)" "length ks = length (shown_keys s)"
      using mset_eq_imp_distinct_iff[OF m] mset_eq_setD[OF m] mset_eq_length[OF m] assms(3) keys by simp_all
    let ?s = "s\<lparr>sc_ranked := []\<rparr>"
    have "fold screen_step (map Place ks) ?s = ?s\<lparr>sc_ranked := sc_ranked ?s @ ks\<rparr>"
      using R assms(4) ks by (intro place_all) simp_all
    then have "fold screen_step (clicks answer) s = s\<lparr>sc_ranked := ks\<rparr>"
      using R assms(4) AnsRanking by simp
    then show ?thesis using R assms(2,4) ks(3) AnsRanking by (simp add: sends_ranking rank_complete_def)
  next
    case (AnsOption k)
    then have R: "\<not> is_ranking_shown s" and k: "k \<in> set (shown_keys s)"
      using assms(2,6) keys by (simp_all add: is_ranking_shown_def)
    moreover have "k \<noteq> ''''" using AnsOption assms(5) by simp
    ultimately show ?thesis using assms(2,4) AnsOption by (simp add: sends_option)
  qed (use assms(6) in simp)
qed

lemma served_view_offers:
  assumes "reachable_catalogue modules cg" "served_view modules cg q st v"
  shows "distinct (map fst (qv_options v)) \<and>
    (answer \<noteq> AnsUnanswered \<longrightarrow> (offered v answer \<longleftrightarrow> (\<exists>res. recordAnswer (cg_bank cg) st q answer n = Inr res)))"
proof -
  obtain m r r' where "List.find (\<lambda>m. me_id m = ms_moduleId st) modules = Some m" "ms_scoringType st = me_scoringType m"
    "selectNext (cg_bank cg) st r = (Some q, r')" "v = toQuestionView q st"
    using assms(2) by (auto simp: served_view_def)
  then show ?thesis using served_accepts[OF assms(1), of st m r q r' answer n] by (cases answer) (auto simp: Let_def)
qed


lemma seeded_serves: "\<exists>q r'. selectNext (cg_bank seeded_catalogue) sample_state (\<lambda>_. 0) = (Some q, r')"
proof -
  let ?bank = "cg_bank seeded_catalogue"
  have "distinct (map q_id (bk_questions ?bank))" by (simp add: seeded_catalogue_rows)
  moreover have "\<exists>q\<in>set (bk_questions ?bank). eligible ?bank sample_state q" "bank_typed ?bank sample_state"
    by (simp_all add: seeded_catalogue_rows eligible_def visible_to_org_def question_is_servable_def
        bank_typed_def usable_def sample_defs created_row_def catalogue_samples truthy_def)
  ultimately have "fst (selectNext ?bank sample_state (\<lambda>_. 0)) \<noteq> None" using selectNext_exhausted by blast
  then show ?thesis by (cases "selectNext ?bank sample_state (\<lambda>_. 0)") auto
qed

lemma sample_entry_found:
  "List.find (\<lambda>m. me_id m = ms_moduleId sample_state) [sample_entry] = Some sample_entry"
  "ms_scoringType sample_state = me_scoringType sample_entry"
  by (simp_all add: sample_defs sample_entry_def)

definition sample_reply :: "question_view \<Rightarrow> session_step" where
  "sample_reply v = QuestionStep \<lparr>vw_sessionId = ''s'', vw_assessmentId = ''a'', vw_assessmentTitle = ''T'', vw_status = SESS_IN_PROGRESS, vw_startedAt = 0,
     vw_expiresAt = 1, vw_sessionRemainingMs = 1, vw_currentModuleIndex = 0, vw_modules = []\<rparr> (toModuleView sample_state) v 1 0 1 1"


end
