(* ===== verification/Access.thy ===== *)
theory Access
  imports Report_Service
begin

section \<open>Routes, guards and the audit trail\<close>

text \<open>
  The controllers of \<open>backend/src\<close> as a table of routes, the guards \<open>app.module.ts\<close> puts
  in front of them and the interceptor of \<open>common/audit/audit.interceptor.ts\<close>. A route
  carries what its decorators say and the name of the method behind it; what that method
  does is the subject of the other theories. The verifiers of the two kinds of token are
  parameters. Rate limits, status codes of success and the bodies are left out.
\<close>

subsection \<open>Controllers\<close>

datatype http_method = GET | POST | PUT | PATCH | DELETE

record endpoint =
  ep_method :: http_method
  ep_path :: string
  ep_handler :: string
  ep_public :: bool
  ep_refreshCookie :: bool
  ep_roles :: "user_role list option"
  ep_minOrgRole :: "org_role option"
  ep_currentOrg :: bool
  ep_uuids :: "string list"

record controller =
  ct_path :: string
  ct_roles :: "user_role list option"
  ct_endpoints :: "endpoint list"

definition endpoint_at :: "http_method \<Rightarrow> string \<Rightarrow> string \<Rightarrow> endpoint" where
  "endpoint_at m p h = \<lparr>ep_method = m, ep_path = p, ep_handler = h, ep_public = False, ep_refreshCookie = False,
     ep_roles = None, ep_minOrgRole = None, ep_currentOrg = False, ep_uuids = []\<rparr>"

text \<open>The usual decorations: a public method, one scoped to the organisation of the caller,
  one scoped to it with a floor on the role, and one on a record by its id.\<close>

definition open_to_all :: "endpoint \<Rightarrow> endpoint" where
  "open_to_all e = e\<lparr>ep_public := True\<rparr>"

definition in_org :: "endpoint \<Rightarrow> endpoint" where
  "in_org e = e\<lparr>ep_currentOrg := True\<rparr>"

definition at_least :: "org_role \<Rightarrow> endpoint \<Rightarrow> endpoint" where
  "at_least r e = e\<lparr>ep_minOrgRole := Some r\<rparr>"

definition for_roles :: "user_role list \<Rightarrow> endpoint \<Rightarrow> endpoint" where
  "for_roles rs e = e\<lparr>ep_roles := Some rs\<rparr>"

definition by_id :: "string \<Rightarrow> endpoint \<Rightarrow> endpoint" where
  "by_id p e = e\<lparr>ep_uuids := ep_uuids e @ [p]\<rparr>"

definition app_controller :: controller where
  "app_controller = \<lparr>ct_path = '''', ct_roles = None, ct_endpoints = [
     open_to_all (endpoint_at GET ''health'' ''health'')]\<rparr>"

definition users_controller :: controller where
  "users_controller = \<lparr>ct_path = ''users'', ct_roles = None, ct_endpoints = [
     endpoint_at GET ''me'' ''me'',
     for_roles [RECRUITER_ADMIN] (in_org (endpoint_at GET '''' ''list'')),
     for_roles [RECRUITER_ADMIN] (at_least ADMIN (in_org (endpoint_at POST '''' ''create''))),
     for_roles [RECRUITER_ADMIN] (at_least ADMIN (in_org (by_id ''id'' (endpoint_at DELETE '':id'' ''remove'')))),
     for_roles [RECRUITER_ADMIN] (at_least ADMIN (in_org (by_id ''id'' (endpoint_at PATCH '':id/org-role'' ''setOrgRole'')))),
     endpoint_at PATCH ''me'' ''updateMe'',
     endpoint_at POST ''me/change-password'' ''changePassword'']\<rparr>"

definition auth_controller :: controller where
  "auth_controller = \<lparr>ct_path = ''auth'', ct_roles = None, ct_endpoints = [
     open_to_all (endpoint_at POST ''register'' ''register''),
     open_to_all (endpoint_at POST ''login'' ''login''),
     (open_to_all (endpoint_at POST ''refresh'' ''refresh''))\<lparr>ep_refreshCookie := True\<rparr>,
     open_to_all (endpoint_at POST ''forgot-password'' ''forgotPassword''),
     open_to_all (endpoint_at POST ''reset-password'' ''resetPassword''),
     endpoint_at POST ''logout'' ''logout'',
     endpoint_at GET ''me'' ''me'']\<rparr>"

definition modules_controller :: controller where
  "modules_controller = \<lparr>ct_path = ''modules'', ct_roles = None, ct_endpoints = [
     endpoint_at GET '''' ''findAll'',
     by_id ''id'' (endpoint_at GET '':id'' ''findOne''),
     for_roles [RECRUITER_ADMIN] (at_least ADMIN (endpoint_at POST '''' ''create'')),
     for_roles [RECRUITER_ADMIN] (at_least ADMIN (by_id ''id'' (endpoint_at PATCH '':id'' ''update''))),
     for_roles [RECRUITER_ADMIN] (at_least ADMIN (by_id ''id'' (endpoint_at DELETE '':id'' ''deactivate'')))]\<rparr>"

definition companies_controller :: controller where
  "companies_controller = \<lparr>ct_path = ''companies'', ct_roles = Some [RECRUITER_ADMIN], ct_endpoints = [
     in_org (endpoint_at GET '''' ''list''),
     at_least ADMIN (in_org (endpoint_at POST '''' ''create'')),
     at_least ADMIN (in_org (by_id ''id'' (endpoint_at PATCH '':id'' ''update''))),
     at_least ADMIN (in_org (by_id ''id'' (endpoint_at DELETE '':id'' ''remove'')))]\<rparr>"

definition question_bank_controller :: controller where
  "question_bank_controller = \<lparr>ct_path = ''questions'', ct_roles = Some [RECRUITER_ADMIN], ct_endpoints = [
     in_org (endpoint_at GET '''' ''findAll''),
     in_org (endpoint_at GET ''stats'' ''stats''),
     in_org (endpoint_at GET ''analysis'' ''analysis''),
     in_org (by_id ''id'' (endpoint_at GET '':id'' ''findOne'')),
     at_least ADMIN (in_org (endpoint_at POST '''' ''create'')),
     at_least ADMIN (in_org (by_id ''id'' (endpoint_at PATCH '':id'' ''update''))),
     at_least ADMIN (in_org (by_id ''id'' (endpoint_at PATCH '':id/activate'' ''activate''))),
     at_least ADMIN (in_org (by_id ''id'' (endpoint_at PATCH '':id/archive'' ''archive''))),
     at_least ADMIN (in_org (by_id ''id'' (endpoint_at DELETE '':id'' ''remove'')))]\<rparr>"

definition bulk_import_controller :: controller where
  "bulk_import_controller = \<lparr>ct_path = ''questions/bulk-import'', ct_roles = Some [RECRUITER_ADMIN], ct_endpoints = [
     in_org (endpoint_at POST '''' ''upload''),
     endpoint_at GET ''template/mcq'' ''mcqTemplate'',
     endpoint_at GET ''template/personality'' ''personalityTemplate'']\<rparr>"

definition assessments_controller :: controller where
  "assessments_controller = \<lparr>ct_path = ''assessments'', ct_roles = Some [RECRUITER_ADMIN], ct_endpoints = [
     at_least HIRING_MANAGER (in_org (endpoint_at POST '''' ''create'')),
     in_org (endpoint_at GET '''' ''findAll''),
     in_org (by_id ''id'' (endpoint_at GET '':id'' ''findOne'')),
     at_least HIRING_MANAGER (in_org (by_id ''id'' (endpoint_at PUT '':id/questions'' ''setQuestionPool''))),
     at_least HIRING_MANAGER (in_org (by_id ''id'' (endpoint_at PATCH '':id/company'' ''setCompany''))),
     in_org (by_id ''id'' (endpoint_at GET '':id/public-link'' ''publicLink'')),
     at_least HIRING_MANAGER (in_org (by_id ''id'' (endpoint_at POST '':id/public-link'' ''rotatePublicLink''))),
     at_least HIRING_MANAGER (in_org (by_id ''id'' (endpoint_at PATCH '':id/public-link'' ''updatePublicLink''))),
     at_least HIRING_MANAGER (in_org (by_id ''id'' (endpoint_at DELETE '':id/public-link'' ''revokePublicLink''))),
     at_least ADMIN (in_org (by_id ''id'' (endpoint_at DELETE '':id'' ''remove'')))]\<rparr>"

definition invitations_controller :: controller where
  "invitations_controller = \<lparr>ct_path = '''', ct_roles = None, ct_endpoints = [
     for_roles [RECRUITER_ADMIN] (at_least HIRING_MANAGER (in_org (by_id ''assessmentId''
       (endpoint_at POST ''assessments/:assessmentId/invitations/bulk-import'' ''bulkImport'')))),
     for_roles [RECRUITER_ADMIN] (at_least HIRING_MANAGER (in_org (by_id ''assessmentId''
       (endpoint_at POST ''assessments/:assessmentId/invitations'' ''inviteOne'')))),
     for_roles [RECRUITER_ADMIN] (in_org (by_id ''assessmentId''
       (endpoint_at GET ''assessments/:assessmentId/invitations'' ''listForAssessment''))),
     for_roles [RECRUITER_ADMIN] (at_least HIRING_MANAGER (in_org (by_id ''id'' (endpoint_at DELETE ''invitations/:id'' ''remove'')))),
     for_roles [RECRUITER_ADMIN] (at_least HIRING_MANAGER (in_org (by_id ''id''
       (endpoint_at PATCH ''invitations/:id/schedule'' ''reschedule'')))),
     for_roles [RECRUITER_ADMIN] (at_least HIRING_MANAGER (in_org (by_id ''id''
       (endpoint_at PATCH ''invitations/:id/revoke'' ''revoke'')))),
     for_roles [RECRUITER_ADMIN] (endpoint_at GET ''invitations/template'' ''template''),
     for_roles [CANDIDATE] (endpoint_at GET ''me/invitations'' ''mine''),
     for_roles [CANDIDATE] (by_id ''id'' (endpoint_at GET ''me/invitations/:id'' ''myAttempt'')),
     for_roles [CANDIDATE] (by_id ''id'' (endpoint_at GET ''me/invitations/:id/practice'' ''myPractice''))]\<rparr>"

definition public_entry_controller :: controller where
  "public_entry_controller = \<lparr>ct_path = ''public/assessments'', ct_roles = None, ct_endpoints = [
     open_to_all (endpoint_at GET '':token'' ''intro''),
     open_to_all (endpoint_at POST '':token/check'' ''check''),
     open_to_all (endpoint_at POST '':token/enter'' ''enter'')]\<rparr>"

definition sessions_controller :: controller where
  "sessions_controller = \<lparr>ct_path = ''sessions'', ct_roles = Some [CANDIDATE], ct_endpoints = [
     endpoint_at POST ''start'' ''start'',
     by_id ''id'' (endpoint_at GET '':id/next-question'' ''nextQuestion''),
     by_id ''id'' (endpoint_at POST '':id/module/start'' ''startModule''),
     by_id ''id'' (endpoint_at POST '':id/answer'' ''answer'')]\<rparr>"

definition organisations_controller :: controller where
  "organisations_controller = \<lparr>ct_path = ''organisations'', ct_roles = Some [RECRUITER_ADMIN], ct_endpoints = [
     in_org (endpoint_at GET ''mine'' ''mine''),
     at_least ADMIN (in_org (endpoint_at PATCH ''mine/branding'' ''updateBranding''))]\<rparr>"

definition proctoring_controller :: controller where
  "proctoring_controller = \<lparr>ct_path = ''proctoring'', ct_roles = Some [RECRUITER_ADMIN], ct_endpoints = [
     in_org (endpoint_at GET ''signals'' ''signals'')]\<rparr>"

definition reports_controller :: controller where
  "reports_controller = \<lparr>ct_path = ''reports'', ct_roles = Some [RECRUITER_ADMIN], ct_endpoints = [
     in_org (endpoint_at GET ''attempts'' ''listForOrganisation''),
     in_org (by_id ''assessmentId'' (endpoint_at GET ''assessments/:assessmentId'' ''listForAssessment'')),
     in_org (by_id ''assessmentId'' (endpoint_at POST ''assessments/:assessmentId/export'' ''exportCohort'')),
     in_org (by_id ''sessionId'' (endpoint_at GET ''sessions/:sessionId'' ''summary'')),
     in_org (by_id ''sessionId'' (endpoint_at GET ''sessions/:sessionId/pdf'' ''exportPdf'')),
     in_org (by_id ''sessionId'' (endpoint_at GET ''sessions/:sessionId/detail'' ''detail'')),
     at_least HIRING_MANAGER (in_org (by_id ''sessionId'' (endpoint_at PUT ''sessions/:sessionId/review'' ''saveReview''))),
     at_least ADMIN (in_org (by_id ''sessionId'' (endpoint_at POST ''sessions/:sessionId/rejection-email'' ''sendRejectionEmail''))),
     at_least HIRING_MANAGER (in_org (by_id ''sessionId'' (endpoint_at POST ''sessions/:sessionId/messages'' ''sendMessage''))),
     in_org (by_id ''sessionId'' (endpoint_at GET ''sessions/:sessionId/messages'' ''messages'')),
     in_org (by_id ''sessionId'' (endpoint_at POST ''sessions/:sessionId/regenerate'' ''regenerate''))]\<rparr>"

subsection \<open>The router\<close>

text \<open>Paths are compared as the framework's router does by default: without regard to case,
  and with one trailing slash allowed.\<close>

datatype segment = Literal string | Parameter string

definition segment_of :: "string \<Rightarrow> segment" where
  "segment_of s = (case s of [] \<Rightarrow> Literal [] | c # cs \<Rightarrow> if c = CHR '':'' then Parameter cs else Literal s)"

definition segments_of :: "string \<Rightarrow> string list" where
  "segments_of p = filter (\<lambda>s. s \<noteq> '''') (split_on (CHR ''/'') p)"

record route =
  rt_controller :: string
  rt_path :: "segment list"
  rt_endpoint :: endpoint
  rt_roles :: "user_role list option"

text \<open>\<open>getAllAndOverride\<close>: what the method says wins over what its class says.\<close>

definition getAllAndOverride :: "'a option \<Rightarrow> 'a option \<Rightarrow> 'a option" where
  "getAllAndOverride handler cls = (case handler of Some x \<Rightarrow> Some x | None \<Rightarrow> cls)"

definition mounted :: "controller \<Rightarrow> route list" where
  "mounted c = map (\<lambda>e. \<lparr>rt_controller = ct_path c,
     rt_path = map segment_of (''api'' # segments_of (ct_path c) @ segments_of (ep_path e)), rt_endpoint = e,
     rt_roles = getAllAndOverride (ep_roles e) (ct_roles c)\<rparr>) (ct_endpoints c)"

definition controllers :: "controller list" where
  "controllers = [app_controller, users_controller, auth_controller, modules_controller, companies_controller,
     question_bank_controller, bulk_import_controller, assessments_controller, invitations_controller,
     public_entry_controller, sessions_controller, organisations_controller, proctoring_controller, reports_controller]"

definition routes :: "route list" where
  "routes = concat (map mounted controllers)"

fun match_path :: "segment list \<Rightarrow> string list \<Rightarrow> string jsobj option" where
  "match_path [] [] = Some []"
| "match_path (Literal s # ps) (x # xs) = (if js_toLowerCase s = js_toLowerCase x then match_path ps xs else None)"
| "match_path (Parameter p # ps) (x # xs) =
     (if x = '''' then None else map_option (\<lambda>m. (p, x) # m) (match_path ps xs))"
| "match_path _ _ = None"

text \<open>The segments of a request path, which starts with a slash.\<close>

definition request_segments :: "string \<Rightarrow> string list option" where
  "request_segments p =
     (case p of [] \<Rightarrow> None
      | c # cs \<Rightarrow> if c \<noteq> CHR ''/'' then None
          else (let ss = split_on (CHR ''/'') cs in Some (if length ss > 1 \<and> last ss = '''' then butlast ss else ss)))"

record http_request =
  rq_method :: http_method
  rq_path :: string
  rq_bearer :: "string option"
  rq_cookie :: "string option"

definition resolve_route :: "http_method \<Rightarrow> string \<Rightarrow> (route \<times> string jsobj) option" where
  "resolve_route m p =
     (case request_segments p of None \<Rightarrow> None
      | Some ss \<Rightarrow> (case List.find (\<lambda>r. ep_method (rt_endpoint r) = m \<and> match_path (rt_path r) ss \<noteq> None) routes of
            None \<Rightarrow> None
          | Some r \<Rightarrow> map_option (Pair r) (match_path (rt_path r) ss)))"

subsection \<open>Guards\<close>

datatype caller = Anonymous | Account user_row | Refreshing string string

datatype http_refusal = Not_found | Unauthorized | Forbidden | Bad_request

definition status_of :: "http_refusal \<Rightarrow> nat" where
  "status_of e = (case e of Not_found \<Rightarrow> 404 | Unauthorized \<Rightarrow> 401 | Forbidden \<Rightarrow> 403 | Bad_request \<Rightarrow> 400)"

text \<open>The strategy behind a bearer token: its account is read again at every request.\<close>

definition validate_access :: "user_row list \<Rightarrow> string \<Rightarrow> user_row option" where
  "validate_access users sub =
     (case List.find (\<lambda>u. us_id u = sub) users of None \<Rightarrow> None | Some u \<Rightarrow> if us_isActive u then Some u else None)"

definition jwt_guard ::
  "(string \<Rightarrow> string option) \<Rightarrow> user_row list \<Rightarrow> endpoint \<Rightarrow> string option \<Rightarrow> http_refusal + caller" where
  "jwt_guard verify users e bearer =
     (if ep_public e then Inr Anonymous
      else (case Option.bind (Option.bind bearer verify) (validate_access users) of
              None \<Rightarrow> Inl Unauthorized | Some u \<Rightarrow> Inr (Account u)))"

definition roles_guard :: "user_role list option \<Rightarrow> caller \<Rightarrow> http_refusal + caller" where
  "roles_guard required who =
     (case required of None \<Rightarrow> Inr who
      | Some rs \<Rightarrow> if rs = [] then Inr who
          else (case who of Account u \<Rightarrow> if us_role u \<in> set rs then Inr who else Inl Forbidden | _ \<Rightarrow> Inl Forbidden))"

definition org_roles_guard :: "org_role option \<Rightarrow> caller \<Rightarrow> http_refusal + caller" where
  "org_roles_guard required who =
     (case required of None \<Rightarrow> Inr who
      | Some r \<Rightarrow> (case who of Account u \<Rightarrow> if org_role_allows (Some r) u then Inr who else Inl Forbidden | _ \<Rightarrow> Inl Forbidden))"

definition refresh_guard :: "(string \<Rightarrow> string option) \<Rightarrow> endpoint \<Rightarrow> string option \<Rightarrow> caller \<Rightarrow> http_refusal + caller" where
  "refresh_guard verify e cookie who =
     (if \<not> ep_refreshCookie e then Inr who
      else (case truthy cookie of None \<Rightarrow> Inl Unauthorized
            | Some t \<Rightarrow> (case verify t of None \<Rightarrow> Inl Unauthorized | Some sub \<Rightarrow> Inr (Refreshing sub t))))"

definition guarded ::
  "(string \<Rightarrow> string option) \<Rightarrow> (string \<Rightarrow> string option) \<Rightarrow> user_row list \<Rightarrow> route \<Rightarrow> http_request \<Rightarrow> http_refusal + caller" where
  "guarded verify verifyRefresh users r rq =
     bind_result (jwt_guard verify users (rt_endpoint r) (rq_bearer rq)) (\<lambda>who.
     bind_result (roles_guard (rt_roles r) who) (\<lambda>who.
     bind_result (org_roles_guard (ep_minOrgRole (rt_endpoint r)) who)
       (refresh_guard verifyRefresh (rt_endpoint r) (rq_cookie rq))))"

subsection \<open>Parameters of a method\<close>

definition hex_digit :: "char \<Rightarrow> bool" where
  "hex_digit c \<longleftrightarrow> (let n = of_char c :: nat in 48 \<le> n \<and> n \<le> 57 \<or> 97 \<le> n \<and> n \<le> 102 \<or> 65 \<le> n \<and> n \<le> 70)"

definition is_uuid :: "string \<Rightarrow> bool" where
  "is_uuid s \<longleftrightarrow> map length (split_on (CHR ''-'') s) = [8, 4, 4, 4, 12] \<and> list_all hex_digit (concat (split_on (CHR ''-'') s))"

definition CurrentOrg :: "caller \<Rightarrow> http_refusal + string" where
  "CurrentOrg who =
     (case who of Account u \<Rightarrow> (case truthy (us_organisationId u) of None \<Rightarrow> Inl Forbidden | Some i \<Rightarrow> Inr i)
      | _ \<Rightarrow> Inl Forbidden)"

text \<open>What the pipes and decorators hand to the method: the caller and, where it asks for
  one, the organisation.\<close>

definition bound_arguments :: "route \<Rightarrow> string jsobj \<Rightarrow> caller \<Rightarrow> http_refusal + caller \<times> string option" where
  "bound_arguments r params who =
     (if \<not> list_all (\<lambda>p. case obj_get params p of None \<Rightarrow> False | Some x \<Rightarrow> is_uuid x) (ep_uuids (rt_endpoint r))
      then Inl Bad_request
      else if ep_currentOrg (rt_endpoint r) then bind_result (CurrentOrg who) (\<lambda>i. Inr (who, Some i))
      else Inr (who, None))"

record invocation =
  iv_route :: route
  iv_params :: "string jsobj"
  iv_caller :: caller
  iv_org :: "string option"

definition dispatch ::
  "(string \<Rightarrow> string option) \<Rightarrow> (string \<Rightarrow> string option) \<Rightarrow> user_row list \<Rightarrow> http_request \<Rightarrow> http_refusal + invocation" where
  "dispatch verify verifyRefresh users rq =
     (case resolve_route (rq_method rq) (rq_path rq) of
        None \<Rightarrow> Inl Not_found
      | Some (r, params) \<Rightarrow>
          bind_result (guarded verify verifyRefresh users r rq) (\<lambda>who.
          bind_result (bound_arguments r params who) (\<lambda>(who, org).
          Inr \<lparr>iv_route = r, iv_params = params, iv_caller = who, iv_org = org\<rparr>)))"

subsection \<open>The audit trail\<close>

record audit_entry =
  au_actorId :: "string option"
  au_organisationId :: "string option"
  au_action :: string
  au_resourceType :: string
  au_resourceId :: "string option"
  au_statusCode :: nat
  au_params :: "string jsobj"

definition UNAUDITED_PREFIXES :: "string list" where
  "UNAUDITED_PREFIXES = [''/api/auth/refresh'', ''/api/sessions'']"

definition AUDITED_READ_PREFIXES :: "string list" where
  "AUDITED_READ_PREFIXES = [''/api/reports'']"

definition starts_with :: "string \<Rightarrow> string \<Rightarrow> bool" where
  "starts_with prefix s \<longleftrightarrow> take (length prefix) s = prefix"

definition shouldAudit :: "http_method \<Rightarrow> string \<Rightarrow> bool" where
  "shouldAudit m p =
     (if list_ex (\<lambda>prefix. starts_with prefix p) UNAUDITED_PREFIXES then False
      else if m \<noteq> GET then True
      else list_ex (\<lambda>prefix. starts_with prefix p) AUDITED_READ_PREFIXES)"

definition method_name :: "http_method \<Rightarrow> string" where
  "method_name m = (case m of GET \<Rightarrow> ''GET'' | POST \<Rightarrow> ''POST'' | PUT \<Rightarrow> ''PUT'' | PATCH \<Rightarrow> ''PATCH'' | DELETE \<Rightarrow> ''DELETE'')"

definition route_pattern :: "route \<Rightarrow> string" where
  "route_pattern r = concat (map (\<lambda>s. CHR ''/'' # (case s of Literal x \<Rightarrow> x | Parameter x \<Rightarrow> CHR '':'' # x)) (rt_path r))"

definition resourceTypeFrom :: "string \<Rightarrow> string" where
  "resourceTypeFrom p =
     (let segments = segments_of p; start = (if take 1 segments = [''api''] then 1 else 0)
      in take 60 (if start < length segments then segments ! start else ''unknown''))"

definition resourceIdFrom :: "string jsobj \<Rightarrow> string option" where
  "resourceIdFrom params =
     (case List.map_filter (\<lambda>key. case obj_get params key of Some x \<Rightarrow> if is_uuid x then Some x else None | None \<Rightarrow> None)
        [''id'', ''sessionId'', ''assessmentId'', ''invitationId''] of
        [] \<Rightarrow> None | x # _ \<Rightarrow> Some x)"

definition idParams :: "string jsobj \<Rightarrow> string jsobj" where
  "idParams params = filter (\<lambda>(_, x). is_uuid x) params"

definition audit_record :: "caller \<Rightarrow> route \<Rightarrow> string jsobj \<Rightarrow> http_request \<Rightarrow> nat \<Rightarrow> audit_entry" where
  "audit_record who r params rq statusCode =
     \<lparr>au_actorId = (case who of Account u \<Rightarrow> Some (us_id u) | _ \<Rightarrow> None),
      au_organisationId = (case who of Account u \<Rightarrow> us_organisationId u | _ \<Rightarrow> None),
      au_action = take 160 (method_name (rq_method rq) @ '' '' @ route_pattern r),
      au_resourceType = resourceTypeFrom (rq_path rq), au_resourceId = resourceIdFrom params,
      au_statusCode = statusCode, au_params = idParams params\<rparr>"

text \<open>
  A request from the router to its answer. The interceptor sits behind the guards and
  around the pipes and the method: a refusal by a guard is never recorded, one by a pipe or
  by the method is. The method, given as the status it answers with, is a parameter.
\<close>

definition serve_request ::
  "(string \<Rightarrow> string option) \<Rightarrow> (string \<Rightarrow> string option) \<Rightarrow> user_row list \<Rightarrow> (invocation \<Rightarrow> nat) \<Rightarrow> http_request \<Rightarrow>
   nat \<times> audit_entry list" where
  "serve_request verify verifyRefresh users run rq =
     (case resolve_route (rq_method rq) (rq_path rq) of
        None \<Rightarrow> (status_of Not_found, [])
      | Some (r, params) \<Rightarrow> (case guarded verify verifyRefresh users r rq of
            Inl e \<Rightarrow> (status_of e, [])
          | Inr who \<Rightarrow>
              (let status = (case bound_arguments r params who of
                     Inl e \<Rightarrow> status_of e
                   | Inr (who, org) \<Rightarrow> run \<lparr>iv_route = r, iv_params = params, iv_caller = who, iv_org = org\<rparr>)
               in (status, if shouldAudit (rq_method rq) (rq_path rq) then [audit_record who r params rq status] else []))))"

end
