(* ===== verification/Client_Calls.thy ===== *)
theory Client_Calls
  imports Access
begin

section \<open>The calls of the browser\<close>

text \<open>
  \<open>frontend/src/lib/endpoints.ts\<close>: every request the pages can make, one group per object
  of the file, as a method and a path in which a placeholder stands for an argument. What
  travels in the body or the query is left out.
\<close>

record client_call =
  cl_name :: string
  cl_method :: http_method
  cl_path :: string

definition call_of :: "string \<Rightarrow> http_method \<Rightarrow> string \<Rightarrow> client_call" where
  "call_of name m p = \<lparr>cl_name = name, cl_method = m, cl_path = p\<rparr>"

definition authApi :: "client_call list" where
  "authApi = [
     call_of ''login'' POST ''/auth/login'',
     call_of ''register'' POST ''/auth/register'',
     call_of ''refresh'' POST ''/auth/refresh'',
     call_of ''logout'' POST ''/auth/logout'',
     call_of ''forgotPassword'' POST ''/auth/forgot-password'',
     call_of ''resetPassword'' POST ''/auth/reset-password'']"

definition usersApi :: "client_call list" where
  "usersApi = [
     call_of ''me'' GET ''/users/me'',
     call_of ''updateName'' PATCH ''/users/me'',
     call_of ''changePassword'' POST ''/users/me/change-password'',
     call_of ''list'' GET ''/users'',
     call_of ''create'' POST ''/users'',
     call_of ''setOrgRole'' PATCH ''/users/:id/org-role'',
     call_of ''remove'' DELETE ''/users/:id'']"

definition modulesApi :: "client_call list" where
  "modulesApi = [call_of ''list'' GET ''/modules'']"

definition questionsApi :: "client_call list" where
  "questionsApi = [
     call_of ''stats'' GET ''/questions/stats'',
     call_of ''analysis'' GET ''/questions/analysis'',
     call_of ''list'' GET ''/questions'',
     call_of ''get'' GET ''/questions/:id'',
     call_of ''create'' POST ''/questions'',
     call_of ''update'' PATCH ''/questions/:id'',
     call_of ''activate'' PATCH ''/questions/:id/activate'',
     call_of ''archive'' PATCH ''/questions/:id/archive'',
     call_of ''remove'' DELETE ''/questions/:id'',
     call_of ''bulkImport'' POST ''/questions/bulk-import'',
     call_of ''downloadTemplate mcq'' GET ''/questions/bulk-import/template/mcq'',
     call_of ''downloadTemplate personality'' GET ''/questions/bulk-import/template/personality'']"

definition assessmentsApi :: "client_call list" where
  "assessmentsApi = [
     call_of ''list'' GET ''/assessments'',
     call_of ''get'' GET ''/assessments/:id'',
     call_of ''create'' POST ''/assessments'',
     call_of ''setQuestionPool'' PUT ''/assessments/:id/questions'',
     call_of ''setCompany'' PATCH ''/assessments/:id/company'',
     call_of ''remove'' DELETE ''/assessments/:id'',
     call_of ''publicLink'' GET ''/assessments/:id/public-link'',
     call_of ''rotatePublicLink'' POST ''/assessments/:id/public-link'',
     call_of ''updatePublicLink'' PATCH ''/assessments/:id/public-link'',
     call_of ''revokePublicLink'' DELETE ''/assessments/:id/public-link'']"

definition publicEntryApi :: "client_call list" where
  "publicEntryApi = [
     call_of ''intro'' GET ''/public/assessments/:token'',
     call_of ''check'' POST ''/public/assessments/:token/check'',
     call_of ''enter'' POST ''/public/assessments/:token/enter'']"

definition companiesApi :: "client_call list" where
  "companiesApi = [
     call_of ''list'' GET ''/companies'',
     call_of ''create'' POST ''/companies'',
     call_of ''update'' PATCH ''/companies/:id'',
     call_of ''remove'' DELETE ''/companies/:id'']"

definition organisationsApi :: "client_call list" where
  "organisationsApi = [
     call_of ''mine'' GET ''/organisations/mine'',
     call_of ''updateBranding'' PATCH ''/organisations/mine/branding'']"

definition invitationsApi :: "client_call list" where
  "invitationsApi = [
     call_of ''forAssessment'' GET ''/assessments/:assessmentId/invitations'',
     call_of ''bulkInvite'' POST ''/assessments/:assessmentId/invitations/bulk-import'',
     call_of ''inviteOne'' POST ''/assessments/:assessmentId/invitations'',
     call_of ''remove'' DELETE ''/invitations/:invitationId'',
     call_of ''reschedule'' PATCH ''/invitations/:invitationId/schedule'',
     call_of ''revoke'' PATCH ''/invitations/:invitationId/revoke'',
     call_of ''downloadTemplate'' GET ''/invitations/template'',
     call_of ''mine'' GET ''/me/invitations'',
     call_of ''ping'' GET ''/me/invitations'',
     call_of ''practice'' GET ''/me/invitations/:invitationId/practice'',
     call_of ''myAttempt'' GET ''/me/invitations/:invitationId'']"

definition sessionsApi :: "client_call list" where
  "sessionsApi = [
     call_of ''start'' POST ''/sessions/start'',
     call_of ''current'' GET ''/sessions/:sessionId/next-question'',
     call_of ''startModule'' POST ''/sessions/:sessionId/module/start'',
     call_of ''answer'' POST ''/sessions/:sessionId/answer'']"

definition reportsApi :: "client_call list" where
  "reportsApi = [
     call_of ''forAssessment'' GET ''/reports/assessments/:assessmentId'',
     call_of ''allAttempts'' GET ''/reports/attempts'',
     call_of ''exportCohort'' POST ''/reports/assessments/:assessmentId/export'',
     call_of ''downloadPdf'' GET ''/reports/sessions/:sessionId/pdf'',
     call_of ''saveReview'' PUT ''/reports/sessions/:sessionId/review'',
     call_of ''summary'' GET ''/reports/sessions/:sessionId'',
     call_of ''detail'' GET ''/reports/sessions/:sessionId/detail'',
     call_of ''sendRejectionEmail'' POST ''/reports/sessions/:sessionId/rejection-email'',
     call_of ''sendMessage'' POST ''/reports/sessions/:sessionId/messages'',
     call_of ''messages'' GET ''/reports/sessions/:sessionId/messages'',
     call_of ''regenerate'' POST ''/reports/sessions/:sessionId/regenerate'']"

definition proctoringApi :: "client_call list" where
  "proctoringApi = [call_of ''signals'' GET ''/proctoring/signals'']"

definition client_calls :: "client_call list" where
  "client_calls = authApi @ usersApi @ modulesApi @ questionsApi @ assessmentsApi @ publicEntryApi @ companiesApi @
     organisationsApi @ invitationsApi @ sessionsApi @ reportsApi @ proctoringApi"

text \<open>The request of a call: its path behind the base address, with every placeholder
  replaced by its argument.\<close>

definition call_template :: "client_call \<Rightarrow> segment list" where
  "call_template c = map segment_of (''api'' # segments_of (cl_path c))"

definition filled :: "(string \<Rightarrow> string) \<Rightarrow> segment \<Rightarrow> string" where
  "filled f s = (case s of Literal x \<Rightarrow> x | Parameter p \<Rightarrow> f p)"

definition client_path :: "(string \<Rightarrow> string) \<Rightarrow> client_call \<Rightarrow> string" where
  "client_path f c = concat (map (\<lambda>s. CHR ''/'' # filled f s) (call_template c))"

end
