(* ===== verification/Bulk_Import.thy ===== *)
theory Bulk_Import
  imports Question_Bank_Properties Report_Data
begin

section \<open>Importing questions from a spreadsheet\<close>

text \<open>
  \<open>question-bank/bulk-import\<close>: reading a workbook into rows of strings
  (\<open>spreadsheet-parser.ts\<close>), a row into the payload of a new question
  (\<open>row-mapper.ts\<close>), and importing every row that can be (\<open>bulk-import.service.ts\<close>).
  The two libraries that open a file, a CSV parser and a workbook loader, are parameters;
  a cell is what the latter documents. Tags and an option's behaviour label are left out,
  as in the question bank. An error message is the constructor that stands for it.
\<close>

subsection \<open>Strings and numbers of the language\<close>

definition js_toUpperCase :: "string \<Rightarrow> string" where
  "js_toUpperCase s = map upper_char s"

text \<open>
  \<open>Number(s)\<close> by the grammar of the language: blank is zero, a prefix selects another
  base, otherwise a signed decimal with an optional fraction and exponent. \<open>None\<close> is a
  result that is not finite: \<open>NaN\<close>, \<open>Infinity\<close>, or a decimal that rounds to it.
\<close>

definition digit_of :: "char \<Rightarrow> nat" where
  "digit_of c = (let n = of_char c :: nat
     in if 48 \<le> n \<and> n \<le> 57 then n - 48 else if 97 \<le> n \<and> n \<le> 102 then n - 87
        else if 65 \<le> n \<and> n \<le> 70 then n - 55 else 99)"

definition digits_value :: "nat \<Rightarrow> string \<Rightarrow> nat" where
  "digits_value base s = foldl (\<lambda>n c. n * base + digit_of c) 0 s"

abbreviation all_digits :: "nat \<Rightarrow> string \<Rightarrow> bool" where
  "all_digits base s \<equiv> s \<noteq> [] \<and> list_all (\<lambda>c. digit_of c < base) s"

definition exponent_of :: "string \<Rightarrow> int option" where
  "exponent_of s =
     (case s of [] \<Rightarrow> Some 0
      | e # r \<Rightarrow>
          if e \<noteq> CHR ''e'' \<and> e \<noteq> CHR ''E'' then None
          else let (sgn, u) = (case r of [] \<Rightarrow> (1, []) | c # cs \<Rightarrow>
                 if c = CHR ''-'' then (- 1, cs) else if c = CHR ''+'' then (1, cs) else (1, r))
               in if all_digits 10 u then Some (sgn * int (digits_value 10 u)) else None)"

definition unsigned_decimal :: "string \<Rightarrow> real option" where
  "unsigned_decimal s =
     (let whole = takeWhile (\<lambda>c. digit_of c < 10) s; rest = dropWhile (\<lambda>c. digit_of c < 10) s;
          (fraction, tail) = (case rest of c # cs \<Rightarrow>
              if c = CHR ''.'' then (takeWhile (\<lambda>c. digit_of c < 10) cs, dropWhile (\<lambda>c. digit_of c < 10) cs)
              else ([], rest) | [] \<Rightarrow> ([], []))
      in if whole = [] \<and> fraction = [] then None
         else map_option (\<lambda>e. let n = real (digits_value 10 (whole @ fraction)); k = e - int (length fraction)
                in if k \<ge> 0 then n * 10 ^ nat k else n / 10 ^ nat (- k)) (exponent_of tail))"

definition LARGEST_DOUBLE_BOUND :: real where "LARGEST_DOUBLE_BOUND = 2 ^ 1024 - 2 ^ 970"

definition js_Number :: "string \<Rightarrow> real option" where
  "js_Number raw =
     (let s = js_trim raw;
          radix = (\<lambda>base. if all_digits base (drop 2 s) then Some (real (digits_value base (drop 2 s))) else None);
          value = (if s = [] then Some 0
            else if take 2 s = ''0x'' \<or> take 2 s = ''0X'' then radix 16
            else if take 2 s = ''0o'' \<or> take 2 s = ''0O'' then radix 8
            else if take 2 s = ''0b'' \<or> take 2 s = ''0B'' then radix 2
            else if hd s = CHR ''-'' then map_option uminus (unsigned_decimal (tl s))
            else if hd s = CHR ''+'' then unsigned_decimal (tl s)
            else unsigned_decimal s)
      in case value of None \<Rightarrow> None | Some x \<Rightarrow> if \<bar>x\<bar> < LARGEST_DOUBLE_BOUND then Some x else None)"

subsection \<open>A workbook\<close>

type_synonym raw_row = "string jsobj"

datatype cell =
    Cell_null
  | Cell_text string
  | Cell_value string
  | Cell_date string
  | Cell_object "cell list option" "cell option" "cell option"

fun cellToString :: "nat \<Rightarrow> cell \<Rightarrow> string" where
  "cellToString depth Cell_null = ''''"
| "cellToString depth (Cell_text s) = (if depth > 3 then '''' else js_trim s)"
| "cellToString depth (Cell_value s) = (if depth > 3 then '''' else s)"
| "cellToString depth (Cell_date s) = (if depth > 3 then '''' else s)"
| "cellToString depth (Cell_object richText text result) =
     (if depth > 3 then ''''
      else (case richText of
              Some runs \<Rightarrow> js_trim (concat (map (cellToString (Suc depth)) runs))
            | None \<Rightarrow> (case text of
                Some t \<Rightarrow> cellToString (Suc depth) t
              | None \<Rightarrow> (case result of Some r \<Rightarrow> cellToString (Suc depth) r | None \<Rightarrow> ''''))))"

text \<open>\<open>s.replace(/\s+/g, '_')\<close>.\<close>

fun spaces_to_underscore :: "string \<Rightarrow> string" where
  "spaces_to_underscore [] = []"
| "spaces_to_underscore [c] = (if js_whitespace c then ''_'' else [c])"
| "spaces_to_underscore (c # d # s) =
     (if js_whitespace c then (if js_whitespace d then spaces_to_underscore (d # s) else CHR ''_'' # spaces_to_underscore (d # s))
      else c # spaces_to_underscore (d # s))"

definition normaliseHeader :: "string \<Rightarrow> string" where
  "normaliseHeader header = spaces_to_underscore (js_toLowerCase (js_trim header))"

definition row_record :: "string list \<Rightarrow> cell list \<Rightarrow> raw_row" where
  "row_record header values = foldl (\<lambda>r (i, key). if key = '''' then r
     else obj_set key (cellToString 0 (if i < length values then values ! i else Cell_null)) r) [] (enumerate 0 header)"

text \<open>A sheet is the cells of its rows that are not empty, by row number.\<close>

definition parseXlsx :: "(nat \<times> cell list) list \<Rightarrow> raw_row list" where
  "parseXlsx sheet =
     (let header = map (normaliseHeader \<circ> cellToString 0) (or_else (map_of sheet 1) [])
      in filter (\<lambda>r. list_ex (\<lambda>v. v \<noteq> '''') (obj_values r))
           (map (row_record header \<circ> snd) (filter (\<lambda>(n, _). n \<noteq> 1) sheet)))"

datatype file_error = NoSheets | UnsupportedFileType string | NoDataRows

definition parseSpreadsheet ::
  "((string \<Rightarrow> string) \<Rightarrow> 'file \<Rightarrow> raw_row list) \<Rightarrow> ('file \<Rightarrow> (nat \<times> cell list) list list) \<Rightarrow>
   'file \<Rightarrow> string \<Rightarrow> file_error + raw_row list" where
  "parseSpreadsheet parse load buffer filename =
     (let ext = last (split_on (CHR ''.'') (js_toLowerCase filename))
      in bind_result
           (if ext = ''csv'' \<or> ext = ''txt'' then Inr (parse normaliseHeader buffer)
            else if ext = ''xlsx'' \<or> ext = ''xlsm''
            then (case load buffer of [] \<Rightarrow> Inl NoSheets | sheet # _ \<Rightarrow> Inr (parseXlsx sheet))
            else Inl (UnsupportedFileType ext))
           (\<lambda>rows. if rows = [] then Inl NoDataRows else Inr rows))"

subsection \<open>A row\<close>

datatype row_error =
    MissingColumn string
  | MalformedWeights string string
  | WeightNotANumber string string string
  | NoWeights string
  | UnknownPattern string
  | ProbeGroupTooLong nat
  | TooFewOptions nat
  | DifficultyNotWhole string
  | OptionWithoutWeights string
  | OptionCountOutside "behavioral_pattern option" nat
  | UnknownModuleSlug string

definition PROBE_GROUP_MAX_LENGTH :: nat where "PROBE_GROUP_MAX_LENGTH = 80"

definition OPTION_LETTERS :: "char list" where "OPTION_LETTERS = ''abcdef''"

text \<open>\<open>row[column]?.trim()\<close>, read as a truth value.\<close>

definition column_of :: "raw_row \<Rightarrow> string \<Rightarrow> string option" where
  "column_of row column = truthy (map_option js_trim (obj_get row column))"

definition required :: "raw_row \<Rightarrow> string \<Rightarrow> row_error + string" where
  "required row column = (case column_of row column of None \<Rightarrow> Inl (MissingColumn column) | Some v \<Rightarrow> Inr v)"

fun weight_pairs :: "string \<Rightarrow> string list \<Rightarrow> real jsobj \<Rightarrow> row_error + real jsobj" where
  "weight_pairs column [] weights = Inr weights"
| "weight_pairs column (pair # pairs) weights =
     (let trimmed = js_trim pair
      in if trimmed = '''' then weight_pairs column pairs weights
         else (case split_on (CHR '':'') trimmed of
             [trait, rawWeight] \<Rightarrow>
               if js_trim trait = '''' then Inl (MalformedWeights column trimmed)
               else (case js_Number rawWeight of
                   None \<Rightarrow> Inl (WeightNotANumber column (js_trim trait) (js_trim rawWeight))
                 | Some weight \<Rightarrow> weight_pairs column pairs (obj_set (js_trim trait) weight weights))
           | _ \<Rightarrow> Inl (MalformedWeights column trimmed)))"

definition parseTraitWeights :: "string \<Rightarrow> string \<Rightarrow> row_error + real jsobj" where
  "parseTraitWeights raw column =
     bind_result (weight_pairs column (split_on (CHR '';'') raw) [])
       (\<lambda>weights. if weights = [] then Inl (NoWeights column) else Inr weights)"

definition parsePattern :: "raw_row \<Rightarrow> row_error + behavioral_pattern option" where
  "parsePattern row =
     (case map_option js_toLowerCase (column_of row ''pattern'') of
        None \<Rightarrow> Inr None
      | Some raw \<Rightarrow>
          if raw = ''situational'' then Inr (Some SITUATIONAL)
          else if raw = ''forced_choice'' then Inr (Some FORCED_CHOICE)
          else if raw = ''trade_off'' then Inr (Some TRADE_OFF)
          else if raw = ''ranking'' then Inr (Some RANKING)
          else Inl (UnknownPattern raw))"

definition parseProbeGroup :: "raw_row \<Rightarrow> row_error + string option" where
  "parseProbeGroup row =
     (case column_of row ''probe_group'' of
        None \<Rightarrow> Inr None
      | Some raw \<Rightarrow> if length raw > PROBE_GROUP_MAX_LENGTH then Inl (ProbeGroupTooLong (length raw)) else Inr (Some raw))"

definition letter_options :: "raw_row \<Rightarrow> mcq_option list" where
  "letter_options row = List.map_filter (\<lambda>letter. map_option (\<lambda>t. \<lparr>mo_key = [upper_char letter], mo_text = t\<rparr>)
     (column_of row (''option_'' @ [letter]))) OPTION_LETTERS"

definition parseDifficulty :: "raw_row \<Rightarrow> row_error + int option" where
  "parseDifficulty row =
     (case column_of row ''difficulty_score'' of
        None \<Rightarrow> Inr None
      | Some raw \<Rightarrow> (case js_Number raw of
            None \<Rightarrow> Inl (DifficultyNotWhole raw)
          | Some x \<Rightarrow> if of_int \<lfloor>x\<rfloor> = x then Inr (Some \<lfloor>x\<rfloor>) else Inl (DifficultyNotWhole raw)))"

fun weighted_options :: "raw_row \<Rightarrow> char list \<Rightarrow> row_error + personality_option list" where
  "weighted_options row [] = Inr []"
| "weighted_options row (letter # letters) =
     (case column_of row (''option_'' @ [letter]) of
        None \<Rightarrow> weighted_options row letters
      | Some t \<Rightarrow>
          (let weightColumn = ''option_'' @ [letter] @ ''_weights''
           in case column_of row weightColumn of
                None \<Rightarrow> Inl (OptionWithoutWeights [letter])
              | Some raw \<Rightarrow>
                  bind_result (parseTraitWeights raw weightColumn) (\<lambda>weights.
                  bind_result (weighted_options row letters) (\<lambda>rest.
                  Inr (\<lparr>po_key = [upper_char letter], po_text = t, po_traitWeights = weights\<rparr> # rest)))))"

definition mcq_payload :: "raw_row \<Rightarrow> row_error + mcq_dto" where
  "mcq_payload row =
     (let options = letter_options row
      in if length options < MIN_OPTIONS then Inl (TooFewOptions (length options))
         else bind_result (required row ''correct_option'') (\<lambda>correct.
              bind_result (parseDifficulty row) (\<lambda>difficulty.
              Inr \<lparr>dm_options = options, dm_correctOption = js_toUpperCase correct, dm_difficultyScore = difficulty\<rparr>)))"

definition personality_payload :: "raw_row \<Rightarrow> row_error + personality_dto" where
  "personality_payload row =
     bind_result (parsePattern row) (\<lambda>pattern.
     bind_result (weighted_options row OPTION_LETTERS) (\<lambda>options.
     let (low, high) = (case pattern of Some p \<Rightarrow> PATTERN_OPTION_BOUNDS p | None \<Rightarrow> LEGACY_OPTION_BOUNDS)
     in if length options < low \<or> length options > high then Inl (OptionCountOutside pattern (length options))
        else Inr \<lparr>dp_pattern = pattern, dp_options = options\<rparr>))"

definition rowToCreateDto :: "raw_row \<Rightarrow> module_entry \<Rightarrow> row_error + create_question_dto" where
  "rowToCreateDto row m =
     bind_result (required row ''question_text'') (\<lambda>questionText.
     bind_result (parseProbeGroup row) (\<lambda>probeGroup.
     let dto = (\<lambda>mcq personality. \<lparr>cq_moduleId = me_id m, cq_questionText = questionText, cq_status = None,
           cq_probeGroup = probeGroup, cq_isSample = None, cq_mcq = mcq, cq_personality = personality\<rparr>)
     in if me_scoringType m = OBJECTIVE then bind_result (mcq_payload row) (\<lambda>d. Inr (dto (Some d) None))
        else bind_result (personality_payload row) (\<lambda>d. Inr (dto None (Some d)))))"

subsection \<open>The import\<close>

datatype import_reason = Row_problem row_error | Bank_problem bank_error

record row_failure =
  rf_row :: nat
  rf_reason :: import_reason
  rf_questionText :: "string option"

record bulk_import_result =
  bi_totalRows :: nat
  bi_imported :: nat
  bi_failed :: nat
  bi_importedAs :: question_status
  bi_failures :: "row_failure list"

text \<open>The module of a row, through the cache of those already found.\<close>

definition cached_module ::
  "raw_row \<Rightarrow> module_entry jsobj \<Rightarrow> catalogue \<Rightarrow> (row_error + module_entry) \<times> module_entry jsobj" where
  "cached_module row cache cg =
     (case column_of row ''module_slug'' of
        None \<Rightarrow> (Inl (MissingColumn ''module_slug''), cache)
      | Some slug \<Rightarrow> (case obj_get cache slug of
            Some m \<Rightarrow> (Inr m, cache)
          | None \<Rightarrow> (case List.find (\<lambda>m. me_slug m = slug) (cg_modules cg) of
                None \<Rightarrow> (Inl (UnknownModuleSlug slug), cache)
              | Some m \<Rightarrow> (Inr m, obj_set slug m cache))))"

definition import_row ::
  "string option \<Rightarrow> raw_row \<Rightarrow> module_entry jsobj \<Rightarrow> catalogue \<Rightarrow> (import_reason + question) \<times> module_entry jsobj \<times> catalogue" where
  "import_row owner row cache cg =
     (let (found, cache') = cached_module row cache cg
      in case bind_result found (rowToCreateDto row) of
           Inl e \<Rightarrow> (Inl (Row_problem e), cache', cg)
         | Inr dto \<Rightarrow> (case createQuestion (dto\<lparr>cq_status := Some DRAFT\<rparr>) owner cg of
               (Inl e, cg') \<Rightarrow> (Inl (Bank_problem e), cache', cg')
             | (Inr q, cg') \<Rightarrow> (Inr q, cache', cg')))"

definition failure_at :: "nat \<Rightarrow> raw_row \<Rightarrow> import_reason \<Rightarrow> row_failure" where
  "failure_at index row reason = \<lparr>rf_row = index + 2, rf_reason = reason,
     rf_questionText = map_option (take 80) (obj_get row ''question_text'')\<rparr>"

fun import_loop ::
  "string option \<Rightarrow> nat \<Rightarrow> raw_row list \<Rightarrow> module_entry jsobj \<Rightarrow> nat \<Rightarrow> row_failure list \<Rightarrow> catalogue \<Rightarrow>
   nat \<times> row_failure list \<times> catalogue" where
  "import_loop owner index [] cache imported failures cg = (imported, failures, cg)"
| "import_loop owner index (row # rows) cache imported failures cg =
     (case import_row owner row cache cg of
        (Inr q, cache', cg') \<Rightarrow> import_loop owner (Suc index) rows cache' (imported + 1) failures cg'
      | (Inl reason, cache', cg') \<Rightarrow> import_loop owner (Suc index) rows cache' imported
          (failures @ [failure_at index row reason]) cg')"

definition importRows :: "raw_row list \<Rightarrow> string option \<Rightarrow> catalogue \<Rightarrow> bulk_import_result \<times> catalogue" where
  "importRows rows owner cg =
     (let (imported, failures, cg') = import_loop owner 0 rows [] 0 [] cg
      in (\<lparr>bi_totalRows = length rows, bi_imported = imported, bi_failed = length failures,
           bi_importedAs = DRAFT, bi_failures = failures\<rparr>, cg'))"

subsection \<open>The import against separate requests\<close>

text \<open>A row imported on its own, without a cache: the payload, then the request that creates it.\<close>

definition row_dto :: "module_entry list \<Rightarrow> raw_row \<Rightarrow> row_error + create_question_dto" where
  "row_dto modules row =
     bind_result (required row ''module_slug'') (\<lambda>slug.
     case List.find (\<lambda>m. me_slug m = slug) modules of
       None \<Rightarrow> Inl (UnknownModuleSlug slug)
     | Some m \<Rightarrow> bind_result (rowToCreateDto row m) (\<lambda>dto. Inr (dto\<lparr>cq_status := Some DRAFT\<rparr>)))"

definition import_alone :: "string option \<Rightarrow> raw_row \<Rightarrow> catalogue \<Rightarrow> (import_reason + question) \<times> catalogue" where
  "import_alone owner row cg =
     (case row_dto (cg_modules cg) row of
        Inl e \<Rightarrow> (Inl (Row_problem e), cg)
      | Inr dto \<Rightarrow> (case createQuestion dto owner cg of (Inl e, cg') \<Rightarrow> (Inl (Bank_problem e), cg') | (Inr q, cg') \<Rightarrow> (Inr q, cg')))"

fun import_each :: "string option \<Rightarrow> raw_row list \<Rightarrow> catalogue \<Rightarrow> (import_reason + question) list \<times> catalogue" where
  "import_each owner [] cg = ([], cg)"
| "import_each owner (row # rows) cg =
     (let (out, cg') = import_alone owner row cg; (outs, cg'') = import_each owner rows cg' in (out # outs, cg''))"

definition imported_questions :: "(import_reason + question) list \<Rightarrow> question list" where
  "imported_questions = List.map_filter (\<lambda>out. case out of Inr q \<Rightarrow> Some q | Inl _ \<Rightarrow> None)"

definition reported_failures :: "nat \<Rightarrow> raw_row list \<Rightarrow> (import_reason + question) list \<Rightarrow> row_failure list" where
  "reported_failures index rows outs = List.map_filter (\<lambda>(n, row, out). case out of Inr _ \<Rightarrow> None
     | Inl reason \<Rightarrow> Some (failure_at n row reason)) (enumerate index (zip rows outs))"

lemma imported_questions_simps [simp]:
  "imported_questions [] = []" "imported_questions (Inr q # outs) = q # imported_questions outs"
  "imported_questions (Inl e # outs) = imported_questions outs"
  by (simp_all add: imported_questions_def map_filter_simps)

lemma reported_failures_simps [simp]:
  "reported_failures n [] outs = []"
  "reported_failures n (row # rows) (Inr q # outs) = reported_failures (Suc n) rows outs"
  "reported_failures n (row # rows) (Inl e # outs) = failure_at n row e # reported_failures (Suc n) rows outs"
  by (simp_all add: reported_failures_def map_filter_simps)

lemma wp_insert_question:
  "wp (insert_question q) Q E cg =
     (let q' = q\<lparr>q_id := cg_ids cg 0\<rparr>; cg' = cg\<lparr>cg_ids := (\<lambda>n. cg_ids cg (Suc n))\<rparr>
      in if list_ex (\<lambda>r. q_id r = q_id q') (rows_of cg) then E DuplicateQuestionId cg' else Q q' (set_rows (\<lambda>rows. rows @ [q']) cg'))"
  by (simp add: wp_def insert_question_def Let_def)

lemma createQuestion_result:
  assumes "createQuestion dto owner cg = (out, cg')"
  shows "cg_modules cg' = cg_modules cg \<and> cg_answered cg' = cg_answered cg \<and>
    (case out of Inl _ \<Rightarrow> rows_of cg' = rows_of cg
     | Inr q \<Rightarrow> rows_of cg' = rows_of cg @ [q] \<and> q_status q = or_else (cq_status dto) DRAFT \<and>
         q_organisationId q = owner \<and> q_forkedFromId q = None \<and> q_isSample q = or_else (cq_isSample dto) False)"
proof -
  have "wp (createQuestion dto owner)
      (\<lambda>q cg'. cg_modules cg' = cg_modules cg \<and> cg_answered cg' = cg_answered cg \<and> rows_of cg' = rows_of cg @ [q] \<and>
         q_status q = or_else (cq_status dto) DRAFT \<and> q_organisationId q = owner \<and> q_forkedFromId q = None \<and>
         q_isSample q = or_else (cq_isSample dto) False)
      (\<lambda>e cg'. cg_modules cg' = cg_modules cg \<and> cg_answered cg' = cg_answered cg \<and> rows_of cg' = rows_of cg) cg"
    by (simp add: createQuestion_def wp_simps wp_probe_check wp_insert_question Let_def set_rows_def created_row_def
        split: option.split sum.split)
  with assms show ?thesis by (cases out) (simp_all add: wp_def)
qed

definition cache_agrees :: "module_entry list \<Rightarrow> module_entry jsobj \<Rightarrow> bool" where
  "cache_agrees modules cache \<longleftrightarrow> (\<forall>slug m. obj_get cache slug = Some m \<longrightarrow> List.find (\<lambda>m. me_slug m = slug) modules = Some m)"

lemma import_row_alone:
  assumes "cache_agrees (cg_modules cg) cache"
  shows "\<exists>cache'. import_row owner row cache cg = (fst (import_alone owner row cg), cache', snd (import_alone owner row cg)) \<and>
    cache_agrees (cg_modules cg) cache'"
  using assms
  by (cases "column_of row ''module_slug''"; cases "obj_get cache (the (column_of row ''module_slug''))";
      cases "List.find (\<lambda>m. me_slug m = the (column_of row ''module_slug'')) (cg_modules cg)")
    (auto simp: import_row_def cached_module_def import_alone_def row_dto_def required_def cache_agrees_def
      split: sum.splits prod.splits)

lemma import_alone_result:
  assumes "import_alone owner row cg = (out, cg')"
  shows "cg_modules cg' = cg_modules cg \<and> cg_answered cg' = cg_answered cg \<and>
    rows_of cg' = rows_of cg @ imported_questions [out] \<and>
    list_all (\<lambda>q. q_status q = DRAFT \<and> q_organisationId q = owner \<and> q_forkedFromId q = None \<and> \<not> q_isSample q)
      (imported_questions [out])"
proof (cases "row_dto (cg_modules cg) row")
  case (Inl e)
  with assms show ?thesis by (auto simp: import_alone_def)
next
  case (Inr dto)
  have "cq_status dto = Some DRAFT" "cq_isSample dto = None"
    using Inr by (auto simp: row_dto_def rowToCreateDto_def bind_result_Inr Let_def split: option.splits if_splits)
  with assms Inr show ?thesis
    by (cases "createQuestion dto owner cg"; cases "fst (createQuestion dto owner cg)")
      (auto simp: import_alone_def dest: createQuestion_result)
qed

lemma import_each_result:
  "import_each owner rows cg = (outs, cg') \<Longrightarrow>
   length outs = length rows \<and> cg_modules cg' = cg_modules cg \<and> cg_answered cg' = cg_answered cg \<and>
   rows_of cg' = rows_of cg @ imported_questions outs \<and>
   list_all (\<lambda>q. q_status q = DRAFT \<and> q_organisationId q = owner \<and> q_forkedFromId q = None \<and> \<not> q_isSample q)
     (imported_questions outs)"
proof (induction rows arbitrary: cg outs cg')
  case (Cons row rows)
  obtain out cg1 where one: "import_alone owner row cg = (out, cg1)" by fastforce
  obtain outs' cg2 where rest: "import_each owner rows cg1 = (outs', cg2)" by fastforce
  have "outs = out # outs'" "cg' = cg2" using Cons.prems one rest by simp_all
  then show ?case using import_alone_result[OF one] Cons.IH[OF rest] by (cases out) simp_all
qed simp

lemma import_loop_each:
  "cache_agrees (cg_modules cg) cache \<Longrightarrow> import_each owner rows cg = (outs, cg') \<Longrightarrow>
   import_loop owner index rows cache imported failures cg =
     (imported + length (imported_questions outs), failures @ reported_failures index rows outs, cg')"
proof (induction rows arbitrary: cg cache outs cg' index imported failures)
  case (Cons row rows)
  obtain out cg1 where one: "import_alone owner row cg = (out, cg1)" by fastforce
  obtain outs' cg2 where rest: "import_each owner rows cg1 = (outs', cg2)" by fastforce
  have outs: "outs = out # outs'" "cg' = cg2" using Cons.prems(2) one rest by simp_all
  obtain cache' where row: "import_row owner row cache cg = (out, cache', cg1)" "cache_agrees (cg_modules cg) cache'"
    using import_row_alone[OF Cons.prems(1), of owner row] one by auto
  have "cache_agrees (cg_modules cg1) cache'" using row(2) import_alone_result[OF one] by simp
  from Cons.IH[OF this rest] show ?case using row(1) by (cases out) (simp_all add: outs)
qed simp

lemma failures_and_imports: "length outs = length rows \<Longrightarrow>
  length (imported_questions outs) + length (reported_failures n rows outs) = length rows"
proof (induction rows arbitrary: n outs)
  case (Cons row rows)
  then obtain out outs' where "outs = out # outs'" "length outs' = length rows" by (cases outs) auto
  with Cons.IH[of outs' "Suc n"] show ?case by (cases out) simp_all
qed simp

text \<open>A sheet is imported exactly as its rows would be one by one: the cache of modules
  changes nothing, a row that fails never undoes or stops another, the bank gains one new
  question per row that passes, in the order of the sheet, each a draft of the owner that
  is neither a sample nor a fork, and nothing else of the bank changes; every row is
  counted once as imported or failed, and each failure names its row as the spreadsheet
  numbers it, with its own reason.\<close>

theorem a_sheet_is_imported_row_by_row:
  "\<exists>outs cg'. import_each owner rows cg = (outs, cg') \<and> snd (importRows rows owner cg) = cg' \<and>
     fst (importRows rows owner cg) =
       \<lparr>bi_totalRows = length rows, bi_imported = length (imported_questions outs),
        bi_failed = length rows - length (imported_questions outs), bi_importedAs = DRAFT,
        bi_failures = reported_failures 0 rows outs\<rparr> \<and>
     length outs = length rows \<and> length (imported_questions outs) \<le> length rows \<and>
     rows_of cg' = rows_of cg @ imported_questions outs \<and> cg_modules cg' = cg_modules cg \<and> cg_answered cg' = cg_answered cg \<and>
     list_all (\<lambda>q. q_status q = DRAFT \<and> q_organisationId q = owner \<and> q_forkedFromId q = None \<and> \<not> q_isSample q)
       (imported_questions outs)"
proof -
  obtain outs cg' where each: "import_each owner rows cg = (outs, cg')" by fastforce
  have "cache_agrees (cg_modules cg) []" by (simp add: cache_agrees_def)
  note loop = import_loop_each[OF this each, of 0 0 "[]"]
  note result = import_each_result[OF each]
  then have "length (imported_questions outs) + length (reported_failures 0 rows outs) = length rows"
    using failures_and_imports by blast
  then show ?thesis using each loop result by (auto simp: importRows_def)
qed

subsection \<open>What is imported is authored\<close>

lemma weight_pairs_keyed: "well_keyed w \<Longrightarrow> weight_pairs column ps w = Inr w' \<Longrightarrow> well_keyed w'"
  by (induction column ps w rule: weight_pairs.induct) (auto simp: Let_def split: if_splits list.splits option.splits)

lemma parseTraitWeights_keyed: "parseTraitWeights raw column = Inr w \<Longrightarrow> well_keyed w"
  by (auto simp: parseTraitWeights_def bind_result_Inr dest: weight_pairs_keyed[OF well_keyed_Nil] split: if_splits)

lemma weighted_options_keyed:
  "weighted_options row letters = Inr options \<Longrightarrow> list_all (\<lambda>opt. well_keyed (po_traitWeights opt)) options"
proof (induction letters arbitrary: options)
  case (Cons letter letters)
  show ?case
  proof (cases "column_of row (''option_'' @ [letter])")
    case None
    with Cons show ?thesis by simp
  next
    case (Some t)
    with Cons.prems Cons.IH show ?thesis
      by (cases "column_of row (''option_'' @ [letter] @ ''_weights'')")
        (auto simp: Let_def bind_result_Inr dest: parseTraitWeights_keyed)
  qed
qed simp

lemma row_dto_json:
  assumes "row_dto modules row = Inr dto"
  shows "json_request (Create dto)"
proof (cases "cq_personality dto")
  case (Some d)
  with assms obtain m where "personality_payload row = Inr d"
    by (auto simp: row_dto_def rowToCreateDto_def bind_result_Inr Let_def split: option.splits if_splits)
  then have "weighted_options row OPTION_LETTERS = Inr (dp_options d)"
    by (auto simp: personality_payload_def bind_result_Inr Let_def case_prod_beta split: if_splits)
  from weighted_options_keyed[OF this] Some show ?thesis by (simp add: json_personality_def list_all_iff)
qed simp

lemma import_alone_steps:
  "import_alone owner row cg = (out, cg') \<Longrightarrow> cg' = cg \<or> catalogue_step cg cg'"
proof (cases "row_dto (cg_modules cg) row")
  case (Inr dto)
  note json = row_dto_json[OF this]
  assume "import_alone owner row cg = (out, cg')"
  then have "cg' = snd (createQuestion dto owner cg)" using Inr by (auto simp: import_alone_def split: prod.splits sum.splits)
  with json catalogue_step.seeded[OF json] catalogue_step.authored[OF json] show ?thesis by (cases owner) auto
qed (simp add: import_alone_def)

lemma import_each_reachable:
  "import_each owner rows cg = (outs, cg') \<Longrightarrow> reachable_catalogue modules cg \<Longrightarrow> reachable_catalogue modules cg'"
proof (induction rows arbitrary: cg outs cg')
  case (Cons row rows)
  obtain out cg1 where one: "import_alone owner row cg = (out, cg1)" by fastforce
  obtain outs' cg2 where rest: "import_each owner rows cg1 = (outs', cg2)" by fastforce
  have "reachable_catalogue modules cg1"
    using import_alone_steps[OF one] Cons.prems(2) by (auto intro: reachable_catalogue.step)
  from Cons.IH[OF rest this] show ?case using Cons.prems(1) one rest by simp
qed simp

text \<open>An import is a run of creations, so whatever the bank promises of authored questions
  holds of imported ones.\<close>

theorem an_imported_sheet_is_authored:
  assumes "reachable_catalogue modules cg"
  shows "reachable_catalogue modules (snd (importRows rows owner cg))"
proof -
  obtain outs cg' where each: "import_each owner rows cg = (outs, cg')" by fastforce
  have "cache_agrees (cg_modules cg) []" by (simp add: cache_agrees_def)
  from import_loop_each[OF this each, of 0 0 "[]"] import_each_reachable[OF each assms]
  show ?thesis by (simp add: importRows_def)
qed

text \<open>The mapper accepts a row of a trait module without a pattern as a legacy question; the
  bank refuses every one of them.\<close>

lemma patternless_rows_are_refused:
  assumes "row_dto (cg_modules cg) row = Inr dto" and "cq_personality dto = Some d" and "dp_pattern d = None"
  shows "\<exists>e. import_alone owner row cg = (Inl (Bank_problem e), cg)"
proof -
  have "cq_mcq dto = None" using assms(1,2)
    by (auto simp: row_dto_def rowToCreateDto_def bind_result_Inr Let_def split: option.splits if_splits)
  then have "\<exists>e. createQuestion dto owner cg = (Inl e, cg)" using assms(2,3)
    by (auto simp: createQuestion_def bind_p_def then_p_def reading_def of_result_def throw_def assertPayloadMatchesModule_def
        assertValidPersonality_def Let_def split: option.splits sum.splits)
  with assms(1) show ?thesis by (auto simp: import_alone_def)
qed

end
