(* ===== verification/Access_Properties.thy ===== *)
theory Access_Properties
  imports Access Bulk_Import
begin

section \<open>The properties of routes, guards and the audit trail\<close>

text \<open>
  Who reaches which method, read off the table of routes once and for all; what a member of
  the lowest role can still write; and what the audit trail keeps of a request.
\<close>

subsection \<open>The table\<close>

definition handler_name :: "route \<Rightarrow> string \<times> string" where
  "handler_name r = (rt_controller r, ep_handler (rt_endpoint r))"

definition public_handlers :: "(string \<times> string) list" where
  "public_handlers = [('''', ''health''), (''auth'', ''register''), (''auth'', ''login''), (''auth'', ''refresh''),
     (''auth'', ''forgotPassword''), (''auth'', ''resetPassword''), (''public/assessments'', ''intro''),
     (''public/assessments'', ''check''), (''public/assessments'', ''enter'')]"

definition candidate_handlers :: "(string \<times> string) list" where
  "candidate_handlers = [(''users'', ''me''), (''users'', ''updateMe''), (''users'', ''changePassword''), (''auth'', ''logout''),
     (''auth'', ''me''), (''modules'', ''findAll''), (''modules'', ''findOne''), ('''', ''mine''), ('''', ''myAttempt''),
     ('''', ''myPractice''), (''sessions'', ''start''), (''sessions'', ''nextQuestion''), (''sessions'', ''startModule''),
     (''sessions'', ''answer'')]"

definition viewer_writes :: "(string \<times> string) list" where
  "viewer_writes = [(''users'', ''updateMe''), (''users'', ''changePassword''), (''auth'', ''logout''),
     (''questions/bulk-import'', ''upload''), (''reports'', ''exportCohort''), (''reports'', ''regenerate'')]"

text \<open>What the decorators of a route ask of an account, whoever it is.\<close>

definition role_admitted :: "user_role \<Rightarrow> route \<Rightarrow> bool" where
  "role_admitted role r \<longleftrightarrow> \<not> ep_public (rt_endpoint r) \<and> (case rt_roles r of None \<Rightarrow> True | Some rs \<Rightarrow> rs = [] \<or> role \<in> set rs)"

definition floor_admitted :: "org_role option \<Rightarrow> route \<Rightarrow> bool" where
  "floor_admitted own r \<longleftrightarrow> (case ep_minOrgRole (rt_endpoint r) of None \<Rightarrow> True
     | Some needed \<Rightarrow> (case own of None \<Rightarrow> False | Some o' \<Rightarrow> ORG_ROLE_RANK needed \<le> ORG_ROLE_RANK o'))"

lemma table_public: "map handler_name (filter (\<lambda>r. ep_public (rt_endpoint r)) routes) = public_handlers"
  by code_simp

lemma table_candidate: "map handler_name (filter (role_admitted CANDIDATE) routes) = candidate_handlers"
  by code_simp

lemma table_viewer:
  "map handler_name (filter (\<lambda>r. ep_method (rt_endpoint r) \<noteq> GET \<and> role_admitted RECRUITER_ADMIN r \<and> floor_admitted (Some VIEWER) r) routes) =
     viewer_writes"
  by code_simp

lemma table_scoped: "list_all (\<lambda>r. (ep_currentOrg (rt_endpoint r) \<longrightarrow> rt_roles r = Some [RECRUITER_ADMIN]) \<and>
    (ep_refreshCookie (rt_endpoint r) \<longrightarrow> ep_public (rt_endpoint r)) \<and>
    (ep_public (rt_endpoint r) \<longrightarrow> rt_roles r = None \<and> ep_minOrgRole (rt_endpoint r) = None \<and> \<not> ep_currentOrg (rt_endpoint r))) routes"
  by code_simp


subsection \<open>Who is admitted\<close>

lemma resolve_route_in: "resolve_route m p = Some (r, params) \<Longrightarrow> r \<in> set routes \<and> ep_method (rt_endpoint r) = m"
  by (auto simp: resolve_route_def find_Some_iff split: option.splits)

lemma in_table: "r \<in> set routes \<Longrightarrow> P r \<Longrightarrow> handler_name r \<in> set (map handler_name (filter P routes))"
  by auto

lemma scoped_route:
  assumes "r \<in> set routes"
  shows "ep_currentOrg (rt_endpoint r) \<Longrightarrow> rt_roles r = Some [RECRUITER_ADMIN]"
    "ep_refreshCookie (rt_endpoint r) \<Longrightarrow> ep_public (rt_endpoint r)"
    "ep_public (rt_endpoint r) \<Longrightarrow> rt_roles r = None \<and> ep_minOrgRole (rt_endpoint r) = None \<and> \<not> ep_currentOrg (rt_endpoint r)"
  using table_scoped assms by (auto simp: list_all_iff)

lemma validate_access_Some:
  "validate_access users sub = Some u \<Longrightarrow> u \<in> set users \<and> us_id u = sub \<and> us_isActive u"
  by (auto simp: validate_access_def find_Some_iff split: option.splits if_splits)

text \<open>A guarded route that is not public is reached by an account, and by no other caller.\<close>

lemma guarded_private:
  assumes "r \<in> set routes" and "\<not> ep_public (rt_endpoint r)"
  shows "guarded verify verifyRefresh users r rq = Inr who \<longleftrightarrow>
    (\<exists>u. who = Account u \<and> Option.bind (Option.bind (rq_bearer rq) verify) (validate_access users) = Some u \<and>
       role_admitted (us_role u) r \<and> floor_admitted (us_orgRole u) r)"
  using assms scoped_route(2)[OF assms(1)]
  by (auto simp: guarded_def bind_result_Inr jwt_guard_def roles_guard_def org_roles_guard_def refresh_guard_def
      role_admitted_def floor_admitted_def org_role_allows_def split: option.splits if_splits)

lemma guarded_public:
  assumes "r \<in> set routes" and "ep_public (rt_endpoint r)" and "guarded verify verifyRefresh users r rq = Inr who"
  shows "who = Anonymous \<or> (\<exists>sub t. who = Refreshing sub t)"
  using assms scoped_route(3)[OF assms(1)]
  by (auto simp: guarded_def bind_result_Inr jwt_guard_def roles_guard_def org_roles_guard_def refresh_guard_def
      split: option.splits if_splits)

lemma dispatch_parts:
  assumes "dispatch verify verifyRefresh users rq = Inr call"
  shows "resolve_route (rq_method rq) (rq_path rq) = Some (iv_route call, iv_params call)"
    "guarded verify verifyRefresh users (iv_route call) rq = Inr (iv_caller call)"
    "bound_arguments (iv_route call) (iv_params call) (iv_caller call) = Inr (iv_caller call, iv_org call)"
  using assms by (auto simp: dispatch_def bind_result_Inr bound_arguments_def split: option.splits if_splits)


subsection \<open>Paths\<close>

lemma split_on_whole: "c \<notin> set s \<Longrightarrow> split_on c s = [s]"
  by (induction s) auto

lemma split_on_first: "c \<notin> set s \<Longrightarrow> split_on c (s @ c # rest) = s # split_on c rest"
  by (induction s) auto

lemma split_on_chars: "x \<in> set s \<Longrightarrow> x = c \<or> x \<in> set (concat (split_on c s))"
  by (induction s) (auto split: list.splits)

lemma uuid_chars:
  assumes "is_uuid s"
  shows "CHR ''/'' \<notin> set s" and "s \<noteq> ''''"
proof -
  have "list_all hex_digit (concat (split_on (CHR ''-'') s))" using assms by (simp add: is_uuid_def)
  moreover have "\<not> hex_digit (CHR ''/'')" by (simp add: hex_digit_def)
  ultimately have "CHR ''/'' \<notin> set (concat (split_on (CHR ''-'') s))" unfolding list_all_iff by blast
  then show "CHR ''/'' \<notin> set s" using split_on_chars[of "CHR ''/''" s "CHR ''-''"] by auto
  show "s \<noteq> ''''" using assms by (auto simp: is_uuid_def)
qed

lemma resolved_segments:
  assumes "request_segments p = Some ss"
  shows "resolve_route m p =
     (case List.find (\<lambda>r. ep_method (rt_endpoint r) = m \<and> match_path (rt_path r) ss \<noteq> None) routes of
        None \<Rightarrow> None | Some r \<Rightarrow> map_option (Pair r) (match_path (rt_path r) ss))"
  using assms by (simp add: resolve_route_def)

subsection \<open>What a viewer writes\<close>

definition route_facts :: "route \<times> string jsobj \<Rightarrow> (string \<times> string) \<times> string jsobj \<times> string list \<times> bool \<times> bool \<times> bool" where
  "route_facts = (\<lambda>(r, ps). (handler_name r, ps, ep_uuids (rt_endpoint r), ep_currentOrg (rt_endpoint r),
     role_admitted RECRUITER_ADMIN r, floor_admitted (Some VIEWER) r))"

lemma resolve_question_routes:
  "map_option route_facts (resolve_route POST ''/api/questions'') = Some ((''questions'', ''create''), [], [], True, True, False)"
  "map_option route_facts (resolve_route POST ''/api/questions/bulk-import'') =
     Some ((''questions/bulk-import'', ''upload''), [], [], True, True, True)"
  by code_simp+

text \<open>A route reached by an account, from the facts of the table.\<close>

lemma dispatch_account:
  assumes "map_option route_facts (resolve_route (rq_method rq) (rq_path rq)) = Some (h, ps, uuids, scoped, True, low)"
    and "Option.bind (Option.bind (rq_bearer rq) verify) (validate_access users) = Some u"
    and "us_role u = RECRUITER_ADMIN" and "us_orgRole u = Some VIEWER" and "truthy (us_organisationId u) = Some i"
    and "list_all (\<lambda>p. case obj_get ps p of None \<Rightarrow> False | Some x \<Rightarrow> is_uuid x) uuids"
  shows "if low then \<exists>call. dispatch verify verifyRefresh users rq = Inr call \<and> handler_name (iv_route call) = h \<and>
      iv_params call = ps \<and> iv_caller call = Account u \<and> iv_org call = (if scoped then Some i else None)
    else dispatch verify verifyRefresh users rq = Inl Forbidden"
proof -
  obtain r where resolved: "resolve_route (rq_method rq) (rq_path rq) = Some (r, ps)" and facts: "handler_name r = h"
      "ep_uuids (rt_endpoint r) = uuids" "ep_currentOrg (rt_endpoint r) = scoped" "role_admitted RECRUITER_ADMIN r"
      "floor_admitted (Some VIEWER) r = low"
    using assms(1) by (auto simp: route_facts_def)
  have r: "r \<in> set routes" "\<not> ep_public (rt_endpoint r)"
    using resolve_route_in[OF resolved] facts(4) by (simp_all add: role_admitted_def)
  have uuids: "list_all (\<lambda>p. case obj_get ps p of None \<Rightarrow> False | Some x \<Rightarrow> is_uuid x) (ep_uuids (rt_endpoint r))"
    using assms(6) facts(2) by simp
  show ?thesis
  proof (cases low)
    case True
    have "guarded verify verifyRefresh users r rq = Inr (Account u)"
      using guarded_private[OF r, of verify verifyRefresh users rq "Account u"] assms(2-4) facts(4,5) True by simp
    then have "dispatch verify verifyRefresh users rq =
        Inr \<lparr>iv_route = r, iv_params = ps, iv_caller = Account u, iv_org = if scoped then Some i else None\<rparr>"
      using assms(5) facts(3) uuids by (simp add: dispatch_def resolved bound_arguments_def CurrentOrg_def)
    with True facts(1) show ?thesis by simp
  next
    case False
    have "jwt_guard verify users (rt_endpoint r) (rq_bearer rq) = Inr (Account u)" using assms(2) r(2) by (simp add: jwt_guard_def)
    moreover have "roles_guard (rt_roles r) (Account u) = Inr (Account u)"
      using facts(4) assms(3) by (auto simp: roles_guard_def role_admitted_def split: option.splits)
    moreover have "org_roles_guard (ep_minOrgRole (rt_endpoint r)) (Account u) = Inl Forbidden"
      using facts(5) False assms(4) by (auto simp: org_roles_guard_def floor_admitted_def org_role_allows_def split: option.splits)
    ultimately have "guarded verify verifyRefresh users r rq = Inl Forbidden" by (simp add: guarded_def)
    with False show ?thesis by (simp add: dispatch_def resolved)
  qed
qed

definition sheet_row :: raw_row where
  "sheet_row = [(''module_slug'', ''numeracy''), (''question_text'', ''2 + 2''), (''option_a'', ''1''), (''option_b'', ''2''),
     (''option_c'', ''3''), (''option_d'', ''4''), (''correct_option'', ''d'')]"

lemma sheet_row_imported:
  "map (\<lambda>q. (q_organisationId q, q_status q)) (rows_of (snd (importRows [sheet_row] (Some i) empty_catalogue))) = [(Some i, DRAFT)]"
  by code_simp

text \<open>The lowest role of a workspace reads everything and is meant to change nothing; the
  routes let it write six things. Besides the own name, the own password and signing out it
  exports a cohort, recomputes a report, and imports a sheet of questions: the import has no
  floor on the role, so a viewer who is refused the creation of one question adds any number
  of them to the bank of the organisation by uploading them.\<close>

theorem a_viewer_writes_questions_by_importing:
  assumes "Option.bind (Option.bind (rq_bearer rq) verify) (validate_access users) = Some u"
    and "us_role u = RECRUITER_ADMIN" and "us_orgRole u = Some VIEWER" and "us_organisationId u = Some i" and "i \<noteq> ''''"
  shows "map handler_name (filter (\<lambda>r. ep_method (rt_endpoint r) \<noteq> GET \<and>
       guarded verify verifyRefresh users r rq = Inr (Account u)) routes) = viewer_writes \<and>
     dispatch verify verifyRefresh users (rq\<lparr>rq_method := POST, rq_path := ''/api/questions''\<rparr>) = Inl Forbidden \<and>
     (\<exists>call. dispatch verify verifyRefresh users (rq\<lparr>rq_method := POST, rq_path := ''/api/questions/bulk-import''\<rparr>) = Inr call \<and>
        iv_caller call = Account u \<and> handler_name (iv_route call) = (''questions/bulk-import'', ''upload'') \<and>
        map (\<lambda>q. (q_organisationId q, q_status q)) (rows_of (snd (importRows [sheet_row] (iv_org call) empty_catalogue))) = [(Some i, DRAFT)])"
proof (intro conjI)
  let ?rq = "\<lambda>p. rq\<lparr>rq_method := POST, rq_path := p\<rparr>"
  have org: "truthy (us_organisationId u) = Some i" using assms(4,5) by (simp add: truthy_def)
  have "guarded verify verifyRefresh users r rq = Inr (Account u) \<longleftrightarrow> role_admitted RECRUITER_ADMIN r \<and> floor_admitted (Some VIEWER) r"
    if r: "r \<in> set routes" for r
  proof (cases "ep_public (rt_endpoint r)")
    case True
    then show ?thesis using guarded_public[OF r True] unfolding role_admitted_def by blast
  next
    case False
    show ?thesis unfolding guarded_private[OF r False] using assms(1-3) by simp
  qed
  then have "filter (\<lambda>r. ep_method (rt_endpoint r) \<noteq> GET \<and> guarded verify verifyRefresh users r rq = Inr (Account u)) routes =
      filter (\<lambda>r. ep_method (rt_endpoint r) \<noteq> GET \<and> role_admitted RECRUITER_ADMIN r \<and> floor_admitted (Some VIEWER) r) routes"
    by (intro filter_cong[OF refl]) blast
  then show "map handler_name (filter (\<lambda>r. ep_method (rt_endpoint r) \<noteq> GET \<and>
       guarded verify verifyRefresh users r rq = Inr (Account u)) routes) = viewer_writes" by (simp only: table_viewer)
  have no_uuids: "list_all (\<lambda>p. case obj_get [] p of None \<Rightarrow> False | Some x \<Rightarrow> is_uuid x) []" by simp
  have bearer: "Option.bind (Option.bind (rq_bearer (?rq p)) verify) (validate_access users) = Some u" for p using assms(1) by simp
  have facts: "map_option route_facts (resolve_route (rq_method (?rq ''/api/questions'')) (rq_path (?rq ''/api/questions''))) =
      Some ((''questions'', ''create''), [], [], True, True, False)"
    "map_option route_facts (resolve_route (rq_method (?rq ''/api/questions/bulk-import'')) (rq_path (?rq ''/api/questions/bulk-import''))) =
      Some ((''questions/bulk-import'', ''upload''), [], [], True, True, True)"
    by (simp_all add: resolve_question_routes)
  show "dispatch verify verifyRefresh users (?rq ''/api/questions'') = Inl Forbidden"
    using dispatch_account[OF facts(1) bearer assms(2,3) org no_uuids] by (simp only: if_False)
  obtain call where call: "dispatch verify verifyRefresh users (?rq ''/api/questions/bulk-import'') = Inr call"
      "handler_name (iv_route call) = (''questions/bulk-import'', ''upload'')" "iv_caller call = Account u" "iv_org call = Some i"
    using dispatch_account[OF facts(2) bearer assms(2,3) org no_uuids, of verifyRefresh] unfolding if_True by blast
  show "\<exists>call. dispatch verify verifyRefresh users (?rq ''/api/questions/bulk-import'') = Inr call \<and>
        iv_caller call = Account u \<and> handler_name (iv_route call) = (''questions/bulk-import'', ''upload'') \<and>
        map (\<lambda>q. (q_organisationId q, q_status q)) (rows_of (snd (importRows [sheet_row] (iv_org call) empty_catalogue))) = [(Some i, DRAFT)]"
    by (intro exI[of _ call] conjI call) (simp only: call(4) sheet_row_imported)
qed

definition viewing_user :: user_row where
  "viewing_user = blank_user\<lparr>us_id := ''v'', us_role := RECRUITER_ADMIN, us_organisationId := Some ''org'', us_orgRole := Some VIEWER\<rparr>"

definition viewing_request :: http_request where
  "viewing_request = \<lparr>rq_method = GET, rq_path = ''/api/questions'', rq_bearer = Some ''v'', rq_cookie = None\<rparr>"

lemma viewing_account: "Option.bind (Option.bind (rq_bearer viewing_request) Some) (validate_access [viewing_user]) = Some viewing_user"
  by (simp add: viewing_request_def viewing_user_def validate_access_def blank_user_def)

theorem a_viewer_writes_questions_by_importing_witness:
  "dispatch Some Some [viewing_user] (viewing_request\<lparr>rq_method := POST, rq_path := ''/api/questions''\<rparr>) = Inl Forbidden \<and>
   (\<exists>call. dispatch Some Some [viewing_user] (viewing_request\<lparr>rq_method := POST, rq_path := ''/api/questions/bulk-import''\<rparr>) = Inr call \<and>
      iv_caller call = Account viewing_user)"
proof -
  have "us_role viewing_user = RECRUITER_ADMIN" "us_orgRole viewing_user = Some VIEWER" "us_organisationId viewing_user = Some ''org''" "''org'' \<noteq> ''''"
    by (simp_all add: viewing_user_def blank_user_def)
  from a_viewer_writes_questions_by_importing[OF viewing_account this, of Some] show ?thesis by blast
qed


end
