(* ===== verification/Audit_Properties.thy ===== *)
theory Audit_Properties
  imports Access_Properties
begin

section \<open>The properties of the audit trail\<close>

text \<open>What the trail keeps of a request, which requests leave one, and how a report is read
  without any.\<close>

subsection \<open>The trail\<close>

lemma split_on_prefix: "c \<notin> set a \<Longrightarrow> split_on c (a @ rest) = (a @ hd (split_on c rest)) # tl (split_on c rest)"
proof (induction a)
  case Nil
  then show ?case by (cases rest) (auto split: list.splits)
qed auto

lemma resolve_segments:
  "resolve_route m p = Some (r, params) \<Longrightarrow> \<exists>ss. request_segments p = Some ss \<and> match_path (rt_path r) ss = Some params \<and> r \<in> set routes"
  by (auto simp: resolve_route_def find_Some_iff split: option.splits)

lemma request_segments_prefix:
  assumes "CHR ''/'' \<notin> set a" and "CHR ''/'' \<notin> set b" and "b \<noteq> ''''"
    and "request_segments (CHR ''/'' # a @ CHR ''/'' # b @ rest) = Some ss"
  shows "\<exists>x xs. ss = a # (b @ x) # xs"
proof -
  have split: "split_on (CHR ''/'') (a @ CHR ''/'' # b @ rest) = a # (b @ hd (split_on (CHR ''/'') rest)) # tl (split_on (CHR ''/'') rest)"
    by (simp only: split_on_first[OF assms(1)] split_on_prefix[OF assms(2)])
  with assms(3,4) show ?thesis
    by (cases "tl (split_on (CHR ''/'') rest)") (auto simp: request_segments_def Let_def split: if_splits)
qed

lemma starts_with_iff: "starts_with a p \<longleftrightarrow> (\<exists>rest. p = a @ rest)"
  by (metis append_take_drop_id append_eq_conv_conj starts_with_def)

lemma js_toLowerCase_append: "js_toLowerCase (a @ b) = js_toLowerCase a @ js_toLowerCase b"
  by (simp add: js_toLowerCase_def)

definition second_segment :: "route \<Rightarrow> string" where
  "second_segment r = (case rt_path r of _ # Literal b # _ \<Rightarrow> js_toLowerCase b | _ \<Rightarrow> ''sessions'')"

lemma table_segments:
  "list_all (\<lambda>r. (if starts_with ''sessions'' (second_segment r) then rt_controller r = ''sessions'' else True) \<and>
     (case rt_path r of Literal a # Literal b # Literal c # _ \<Rightarrow>
        if js_toLowerCase b = ''auth'' \<and> starts_with ''refresh'' (js_toLowerCase c) then handler_name r = (''auth'', ''refresh'') else True
      | _ # Literal b # Parameter c # _ \<Rightarrow> js_toLowerCase b \<noteq> ''auth'' | _ # Parameter _ # _ \<Rightarrow> False | Parameter _ # _ \<Rightarrow> False | _ \<Rightarrow> True)) routes"
  by code_simp

lemma unaudited_sessions:
  assumes "resolve_route m p = Some (r, params)" and "starts_with ''/api/sessions'' p"
  shows "rt_controller r = ''sessions''"
proof -
  obtain ss where ss: "request_segments p = Some ss" "match_path (rt_path r) ss = Some params" "r \<in> set routes"
    using resolve_segments[OF assms(1)] by auto
  obtain rest where "p = ''/api/sessions'' @ rest" using assms(2) by (auto simp only: starts_with_iff)
  then have "request_segments (CHR ''/'' # ''api'' @ CHR ''/'' # ''sessions'' @ rest) = Some ss" using ss(1) by simp
  from request_segments_prefix[OF _ _ _ this] obtain x xs where "ss = ''api'' # (''sessions'' @ x) # xs" by auto
  with ss(2) have "starts_with ''sessions'' (second_segment r)"
    unfolding second_segment_def
    by (cases "rt_path r" rule: list.exhaust; cases "tl (rt_path r)"; cases "hd (rt_path r)"; cases "hd (tl (rt_path r))")
      (auto simp: js_toLowerCase_append starts_with_def js_toLowerCase_def lower_char_def split: if_splits)
  with table_segments ss(3) show ?thesis by (auto simp: list_all_iff)
qed

lemma match_path_lower: "match_path ps ss = Some m \<Longrightarrow>
    list_all2 (\<lambda>s x. case s of Literal b \<Rightarrow> js_toLowerCase b = js_toLowerCase x | Parameter _ \<Rightarrow> True) ps ss"
  by (induction ps ss arbitrary: m rule: match_path.induct) (auto split: if_splits)

lemma request_segments_prefix3:
  assumes "CHR ''/'' \<notin> set a" and "CHR ''/'' \<notin> set b" and "CHR ''/'' \<notin> set c" and "c \<noteq> ''''"
    and "request_segments (CHR ''/'' # a @ CHR ''/'' # b @ CHR ''/'' # c @ rest) = Some ss"
  shows "\<exists>x xs. ss = a # b # (c @ x) # xs"
proof -
  have split: "split_on (CHR ''/'') (a @ CHR ''/'' # b @ CHR ''/'' # c @ rest) =
      a # b # (c @ hd (split_on (CHR ''/'') rest)) # tl (split_on (CHR ''/'') rest)"
    by (simp only: split_on_first[OF assms(1)] split_on_first[OF assms(2)] split_on_prefix[OF assms(3)])
  with assms(4,5) show ?thesis
    by (cases "tl (split_on (CHR ''/'') rest)") (auto simp: request_segments_def Let_def split: if_splits)
qed

lemma unaudited_refresh:
  assumes "resolve_route m p = Some (r, params)" and "starts_with ''/api/auth/refresh'' p"
  shows "handler_name r = (''auth'', ''refresh'')"
proof -
  obtain ss where ss: "request_segments p = Some ss" "match_path (rt_path r) ss = Some params" "r \<in> set routes"
    using resolve_segments[OF assms(1)] by auto
  obtain rest where "p = ''/api/auth/refresh'' @ rest" using assms(2) by (auto simp only: starts_with_iff)
  then have "request_segments (CHR ''/'' # ''api'' @ CHR ''/'' # ''auth'' @ CHR ''/'' # ''refresh'' @ rest) = Some ss" using ss(1) by simp
  from request_segments_prefix3[OF _ _ _ _ this] obtain x xs where "ss = ''api'' # ''auth'' # (''refresh'' @ x) # xs" by auto
  then obtain y where whole: "ss = ''api'' # ''auth'' # y # xs" and y: "y = ''refresh'' @ x" by blast
  have table: "case rt_path r of Literal a # Literal b # Literal c # _ \<Rightarrow>
        if js_toLowerCase b = ''auth'' \<and> starts_with ''refresh'' (js_toLowerCase c) then handler_name r = (''auth'', ''refresh'') else True
      | _ # Literal b # Parameter c # _ \<Rightarrow> js_toLowerCase b \<noteq> ''auth'' | _ # Parameter _ # _ \<Rightarrow> False | Parameter _ # _ \<Rightarrow> False | _ \<Rightarrow> True"
    using table_segments ss(3) by (simp add: list_all_iff)
  have "list_all2 (\<lambda>s x. case s of Literal b \<Rightarrow> js_toLowerCase b = js_toLowerCase x | Parameter _ \<Rightarrow> True) (rt_path r) ss"
    using ss(2) by (rule match_path_lower)
  then obtain p1 p2 p3 ps where path: "rt_path r = p1 # p2 # p3 # ps"
    "case p2 of Literal b \<Rightarrow> js_toLowerCase b = js_toLowerCase ''auth'' | Parameter _ \<Rightarrow> True"
    "case p3 of Literal b \<Rightarrow> js_toLowerCase b = js_toLowerCase y | Parameter _ \<Rightarrow> True"
    unfolding whole by (auto simp: list_all2_Cons2)
  have "js_toLowerCase ''auth'' = ''auth''" "starts_with ''refresh'' (js_toLowerCase y)"
    by (simp_all add: y starts_with_def js_toLowerCase_def lower_char_def)
  with path table show ?thesis by (cases p1; cases p2; cases p3) simp_all
qed

lemma write_audited:
  assumes "resolve_route m p = Some (r, params)" and "m \<noteq> GET" and "rt_controller r \<noteq> ''sessions''"
    and "handler_name r \<noteq> (''auth'', ''refresh'')"
  shows "shouldAudit m p"
  using assms unaudited_sessions[OF assms(1)] unaudited_refresh[OF assms(1)]
  by (auto simp: shouldAudit_def UNAUDITED_PREFIXES_def)

text \<open>Whoever writes leaves a trace. Every request past the guards that is not a read,
  other than the run of an attempt and the rotation of a session, appends exactly one entry,
  whether the method succeeded or not, under the account it was made by, with the status it
  was answered with; the entry holds of the path only its pattern, its collection and the
  identifiers in it. A request the guards turn away leaves nothing.\<close>

theorem every_write_leaves_a_trace:
  assumes "resolve_route (rq_method rq) (rq_path rq) = Some (r, params)" and "rq_method rq \<noteq> GET"
    and "rt_controller r \<noteq> ''sessions''" and "handler_name r \<noteq> (''auth'', ''refresh'')"
  shows "case guarded verify verifyRefresh users r rq of
      Inl e \<Rightarrow> serve_request verify verifyRefresh users run rq = (status_of e, [])
    | Inr who \<Rightarrow> (\<exists>entry. snd (serve_request verify verifyRefresh users run rq) = [entry] \<and>
        au_actorId entry = (case who of Account u \<Rightarrow> Some (us_id u) | _ \<Rightarrow> None) \<and>
        au_statusCode entry = fst (serve_request verify verifyRefresh users run rq) \<and>
        au_action entry = take 160 (method_name (rq_method rq) @ '' '' @ route_pattern r) \<and>
        list_all (\<lambda>x. is_uuid x) (map snd (au_params entry)) \<and>
        (case au_resourceId entry of None \<Rightarrow> True | Some x \<Rightarrow> is_uuid x))"
proof (cases "guarded verify verifyRefresh users r rq")
  case (Inl e)
  with assms(1) show ?thesis by (simp add: serve_request_def)
next
  case (Inr who)
  have "case resourceIdFrom params of None \<Rightarrow> True | Some x \<Rightarrow> is_uuid x"
    by (auto simp: resourceIdFrom_def map_filter_simps split: option.splits)
  with assms(1) Inr write_audited[OF assms] show ?thesis
    by (auto simp: serve_request_def Let_def audit_record_def idParams_def list_all_iff)
qed

subsection \<open>A read that leaves none\<close>

definition first_match :: "http_method \<Rightarrow> string list \<Rightarrow> (route \<times> string jsobj) option" where
  "first_match m ss =
     (case List.find (\<lambda>r. ep_method (rt_endpoint r) = m \<and> match_path (rt_path r) ss \<noteq> None) routes of
        None \<Rightarrow> None | Some r \<Rightarrow> map_option (Pair r) (match_path (rt_path r) ss))"

lemma report_segments:
  "map_option route_facts (first_match GET [''api'', ''reports'', ''sessions'', c # cs]) =
     Some ((''reports'', ''summary''), [(''sessionId'', c # cs)], [''sessionId''], True, True, True)"
  by code_simp

lemma table_literal: "list_all (\<lambda>r. case rt_path r of Literal _ # Literal _ # _ \<Rightarrow> True | _ \<Rightarrow> False) routes"
  by code_simp

lemma match_path_case:
  assumes "r \<in> set routes" and "js_toLowerCase a = js_toLowerCase a'"
  shows "match_path (rt_path r) (''api'' # a # ss) = match_path (rt_path r) (''api'' # a' # ss)"
proof -
  have "case rt_path r of Literal _ # Literal _ # _ \<Rightarrow> True | _ \<Rightarrow> False" using table_literal assms(1) by (simp add: list_all_iff)
  then obtain p q ps where "rt_path r = Literal p # Literal q # ps" by (auto split: list.splits segment.splits)
  with assms(2) show ?thesis by simp
qed

lemma first_match_case:
  assumes "js_toLowerCase a = js_toLowerCase a'"
  shows "first_match m (''api'' # a # ss) = first_match m (''api'' # a' # ss)"
proof -
  have "List.find (\<lambda>r. ep_method (rt_endpoint r) = m \<and> match_path (rt_path r) (''api'' # a # ss) \<noteq> None) routes =
      List.find (\<lambda>r. ep_method (rt_endpoint r) = m \<and> match_path (rt_path r) (''api'' # a' # ss) \<noteq> None) routes"
    by (rule find_cong[OF refl]) (simp add: match_path_case[OF _ assms])
  moreover have "match_path (rt_path r) (''api'' # a # ss) = match_path (rt_path r) (''api'' # a' # ss)"
    if "List.find (\<lambda>r. ep_method (rt_endpoint r) = m \<and> match_path (rt_path r) (''api'' # a' # ss) \<noteq> None) routes = Some r" for r
    using that by (intro match_path_case[OF _ assms]) (auto simp: find_Some_iff)
  ultimately show ?thesis unfolding first_match_def by (simp only: split: option.split) simp
qed

fun slashed :: "string list \<Rightarrow> string" where
  "slashed [] = []"
| "slashed (x # xs) = CHR ''/'' # x @ slashed xs"

lemma split_on_slashed:
  "CHR ''/'' \<notin> set x \<Longrightarrow> list_all (\<lambda>a. CHR ''/'' \<notin> set a) xs \<Longrightarrow> split_on (CHR ''/'') (x @ slashed xs) = x # xs"
  by (induction xs arbitrary: x) (simp_all add: split_on_whole split_on_first)

lemma request_segments_slashed:
  assumes "list_all (\<lambda>a. CHR ''/'' \<notin> set a) (x # xs)" and "last (x # xs) \<noteq> ''''"
  shows "request_segments (slashed (x # xs)) = Some (x # xs)"
  using assms split_on_slashed[of x xs] by (simp add: request_segments_def Let_def)

lemma resolve_first_match:
  "request_segments p = Some ss \<Longrightarrow> resolve_route m p = first_match m ss"
  by (simp add: resolve_route_def first_match_def)

lemma report_path:
  assumes "is_uuid s"
  shows "resolve_route GET (''/api/reports/sessions/'' @ s) = first_match GET [''api'', ''reports'', ''sessions'', s]"
    and "resolve_route GET (''/api/Reports/sessions/'' @ s) = first_match GET [''api'', ''reports'', ''sessions'', s]"
proof -
  note s = uuid_chars[OF assms]
  have paths: "''/api/reports/sessions/'' @ s = slashed [''api'', ''reports'', ''sessions'', s]"
    "''/api/Reports/sessions/'' @ s = slashed [''api'', ''Reports'', ''sessions'', s]" by simp_all
  have segments: "request_segments (slashed [''api'', ''reports'', ''sessions'', s]) = Some [''api'', ''reports'', ''sessions'', s]"
    "request_segments (slashed [''api'', ''Reports'', ''sessions'', s]) = Some [''api'', ''Reports'', ''sessions'', s]"
    by (intro request_segments_slashed; simp add: s)+
  have "js_toLowerCase ''Reports'' = js_toLowerCase ''reports''" by code_simp
  then show "resolve_route GET (''/api/Reports/sessions/'' @ s) = first_match GET [''api'', ''reports'', ''sessions'', s]"
    unfolding paths(2) resolve_first_match[OF segments(2)] by (rule first_match_case)
  show "resolve_route GET (''/api/reports/sessions/'' @ s) = first_match GET [''api'', ''reports'', ''sessions'', s]"
    unfolding paths(1) by (rule resolve_first_match[OF segments(1)])
qed

lemma report_read_twice:
  assumes "Option.bind (Option.bind bearer verify) (validate_access users) = Some u"
    and "us_role u = RECRUITER_ADMIN" and "us_orgRole u = Some VIEWER" and "us_organisationId u = Some i" and "i \<noteq> ''''"
    and "is_uuid s" and "resolve_route GET p = first_match GET [''api'', ''reports'', ''sessions'', s]"
    and "resolve_route GET p' = first_match GET [''api'', ''reports'', ''sessions'', s]"
    and "shouldAudit GET p" and "\<not> shouldAudit GET p'"
  defines "q \<equiv> \<lparr>rq_method = GET, rq_path = p, rq_bearer = bearer, rq_cookie = None\<rparr>"
    and "q' \<equiv> \<lparr>rq_method = GET, rq_path = p', rq_bearer = bearer, rq_cookie = None\<rparr>"
  shows "(\<exists>call. dispatch verify verifyRefresh users q = Inr call \<and> dispatch verify verifyRefresh users q' = Inr call \<and>
        handler_name (iv_route call) = (''reports'', ''summary'') \<and> iv_params call = [(''sessionId'', s)] \<and> iv_org call = Some i) \<and>
     (\<exists>entry. snd (serve_request verify verifyRefresh users run q) = [entry] \<and> au_actorId entry = Some (us_id u) \<and>
        au_resourceId entry = Some s) \<and>
     serve_request verify verifyRefresh users run q' = (fst (serve_request verify verifyRefresh users run q), [])"
proof -
  obtain c cs where s: "s = c # cs" using uuid_chars(2)[OF assms(6)] by (cases s) auto
  obtain r where r: "first_match GET [''api'', ''reports'', ''sessions'', s] = Some (r, [(''sessionId'', s)])"
      "route_facts (r, [(''sessionId'', s)]) = ((''reports'', ''summary''), [(''sessionId'', s)], [''sessionId''], True, True, True)"
    using report_segments[of c cs] unfolding s[symmetric] by (auto simp: route_facts_def)
  have fields: "rq_method q = GET" "rq_method q' = GET" "rq_path q = p" "rq_path q' = p'" "rq_bearer q = bearer"
    by (simp_all add: q_def q'_def)
  have resolved: "resolve_route GET p = Some (r, [(''sessionId'', s)])" "resolve_route GET p' = Some (r, [(''sessionId'', s)])"
    using assms(7,8) r(1) by simp_all
  have facts: "map_option route_facts (resolve_route (rq_method q) (rq_path q)) =
      Some ((''reports'', ''summary''), [(''sessionId'', s)], [''sessionId''], True, True, True)"
    using r(2) resolved(1) by (simp add: fields)
  have org: "truthy (us_organisationId u) = Some i" using assms(4,5) by (simp add: truthy_def)
  have uuids: "list_all (\<lambda>p. case obj_get [(''sessionId'', s)] p of None \<Rightarrow> False | Some x \<Rightarrow> is_uuid x) [''sessionId'']"
    using assms(6) by simp
  obtain call where call: "dispatch verify verifyRefresh users q = Inr call" "handler_name (iv_route call) = (''reports'', ''summary'')"
      "iv_params call = [(''sessionId'', s)]" "iv_caller call = Account u" "iv_org call = Some i"
    using dispatch_account[OF facts _ assms(2,3) org uuids, of verify users verifyRefresh] assms(1) by (auto simp: fields)
  have same: "guarded verify verifyRefresh users r q' = guarded verify verifyRefresh users r q"
    by (simp add: guarded_def q_def q'_def)
  have both: "dispatch verify verifyRefresh users q' = dispatch verify verifyRefresh users q"
    unfolding dispatch_def fields resolved by (simp add: same)
  have guarded: "guarded verify verifyRefresh users r q = Inr (Account u)"
    using dispatch_parts(1,2)[OF call(1)] resolved(1) call(4) by (simp add: fields)
  have "resourceIdFrom [(''sessionId'', s)] = Some s"
    using assms(6) by (simp add: resourceIdFrom_def map_filter_simps)
  moreover have "serve_request verify verifyRefresh users run q = (fst (serve_request verify verifyRefresh users run q'),
      [audit_record (Account u) r [(''sessionId'', s)] q (fst (serve_request verify verifyRefresh users run q))])"
    "snd (serve_request verify verifyRefresh users run q') = []"
    unfolding serve_request_def fields resolved using assms(9,10) by (simp_all add: same guarded Let_def)
  ultimately show ?thesis using call both by (auto simp: audit_record_def prod_eq_iff)
qed

text \<open>Opening a report is what the trail was made to record, and it is recorded when the
  address is spelled in lower case: the router ignores case and the trail does not, so the
  same account, of any role down to the lowest, opens the same report through a capital letter and
  nothing is written.\<close>

theorem a_report_is_read_without_a_trace:
  assumes "Option.bind (Option.bind bearer verify) (validate_access users) = Some u"
    and "us_role u = RECRUITER_ADMIN" and "us_orgRole u = Some VIEWER" and "us_organisationId u = Some i" and "i \<noteq> ''''"
    and "is_uuid s"
    and "recorded = \<lparr>rq_method = GET, rq_path = ''/api/reports/sessions/'' @ s, rq_bearer = bearer, rq_cookie = None\<rparr>"
    and "unrecorded = \<lparr>rq_method = GET, rq_path = ''/api/Reports/sessions/'' @ s, rq_bearer = bearer, rq_cookie = None\<rparr>"
  shows "(\<exists>call. dispatch verify verifyRefresh users recorded = Inr call \<and> dispatch verify verifyRefresh users unrecorded = Inr call \<and>
        handler_name (iv_route call) = (''reports'', ''summary'') \<and> iv_params call = [(''sessionId'', s)] \<and> iv_org call = Some i) \<and>
     (\<exists>entry. snd (serve_request verify verifyRefresh users run recorded) = [entry] \<and> au_actorId entry = Some (us_id u) \<and>
        au_resourceId entry = Some s) \<and>
     serve_request verify verifyRefresh users run unrecorded = (fst (serve_request verify verifyRefresh users run recorded), [])"
proof -
  have "shouldAudit GET (''/api/reports/sessions/'' @ s)" "\<not> shouldAudit GET (''/api/Reports/sessions/'' @ s)"
    by (simp_all add: shouldAudit_def UNAUDITED_PREFIXES_def AUDITED_READ_PREFIXES_def starts_with_def)
  from report_read_twice[OF assms(1-6) report_path[OF assms(6)] this] show ?thesis unfolding assms(7,8) .
qed

definition read_session :: string where
  "read_session = ''0a1b2c3d-0a1b-0a1b-0a1b-0a1b2c3d4e5f''"

theorem a_report_is_read_without_a_trace_witness:
  "is_uuid read_session \<and>
   serve_request Some Some [viewing_user] (\<lambda>_. 200)
     \<lparr>rq_method = GET, rq_path = ''/api/Reports/sessions/'' @ read_session, rq_bearer = Some ''v'', rq_cookie = None\<rparr> =
   (fst (serve_request Some Some [viewing_user] (\<lambda>_. 200)
     \<lparr>rq_method = GET, rq_path = ''/api/reports/sessions/'' @ read_session, rq_bearer = Some ''v'', rq_cookie = None\<rparr>), [])"
proof -
  have uuid: "is_uuid read_session" by code_simp
  have "Option.bind (Option.bind (Some ''v'') Some) (validate_access [viewing_user]) = Some viewing_user"
    using viewing_account by (simp add: viewing_request_def)
  moreover have "us_role viewing_user = RECRUITER_ADMIN" "us_orgRole viewing_user = Some VIEWER" "us_organisationId viewing_user = Some ''org''" "''org'' \<noteq> ''''"
    by (simp_all add: viewing_user_def blank_user_def)
  ultimately show ?thesis
    using a_report_is_read_without_a_trace[OF _ _ _ _ _ uuid refl refl, of "Some ''v''" Some "[viewing_user]" viewing_user "''org''" Some "\<lambda>_. 200"] uuid
    by blast
qed

subsection \<open>Tokens of public links\<close>

lemma entry_segments:
  "map_option (\<lambda>(r, ps). (route_pattern r, ps, rt_roles r, rt_endpoint r)) (first_match POST [''api'', ''public'', ''assessments'', c # cs, ''enter'']) =
     Some (''/api/public/assessments/:token/enter'', [(''token'', c # cs)], None, open_to_all (endpoint_at POST '':token/enter'' ''enter''))"
  by code_simp

text \<open>The token of a public link is a password of its assessment and never reaches the
  trail: entering through a link leaves one entry, and whatever the token, that entry is the
  same but for the status.\<close>

theorem the_trail_keeps_no_link_token:
  assumes "t \<noteq> ''''" and "CHR ''/'' \<notin> set t" and "\<not> is_uuid t"
    and "rq_method rq = POST" and "rq_path rq = ''/api/public/assessments/'' @ t @ ''/enter''"
  shows "snd (serve_request verify verifyRefresh users run rq) =
    [\<lparr>au_actorId = None, au_organisationId = None, au_action = ''POST /api/public/assessments/:token/enter'',
      au_resourceType = ''public'', au_resourceId = None, au_statusCode = fst (serve_request verify verifyRefresh users run rq),
      au_params = []\<rparr>]"
proof -
  obtain c cs where t: "t = c # cs" using assms(1) by (cases t) auto
  let ?ss = "[''api'', ''public'', ''assessments'', t, ''enter'']"
  have path: "rq_path rq = slashed ?ss" using assms(5) by simp
  have "request_segments (slashed ?ss) = Some ?ss" by (intro request_segments_slashed) (simp_all add: assms(2))
  note resolved = resolve_first_match[OF this, folded path, of POST]
  obtain r where r: "first_match POST ?ss = Some (r, [(''token'', t)])" "route_pattern r = ''/api/public/assessments/:token/enter''"
      "rt_roles r = None" "rt_endpoint r = open_to_all (endpoint_at POST '':token/enter'' ''enter'')"
    using entry_segments[of c cs] unfolding t[symmetric] by auto
  have guarded: "guarded verify verifyRefresh users r rq = Inr Anonymous"
    by (simp add: guarded_def jwt_guard_def roles_guard_def org_roles_guard_def refresh_guard_def r(3,4) open_to_all_def endpoint_at_def)
  have audits: "shouldAudit POST (rq_path rq)"
    unfolding path by (simp add: shouldAudit_def UNAUDITED_PREFIXES_def starts_with_def)
  have "segments_of (slashed ?ss) = ?ss"
    using split_on_slashed[of "''''" ?ss] assms(1,2) by (simp add: segments_of_def del: slashed.simps)
  then have type: "resourceTypeFrom (rq_path rq) = ''public''" unfolding path by (simp add: resourceTypeFrom_def Let_def)
  have "resourceIdFrom [(''token'', t)] = None" by (simp add: resourceIdFrom_def map_filter_simps)
  moreover have "idParams [(''token'', t)] = []" using assms(3) by (simp add: idParams_def)
  ultimately show ?thesis
    by (simp add: serve_request_def assms(4) resolved r(1) guarded audits Let_def audit_record_def type r(2) method_name_def)
qed

theorem the_trail_keeps_no_link_token_witness:
  "snd (serve_request Some Some [] (\<lambda>_. 401)
     \<lparr>rq_method = POST, rq_path = ''/api/public/assessments/s3cret/enter'', rq_bearer = None, rq_cookie = None\<rparr>) =
   [\<lparr>au_actorId = None, au_organisationId = None, au_action = ''POST /api/public/assessments/:token/enter'',
      au_resourceType = ''public'', au_resourceId = None, au_statusCode = fst (serve_request Some Some [] (\<lambda>_. 401)
     \<lparr>rq_method = POST, rq_path = ''/api/public/assessments/s3cret/enter'', rq_bearer = None, rq_cookie = None\<rparr>), au_params = []\<rparr>]"
proof -
  have "\<not> is_uuid ''s3cret''" by code_simp
  then show ?thesis by (intro the_trail_keeps_no_link_token[of "''s3cret''"]) simp_all
qed

theorem every_write_leaves_a_trace_witness:
  "\<exists>entry. snd (serve_request Some Some [viewing_user] (\<lambda>_. 201)
     (viewing_request\<lparr>rq_method := POST, rq_path := ''/api/questions/bulk-import''\<rparr>)) = [entry] \<and> au_actorId entry = Some ''v''"
proof -
  let ?rq = "viewing_request\<lparr>rq_method := POST, rq_path := ''/api/questions/bulk-import''\<rparr>"
  obtain r where r: "resolve_route POST ''/api/questions/bulk-import'' = Some (r, [])" "handler_name r = (''questions/bulk-import'', ''upload'')"
      "role_admitted RECRUITER_ADMIN r" "floor_admitted (Some VIEWER) r"
    using resolve_question_routes(2) by (auto simp: route_facts_def)
  have fields: "rq_method ?rq = POST" "rq_path ?rq = ''/api/questions/bulk-import''" "rq_bearer ?rq = rq_bearer viewing_request" by simp_all
  have "r \<in> set routes" "\<not> ep_public (rt_endpoint r)"
    using resolve_route_in[OF r(1)] r(3) by (simp_all add: role_admitted_def)
  then have "guarded Some Some [viewing_user] r ?rq = Inr (Account viewing_user)"
    using guarded_private[of r Some Some "[viewing_user]" ?rq] viewing_account r(3,4) unfolding fields
    by (simp add: viewing_user_def blank_user_def)
  moreover have "rt_controller r \<noteq> ''sessions''" "handler_name r \<noteq> (''auth'', ''refresh'')" using r(2) by (auto simp: handler_name_def)
  moreover have "us_id viewing_user = ''v''" by (simp add: viewing_user_def)
  ultimately show ?thesis
    using every_write_leaves_a_trace[of ?rq r "[]" Some Some "[viewing_user]" "\<lambda>_. 201"] r(1) unfolding fields by auto
qed

end
