(* ===== verification/Client_Properties.thy ===== *)
theory Client_Properties
  imports Client_Calls Audit_Properties
begin

section \<open>The contract between the browser and the server\<close>

text \<open>
  Every request a page can make is answered by the route made for it: the templates of the
  two sides are compared once, by evaluation, and any arguments that are not words of the
  router then give the same answer.
\<close>

datatype pattern_segment = Word string | Hole

fun is_hole :: "segment \<Rightarrow> bool" where
  "is_hole (Literal _) \<longleftrightarrow> False"
| "is_hole (Parameter _) \<longleftrightarrow> True"

definition pattern_of :: "segment \<Rightarrow> pattern_segment" where
  "pattern_of s = (case s of Literal x \<Rightarrow> Word (js_toLowerCase x) | Parameter _ \<Rightarrow> Hole)"

fun covers :: "pattern_segment list \<Rightarrow> pattern_segment list \<Rightarrow> bool" where
  "covers [] [] \<longleftrightarrow> True"
| "covers (Word a # ps) (Word b # cs) \<longleftrightarrow> a = b \<and> covers ps cs"
| "covers (Hole # ps) (Word b # cs) \<longleftrightarrow> b \<noteq> '''' \<and> covers ps cs"
| "covers (Hole # ps) (Hole # cs) \<longleftrightarrow> covers ps cs"
| "covers _ _ \<longleftrightarrow> False"

definition route_patterns :: "(http_method \<times> pattern_segment list) list" where
  "route_patterns = map (\<lambda>r. (ep_method (rt_endpoint r), map pattern_of (tl (rt_path r)))) routes"

definition call_pattern :: "client_call \<Rightarrow> http_method \<times> pattern_segment list" where
  "call_pattern c = (cl_method c, map pattern_of (tl (call_template c)))"

definition answered_by :: "(http_method \<times> pattern_segment list) list \<Rightarrow> http_method \<times> pattern_segment list \<Rightarrow> bool" where
  "answered_by table c \<longleftrightarrow>
     (case List.find (\<lambda>r. fst r = fst c \<and> covers (snd r) (snd c)) table of Some r \<Rightarrow> snd r = snd c | None \<Rightarrow> False)"

lemma calls_answered_staff:
  "list_all (answered_by route_patterns) (map call_pattern (authApi @ usersApi @ modulesApi @ questionsApi))"
  by code_simp

lemma calls_answered_assessments:
  "list_all (answered_by route_patterns) (map call_pattern (assessmentsApi @ publicEntryApi @ companiesApi @ organisationsApi))"
  by code_simp

lemma calls_answered_candidates:
  "list_all (answered_by route_patterns) (map call_pattern (invitationsApi @ sessionsApi))"
  by code_simp

lemma calls_answered_reports:
  "list_all (answered_by route_patterns) (map call_pattern (reportsApi @ proctoringApi))"
  by code_simp

lemma calls_answered: "c \<in> set client_calls \<Longrightarrow> answered_by route_patterns (call_pattern c)"
  using calls_answered_staff calls_answered_assessments calls_answered_candidates calls_answered_reports
  by (auto simp: client_calls_def list_all_iff)

text \<open>An argument the router cannot mistake for a word of a route.\<close>

definition route_words :: "string list" where
  "route_words = concat (map (\<lambda>r. List.map_filter (\<lambda>s. case s of Literal x \<Rightarrow> Some (js_toLowerCase x) | Parameter _ \<Rightarrow> None) (rt_path r)) routes)"

definition plain_argument :: "string \<Rightarrow> bool" where
  "plain_argument x \<longleftrightarrow> x \<noteq> '''' \<and> CHR ''/'' \<notin> set x \<and> js_toLowerCase x \<notin> set route_words"

lemma table_words:
  "list_all (\<lambda>r. take 1 (rt_path r) = [Literal ''api''] \<and> list_all (\<lambda>s. case s of Literal x \<Rightarrow> js_toLowerCase x = x \<and> x \<noteq> '''' | _ \<Rightarrow> True) (rt_path r)) routes"
  by code_simp

lemma call_words:
  "list_all (\<lambda>c. list_all (\<lambda>s. case s of Literal x \<Rightarrow> js_toLowerCase x = x \<and> x \<noteq> '''' \<and> CHR ''/'' \<notin> set x | _ \<Rightarrow> True) (call_template c)) client_calls"
  by code_simp

lemma match_covers:
  assumes "\<And>p. plain_argument (f p)" and "list_all (\<lambda>s. case s of Literal x \<Rightarrow> js_toLowerCase x \<in> set route_words | _ \<Rightarrow> True) ps"
    and "list_all (\<lambda>s. case s of Literal x \<Rightarrow> js_toLowerCase x = x | _ \<Rightarrow> True) cs"
  shows "match_path ps (map (filled f) cs) \<noteq> None \<longleftrightarrow> covers (map pattern_of ps) (map pattern_of cs)"
  using assms(2,3)
proof (induction ps "map (filled f) cs" arbitrary: cs rule: match_path.induct)
  case (2 s ps x xs)
  then obtain c cs' where cs: "cs = c # cs'" "x = filled f c" "xs = map (filled f) cs'" by auto
  have "js_toLowerCase s \<in> set route_words" using 2(3) by simp
  then have "js_toLowerCase s \<noteq> js_toLowerCase (f p)" for p
    using assms(1)[of p] by (auto simp: plain_argument_def)
  then show ?case using 2 cs by (cases c) (auto simp: filled_def pattern_of_def)
next
  case (3 p ps x xs)
  then obtain c cs' where cs: "cs = c # cs'" "x = filled f c" "xs = map (filled f) cs'" by auto
  have "f q \<noteq> ''''" for q using assms(1)[of q] by (simp add: plain_argument_def)
  then show ?case using 3 cs by (cases c) (auto simp: filled_def pattern_of_def)
qed auto

lemma match_params:
  "match_path ps ss = Some m \<Longrightarrow> length ps = length ss \<and>
   map snd m = map snd (filter (\<lambda>(s, x). is_hole s) (zip ps ss))"
  by (induction ps ss arbitrary: m rule: match_path.induct) (auto split: if_splits)

lemma same_holes:
  "map pattern_of ps = map pattern_of cs \<Longrightarrow>
   map snd (filter (\<lambda>(s, x). is_hole s) (zip ps (map (filled f) cs))) = map (filled f) (filter is_hole cs)"
proof (induction ps arbitrary: cs)
  case (Cons p ps)
  then obtain c cs' where c: "cs = c # cs'" "pattern_of p = pattern_of c" "map pattern_of ps = map pattern_of cs'" by auto
  have "is_hole p = is_hole c" using c(2) by (cases p; cases c) (simp_all add: pattern_of_def)
  with Cons.IH[OF c(3)] show ?case by (simp add: c(1))
qed simp

lemma find_of_map: "List.find P (map f xs) = map_option f (List.find (P \<circ> f) xs)"
  by (induction xs) simp_all

lemma client_path_slashed: "client_path f c = slashed (map (filled f) (call_template c))"
proof -
  have "concat (map (\<lambda>s. CHR ''/'' # filled f s) cs) = slashed (map (filled f) cs)" for cs by (induction cs) simp_all
  then show ?thesis by (simp add: client_path_def)
qed

text \<open>The browser and the server agree on every address: whatever record a page asks for,
  each request it can make is routed, to the route of the same method and the same words,
  with the arguments in their places.\<close>

theorem every_client_call_reaches_its_route:
  assumes "c \<in> set client_calls" and "\<forall>p. plain_argument (f p)"
  shows "\<exists>r params. resolve_route (cl_method c) (client_path f c) = Some (r, params) \<and>
    map pattern_of (rt_path r) = map pattern_of (call_template c) \<and>
    map snd params = map (filled f) (filter is_hole (call_template c))"
proof -
  let ?t = "call_template c" and ?m = "cl_method c"
  obtain t where t: "?t = Literal ''api'' # t" by (auto simp: call_template_def segment_of_def)
  have words: "list_all (\<lambda>s. case s of Literal x \<Rightarrow> js_toLowerCase x = x \<and> x \<noteq> '''' \<and> CHR ''/'' \<notin> set x | _ \<Rightarrow> True) ?t"
    using call_words assms(1) by (simp add: list_all_iff)
  have plain: "filled f s \<noteq> '''' \<and> CHR ''/'' \<notin> set (filled f s)" if "s \<in> set ?t" for s
    using words that assms(2) by (auto simp: filled_def plain_argument_def list_all_iff split: segment.splits)
  then have "list_all (\<lambda>a. CHR ''/'' \<notin> set a) (map (filled f) ?t)" "last (map (filled f) ?t) \<noteq> ''''"
    using t by (auto simp: list_all_iff last_map)
  then have resolved: "resolve_route ?m (client_path f c) = first_match ?m (map (filled f) ?t)"
    unfolding client_path_slashed t list.map by (intro resolve_first_match request_segments_slashed)
  have matches: "match_path (rt_path r) (map (filled f) ?t) \<noteq> None \<longleftrightarrow> covers (map pattern_of (tl (rt_path r))) (map pattern_of (tl ?t))"
    if r: "r \<in> set routes" for r
  proof -
    have path: "take 1 (rt_path r) = [Literal ''api'']" using table_words r by (auto simp: list_all_iff)
    then have head: "rt_path r = Literal ''api'' # tl (rt_path r)" by (cases "rt_path r") auto
    have "list_all (\<lambda>s. case s of Literal x \<Rightarrow> js_toLowerCase x \<in> set route_words | _ \<Rightarrow> True) (rt_path r)"
      using r by (auto simp: list_all_iff route_words_def set_map_filter split: segment.splits)
    moreover have "list_all (\<lambda>s. case s of Literal x \<Rightarrow> js_toLowerCase x = x | _ \<Rightarrow> True) ?t"
      using words by (auto simp: list_all_iff split: segment.splits)
    ultimately have "match_path (rt_path r) (map (filled f) ?t) \<noteq> None \<longleftrightarrow> covers (map pattern_of (rt_path r)) (map pattern_of ?t)"
      using match_covers[of f "rt_path r" ?t] assms(2) by blast
    also have "\<dots> \<longleftrightarrow> covers (map pattern_of (tl (rt_path r))) (map pattern_of (tl ?t))"
      by (subst head) (simp add: t pattern_of_def)
    finally show ?thesis .
  qed
  have "List.find (\<lambda>r. ep_method (rt_endpoint r) = ?m \<and> match_path (rt_path r) (map (filled f) ?t) \<noteq> None) routes =
      List.find (\<lambda>r. ep_method (rt_endpoint r) = ?m \<and> covers (map pattern_of (tl (rt_path r))) (map pattern_of (tl ?t))) routes" (is "?found = ?covered")
    by (rule find_cong[OF refl]) (use matches in blast)
  moreover have "List.find (\<lambda>r. fst r = ?m \<and> covers (snd r) (map pattern_of (tl ?t))) route_patterns =
      map_option (\<lambda>r. (ep_method (rt_endpoint r), map pattern_of (tl (rt_path r)))) ?covered"
    unfolding route_patterns_def find_of_map by (simp add: comp_def)
  ultimately obtain r where r: "?found = Some r" "map pattern_of (tl (rt_path r)) = map pattern_of (tl ?t)"
    using calls_answered[OF assms(1)] by (auto simp: answered_by_def call_pattern_def split: option.splits)
  then have "r \<in> set routes" by (auto simp: find_Some_iff)
  then have "take 1 (rt_path r) = [Literal ''api'']" using table_words by (auto simp: list_all_iff)
  then have same: "map pattern_of (rt_path r) = map pattern_of ?t" using r(2) by (cases "rt_path r") (auto simp: t)
  obtain params where params: "match_path (rt_path r) (map (filled f) ?t) = Some params"
    using r(1) by (auto simp: find_Some_iff)
  then have "resolve_route ?m (client_path f c) = Some (r, params)"
    using r(1) by (simp add: resolved first_match_def)
  moreover have "map snd params = map (filled f) (filter is_hole ?t)"
    using match_params[OF params] same_holes[OF same, of f] by simp
  ultimately show ?thesis using same by blast
qed

theorem every_client_call_reaches_its_route_witness:
  "\<exists>r params. resolve_route GET (client_path (\<lambda>_. ''0a1b'') (call_of ''practice'' GET ''/me/invitations/:invitationId/practice'')) = Some (r, params) \<and>
     map snd params = [''0a1b'']"
proof -
  let ?c = "call_of ''practice'' GET ''/me/invitations/:invitationId/practice''"
  have c: "?c \<in> set client_calls" "\<forall>p. plain_argument ((\<lambda>_. ''0a1b'') p)"
    by (simp add: client_calls_def invitationsApi_def) (intro allI, code_simp)
  have args: "map (filled (\<lambda>_. ''0a1b'')) (filter is_hole (call_template ?c)) = [''0a1b'']" by code_simp
  have get: "cl_method ?c = GET" by (simp add: call_of_def)
  obtain r params where r: "resolve_route (cl_method ?c) (client_path (\<lambda>_. ''0a1b'') ?c) = Some (r, params)"
      "map snd params = map (filled (\<lambda>_. ''0a1b'')) (filter is_hole (call_template ?c))"
    using every_client_call_reaches_its_route[OF c] by blast
  show ?thesis by (intro exI conjI, rule r(1)[unfolded get], rule r(2)[unfolded args])
qed

end
