(* ===== verification/Client_Session.thy ===== *)
theory Client_Session
  imports Access
begin

section \<open>The session in the browser\<close>

text \<open>
  \<open>frontend/src/lib/api.ts\<close>, \<open>auth.tsx\<close> and \<open>session-hint.ts\<close>, with the cookie that
  \<open>auth/session-cookie.service.ts\<close> writes. The access token lives in the memory of the page,
  the refresh token in a cookie only the routes under \<open>/api/auth\<close> see, and the role of the
  last account in the local storage. A call goes through the router and the guards of
  \<open>Access\<close> to the method of \<open>Auth\<close>, on the accounts as they are then. What changes with
  time, the tokens a verifier accepts and the clock of the browser, is the record \<open>server\<close>.
\<close>

subsection \<open>State\<close>

record server =
  sv_crypto :: crypto
  sv_reuseWindow :: int
  sv_verify :: "string \<Rightarrow> string option"
  sv_verifyRefresh :: "string \<Rightarrow> string option"
  sv_now :: int

record browser =
  br_token :: "string option"
  br_user :: "user_row option"
  br_loading :: bool
  br_cookie :: "(string \<times> int) option"
  br_roleHint :: "user_role option"

definition REFRESH_COOKIE_MAX_AGE_MS :: int where
  "REFRESH_COOKIE_MAX_AGE_MS = 7 * 24 * 60 * 60 * 1000"

definition REFRESH_COOKIE_PATH :: string where
  "REFRESH_COOKIE_PATH = ''/api/auth''"

text \<open>The cookie a request to a path carries: it is scoped to a path, and expires.\<close>

definition sent_cookie :: "int \<Rightarrow> string \<Rightarrow> browser \<Rightarrow> string option" where
  "sent_cookie now p b =
     (case br_cookie b of None \<Rightarrow> None
      | Some (t, until) \<Rightarrow>
          if now < until \<and> starts_with REFRESH_COOKIE_PATH p \<and> (length p = length REFRESH_COOKIE_PATH \<or> p ! length REFRESH_COOKIE_PATH = CHR ''/'')
          then Some t else None)"

definition setAccessToken :: "string option \<Rightarrow> browser \<Rightarrow> browser" where
  "setAccessToken t b = b\<lparr>br_token := t\<rparr>"

text \<open>The interceptor of requests adds the bearer token.\<close>

definition browser_request :: "server \<Rightarrow> http_method \<Rightarrow> string \<Rightarrow> browser \<Rightarrow> http_request" where
  "browser_request s m p b =
     \<lparr>rq_method = m, rq_path = ''/api'' @ p, rq_bearer = truthy (br_token b), rq_cookie = sent_cookie (sv_now s) (''/api'' @ p) b\<rparr>"

definition reach :: "server \<Rightarrow> http_method \<Rightarrow> string \<Rightarrow> browser \<Rightarrow> accounts \<Rightarrow> http_refusal + invocation" where
  "reach s m p b ac = dispatch (sv_verify s) (sv_verifyRefresh s) (ac_users ac) (browser_request s m p b)"

subsection \<open>The routes of a session\<close>

text \<open>\<open>respond\<close> writes the cookie, \<open>clear\<close> removes it with the attributes it was written with.\<close>

definition respond :: "int \<Rightarrow> auth_result \<Rightarrow> browser \<Rightarrow> browser" where
  "respond now r b = b\<lparr>br_cookie := Some (au_refreshToken r, now + REFRESH_COOKIE_MAX_AGE_MS)\<rparr>"

definition clear_cookie :: "browser \<Rightarrow> browser" where
  "clear_cookie b = b\<lparr>br_cookie := None\<rparr>"

definition auth_status :: "account_error \<Rightarrow> nat" where
  "auth_status e = (if e \<in> {BadCredentials, AccountDeactivated, RefreshInvalid} then 401
     else if e \<in> {NotInvited, WrongPortal CANDIDATE, WrongPortal RECRUITER_ADMIN} then 403 else 500)"

text \<open>What the page gets: a status, or the token and the account.\<close>

definition answer_session ::
  "server \<Rightarrow> browser \<Rightarrow> (account_error + auth_result) \<times> accounts \<Rightarrow> (nat + auth_result) \<times> browser \<times> accounts" where
  "answer_session s b = (\<lambda>(r, ac). case r of Inl e \<Rightarrow> (Inl (auth_status e), b, ac) | Inr x \<Rightarrow> (Inr x, respond (sv_now s) x b, ac))"

definition post_login :: "server \<Rightarrow> login_dto \<Rightarrow> browser \<Rightarrow> accounts \<Rightarrow> (nat + auth_result) \<times> browser \<times> accounts" where
  "post_login s dto b ac =
     (case reach s POST ''/auth/login'' b ac of
        Inl e \<Rightarrow> (Inl (status_of e), b, ac)
      | Inr call \<Rightarrow> answer_session s b (login (sv_crypto s) (sv_reuseWindow s) dto ac))"

definition post_refresh :: "server \<Rightarrow> browser \<Rightarrow> accounts \<Rightarrow> (nat + auth_result) \<times> browser \<times> accounts" where
  "post_refresh s b ac =
     (case reach s POST ''/auth/refresh'' b ac of
        Inl e \<Rightarrow> (Inl (status_of e), b, ac)
      | Inr call \<Rightarrow> (case iv_caller call of
            Refreshing sub t \<Rightarrow> answer_session s b (refresh (sv_crypto s) (sv_reuseWindow s) sub t ac)
          | _ \<Rightarrow> (Inl 500, b, ac)))"

definition post_logout :: "server \<Rightarrow> browser \<Rightarrow> accounts \<Rightarrow> (nat + unit) \<times> browser \<times> accounts" where
  "post_logout s b ac =
     (case reach s POST ''/auth/logout'' b ac of
        Inl e \<Rightarrow> (Inl (status_of e), b, ac)
      | Inr call \<Rightarrow> (case iv_caller call of
            Account u \<Rightarrow> (case logout (us_id u) ac of
                (Inl e, ac') \<Rightarrow> (Inl (auth_status e), b, ac')
              | (Inr _, ac') \<Rightarrow> (Inr (), clear_cookie b, ac'))
          | _ \<Rightarrow> (Inl 500, b, ac)))"

subsection \<open>The provider\<close>

definition rememberSession :: "user_row option \<Rightarrow> browser \<Rightarrow> browser" where
  "rememberSession user b = b\<lparr>br_roleHint :=
     (case user of None \<Rightarrow> None | Some u \<Rightarrow> if us_mustChangePassword u then None else Some (us_role u))\<rparr>"

text \<open>The effect that runs when the account or \<open>loading\<close> has changed.\<close>

definition settled_hint :: "browser \<Rightarrow> browser" where
  "settled_hint b = (if br_loading b then b else rememberSession (br_user b) b)"

definition adoptSession :: "string \<Rightarrow> user_row \<Rightarrow> browser \<Rightarrow> browser" where
  "adoptSession t u b = settled_hint (setAccessToken (Some t) b\<lparr>br_user := Some u\<rparr>)"

text \<open>A page load forgets what was in memory and trades the cookie for a token.\<close>

definition page_load :: "server \<Rightarrow> browser \<Rightarrow> accounts \<Rightarrow> browser \<times> accounts" where
  "page_load s b ac =
     (case post_refresh s (b\<lparr>br_token := None, br_user := None, br_loading := True\<rparr>) ac of
        (Inl _, b', ac') \<Rightarrow> (settled_hint (setAccessToken None b'\<lparr>br_loading := False\<rparr>), ac')
      | (Inr r, b', ac') \<Rightarrow>
          (settled_hint (setAccessToken (Some (au_accessToken r)) b'\<lparr>br_user := Some (au_user r), br_loading := False\<rparr>), ac'))"

definition sign_in :: "server \<Rightarrow> login_dto \<Rightarrow> browser \<Rightarrow> accounts \<Rightarrow> (nat + user_row) \<times> browser \<times> accounts" where
  "sign_in s dto b ac =
     (case post_login s dto b ac of
        (Inl e, b', ac') \<Rightarrow> (Inl e, b', ac')
      | (Inr r, b', ac') \<Rightarrow> (Inr (au_user r), adoptSession (au_accessToken r) (au_user r) b', ac'))"

text \<open>Signing out clears the page whatever the server answers.\<close>

definition sign_out :: "server \<Rightarrow> browser \<Rightarrow> accounts \<Rightarrow> browser \<times> accounts" where
  "sign_out s b ac =
     (case post_logout s b ac of (_, b', ac') \<Rightarrow> (settled_hint (setAccessToken None b'\<lparr>br_user := None\<rparr>), ac'))"

definition updateUser :: "(user_row \<Rightarrow> user_row) \<Rightarrow> browser \<Rightarrow> browser" where
  "updateUser patch b = settled_hint (b\<lparr>br_user := map_option patch (br_user b)\<rparr>)"

subsection \<open>The interceptor of answers\<close>

definition isAuthCall :: "string \<Rightarrow> bool" where
  "isAuthCall p \<longleftrightarrow> list_ex (starts_with ''/auth/'') (map (\<lambda>n. drop n p) [0..<length p])"

text \<open>A method behind the guards, answering with a status or a value.\<close>

definition call_once ::
  "server \<Rightarrow> http_method \<Rightarrow> string \<Rightarrow> (invocation \<Rightarrow> accounts \<Rightarrow> (nat + 'a) \<times> accounts) \<Rightarrow> browser \<Rightarrow> accounts \<Rightarrow> (nat + 'a) \<times> accounts" where
  "call_once s m p run b ac =
     (case reach s m p b ac of Inl e \<Rightarrow> (Inl (status_of e), ac) | Inr call \<Rightarrow> run call ac)"

text \<open>The refresh behind a retry is sent without a bearer token.\<close>

definition refreshAccessToken :: "server \<Rightarrow> browser \<Rightarrow> accounts \<Rightarrow> (nat + unit) \<times> browser \<times> accounts" where
  "refreshAccessToken s b ac =
     (case post_refresh s (b\<lparr>br_token := None\<rparr>) ac of
        (Inl e, b', ac') \<Rightarrow> (Inl e, setAccessToken (br_token b) b', ac')
      | (Inr r, b', ac') \<Rightarrow> (Inr (), setAccessToken (Some (au_accessToken r)) b', ac'))"

definition api_call ::
  "server \<Rightarrow> http_method \<Rightarrow> string \<Rightarrow> (invocation \<Rightarrow> accounts \<Rightarrow> (nat + 'a) \<times> accounts) \<Rightarrow> browser \<Rightarrow> accounts \<Rightarrow>
   (nat + 'a) \<times> browser \<times> accounts" where
  "api_call s m p run b ac =
     (case call_once s m p run b ac of
        (Inr x, ac1) \<Rightarrow> (Inr x, b, ac1)
      | (Inl e, ac1) \<Rightarrow>
          if e \<noteq> 401 \<or> isAuthCall p then (Inl e, b, ac1)
          else (case refreshAccessToken s b ac1 of
                  (Inl _, b2, ac2) \<Rightarrow> (Inl e, setAccessToken None b2, ac2)
                | (Inr _, b2, ac2) \<Rightarrow> (case call_once s m p run b2 ac2 of (r, ac3) \<Rightarrow> (r, b2, ac3))))"

end
