(* ===== verification/Client_Session_Properties.thy ===== *)
theory Client_Session_Properties
  imports Client_Session Access_Properties Auth_Properties
begin

section \<open>The properties of the session in the browser\<close>

text \<open>
  What signing out is worth, over the router, the guards and the accounts of the server; and
  how often a page that is refused comes back.
\<close>

subsection \<open>The routes of a session\<close>

lemma session_routes:
  "map_option (\<lambda>(r, ps). (rt_endpoint r, rt_roles r, ps)) (resolve_route POST ''/api/auth/logout'') =
     Some (endpoint_at POST ''logout'' ''logout'', None, [])"
  "map_option (\<lambda>(r, ps). (ep_public (rt_endpoint r), ep_refreshCookie (rt_endpoint r), ep_minOrgRole (rt_endpoint r),
       ep_currentOrg (rt_endpoint r), ep_uuids (rt_endpoint r), rt_roles r, ps)) (resolve_route POST ''/api/auth/refresh'') =
     Some (True, True, None, False, [], None, [])"
  by code_simp+

lemma reach_logout:
  "\<exists>r. reach s POST ''/auth/logout'' b ac =
     (case Option.bind (Option.bind (truthy (br_token b)) (sv_verify s)) (validate_access (ac_users ac)) of
        None \<Rightarrow> Inl Unauthorized
      | Some u \<Rightarrow> Inr \<lparr>iv_route = r, iv_params = [], iv_caller = Account u, iv_org = None\<rparr>)"
proof -
  obtain r where "resolve_route POST ''/api/auth/logout'' = Some (r, [])" "rt_endpoint r = endpoint_at POST ''logout'' ''logout''"
      "rt_roles r = None"
    using session_routes(1) by auto
  then show ?thesis
    by (auto intro!: exI[of _ r] simp: reach_def dispatch_def browser_request_def guarded_def jwt_guard_def roles_guard_def
        org_roles_guard_def refresh_guard_def endpoint_at_def bound_arguments_def split: option.split)
qed

lemma reach_refresh:
  "\<exists>r. reach s POST ''/auth/refresh'' b ac =
     (case truthy (sent_cookie (sv_now s) ''/api/auth/refresh'' b) of
        None \<Rightarrow> Inl Unauthorized
      | Some t \<Rightarrow> (case sv_verifyRefresh s t of
            None \<Rightarrow> Inl Unauthorized
          | Some sub \<Rightarrow> Inr \<lparr>iv_route = r, iv_params = [], iv_caller = Refreshing sub t, iv_org = None\<rparr>))"
proof -
  obtain r where "resolve_route POST ''/api/auth/refresh'' = Some (r, [])" "ep_public (rt_endpoint r)" "ep_refreshCookie (rt_endpoint r)"
      "ep_minOrgRole (rt_endpoint r) = None" "\<not> ep_currentOrg (rt_endpoint r)" "ep_uuids (rt_endpoint r) = []" "rt_roles r = None"
    using session_routes(2) by auto
  then show ?thesis
    by (auto intro!: exI[of _ r] simp: reach_def dispatch_def browser_request_def guarded_def jwt_guard_def roles_guard_def
        org_roles_guard_def refresh_guard_def bound_arguments_def split: option.split)
qed

lemma cookie_sent: "br_cookie b = Some (t, until) \<Longrightarrow> now < until \<Longrightarrow> sent_cookie now ''/api/auth/refresh'' b = Some t"
  by (simp add: sent_cookie_def REFRESH_COOKIE_PATH_def starts_with_def)

lemma no_cookie_sent: "br_cookie b = None \<Longrightarrow> sent_cookie now p b = None"
  by (simp add: sent_cookie_def)

lemma post_refresh_without: "br_cookie b = None \<Longrightarrow> post_refresh s b ac = (Inl 401, b, ac)"
  using reach_refresh[of s b ac] by (auto simp: post_refresh_def no_cookie_sent truthy_def status_of_def)

lemma post_refresh_with:
  assumes "br_cookie b = Some (t, until)" and "sv_now s < until" and "t \<noteq> ''''" and "sv_verifyRefresh s t = Some sub"
  shows "post_refresh s b ac = answer_session s b (refresh (sv_crypto s) (sv_reuseWindow s) sub t ac)"
  using reach_refresh[of s b ac] assms by (auto simp: post_refresh_def cookie_sent truthy_def)

subsection \<open>Signing out\<close>

lemma sign_out_accepted:
  assumes "br_token b = Some a" and "a \<noteq> ''''" and "sv_verify s a = Some (us_id u)"
    and "validate_access (ac_users ac) (us_id u) = Some u"
  shows "sign_out s b ac = (settled_hint (b\<lparr>br_cookie := None, br_token := None, br_user := None\<rparr>), snd (logout (us_id u) ac))"
  using reach_logout[of s b ac] assms
  by (auto simp: sign_out_def post_logout_def truthy_def logout_def clearRefreshTokens_def update_user_def updating_def
      clear_cookie_def setAccessToken_def)

lemma sign_out_refused:
  assumes "br_token b = Some a" and "sv_verify s a = None"
  shows "sign_out s b ac = (settled_hint (b\<lparr>br_token := None, br_user := None\<rparr>), ac)"
  using reach_logout[of s b ac] assms by (auto simp: sign_out_def post_logout_def truthy_def setAccessToken_def)

lemma settled_hint_fields [simp]:
  "br_token (settled_hint b) = br_token b" "br_user (settled_hint b) = br_user b" "br_cookie (settled_hint b) = br_cookie b"
  "br_loading (settled_hint b) = br_loading b"
  by (simp_all add: settled_hint_def rememberSession_def)

lemma logged_out:
  assumes "users_where (\<lambda>r. us_id r = i) ac = Some u"
  shows "users_where (\<lambda>r. us_id r = i) (snd (logout i ac)) = Some (revoked u)"
proof -
  have "List.find (\<lambda>r. us_id r = i) (update_rows (\<lambda>r. us_id r = i) revoked us) = map_option revoked (List.find (\<lambda>r. us_id r = i) us)"
    for us :: "user_row list"
    by (induction us) (simp_all add: update_rows_def revoked_def)
  with assms show ?thesis
    by (simp add: logout_def clearRefreshTokens_def update_user_def updating_def set_users_def revoked_def[abs_def])
qed

text \<open>C40: Signing out ends the session exactly while the access token is fresh. The page always
  forgets the account. With a token the server still accepts, the cookie is gone, the next
  page load signs nobody in, and the refresh token of the cookie is worthless to whoever may
  have kept it. With one that has expired, as after a quarter of an hour without a request,
  the call is refused before it reaches the method and nothing retries it: the server has
  changed nothing, the cookie is still there, and the next person to load the page is signed
  in to the account that signed out.\<close>

theorem signing_out_works_while_the_token_is_fresh:
  assumes found: "users_where (\<lambda>r. us_id r = us_id u) ac = Some u" and "us_isActive u"
    and "us_hashedRefreshToken u = Some h" and "cr_verify (sv_crypto s') h t" and "t \<noteq> ''''"
    and "br_cookie b = Some (t, until)" and "sv_now s' < until" and "sv_verifyRefresh s' t = Some (us_id u)"
    and "br_token b = Some a" and "a \<noteq> ''''" and "sv_verify s a = Some (us_id u) \<or> sv_verify s a = None"
    and "sign_out s b ac = (b1, ac1)" and "page_load s' b1 ac1 = (b2, ac2)"
  shows "br_user b1 = None \<and> br_token b1 = None \<and>
    (if sv_verify s a = None then ac1 = ac \<and> br_cookie b1 = br_cookie b \<and> br_user b2 = Some u
     else br_cookie b1 = None \<and> br_user b2 = None \<and> br_token b2 = None \<and>
       fst (post_refresh s' (b1\<lparr>br_cookie := br_cookie b\<rparr>) ac1) = Inl 401)"
proof (cases "sv_verify s a")
  case None
  have out: "b1 = settled_hint (b\<lparr>br_token := None, br_user := None\<rparr>)" "ac1 = ac"
    using sign_out_refused[OF assms(9) None, of ac] assms(12) by simp_all
  obtain r ac' where r: "refresh_with (sv_crypto s') (sv_reuseWindow s') (Some u) t ac = (Inr r, ac')" "au_user r = u"
    using refresh_rotates[OF assms(2,3), of "sv_crypto s'" t] assms(4) by (metis auth_result.select_convs(3))
  then have "post_refresh s' (b1\<lparr>br_token := None, br_user := None, br_loading := True\<rparr>) ac =
      (Inr r, respond (sv_now s') r (b1\<lparr>br_token := None, br_user := None, br_loading := True\<rparr>), ac')"
    using post_refresh_with[of "b1\<lparr>br_token := None, br_user := None, br_loading := True\<rparr>" t until s' "us_id u" ac] assms(5-8) found
    by (simp add: out refresh_def bind_p_def findById_def reading_def answer_session_def)
  then have "br_user b2 = Some u" using assms(13) r(2) by (auto simp: page_load_def out(2) setAccessToken_def)
  with None out show ?thesis by simp
next
  case (Some i)
  then have fresh: "sv_verify s a = Some (us_id u)" using assms(11) by simp
  have "validate_access (ac_users ac) (us_id u) = Some u" using found assms(2) by (simp add: validate_access_def)
  note out = sign_out_accepted[OF assms(9,10) fresh this]
  then have b1: "b1 = settled_hint (b\<lparr>br_cookie := None, br_token := None, br_user := None\<rparr>)" and ac1: "ac1 = snd (logout (us_id u) ac)"
    using assms(12) by simp_all
  have "post_refresh s' (b1\<lparr>br_token := None, br_user := None, br_loading := True\<rparr>) ac1 =
      (Inl 401, b1\<lparr>br_token := None, br_user := None, br_loading := True\<rparr>, ac1)"
    by (rule post_refresh_without) (simp add: b1)
  then have "br_user b2 = None" "br_token b2 = None" using assms(13) by (auto simp: page_load_def setAccessToken_def)
  moreover have "fst (post_refresh s' (b1\<lparr>br_cookie := br_cookie b\<rparr>) ac1) = Inl 401"
  proof -
    have "users_where (\<lambda>r. us_id r = us_id u) ac1 = Some (revoked u)"
      using logged_out[OF found] by (simp add: ac1)
    then show ?thesis
      using post_refresh_with[of "b1\<lparr>br_cookie := br_cookie b\<rparr>" t until s' "us_id u" ac1] assms(5-8)
      by (simp add: refresh_def refresh_with_def bind_p_def findById_def reading_def revoked_def throw_def answer_session_def auth_status_def
          split: bool.split)
  qed
  ultimately show ?thesis using fresh b1 by simp
qed

definition left_browser :: browser where
  "left_browser = \<lparr>br_token = Some ''old'', br_user = Some owner, br_loading = False, br_cookie = Some (''t0'', 10000),
     br_roleHint = Some RECRUITER_ADMIN\<rparr>"

definition quarter_past :: server where
  "quarter_past = \<lparr>sv_crypto = sample_crypto, sv_reuseWindow = 0, sv_verify = (\<lambda>_. None), sv_verifyRefresh = (\<lambda>_. Some ''o''), sv_now = 5000\<rparr>"

theorem signing_out_works_while_the_token_is_fresh_witness:
  "br_user (fst (sign_out quarter_past left_browser sample_accounts)) = None \<and>
   br_user (fst (case sign_out quarter_past left_browser sample_accounts of (b1, ac1) \<Rightarrow> page_load quarter_past b1 ac1)) = Some owner"
proof -
  obtain b1 ac1 where out: "sign_out quarter_past left_browser sample_accounts = (b1, ac1)" by fastforce
  obtain b2 ac2 where load: "page_load quarter_past b1 ac1 = (b2, ac2)" by fastforce
  have expired: "sv_verify quarter_past ''old'' = None" by (simp add: quarter_past_def)
  have "users_where (\<lambda>r. us_id r = us_id owner) sample_accounts = Some owner" "us_isActive owner"
    "us_hashedRefreshToken owner = Some ''t0''" "cr_verify (sv_crypto quarter_past) ''t0'' ''t0''" "''t0'' \<noteq> ''''"
    "br_cookie left_browser = Some (''t0'', 10000)" "sv_now quarter_past < 10000" "sv_verifyRefresh quarter_past ''t0'' = Some (us_id owner)"
    "br_token left_browser = Some ''old''" "''old'' \<noteq> ''''"
    "sv_verify quarter_past ''old'' = Some (us_id owner) \<or> sv_verify quarter_past ''old'' = None"
    by (simp_all add: account_samples left_browser_def quarter_past_def)
  from signing_out_works_while_the_token_is_fresh[OF this out load] show ?thesis
    using load by (auto simp: out expired)
qed

end
