(* ===== verification/Modules_Catalog.thy ===== *)
theory Modules_Catalog
  imports Assessments
begin

section \<open>The catalogue of modules\<close>

text \<open>
  \<open>modules-catalog/modules-catalog.service.ts\<close>: the subjects an assessment is composed of,
  one table for the whole platform. The state is \<open>catalogue\<close>, whose \<open>cg_modules\<close> are the
  rows. A payload is a body that has passed validation: a field is absent, or \<open>null\<close> where
  \<open>@IsOptional\<close> lets it through, or a value. Writing \<open>null\<close> to a column that is not
  nullable is an error of the database.
\<close>

subsection \<open>Payloads and errors\<close>

record create_module_dto =
  cm_name :: string
  cm_slug :: string
  cm_description :: "string option"
  cm_scoringType :: scoring_type
  cm_traits :: "trait_definition list option"
  cm_isActive :: "bool option option"

record update_module_dto =
  um_name :: "string option option"
  um_description :: "string option option"
  um_traits :: "trait_definition list option option"
  um_isActive :: "bool option option"

datatype module_error =
    ModuleMissing string
  | TraitsRequired
  | TraitsForbidden
  | SlugExists string
  | NameExists string
  | NameTaken
  | NullColumn
  | UniqueViolation
  | DuplicateModuleId

type_synonym 'a cataloguing = "(module_error, catalogue, 'a) prog"

definition set_modules :: "(module_entry list \<Rightarrow> module_entry list) \<Rightarrow> catalogue \<Rightarrow> catalogue" where
  "set_modules f cg = cg\<lparr>cg_modules := f (cg_modules cg)\<rparr>"

subsection \<open>Operations\<close>

definition modules_findAll :: "(string \<Rightarrow> nat) \<Rightarrow> bool \<Rightarrow> module_entry list cataloguing" where
  "modules_findAll collation includeInactive =
     reading (\<lambda>cg. sort_key (\<lambda>m. collation (me_name m))
       (filter (\<lambda>m. includeInactive \<or> me_isActive m) (cg_modules cg)))"

definition modules_findOne :: "string \<Rightarrow> module_entry cataloguing" where
  "modules_findOne i = bind_p (reading (\<lambda>cg. List.find (\<lambda>m. me_id m = i) (cg_modules cg)))
     (\<lambda>found. case found of None \<Rightarrow> throw (ModuleMissing i) | Some m \<Rightarrow> ret m)"

definition findBySlug :: "string \<Rightarrow> module_entry cataloguing" where
  "findBySlug slug = bind_p (reading (\<lambda>cg. List.find (\<lambda>m. me_slug m = slug) (cg_modules cg)))
     (\<lambda>found. case found of None \<Rightarrow> throw (ModuleMissing slug) | Some m \<Rightarrow> ret m)"

definition assertTraitsMatchScoringType :: "scoring_type \<Rightarrow> trait_definition list option \<Rightarrow> module_error + unit" where
  "assertTraitsMatchScoringType scoringType traits =
     (if scoringType = TRAIT \<and> or_else traits [] = [] then Inl TraitsRequired
      else if scoringType = OBJECTIVE \<and> or_else traits [] \<noteq> [] then Inl TraitsForbidden
      else Inr ())"

text \<open>
  \<open>save\<close> of a new row: the id is generated, and \<open>isActive\<close> has a default. The columns of the
  slug and of the name have unique indexes.
\<close>

definition insert_module :: "create_module_dto \<Rightarrow> module_entry cataloguing" where
  "insert_module dto = (\<lambda>cg.
     case cm_isActive dto of
       Some None \<Rightarrow> (Inl NullColumn, cg)
     | active \<Rightarrow>
         let m = \<lparr>me_id = cg_ids cg 0, me_slug = cm_slug dto, me_name = cm_name dto,
                  me_description = cm_description dto, me_scoringType = cm_scoringType dto,
                  me_traits = cm_traits dto, me_isActive = or_else (or_else active None) True\<rparr>;
             cg' = cg\<lparr>cg_ids := (\<lambda>n. cg_ids cg (Suc n))\<rparr>
         in if list_ex (\<lambda>n. me_id n = me_id m) (cg_modules cg) then (Inl DuplicateModuleId, cg')
            else if list_ex (\<lambda>n. me_slug n = me_slug m \<or> me_name n = me_name m) (cg_modules cg) then (Inl UniqueViolation, cg')
            else (Inr m, set_modules (\<lambda>ms. ms @ [m]) cg'))"

definition createModule :: "create_module_dto \<Rightarrow> module_entry cataloguing" where
  "createModule dto =
     then_p (of_result (assertTraitsMatchScoringType (cm_scoringType dto) (cm_traits dto)))
    (bind_p (reading (\<lambda>cg. List.find (\<lambda>m. me_slug m = cm_slug dto \<or> me_name m = cm_name dto) (cg_modules cg)))
     (\<lambda>clash. case clash of
        Some m \<Rightarrow> throw (if me_slug m = cm_slug dto then SlugExists (cm_slug dto) else NameExists (cm_name dto))
      | None \<Rightarrow> insert_module dto))"

definition save_module :: "module_entry \<Rightarrow> module_entry cataloguing" where
  "save_module m =
     bind_p (reading cg_modules) (\<lambda>ms.
     if list_ex (\<lambda>n. me_id n \<noteq> me_id m \<and> me_name n = me_name m) ms then throw UniqueViolation
     else then_p (updating (set_modules (map (\<lambda>n. if me_id n = me_id m then m else n)))) (ret m))"

text \<open>\<open>Object.assign(module, dto)\<close> followed by \<open>save\<close>, which refuses a \<open>null\<close> name or flag.\<close>

definition assign_module :: "module_entry \<Rightarrow> update_module_dto \<Rightarrow> module_error + module_entry" where
  "assign_module m dto =
     (if um_name dto = Some None \<or> um_isActive dto = Some None then Inl NullColumn
      else Inr (m\<lparr>me_name := or_else (or_else (um_name dto) None) (me_name m),
                  me_description := or_else (um_description dto) (me_description m),
                  me_traits := or_else (um_traits dto) (me_traits m),
                  me_isActive := or_else (or_else (um_isActive dto) None) (me_isActive m)\<rparr>))"

definition updateModule :: "string \<Rightarrow> update_module_dto \<Rightarrow> module_entry cataloguing" where
  "updateModule i dto =
     bind_p (modules_findOne i) (\<lambda>m.
     then_p (case um_traits dto of
               None \<Rightarrow> ret ()
             | Some traits \<Rightarrow> of_result (assertTraitsMatchScoringType (me_scoringType m) traits))
    (bind_p (reading (\<lambda>cg. case truthy (or_else (um_name dto) None) of
               None \<Rightarrow> None
             | Some name \<Rightarrow> if name = me_name m then None else List.find (\<lambda>n. me_name n = name) (cg_modules cg)))
     (\<lambda>clash. if clash \<noteq> None then throw NameTaken
              else bind_p (of_result (assign_module m dto)) save_module)))"

definition deactivate_module :: "string \<Rightarrow> module_entry cataloguing" where
  "deactivate_module i = bind_p (modules_findOne i) (\<lambda>m. save_module (m\<lparr>me_isActive := False\<rparr>))"

text \<open>What an administrator can ask of the catalogue.\<close>

datatype module_request =
    Create_module create_module_dto
  | Update_module string update_module_dto
  | Deactivate_module string

fun catalogued :: "module_request \<Rightarrow> catalogue \<Rightarrow> catalogue" where
  "catalogued (Create_module dto) cg = snd (createModule dto cg)"
| "catalogued (Update_module i dto) cg = snd (updateModule i dto cg)"
| "catalogued (Deactivate_module i) cg = snd (deactivate_module i cg)"

subsection \<open>A sound catalogue\<close>

text \<open>The two unique columns and the primary key, and the pairing of traits with scoring.\<close>

definition module_sound :: "module_entry \<Rightarrow> bool" where
  "module_sound m \<longleftrightarrow> (me_scoringType m = TRAIT \<longleftrightarrow> or_else (me_traits m) [] \<noteq> [])"

definition modules_sound :: "module_entry list \<Rightarrow> bool" where
  "modules_sound ms \<longleftrightarrow> distinct (map me_id ms) \<and> distinct (map me_slug ms) \<and> distinct (map me_name ms) \<and>
     (\<forall>m\<in>set ms. module_sound m)"

text \<open>What an existing module never loses: its id, its slug and the way it is scored.\<close>

definition identity :: "module_entry \<Rightarrow> string \<times> string \<times> scoring_type" where
  "identity m = (me_id m, me_slug m, me_scoringType m)"

lemma traits_checked: "assertTraitsMatchScoringType t traits = Inr () \<longleftrightarrow> (t = TRAIT \<longleftrightarrow> or_else traits [] \<noteq> [])"
  by (cases t) (auto simp: assertTraitsMatchScoringType_def)

lemma wp_modules_findOne [wp_simps]:
  "wp (modules_findOne i) Q E cg =
    (case List.find (\<lambda>m. me_id m = i) (cg_modules cg) of None \<Rightarrow> E (ModuleMissing i) cg | Some m \<Rightarrow> Q m cg)"
  by (simp add: modules_findOne_def wp_simps split: option.split)

lemma wp_save_module [wp_simps]:
  "wp (save_module m) Q E cg =
    (if list_ex (\<lambda>n. me_id n \<noteq> me_id m \<and> me_name n = me_name m) (cg_modules cg) then E UniqueViolation cg
     else Q m (set_modules (map (\<lambda>n. if me_id n = me_id m then m else n)) cg))"
  by (simp add: save_module_def wp_simps)

text \<open>Replacing a row by one with its identity and a name nobody else has.\<close>

lemma replaced_sound:
  assumes "modules_sound ms" and "m \<in> set ms" and "identity m' = identity m" and "module_sound m'"
    and "\<forall>n\<in>set ms. me_name n = me_name m' \<longrightarrow> me_id n = me_id m"
  shows "modules_sound (map (\<lambda>n. if me_id n = me_id m' then m' else n) ms)"
    and "map identity (map (\<lambda>n. if me_id n = me_id m' then m' else n) ms) = map identity ms"
proof -
  let ?r = "\<lambda>n. if me_id n = me_id m' then m' else n"
  have same: "identity (?r n) = identity n" if "n \<in> set ms" for n
    using that assms(1,2,3) by (auto simp: modules_sound_def identity_def distinct_map inj_on_def)
  then show ids: "map identity (map ?r ms) = map identity ms" by simp
  have fields: "map me_id xs = map fst (map identity xs)" "map me_slug xs = map (fst \<circ> snd) (map identity xs)" for xs
    by (simp_all add: identity_def)
  have "distinct (map me_id (map ?r ms))" "distinct (map me_slug (map ?r ms))"
    using assms(1) unfolding fields ids by (simp_all only: fields[symmetric] modules_sound_def)
  moreover have "inj_on me_name (?r ` set ms)"
    using assms(1,3,5) by (auto simp: modules_sound_def distinct_map inj_on_def identity_def)
  moreover have "distinct (map ?r ms)" using calculation(1) distinct_map by blast
  ultimately have "distinct (map me_name (map ?r ms))"
    unfolding distinct_map[of me_name] by (simp del: map_map)
  with \<open>distinct (map me_id (map ?r ms))\<close> \<open>distinct (map me_slug (map ?r ms))\<close> show "modules_sound (map ?r ms)"
    using assms(1,4) unfolding modules_sound_def by (auto simp del: map_map)
qed

subsection \<open>What a request does to the catalogue\<close>

text \<open>
  A request leaves the questions alone, keeps the catalogue sound, and every module keeps
  its place and its identity; one may be added at the end.
\<close>

definition catalogue_kept :: "catalogue \<Rightarrow> catalogue \<Rightarrow> bool" where
  "catalogue_kept cg cg' \<longleftrightarrow> (modules_sound (cg_modules cg) \<longrightarrow>
     modules_sound (cg_modules cg') \<and> rows_of cg' = rows_of cg \<and>
     (\<exists>added. map identity (cg_modules cg') = map identity (cg_modules cg) @ added))"

lemma catalogue_kept_refl [simp]: "catalogue_kept cg cg"
  by (simp add: catalogue_kept_def)

lemma catalogue_kept_trans: "catalogue_kept a b \<Longrightarrow> catalogue_kept b c \<Longrightarrow> catalogue_kept a c"
  unfolding catalogue_kept_def by fastforce

lemma kept_inserted:
  assumes "cm_scoringType dto = TRAIT \<longleftrightarrow> or_else (cm_traits dto) [] \<noteq> []"
  shows "wp (insert_module dto) (\<lambda>_. catalogue_kept cg) (\<lambda>_. catalogue_kept cg) cg"
  using assms
  by (auto simp: wp_snd insert_module_def catalogue_kept_def Let_def set_modules_def modules_sound_def module_sound_def
      list_ex_iff split: option.split)

lemma kept_saved:
  assumes "List.find (\<lambda>m. me_id m = i) (cg_modules cg) = Some m" and "identity m' = identity m"
    and "module_sound m \<Longrightarrow> module_sound m'"
  shows "wp (save_module m') (\<lambda>_. catalogue_kept cg) (\<lambda>_. catalogue_kept cg) cg"
proof (cases "modules_sound (cg_modules cg)")
  case True
  have m: "m \<in> set (cg_modules cg)" using find_row_mem[OF assms(1)] by simp
  have "module_sound m'" using assms(3) m True by (simp add: modules_sound_def)
  moreover have "me_id m' = me_id m" using assms(2) by (simp add: identity_def)
  ultimately have "catalogue_kept cg (set_modules (map (\<lambda>n. if me_id n = me_id m' then m' else n)) cg)"
    if "\<not> list_ex (\<lambda>n. me_id n \<noteq> me_id m' \<and> me_name n = me_name m') (cg_modules cg)"
  proof -
    from that have names: "\<forall>n\<in>set (cg_modules cg). me_name n = me_name m' \<longrightarrow> me_id n = me_id m"
      using \<open>me_id m' = me_id m\<close> by (auto simp: list_ex_iff)
    from replaced_sound[OF True m assms(2) \<open>module_sound m'\<close> names] show ?thesis
      by (simp add: catalogue_kept_def set_modules_def del: map_map)
  qed
  then show ?thesis by (simp add: wp_save_module)
qed (simp add: wp_save_module catalogue_kept_def)

lemma kept_created: "catalogue_kept cg (snd (createModule dto cg))"
proof -
  have "wp (createModule dto) (\<lambda>_. catalogue_kept cg) (\<lambda>_. catalogue_kept cg) cg"
    using kept_inserted[of dto cg]
    by (auto simp: createModule_def wp_bind wp_then wp_of_result wp_reading wp_throw traits_checked split: sum.split option.split)
  then show ?thesis by (simp add: wp_snd)
qed

lemma assigned:
  assumes "assign_module m dto = Inr m'"
    and "\<forall>traits. um_traits dto = Some traits \<longrightarrow> assertTraitsMatchScoringType (me_scoringType m) traits = Inr ()"
  shows "identity m' = identity m" and "module_sound m \<Longrightarrow> module_sound m'"
    and "me_name m' = or_else (or_else (um_name dto) None) (me_name m)"
  using assms by (cases "um_traits dto"; auto simp: assign_module_def identity_def module_sound_def traits_checked split: if_splits)+

lemma kept_updated: "catalogue_kept cg (snd (updateModule i dto cg))"
proof -
  have "wp (updateModule i dto) (\<lambda>_. catalogue_kept cg) (\<lambda>_. catalogue_kept cg) cg"
  proof (cases "List.find (\<lambda>m. me_id m = i) (cg_modules cg)")
    case None
    then show ?thesis by (simp add: updateModule_def wp_simps)
  next
    case (Some m)
    have "wp (save_module m') (\<lambda>_. catalogue_kept cg) (\<lambda>_. catalogue_kept cg) cg"
      if "\<forall>traits. um_traits dto = Some traits \<longrightarrow> assertTraitsMatchScoringType (me_scoringType m) traits = Inr ()"
        and "assign_module m dto = Inr m'" for m'
      using kept_saved[OF Some assigned(1)[OF that(2,1)] assigned(2)[OF that(2,1)]] .
    then show ?thesis
      by (simp add: updateModule_def wp_bind wp_then wp_of_result wp_reading wp_throw wp_ret wp_modules_findOne Some
          split: option.split sum.split)
  qed
  then show ?thesis by (simp add: wp_snd)
qed

lemma kept_deactivated: "catalogue_kept cg (snd (deactivate_module i cg))"
proof -
  have "wp (deactivate_module i) (\<lambda>_. catalogue_kept cg) (\<lambda>_. catalogue_kept cg) cg"
    using kept_saved[of i cg _ "_\<lparr>me_isActive := False\<rparr>"]
    by (simp add: deactivate_module_def wp_bind wp_modules_findOne identity_def module_sound_def split: option.split)
  then show ?thesis by (simp add: wp_snd)
qed

lemma kept_catalogued: "catalogue_kept cg (catalogued request cg)"
  by (cases request) (simp_all add: kept_created kept_updated kept_deactivated)

lemma kept_all: "catalogue_kept cg (fold catalogued requests cg)"
  by (induction requests arbitrary: cg) (auto intro: catalogue_kept_trans kept_catalogued)

text \<open>With unique ids, keeping the identities is what the bank needs to know of it.\<close>

lemma identities_kept:
  assumes "distinct (map me_id ms')" and "map identity ms' = map identity ms @ added"
    and "List.find (\<lambda>m. me_id m = i) ms = Some m"
  shows "\<exists>m'. List.find (\<lambda>m. me_id m = i) ms' = Some m' \<and> identity m' = identity m"
proof -
  have "identity m \<in> set (map identity ms')" using assms(2) find_row_mem[OF assms(3)] by simp
  then obtain m' where m': "m' \<in> set ms'" "identity m' = identity m" by auto
  moreover have "me_id m' = i" using m'(2) find_row_mem[OF assms(3)] by (simp add: identity_def)
  ultimately have "List.find (\<lambda>m. me_id m = i) ms' \<noteq> None" by (auto simp: find_None_iff)
  then obtain n where n: "List.find (\<lambda>m. me_id m = i) ms' = Some n" by blast
  with find_row_mem[OF n] m' \<open>me_id m' = i\<close> assms(1) have "n = m'" by (auto simp: distinct_map inj_on_def)
  with n m'(2) show ?thesis by blast
qed

lemma same_kinds_identities:
  "distinct (map me_id ms') \<Longrightarrow> map identity ms' = map identity ms @ added \<Longrightarrow> same_kinds ms ms'"
  unfolding same_kinds_def using identities_kept by (fastforce simp: identity_def)

end
