(* ===== verification/Question_Form.thy ===== *)
theory Question_Form
  imports Bulk_Import Modules_Catalog
begin

section \<open>The form that writes a question\<close>

text \<open>
  \<open>frontend/src/components/questions/QuestionEditor.tsx\<close> as a machine: the state of the
  form, one event per control it shows, the check before it sends, and what it sends; then
  the validators of \<open>question-bank/dto\<close> the server runs on it. An event whose control is not
  on screen does nothing. Tags, which no rule of the server but their number looks at, are
  left out, as is the text that is only displayed.
\<close>

subsection \<open>State\<close>

record draft_option =
  do_key :: string
  do_text :: string
  do_behavior :: string
  do_traitWeights :: "real jsobj"

record question_form =
  qf_question :: "question option"
  qf_moduleId :: string
  qf_questionText :: string
  qf_status :: question_status
  qf_probeGroup :: string
  qf_pattern :: "behavioral_pattern option"
  qf_correctOption :: string
  qf_difficulty :: string
  qf_options :: "draft_option list"

definition LETTERS :: "string list" where
  "LETTERS = [''A'', ''B'', ''C'', ''D'', ''E'', ''F'']"

definition WEIGHTS :: "real list" where
  "WEIGHTS = [3, 2, 1, 0, -1, -2, -3]"

text \<open>\<open>BOUNDS\<close>, by the kind of the module and the pattern, with no pattern being \<open>legacy\<close>.\<close>

definition form_bounds :: "bool \<Rightarrow> behavioral_pattern option \<Rightarrow> nat \<times> nat" where
  "form_bounds isTrait pattern =
     (if \<not> isTrait then (4, 6)
      else (case pattern of None \<Rightarrow> (4, 6) | Some SITUATIONAL \<Rightarrow> (3, 6) | Some FORCED_CHOICE \<Rightarrow> (2, 2)
            | Some TRADE_OFF \<Rightarrow> (2, 2) | Some RANKING \<Rightarrow> (3, 6)))"

definition blank_option :: "string \<Rightarrow> draft_option" where
  "blank_option key = \<lparr>do_key = key, do_text = '''', do_behavior = '''', do_traitWeights = []\<rparr>"

definition blankOptions :: "nat \<Rightarrow> draft_option list \<Rightarrow> draft_option list" where
  "blankOptions n existing =
     map blank_option (take n (filter (\<lambda>letter. letter \<notin> do_key ` set existing) LETTERS))"

definition initialOptions :: "question option \<Rightarrow> draft_option list" where
  "initialOptions question =
     (case Option.bind question q_personalityDetails of
        Some d \<Rightarrow> map (\<lambda>o'. \<lparr>do_key = po_key o', do_text = po_text o', do_behavior = '''', do_traitWeights = po_traitWeights o'\<rparr>)
          (pd_options d)
      | None \<Rightarrow> (case Option.bind question q_mcqDetails of
            Some d \<Rightarrow> map (\<lambda>o'. \<lparr>do_key = mo_key o', do_text = mo_text o', do_behavior = '''', do_traitWeights = []\<rparr>) (md_options d)
          | None \<Rightarrow> blankOptions 4 []))"

text \<open>The initial state; \<open>written\<close> prints a stored difficulty.\<close>

definition opened_form :: "(int \<Rightarrow> string) \<Rightarrow> module_entry list \<Rightarrow> question option \<Rightarrow> question_form" where
  "opened_form written modules question =
     \<lparr>qf_question = question,
      qf_moduleId = (case question of Some q \<Rightarrow> q_moduleId q | None \<Rightarrow> (case modules of [] \<Rightarrow> '''' | m # _ \<Rightarrow> me_id m)),
      qf_questionText = (case question of Some q \<Rightarrow> q_questionText q | None \<Rightarrow> ''''),
      qf_status = (case question of Some q \<Rightarrow> q_status q | None \<Rightarrow> DRAFT),
      qf_probeGroup = or_else (Option.bind question q_probeGroup) '''',
      qf_pattern = Option.bind (Option.bind question q_personalityDetails) pd_pattern,
      qf_correctOption = or_else (map_option md_correctOption (Option.bind question q_mcqDetails)) ''A'',
      qf_difficulty = written (or_else (map_option md_difficultyScore (Option.bind question q_mcqDetails)) 1000),
      qf_options = initialOptions question\<rparr>"

definition form_module :: "module_entry list \<Rightarrow> question_form \<Rightarrow> module_entry option" where
  "form_module modules form = List.find (\<lambda>m. me_id m = qf_moduleId form) modules"

definition isTrait :: "module_entry list \<Rightarrow> question_form \<Rightarrow> bool" where
  "isTrait modules form \<longleftrightarrow> map_option me_scoringType (form_module modules form) = Some TRAIT"

definition form_traits :: "module_entry list \<Rightarrow> question_form \<Rightarrow> string list" where
  "form_traits modules form = map td_key (or_else (Option.bind (form_module modules form) me_traits) [])"

definition current_bounds :: "module_entry list \<Rightarrow> question_form \<Rightarrow> nat \<times> nat" where
  "current_bounds modules form = form_bounds (isTrait modules form) (qf_pattern form)"

subsection \<open>Events\<close>

datatype form_event =
    Pick_module string
  | Pick_status question_status
  | Pick_pattern "behavioral_pattern option"
  | Type_question string
  | Type_difficulty string
  | Type_probeGroup string
  | Mark_correct nat
  | Add_option
  | Remove_option nat
  | Type_option nat string
  | Type_behavior nat string
  | Add_trait nat string
  | Set_weight nat string real
  | Drop_weight nat string

definition patch_option :: "nat \<Rightarrow> (draft_option \<Rightarrow> draft_option) \<Rightarrow> question_form \<Rightarrow> question_form" where
  "patch_option i change form =
     (if i < length (qf_options form) then form\<lparr>qf_options := (qf_options form)[i := change (qf_options form ! i)]\<rparr> else form)"

definition next_key :: "draft_option list \<Rightarrow> string" where
  "next_key options =
     (case List.find (\<lambda>letter. letter \<notin> do_key ` set options) LETTERS of
        Some letter \<Rightarrow> letter | None \<Rightarrow> CHR ''O'' # digits (length options + 1))"

definition pick_pattern :: "behavioral_pattern option \<Rightarrow> question_form \<Rightarrow> question_form" where
  "pick_pattern pattern form =
     (let (low, high) = form_bounds True pattern; current = qf_options form
      in form\<lparr>qf_pattern := pattern,
           qf_options := (if high < length current then take high current
             else if length current < low then current @ blankOptions (low - length current) current
             else current)\<rparr>)"

definition weights_at :: "nat \<Rightarrow> question_form \<Rightarrow> real jsobj" where
  "weights_at i form = (if i < length (qf_options form) then do_traitWeights (qf_options form ! i) else [])"

fun form_step :: "module_entry list \<Rightarrow> form_event \<Rightarrow> question_form \<Rightarrow> question_form" where
  "form_step modules (Pick_module i) form =
     (if qf_question form = None \<and> i \<in> me_id ` set modules
      then form\<lparr>qf_moduleId := i, qf_pattern := None, qf_options := blankOptions 4 []\<rparr> else form)"
| "form_step modules (Pick_status s) form = form\<lparr>qf_status := s\<rparr>"
| "form_step modules (Pick_pattern p) form =
     (if isTrait modules form \<and> (p = None \<longrightarrow> (case qf_question form of None \<Rightarrow> True
           | Some q \<Rightarrow> map_option pd_pattern (q_personalityDetails q) = Some None))
      then pick_pattern p form else form)"
| "form_step modules (Type_question s) form = form\<lparr>qf_questionText := s\<rparr>"
| "form_step modules (Type_difficulty s) form = (if isTrait modules form then form else form\<lparr>qf_difficulty := s\<rparr>)"
| "form_step modules (Type_probeGroup s) form = (if length s \<le> 80 then form\<lparr>qf_probeGroup := s\<rparr> else form)"
| "form_step modules (Mark_correct i) form =
     (if \<not> isTrait modules form \<and> i < length (qf_options form)
      then form\<lparr>qf_correctOption := do_key (qf_options form ! i)\<rparr> else form)"
| "form_step modules Add_option form =
     (if length (qf_options form) < snd (current_bounds modules form)
      then form\<lparr>qf_options := qf_options form @ [blank_option (next_key (qf_options form))]\<rparr> else form)"
| "form_step modules (Remove_option i) form =
     (if fst (current_bounds modules form) < length (qf_options form) \<and> i < length (qf_options form)
      then form\<lparr>qf_options := take i (qf_options form) @ drop (Suc i) (qf_options form)\<rparr> else form)"
| "form_step modules (Type_option i s) form = patch_option i (do_text_update (\<lambda>_. s)) form"
| "form_step modules (Type_behavior i s) form =
     (if isTrait modules form then patch_option i (do_behavior_update (\<lambda>_. s)) form else form)"
| "form_step modules (Add_trait i t) form =
     (if isTrait modules form \<and> t \<in> set (form_traits modules form) \<and> t \<notin> set (obj_keys (weights_at i form))
      then patch_option i (do_traitWeights_update (obj_set t 1)) form else form)"
| "form_step modules (Set_weight i t w) form =
     (if isTrait modules form \<and> t \<in> set (obj_keys (weights_at i form)) \<and> w \<in> set WEIGHTS
      then patch_option i (do_traitWeights_update (obj_set t w)) form else form)"
| "form_step modules (Drop_weight i t) form =
     (if isTrait modules form then patch_option i (do_traitWeights_update (filter (\<lambda>p. fst p \<noteq> t))) form else form)"

definition form_after :: "(int \<Rightarrow> string) \<Rightarrow> module_entry list \<Rightarrow> question option \<Rightarrow> form_event list \<Rightarrow> question_form" where
  "form_after written modules question events = fold (form_step modules) events (opened_form written modules question)"

subsection \<open>Sending\<close>

datatype form_problem =
    Choose_subject
  | Text_too_short
  | Choose_pattern
  | Takes_options "behavioral_pattern option" nat
  | Option_needs_text
  | Option_needs_weight string
  | Mark_correct_option

definition form_validate :: "module_entry list \<Rightarrow> question_form \<Rightarrow> form_problem option" where
  "form_validate modules form =
     (let options = qf_options form; (low, high) = current_bounds modules form; trait = isTrait modules form
      in if qf_moduleId form = '''' then Some Choose_subject
         else if length (js_trim (qf_questionText form)) < 3 then Some Text_too_short
         else if trait \<and> qf_pattern form = None \<and> qf_question form = None then Some Choose_pattern
         else if length options < low \<or> length options > high then Some (Takes_options (qf_pattern form) (length options))
         else if list_ex (\<lambda>opt. js_trim (do_text opt) = '''') options then Some Option_needs_text
         else if trait then map_option (\<lambda>opt. Option_needs_weight (do_key opt)) (List.find (\<lambda>opt. do_traitWeights opt = []) options)
         else if \<not> list_ex (\<lambda>opt. do_key opt = qf_correctOption form) options then Some Mark_correct_option
         else None)"

record sent_option =
  so_key :: string
  so_text :: string
  so_behavior :: "string option"
  so_traitWeights :: "real jsobj"

datatype sent_details =
    Sent_mcq "mcq_option list" string "real option"
  | Sent_personality "behavioral_pattern option" "sent_option list"

record question_draft =
  qd_questionText :: string
  qd_status :: question_status
  qd_probeGroup :: string
  qd_details :: sent_details

definition form_draft :: "module_entry list \<Rightarrow> question_form \<Rightarrow> question_draft" where
  "form_draft modules form =
     \<lparr>qd_questionText = js_trim (qf_questionText form), qd_status = qf_status form,
      qd_probeGroup = js_trim (qf_probeGroup form),
      qd_details =
        (if isTrait modules form
         then Sent_personality (qf_pattern form) (map (\<lambda>opt. \<lparr>so_key = do_key opt, so_text = js_trim (do_text opt),
           so_behavior = truthy (Some (js_trim (do_behavior opt))), so_traitWeights = do_traitWeights opt\<rparr>) (qf_options form))
         else Sent_mcq (map (\<lambda>opt. \<lparr>mo_key = do_key opt, mo_text = js_trim (do_text opt)\<rparr>) (qf_options form))
           (qf_correctOption form) (js_Number (qf_difficulty form)))\<rparr>"

subsection \<open>What the server's validators ask\<close>

definition key_char :: "char \<Rightarrow> bool" where
  "key_char c \<longleftrightarrow> (let n = of_char c :: nat in
     48 \<le> n \<and> n \<le> 57 \<or> 65 \<le> n \<and> n \<le> 90 \<or> n = 95 \<or> 97 \<le> n \<and> n \<le> 122)"

definition option_key_ok :: "string \<Rightarrow> bool" where
  "option_key_ok key \<longleftrightarrow> 1 \<le> length key \<and> length key \<le> 8 \<and> list_all key_char key"

definition option_text_ok :: "string \<Rightarrow> bool" where
  "option_text_ok s \<longleftrightarrow> 1 \<le> length s \<and> length s \<le> 2000"

definition MIN_DIFFICULTY :: real where "MIN_DIFFICULTY = 400"
definition MAX_DIFFICULTY :: real where "MAX_DIFFICULTY = 1600"
definition PERSONALITY_MIN_OPTIONS :: nat where "PERSONALITY_MIN_OPTIONS = 2"

definition difficulty_ok :: "real option \<Rightarrow> bool" where
  "difficulty_ok score \<longleftrightarrow> (case score of None \<Rightarrow> True | Some x \<Rightarrow> x = of_int \<lfloor>x\<rfloor> \<and> MIN_DIFFICULTY \<le> x \<and> x \<le> MAX_DIFFICULTY)"

fun details_ok :: "sent_details \<Rightarrow> bool" where
  "details_ok (Sent_mcq options correct score) \<longleftrightarrow>
     MIN_OPTIONS \<le> length options \<and> length options \<le> MAX_OPTIONS \<and>
     list_all (\<lambda>opt. option_key_ok (mo_key opt) \<and> option_text_ok (mo_text opt)) options \<and>
     1 \<le> length correct \<and> length correct \<le> 8 \<and> difficulty_ok score"
| "details_ok (Sent_personality pattern options) \<longleftrightarrow>
     PERSONALITY_MIN_OPTIONS \<le> length options \<and> length options \<le> MAX_OPTIONS \<and>
     list_all (\<lambda>opt. option_key_ok (so_key opt) \<and> option_text_ok (so_text opt) \<and>
       (case so_behavior opt of None \<Rightarrow> True | Some b \<Rightarrow> 1 \<le> length b \<and> length b \<le> 40)) options"

definition draft_ok :: "question_draft \<Rightarrow> bool" where
  "draft_ok d \<longleftrightarrow> 3 \<le> length (qd_questionText d) \<and> length (qd_questionText d) \<le> 5000 \<and>
     length (qd_probeGroup d) \<le> PROBE_GROUP_MAX_LENGTH \<and> details_ok (qd_details d)"

text \<open>The payload the service is handed; the form never names \<open>isSample\<close>.\<close>

fun handed_mcq :: "sent_details \<Rightarrow> mcq_dto option" where
  "handed_mcq (Sent_mcq options correct score) =
     Some \<lparr>dm_options = options, dm_correctOption = correct, dm_difficultyScore = map_option floor score\<rparr>"
| "handed_mcq (Sent_personality pattern options) = None"

fun handed_personality :: "sent_details \<Rightarrow> personality_dto option" where
  "handed_personality (Sent_mcq options correct score) = None"
| "handed_personality (Sent_personality pattern options) =
     Some \<lparr>dp_pattern = pattern, dp_options = map (\<lambda>opt. \<lparr>po_key = so_key opt, po_text = so_text opt,
       po_traitWeights = so_traitWeights opt\<rparr>) options\<rparr>"

definition update_of_draft :: "question_draft \<Rightarrow> update_question_dto" where
  "update_of_draft d = \<lparr>uq_questionText = Some (qd_questionText d), uq_status = Some (qd_status d),
     uq_probeGroup = Some (qd_probeGroup d), uq_isSample = None, uq_mcq = handed_mcq (qd_details d),
     uq_personality = handed_personality (qd_details d)\<rparr>"

definition create_of_draft :: "string \<Rightarrow> question_draft \<Rightarrow> create_question_dto" where
  "create_of_draft moduleId d = \<lparr>cq_moduleId = moduleId, cq_questionText = qd_questionText d,
     cq_status = Some (qd_status d), cq_probeGroup = Some (qd_probeGroup d), cq_isSample = None,
     cq_mcq = handed_mcq (qd_details d), cq_personality = handed_personality (qd_details d)\<rparr>"

end
