(* ===== verification/Module_Properties.thy ===== *)
theory Module_Properties
  imports Modules_Catalog Access_Properties
begin

section \<open>The properties of the module catalogue\<close>

text \<open>
  The catalogue stays sound and keeps every module's identity, so the questions of the bank
  stay answerable; and it has no owner: whoever administers a workspace changes it for all.
\<close>

subsection \<open>Soundness\<close>

text \<open>What the validators of the two DTOs promise of a payload.\<close>

fun validated :: "module_request \<Rightarrow> bool" where
  "validated (Create_module dto) \<longleftrightarrow> 2 \<le> length (cm_name dto) \<and> 2 \<le> length (cm_slug dto)"
| "validated (Update_module i dto) \<longleftrightarrow> (case um_name dto of Some (Some name) \<Rightarrow> 2 \<le> length name | _ \<Rightarrow> True)"
| "validated (Deactivate_module i) \<longleftrightarrow> True"

fun module_answer :: "module_request \<Rightarrow> catalogue \<Rightarrow> module_error + module_entry" where
  "module_answer (Create_module dto) cg = fst (createModule dto cg)"
| "module_answer (Update_module i dto) cg = fst (updateModule i dto cg)"
| "module_answer (Deactivate_module i) cg = fst (deactivate_module i cg)"

lemma wp_fst: "wp m (\<lambda>_ _. True) (\<lambda>e _. e \<noteq> x) cg \<longleftrightarrow> fst (m cg) \<noteq> Inl x"
  by (auto simp: wp_def split: prod.split sum.split)

lemma wp_insert_never:
  assumes "List.find (\<lambda>m. me_slug m = cm_slug dto \<or> me_name m = cm_name dto) (cg_modules cg) = None"
  shows "wp (insert_module dto) (\<lambda>_ _. True) (\<lambda>e _. e \<noteq> UniqueViolation) cg"
  using assms by (auto simp: wp_fst insert_module_def Let_def list_ex_iff find_None_iff split: option.split)

lemma answer_checked:
  assumes "modules_sound (cg_modules cg)" and "validated request"
  shows "module_answer request cg \<noteq> Inl UniqueViolation"
proof -
  have own: "me_id n = me_id m" if "n \<in> set (cg_modules cg)" "m \<in> set (cg_modules cg)" "me_name n = me_name m" for n m
    using assms(1) that by (auto simp: modules_sound_def distinct_map inj_on_def)
  show ?thesis
  proof (cases request)
    case (Create_module dto)
    have "wp (createModule dto) (\<lambda>_ _. True) (\<lambda>e _. e \<noteq> UniqueViolation) cg"
      using wp_insert_never[of dto cg]
      by (auto simp: createModule_def wp_bind wp_then wp_of_result wp_reading wp_throw assertTraitsMatchScoringType_def
          split: sum.split option.split)
    with Create_module show ?thesis by (simp add: wp_fst)
  next
    case (Update_module i dto)
    have "wp (updateModule i dto) (\<lambda>_ _. True) (\<lambda>e _. e \<noteq> UniqueViolation) cg"
    proof (cases "List.find (\<lambda>m. me_id m = i) (cg_modules cg)")
      case None
      then show ?thesis by (simp add: updateModule_def wp_bind wp_modules_findOne)
    next
      case (Some m)
      have saved: "wp (save_module m') (\<lambda>_ _. True) (\<lambda>e _. e \<noteq> UniqueViolation) cg"
        if new: "(case truthy (or_else (um_name dto) None) of None \<Rightarrow> None
          | Some name \<Rightarrow> if name = me_name m then None else List.find (\<lambda>n. me_name n = name) (cg_modules cg)) = None"
          "assign_module m dto = Inr m'" for m'
      proof -
        have m': "me_id m' = me_id m" "me_name m' = or_else (or_else (um_name dto) None) (me_name m)"
          using new(2) by (auto simp: assign_module_def split: if_splits)
        have "me_name m' = me_name m \<or> List.find (\<lambda>n. me_name n = me_name m') (cg_modules cg) = None"
          using new(1) m'(2) assms(2) Update_module
          by (cases "um_name dto"; cases "the (um_name dto)") (auto simp: truthy_def split: if_splits)
        then have "\<not> list_ex (\<lambda>n. me_id n \<noteq> me_id m' \<and> me_name n = me_name m') (cg_modules cg)"
          using own[OF _ conjunct1[OF find_row_mem[OF Some]]] m'(1) by (auto simp: list_ex_iff find_None_iff)
        then show ?thesis by (simp add: wp_save_module)
      qed
      then show ?thesis
        by (simp add: updateModule_def wp_bind wp_then wp_of_result wp_reading wp_throw wp_ret wp_modules_findOne Some
            assertTraitsMatchScoringType_def assign_module_def split: option.split sum.split)
    qed
    with Update_module show ?thesis by (simp add: wp_fst)
  next
    case (Deactivate_module i)
    have "wp (save_module (m\<lparr>me_isActive := False\<rparr>)) (\<lambda>_ _. True) (\<lambda>e _. e \<noteq> UniqueViolation) cg"
      if "List.find (\<lambda>m. me_id m = i) (cg_modules cg) = Some m" for m
      using own[OF _ conjunct1[OF find_row_mem[OF that]]] by (auto simp: wp_save_module list_ex_iff)
    then have "wp (deactivate_module i) (\<lambda>_ _. True) (\<lambda>e _. e \<noteq> UniqueViolation) cg"
      by (simp add: deactivate_module_def wp_bind wp_modules_findOne split: option.split)
    with Deactivate_module show ?thesis by (simp add: wp_fst)
  qed
qed

text \<open>C36: The catalogue of modules stays sound under any sequence of requests. Ids, slugs and
  names stay unique, a behavioural module declares traits and an objective one none; no
  module ever disappears, moves, or changes its slug or the way it is scored, so whatever
  was reachable in the question bank before is reachable after. The checks of the service are
  complete: on payloads its validators let through, no request ends in a violation of a
  unique index.\<close>

theorem the_module_catalogue_stays_sound:
  assumes "modules_sound (cg_modules cg)" and "cg' = fold catalogued requests cg"
  shows "modules_sound (cg_modules cg') \<and>
     take (length (cg_modules cg)) (map identity (cg_modules cg')) = map identity (cg_modules cg) \<and>
     (\<forall>modules. reachable_catalogue modules cg \<longrightarrow> reachable_catalogue (cg_modules cg') cg') \<and>
     (\<forall>request. validated request \<longrightarrow> module_answer request cg' \<noteq> Inl UniqueViolation)"
proof (intro conjI)
  obtain added where kept: "modules_sound (cg_modules cg')" "rows_of cg' = rows_of cg"
      "map identity (cg_modules cg') = map identity (cg_modules cg) @ added"
    using kept_all[of cg requests] assms(1) by (auto simp: catalogue_kept_def assms(2))
  show "modules_sound (cg_modules cg')" by (rule kept(1))
  show "take (length (cg_modules cg)) (map identity (cg_modules cg')) = map identity (cg_modules cg)"
    using kept(3) by simp
  have "same_kinds (cg_modules cg) (cg_modules cg')"
    using kept(1) by (intro same_kinds_identities[OF _ kept(3)]) (simp add: modules_sound_def)
  then show "\<forall>modules. reachable_catalogue modules cg \<longrightarrow> reachable_catalogue (cg_modules cg') cg'"
    using reachable_catalogue_ok reachable_catalogue.catalogued[OF _ kept(2) refl] by (fastforce simp: catalogue_ok_def)
  show "\<forall>request. validated request \<longrightarrow> module_answer request cg' \<noteq> Inl UniqueViolation"
    using answer_checked[OF kept(1)] by blast
qed

text \<open>A catalogue of one subject, and two requests about it.\<close>

definition second_subject :: create_module_dto where
  "second_subject = \<lparr>cm_name = ''Judgement'', cm_slug = ''judgement'', cm_description = None, cm_scoringType = TRAIT,
     cm_traits = Some [\<lparr>td_key = ''drive'', td_label = ''Drive'', td_invertForReport = False\<rparr>], cm_isActive = None\<rparr>"

definition catalogue_changes :: "module_request list" where
  "catalogue_changes = [Create_module second_subject, Deactivate_module ''m'']"

lemma empty_catalogue_sound: "modules_sound (cg_modules empty_catalogue)"
  by (simp add: catalogue_samples modules_sound_def module_sound_def)

theorem the_module_catalogue_stays_sound_witness:
  "modules_sound (cg_modules (fold catalogued catalogue_changes empty_catalogue)) \<and>
   map (\<lambda>m. (me_slug m, me_isActive m)) (cg_modules (fold catalogued catalogue_changes empty_catalogue)) =
     [(''numeracy'', False), (''judgement'', True)]"
proof
  show "modules_sound (cg_modules (fold catalogued catalogue_changes empty_catalogue))"
    using the_module_catalogue_stays_sound[OF empty_catalogue_sound refl] by blast
  show "map (\<lambda>m. (me_slug m, me_isActive m)) (cg_modules (fold catalogued catalogue_changes empty_catalogue)) =
     [(''numeracy'', False), (''judgement'', True)]"
    by code_simp
qed

subsection \<open>Whose catalogue it is\<close>

definition catalogue_writes :: "(string \<times> string) list" where
  "catalogue_writes = [(''modules'', ''create''), (''modules'', ''update''), (''modules'', ''deactivate'')]"

lemma table_catalogue:
  "list_all (\<lambda>r. handler_name r \<in> set catalogue_writes \<longrightarrow> \<not> ep_currentOrg (rt_endpoint r) \<and> \<not> ep_public (rt_endpoint r) \<and>
     role_admitted RECRUITER_ADMIN r \<and> ep_minOrgRole (rt_endpoint r) = Some ADMIN \<and>
     ep_uuids (rt_endpoint r) = (if handler_name r = (''modules'', ''create'') then [] else [''id''])) routes"
  by code_simp

lemma dto_check_inactive:
  assumes "distinct (map me_id modules)" and "distinct (map ad_moduleId (ca_modules dto))"
    and "ad_moduleId ` set (ca_modules dto) \<subseteq> me_id ` set modules"
    and "m \<in> set modules" and "me_id m \<in> ad_moduleId ` set (ca_modules dto)" and "\<not> me_isActive m"
  shows "\<exists>names. dto_check modules dto = Inl (ModulesInactive names) \<and> me_name m \<in> set names"
proof -
  let ?ids = "map ad_moduleId (ca_modules dto)" and ?found = "filter (\<lambda>m. me_id m \<in> ad_moduleId ` set (ca_modules dto)) modules"
  have "i \<in> set (map me_id ?found)" if "i \<in> set ?ids" for i
  proof -
    have i: "i \<in> ad_moduleId ` set (ca_modules dto)" using that by simp
    have "i \<in> me_id ` set modules" by (rule subsetD[OF assms(3) i])
    then obtain n where "n \<in> set modules" "me_id n = i" by (elim imageE) simp
    with i have "n \<in> set ?found" by simp
    with \<open>me_id n = i\<close> show ?thesis by (metis image_eqI set_map)
  qed
  then have "set (map me_id ?found) = set ?ids" by auto
  moreover have "distinct (map me_id ?found)" using assms(1) by (rule distinct_map_filter)
  ultimately have "length ?found = length ?ids"
    using assms(2) by (metis distinct_card length_map)
  moreover have "m \<in> set (filter (\<lambda>m. \<not> me_isActive m) ?found)" using assms(4-6) by simp
  then have "filter (\<lambda>m. \<not> me_isActive m) ?found \<noteq> []" "me_name m \<in> set (map me_name (filter (\<lambda>m. \<not> me_isActive m) ?found))"
    by (auto simp: filter_empty_conv)
  ultimately show ?thesis
    using assms(2) by (simp add: dto_check_def Let_def length_js_set)
qed

text \<open>The catalogue has no owner. The routes that change it ask for an administrator, of any
  workspace, and hand the service no organisation; one of them retires a subject for every
  organisation on the platform: nobody can then create an assessment that contains it, while
  the rest of the request and the organisation asking do not matter.\<close>

theorem one_workspace_retires_a_subject_for_all:
  assumes "Option.bind (Option.bind (rq_bearer rq) verify) (validate_access users) = Some u"
    and "us_role u = RECRUITER_ADMIN" and "org_role_allows (Some ADMIN) u"
    and "r \<in> set routes" and "handler_name r = (''modules'', ''deactivate'')" and "is_uuid i"
    and "modules_sound (cg_modules cg)" and "List.find (\<lambda>m. me_id m = i) (cg_modules cg) = Some m"
  shows "guarded verify verifyRefresh users r rq = Inr (Account u) \<and>
    bound_arguments r [(''id'', i)] (Account u) = Inr (Account u, None) \<and>
    (let cg' = catalogued (Deactivate_module i) cg
     in \<forall>dto ws organisationId. ws_modules ws = cg_modules cg' \<and> distinct (map ad_moduleId (ca_modules dto)) \<and>
          i \<in> ad_moduleId ` set (ca_modules dto) \<and> ad_moduleId ` set (ca_modules dto) \<subseteq> me_id ` set (cg_modules cg) \<longrightarrow>
        (\<exists>names. createAssessment dto organisationId ws = (Inl (ModulesInactive names), ws) \<and> me_name m \<in> set names))"
proof -
  have facts: "\<not> ep_currentOrg (rt_endpoint r)" "\<not> ep_public (rt_endpoint r)" "role_admitted RECRUITER_ADMIN r"
      "ep_minOrgRole (rt_endpoint r) = Some ADMIN" "ep_uuids (rt_endpoint r) = [''id'']"
    using table_catalogue assms(4,5) by (auto simp: list_all_iff catalogue_writes_def)
  have "guarded verify verifyRefresh users r rq = Inr (Account u)"
    unfolding guarded_private[OF assms(4) facts(2)] using assms(1-3) facts(3,4)
    by (auto simp: floor_admitted_def org_role_allows_def split: option.splits)
  moreover have "bound_arguments r [(''id'', i)] (Account u) = Inr (Account u, None)"
    using facts(1,5) assms(6) by (simp add: bound_arguments_def)
  moreover have "\<exists>names. createAssessment dto organisationId ws = (Inl (ModulesInactive names), ws) \<and> me_name m \<in> set names"
    if ws: "ws_modules ws = cg_modules (catalogued (Deactivate_module i) cg)" and dto: "distinct (map ad_moduleId (ca_modules dto))"
      "i \<in> ad_moduleId ` set (ca_modules dto)" "ad_moduleId ` set (ca_modules dto) \<subseteq> me_id ` set (cg_modules cg)"
    for dto ws organisationId
  proof -
    let ?off = "m\<lparr>me_isActive := False\<rparr>" and ?ms = "cg_modules (catalogued (Deactivate_module i) cg)"
    have m: "m \<in> set (cg_modules cg)" "me_id m = i" using find_row_mem[OF assms(8)] by auto
    have "\<not> list_ex (\<lambda>n. me_id n \<noteq> me_id ?off \<and> me_name n = me_name ?off) (cg_modules cg)"
      using assms(7) m(1) by (auto simp: modules_sound_def distinct_map inj_on_def list_ex_iff)
    then have ms: "?ms = map (\<lambda>n. if me_id n = me_id ?off then ?off else n) (cg_modules cg)"
      by (simp add: deactivate_module_def modules_findOne_def save_module_def assms(8) set_modules_def bind_p_def then_p_def
          reading_def updating_def ret_def)
    have "modules_sound ?ms"
      using kept_deactivated[of cg i] assms(7) by (simp add: catalogue_kept_def)
    moreover have "?off \<in> set ?ms" unfolding ms using m(1) by force
    moreover have "map me_id ?ms = map me_id (cg_modules cg)" unfolding ms by simp
    then have "me_id ` set ?ms = me_id ` set (cg_modules cg)" by (metis set_map)
    ultimately obtain names where "dto_check ?ms dto = Inl (ModulesInactive names)" "me_name ?off \<in> set names"
      using dto_check_inactive[of ?ms dto ?off] dto m(2) by (auto simp: modules_sound_def)
    then show ?thesis
      by (simp add: createAssessment_def ws bind_p_def then_p_def reading_def of_result_def)
  qed
  ultimately show ?thesis by (simp add: Let_def)
qed

definition administering_user :: user_row where
  "administering_user = viewing_user\<lparr>us_id := ''a'', us_orgRole := Some ADMIN\<rparr>"

definition sample_id :: string where
  "sample_id = ''00000000-0000-0000-0000-000000000001''"

definition listed_catalogue :: catalogue where
  "listed_catalogue = empty_catalogue\<lparr>cg_modules := [sample_entry\<lparr>me_id := sample_id\<rparr>]\<rparr>"

theorem one_workspace_retires_a_subject_for_all_witness:
  "\<exists>r. guarded Some Some [administering_user] r (viewing_request\<lparr>rq_bearer := Some ''a''\<rparr>) = Inr (Account administering_user) \<and>
     bound_arguments r [(''id'', sample_id)] (Account administering_user) = Inr (Account administering_user, None)"
proof -
  have "list_ex (\<lambda>r. handler_name r = (''modules'', ''deactivate'')) routes" by code_simp
  then obtain r where r: "r \<in> set routes" "handler_name r = (''modules'', ''deactivate'')" by (auto simp: list_ex_iff)
  have u: "Option.bind (Option.bind (rq_bearer (viewing_request\<lparr>rq_bearer := Some ''a''\<rparr>)) Some) (validate_access [administering_user]) = Some administering_user"
    "us_role administering_user = RECRUITER_ADMIN" "org_role_allows (Some ADMIN) administering_user"
    by (simp_all add: administering_user_def viewing_user_def blank_user_def validate_access_def org_role_allows_def)
  have "is_uuid sample_id" "modules_sound (cg_modules listed_catalogue)"
    "List.find (\<lambda>m. me_id m = sample_id) (cg_modules listed_catalogue) = Some (sample_entry\<lparr>me_id := sample_id\<rparr>)"
    by code_simp+
  from one_workspace_retires_a_subject_for_all[OF u r this, of Some] r show ?thesis by blast
qed

end
