(* ===== verification/Form_Properties.thy ===== *)
theory Form_Properties
  imports Question_Form Module_Properties
begin

section \<open>The properties of the question form\<close>

text \<open>
  Whatever an author does in the form, what it sends passes the checks of the service it is
  sent to; which of the validators' bounds it does not look at; and what becomes of it when
  the module of the question is no longer in the list the page has loaded.
\<close>

subsection \<open>Options under editing\<close>

definition weights_ok :: "(string \<Rightarrow> bool) \<Rightarrow> real jsobj \<Rightarrow> bool" where
  "weights_ok T ws \<longleftrightarrow> well_keyed ws \<and> (\<forall>(t, w)\<in>set ws. -3 \<le> w \<and> w \<le> 3 \<and> T t)"

definition options_ok :: "(string \<Rightarrow> bool) \<Rightarrow> draft_option list \<Rightarrow> bool" where
  "options_ok T opts \<longleftrightarrow> distinct (map do_key opts) \<and>
     (\<forall>opt\<in>set opts. option_key_ok (do_key opt) \<and> weights_ok T (do_traitWeights opt))"

lemma weights_ok_Nil [simp]: "weights_ok T []"
  by (simp add: weights_ok_def)

lemma set_update_subset: "set (AList.update k v al) \<subseteq> insert (k, v) (set al)"
  by (induction al) auto

lemma weights_ok_set: "weights_ok T ws \<Longrightarrow> -3 \<le> w \<Longrightarrow> w \<le> 3 \<Longrightarrow> T t \<Longrightarrow> weights_ok T (obj_set t w ws)"
  using set_update_subset[of t w ws] by (auto simp: weights_ok_def)

lemma weights_ok_drop: "weights_ok T ws \<Longrightarrow> weights_ok T (filter P ws)"
  by (auto simp: weights_ok_def well_keyed_def distinct_map_filter)

lemma weights_ok_known: "weights_ok T ws \<Longrightarrow> t \<in> set (obj_keys ws) \<Longrightarrow> T t"
  by (auto simp: weights_ok_def)

lemma letter_ok: "letter \<in> set LETTERS \<Longrightarrow> option_key_ok letter"
  by (auto simp: LETTERS_def option_key_ok_def key_char_def)

lemma distinct_LETTERS: "distinct LETTERS" "length LETTERS = 6"
  by (simp_all add: LETTERS_def)

lemma options_ok_take: "options_ok T opts \<Longrightarrow> options_ok T (take n opts)"
  by (auto simp: options_ok_def take_map[symmetric] dest: in_set_takeD)

lemma options_ok_remove:
  assumes "options_ok T opts"
  shows "options_ok T (take i opts @ drop (Suc i) opts)"
proof -
  have d: "distinct (map do_key opts)" using assms by (simp add: options_ok_def)
  have "set (take i (map do_key opts)) \<inter> set (drop (Suc i) (map do_key opts)) = {}"
    by (rule set_take_disj_set_drop_if_distinct[OF d]) simp
  with d have "distinct (map do_key (take i opts @ drop (Suc i) opts))"
    by (simp add: take_map[symmetric] drop_map[symmetric] del: set_map)
  with assms show ?thesis unfolding options_ok_def by (auto dest: in_set_takeD in_set_dropD)
qed

lemma options_ok_blank: "options_ok T opts \<Longrightarrow> options_ok T (opts @ blankOptions n opts)"
proof -
  have keys: "map do_key (blankOptions n opts) = take n (filter (\<lambda>l. l \<notin> do_key ` set opts) LETTERS)"
    by (simp add: blankOptions_def blank_option_def comp_def)
  have "set (map do_key (blankOptions n opts)) \<subseteq> set LETTERS - do_key ` set opts"
    unfolding keys by (auto dest: in_set_takeD)
  moreover have "distinct (map do_key (blankOptions n opts))"
    unfolding keys using distinct_LETTERS by simp
  moreover have "do_traitWeights opt = []" if "opt \<in> set (blankOptions n opts)" for opt
    using that by (auto simp: blankOptions_def blank_option_def)
  ultimately show "options_ok T opts \<Longrightarrow> options_ok T (opts @ blankOptions n opts)"
    using letter_ok by (auto simp: options_ok_def)
qed

text \<open>With fewer than six options a letter is left, so a new option never needs another key.\<close>

lemma next_key_letter:
  assumes "length opts < 6"
  shows "next_key opts \<in> set LETTERS - do_key ` set opts"
proof -
  have "card (do_key ` set opts) < card (set LETTERS)"
    using assms card_length[of "map do_key opts"] distinct_LETTERS by (simp add: distinct_card)
  then have "\<not> set LETTERS \<subseteq> do_key ` set opts"
    by (metis List.finite_set card_mono finite_imageI leD)
  then obtain l where "List.find (\<lambda>l. l \<notin> do_key ` set opts) LETTERS = Some l"
    by (cases "List.find (\<lambda>l. l \<notin> do_key ` set opts) LETTERS") (auto simp: find_None_iff)
  with find_row_mem[OF this] show ?thesis by (simp add: next_key_def)
qed

lemma options_ok_add:
  assumes "options_ok T opts" and "length opts < 6"
  shows "options_ok T (opts @ [blank_option (next_key opts)])"
  using assms(1) next_key_letter[OF assms(2)] by (auto simp: options_ok_def blank_option_def letter_ok)

lemma options_ok_patch:
  assumes "options_ok T opts" and "i < length opts" and "do_key opt = do_key (opts ! i)"
    and "weights_ok T (do_traitWeights opt)"
  shows "options_ok T (opts[i := opt])"
proof -
  have "map do_key (opts[i := opt]) = map do_key opts"
    using assms(2,3) by (simp add: map_update list_update_same_conv)
  moreover have "option_key_ok (do_key opt)" using assms(1-3) by (simp add: options_ok_def)
  ultimately show ?thesis
    using assms(1,4) by (auto simp: options_ok_def dest!: set_update_subset_insert[THEN subsetD])
qed

lemma form_bounds_limit: "snd (form_bounds trait pattern) \<le> 6"
  by (simp add: form_bounds_def split: option.split behavioral_pattern.split)

subsection \<open>The form as a whole\<close>

text \<open>A stored question, as the form may be opened on it.\<close>

definition declared_weights :: "module_entry list \<Rightarrow> question \<Rightarrow> bool" where
  "declared_weights modules q \<longleftrightarrow>
     (case (List.find (\<lambda>m. me_id m = q_moduleId q) modules, q_personalityDetails q) of
        (Some m, Some d) \<Rightarrow> \<forall>opt\<in>set (pd_options d).
          fst ` set (po_traitWeights opt) \<subseteq> set (map td_key (or_else (me_traits m) []))
      | _ \<Rightarrow> True)"

definition stored_keys_ok :: "question \<Rightarrow> bool" where
  "stored_keys_ok q \<longleftrightarrow>
     (case q_personalityDetails q of Some d \<Rightarrow> \<forall>opt\<in>set (pd_options d). option_key_ok (po_key opt) | None \<Rightarrow> True) \<and>
     (case q_mcqDetails q of Some d \<Rightarrow> \<forall>opt\<in>set (md_options d). option_key_ok (mo_key opt) | None \<Rightarrow> True)"

definition editable :: "module_entry list \<Rightarrow> question \<Rightarrow> bool" where
  "editable modules q \<longleftrightarrow> row_valid modules q \<and> declared_weights modules q \<and> stored_keys_ok q"

definition trait_known :: "module_entry list \<Rightarrow> question_form \<Rightarrow> string \<Rightarrow> bool" where
  "trait_known modules form t \<longleftrightarrow> (isTrait modules form \<longrightarrow> t \<in> set (form_traits modules form))"

definition form_ok :: "module_entry list \<Rightarrow> question option \<Rightarrow> question_form \<Rightarrow> bool" where
  "form_ok modules question form \<longleftrightarrow> qf_question form = question \<and>
     options_ok (trait_known modules form) (qf_options form) \<and>
     (case question of
        Some q \<Rightarrow> qf_moduleId form = q_moduleId q \<and> (qf_pattern form = None \<longrightarrow> existing_pattern q = None)
      | None \<Rightarrow> qf_moduleId form = '''' \<or> qf_moduleId form \<in> me_id ` set modules)"

lemma module_unchanged:
  "qf_moduleId form' = qf_moduleId form \<Longrightarrow>
   isTrait modules form' = isTrait modules form \<and> form_traits modules form' = form_traits modules form \<and>
   trait_known modules form' = trait_known modules form"
  by (simp add: isTrait_def form_traits_def form_module_def trait_known_def fun_eq_iff)

lemma opened_form_ok:
  assumes "case question of None \<Rightarrow> True | Some q \<Rightarrow> editable modules q"
  shows "form_ok modules question (opened_form written modules question)"
proof (cases question)
  case None
  then have "qf_options (opened_form written modules question) = blankOptions 4 []"
    by (simp add: opened_form_def initialOptions_def)
  with None show ?thesis
    using options_ok_blank[of "trait_known modules (opened_form written modules question)" "[]" 4]
    by (auto simp: form_ok_def opened_form_def options_ok_def split: list.split)
next
  case (Some q)
  let ?form = "opened_form written modules question"
  have fields: "qf_question ?form = question" "qf_moduleId ?form = q_moduleId q" "qf_options ?form = initialOptions question"
    "qf_pattern ?form = existing_pattern q"
    by (simp_all add: opened_form_def Some existing_pattern_def split: option.split)
  obtain m where m: "List.find (\<lambda>m. me_id m = q_moduleId q) modules = Some m"
    and rows: "if me_scoringType m = OBJECTIVE
      then q_personalityDetails q = None \<and> (\<exists>d. q_mcqDetails q = Some d \<and> mcq_valid d)
      else q_mcqDetails q = None \<and> (\<exists>d. q_personalityDetails q = Some d \<and> personality_valid d)"
    using assms Some by (auto simp: editable_def row_valid_def)
  have known: "trait_known modules ?form t \<longleftrightarrow> (me_scoringType m = TRAIT \<longrightarrow> t \<in> set (map td_key (or_else (me_traits m) [])))" for t
    by (simp add: trait_known_def isTrait_def form_traits_def form_module_def fields m)
  have "options_ok (trait_known modules ?form) (initialOptions question)"
  proof (cases "me_scoringType m = OBJECTIVE")
    case True
    with rows assms Some show ?thesis
      by (auto simp: options_ok_def initialOptions_def mcq_valid_def comp_def editable_def stored_keys_ok_def)
  next
    case False
    with rows obtain d where d: "q_personalityDetails q = Some d" "personality_valid d" by auto
    moreover have "weights_ok (trait_known modules ?form) (po_traitWeights opt)" if "opt \<in> set (pd_options d)" for opt
    proof -
      have "fst ` set (po_traitWeights opt) \<subseteq> set (map td_key (or_else (me_traits m) []))"
        using assms Some that d(1) m by (auto simp: editable_def declared_weights_def)
      then have "t \<in> set (map td_key (or_else (me_traits m) []))" if "(t, w) \<in> set (po_traitWeights opt)" for t w
        using that by (metis fst_conv image_eqI subsetD)
      moreover have "option_valid opt" using d(2) that by (simp add: personality_valid_def)
      ultimately show ?thesis unfolding weights_ok_def known option_valid_def by blast
    qed
    moreover have "option_key_ok (po_key opt)" if "opt \<in> set (pd_options d)" for opt
      using assms Some that d(1) by (simp add: editable_def stored_keys_ok_def)
    moreover have "distinct (map po_key (pd_options d))" using d(2) by (simp add: personality_valid_def)
    ultimately show ?thesis
      by (simp add: options_ok_def initialOptions_def comp_def Some)
  qed
  with Some fields show ?thesis by (simp add: form_ok_def)
qed

lemma patched:
  assumes ok: "form_ok modules question form" and "\<And>opt. do_key (change opt) = do_key opt"
    and "i < length (qf_options form) \<Longrightarrow> weights_ok (trait_known modules form) (do_traitWeights (change (qf_options form ! i)))"
  shows "form_ok modules question (patch_option i change form)"
proof (cases "i < length (qf_options form)")
  case True
  let ?form = "form\<lparr>qf_options := (qf_options form)[i := change (qf_options form ! i)]\<rparr>"
  have "options_ok (trait_known modules form) ((qf_options form)[i := change (qf_options form ! i)])"
    using ok True assms(2,3) by (intro options_ok_patch) (simp_all add: form_ok_def)
  then show ?thesis
    using ok True module_unchanged[of ?form form modules] by (simp add: form_ok_def patch_option_def split: option.splits)
qed (simp add: patch_option_def ok)

lemma option_weights_ok:
  "form_ok modules question form \<Longrightarrow> i < length (qf_options form) \<Longrightarrow>
   weights_ok (trait_known modules form) (do_traitWeights (qf_options form ! i))"
  by (simp add: form_ok_def options_ok_def)

text \<open>A step that changes the list of options, and no other field the invariant reads.\<close>

lemma form_ok_options:
  assumes "form_ok modules question form" and "options_ok (trait_known modules form) opts"
  shows "form_ok modules question (form\<lparr>qf_options := opts\<rparr>)"
  using assms module_unchanged[of "form\<lparr>qf_options := opts\<rparr>" form modules] by (simp add: form_ok_def split: option.splits)

lemma picked_pattern_ok:
  assumes "form_ok modules question form" and "p = None \<Longrightarrow> (case question of None \<Rightarrow> True | Some q \<Rightarrow> existing_pattern q = None)"
  shows "form_ok modules question (pick_pattern p form)"
proof -
  have "options_ok (trait_known modules form) (qf_options form)" using assms(1) by (simp add: form_ok_def)
  then have "options_ok (trait_known modules form) (qf_options (pick_pattern p form))"
    by (simp add: pick_pattern_def Let_def options_ok_take options_ok_blank split: prod.split)
  moreover have "qf_moduleId (pick_pattern p form) = qf_moduleId form" "qf_question (pick_pattern p form) = qf_question form"
    "qf_pattern (pick_pattern p form) = p"
    by (simp_all add: pick_pattern_def Let_def split: prod.split)
  ultimately show ?thesis
    using assms module_unchanged[of "pick_pattern p form" form modules] by (simp add: form_ok_def split: option.splits)
qed

lemma plain_step:
  assumes "form_ok modules question form" and "qf_question form' = qf_question form" and "qf_moduleId form' = qf_moduleId form"
    and "qf_pattern form' = qf_pattern form" and "qf_options form' = qf_options form"
  shows "form_ok modules question form'"
  using assms module_unchanged[OF assms(3), of modules] by (cases question) (simp_all add: form_ok_def)

lemma form_step_ok:
  assumes ok: "form_ok modules question form"
  shows "form_ok modules question (form_step modules event form)"
proof (cases event)
  case (Pick_module i)
  let ?form = "form\<lparr>qf_moduleId := i, qf_pattern := None, qf_options := blankOptions 4 []\<rparr>"
  have "options_ok T (blankOptions 4 [])" for T
    using options_ok_blank[of T "[]" 4] by (simp add: options_ok_def)
  with ok have "form_ok modules question ?form" if "qf_question form = None" "i \<in> me_id ` set modules"
    using that by (auto simp: form_ok_def)
  with Pick_module ok show ?thesis by simp
next
  case (Pick_pattern p)
  have "existing_pattern q = None" if "map_option pd_pattern (q_personalityDetails q) = Some None" for q
    using that by (auto simp: existing_pattern_def split: option.splits)
  moreover have "qf_question form = question" using ok by (simp add: form_ok_def)
  ultimately show ?thesis
    using ok picked_pattern_ok[OF ok, of p] unfolding Pick_pattern by (auto split: option.splits)
next
  case Add_option
  have "options_ok (trait_known modules form) (qf_options form)" using ok by (simp add: form_ok_def)
  moreover have "length (qf_options form) < 6" if "length (qf_options form) < snd (current_bounds modules form)"
    using that form_bounds_limit[of "isTrait modules form" "qf_pattern form"] by (simp add: current_bounds_def)
  ultimately show ?thesis
    unfolding Add_option using ok by (simp add: form_ok_options options_ok_add)
next
  case (Remove_option i)
  have "options_ok (trait_known modules form) (qf_options form)" using ok by (simp add: form_ok_def)
  then show ?thesis unfolding Remove_option using ok by (simp add: form_ok_options options_ok_remove)
next
  case (Type_option i s)
  show ?thesis unfolding Type_option form_step.simps
    by (rule patched[OF ok]) (simp_all add: option_weights_ok[OF ok])
next
  case (Type_behavior i s)
  have "form_ok modules question (patch_option i (do_behavior_update (\<lambda>_. s)) form)"
    by (rule patched[OF ok]) (simp_all add: option_weights_ok[OF ok])
  with ok show ?thesis unfolding Type_behavior by simp
next
  case (Add_trait i t)
  have "form_ok modules question (patch_option i (do_traitWeights_update (obj_set t 1)) form)"
    if "isTrait modules form" "t \<in> set (form_traits modules form)"
    by (rule patched[OF ok]) (use that in \<open>simp_all add: option_weights_ok[OF ok] weights_ok_set trait_known_def\<close>)
  with ok show ?thesis unfolding Add_trait by simp
next
  case (Set_weight i t w)
  have "form_ok modules question (patch_option i (do_traitWeights_update (obj_set t w)) form)"
    if w: "t \<in> set (obj_keys (weights_at i form))" "w \<in> set WEIGHTS"
  proof (rule patched[OF ok])
    assume i: "i < length (qf_options form)"
    then have "trait_known modules form t"
      using w(1) weights_ok_known[OF option_weights_ok[OF ok i]] by (simp add: weights_at_def)
    moreover have "-3 \<le> w" "w \<le> 3" using w(2) by (auto simp: WEIGHTS_def)
    ultimately show "weights_ok (trait_known modules form)
        (do_traitWeights (do_traitWeights_update (obj_set t w) (qf_options form ! i)))"
      using option_weights_ok[OF ok i] by (simp add: weights_ok_set)
  qed simp
  with ok show ?thesis unfolding Set_weight by simp
next
  case (Drop_weight i t)
  have "form_ok modules question (patch_option i (do_traitWeights_update (filter (\<lambda>p. fst p \<noteq> t))) form)"
    by (rule patched[OF ok]) (simp_all add: option_weights_ok[OF ok] weights_ok_drop)
  with ok show ?thesis unfolding Drop_weight by simp
qed (auto intro: plain_step[OF ok])

lemma form_after_ok:
  assumes "case question of None \<Rightarrow> True | Some q \<Rightarrow> editable modules q"
  shows "form_ok modules question (form_after written modules question events)"
proof -
  have "form_ok modules question (fold (form_step modules) es form)" if "form_ok modules question form" for es form
    using that by (induction es arbitrary: form) (simp_all add: form_step_ok)
  then show ?thesis unfolding form_after_def using opened_form_ok[OF assms] by blast
qed

subsection \<open>What is sent\<close>

text \<open>The bounds of the validators the form does not look at.\<close>

definition lengths_ok :: "module_entry list \<Rightarrow> question_form \<Rightarrow> bool" where
  "lengths_ok modules form \<longleftrightarrow>
     length (js_trim (qf_questionText form)) \<le> 5000 \<and> length (js_trim (qf_probeGroup form)) \<le> 80 \<and>
     (\<forall>opt\<in>set (qf_options form). length (js_trim (do_text opt)) \<le> 2000) \<and>
     (if isTrait modules form then \<forall>opt\<in>set (qf_options form). length (js_trim (do_behavior opt)) \<le> 40
      else difficulty_ok (js_Number (qf_difficulty form)))"

text \<open>What a form without a problem has in common, and what the two kinds add to it.\<close>

lemma validated_form:
  assumes "form_validate modules form = None"
  shows "qf_moduleId form \<noteq> ''''" and "3 \<le> length (js_trim (qf_questionText form))"
    and "fst (current_bounds modules form) \<le> length (qf_options form)"
    and "length (qf_options form) \<le> snd (current_bounds modules form)"
    and "\<forall>opt\<in>set (qf_options form). js_trim (do_text opt) \<noteq> ''''"
    and "isTrait modules form \<Longrightarrow> (qf_pattern form = None \<longrightarrow> qf_question form \<noteq> None) \<and>
      (\<forall>opt\<in>set (qf_options form). do_traitWeights opt \<noteq> [])"
    and "\<not> isTrait modules form \<Longrightarrow> \<exists>opt\<in>set (qf_options form). do_key opt = qf_correctOption form"
  using assms
  by (auto simp: form_validate_def Let_def find_None_iff list_ex_iff split: prod.splits if_splits)

lemma mcq_accepted:
  assumes "options_ok T (qf_options form)" and "form_validate modules form = None" and "\<not> isTrait modules form"
  shows "assertValidMcq (the (handed_mcq (qd_details (form_draft modules form)))) = Inr ()"
    and "draft_ok (form_draft modules form) \<longleftrightarrow> lengths_ok modules form"
proof -
  note v = validated_form[OF assms(2)]
  have correct: "qf_correctOption form \<in> do_key ` set (qf_options form)" using v(7)[OF assms(3)] by (metis image_eqI)
  show "assertValidMcq (the (handed_mcq (qd_details (form_draft modules form)))) = Inr ()"
    using assms(1,3) correct by (simp add: assertValidMcq_ok form_draft_def options_ok_def comp_def image_image)
  have keys: "option_key_ok (do_key opt)" if "opt \<in> set (qf_options form)" for opt
    using assms(1) that by (simp add: options_ok_def)
  then have "option_key_ok (qf_correctOption form)" using correct by auto
  moreover have "4 \<le> length (qf_options form)" "length (qf_options form) \<le> 6"
    using v(3,4) assms(3) by (simp_all add: current_bounds_def form_bounds_def)
  ultimately show "draft_ok (form_draft modules form) \<longleftrightarrow> lengths_ok modules form"
    using v(2,5) keys assms(3)
    by (auto simp: draft_ok_def lengths_ok_def form_draft_def PROBE_GROUP_MAX_LENGTH_def MIN_OPTIONS_def MAX_OPTIONS_def
        list_all_iff option_text_ok_def option_key_ok_def Suc_le_eq)
qed

lemma trait_bounds:
  "fst (form_bounds True p) = fst (option_bounds p)" "snd (form_bounds True p) = snd (option_bounds p)"
  "2 \<le> fst (form_bounds True p)"
  by (simp_all add: form_bounds_def option_bounds_def LEGACY_OPTION_BOUNDS_def MIN_OPTIONS_def MAX_OPTIONS_def
      split: option.split behavioral_pattern.split)

lemma personality_accepted:
  assumes "form_module modules form = Some m" and "options_ok (trait_known modules form) (qf_options form)"
    and "form_validate modules form = None" and trait: "isTrait modules form"
    and "qf_pattern form = None \<longrightarrow> existing = None" and "creating \<longrightarrow> qf_pattern form \<noteq> None"
  shows "assertValidPersonality m (the (handed_personality (qd_details (form_draft modules form)))) creating existing = Inr ()"
    and "draft_ok (form_draft modules form) \<longleftrightarrow> lengths_ok modules form"
proof -
  note v = validated_form[OF assms(3)]
  let ?dto = "the (handed_personality (qd_details (form_draft modules form)))"
  have dto: "map po_key (dp_options ?dto) = map do_key (qf_options form)" "dp_pattern ?dto = qf_pattern form"
    "set (dp_options ?dto) = (\<lambda>opt. \<lparr>po_key = do_key opt, po_text = js_trim (do_text opt), po_traitWeights = do_traitWeights opt\<rparr>) `
       set (qf_options form)" "length (dp_options ?dto) = length (qf_options form)"
    using trait by (simp_all add: form_draft_def comp_def image_image)
  have declared: "form_traits modules form = map td_key (or_else (me_traits m) [])" by (simp add: form_traits_def assms(1))
  have checked: "assertValidOption (map td_key (or_else (me_traits m) [])) opt = Inr ()" if sent: "opt \<in> set (dp_options ?dto)" for opt
  proof -
    obtain opt' where opt': "opt' \<in> set (qf_options form)" "po_traitWeights opt = do_traitWeights opt'"
      using sent unfolding dto(3) by auto
    have "weights_ok (trait_known modules form) (po_traitWeights opt)" "po_traitWeights opt \<noteq> []"
      using assms(2) v(6)[OF trait] opt' by (simp_all add: options_ok_def)
    then have "well_keyed (po_traitWeights opt)" "option_valid opt"
      "fst ` set (po_traitWeights opt) \<subseteq> set (map td_key (or_else (me_traits m) []))"
      using trait by (auto simp: weights_ok_def option_valid_def trait_known_def declared)
    then show ?thesis using assertValidOption_ok by blast
  qed
  have bounds: "fst (form_bounds True (qf_pattern form)) \<le> length (qf_options form)"
      "length (qf_options form) \<le> snd (form_bounds True (qf_pattern form))"
    using v(3,4) trait by (simp_all add: current_bounds_def)
  have shape: "(case qf_pattern form of None \<Rightarrow> existing | Some p \<Rightarrow> Some p) = qf_pattern form" using assms(5) by (simp split: option.split)
  have count: "assertOptionCount ?dto (qf_pattern form) = Inr ()"
    using bounds unfolding trait_bounds assertOptionCount_def option_bounds_def[symmetric] dto(4) by (simp add: split_beta)
  have "distinct (map do_key (qf_options form))" using assms(2) by (simp add: options_ok_def)
  then show "assertValidPersonality m ?dto creating existing = Inr ()"
    using checked count assms(6) by (simp add: assertValidPersonality_def Let_def dto(1,2) length_js_set shape bind_result_Inr each_ok_Inr)
  have "2 \<le> length (qf_options form)" "length (qf_options form) \<le> 6"
    using bounds trait_bounds(3)[of "qf_pattern form"] form_bounds_limit[of True "qf_pattern form"] by linarith+
  moreover have "option_key_ok (do_key opt)" if "opt \<in> set (qf_options form)" for opt
    using assms(2) that by (simp add: options_ok_def)
  ultimately show "draft_ok (form_draft modules form) \<longleftrightarrow> lengths_ok modules form"
    using v(2,5) trait
    by (auto simp: draft_ok_def lengths_ok_def form_draft_def PROBE_GROUP_MAX_LENGTH_def PERSONALITY_MIN_OPTIONS_def MAX_OPTIONS_def
        list_all_iff option_text_ok_def Suc_le_eq truthy_def split: if_splits)
qed


definition sum_form_events :: "form_event list" where
  "sum_form_events = [Type_question ''2 + 2?'', Type_option 0 ''3'', Type_option 1 ''4'', Type_option 2 ''5'', Add_option,
     Type_option 3 ''6'', Type_option 4 ''7'', Remove_option 0, Mark_correct 0]"

lemma sum_form:
  "form_validate [sample_entry] (form_after (\<lambda>_. ''1000'') [sample_entry] None sum_form_events) = None"
  "map do_key (qf_options (form_after (\<lambda>_. ''1000'') [sample_entry] None sum_form_events)) = [''B'', ''C'', ''D'', ''E'']"
  by code_simp+


subsection \<open>A question whose module is not listed\<close>

lemma opened_on:
  assumes "qf_question form = Some q" and "qf_moduleId form = q_moduleId q"
  shows "qf_question (form_step modules event form) = Some q \<and> qf_moduleId (form_step modules event form) = q_moduleId q"
  using assms by (cases event) (simp_all add: patch_option_def pick_pattern_def Let_def split: prod.split)

lemma opened_after:
  "qf_moduleId (form_after written modules (Some q) events) = q_moduleId q"
proof -
  have "qf_question (fold (form_step modules) es form) = Some q \<and> qf_moduleId (fold (form_step modules) es form) = q_moduleId q"
    if "qf_question form = Some q" "qf_moduleId form = q_moduleId q" for es form
    using that by (induction es arbitrary: form) (simp_all add: opened_on)
  moreover have "qf_question (opened_form written modules (Some q)) = Some q" "qf_moduleId (opened_form written modules (Some q)) = q_moduleId q"
    by (simp_all add: opened_form_def)
  ultimately show ?thesis by (simp add: form_after_def)
qed

text \<open>Retiring a behavioural module locks its questions. The page loads the active modules
  only, so a question of a retired one is opened as if it were multiple choice: whatever the
  author then does, the form sends an answer key, and every attempt to save it is refused by
  the service as the wrong kind of answer, however small the correction.\<close>

theorem a_retired_module_locks_its_questions:
  assumes "modules_findAll collation False cg = (Inr modules, cg)" and "modules_sound (cg_modules cg)"
    and "List.find (\<lambda>r. q_id r = i \<and> visible_to_org (rows_of cg) organisationId r) (rows_of cg) = Some q"
    and "List.find (\<lambda>m. me_id m = q_moduleId q) (cg_modules cg) = Some m"
    and "me_scoringType m = TRAIT" and "\<not> me_isActive m"
  shows "fst (update_question_op i (update_of_draft (form_draft modules (form_after written modules (Some q) events))) organisationId cg) =
    Inl (NeedsPersonalityBlock (me_slug m))"
proof -
  let ?form = "form_after written modules (Some q) events"
  have listed: "set modules = {m \<in> set (cg_modules cg). me_isActive m}"
    using assms(1) by (auto simp: modules_findAll_def reading_def)
  have unlisted: "me_id n \<noteq> q_moduleId q" if "n \<in> set modules" for n
  proof
    assume "me_id n = q_moduleId q"
    moreover have "m \<in> set (cg_modules cg)" "me_id m = q_moduleId q" using find_row_mem[OF assms(4)] by auto
    moreover have "n \<in> set (cg_modules cg)" "me_isActive n" using that listed by auto
    ultimately have "n = m" using assms(2) by (auto simp: modules_sound_def distinct_map inj_on_def)
    with \<open>me_isActive n\<close> assms(6) show False by simp
  qed
  then have "form_module modules ?form = None" by (auto simp: form_module_def opened_after find_None_iff)
  then have "\<not> isTrait modules ?form" by (simp add: isTrait_def)
  then have sent: "uq_mcq (update_of_draft (form_draft modules ?form)) \<noteq> None"
    "uq_personality (update_of_draft (form_draft modules ?form)) = None"
    by (simp_all add: update_of_draft_def form_draft_def)
  then have "assertPayloadMatchesModule m (uq_mcq (update_of_draft (form_draft modules ?form))) None False (existing_pattern q) =
      Inl (NeedsPersonalityBlock (me_slug m))"
    using assms(5) by (simp add: assertPayloadMatchesModule_def)
  then show ?thesis
    using sent by (simp add: update_question_op_def bank_findOne_def module_of_def bind_p_def then_p_def reading_def ret_def assms(3,4)
        of_result_def)
qed

definition retired_module :: module_entry where
  "retired_module = \<lparr>me_id = ''t'', me_slug = ''personality'', me_name = ''Personality'', me_description = None, me_scoringType = TRAIT,
     me_traits = Some [\<lparr>td_key = ''drive'', td_label = ''Drive'', td_invertForReport = False\<rparr>], me_isActive = False\<rparr>"

definition agreement_option :: "string \<Rightarrow> string \<Rightarrow> real \<Rightarrow> personality_option" where
  "agreement_option k t w = \<lparr>po_key = k, po_text = t, po_traitWeights = [(''drive'', w)]\<rparr>"

definition agreement_question :: question where
  "agreement_question = \<lparr>q_id = ''l'', q_moduleId = ''t'', q_questionText = ''I plan my week.'', q_status = ACTIVE, q_probeGroup = None,
     q_isSample = False, q_organisationId = Some ''org'', q_forkedFromId = None, q_mcqDetails = None,
     q_personalityDetails = Some \<lparr>pd_options = [agreement_option ''A'' ''Yes'' 2, agreement_option ''B'' ''Often'' 1,
       agreement_option ''C'' ''Seldom'' (-1), agreement_option ''D'' ''No'' (-2)], pd_pattern = None, pd_timesUsed = 0\<rparr>\<rparr>"

definition retired_catalogue :: catalogue where
  "retired_catalogue = \<lparr>cg_modules = [sample_entry, retired_module],
     cg_bank = \<lparr>bk_questions = [agreement_question], bk_pool = []\<rparr>, cg_answered = [], cg_ids = (\<lambda>n. replicate n CHR ''x'')\<rparr>"

text \<open>The form sees no problem in it, and the correction of a letter is refused.\<close>

theorem a_retired_module_locks_its_questions_witness:
  "form_validate [sample_entry] (form_after (\<lambda>_. ''1000'') [sample_entry] (Some agreement_question) [Type_question ''I plan my week'']) = None \<and>
   fst (update_question_op ''l'' (update_of_draft (form_draft [sample_entry]
     (form_after (\<lambda>_. ''1000'') [sample_entry] (Some agreement_question) [Type_question ''I plan my week'']))) ''org'' retired_catalogue) =
   Inl (NeedsPersonalityBlock ''personality'')"
proof
  show "form_validate [sample_entry] (form_after (\<lambda>_. ''1000'') [sample_entry] (Some agreement_question) [Type_question ''I plan my week'']) = None"
    by code_simp
  have "modules_findAll (\<lambda>_. 0) False retired_catalogue = (Inr [sample_entry], retired_catalogue)"
    by (simp add: modules_findAll_def reading_def retired_catalogue_def sample_entry_def retired_module_def)
  moreover have "modules_sound (cg_modules retired_catalogue)"
    by (simp add: retired_catalogue_def retired_module_def sample_entry_def modules_sound_def module_sound_def)
  moreover have "List.find (\<lambda>r. q_id r = ''l'' \<and> visible_to_org (rows_of retired_catalogue) ''org'' r) (rows_of retired_catalogue) = Some agreement_question"
    by (simp add: retired_catalogue_def agreement_question_def visible_to_org_def)
  moreover have "List.find (\<lambda>m. me_id m = q_moduleId agreement_question) (cg_modules retired_catalogue) = Some retired_module"
    "me_scoringType retired_module = TRAIT" "\<not> me_isActive retired_module" "me_slug retired_module = ''personality''"
    by (simp_all add: retired_catalogue_def agreement_question_def sample_entry_def retired_module_def)
  ultimately show "fst (update_question_op ''l'' (update_of_draft (form_draft [sample_entry]
     (form_after (\<lambda>_. ''1000'') [sample_entry] (Some agreement_question) [Type_question ''I plan my week'']))) ''org'' retired_catalogue) =
   Inl (NeedsPersonalityBlock ''personality'')"
    using a_retired_module_locks_its_questions[of "\<lambda>_. 0" retired_catalogue "[sample_entry]" "''l''" "''org''" agreement_question retired_module
        "\<lambda>_. ''1000''" "[Type_question ''I plan my week'']"] by simp
qed

end
