(* ===== verification/Item_Analysis.thy ===== *)
theory Item_Analysis
  imports Report_Data
begin

section \<open>Item analysis\<close>

text \<open>
  \<open>question-bank/item-analysis.service.ts\<close>: what the stored answers say about each
  multiple-choice question an organisation can see. The aggregates the database computes
  (\<open>count\<close>, \<open>avg\<close>, \<open>corr\<close>) are written out over the joined rows; \<open>corr\<close> is null when
  either column is constant. Questions are kept in the order they were created in.
\<close>

subsection \<open>Thresholds\<close>

definition MIN_ATTEMPTS :: nat where "MIN_ATTEMPTS = 20"
definition TOO_EASY_ABOVE :: real where "TOO_EASY_ABOVE = 95 / 100"
definition TOO_HARD_BELOW :: real where "TOO_HARD_BELOW = 2 / 10"
definition WEAK_DISCRIMINATION_BELOW :: real where "WEAK_DISCRIMINATION_BELOW = 1 / 10"
definition DEAD_DISTRACTOR_BELOW :: real where "DEAD_DISTRACTOR_BELOW = 2 / 100"
definition DRIFT_TOLERANCE :: real where "DRIFT_TOLERANCE = 250"

datatype item_flag =
    Insufficient_data
  | Too_easy
  | Too_hard
  | Weak_discrimination
  | Negative_discrimination
  | Dead_distractor
  | Difficulty_drift

record item_option_stat =
  ios_key :: string
  ios_text :: string
  ios_isCorrect :: bool
  ios_pickRate :: real

record item_analysis =
  ia_questionId :: string
  ia_questionText :: string
  ia_moduleName :: string
  ia_status :: question_status
  ia_authoredDifficulty :: int
  ia_attempts :: nat
  ia_attemptsNeeded :: nat
  ia_pValue :: "real option"
  ia_discrimination :: "real option"
  ia_drift :: "real option"
  ia_options :: "item_option_stat list"
  ia_flags :: "item_flag list"

subsection \<open>The queries\<close>

record stat_row =
  st_attempts :: nat
  st_pValue :: "real option"
  st_meanAbility :: "real option"
  st_discrimination :: "real option"

definition submitted_session :: "world \<Rightarrow> string \<Rightarrow> bool" where
  "submitted_session w i \<longleftrightarrow> list_ex (\<lambda>s. sr_id s = i \<and> sr_submittedAt s \<noteq> None) (w_sessions w)"

text \<open>The rows of \<open>answered\<close>: whether the answer was right, and the ability of its module run.\<close>

definition answered_rows :: "world \<Rightarrow> string \<Rightarrow> (bool \<times> real) list" where
  "answered_rows w questionId =
     concat (map (\<lambda>r. case rs_isCorrect r of None \<Rightarrow> []
         | Some c \<Rightarrow> List.map_filter (\<lambda>smr. map_option (Pair c) (mr_abilityScore smr))
             (filter (\<lambda>smr. mr_sessionId smr = rs_sessionId r \<and> mr_moduleId smr = rs_moduleId r) (w_results w)))
       (filter (\<lambda>r. rs_questionId r = questionId \<and> submitted_session w (rs_sessionId r)) (w_responses w)))"

definition correct_value :: "bool \<Rightarrow> real" where
  "correct_value c = (if c then 1 else 0)"

definition sum_of_products :: "(real \<times> real) list \<Rightarrow> real" where
  "sum_of_products ps =
     (let mx = mean (map fst ps); my = mean (map snd ps) in sum_list (map (\<lambda>(x, y). (x - mx) * (y - my)) ps))"

text \<open>\<open>corr\<close>: Pearson's coefficient.\<close>

definition corr :: "(real \<times> real) list \<Rightarrow> real option" where
  "corr ps =
     (let sxx = sum_of_products (map (\<lambda>(x, _). (x, x)) ps); syy = sum_of_products (map (\<lambda>(_, y). (y, y)) ps)
      in if sxx = 0 \<or> syy = 0 then None else Some (sum_of_products ps / sqrt (sxx * syy)))"

definition stat_of :: "(bool \<times> real) list \<Rightarrow> stat_row option" where
  "stat_of rows =
     (if rows = [] then None
      else Some \<lparr>st_attempts = length rows, st_pValue = Some (mean (map (correct_value \<circ> fst) rows)),
        st_meanAbility = Some (mean (map snd rows)), st_discrimination = corr (map (\<lambda>(c, a). (correct_value c, a)) rows)\<rparr>)"

text \<open>How often each option was chosen on a submitted attempt.\<close>

definition picks_of :: "world \<Rightarrow> string \<Rightarrow> nat jsobj" where
  "picks_of w questionId = foldl (\<lambda>picks i. obj_set i (or_else (obj_get picks i) 0 + 1) picks) []
     (List.map_filter rs_selectedOption
        (filter (\<lambda>r. rs_questionId r = questionId \<and> submitted_session w (rs_sessionId r)) (w_responses w)))"

subsection \<open>One question\<close>

definition impliedDifficulty :: "real \<Rightarrow> real \<Rightarrow> real" where
  "impliedDifficulty pValue meanAbility =
     (let p = min (99 / 100) (max (1 / 100) pValue) in meanAbility + 400 * log 10 ((1 - p) / p))"

definition flag_item ::
  "bool \<Rightarrow> real option \<Rightarrow> real option \<Rightarrow> real option \<Rightarrow> item_option_stat list \<Rightarrow> item_flag list" where
  "flag_item enough pValue discrimination drift options =
     (if \<not> enough then [Insufficient_data]
      else (case pValue of Some p \<Rightarrow> if p > TOO_EASY_ABOVE then [Too_easy] else [] | None \<Rightarrow> []) @
           (case pValue of Some p \<Rightarrow> if p < TOO_HARD_BELOW then [Too_hard] else [] | None \<Rightarrow> []) @
           (case discrimination of Some d \<Rightarrow> if d < 0 then [Negative_discrimination]
               else if d < WEAK_DISCRIMINATION_BELOW then [Weak_discrimination] else [] | None \<Rightarrow> []) @
           (if list_ex (\<lambda>opt. \<not> ios_isCorrect opt \<and> ios_pickRate opt < DEAD_DISTRACTOR_BELOW) options
            then [Dead_distractor] else []) @
           (case drift of Some d \<Rightarrow> if \<bar>d\<bar> > DRIFT_TOLERANCE then [Difficulty_drift] else [] | None \<Rightarrow> []))"

definition option_stats :: "mcq_details \<Rightarrow> nat jsobj \<Rightarrow> item_option_stat list" where
  "option_stats details picks =
     (let totalPicks = foldl (+) 0 (obj_values picks)
      in map (\<lambda>opt. \<lparr>ios_key = mo_key opt, ios_text = mo_text opt, ios_isCorrect = (mo_key opt = md_correctOption details),
           ios_pickRate = (if totalPicks > 0 then real (or_else (obj_get picks (mo_key opt)) 0) / real totalPicks else 0)\<rparr>)
         (md_options details))"

definition assemble :: "question \<Rightarrow> mcq_details \<Rightarrow> module_entry \<Rightarrow> stat_row option \<Rightarrow> nat jsobj \<Rightarrow> item_analysis" where
  "assemble q details m stat picks =
     (let attempts = (case stat of None \<Rightarrow> 0 | Some s \<Rightarrow> st_attempts s);
          enough = (attempts \<ge> MIN_ATTEMPTS);
          pValue = (if enough then Option.bind stat st_pValue else None);
          discrimination = (if enough then Option.bind stat st_discrimination else None);
          options = option_stats details picks;
          drift = (case (pValue, Option.bind stat st_meanAbility) of
              (Some p, Some meanAbility) \<Rightarrow> if enough then Some (impliedDifficulty p meanAbility - real_of_int (md_difficultyScore details)) else None
            | _ \<Rightarrow> None)
      in \<lparr>ia_questionId = q_id q, ia_questionText = q_questionText q, ia_moduleName = me_name m, ia_status = q_status q,
          ia_authoredDifficulty = md_difficultyScore details, ia_attempts = attempts, ia_attemptsNeeded = MIN_ATTEMPTS - attempts,
          ia_pValue = pValue, ia_discrimination = discrimination, ia_drift = drift, ia_options = options,
          ia_flags = flag_item enough pValue discrimination drift options\<rparr>)"

definition analysed_questions ::
  "module_entry list \<Rightarrow> world \<Rightarrow> string \<Rightarrow> string option \<Rightarrow> nat option \<Rightarrow> (question \<times> mcq_details \<times> module_entry) list" where
  "analysed_questions catalogue w organisationId moduleId most =
     take (min (or_else most 200) 500)
       (List.map_filter (\<lambda>q. case (q_mcqDetails q, module_entry_of catalogue (q_moduleId q)) of
            (Some d, Some m) \<Rightarrow> Some (q, d, m) | _ \<Rightarrow> None)
          (filter (\<lambda>q. visible_to_org (bk_questions (w_bank w)) organisationId q \<and>
             (case moduleId of None \<Rightarrow> True | Some i \<Rightarrow> q_moduleId q = i)) (rev (bk_questions (w_bank w)))))"

definition forOrganisation ::
  "module_entry list \<Rightarrow> world \<Rightarrow> string \<Rightarrow> string option \<Rightarrow> nat option \<Rightarrow> item_analysis list" where
  "forOrganisation catalogue w organisationId moduleId most =
     map (\<lambda>(q, d, m). assemble q d m (stat_of (answered_rows w (q_id q))) (picks_of w (q_id q)))
       (analysed_questions catalogue w organisationId moduleId most)"

end
