(* ===== verification/Item_Properties.thy ===== *)
theory Item_Properties
  imports Item_Analysis Session_Properties Question_Bank_Properties
begin

section \<open>The properties of item analysis\<close>

text \<open>
  What a published number means: the implied difficulty inverts the engine's own model,
  the discrimination is a correlation whose sign compares the two groups of candidates,
  the pick rates are shares, and a flag is raised exactly in its case.
\<close>

subsection \<open>Sums\<close>

lemma sum_list_affine:
  "sum_list (map (\<lambda>p. a * f p + b) ps) = a * sum_list (map f ps) + b * real (length ps)" for a b :: real
  by (induction ps) (simp_all add: algebra_simps)

lemma sum_of_products_expand:
  "sum_of_products ps = sum_list (map (\<lambda>(x, y). x * y) ps) -
     sum_list (map fst ps) * sum_list (map snd ps) / real (length ps)"
proof (cases "ps = []")
  case False
  define u v where "u = mean (map fst ps)" and "v = mean (map snd ps)"
  define X Y S where "X = sum_list (map fst ps)" and "Y = sum_list (map snd ps)" and "S = sum_list (map (\<lambda>(x, y). x * y) ps)"
  have "sum_list (map (\<lambda>(x, y). (x - u) * (y - v)) qs) = sum_list (map (\<lambda>(x, y). x * y) qs) -
      v * sum_list (map fst qs) - u * sum_list (map snd qs) + u * v * real (length qs)" for qs
    by (induction qs) (auto simp: algebra_simps)
  then have "sum_of_products ps = S - v * X - u * Y + u * v * real (length ps)"
    by (simp add: sum_of_products_def Let_def u_def v_def X_def Y_def S_def)
  moreover have "u = X / real (length ps)" "v = Y / real (length ps)"
    by (simp_all add: u_def v_def X_def Y_def mean_sum_list)
  then have "v * X = X * Y / real (length ps)" "u * Y = X * Y / real (length ps)" "u * v * real (length ps) = X * Y / real (length ps)"
    using False by simp_all
  ultimately show ?thesis unfolding X_def[symmetric] Y_def[symmetric] S_def[symmetric] by linarith
qed (simp add: sum_of_products_def)

lemma sum_of_squares_nonneg: "0 \<le> sum_of_products (map (\<lambda>p. (f p, f p)) ps)"
  by (auto simp: sum_of_products_def Let_def comp_def intro!: sum_list_nonneg)

lemma cauchy_schwarz_list:
  fixes f g :: "'a \<Rightarrow> real"
  shows "(sum_list (map (\<lambda>p. f p * g p) ps))\<^sup>2 \<le> sum_list (map (\<lambda>p. (f p)\<^sup>2) ps) * sum_list (map (\<lambda>p. (g p)\<^sup>2) ps)"
proof -
  let ?A = "sum_list (map (\<lambda>p. (f p)\<^sup>2) ps)" and ?B = "sum_list (map (\<lambda>p. (g p)\<^sup>2) ps)" and ?C = "sum_list (map (\<lambda>p. f p * g p) ps)"
  have expand: "sum_list (map (\<lambda>p. (b * f p - c * g p)\<^sup>2) qs) = b\<^sup>2 * sum_list (map (\<lambda>p. (f p)\<^sup>2) qs) -
      2 * b * c * sum_list (map (\<lambda>p. f p * g p) qs) + c\<^sup>2 * sum_list (map (\<lambda>p. (g p)\<^sup>2) qs)" for b c qs
    by (induction qs) (auto simp: algebra_simps power2_eq_square)
  have "0 \<le> sum_list (map (\<lambda>p. (?B * f p - ?C * g p)\<^sup>2) ps)" by (auto intro!: sum_list_nonneg)
  then have pos: "0 \<le> ?B * (?A * ?B - ?C\<^sup>2)" unfolding expand by (simp add: algebra_simps power2_eq_square)
  have B: "0 \<le> ?B" by (auto intro!: sum_list_nonneg)
  show ?thesis
  proof (cases "?B = 0")
    case True
    then have "\<forall>p\<in>set ps. g p = 0" by (subst (asm) sum_list_nonneg_eq_0_iff) auto
    then have "?C = 0" by (auto intro: sum_list_all_0)
    with True show ?thesis by simp
  next
    case False
    with B pos show ?thesis by (simp add: zero_le_mult_iff)
  qed
qed

lemma corr_bounds:
  assumes "corr ps = Some r"
  shows "- 1 \<le> r \<and> r \<le> 1"
proof -
  let ?u = "\<lambda>p. fst p - mean (map fst ps)" and ?v = "\<lambda>p. snd p - mean (map snd ps)"
  let ?sxx = "sum_list (map (\<lambda>p. (?u p)\<^sup>2) ps)" and ?syy = "sum_list (map (\<lambda>p. (?v p)\<^sup>2) ps)"
    and ?sxy = "sum_list (map (\<lambda>p. ?u p * ?v p) ps)"
  have products: "sum_of_products ps = ?sxy" "sum_of_products (map (\<lambda>(x, _). (x, x)) ps) = ?sxx"
    "sum_of_products (map (\<lambda>(_, y). (y, y)) ps) = ?syy"
    by (simp_all add: sum_of_products_def Let_def comp_def case_prod_beta' power2_eq_square)
  have r: "?sxx \<noteq> 0" "?syy \<noteq> 0" "r = ?sxy / sqrt (?sxx * ?syy)"
    using assms by (auto simp: corr_def Let_def products split: if_splits)
  have pos: "0 \<le> ?sxx" "0 \<le> ?syy" by (auto intro!: sum_list_nonneg)
  then have root: "0 < sqrt (?sxx * ?syy)" using r(1,2) by (simp add: zero_less_mult_iff less_le)
  have "?sxy\<^sup>2 \<le> ?sxx * ?syy" by (rule cauchy_schwarz_list)
  then have "\<bar>?sxy\<bar> \<le> sqrt (?sxx * ?syy)" by (rule real_le_rsqrt[of "\<bar>_\<bar>", simplified])
  then have "\<bar>r\<bar> \<le> 1" unfolding r(3) abs_divide using root by (subst divide_le_eq_1) (simp only: abs_of_pos, simp)
  then show ?thesis by linarith
qed

subsection \<open>The sign of the discrimination\<close>

definition abilities :: "bool \<Rightarrow> (bool \<times> real) list \<Rightarrow> real list" where
  "abilities c rows = map snd (filter (\<lambda>row. fst row = c) rows)"

lemma abilities_split:
  "length (abilities True rows) + length (abilities False rows) = length rows"
  "sum_list (map snd rows) = sum_list (abilities True rows) + sum_list (abilities False rows)"
  "sum_list (map (correct_value \<circ> fst) rows) = real (length (abilities True rows))"
  "sum_list (map (\<lambda>(c, a). correct_value c * a) rows) = sum_list (abilities True rows)"
  by (induction rows) (auto simp: abilities_def correct_value_def)

lemma correct_products:
  assumes "abilities True rows \<noteq> []" and "abilities False rows \<noteq> []"
  defines "k \<equiv> real (length (abilities True rows))" and "l \<equiv> real (length (abilities False rows))"
  shows "sum_of_products (map (\<lambda>(c, a). (correct_value c, a)) rows) =
      k * l / (k + l) * (mean (abilities True rows) - mean (abilities False rows))"
    and "sum_of_products (map (\<lambda>(c, a). (correct_value c, correct_value c)) rows) = k * l / (k + l)"
proof -
  define A B where "A = sum_list (abilities True rows)" and "B = sum_list (abilities False rows)"
  have n: "real (length rows) = k + l" "k > 0" "l > 0"
    using assms abilities_split(1)[of rows, symmetric] by simp_all
  have sq: "sum_list (map (\<lambda>(c, a). correct_value c * correct_value c) rows) = k"
    unfolding k_def by (induction rows) (auto simp: abilities_def correct_value_def)
  have sums: "sum_list (map fst (map (\<lambda>(c, a). (correct_value c, a)) rows)) = k"
    "sum_list (map snd (map (\<lambda>(c, a). (correct_value c, a)) rows)) = A + B"
    "sum_list (map (\<lambda>(x, y). x * y) (map (\<lambda>(c, a). (correct_value c, a)) rows)) = A"
    "sum_list (map fst (map (\<lambda>(c, a). (correct_value c, correct_value c)) rows)) = k"
    "sum_list (map snd (map (\<lambda>(c, a). (correct_value c, correct_value c)) rows)) = k"
    "sum_list (map (\<lambda>(x, y). x * y) (map (\<lambda>(c, a). (correct_value c, correct_value c)) rows)) = k"
    using abilities_split(2-4)[of rows] sq by (simp_all add: k_def A_def B_def comp_def case_prod_beta')
  have means: "mean (abilities True rows) = A / k" "mean (abilities False rows) = B / l"
    by (simp_all add: mean_sum_list A_def B_def k_def l_def)
  have len: "real (length (map f rows)) = k + l" for f :: "_ \<Rightarrow> real \<times> real" using n by simp
  have "k * l / (k + l) * (A / k - B / l) = (k * l * (A / k - B / l)) / (k + l)" by simp
  also have "k * l * (A / k - B / l) = l * A - k * B" using n by (simp add: right_diff_distrib)
  also have "(l * A - k * B) / (k + l) = (A * (k + l) - k * (A + B)) / (k + l)" by (simp add: algebra_simps)
  also have "\<dots> = A - k * (A + B) / (k + l)" using n by (simp add: diff_divide_distrib)
  finally have "A - k * (A + B) / (k + l) = k * l / (k + l) * (A / k - B / l)" by simp
  then show "sum_of_products (map (\<lambda>(c, a). (correct_value c, a)) rows) =
      k * l / (k + l) * (mean (abilities True rows) - mean (abilities False rows))"
    unfolding sum_of_products_expand sums means len .
  have "k - k * k / (k + l) = k * l / (k + l)" using n by (simp add: field_simps)
  then show "sum_of_products (map (\<lambda>(c, a). (correct_value c, correct_value c)) rows) = k * l / (k + l)"
    unfolding sum_of_products_expand sums len .
qed

lemma sum_of_squares_zero:
  assumes "sum_of_products (map (\<lambda>p. (f p, f p)) ps) = 0" and "p \<in> set ps"
  shows "f p = mean (map f ps)"
proof -
  have "sum_list (map (\<lambda>p. (f p - mean (map f ps)) * (f p - mean (map f ps))) ps) = 0"
    using assms(1) by (simp add: sum_of_products_def Let_def comp_def)
  then have "\<forall>x\<in>set (map (\<lambda>p. (f p - mean (map f ps)) * (f p - mean (map f ps))) ps). x = 0"
    by (subst (asm) sum_list_nonneg_eq_0_iff) auto
  with assms(2) show ?thesis by simp
qed

lemma sum_of_squares_constant: "(\<And>p. p \<in> set ps \<Longrightarrow> f p = c) \<Longrightarrow> sum_of_products (map (\<lambda>p. (f p, f p)) ps) = 0"
proof -
  assume c: "\<And>p. p \<in> set ps \<Longrightarrow> f p = c"
  have "sum_list (map (\<lambda>p. a * f p) qs) = a * c * real (length qs)" if "set qs \<subseteq> set ps" for a qs
    using that by (induction qs) (auto simp: c algebra_simps)
  from this[of ps 1] have m: "ps \<noteq> [] \<Longrightarrow> mean (map f ps) = c" by (simp add: mean_sum_list)
  show ?thesis by (cases "ps = []") (auto simp: sum_of_products_def Let_def comp_def m c intro!: sum_list_all_0)
qed

lemma corr_rows:
  "corr (map (\<lambda>(c, a). (correct_value c, a)) rows) =
     (let sxx = sum_of_products (map (\<lambda>row. (correct_value (fst row), correct_value (fst row))) rows);
          syy = sum_of_products (map (\<lambda>row. (snd row, snd row)) rows)
      in if sxx = 0 \<or> syy = 0 then None
         else Some (sum_of_products (map (\<lambda>(c, a). (correct_value c, a)) rows) / sqrt (sxx * syy)))"
  by (simp add: corr_def Let_def comp_def case_prod_beta')

lemma corr_None:
  "corr (map (\<lambda>(c, a). (correct_value c, a)) rows) = None \<longleftrightarrow>
     abilities True rows = [] \<or> abilities False rows = [] \<or> (\<exists>a. list_all (\<lambda>row. snd row = a) rows)"
  (is "?null \<longleftrightarrow> ?constant")
proof
  have none: "abilities c rows = [] \<Longrightarrow> row \<in> set rows \<Longrightarrow> fst row = (\<not> c)" for c row
    by (auto simp: abilities_def filter_empty_conv)
  assume ?constant
  then show ?null
  proof (elim disjE exE)
    assume "abilities True rows = []"
    then have "sum_of_products (map (\<lambda>row. (correct_value (fst row), correct_value (fst row))) rows) = 0"
      by (intro sum_of_squares_constant[where c = 0]) (auto dest: none simp: correct_value_def)
    then show ?thesis by (simp add: corr_rows)
  next
    assume "abilities False rows = []"
    then have "sum_of_products (map (\<lambda>row. (correct_value (fst row), correct_value (fst row))) rows) = 0"
      by (intro sum_of_squares_constant[where c = 1]) (auto dest: none simp: correct_value_def)
    then show ?thesis by (simp add: corr_rows)
  next
    fix a assume "list_all (\<lambda>row. snd row = a) rows"
    then have "sum_of_products (map (\<lambda>row. (snd row, snd row)) rows) = 0"
      by (intro sum_of_squares_constant[where c = a]) (auto simp: list_all_iff)
    then show ?thesis by (simp add: corr_rows)
  qed
next
  assume null: ?null
  show ?constant
  proof (rule ccontr)
    assume not: "\<not> ?constant"
    then have groups: "abilities True rows \<noteq> []" "abilities False rows \<noteq> []" by auto
    then have "0 < real (length (abilities True rows))" "0 < real (length (abilities False rows))" by simp_all
    then have "sum_of_products (map (\<lambda>row. (correct_value (fst row), correct_value (fst row))) rows) \<noteq> 0"
      using correct_products(2)[OF groups] by (simp add: case_prod_beta' add_nonneg_eq_0_iff)
    moreover have "sum_of_products (map (\<lambda>row. (snd row, snd row)) rows) \<noteq> 0"
    proof
      assume "sum_of_products (map (\<lambda>row. (snd row, snd row)) rows) = 0"
      from sum_of_squares_zero[OF this] have "list_all (\<lambda>row. snd row = mean (map snd rows)) rows"
        by (simp add: list_all_iff)
      with not show False by blast
    qed
    ultimately show False using null by (simp add: corr_rows)
  qed
qed

lemma corr_sign:
  assumes "corr (map (\<lambda>(c, a). (correct_value c, a)) rows) = Some r"
  shows "r < 0 \<longleftrightarrow> mean (abilities True rows) < mean (abilities False rows)"
proof -
  have groups: "abilities True rows \<noteq> []" "abilities False rows \<noteq> []" using corr_None[of rows] assms by auto
  define q where "q = sqrt (sum_of_products (map (\<lambda>row. (correct_value (fst row), correct_value (fst row))) rows) *
      sum_of_products (map (\<lambda>row. (snd row, snd row)) rows))"
  define k l where "k = real (length (abilities True rows))" and "l = real (length (abilities False rows))"
  have r: "r = k * l / (k + l) * (mean (abilities True rows) - mean (abilities False rows)) / q"
    using assms correct_products(1)[OF groups] by (simp add: corr_rows Let_def q_def k_def l_def split: if_splits)
  have "0 < k * l / (k + l)" using groups by (simp add: k_def l_def add_pos_pos)
  moreover have "0 < q" using assms sum_of_squares_nonneg[of "\<lambda>row. correct_value (fst row)" rows] sum_of_squares_nonneg[of snd rows]
    by (auto simp: corr_rows Let_def q_def less_le split: if_splits)
  ultimately have "0 < k * l / (k + l) / q" by (rule divide_pos_pos)
  moreover have "r = k * l / (k + l) / q * (mean (abilities True rows) - mean (abilities False rows))" by (simp add: r)
  ultimately show ?thesis by (simp only: mult_less_0_iff) auto
qed

subsection \<open>What is published\<close>

lemma analysis_of_rows:
  assumes "a \<in> set (forOrganisation catalogue w organisationId moduleId most)"
  shows "\<exists>q d m. a = assemble q d m (stat_of (answered_rows w (ia_questionId a))) (picks_of w (ia_questionId a)) \<and>
    ia_questionId a = q_id q \<and> q \<in> set (bk_questions (w_bank w)) \<and> visible_to_org (bk_questions (w_bank w)) organisationId q"
proof -
  have id: "ia_questionId (assemble q d m stat picks) = q_id q" for q d m stat picks by (simp add: assemble_def Let_def)
  obtain q d m where q: "(q, d, m) \<in> set (analysed_questions catalogue w organisationId moduleId most)"
    "a = assemble q d m (stat_of (answered_rows w (q_id q))) (picks_of w (q_id q))"
    using assms by (auto simp: forOrganisation_def)
  let ?joined = "\<lambda>q. case (q_mcqDetails q, module_entry_of catalogue (q_moduleId q)) of (Some d, Some m) \<Rightarrow> Some (q, d, m) | _ \<Rightarrow> None"
  from q(1) obtain x where x: "x \<in> set (bk_questions (w_bank w))" "visible_to_org (bk_questions (w_bank w)) organisationId x"
      "?joined x = Some (q, d, m)"
    unfolding analysed_questions_def by (auto simp: set_map_filter dest!: in_set_takeD)
  then have "x = q" by (simp split: option.split_asm)
  with x have "q \<in> set (bk_questions (w_bank w)) \<and> visible_to_org (bk_questions (w_bank w)) organisationId q" by simp
  with q(2) id show ?thesis by metis
qed

lemma attempts_counted: "ia_attempts (assemble q d m (stat_of rows) picks) = length rows"
  by (cases rows) (simp_all add: assemble_def stat_of_def Let_def)

lemma published:
  "ia_discrimination (assemble q d m (stat_of rows) picks) =
     (if length rows < 20 then None else corr (map (\<lambda>(c, a). (correct_value c, a)) rows))"
  "ia_pValue (assemble q d m (stat_of rows) picks) = (if length rows < 20 then None else Some (mean (map (correct_value \<circ> fst) rows)))"
  "ia_drift (assemble q d m (stat_of rows) picks) =
     (if length rows < 20 then None
      else Some (impliedDifficulty (mean (map (correct_value \<circ> fst) rows)) (mean (map snd rows)) - real_of_int (md_difficultyScore d)))"
  "ia_authoredDifficulty (assemble q d m (stat_of rows) picks) = md_difficultyScore d"
  "ia_flags (assemble q d m (stat_of rows) picks) = flag_item (20 \<le> length rows)
     (ia_pValue (assemble q d m (stat_of rows) picks)) (ia_discrimination (assemble q d m (stat_of rows) picks))
     (ia_drift (assemble q d m (stat_of rows) picks)) (ia_options (assemble q d m (stat_of rows) picks))"
  by (cases rows; simp add: assemble_def stat_of_def Let_def MIN_ATTEMPTS_def)+

lemma negative_flag: "Negative_discrimination \<in> set (flag_item enough pValue discrimination drift options) \<longleftrightarrow>
    enough \<and> (case discrimination of Some d \<Rightarrow> d < 0 | None \<Rightarrow> False)"
  by (auto simp: flag_item_def split: option.splits)

lemma insufficient_flag: "Insufficient_data \<in> set (flag_item enough pValue discrimination drift options) \<longleftrightarrow> \<not> enough"
  by (auto simp: flag_item_def split: option.splits)

text \<open>The discrimination of a question compares the candidates who got it right with
  those who did not: it is published exactly when there are twenty scored attempts, both
  groups exist and abilities differ at all; it then lies between -1 and 1; and the
  question is flagged as negative exactly when those who got it wrong had the higher mean
  ability. No question without twenty attempts carries any other flag than that.\<close>

theorem discrimination_compares_the_groups:
  assumes "a \<in> set (forOrganisation catalogue w organisationId moduleId most)"
    and "rows = answered_rows w (ia_questionId a)"
  shows "(ia_discrimination a = None \<longleftrightarrow> length rows < 20 \<or> abilities True rows = [] \<or> abilities False rows = [] \<or>
       (\<exists>x. list_all (\<lambda>row. snd row = x) rows)) \<and>
     (case ia_discrimination a of None \<Rightarrow> True | Some r \<Rightarrow> - 1 \<le> r \<and> r \<le> 1) \<and>
     (Negative_discrimination \<in> set (ia_flags a) \<longleftrightarrow> 20 \<le> length rows \<and> abilities True rows \<noteq> [] \<and> abilities False rows \<noteq> [] \<and>
       mean (abilities True rows) < mean (abilities False rows)) \<and>
     (ia_flags a = [Insufficient_data] \<longleftrightarrow> length rows < 20)"
proof -
  obtain q d m where "a = assemble q d m (stat_of rows) (picks_of w (ia_questionId a))"
    using analysis_of_rows[OF assms(1)] assms(2) by auto
  then have a: "ia_discrimination a = (if length rows < 20 then None else corr (map (\<lambda>(c, a). (correct_value c, a)) rows))"
    "ia_flags a = flag_item (20 \<le> length rows) (ia_pValue a) (ia_discrimination a) (ia_drift a) (ia_options a)"
    using published[of q d m rows "picks_of w (ia_questionId a)"] by simp_all
  have differing: "\<not> (\<exists>x. list_all (\<lambda>row. snd row = x) rows)"
    if "abilities True rows \<noteq> []" "abilities False rows \<noteq> []" "mean (abilities True rows) < mean (abilities False rows)"
  proof
    assume "\<exists>x. list_all (\<lambda>row. snd row = x) rows"
    then obtain x where "list_all (\<lambda>row. snd row = x) rows" by blast
    then have "\<And>y. y \<in> set (abilities c rows) \<Longrightarrow> x \<le> y \<and> y \<le> x" for c by (auto simp: abilities_def list_all_iff)
    then show False using that mean_between[of "abilities True rows" x x] mean_between[of "abilities False rows" x x] by force
  qed
  have flags: "ia_flags a = [Insufficient_data] \<longleftrightarrow> length rows < 20"
    using insufficient_flag[of "20 \<le> length rows" "ia_pValue a" "ia_discrimination a" "ia_drift a" "ia_options a"] a(2)
    by (auto simp: flag_item_def)
  show ?thesis
  proof (intro conjI)
    show "ia_flags a = [Insufficient_data] \<longleftrightarrow> length rows < 20" by (rule flags)
    show "Negative_discrimination \<in> set (ia_flags a) \<longleftrightarrow> 20 \<le> length rows \<and> abilities True rows \<noteq> [] \<and>
        abilities False rows \<noteq> [] \<and> mean (abilities True rows) < mean (abilities False rows)"
      unfolding a(2) negative_flag using a(1) differing corr_None[of rows] corr_sign[of rows]
      by (cases "corr (map (\<lambda>(c, a). (correct_value c, a)) rows)") (auto split: if_splits)
  qed (use a(1) corr_None[of rows] corr_bounds in \<open>auto split: option.split\<close>)
qed

text \<open>Drift is a disagreement within one model: a candidate of the mean ability of those
  who met the question, meeting it at the authored difficulty corrected by the drift, is
  expected by the engine to answer it right exactly as often as it was, whenever that is
  between one and ninety-nine times in a hundred.\<close>

theorem drift_inverts_the_engine:
  assumes "a \<in> set (forOrganisation catalogue w organisationId moduleId most)"
    and "ia_drift a = Some d" and "ia_pValue a = Some p" and "1 / 100 \<le> p" and "p \<le> 99 / 100"
  shows "expectedScore (mean (map snd (answered_rows w (ia_questionId a)))) (real_of_int (ia_authoredDifficulty a) + d) = p"
proof -
  define rows where "rows = answered_rows w (ia_questionId a)"
  obtain q e m where "a = assemble q e m (stat_of rows) (picks_of w (ia_questionId a))"
    using analysis_of_rows[OF assms(1)] by (auto simp: rows_def)
  then have "real_of_int (ia_authoredDifficulty a) + d = impliedDifficulty p (mean (map snd rows))"
    using published[of q e m rows "picks_of w (ia_questionId a)"] assms(2,3) by (auto split: if_splits)
  moreover have "min (99 / 100) (max (1 / 100) p) = p" using assms(4,5) by simp
  moreover have "10 powr log 10 ((1 - p) / p) = (1 - p) / p" using assms(4,5) by (simp add: powr_log_cancel)
  ultimately show ?thesis using assms(4)
    by (simp add: expectedScore_def impliedDifficulty_def ELO_D_def Let_def rows_def[symmetric] field_simps)
qed

subsection \<open>A concrete bank\<close>

text \<open>Twenty submitted attempts at one question, got right by the ten weaker candidates.\<close>

definition sitting :: "nat \<Rightarrow> session_row" where
  "sitting n = sample_session\<lparr>sr_id := replicate n CHR ''s'', sr_submittedAt := Some 9\<rparr>"

definition sitting_answer :: "nat \<Rightarrow> response_row" where
  "sitting_answer n = \<lparr>rs_sessionId = replicate n CHR ''s'', rs_moduleId = ''m'', rs_questionId = ''q1'',
     rs_selectedOption = Some (if n < 10 then ''A'' else ''B''), rs_selectedOptions = None, rs_isCorrect = Some (n < 10),
     rs_abilityEstimateAfter = None, rs_questionDifficultyAtServe = None, rs_sequenceNumber = 1, rs_timeTakenMs = 5\<rparr>"

definition sitting_result :: "nat \<Rightarrow> module_result_row" where
  "sitting_result n = \<lparr>mr_sessionId = replicate n CHR ''s'', mr_moduleId = ''m'',
     mr_abilityScore = Some (if n < 10 then 900 else 1100), mr_traitScores = None, mr_probeResults = None,
     mr_questionsAnswered = 1, mr_questionsCorrect = 1, mr_stopReason = None, mr_startedAt = None, mr_completedAt = None\<rparr>"

definition item_world :: world where
  "item_world = empty_world\<lparr>w_sessions := map sitting [0..<20], w_responses := map sitting_answer [0..<20],
     w_results := map sitting_result [0..<20]\<rparr>"

lemma filter_upt_eq: "i < n \<Longrightarrow> filter (\<lambda>j. j = i) [0..<n] = [i]"
proof (induction n)
  case (Suc n)
  have "filter (\<lambda>j. j = i) [0..<n] = []" if "\<not> i < n" using that by (auto simp: filter_empty_conv)
  with Suc show ?case by (cases "i < n") auto
qed simp

lemma item_rows: "answered_rows item_world ''q1'' = map (\<lambda>n. (n < 10, if n < 10 then 900 else 1100)) [0..<20]"
proof -
  have "submitted_session item_world (replicate n CHR ''s'')" if "n < 20" for n
    using that by (force simp: submitted_session_def item_world_def sitting_def list_ex_iff)
  then have rows: "filter (\<lambda>r. rs_questionId r = ''q1'' \<and> submitted_session item_world (rs_sessionId r)) (map sitting_answer [0..<20]) =
      map sitting_answer [0..<20]"
    by (auto simp: filter_id_conv sitting_answer_def)
  have "filter (\<lambda>smr. mr_sessionId smr = rs_sessionId (sitting_answer n) \<and> mr_moduleId smr = rs_moduleId (sitting_answer n))
      (map sitting_result [0..<20]) = [sitting_result n]" if "n < 20" for n
    using filter_upt_eq[OF that] by (simp add: filter_map comp_def sitting_answer_def sitting_result_def)
  then have "(case rs_isCorrect (sitting_answer n) of None \<Rightarrow> [] | Some c \<Rightarrow> List.map_filter (\<lambda>smr. map_option (Pair c) (mr_abilityScore smr))
        (filter (\<lambda>smr. mr_sessionId smr = rs_sessionId (sitting_answer n) \<and> mr_moduleId smr = rs_moduleId (sitting_answer n))
          (map sitting_result [0..<20]))) = [(n < 10, if n < 10 then 900 else 1100)]" if "n < 20" for n
    using that by (simp add: map_filter_simps) (simp add: sitting_answer_def sitting_result_def)
  then have "concat (map (\<lambda>r. case rs_isCorrect r of None \<Rightarrow> [] | Some c \<Rightarrow> List.map_filter (\<lambda>smr. map_option (Pair c) (mr_abilityScore smr))
        (filter (\<lambda>smr. mr_sessionId smr = rs_sessionId r \<and> mr_moduleId smr = rs_moduleId r)
          (map sitting_result [0..<20]))) (map sitting_answer [0..<20])) =
      concat (map (\<lambda>n. [(n < 10, if n < 10 then 900 else 1100)]) [0..<20])"
    by (intro arg_cong[where f = concat]) (simp del: upt_Suc)
  moreover have "w_responses item_world = map sitting_answer [0..<20]" "w_results item_world = map sitting_result [0..<20]"
    by (simp_all add: item_world_def)
  ultimately show ?thesis unfolding answered_rows_def by (simp only: rows) simp
qed

lemma item_published:
  "forOrganisation [sample_entry] item_world ''org'' None None =
     [assemble (sample_mcq ''q2'' 1200) (the (q_mcqDetails (sample_mcq ''q2'' 1200))) sample_entry
        (stat_of (answered_rows item_world ''q2'')) (picks_of item_world ''q2''),
      assemble (sample_mcq ''q1'' 1000) (the (q_mcqDetails (sample_mcq ''q1'' 1000))) sample_entry
        (stat_of (answered_rows item_world ''q1'')) (picks_of item_world ''q1'')]"
  by (simp add: forOrganisation_def analysed_questions_def item_world_def empty_world_def sample_bank_def sample_mcq_def
      sample_entry_def module_entry_of_def visible_to_org_def map_filter_simps)

lemma item_groups:
  defines "rows \<equiv> map (\<lambda>n. (n < 10, if n < 10 then 900 else 1100 :: real)) [0..<20]"
  shows "abilities True rows = replicate 10 900" "abilities False rows = replicate 10 1100" "length rows = 20"
    "mean (map (correct_value \<circ> fst) rows) = 1 / 2" "mean (map snd rows) = 1000"
  by (simp_all add: rows_def abilities_def mean_def correct_value_def upt_rec eval_nat_numeral)

theorem discrimination_compares_the_groups_witness:
  "\<exists>a r. a \<in> set (forOrganisation [sample_entry] item_world ''org'' None None) \<and> ia_questionId a = ''q1'' \<and>
     ia_discrimination a = Some r \<and> - 1 \<le> r \<and> r < 0 \<and> Negative_discrimination \<in> set (ia_flags a)"
proof -
  define a where "a = assemble (sample_mcq ''q1'' 1000) (the (q_mcqDetails (sample_mcq ''q1'' 1000))) sample_entry
        (stat_of (answered_rows item_world ''q1'')) (picks_of item_world ''q1'')"
  have a: "a \<in> set (forOrganisation [sample_entry] item_world ''org'' None None)" "ia_questionId a = ''q1''"
    by (simp add: item_published a_def) (simp add: a_def assemble_def Let_def sample_mcq_def)
  note rows = item_groups[folded item_rows]
  note facts = discrimination_compares_the_groups[OF a(1) refl, unfolded a(2)]
  have groups: "mean (replicate 10 900) < mean (replicate 10 (1100 :: real))"
    by (simp add: mean_sum_list sum_list_replicate)
  then have flag: "Negative_discrimination \<in> set (ia_flags a)" using facts by (simp add: rows)
  moreover have "\<not> (\<exists>x. list_all (\<lambda>row. snd row = x) (answered_rows item_world ''q1''))"
    by (simp add: item_rows upt_rec)
  then obtain r where r: "ia_discrimination a = Some r" "- 1 \<le> r" using facts
    by (cases "ia_discrimination a") (simp_all add: rows)
  moreover have "ia_flags a = flag_item (20 \<le> length (answered_rows item_world ''q1'')) (ia_pValue a) (ia_discrimination a) (ia_drift a) (ia_options a)"
    unfolding a_def by (rule published(5))
  then have "r < 0" using flag r(1) by (simp add: negative_flag)
  ultimately show ?thesis using a by blast
qed

theorem drift_inverts_the_engine_witness:
  "\<exists>a. a \<in> set (forOrganisation [sample_entry] item_world ''org'' None None) \<and> ia_drift a = Some 0 \<and>
     expectedScore 1000 (real_of_int (ia_authoredDifficulty a) + 0) = 1 / 2"
proof -
  define a where "a = assemble (sample_mcq ''q1'' 1000) (the (q_mcqDetails (sample_mcq ''q1'' 1000))) sample_entry
        (stat_of (answered_rows item_world ''q1'')) (picks_of item_world ''q1'')"
  have a: "a \<in> set (forOrganisation [sample_entry] item_world ''org'' None None)" "ia_questionId a = ''q1''"
    by (simp add: item_published a_def) (simp add: a_def assemble_def Let_def sample_mcq_def)
  note rows = item_groups[folded item_rows]
  have p: "ia_pValue a = Some (1 / 2)" "ia_drift a = Some 0"
    by (simp_all add: a_def published rows impliedDifficulty_def Let_def sample_mcq_def)
  from drift_inverts_the_engine[OF a(1) p(2,1)] show ?thesis using a(1) p(2) by (auto simp: a(2) rows)
qed

end
