(* ===== verification/Monitors.thy ===== *)
theory Monitors
  imports Report_Builder
begin

section \<open>The proctoring monitors in the browser\<close>

text \<open>
  \<open>frontend/src/hooks/useProctoring.ts\<close> with \<open>lib/face-framing.ts\<close> and
  \<open>lib/audio-monitor.ts\<close>: the machine behind the signals of a running test. What the
  browser does to the page is a sequence of events: focus lost and regained, a timer that
  fires, a frame read by the face detector, a level read from the microphone. A signal is
  what is handed to the socket; it may be lost on the way. The browser's answers (where the
  faces are, whether the document has focus, how many screens there are) come with the
  event. Captions of a framing verdict, the focus trap and the cancelled shortcuts are left
  out; they change no state modelled here.
\<close>

subsection \<open>Framing\<close>

record face_box =
  fb_x :: real
  fb_y :: real
  fb_width :: real
  fb_height :: real

record framing_rule =
  centreToleranceX :: real
  centreToleranceY :: real
  minFaceWidth :: real
  maxFaceWidth :: real

record oval =
  ov_cx :: real
  ov_cy :: real
  ov_rx :: real
  ov_ry :: real

definition OVAL :: oval where
  "OVAL = \<lparr>ov_cx = 5 / 10, ov_cy = 5 / 10, ov_rx = 22 / 100, ov_ry = 33 / 100\<rparr>"

definition SETUP_RULE :: framing_rule where
  "SETUP_RULE = \<lparr>centreToleranceX = 5 / 10, centreToleranceY = 7 / 10, minFaceWidth = 18 / 100, maxFaceWidth = 55 / 100\<rparr>"

definition RUNTIME_RULE :: framing_rule where
  "RUNTIME_RULE = \<lparr>centreToleranceX = 95 / 100, centreToleranceY = 11 / 10, minFaceWidth = 12 / 100, maxFaceWidth = 75 / 100\<rparr>"

datatype framing_code = Framed | Absent | Multiple | Off_centre | Too_far | Too_close

record framing_verdict =
  fv_ok :: bool
  fv_code :: framing_code
  fv_faceCount :: nat

definition framing :: "face_box list \<Rightarrow> framing_rule \<Rightarrow> framing_verdict" where
  "framing faces rule =
     (case faces of
        [] \<Rightarrow> \<lparr>fv_ok = False, fv_code = Absent, fv_faceCount = 0\<rparr>
      | [face] \<Rightarrow>
          (let cx = fb_x face + fb_width face / 2; cy = fb_y face + fb_height face / 2;
               offCentre = (\<bar>cx - ov_cx OVAL\<bar> > ov_rx OVAL * centreToleranceX rule \<or>
                            \<bar>cy - ov_cy OVAL\<bar> > ov_ry OVAL * centreToleranceY rule)
           in if offCentre then \<lparr>fv_ok = False, fv_code = Off_centre, fv_faceCount = 1\<rparr>
              else if fb_width face < minFaceWidth rule then \<lparr>fv_ok = False, fv_code = Too_far, fv_faceCount = 1\<rparr>
              else if fb_width face > maxFaceWidth rule then \<lparr>fv_ok = False, fv_code = Too_close, fv_faceCount = 1\<rparr>
              else \<lparr>fv_ok = True, fv_code = Framed, fv_faceCount = 1\<rparr>)
      | _ \<Rightarrow> \<lparr>fv_ok = False, fv_code = Multiple, fv_faceCount = length faces\<rparr>)"

subsection \<open>The face monitor\<close>

definition SUSTAINED_FRAMES :: nat where "SUSTAINED_FRAMES = 2"

record face_monitor =
  fm_reported :: "framing_code option"
  fm_pending :: "framing_code option"
  fm_runs :: nat
  fm_codeRuns :: nat

definition idle_monitor :: face_monitor where
  "idle_monitor = \<lparr>fm_reported = None, fm_pending = None, fm_runs = 0, fm_codeRuns = 0\<rparr>"

text \<open>One verdict read; the flag says that it became the reported one.\<close>

definition observe :: "framing_code \<Rightarrow> face_monitor \<Rightarrow> face_monitor \<times> bool" where
  "observe state m =
     (let runs = (case fm_pending m of
              Some p \<Rightarrow> if (p = Framed) = (state = Framed) then fm_runs m + 1 else 1
            | None \<Rightarrow> 1);
          codeRuns = (if fm_pending m = Some state then fm_codeRuns m + 1 else 1);
          m' = m\<lparr>fm_pending := Some state, fm_runs := runs, fm_codeRuns := codeRuns\<rparr>;
          framedChanged = (case fm_reported m of None \<Rightarrow> True | Some r \<Rightarrow> (r = Framed) \<noteq> (state = Framed));
          worsened = ((state = Absent \<or> state = Multiple) \<and> fm_reported m \<noteq> Some state \<and> codeRuns \<ge> SUSTAINED_FRAMES)
      in if runs < SUSTAINED_FRAMES then (m', False)
         else if \<not> framedChanged \<and> \<not> worsened then (m', False)
         else (m'\<lparr>fm_reported := Some state\<rparr>, True))"

subsection \<open>The noise monitor\<close>

definition LOUD_AT :: real where "LOUD_AT = 8 / 100"
definition SUSTAINED_SAMPLES :: nat where "SUSTAINED_SAMPLES = 3"

text \<open>The root mean square of a buffer of bytes around their midpoint.\<close>

definition read_level :: "nat list \<Rightarrow> real" where
  "read_level samples =
     sqrt (foldl (\<lambda>sumSquares sample. let centred = (real sample - 128) / 128 in sumSquares + centred * centred) 0 samples
       / real (length samples))"

definition isSustainedNoise :: "real \<Rightarrow> nat \<Rightarrow> bool \<times> nat" where
  "isSustainedNoise level loudRun =
     (let run = (if level \<ge> LOUD_AT then loudRun + 1 else 0) in (run \<ge> SUSTAINED_SAMPLES, run))"

subsection \<open>The hook\<close>

datatype device_state = Dev_idle | Dev_starting | Dev_active | Dev_denied | Dev_unsupported

datatype notice_source = From_fullscreen | From_tab | From_face | From_noise

datatype signal_metadata = No_metadata | Face_count nat | Frame_reason framing_code | Screen_count nat

type_synonym signal = "proctoring_event \<times> signal_metadata"

record hook =
  hk_sessionId :: "string option"
  hk_active :: bool
  hk_armed :: bool
  hk_isFullscreen :: bool
  hk_browserFullscreen :: bool
  hk_selfExit :: bool
  hk_away :: bool
  hk_awayCount :: nat
  hk_awayRef :: bool
  hk_blurPending :: bool
  hk_camera :: device_state
  hk_microphone :: device_state
  hk_face :: face_monitor
  hk_noisy :: bool
  hk_loudRun :: nat
  hk_notice :: "(string \<times> notice_source) option"
  hk_emitted :: "signal list"

definition emit :: "proctoring_event \<Rightarrow> signal_metadata \<Rightarrow> hook \<Rightarrow> hook" where
  "emit eventType metadata h =
     (if hk_sessionId h = None then h else h\<lparr>hk_emitted := hk_emitted h @ [(eventType, metadata)]\<rparr>)"

definition showNotice :: "string \<Rightarrow> notice_source \<Rightarrow> hook \<Rightarrow> hook" where
  "showNotice message source h = h\<lparr>hk_notice := Some (message, source)\<rparr>"

definition clear_own_notice :: "notice_source \<Rightarrow> hook \<Rightarrow> hook" where
  "clear_own_notice source h = (if map_option snd (hk_notice h) = Some source then h\<lparr>hk_notice := None\<rparr> else h)"

definition leave :: "hook \<Rightarrow> hook" where
  "leave h =
     (if hk_awayRef h then h
      else showNotice ''You left the assessment. This has been recorded.'' From_tab
             ((emit TAB_SWITCH No_metadata (h\<lparr>hk_awayRef := True\<rparr>))\<lparr>hk_away := True, hk_awayCount := hk_awayCount h + 1\<rparr>))"

definition returned :: "hook \<Rightarrow> hook" where
  "returned h = h\<lparr>hk_blurPending := False, hk_awayRef := False\<rparr>"

definition onBlur :: "hook \<Rightarrow> hook" where
  "onBlur h = h\<lparr>hk_blurPending := True\<rparr>"

text \<open>The timer set by a blur fires after the grace period, unless it was cancelled.\<close>

definition blur_timer :: "bool \<Rightarrow> hook \<Rightarrow> hook" where
  "blur_timer hasFocus h =
     (if \<not> hk_blurPending h then h
      else let h' = h\<lparr>hk_blurPending := False\<rparr> in if hasFocus then h' else leave h')"

definition onVisibility :: "bool \<Rightarrow> hook \<Rightarrow> hook" where
  "onVisibility hidden h = (if hidden then leave (h\<lparr>hk_blurPending := False\<rparr>) else returned h)"

definition onFullscreenChange :: "bool \<Rightarrow> hook \<Rightarrow> hook" where
  "onFullscreenChange nowFullscreen h =
     (let h' = h\<lparr>hk_isFullscreen := nowFullscreen\<rparr>
      in if nowFullscreen then h'
         else if hk_selfExit h' then h'\<lparr>hk_selfExit := False\<rparr>
         else showNotice ''Full-screen exit recorded.'' From_fullscreen (emit FULLSCREEN_EXIT No_metadata h'))"

definition report_framing :: "framing_verdict \<Rightarrow> hook \<Rightarrow> hook" where
  "report_framing verdict h =
     (if fv_code verdict = Absent
      then showNotice ''No face visible to the camera. This has been recorded.'' From_face (emit FACE_ABSENT (Face_count 0) h)
      else if fv_code verdict = Multiple
      then showNotice ''More than one person is visible to the camera. This has been recorded.'' From_face
             (emit MULTIPLE_FACES (Face_count (fv_faceCount verdict)) h)
      else if fv_code verdict \<noteq> Framed
      then showNotice ''Your face is not properly in view of the camera. This has been recorded.'' From_face
             (emit FACE_NOT_FRAMED (Frame_reason (fv_code verdict)) h)
      else clear_own_notice From_face h)"

definition face_tick :: "face_box list option \<Rightarrow> hook \<Rightarrow> hook" where
  "face_tick found h =
     (case found of
        None \<Rightarrow> h
      | Some faces \<Rightarrow>
          (let verdict = framing faces RUNTIME_RULE; (m, changed) = observe (fv_code verdict) (hk_face h)
           in if changed then report_framing verdict (h\<lparr>hk_face := m\<rparr>) else h\<lparr>hk_face := m\<rparr>))"

definition noise_tick :: "nat list \<Rightarrow> hook \<Rightarrow> hook" where
  "noise_tick samples h =
     (let (sustained, run) = isSustainedNoise (read_level samples) (hk_loudRun h); h' = h\<lparr>hk_loudRun := run\<rparr>
      in if sustained = hk_noisy h then h'
         else let h'' = h'\<lparr>hk_noisy := sustained\<rparr>
              in if sustained then showNotice ''Background noise detected. This has been recorded.'' From_noise (emit BACKGROUND_NOISE No_metadata h'')
                 else clear_own_notice From_noise h'')"

definition check_displays :: "nat option \<Rightarrow> hook \<Rightarrow> hook" where
  "check_displays screenCount h =
     (case screenCount of Some n \<Rightarrow> if n > 1 then emit MULTIPLE_DISPLAYS_DETECTED (Screen_count n) h else h | None \<Rightarrow> h)"

text \<open>
  \<open>exitFullscreen\<close>: whether the document is full-screen and whether the call succeeds, for
  the first attempt and for the one retry.
\<close>

definition exitFullscreen :: "bool \<Rightarrow> bool \<Rightarrow> bool \<Rightarrow> bool \<Rightarrow> hook \<Rightarrow> hook" where
  "exitFullscreen isFull exited stillFull exitedNow h =
     (if \<not> isFull then h
      else let h' = h\<lparr>hk_selfExit := exited\<rparr> in if \<not> stillFull then h' else h'\<lparr>hk_selfExit := exitedNow\<rparr>)"

text \<open>A module begins or ends; monitoring begins or ends. Ending removes the listeners and
  their timer, and the monitors start afresh when they are set up again.\<close>

definition set_armed :: "bool \<Rightarrow> hook \<Rightarrow> hook" where
  "set_armed armed h =
     (if armed = hk_armed h then h
      else if armed then h\<lparr>hk_armed := True\<rparr>
      else h\<lparr>hk_armed := False, hk_blurPending := False, hk_awayRef := False, hk_away := False\<rparr>)"

definition set_active :: "bool \<Rightarrow> hook \<Rightarrow> hook" where
  "set_active active h =
     (if active = hk_active h then h
      else h\<lparr>hk_active := active, hk_blurPending := False, hk_face := idle_monitor, hk_noisy := False\<rparr>)"

definition start_device :: "bool \<Rightarrow> device_state \<Rightarrow> device_state" where
  "start_device granted state = (if state = Dev_active \<or> state = Dev_starting then state else if granted then Dev_active else Dev_denied)"

definition startCamera :: "bool \<Rightarrow> hook \<Rightarrow> hook" where
  "startCamera granted h =
     (if hk_camera h = Dev_active \<or> hk_camera h = Dev_starting then h
      else h\<lparr>hk_camera := start_device granted (hk_camera h), hk_face := idle_monitor\<rparr>)"

definition startMicrophone :: "bool \<Rightarrow> hook \<Rightarrow> hook" where
  "startMicrophone granted h =
     (if hk_microphone h = Dev_active \<or> hk_microphone h = Dev_starting then h
      else h\<lparr>hk_microphone := start_device granted (hk_microphone h), hk_noisy := False, hk_loudRun := 0\<rparr>)"

definition dismissNotice :: "hook \<Rightarrow> hook" where
  "dismissNotice h = h\<lparr>hk_notice := None\<rparr>"

datatype browser_event =
    Blurred
  | Focused
  | Blur_elapsed bool
  | Visibility_changed bool
  | Fullscreen_changed bool
  | Display_mode_changed bool
  | Fullscreen_given_back bool bool bool bool
  | Frame_read "face_box list option"
  | Level_read "nat list"
  | Displays_checked "nat option"
  | Armed_changed bool
  | Active_changed bool
  | Camera_asked bool
  | Microphone_asked bool
  | Notice_dismissed

fun browser_step :: "browser_event \<Rightarrow> hook \<Rightarrow> hook" where
  "browser_step Blurred h = (if hk_active h \<and> hk_armed h then onBlur h else h)"
| "browser_step Focused h = (if hk_active h \<and> hk_armed h then returned h else h)"
| "browser_step (Blur_elapsed hasFocus) h = (if hk_active h \<and> hk_armed h then blur_timer hasFocus h else h)"
| "browser_step (Visibility_changed hidden) h = (if hk_active h \<and> hk_armed h then onVisibility hidden h else h)"
| "browser_step (Fullscreen_changed now) h = (if hk_active h then onFullscreenChange now h else h)"
| "browser_step (Display_mode_changed full) h = (if hk_active h then h\<lparr>hk_browserFullscreen := full\<rparr> else h)"
| "browser_step (Fullscreen_given_back isFull exited stillFull exitedNow) h = exitFullscreen isFull exited stillFull exitedNow h"
| "browser_step (Frame_read found) h = (if hk_active h \<and> hk_camera h = Dev_active then face_tick found h else h)"
| "browser_step (Level_read samples) h = (if hk_active h \<and> hk_microphone h = Dev_active then noise_tick samples h else h)"
| "browser_step (Displays_checked n) h = (if hk_active h then check_displays n h else h)"
| "browser_step (Armed_changed armed) h = set_armed armed h"
| "browser_step (Active_changed active) h = set_active active h"
| "browser_step (Camera_asked granted) h = startCamera granted h"
| "browser_step (Microphone_asked granted) h = startMicrophone granted h"
| "browser_step Notice_dismissed h = dismissNotice h"

definition browser_run :: "browser_event list \<Rightarrow> hook \<Rightarrow> hook" where
  "browser_run events h = fold browser_step events h"

definition fresh_hook :: "string option \<Rightarrow> hook" where
  "fresh_hook sessionId = \<lparr>hk_sessionId = sessionId, hk_active = False, hk_armed = False, hk_isFullscreen = False,
     hk_browserFullscreen = False, hk_selfExit = False, hk_away = False, hk_awayCount = 0, hk_awayRef = False,
     hk_blurPending = False, hk_camera = Dev_idle, hk_microphone = Dev_idle, hk_face = idle_monitor, hk_noisy = False,
     hk_loudRun = 0, hk_notice = None, hk_emitted = []\<rparr>"

end
