(* ===== verification/Proctoring.thy ===== *)
theory Proctoring
  imports Monitors Report_Service
begin

section \<open>Recording the signals\<close>

text \<open>
  \<open>proctoring/proctoring.service.ts\<close> and \<open>proctoring.gateway.ts\<close>: which signals are stored,
  and the catalogue of signals an organisation is shown. The verifier of a token and the
  validator of a message body are parameters. A row's metadata, which is only displayed, is
  left out of the table.
\<close>

subsection \<open>The socket\<close>

record socket_claims =
  sk_sub :: string
  sk_role :: user_role

datatype socket_refusal = No_token | Not_a_candidate | Bad_token

definition socket_middleware :: "(string \<Rightarrow> socket_claims option) \<Rightarrow> string option \<Rightarrow> socket_refusal + string" where
  "socket_middleware verify token =
     (case truthy token of
        None \<Rightarrow> Inl No_token
      | Some t \<Rightarrow> (case verify t of
            None \<Rightarrow> Inl Bad_token
          | Some claims \<Rightarrow> if sk_role claims \<noteq> CANDIDATE then Inl Not_a_candidate else Inr (sk_sub claims)))"

record proctoring_dto =
  pd_sessionId :: string
  pd_eventType :: proctoring_event
  pd_occurredAt :: int

definition record_signal :: "string \<Rightarrow> proctoring_dto \<Rightarrow> desk \<Rightarrow> bool \<times> desk" where
  "record_signal candidateId event d =
     (case List.find (\<lambda>s. sr_id s = pd_sessionId event) (w_sessions (dk_world d)) of
        None \<Rightarrow> (False, d)
      | Some session \<Rightarrow>
          if sr_candidateId session \<noteq> candidateId \<or> sr_status session \<noteq> SESS_IN_PROGRESS then (False, d)
          else (True, d\<lparr>dk_logs := dk_logs d @ [\<lparr>pg_sessionId = pd_sessionId event, pg_eventType = pd_eventType event,
                 pg_occurredAt = pd_occurredAt event\<rparr>]\<rparr>))"

definition handleEvent :: "('body \<Rightarrow> proctoring_dto option) \<Rightarrow> string option \<Rightarrow> 'body \<Rightarrow> desk \<Rightarrow> bool \<times> desk" where
  "handleEvent validate candidateId body d =
     (case truthy candidateId of
        None \<Rightarrow> (False, d)
      | Some c \<Rightarrow> (case validate body of None \<Rightarrow> (False, d) | Some dto \<Rightarrow> record_signal c dto d))"

subsection \<open>The catalogue\<close>

definition RECENT_ATTEMPTS_PER_SIGNAL :: nat where "RECENT_ATTEMPTS_PER_SIGNAL = 5"

definition all_signals :: "proctoring_event list" where
  "all_signals = [TAB_SWITCH, FULLSCREEN_EXIT, FACE_ABSENT, MULTIPLE_FACES, FACE_NOT_FRAMED, MULTIPLE_DISPLAYS_DETECTED, BACKGROUND_NOISE]"

record signal_attempt =
  sa_sessionId :: string
  sa_candidateName :: string
  sa_assessmentTitle :: string
  sa_occurredAt :: int
  sa_occurrences :: nat

record signal_summary =
  sy_eventType :: proctoring_event
  sy_occurrences :: nat
  sy_attempts :: nat
  sy_lastSeenAt :: "int option"
  sy_recent :: "signal_attempt list"

text \<open>The rows of a signal on sessions whose assessment the organisation owns.\<close>

definition owned_logs :: "desk \<Rightarrow> string \<Rightarrow> proctoring_event \<Rightarrow> proctoring_log list" where
  "owned_logs d organisationId eventType =
     filter (\<lambda>l. pg_eventType l = eventType \<and>
       list_ex (\<lambda>s. sr_id s = pg_sessionId l \<and> belongs_to (dk_accounts d) (sr_assessmentId s) organisationId) (w_sessions (dk_world d)))
       (dk_logs d)"

definition latest :: "int list \<Rightarrow> int option" where
  "latest ts = (case ts of [] \<Rightarrow> None | t # rest \<Rightarrow> Some (foldl max t rest))"

definition attempt_of_signal :: "desk \<Rightarrow> proctoring_log list \<Rightarrow> string \<Rightarrow> signal_attempt option" where
  "attempt_of_signal d logs sessionId =
     (case List.find (\<lambda>s. sr_id s = sessionId) (w_sessions (dk_world d)) of
        None \<Rightarrow> None
      | Some s \<Rightarrow>
          (case (List.find (\<lambda>u. us_id u = sr_candidateId s) (ac_users (dk_accounts d)),
                 List.find (\<lambda>a. as_id a = sr_assessmentId s) (w_assessments (dk_world d))) of
             (Some u, Some a) \<Rightarrow>
               (let mine = filter (\<lambda>l. pg_sessionId l = sessionId) logs
                in map_option (\<lambda>t. \<lparr>sa_sessionId = sessionId, sa_candidateName = us_fullName u, sa_assessmentTitle = as_title a,
                     sa_occurredAt = t, sa_occurrences = length mine\<rparr>) (latest (map pg_occurredAt mine)))
           | _ \<Rightarrow> None))"

definition signal_summary_of :: "desk \<Rightarrow> string \<Rightarrow> proctoring_event \<Rightarrow> signal_summary" where
  "signal_summary_of d organisationId eventType =
     (let logs = owned_logs d organisationId eventType; sessions = js_set (map pg_sessionId logs)
      in \<lparr>sy_eventType = eventType, sy_occurrences = length logs, sy_attempts = length sessions,
          sy_lastSeenAt = latest (map pg_occurredAt logs),
          sy_recent = take RECENT_ATTEMPTS_PER_SIGNAL
            (sort_key (\<lambda>a. - sa_occurredAt a) (List.map_filter (attempt_of_signal d logs) sessions))\<rparr>)"

definition signalsForOrganisation :: "desk \<Rightarrow> string \<Rightarrow> signal_summary list" where
  "signalsForOrganisation d organisationId = map (signal_summary_of d organisationId) all_signals"

end
