(* ===== verification/Monitor_Properties.thy ===== *)
theory Monitor_Properties
  imports Monitors
begin

section \<open>The properties of the monitors\<close>

text \<open>
  What the signals in a report are worth: how many reads stand behind one, how many there
  can be, what is never missed, and that no notice is shown without a record.
\<close>

subsection \<open>A bounded number of reports, none of them stale\<close>

text \<open>The verdicts reported over a run of reads.\<close>

fun reports :: "framing_code list \<Rightarrow> face_monitor \<Rightarrow> framing_code list" where
  "reports [] m = []"
| "reports (c # cs) m = (let (m', changed) = observe c m in (if changed then [c] else []) @ reports cs m')"

fun monitor_after :: "framing_code list \<Rightarrow> face_monitor \<Rightarrow> face_monitor" where
  "monitor_after [] m = m"
| "monitor_after (c # cs) m = monitor_after cs (fst (observe c m))"

text \<open>What every reachable monitor satisfies: a run of two has a pending verdict behind it.\<close>

definition monitor_ok :: "face_monitor \<Rightarrow> bool" where
  "monitor_ok m \<longleftrightarrow> (fm_pending m = None \<longrightarrow> fm_reported m = None \<and> fm_runs m = 0 \<and> fm_codeRuns m = 0) \<and>
     fm_codeRuns m \<le> fm_runs m \<and> (fm_pending m \<noteq> None \<longrightarrow> 1 \<le> fm_codeRuns m)"

lemma monitor_ok_idle: "monitor_ok idle_monitor"
  by (simp add: monitor_ok_def idle_monitor_def)

lemma observe_cases [case_names waiting settled reported]:
  assumes "observe c m = (m', changed)"
  obtains "\<not> changed" "fm_reported m' = fm_reported m" "fm_pending m' = Some c" "fm_runs m' < 2"
  | "\<not> changed" "fm_reported m' = fm_reported m" "fm_pending m' = Some c" "2 \<le> fm_runs m'"
    "\<exists>r. fm_reported m = Some r \<and> (r = Framed) = (c = Framed)"
  | "changed" "fm_reported m' = Some c" "fm_pending m' = Some c" "2 \<le> fm_runs m'"
  using assms
  by (auto simp: observe_def Let_def SUSTAINED_FRAMES_def not_less split: if_splits option.splits)

lemma observe_ok: "monitor_ok m \<Longrightarrow> monitor_ok (fst (observe c m))"
  by (auto simp: observe_def Let_def monitor_ok_def split: option.splits)

lemma monitor_after_ok: "monitor_ok m \<Longrightarrow> monitor_ok (monitor_after cs m)"
  by (induction cs m rule: monitor_after.induct) (simp_all add: observe_ok)

lemma report_needs_new_verdict:
  assumes "fm_pending m = fm_reported m" and "observe c m = (m', changed)"
  shows "\<not> changed"
  using assms by (auto simp: observe_def Let_def SUSTAINED_FRAMES_def split: option.splits if_splits)

lemma reports_spaced: "2 * length (reports cs m) \<le> length cs + (if fm_pending m = fm_reported m then 0 else 1)"
proof (induction cs m rule: reports.induct)
  case (2 c cs m)
  obtain m' changed where o: "observe c m = (m', changed)" by fastforce
  note IH = 2[OF refl, of m' changed, OF o[symmetric]]
  from o show ?case
  proof (cases rule: observe_cases)
    case reported
    moreover have "fm_pending m \<noteq> fm_reported m" using report_needs_new_verdict[OF _ o] reported(1) by blast
    ultimately show ?thesis using IH o by simp
  qed (use IH o in \<open>auto split: if_splits\<close>)
qed simp

text \<open>What a read reports when the previous one was \<open>p\<close>: it agrees with \<open>p\<close> on whether the
  candidate is framed, and where a problem already stood it repeats \<open>p\<close>.\<close>

lemma report_backed:
  assumes "monitor_ok m" and "observe c m = (m', True)"
  shows "\<exists>p. fm_pending m = Some p \<and> (p = Framed) = (c = Framed) \<and>
    (case fm_reported m of Some r \<Rightarrow> r \<noteq> Framed \<and> c \<noteq> Framed \<longrightarrow> p = c \<and> (c = Absent \<or> c = Multiple) | None \<Rightarrow> True)"
  using assms by (auto simp: observe_def Let_def SUSTAINED_FRAMES_def monitor_ok_def split: option.splits if_splits)

lemma two_reads_settle:
  assumes "monitor_ok m"
  shows "\<exists>r. fm_reported (monitor_after [c, c] m) = Some r \<and> (r = Framed) = (c = Framed) \<and>
    (c = Absent \<or> c = Multiple \<longrightarrow> r = c)"
  using assms by (auto simp: observe_def Let_def SUSTAINED_FRAMES_def monitor_ok_def split: option.splits if_splits)

lemma monitor_after_append: "monitor_after (cs @ ds) m = monitor_after ds (monitor_after cs m)"
  by (induction cs m rule: monitor_after.induct) simp_all

lemma reports_append: "reports (cs @ ds) m = reports cs m @ reports ds (monitor_after cs m)"
  by (induction cs arbitrary: m) (simp_all add: case_prod_beta)

lemma observe_pending: "fm_pending (fst (observe c m)) = Some c"
  by (simp add: observe_def Let_def)

lemma pending_after: "fm_pending (monitor_after cs idle_monitor) = (if cs = [] then None else Some (last cs))"
  by (induction cs rule: rev_induct) (simp_all add: monitor_after_append observe_pending idle_monitor_def)

text \<open>What stands behind a signal of the camera: over any run of reads there is at most
  one report for every two reads, however the detector flickers; a report repeats what the
  read before it said about whether the candidate was framed; and two equal reads in a row
  always settle that question in what is reported, so that nobody, or a second person,
  seen twice is never missed.\<close>

theorem camera_reports_are_backed_and_bounded:
  "2 * length (reports cs idle_monitor) \<le> length cs \<and>
   (if snd (observe c (monitor_after cs idle_monitor)) then cs \<noteq> [] \<and> (last cs = Framed) = (c = Framed) else True) \<and>
   (\<exists>r. fm_reported (monitor_after (cs @ [c, c]) idle_monitor) = Some r \<and> (r = Framed) = (c = Framed) \<and>
      (if c = Absent \<or> c = Multiple then r = c else True))"
proof (intro conjI)
  show "2 * length (reports cs idle_monitor) \<le> length cs"
    using reports_spaced[of cs idle_monitor] by (simp add: idle_monitor_def)
  have ok: "monitor_ok (monitor_after cs idle_monitor)" by (rule monitor_after_ok[OF monitor_ok_idle])
  show "if snd (observe c (monitor_after cs idle_monitor)) then cs \<noteq> [] \<and> (last cs = Framed) = (c = Framed) else True"
    using report_backed[OF ok, of c] pending_after[of cs]
    by (cases "observe c (monitor_after cs idle_monitor)") (auto split: if_splits)
  show "\<exists>r. fm_reported (monitor_after (cs @ [c, c]) idle_monitor) = Some r \<and> (r = Framed) = (c = Framed) \<and>
      (if c = Absent \<or> c = Multiple then r = c else True)"
    using two_reads_settle[OF ok, of c] unfolding monitor_after_append by auto
qed

text \<open>A single read without a face, right after a momentary lean, is enough to report an empty
  chair: the count of agreeing reads is kept across different problems.\<close>

theorem one_read_of_no_face_is_reported:
  "reports (cs @ [Framed, Framed, Too_far, Absent]) idle_monitor = reports (cs @ [Framed, Framed]) idle_monitor @ [Absent]"
proof -
  let ?m = "monitor_after (cs @ [Framed, Framed]) idle_monitor"
  have "monitor_ok (monitor_after cs idle_monitor)" by (rule monitor_after_ok[OF monitor_ok_idle])
  from two_reads_settle[OF this, of Framed] have m: "fm_reported ?m = Some Framed" "fm_pending ?m = Some Framed"
    by (simp_all add: monitor_after_append observe_pending)
  have "reports [Too_far, Absent] ?m = [Absent]"
    by (simp add: observe_def Let_def SUSTAINED_FRAMES_def m)
  then show ?thesis using reports_append[of "cs @ [Framed, Framed]" "[Too_far, Absent]" idle_monitor] by simp
qed

subsection \<open>Leaving\<close>

definition tab_signals :: "hook \<Rightarrow> nat" where
  "tab_signals h = length (filter (\<lambda>s. fst s = TAB_SWITCH) (hk_emitted h))"

fun is_return :: "browser_event \<Rightarrow> bool" where
  "is_return Focused \<longleftrightarrow> True"
| "is_return (Visibility_changed hidden) \<longleftrightarrow> \<not> hidden"
| "is_return (Armed_changed armed) \<longleftrightarrow> \<not> armed"
| "is_return _ \<longleftrightarrow> False"

definition leaving_ok :: "nat \<Rightarrow> hook \<Rightarrow> bool" where
  "leaving_ok returned_times h \<longleftrightarrow> hk_sessionId h \<noteq> None \<and> tab_signals h = hk_awayCount h \<and>
     hk_awayCount h \<le> returned_times + (if hk_awayRef h then 1 else 0)"

lemma leaving_ok_other [simp]:
  "leaving_ok n (h\<lparr>hk_notice := x\<rparr>) = leaving_ok n h" "leaving_ok n (h\<lparr>hk_face := m\<rparr>) = leaving_ok n h"
  "leaving_ok n (h\<lparr>hk_noisy := b\<rparr>) = leaving_ok n h" "leaving_ok n (h\<lparr>hk_loudRun := k\<rparr>) = leaving_ok n h"
  "leaving_ok n (h\<lparr>hk_isFullscreen := b\<rparr>) = leaving_ok n h" "leaving_ok n (h\<lparr>hk_browserFullscreen := b\<rparr>) = leaving_ok n h"
  "leaving_ok n (h\<lparr>hk_selfExit := b\<rparr>) = leaving_ok n h" "leaving_ok n (h\<lparr>hk_blurPending := b\<rparr>) = leaving_ok n h"
  "leaving_ok n (h\<lparr>hk_camera := d\<rparr>) = leaving_ok n h" "leaving_ok n (h\<lparr>hk_microphone := d\<rparr>) = leaving_ok n h"
  "leaving_ok n (h\<lparr>hk_away := b\<rparr>) = leaving_ok n h" "leaving_ok n (h\<lparr>hk_armed := b\<rparr>) = leaving_ok n h"
  "leaving_ok n (h\<lparr>hk_active := b\<rparr>) = leaving_ok n h"
  by (simp_all add: leaving_ok_def tab_signals_def)

lemma leaving_ok_emit: "e \<noteq> TAB_SWITCH \<Longrightarrow> leaving_ok n (emit e d h) = leaving_ok n h"
  by (simp add: leaving_ok_def tab_signals_def emit_def)

lemma leaving_ok_leave: "leaving_ok n h \<Longrightarrow> leaving_ok n (leave h)"
  by (auto simp: leave_def leaving_ok_def tab_signals_def emit_def showNotice_def)

lemma leaving_ok_back: "leaving_ok n h \<Longrightarrow> leaving_ok (Suc n) (h\<lparr>hk_awayRef := False\<rparr>)"
  by (auto simp: leaving_ok_def tab_signals_def split: if_splits)

lemma leaving_ok_Suc: "leaving_ok n h \<Longrightarrow> leaving_ok (Suc n) h"
  by (auto simp: leaving_ok_def)

lemma leaving_ok_framing: "leaving_ok n (report_framing v h) = leaving_ok n h"
  by (simp add: report_framing_def showNotice_def clear_own_notice_def leaving_ok_emit)

lemma leaving_step:
  assumes "leaving_ok n h"
  shows "leaving_ok (if is_return e then Suc n else n) (browser_step e h)"
proof (cases e)
  case (Frame_read found)
  with assms show ?thesis
    by (cases found) (simp_all add: face_tick_def Let_def leaving_ok_framing case_prod_beta)
next
  case (Level_read samples)
  with assms show ?thesis
    by (simp add: noise_tick_def Let_def leaving_ok_emit showNotice_def clear_own_notice_def case_prod_beta)
next
  case Focused
  with assms leaving_ok_back[of n "h\<lparr>hk_blurPending := False\<rparr>"] show ?thesis
    by (simp add: returned_def leaving_ok_Suc)
next
  case (Visibility_changed hidden)
  with assms leaving_ok_back[of n "h\<lparr>hk_blurPending := False\<rparr>"] show ?thesis
    by (simp add: onVisibility_def returned_def leaving_ok_Suc leaving_ok_leave)
next
  case (Armed_changed armed)
  with assms leaving_ok_back[of n "h\<lparr>hk_armed := False, hk_blurPending := False\<rparr>"] show ?thesis
    by (simp add: set_armed_def leaving_ok_Suc)
next
  case (Displays_checked k)
  with assms show ?thesis by (cases k) (simp_all add: check_displays_def leaving_ok_emit)
qed (use assms in \<open>simp_all add: onBlur_def blur_timer_def leaving_ok_leave onFullscreenChange_def leaving_ok_emit showNotice_def
      Let_def exitFullscreen_def set_active_def startCamera_def startMicrophone_def dismissNotice_def\<close>)

lemma browser_run_append: "browser_run (es @ ds) h = browser_run ds (browser_run es h)"
  by (simp add: browser_run_def)

lemma leaving_run: "leaving_ok (length (filter is_return es)) (browser_run es (fresh_hook (Some s)))"
proof (induction es rule: rev_induct)
  case Nil
  then show ?case by (simp add: leaving_ok_def browser_run_def fresh_hook_def tab_signals_def)
next
  case (snoc e es)
  from leaving_step[OF this, of e] show ?case by (simp add: browser_run_append) (simp add: browser_run_def split: if_splits)
qed

text \<open>One departure is one signal, whatever the browser fires for it: over any run of
  events the tab-switch signals are exactly the departures counted, there is at most one
  more of them than times the candidate came back, and a blur that gives the focus back
  before the grace period is over leaves no trace. The count is never taken back when a
  module ends.\<close>

theorem leaving_is_counted_once:
  "tab_signals (browser_run events (fresh_hook (Some s))) = hk_awayCount (browser_run events (fresh_hook (Some s))) \<and>
   hk_awayCount (browser_run events (fresh_hook (Some s))) \<le> Suc (length (filter is_return events)) \<and>
   hk_emitted (browser_run (events @ [Blurred, Focused, Blur_elapsed b]) (fresh_hook (Some s))) =
     hk_emitted (browser_run events (fresh_hook (Some s))) \<and>
   hk_awayCount (browser_run (events @ [Armed_changed False, Armed_changed True]) (fresh_hook (Some s))) =
     hk_awayCount (browser_run events (fresh_hook (Some s)))"
proof -
  have "hk_emitted (browser_run [Blurred, Focused, Blur_elapsed b] h) = hk_emitted h"
    "hk_awayCount (browser_run [Armed_changed False, Armed_changed True] h) = hk_awayCount h" for h
    by (auto simp: browser_run_def onBlur_def returned_def blur_timer_def set_armed_def Let_def)
  then show ?thesis using leaving_run[of events s] by (simp only: browser_run_append) (auto simp: leaving_ok_def split: if_splits)
qed

subsection \<open>Notices\<close>

fun signals_of :: "notice_source \<Rightarrow> proctoring_event list" where
  "signals_of From_fullscreen = [FULLSCREEN_EXIT]"
| "signals_of From_tab = [TAB_SWITCH]"
| "signals_of From_face = [FACE_ABSENT, MULTIPLE_FACES, FACE_NOT_FRAMED]"
| "signals_of From_noise = [BACKGROUND_NOISE]"

definition stands_for :: "(string \<times> notice_source) option \<Rightarrow> signal list \<Rightarrow> bool" where
  "stands_for notice emitted \<longleftrightarrow> (case notice of None \<Rightarrow> True
     | Some (_, source) \<Rightarrow> list_ex (\<lambda>s. fst s \<in> set (signals_of source)) emitted)"

definition notice_backed :: "hook \<Rightarrow> bool" where
  "notice_backed h \<longleftrightarrow> stands_for (hk_notice h) (hk_emitted h)"

lemma notice_backed_other [simp]:
  "notice_backed (h\<lparr>hk_face := m\<rparr>) = notice_backed h"
  "notice_backed (h\<lparr>hk_noisy := b\<rparr>) = notice_backed h" "notice_backed (h\<lparr>hk_loudRun := k\<rparr>) = notice_backed h"
  "notice_backed (h\<lparr>hk_isFullscreen := b\<rparr>) = notice_backed h" "notice_backed (h\<lparr>hk_browserFullscreen := b\<rparr>) = notice_backed h"
  "notice_backed (h\<lparr>hk_selfExit := b\<rparr>) = notice_backed h" "notice_backed (h\<lparr>hk_blurPending := b\<rparr>) = notice_backed h"
  "notice_backed (h\<lparr>hk_camera := d\<rparr>) = notice_backed h" "notice_backed (h\<lparr>hk_microphone := d\<rparr>) = notice_backed h"
  "notice_backed (h\<lparr>hk_away := b\<rparr>) = notice_backed h" "notice_backed (h\<lparr>hk_armed := b\<rparr>) = notice_backed h"
  "notice_backed (h\<lparr>hk_active := b\<rparr>) = notice_backed h" "notice_backed (h\<lparr>hk_awayRef := b\<rparr>) = notice_backed h"
  "notice_backed (h\<lparr>hk_awayCount := k\<rparr>) = notice_backed h" "notice_backed (h\<lparr>hk_notice := None\<rparr>)"
  by (simp_all add: notice_backed_def stands_for_def)

lemma notice_backed_emit: "notice_backed h \<Longrightarrow> notice_backed (emit e d h)"
  by (auto simp: notice_backed_def stands_for_def emit_def split: option.splits)

lemma notice_backed_show:
  "hk_sessionId h \<noteq> None \<Longrightarrow> e \<in> set (signals_of source) \<Longrightarrow> notice_backed (showNotice t source (emit e d h))"
  "hk_sessionId h \<noteq> None \<Longrightarrow> e \<in> set (signals_of source) \<Longrightarrow>
    notice_backed (showNotice t source ((emit e d h)\<lparr>hk_away := a, hk_awayCount := k\<rparr>))"
  by (auto simp: notice_backed_def stands_for_def showNotice_def emit_def)

lemma notice_backed_clear: "notice_backed h \<Longrightarrow> notice_backed (clear_own_notice source h)"
  by (simp add: clear_own_notice_def)

lemma notice_backed_leave: "hk_sessionId h \<noteq> None \<Longrightarrow> notice_backed h \<Longrightarrow> notice_backed (leave h)"
  by (simp add: leave_def notice_backed_show)

lemma notice_backed_framing: "hk_sessionId h \<noteq> None \<Longrightarrow> notice_backed h \<Longrightarrow> notice_backed (report_framing v h)"
  by (simp add: report_framing_def notice_backed_show notice_backed_clear)

lemma session_kept: "hk_sessionId (emit e d h) = hk_sessionId h" "hk_sessionId (showNotice t source h) = hk_sessionId h"
  "hk_sessionId (clear_own_notice source h) = hk_sessionId h" "hk_sessionId (leave h) = hk_sessionId h"
  "hk_sessionId (report_framing v h) = hk_sessionId h"
  by (simp_all add: emit_def showNotice_def clear_own_notice_def leave_def report_framing_def)

lemma session_step: "hk_sessionId (browser_step e h) = hk_sessionId h"
  by (cases e) (simp_all add: session_kept onBlur_def returned_def blur_timer_def onVisibility_def onFullscreenChange_def
      face_tick_def noise_tick_def check_displays_def set_armed_def set_active_def startCamera_def startMicrophone_def
      dismissNotice_def exitFullscreen_def Let_def case_prod_beta split: option.split)

lemma notice_step:
  assumes "hk_sessionId h \<noteq> None" and "notice_backed h"
  shows "notice_backed (browser_step e h)"
  using assms
  by (cases e) (simp_all add: onBlur_def returned_def blur_timer_def onVisibility_def onFullscreenChange_def
      face_tick_def noise_tick_def check_displays_def set_armed_def set_active_def startCamera_def startMicrophone_def
      dismissNotice_def exitFullscreen_def Let_def case_prod_beta notice_backed_emit notice_backed_show notice_backed_leave
      notice_backed_framing notice_backed_clear split: option.split)

lemma foreign_notice_stays:
  assumes "hk_notice h = Some (t, source)" and "source = From_tab \<or> source = From_fullscreen"
  shows "hk_notice (browser_step (Frame_read found) h) \<noteq> None" "hk_notice (browser_step (Level_read samples) h) \<noteq> None"
proof -
  have "hk_notice (report_framing v (h\<lparr>hk_face := m\<rparr>)) \<noteq> None" for v m
    using assms by (auto simp: report_framing_def showNotice_def clear_own_notice_def)
  then show "hk_notice (browser_step (Frame_read found) h) \<noteq> None"
    using assms(1) by (simp add: face_tick_def Let_def case_prod_beta split: option.split)
  show "hk_notice (browser_step (Level_read samples) h) \<noteq> None"
    using assms by (auto simp: noise_tick_def Let_def case_prod_beta showNotice_def clear_own_notice_def)
qed

text \<open>No notice without a record: whatever the browser fires, the notice on the
  candidate's screen always stands for a signal of its kind that was sent; and the camera
  and the microphone take back only their own notices, never one about leaving the test or
  the full screen.\<close>

theorem a_notice_is_backed_by_a_signal:
  "notice_backed (browser_run events (fresh_hook (Some s))) \<and>
   (if map_option snd (hk_notice h) = Some From_tab \<or> map_option snd (hk_notice h) = Some From_fullscreen
    then hk_notice (browser_step (Frame_read found) h) \<noteq> None \<and> hk_notice (browser_step (Level_read samples) h) \<noteq> None
    else True)"
proof
  have "notice_backed (browser_run es (fresh_hook (Some s))) \<and> hk_sessionId (browser_run es (fresh_hook (Some s))) \<noteq> None" for es
  proof (induction es rule: rev_induct)
    case Nil
    then show ?case by (simp add: browser_run_def fresh_hook_def notice_backed_def stands_for_def)
  next
    case (snoc e es)
    then have "notice_backed (browser_step e (browser_run es (fresh_hook (Some s))))"
      "hk_sessionId (browser_step e (browser_run es (fresh_hook (Some s)))) \<noteq> None"
      by (auto simp: session_step intro: notice_step)
    moreover have "browser_run (es @ [e]) (fresh_hook (Some s)) = browser_step e (browser_run es (fresh_hook (Some s)))"
      by (simp add: browser_run_def)
    ultimately show ?case by (simp only: simp_thms)
  qed
  then show "notice_backed (browser_run events (fresh_hook (Some s)))" by blast
  show "if map_option snd (hk_notice h) = Some From_tab \<or> map_option snd (hk_notice h) = Some From_fullscreen
    then hk_notice (browser_step (Frame_read found) h) \<noteq> None \<and> hk_notice (browser_step (Level_read samples) h) \<noteq> None else True"
    using foreign_notice_stays[of h] by (cases "hk_notice h") auto
qed

end
