(* ===== verification/Proctoring_Properties.thy ===== *)
theory Proctoring_Properties
  imports Proctoring Monitor_Properties Standing_Properties
begin

section \<open>The properties of the recorded signals\<close>

text \<open>
  A signal is stored for a running session of its sender and nothing else, and counts
  once, for the organisation whose assessment it is.
\<close>

lemma handleEvent_result:
  assumes "handleEvent validate sender body d = (ok, d')" and "validate body = Some dto"
  shows "ok \<longleftrightarrow> (\<exists>c s. truthy sender = Some c \<and> List.find (\<lambda>s. sr_id s = pd_sessionId dto) (w_sessions (dk_world d)) = Some s \<and>
      sr_candidateId s = c \<and> sr_status s = SESS_IN_PROGRESS)"
    and "d' = (if ok then d\<lparr>dk_logs := dk_logs d @ [\<lparr>pg_sessionId = pd_sessionId dto, pg_eventType = pd_eventType dto,
      pg_occurredAt = pd_occurredAt dto\<rparr>]\<rparr> else d)"
  using assms by (auto simp: handleEvent_def record_signal_def split: option.splits if_splits)

lemma attempts_le_occurrences: "sy_attempts (signal_summary_of d org e) \<le> sy_occurrences (signal_summary_of d org e)"
proof -
  have "length (js_set xs) \<le> length xs" for xs :: "string list"
    by (metis card_length distinct_card distinct_js_set set_js_set)
  from this[of "map pg_sessionId (owned_logs d org e)"] show ?thesis by (simp add: signal_summary_of_def Let_def)
qed

text \<open>C35: A signal counts once, where it belongs: what arrives at the gateway is stored
  exactly when its sender is the candidate of that session and the session is still
  running, and then changes nothing but the log; in every organisation's catalogue it adds
  one occurrence to its own type if the assessment is that organisation's and nothing
  otherwise, the catalogue always lists every type there is, and never more attempts than
  occurrences.\<close>

theorem a_signal_counts_once_where_it_belongs:
  assumes "handleEvent validate sender body d = (ok, d')" and "validate body = Some dto"
  shows "ok = (\<exists>c s. truthy sender = Some c \<and> List.find (\<lambda>s. sr_id s = pd_sessionId dto) (w_sessions (dk_world d)) = Some s \<and>
      sr_candidateId s = c \<and> sr_status s = SESS_IN_PROGRESS) \<and>
    d' = d\<lparr>dk_logs := dk_logs d'\<rparr> \<and>
    sy_occurrences (signal_summary_of d' org e) = sy_occurrences (signal_summary_of d org e) +
      (if ok \<and> e = pd_eventType dto \<and> list_ex (\<lambda>s. sr_id s = pd_sessionId dto \<and>
          belongs_to (dk_accounts d) (sr_assessmentId s) org) (w_sessions (dk_world d)) then 1 else 0) \<and>
    map sy_eventType (signalsForOrganisation d' org) = all_signals \<and> e \<in> set all_signals \<and>
    sy_attempts (signal_summary_of d' org e) \<le> sy_occurrences (signal_summary_of d' org e)"
proof (intro conjI)
  note result = handleEvent_result[OF assms]
  show "ok = (\<exists>c s. truthy sender = Some c \<and> List.find (\<lambda>s. sr_id s = pd_sessionId dto) (w_sessions (dk_world d)) = Some s \<and>
      sr_candidateId s = c \<and> sr_status s = SESS_IN_PROGRESS)" by (rule result(1))
  show "d' = d\<lparr>dk_logs := dk_logs d'\<rparr>" using result(2) by simp
  show "sy_occurrences (signal_summary_of d' org e) = sy_occurrences (signal_summary_of d org e) +
      (if ok \<and> e = pd_eventType dto \<and> list_ex (\<lambda>s. sr_id s = pd_sessionId dto \<and>
          belongs_to (dk_accounts d) (sr_assessmentId s) org) (w_sessions (dk_world d)) then 1 else 0)"
    unfolding result(2) by (auto simp: signal_summary_of_def Let_def owned_logs_def)
  show "map sy_eventType (signalsForOrganisation d' org) = all_signals"
    by (simp add: signalsForOrganisation_def comp_def signal_summary_of_def Let_def)
  show "e \<in> set all_signals" by (cases e) (simp_all add: all_signals_def)
qed (rule attempts_le_occurrences)

definition sent_signal :: proctoring_dto where
  "sent_signal = \<lparr>pd_sessionId = ''s'', pd_eventType = TAB_SWITCH, pd_occurredAt = 700\<rparr>"

theorem a_signal_counts_once_where_it_belongs_witness:
  "\<exists>d'. handleEvent Some (Some ''c'') sent_signal sample_desk = (True, d') \<and>
     sy_occurrences (signal_summary_of d' ''org'' TAB_SWITCH) = sy_occurrences (signal_summary_of sample_desk ''org'' TAB_SWITCH) + 1"
proof -
  obtain ok d' where sent: "handleEvent Some (Some ''c'') sent_signal sample_desk = (ok, d')" by fastforce
  have facts: "w_sessions (dk_world sample_desk) = [sample_session]"
    "belongs_to (dk_accounts sample_desk) ''a'' ''org''"
    by (simp_all add: sample_desk_def sample_accounts_def running_world_def belongs_to_def empty_world_def sample_assessment_def)
  note counted = a_signal_counts_once_where_it_belongs[OF sent refl, of "''org''" TAB_SWITCH]
  have sent_ok: "ok" using conjunct1[OF counted] by (auto simp: facts sent_signal_def sample_session_def truthy_def)
  with counted sent show ?thesis by (auto simp: facts sent_signal_def sample_session_def)
qed

end
