(* ===== verification/Question_Forks.thy ===== *)
theory Question_Forks
  imports Question_Bank_Properties
begin

section \<open>Whose question an edit changes\<close>

text \<open>
  Tenancy of the question bank: what an organisation's authors do is invisible to every
  other organisation, an edit of a platform question replaces it by a private fork for
  its author alone, and what that means for an assessment's pool.
\<close>

definition seen_by :: "string \<Rightarrow> catalogue \<Rightarrow> question list" where
  "seen_by orgId cg = filter (visible_to_org (rows_of cg) orgId) (rows_of cg)"

text \<open>Everything but the rows of one organisation.\<close>

definition others :: "string \<Rightarrow> catalogue \<Rightarrow> question list" where
  "others orgId cg = filter (\<lambda>q. q_organisationId q \<noteq> Some orgId) (rows_of cg)"

lemma rows_set_rows [simp]: "rows_of (set_rows f cg) = f (rows_of cg)"
  by (simp add: set_rows_def)

lemma filter_weaker: "(\<And>x. v x \<Longrightarrow> P x) \<Longrightarrow> filter v (filter P xs) = filter v xs"
  by (induction xs) auto

lemma seen_by_others:
  assumes "others A cg = others A cg'" and "A \<noteq> B"
  shows "seen_by B cg = seen_by B cg'"
proof -
  have *: "seen_by B cg = filter (visible_to_org (others A cg) B) (others A cg)" for cg
  proof -
    have v: "visible_to_org (rows_of cg) B = visible_to_org (others A cg) B"
      using assms(2) by (auto simp: visible_to_org_def others_def list_ex_iff fun_eq_iff)
    have "filter (visible_to_org (rows_of cg) B) (others A cg) = seen_by B cg"
      unfolding others_def seen_by_def
      by (rule filter_weaker) (use assms(2) in \<open>auto simp: visible_to_org_def\<close>)
    then show ?thesis by (simp only: v)
  qed
  show ?thesis by (simp only: * assms(1))
qed

lemma visible_own: "visible_to_org rows A q \<Longrightarrow> q_organisationId q \<noteq> None \<Longrightarrow> q_organisationId q = Some A"
  by (auto simp: visible_to_org_def)

subsection \<open>Only its own rows\<close>

lemma filter_replace:
  "(\<And>r. r \<in> set rows \<Longrightarrow> q_id r = i \<Longrightarrow> \<not> P r \<and> \<not> P (f r)) \<Longrightarrow>
   filter P (map (\<lambda>r. if q_id r = i then f r else r) rows) = filter P rows"
  by (induction rows) auto

lemma others_stored:
  assumes "distinct (map q_id (rows_of cg))" and "q0 \<in> set (rows_of cg)" and "q_id q0 = q_id q"
    and "q_organisationId q0 = Some A" and "q_organisationId q = Some A"
  shows "others A (set_rows (map (\<lambda>r. if q_id r = q_id q then q else r)) cg) = others A cg"
proof -
  have "r = q0" if "r \<in> set (rows_of cg)" "q_id r = q_id q" for r
    using that assms(1-3) by (metis distinct_map inj_onD)
  then show ?thesis
    using assms(4,5) by (auto simp: others_def intro!: filter_replace)
qed

lemma others_dropped:
  assumes "distinct (map q_id (rows_of cg))" and "q \<in> set (rows_of cg)" and "q_organisationId q = Some A"
  shows "others A (set_rows (filter (\<lambda>r. q_id r \<noteq> q_id q)) cg) = others A cg"
proof -
  have "r = q" if "r \<in> set (rows_of cg)" "q_id r = q_id q" for r
    using that assms(1,2) by (metis distinct_map inj_onD)
  then show ?thesis using assms(3) by (auto simp: others_def intro: filter_cong)
qed

lemma edited_row_frame [simp]: "q_id (edited_row q dto) = q_id q"
  "q_organisationId (edited_row q dto) = q_organisationId q" "q_forkedFromId (edited_row q dto) = q_forkedFromId q"
  by (simp_all add: edited_row_def)

lemma fork_row_frame [simp]: "q_organisationId (fork_row q dto A) = Some A"
  "q_forkedFromId (fork_row q dto A) = Some (q_id q)"
  by (simp_all add: fork_row_def)

lemma wp_others: "wp m (\<lambda>_ cg'. others A cg' = xs) (\<lambda>_ cg'. others A cg' = xs) cg
    \<longleftrightarrow> others A (snd (m cg)) = xs"
  by (simp add: wp_def split: prod.split sum.split)

lemma others_insert:
  "q_organisationId q = Some A \<Longrightarrow>
   wp (insert_question q) (\<lambda>_ cg'. others A cg' = others A cg) (\<lambda>_ cg'. others A cg' = others A cg) cg"
  by (auto simp: wp_def insert_question_def others_def Let_def)

lemma others_create: "others A (snd (createQuestion dto (Some A) cg)) = others A cg"
  unfolding wp_others[symmetric] createQuestion_def
  by (auto simp: wp_bind wp_reading wp_throw wp_then wp_of_result wp_probe_check created_row_def
      intro: others_insert split: option.split sum.split)

lemma others_update:
  assumes "distinct (map q_id (rows_of cg))"
  shows "others A (snd (update_question_op i dto A cg)) = others A cg"
proof -
  let ?S = "\<lambda>_. \<lambda>cg'. others A cg' = others A cg"
  have own: "wp (then_p (store_question (edited_row q dto)) (bank_findOne i A)) ?S ?S cg"
    if "List.find (\<lambda>q. q_id q = i \<and> visible_to_org (rows_of cg) A q) (rows_of cg) = Some q"
      "q_organisationId q \<noteq> None" for q
  proof -
    have "q \<in> set (rows_of cg)" "q_organisationId q = Some A"
      using find_row_mem[OF that(1)] visible_own[of "rows_of cg" A q] that(2) by blast+
    then show ?thesis
      using others_stored[OF assms, of q "edited_row q dto"]
      by (simp add: store_question_def wp_then wp_updating wp_bank_findOne split: option.split)
  qed
  have fork: "wp (forkPlatformQuestion q dto A) ?S ?S cg" for q
    unfolding forkPlatformQuestion_def by (rule others_insert) simp
  show ?thesis
    unfolding wp_others[symmetric] update_question_op_def wp_bind wp_bank_findOne wp_module_of
    by (cases "uq_mcq dto \<noteq> None \<or> uq_personality dto \<noteq> None")
      (auto simp: wp_then wp_of_result wp_ret wp_probe_check wp_if own[unfolded wp_then] fork
        split: option.split sum.split)
qed

lemma others_setStatus:
  assumes "distinct (map q_id (rows_of cg))"
  shows "others A (snd (setStatus i status A cg)) = others A cg"
proof -
  let ?S = "\<lambda>_. \<lambda>cg'. others A cg' = others A cg"
  have own: "others A (set_rows (map (\<lambda>r. if q_id r = q_id q then q\<lparr>q_status := status\<rparr> else r)) cg) = others A cg"
    if "List.find (\<lambda>q. q_id q = i \<and> visible_to_org (rows_of cg) A q) (rows_of cg) = Some q"
      "q_organisationId q \<noteq> None" for q
    using find_row_mem[OF that(1)] visible_own[of "rows_of cg" A q] that(2)
      others_stored[OF assms, of q "q\<lparr>q_status := status\<rparr>"] by simp
  have fork: "wp (forkPlatformQuestion q dto A) ?S ?S cg" for q dto
    unfolding forkPlatformQuestion_def by (rule others_insert) simp
  show ?thesis
    unfolding wp_others[symmetric] setStatus_def wp_bind wp_bank_findOne
    by (auto simp: wp_then wp_ret wp_if store_question_def wp_updating own fork split: option.split)
qed

lemma others_remove:
  assumes "distinct (map q_id (rows_of cg))"
  shows "others A (snd (removeQuestion i A cg)) = others A cg"
proof -
  have own: "others A (set_rows (filter (\<lambda>r. q_id r \<noteq> q_id q)) cg) = others A cg"
    if "List.find (\<lambda>q. q_id q = i \<and> visible_to_org (rows_of cg) A q) (rows_of cg) = Some q"
      "q_organisationId q \<noteq> None" for q
    using find_row_mem[OF that(1)] visible_own[of "rows_of cg" A q] that(2) others_dropped[OF assms, of q A]
    by simp
  show ?thesis
    unfolding wp_others[symmetric] removeQuestion_def countResponses_def wp_bind wp_bank_findOne
    by (auto simp: wp_bind wp_then wp_ret wp_if wp_throw wp_reading wp_updating own split: option.split)
qed

text \<open>C17: What the authors of one organisation do to the bank - create, edit, hide, delete,
  whatever the outcome - leaves every row that is not theirs as it was, platform questions
  included; so every other organisation sees exactly the questions it saw before.\<close>

theorem authoring_is_private:
  assumes "distinct (map q_id (rows_of cg))" and "A \<noteq> B"
  shows "others A (author A req cg) = others A cg \<and> seen_by B (author A req cg) = seen_by B cg"
proof -
  have "others A (author A req cg) = others A cg"
    by (cases req) (simp_all add: others_create others_update[OF assms(1)] others_setStatus[OF assms(1)]
        others_remove[OF assms(1)] archive_def)
  with seen_by_others[OF this assms(2)] show ?thesis by blast
qed

theorem authoring_is_private_witness:
  "seen_by ''other'' (author ''org'' (Archive ''q'') seeded_catalogue) = seen_by ''other'' seeded_catalogue"
  using authoring_is_private[of seeded_catalogue "''org''" "''other''" "Archive ''q''"]
  by (simp add: seeded_catalogue_rows)

subsection \<open>An edit replaces what its author sees\<close>

lemma insert_question_result:
  "insert_question q cg = (Inr q', cg') \<longleftrightarrow>
     q' = q\<lparr>q_id := cg_ids cg 0\<rparr> \<and> q_id q' \<notin> q_id ` set (rows_of cg) \<and>
     cg' = set_rows (\<lambda>rows. rows @ [q']) (cg\<lparr>cg_ids := (\<lambda>n. cg_ids cg (Suc n))\<rparr>)"
  by (force simp: insert_question_def Let_def list_ex_iff)

lemma run_bank_findOne [run_simps]:
  "bank_findOne i A cg = (Inr q, cg') \<longleftrightarrow>
     cg' = cg \<and> List.find (\<lambda>q. q_id q = i \<and> visible_to_org (rows_of cg) A q) (rows_of cg) = Some q"
  by (auto simp: bank_findOne_def run_simps split: option.splits)

lemma run_state_probe_check:
  "assertProbeGroupFitsModule grp m org ex cg = (Inr u, cg') \<Longrightarrow> cg' = cg"
  using wp_result[of "assertProbeGroupFitsModule grp m org ex" cg u cg' "\<lambda>_ s. s = cg" "\<lambda>_ s. s = cg"]
  by (auto simp: wp_probe_check split: option.splits)

lemma run_state_module_of: "module_of q cg = (Inr m, cg') \<Longrightarrow> cg' = cg"
  by (auto simp: module_of_def run_simps split: option.splits)

lemma update_succeeds:
  assumes "update_question_op i dto A cg = (Inr q', cg')"
  obtains q where "List.find (\<lambda>q. q_id q = i \<and> visible_to_org (rows_of cg) A q) (rows_of cg) = Some q"
    "if q_organisationId q = None then insert_question (fork_row q dto A) cg = (Inr q', cg')
     else cg' = set_rows (map (\<lambda>r. if q_id r = i then edited_row q dto else r)) cg \<and>
       List.find (\<lambda>r. q_id r = i \<and> visible_to_org (rows_of cg') A r) (rows_of cg') = Some q'"
proof -
  let ?check = "\<lambda>q m. if uq_mcq dto \<noteq> None \<or> uq_personality dto \<noteq> None
    then of_result (assertPayloadMatchesModule m (uq_mcq dto) (uq_personality dto) False (existing_pattern q))
    else ret ()"
  let ?rest = "\<lambda>q. if q_organisationId q = None then forkPlatformQuestion q dto A
    else then_p (store_question (edited_row q dto)) (bank_findOne i A)"
  from assms obtain q m u v cg1 cg1' cg2 where
    q: "List.find (\<lambda>q. q_id q = i \<and> visible_to_org (rows_of cg) A q) (rows_of cg) = Some q"
    and 1: "module_of q cg = (Inr m, cg1)" "?check q m cg1 = (Inr u, cg1')"
      "assertProbeGroupFitsModule (uq_probeGroup dto) (q_moduleId q) (Some A)
        (if q_organisationId q = None then None else Some i) cg1' = (Inr v, cg2)"
    and 2: "?rest q cg2 = (Inr q', cg')"
    unfolding update_question_op_def run_bind run_then run_bank_findOne by blast
  have "cg1' = cg1" using 1(2) by (simp add: run_simps split: if_splits)
  then have "cg2 = cg" using run_state_module_of[OF 1(1)] run_state_probe_check[OF 1(3)] by simp
  with 2 q find_row_mem[OF q] show thesis
    by (intro that[of q])
      (auto simp: forkPlatformQuestion_def store_question_def run_simps split: if_splits)
qed

lemma update_keeps_pool:
  assumes "update_question_op i dto A cg = (Inr q', cg')"
  shows "bk_pool (cg_bank cg') = bk_pool (cg_bank cg)"
proof -
  obtain q where "if q_organisationId q = None then insert_question (fork_row q dto A) cg = (Inr q', cg')
     else cg' = set_rows (map (\<lambda>r. if q_id r = i then edited_row q dto else r)) cg \<and>
       List.find (\<lambda>r. q_id r = i \<and> visible_to_org (rows_of cg') A r) (rows_of cg') = Some q'"
    using update_succeeds[OF assms] by blast
  then show ?thesis
    by (cases "q_organisationId q") (simp_all add: insert_question_result set_rows_def)
qed

lemma same_row:
  "distinct (map q_id rows) \<Longrightarrow> q \<in> set rows \<Longrightarrow> r \<in> set rows \<Longrightarrow> q_id r = q_id q \<Longrightarrow> r = q"
  by (metis distinct_map inj_onD)

lemma filter_map_keep:
  "(\<And>x. x \<in> set xs \<Longrightarrow> P (f x) = Q x) \<Longrightarrow> filter P (map f xs) = map f (filter Q xs)"
  by (induction xs) auto

lemma seen_by_edited:
  fixes dto :: update_question_dto
  assumes "distinct (map q_id (rows_of cg))" and "q \<in> set (rows_of cg)"
  defines "f \<equiv> \<lambda>r. if q_id r = q_id q then edited_row q dto else r"
  shows "seen_by A (set_rows (map f) cg) = map f (seen_by A cg)"
proof -
  have f: "q_organisationId (f r) = q_organisationId r" "q_forkedFromId (f r) = q_forkedFromId r"
    "q_id (f r) = q_id r" if "r \<in> set (rows_of cg)" for r
    using same_row[OF assms(1,2) that] by (auto simp: f_def)
  have ex: "list_ex (\<lambda>k. q_forkedFromId k = Some j \<and> q_organisationId k = Some A) (map f (rows_of cg))
      = list_ex (\<lambda>k. q_forkedFromId k = Some j \<and> q_organisationId k = Some A) (rows_of cg)" for j
    using f by (auto simp: list_ex_iff)
  have "visible_to_org (map f (rows_of cg)) A (f r) = visible_to_org (rows_of cg) A r"
    if "r \<in> set (rows_of cg)" for r
    using f[OF that] by (simp only: visible_to_org_def ex)
  then show ?thesis
    unfolding seen_by_def rows_set_rows by (rule filter_map_keep)
qed

lemma seen_by_forked:
  assumes "distinct (map q_id (rows_of cg))" and "q \<in> set (rows_of cg)" and "q_organisationId q = None"
    and "q_organisationId k = Some A" and "q_forkedFromId k = Some (q_id q)" and "rows_of cg' = rows_of cg @ [k]"
  shows "seen_by A cg' = filter (\<lambda>r. q_id r \<noteq> q_id q) (seen_by A cg) @ [k]"
proof -
  have "visible_to_org (rows_of cg') A r = (q_id r \<noteq> q_id q \<and> visible_to_org (rows_of cg) A r)"
    if r: "r \<in> set (rows_of cg)" for r
  proof -
    have "q_id r = q_id q \<longleftrightarrow> r = q" using same_row[OF assms(1,2) r] by blast
    then show ?thesis
      using assms(3-5) by (cases "r = q") (auto simp: visible_to_org_def assms(6))
  qed
  then have "filter (visible_to_org (rows_of cg') A) (rows_of cg)
      = filter (\<lambda>r. q_id r \<noteq> q_id q \<and> visible_to_org (rows_of cg) A r) (rows_of cg)"
    by (rule filter_cong[OF refl])
  moreover have "visible_to_org (rows_of cg') A k" using assms(4) by (simp add: visible_to_org_def)
  ultimately show ?thesis by (simp add: seen_by_def assms(6) filter_filter conj_commute)
qed

lemma an_edit_leaves_one_version_code:
  assumes "distinct (map q_id (rows_of cg))" and "update_question_op i dto A cg = (Inr q', cg')"
  shows "\<exists>q\<in>set (seen_by A cg). q_id q = i \<and>
    (if q_organisationId q = None
     then q' = (fork_row q dto A)\<lparr>q_id := q_id q'\<rparr> \<and> q_id q' \<notin> q_id ` set (rows_of cg) \<and>
       seen_by A cg' = filter (\<lambda>r. q_id r \<noteq> i) (seen_by A cg) @ [q']
     else q' = edited_row q dto \<and> seen_by A cg' = map (\<lambda>r. if q_id r = i then q' else r) (seen_by A cg))"
proof -
  obtain q where q: "List.find (\<lambda>q. q_id q = i \<and> visible_to_org (rows_of cg) A q) (rows_of cg) = Some q"
    and eff: "if q_organisationId q = None then insert_question (fork_row q dto A) cg = (Inr q', cg')
     else cg' = set_rows (map (\<lambda>r. if q_id r = i then edited_row q dto else r)) cg \<and>
       List.find (\<lambda>r. q_id r = i \<and> visible_to_org (rows_of cg') A r) (rows_of cg') = Some q'"
    using update_succeeds[OF assms(2)] by blast
  note mem = find_row_mem[OF q]
  then have seen: "q \<in> set (seen_by A cg)" "q_id q = i" by (simp_all add: seen_by_def)
  show ?thesis
  proof (cases "q_organisationId q = None")
    case True
    with eff have ins: "q' = (fork_row q dto A)\<lparr>q_id := cg_ids cg 0\<rparr>" "q_id q' \<notin> q_id ` set (rows_of cg)"
      "rows_of cg' = rows_of cg @ [q']"
      by (auto simp: insert_question_result)
    then have "seen_by A cg' = filter (\<lambda>r. q_id r \<noteq> q_id q) (seen_by A cg) @ [q']"
      using mem True by (intro seen_by_forked[OF assms(1)]) auto
    with ins True seen show ?thesis by (intro bexI[of _ q]) simp_all
  next
    case False
    with eff seen(2) have cg': "cg' = set_rows (map (\<lambda>r. if q_id r = q_id q then edited_row q dto else r)) cg"
      and found: "List.find (\<lambda>r. q_id r = i \<and> visible_to_org (rows_of cg') A r) (rows_of cg') = Some q'"
      by auto
    have "q' \<in> set (rows_of cg')" "q_id q' = i" using find_row_mem[OF found] by blast+
    then have "q' = edited_row q dto" using seen(2) by (auto simp: cg' split: if_splits)
    with seen_by_edited[OF assms(1) conjunct1[OF mem], where A = A and dto = dto] False seen show ?thesis
      by (intro bexI[of _ q]) (auto simp: cg')
  qed
qed

text \<open>A successful edit gives its author exactly one version of the question. An own
  question is changed in place; a platform question is replaced, for this organisation
  alone, by a new row of its own carrying the edit, with the platform's difficulty unless
  the edit sets one and with fresh counters. Nothing else the author sees changes.\<close>

theorem an_edit_leaves_one_version:
  assumes "distinct (map q_id (rows_of cg))" and "update_question_op i dto A cg = (Inr q', cg')"
  shows "\<exists>q\<in>set (seen_by A cg). q_id q = i \<and>
    (if q_organisationId q = None
     then q' = (fork_row q dto A)\<lparr>q_id := q_id q'\<rparr> \<and> q_id q' \<notin> q_id ` set (rows_of cg) \<and>
       seen_by A cg' = filter (\<lambda>r. q_id r \<noteq> i) (seen_by A cg) @ [q']
     else q' = edited_row q dto \<and> seen_by A cg' = map (\<lambda>r. if q_id r = i then q' else r) (seen_by A cg))"
  using assms by (rule an_edit_leaves_one_version_code)

theorem an_edit_leaves_one_version_witness:
  "\<exists>q' cg'. update_question_op ''q'' (no_changes\<lparr>uq_questionText := Some ''3 + 3?''\<rparr>) ''org'' seeded_catalogue = (Inr q', cg') \<and>
     map q_questionText (seen_by ''org'' cg') = [''3 + 3?'']"
proof -
  let ?dto = "no_changes\<lparr>uq_questionText := Some ''3 + 3?''\<rparr>"
  obtain q' cg' where run: "update_question_op ''q'' ?dto ''org'' seeded_catalogue = (Inr q', cg')"
    by (simp add: update_question_op_def seeded_catalogue_rows bank_findOne_def module_of_def no_changes_def
        forkPlatformQuestion_def insert_question_def bind_p_def then_p_def reading_def ret_def visible_to_org_def
        created_row_def catalogue_samples assertProbeGroupFitsModule_def truthy_def Let_def)
  have "distinct (map q_id (rows_of seeded_catalogue))" by (simp add: seeded_catalogue_rows)
  from an_edit_leaves_one_version[OF this run]
  have "map q_questionText (seen_by ''org'' cg') = [q_questionText q']" "q_questionText q' = ''3 + 3?''"
    by (auto simp: seen_by_def seeded_catalogue_rows created_row_def fork_row_def no_changes_def
        catalogue_samples visible_to_org_def dest: arg_cong[where f = q_questionText])
  with run show ?thesis by auto
qed

text \<open>
  An assessment's pool holds question ids, and no edit touches it. So editing, hiding or
  merely re-tagging a platform question takes it out of every pool of the organisation.
\<close>

text \<open>Editing a platform question that an assessment's curated pool contains silently takes
  it out of that pool: afterwards no candidate of the assessment can be served either the
  platform row (its author no longer sees it) or the new fork (its id is in no pool).\<close>

theorem editing_a_pooled_platform_question_drops_it:
  assumes "distinct (map q_id (rows_of cg))" and "update_question_op i dto A cg = (Inr q', cg')"
    and "q \<in> set (rows_of cg)" "q_id q = i" "q_organisationId q = None"
    and "snd ` set (bk_pool (cg_bank cg)) \<subseteq> q_id ` set (rows_of cg)"
    and "ms_organisationId st = A" "ms_poolRestricted st"
  shows "{r \<in> set (rows_of cg'). eligible (cg_bank cg') st r} \<subseteq> set (rows_of cg) - {q}"
proof -
  obtain p where p: "p \<in> set (seen_by A cg)" "q_id p = i"
    and eff: "if q_organisationId p = None
     then q' = (fork_row p dto A)\<lparr>q_id := q_id q'\<rparr> \<and> q_id q' \<notin> q_id ` set (rows_of cg) \<and>
       seen_by A cg' = filter (\<lambda>r. q_id r \<noteq> i) (seen_by A cg) @ [q']
     else q' = edited_row p dto \<and> seen_by A cg' = map (\<lambda>r. if q_id r = i then q' else r) (seen_by A cg)"
    using an_edit_leaves_one_version_code[OF assms(1,2)] by blast
  have "p = q" using p same_row[OF assms(1,3)] assms(4) by (auto simp: seen_by_def)
  with eff assms(5) have new: "q_id q' \<notin> q_id ` set (rows_of cg)"
    and seen: "seen_by A cg' = filter (\<lambda>r. q_id r \<noteq> i) (seen_by A cg) @ [q']" by simp_all
  have pool: "bk_pool (cg_bank cg') = bk_pool (cg_bank cg)"
    by (rule update_keeps_pool[OF assms(2)])
  show ?thesis
  proof
    fix r assume "r \<in> {r \<in> set (rows_of cg'). eligible (cg_bank cg') st r}"
    then have "r \<in> set (seen_by A cg')" "q_id r \<in> snd ` set (bk_pool (cg_bank cg))"
      using assms(7,8) by (force simp: seen_by_def eligible_def pool)+
    then have "q_id r \<noteq> q_id q'" "r \<in> set (filter (\<lambda>r. q_id r \<noteq> i) (seen_by A cg) @ [q'])"
      using assms(6) new by (auto simp: seen)
    then show "r \<in> set (rows_of cg) - {q}" using assms(4) by (auto simp: seen_by_def)
  qed
qed

theorem editing_a_pooled_platform_question_drops_it_witness:
  "\<exists>q' cg'. update_question_op ''q'' no_changes ''org'' (seeded_catalogue\<lparr>cg_bank := (cg_bank seeded_catalogue)\<lparr>bk_pool := [(''a'', ''q'')]\<rparr>\<rparr>)
       = (Inr q', cg') \<and>
     {r \<in> set (rows_of cg'). eligible (cg_bank cg') (sample_state\<lparr>ms_poolRestricted := True\<rparr>) r} = {}"
proof -
  let ?cg = "seeded_catalogue\<lparr>cg_bank := (cg_bank seeded_catalogue)\<lparr>bk_pool := [(''a'', ''q'')]\<rparr>\<rparr>"
  obtain q' cg' where run: "update_question_op ''q'' no_changes ''org'' ?cg = (Inr q', cg')"
    by (simp add: update_question_op_def seeded_catalogue_rows bank_findOne_def module_of_def no_changes_def
        forkPlatformQuestion_def insert_question_def bind_p_def then_p_def reading_def ret_def visible_to_org_def
        created_row_def catalogue_samples assertProbeGroupFitsModule_def truthy_def Let_def)
  have "distinct (map q_id (rows_of ?cg))" by (simp add: seeded_catalogue_rows)
  from editing_a_pooled_platform_question_drops_it[OF this run, of "hd (rows_of ?cg)"
      "sample_state\<lparr>ms_poolRestricted := True\<rparr>"]
  have "{r \<in> set (rows_of cg'). eligible (cg_bank cg') (sample_state\<lparr>ms_poolRestricted := True\<rparr>) r}
      \<subseteq> set (rows_of ?cg) - {hd (rows_of ?cg)}"
    by (simp add: seeded_catalogue_rows created_row_def sample_defs)
  with run show ?thesis by (auto simp: seeded_catalogue_rows)
qed

end
