(* ===== verification/Readiness.thy ===== *)
theory Readiness
  imports Monitors
begin

section \<open>The check before an assessment\<close>

text \<open>
  \<open>frontend/src/lib/system-check.ts\<close> and \<open>routes/candidate/ReadinessCheck.tsx\<close>: five checks,
  one after another, each decided again by every new reading, then the practice questions and
  the way into the assessment. What the browser answers to a check is an argument: the APIs it
  has, its permissions, the outcome of opening a device, sizes of screen and window, faces on a
  frame, the level of a sound, the time of a round trip. An event of a visit to a step that
  was left is dropped by the code and is no event here. Texts are left out.
\<close>

subsection \<open>The checks\<close>

datatype check_status = Check_ok | Check_warn | Check_fail

record check_result =
  cr_key :: string
  cr_status :: check_status

datatype permission = Granted | Denied | Prompt

text \<open>What \<open>getUserMedia\<close> does: it opens the device or rejects with a named error.\<close>

datatype media = Media_opened | Media_rejected string

record device =
  dv_isSecureContext :: bool
  dv_https :: bool
  dv_requestFullscreen :: bool
  dv_getUserMedia :: bool
  dv_webSocket :: bool
  dv_isExtended :: bool
  dv_availWidth :: nat
  dv_availHeight :: nat
  dv_outerWidth :: nat
  dv_outerHeight :: nat

definition insecureContext :: "device \<Rightarrow> bool" where
  "insecureContext d \<longleftrightarrow> \<not> dv_isSecureContext d \<and> \<not> dv_https d"

fun mediaFailure :: "string \<Rightarrow> bool \<times> bool" where
  "mediaFailure n = (n = ''NotAllowedError'' \<or> n = ''SecurityError'', n = ''NotFoundError'' \<or> n = ''DevicesNotFoundError'')"

definition missing_apis :: "device \<Rightarrow> string list" where
  "missing_apis d =
     (if dv_requestFullscreen d then [] else [''full screen'']) @
     (if dv_getUserMedia d then [] else [''camera access'']) @
     (if dv_webSocket d then [] else [''live connection''])"

definition checkBrowser :: "device \<Rightarrow> check_result" where
  "checkBrowser d = \<lparr>cr_key = ''browser'',
     cr_status = (if insecureContext d then Check_fail else if missing_apis d \<noteq> [] then Check_fail else Check_ok)\<rparr>"

text \<open>Opening a device: the result, and whether it is now running.\<close>

definition open_device :: "string \<Rightarrow> device \<Rightarrow> permission option \<Rightarrow> media \<Rightarrow> check_result \<times> bool" where
  "open_device key d p m =
     (if \<not> dv_getUserMedia d then (\<lparr>cr_key = key, cr_status = Check_fail\<rparr>, False)
      else if p = Some Denied then (\<lparr>cr_key = key, cr_status = Check_warn\<rparr>, False)
      else (case m of
              Media_opened \<Rightarrow> (\<lparr>cr_key = key, cr_status = Check_ok\<rparr>, True)
            | Media_rejected n \<Rightarrow>
                (\<lparr>cr_key = key, cr_status = (if snd (mediaFailure n) then Check_fail else Check_warn)\<rparr>, False)))"

definition openCamera :: "device \<Rightarrow> permission option \<Rightarrow> media \<Rightarrow> check_result \<times> bool" where
  "openCamera = open_device ''camera''"

definition openMicrophone :: "device \<Rightarrow> permission option \<Rightarrow> media \<Rightarrow> check_result \<times> bool" where
  "openMicrophone = open_device ''microphone''"

definition checkDisplays :: "device \<Rightarrow> check_result" where
  "checkDisplays d = \<lparr>cr_key = ''displays'', cr_status = (if dv_isExtended d then Check_warn else Check_ok)\<rparr>"

definition checkWindowFills :: "device \<Rightarrow> check_result" where
  "checkWindowFills d = \<lparr>cr_key = ''window'', cr_status =
     (if dv_availWidth d = 0 \<or> dv_availHeight d = 0 then Check_ok
      else let widthRatio = min 1 (real (dv_outerWidth d) / real (dv_availWidth d));
               heightRatio = min 1 (real (dv_outerHeight d) / real (dv_availHeight d))
           in if min widthRatio heightRatio < 8 / 10 then Check_warn else Check_ok)\<rparr>"

definition screen_check :: "device \<Rightarrow> check_result" where
  "screen_check d =
     (if cr_status (checkDisplays d) \<noteq> Check_ok then checkDisplays d
      else if cr_status (checkWindowFills d) \<noteq> Check_ok then checkWindowFills d
      else \<lparr>cr_key = ''screen'', cr_status = Check_ok\<rparr>)"

text \<open>Three round trips, \<open>None\<close> when one fails, and their median.\<close>

fun ping_samples :: "real option list \<Rightarrow> real list option" where
  "ping_samples [] = Some []"
| "ping_samples (None # ps) = None"
| "ping_samples (Some t # ps) = map_option ((#) t) (ping_samples ps)"

definition checkConnection :: "real option \<Rightarrow> real option \<Rightarrow> real option \<Rightarrow> check_result" where
  "checkConnection a b c = \<lparr>cr_key = ''connection'', cr_status =
     (case ping_samples [a, b, c] of
        None \<Rightarrow> Check_warn
      | Some ts \<Rightarrow> if sort ts ! 1 > 1500 then Check_warn else Check_ok)\<rparr>"

subsection \<open>The wizard\<close>

datatype step_key = Browser_step | Screen_step | Camera_step | Microphone_step | Connection_step

definition STEPS :: "step_key list" where
  "STEPS = [Browser_step, Screen_step, Camera_step, Microphone_step, Connection_step]"

definition HEARD_AT :: real where "HEARD_AT = 4 / 100"
definition STABLE_SAMPLES :: nat where "STABLE_SAMPLES = 2"

datatype readiness_phase = Checks | Splash_practice | Practising | Splash_assessment | Taking

text \<open>How far the setup of the step on screen has come.\<close>

datatype setup_stage = Setting_up | Opened | Observing

record readiness =
  rd_phase :: readiness_phase
  rd_index :: nat
  rd_cleared :: "step_key set"
  rd_result :: "check_result option"
  rd_stage :: setup_stage
  rd_recent :: "bool list"
  rd_heard :: bool
  rd_aligned :: bool
  rd_practice :: "string list list option"
  rd_pIndex :: nat
  rd_picked :: "string option"

text \<open>The state a visit to a step starts with.\<close>

definition visit :: "readiness \<Rightarrow> readiness" where
  "visit s = s\<lparr>rd_result := None, rd_stage := Setting_up, rd_recent := [], rd_heard := False, rd_aligned := False\<rparr>"

definition opened_readiness :: readiness where
  "opened_readiness = \<lparr>rd_phase = Checks, rd_index = 0, rd_cleared = {}, rd_result = None, rd_stage = Setting_up, rd_recent = [],
     rd_heard = False, rd_aligned = False, rd_practice = None, rd_pIndex = 0, rd_picked = None\<rparr>"

definition on_step :: "step_key \<Rightarrow> readiness \<Rightarrow> bool" where
  "on_step k s \<longleftrightarrow> rd_phase s = Checks \<and> STEPS ! rd_index s = k"

definition rd_passed :: "readiness \<Rightarrow> bool" where
  "rd_passed s \<longleftrightarrow> (case rd_result s of None \<Rightarrow> False | Some r \<Rightarrow> cr_status r = Check_ok)"

definition publish :: "string \<Rightarrow> check_status \<Rightarrow> readiness \<Rightarrow> readiness" where
  "publish key st s = s\<lparr>rd_result := Some \<lparr>cr_key = key, cr_status = st\<rparr>\<rparr>"

text \<open>The last verdicts, the settled one among them, and what one frame publishes.\<close>

definition push_recent :: "bool \<Rightarrow> bool list \<Rightarrow> bool list" where
  "push_recent ok recent = (let r = recent @ [ok] in if length r > STABLE_SAMPLES then tl r else r)"

definition settled_verdict :: "bool \<Rightarrow> bool list \<Rightarrow> bool" where
  "settled_verdict ok recent = (if length recent = STABLE_SAMPLES \<and> (\<forall>r\<in>set recent. r = ok) then ok else False)"

definition read_frame :: "face_box list \<Rightarrow> readiness \<Rightarrow> readiness" where
  "read_frame faces s =
     (let verdict = fv_ok (framing faces SETUP_RULE); recent = push_recent verdict (rd_recent s); settled = settled_verdict verdict recent
      in publish ''camera'' (if settled then Check_ok else Check_warn) (s\<lparr>rd_recent := recent, rd_aligned := settled\<rparr>))"

definition advance_step :: "readiness \<Rightarrow> readiness" where
  "advance_step s =
     (let s' = s\<lparr>rd_cleared := insert (STEPS ! rd_index s) (rd_cleared s)\<rparr>
      in if rd_index s \<noteq> length STEPS - 1 then visit (s'\<lparr>rd_index := rd_index s + 1\<rparr>)
         else s'\<lparr>rd_phase := (case rd_practice s of Some (q # qs) \<Rightarrow> Splash_practice | _ \<Rightarrow> Splash_assessment)\<rparr>)"

definition practice_question :: "readiness \<Rightarrow> string list option" where
  "practice_question s = (case rd_practice s of None \<Rightarrow> None | Some qs \<Rightarrow> if rd_pIndex s < length qs then Some (qs ! rd_pIndex s) else None)"

datatype readiness_event =
    Browser_read device
  | Screen_read device
  | Camera_open device "permission option" media
  | Face_watch bool
  | Frame "face_box list option"
  | Microphone_open device "permission option" media
  | Level real
  | Measured "real option" "real option" "real option"
  | Check_again
  | Continue
  | Practice_loaded "string list list option"
  | Splash_done
  | Pick string
  | Next_practice
  | Begin

fun readiness_step :: "readiness_event \<Rightarrow> readiness \<Rightarrow> readiness" where
  "readiness_step (Browser_read d) s =
     (if on_step Browser_step s then s\<lparr>rd_result := Some (checkBrowser d)\<rparr> else s)"
| "readiness_step (Screen_read d) s =
     (if on_step Screen_step s then s\<lparr>rd_result := Some (screen_check d)\<rparr> else s)"
| "readiness_step (Camera_open d p m) s =
     (if on_step Camera_step s \<and> rd_stage s = Setting_up
      then (case openCamera d p m of
              (r, False) \<Rightarrow> s\<lparr>rd_result := Some r\<rparr>
            | (r, True) \<Rightarrow> publish ''camera'' Check_warn (s\<lparr>rd_stage := Opened\<rparr>))
      else s)"
| "readiness_step (Face_watch started) s =
     (if on_step Camera_step s \<and> rd_stage s = Opened
      then if started then s\<lparr>rd_stage := Observing\<rparr> else publish ''camera'' Check_fail s
      else s)"
| "readiness_step (Frame found) s =
     (if on_step Camera_step s \<and> rd_stage s = Observing
      then (case found of None \<Rightarrow> s | Some faces \<Rightarrow> read_frame faces s) else s)"
| "readiness_step (Microphone_open d p m) s =
     (if on_step Microphone_step s \<and> rd_stage s = Setting_up
      then (case openMicrophone d p m of
              (r, False) \<Rightarrow> s\<lparr>rd_result := Some r\<rparr>
            | (r, True) \<Rightarrow> publish ''microphone'' Check_warn (s\<lparr>rd_stage := Observing\<rparr>))
      else s)"
| "readiness_step (Level l) s =
     (if on_step Microphone_step s \<and> rd_stage s = Observing \<and> l \<ge> HEARD_AT
      then publish ''microphone'' Check_ok (s\<lparr>rd_heard := True\<rparr>) else s)"
| "readiness_step (Measured a b c) s =
     (if on_step Connection_step s then s\<lparr>rd_result := Some (checkConnection a b c)\<rparr> else s)"
| "readiness_step Check_again s = (if rd_phase s = Checks \<and> rd_result s \<noteq> None then visit s else s)"
| "readiness_step Continue s = (if rd_phase s = Checks \<and> rd_passed s then advance_step s else s)"
| "readiness_step (Practice_loaded found) s = s\<lparr>rd_practice := Some (case found of None \<Rightarrow> [] | Some qs \<Rightarrow> qs)\<rparr>"
| "readiness_step Splash_done s =
     (if rd_phase s = Splash_practice then s\<lparr>rd_phase := Practising\<rparr>
      else if rd_phase s = Splash_assessment then s\<lparr>rd_phase := Taking\<rparr> else s)"
| "readiness_step (Pick k) s =
     (if rd_phase s = Practising \<and> (case practice_question s of None \<Rightarrow> False | Some ks \<Rightarrow> k \<in> set ks)
      then s\<lparr>rd_picked := Some k\<rparr> else s)"
| "readiness_step Next_practice s =
     (if rd_phase s = Practising \<and> practice_question s \<noteq> None \<and> rd_picked s \<noteq> None
      then if rd_pIndex s + 1 = length (the (rd_practice s)) then s\<lparr>rd_phase := Splash_assessment\<rparr>
           else s\<lparr>rd_pIndex := rd_pIndex s + 1, rd_picked := None\<rparr>
      else s)"
| "readiness_step Begin s =
     (if rd_phase s = Practising \<and> practice_question s = None then s\<lparr>rd_phase := Taking\<rparr> else s)"

definition readiness_after :: "readiness_event list \<Rightarrow> readiness" where
  "readiness_after events = fold readiness_step events opened_readiness"

subsection \<open>What a visit holds\<close>

text \<open>
  One run of the effect that sets a step up: what it has open, what its cleanup will release,
  and whether it has been left. The cleanup runs once, when the step is left; what an
  awaited call brings after that finds \<open>live\<close> false, where the code looks at it.
\<close>

datatype resource = Resize_listener | Camera_stream | Face_watcher | Face_poll | Audio_monitor | Frame_request | Ping_timer

datatype setup_wait = Nothing_awaited | Awaiting_camera | Awaiting_watcher | Awaiting_microphone | Awaiting_measure

record step_visit =
  vi_live :: bool
  vi_waits :: setup_wait
  vi_held :: "resource set"
  vi_cleanups :: "resource set"

definition hold :: "resource set \<Rightarrow> step_visit \<Rightarrow> step_visit" where
  "hold R v = v\<lparr>vi_held := vi_held v \<union> R, vi_cleanups := vi_cleanups v \<union> R\<rparr>"

definition waits_for :: "setup_wait \<Rightarrow> step_visit \<Rightarrow> step_visit" where
  "waits_for x v = v\<lparr>vi_waits := x\<rparr>"

text \<open>\<open>setup\<close> up to its first \<open>await\<close>.\<close>

fun begin_visit :: "step_key \<Rightarrow> step_visit" where
  "begin_visit k =
     (let v = \<lparr>vi_live = True, vi_waits = Nothing_awaited, vi_held = {}, vi_cleanups = {}\<rparr>
      in case k of
           Browser_step \<Rightarrow> v
         | Screen_step \<Rightarrow> hold {Resize_listener} v
         | Camera_step \<Rightarrow> waits_for Awaiting_camera v
         | Microphone_step \<Rightarrow> waits_for Awaiting_microphone v
         | Connection_step \<Rightarrow> waits_for Awaiting_measure v)"

datatype visit_event = Camera_answered bool | Watcher_answered bool | Microphone_answered bool | First_measured | Left

fun visit_step :: "visit_event \<Rightarrow> step_visit \<Rightarrow> step_visit" where
  "visit_step (Camera_answered stream) v =
     (if vi_waits v \<noteq> Awaiting_camera then v
      else if \<not> vi_live v then waits_for Nothing_awaited v
      else if stream then waits_for Awaiting_watcher (hold {Camera_stream} v)
      else waits_for Nothing_awaited v)"
| "visit_step (Watcher_answered started) v =
     (if vi_waits v \<noteq> Awaiting_watcher then v
      else if \<not> started \<or> \<not> vi_live v then waits_for Nothing_awaited v
      else waits_for Nothing_awaited (hold {Face_watcher, Face_poll} v))"
| "visit_step (Microphone_answered monitor) v =
     (if vi_waits v \<noteq> Awaiting_microphone then v
      else if \<not> vi_live v \<or> \<not> monitor then waits_for Nothing_awaited v
      else waits_for Nothing_awaited (hold {Audio_monitor, Frame_request} v))"
| "visit_step First_measured v =
     (if vi_waits v \<noteq> Awaiting_measure then v else waits_for Nothing_awaited (hold {Ping_timer} v))"
| "visit_step Left v =
     (if vi_live v then v\<lparr>vi_live := False, vi_held := vi_held v - vi_cleanups v\<rparr> else v)"

definition visit_after :: "step_key \<Rightarrow> visit_event list \<Rightarrow> step_visit" where
  "visit_after k events = fold visit_step events (begin_visit k)"

end
