(* ===== verification/Readiness_Properties.thy ===== *)
theory Readiness_Properties
  imports Readiness
begin

section \<open>What the gate has seen\<close>

text \<open>
  Whoever leaves the checks has passed them all in order, each on readings taken during one
  visit to it, the last of them where the latest reading decides.
\<close>

text \<open>The readings of each kind in a list of events.\<close>

definition frames_read :: "readiness_event list \<Rightarrow> face_box list list" where
  "frames_read es = List.map_filter (\<lambda>e. case e of Frame found \<Rightarrow> found | _ \<Rightarrow> None) es"

definition screens_read :: "readiness_event list \<Rightarrow> device list" where
  "screens_read es = List.map_filter (\<lambda>e. case e of Screen_read d \<Rightarrow> Some d | _ \<Rightarrow> None) es"

definition browsers_read :: "readiness_event list \<Rightarrow> device list" where
  "browsers_read es = List.map_filter (\<lambda>e. case e of Browser_read d \<Rightarrow> Some d | _ \<Rightarrow> None) es"

definition levels_read :: "readiness_event list \<Rightarrow> real list" where
  "levels_read es = List.map_filter (\<lambda>e. case e of Level l \<Rightarrow> Some l | _ \<Rightarrow> None) es"

definition pings_read :: "readiness_event list \<Rightarrow> (real option \<times> real option \<times> real option) list" where
  "pings_read es = List.map_filter (\<lambda>e. case e of Measured a b c \<Rightarrow> Some (a, b, c) | _ \<Rightarrow> None) es"

lemmas readings = frames_read_def screens_read_def browsers_read_def levels_read_def pings_read_def List.map_filter_def

text \<open>What a working machine is, check by check.\<close>

definition browser_works :: "device \<Rightarrow> bool" where
  "browser_works d \<longleftrightarrow> dv_requestFullscreen d \<and> dv_getUserMedia d \<and> dv_webSocket d \<and> (dv_isSecureContext d \<or> dv_https d)"

definition screen_works :: "device \<Rightarrow> bool" where
  "screen_works d \<longleftrightarrow> \<not> dv_isExtended d \<and>
     (dv_availWidth d = 0 \<or> dv_availHeight d = 0 \<or>
      8 * dv_availWidth d \<le> 10 * dv_outerWidth d \<and> 8 * dv_availHeight d \<le> 10 * dv_outerHeight d)"

definition connection_works :: "real option \<times> real option \<times> real option \<Rightarrow> bool" where
  "connection_works = (\<lambda>(a, b, c). a \<noteq> None \<and> b \<noteq> None \<and> c \<noteq> None \<and>
     2 \<le> length (filter (\<lambda>t. t \<le> 1500) [the a, the b, the c]))"

definition face_placed :: "face_box list \<Rightarrow> bool" where
  "face_placed faces \<longleftrightarrow> (\<exists>f. faces = [f] \<and>
     \<bar>fb_x f + fb_width f / 2 - 5 / 10\<bar> \<le> 11 / 100 \<and> \<bar>fb_y f + fb_height f / 2 - 5 / 10\<bar> \<le> 231 / 1000 \<and>
     18 / 100 \<le> fb_width f \<and> fb_width f \<le> 55 / 100)"

text \<open>What shows that a check was passed, in the events of a visit to it.\<close>

fun shown_by :: "readiness_event list \<Rightarrow> step_key \<Rightarrow> bool" where
  "shown_by es Browser_step \<longleftrightarrow> browsers_read es \<noteq> [] \<and> browser_works (last (browsers_read es))"
| "shown_by es Screen_step \<longleftrightarrow> screens_read es \<noteq> [] \<and> screen_works (last (screens_read es))"
| "shown_by es Camera_step \<longleftrightarrow>
     (\<exists>before f g. frames_read es = before @ [f, g] \<and> face_placed f \<and> face_placed g)"
| "shown_by es Microphone_step \<longleftrightarrow> (\<exists>l\<in>set (levels_read es). l \<ge> HEARD_AT)"
| "shown_by es Connection_step \<longleftrightarrow> pings_read es \<noteq> [] \<and> connection_works (last (pings_read es))"

text \<open>The first checks of the wizard, passed in order, each in a stretch of the events that ends
  with \<open>Continue\<close>.\<close>

inductive passed_checks :: "nat \<Rightarrow> readiness_event list \<Rightarrow> bool" where
  none: "passed_checks 0 es"
| one: "passed_checks i es \<Longrightarrow> i < length STEPS \<Longrightarrow> shown_by visit_events (STEPS ! i) \<Longrightarrow>
    passed_checks (Suc i) (es @ visit_events @ Continue # rest)"

lemma passed_checks_more: "passed_checks i es \<Longrightarrow> passed_checks i (es @ rest)"
proof (induction rule: passed_checks.induct)
  case (one i es ves r)
  then show ?case using passed_checks.one[of i es ves "r @ rest"] by simp
qed (rule passed_checks.none)

subsection \<open>The checks pass on working machines only\<close>

lemma checkBrowser_ok: "cr_status (checkBrowser d) = Check_ok \<longleftrightarrow> browser_works d"
  by (auto simp: checkBrowser_def browser_works_def insecureContext_def missing_apis_def)

lemma ratio_ok: "0 < a \<Longrightarrow> min 1 (real w / real a) < 8 / 10 \<longleftrightarrow> \<not> 8 * a \<le> 10 * w"
proof -
  assume "0 < a"
  then have "8 / 10 \<le> real w / real a \<longleftrightarrow> real (8 * a) \<le> real (10 * w)" by (simp add: field_simps)
  then have "8 / 10 \<le> real w / real a \<longleftrightarrow> 8 * a \<le> 10 * w" by (simp only: of_nat_le_iff)
  then show ?thesis by (auto simp: min_def)
qed

lemma checkWindowFills_ok:
  "cr_status (checkWindowFills d) = Check_ok \<longleftrightarrow> dv_availWidth d = 0 \<or> dv_availHeight d = 0 \<or>
      8 * dv_availWidth d \<le> 10 * dv_outerWidth d \<and> 8 * dv_availHeight d \<le> 10 * dv_outerHeight d"
proof (cases "dv_availWidth d = 0 \<or> dv_availHeight d = 0")
  case False
  then have pos: "0 < dv_availWidth d" "0 < dv_availHeight d" by simp_all
  have "cr_status (checkWindowFills d) = (if min (min 1 (real (dv_outerWidth d) / real (dv_availWidth d)))
      (min 1 (real (dv_outerHeight d) / real (dv_availHeight d))) < 8 / 10 then Check_warn else Check_ok)"
    using False by (simp only: checkWindowFills_def Let_def if_False check_result.simps)
  also have "\<dots> = (if \<not> 8 * dv_availWidth d \<le> 10 * dv_outerWidth d \<or> \<not> 8 * dv_availHeight d \<le> 10 * dv_outerHeight d
      then Check_warn else Check_ok)"
    by (simp only: min_less_iff_disj[of "min 1 _"] ratio_ok[OF pos(1)] ratio_ok[OF pos(2)])
  finally show ?thesis using False by simp
qed (auto simp: checkWindowFills_def)

lemma screen_check_ok: "cr_status (screen_check d) = Check_ok \<longleftrightarrow> screen_works d"
  using checkWindowFills_ok[of d] by (auto simp: screen_check_def checkDisplays_def screen_works_def)

lemma median_ok: "sort [a, b, c] ! 1 \<le> (t::real) \<longleftrightarrow> 2 \<le> length (filter (\<lambda>x. x \<le> t) [a, b, c])"
  by (auto simp: insort_key.simps)

lemma checkConnection_ok: "cr_status (checkConnection a b c) = Check_ok \<longleftrightarrow> connection_works (a, b, c)"
  using median_ok[of "the a" "the b" "the c" 1500]
  by (cases a; cases b; cases c) (simp_all add: checkConnection_def connection_works_def not_less)

lemma framing_ok: "fv_ok (framing faces SETUP_RULE) \<longleftrightarrow> face_placed faces"
  by (auto simp: framing_def face_placed_def SETUP_RULE_def OVAL_def Let_def split: list.splits)

subsection \<open>The invariant\<close>

text \<open>The events of the present visit account for what is on screen.\<close>

definition camera_accounts :: "readiness_event list \<Rightarrow> readiness \<Rightarrow> bool" where
  "camera_accounts es s \<longleftrightarrow>
     (rd_passed s \<longrightarrow> rd_recent s = [True, True]) \<and> (rd_recent s \<noteq> [] \<longrightarrow> rd_stage s = Observing) \<and> length (rd_recent s) \<le> 2 \<and>
     (\<exists>before fs. frames_read es = before @ fs \<and> map face_placed fs = rd_recent s)"

definition accounts_for :: "readiness_event list \<Rightarrow> readiness \<Rightarrow> bool" where
  "accounts_for es s \<longleftrightarrow>
     (if STEPS ! rd_index s = Camera_step then camera_accounts es s
      else rd_passed s \<longrightarrow> shown_by es (STEPS ! rd_index s))"

definition gate_ok :: "readiness_event list \<Rightarrow> readiness \<Rightarrow> bool" where
  "gate_ok events s \<longleftrightarrow>
     (if rd_phase s = Checks
      then rd_index s < length STEPS \<and> (\<exists>es now. events = es @ now \<and> passed_checks (rd_index s) es \<and> accounts_for now s)
      else passed_checks (length STEPS) events)"

lemma readings_snoc [simp]:
  "frames_read (es @ [e]) = frames_read es @ (case e of Frame (Some faces) \<Rightarrow> [faces] | _ \<Rightarrow> [])"
  "screens_read (es @ [e]) = screens_read es @ (case e of Screen_read d \<Rightarrow> [d] | _ \<Rightarrow> [])"
  "browsers_read (es @ [e]) = browsers_read es @ (case e of Browser_read d \<Rightarrow> [d] | _ \<Rightarrow> [])"
  "levels_read (es @ [e]) = levels_read es @ (case e of Level l \<Rightarrow> [l] | _ \<Rightarrow> [])"
  "pings_read (es @ [e]) = pings_read es @ (case e of Measured a b c \<Rightarrow> [(a, b, c)] | _ \<Rightarrow> [])"
  by (auto simp: readings split: readiness_event.split option.split)

lemma accounts_shown: "accounts_for es s \<Longrightarrow> rd_passed s \<Longrightarrow> shown_by es (STEPS ! rd_index s)"
proof -
  assume a: "accounts_for es s" "rd_passed s"
  show ?thesis
  proof (cases "STEPS ! rd_index s = Camera_step")
    case True
    then obtain before fs where "frames_read es = before @ fs" "map face_placed fs = [True, True]"
      using a by (auto simp: accounts_for_def camera_accounts_def)
    then show ?thesis using True by (auto simp: map_eq_Cons_conv)
  qed (use a in \<open>simp add: accounts_for_def\<close>)
qed

lemma accounts_fresh: "accounts_for [] (visit s)"
  by (simp add: accounts_for_def camera_accounts_def visit_def rd_passed_def readings)

text \<open>Opening a device alone never passes.\<close>

lemma open_device_ok: "open_device k d p m = (r, False) \<Longrightarrow> cr_status r \<noteq> Check_ok"
  by (auto simp: open_device_def split: if_splits media.splits)

lemma passed_publish [simp]: "rd_passed (publish k st s) \<longleftrightarrow> st = Check_ok"
  by (simp add: publish_def rd_passed_def)

lemma passed_result [simp]: "rd_passed (s\<lparr>rd_result := Some r\<rparr>) \<longleftrightarrow> cr_status r = Check_ok"
  by (simp add: rd_passed_def)

lemma publish_keeps [simp]:
  "rd_phase (publish k st s) = rd_phase s" "rd_index (publish k st s) = rd_index s" "rd_recent (publish k st s) = rd_recent s"
  "rd_stage (publish k st s) = rd_stage s"
  by (simp_all add: publish_def)

lemma settled_pass: "length recent \<le> 2 \<Longrightarrow> settled_verdict ok recent \<Longrightarrow> recent = [True, True]"
  by (cases recent rule: list.exhaust; auto simp: settled_verdict_def STABLE_SAMPLES_def length_Suc_conv split: if_splits)

lemma push_recent_map:
  "map face_placed fs = recent \<Longrightarrow> length recent \<le> 2 \<Longrightarrow>
   \<exists>dropped kept. fs @ [f] = dropped @ kept \<and> map face_placed kept = push_recent (face_placed f) recent"
proof -
  assume a: "map face_placed fs = recent" "length recent \<le> 2"
  show ?thesis
  proof (cases "length recent = 2")
    case True
    then obtain x y where "fs = [x, y]" using a(1) by (auto simp: length_Suc_conv map_eq_Cons_conv numeral_2_eq_2)
    then have "fs @ [f] = [x] @ [y, f] \<and> map face_placed [y, f] = push_recent (face_placed f) recent"
      using a(1) by (auto simp: push_recent_def STABLE_SAMPLES_def)
    then show ?thesis by blast
  next
    case False
    then have "fs @ [f] = [] @ (fs @ [f]) \<and> map face_placed (fs @ [f]) = push_recent (face_placed f) recent"
      using a by (auto simp: push_recent_def STABLE_SAMPLES_def)
    then show ?thesis by blast
  qed
qed

lemma push_recent_length: "length recent \<le> 2 \<Longrightarrow> length (push_recent ok recent) \<le> 2"
  by (simp add: push_recent_def STABLE_SAMPLES_def Let_def)

lemma read_frame_accounts:
  assumes "camera_accounts es s" "rd_stage s = Observing"
  shows "camera_accounts (es @ [Frame (Some faces)]) (read_frame faces s)"
proof -
  let ?r = "push_recent (face_placed faces) (rd_recent s)"
  obtain before fs where f: "frames_read es = before @ fs" "map face_placed fs = rd_recent s" "length (rd_recent s) \<le> 2"
    using assms(1) by (auto simp: camera_accounts_def)
  obtain dropped kept where k: "fs @ [faces] = dropped @ kept" "map face_placed kept = ?r"
    using push_recent_map[OF f(2,3)] by blast
  have "frames_read (es @ [Frame (Some faces)]) = (before @ dropped) @ kept" using f(1) k(1) by simp
  moreover have "rd_passed (read_frame faces s) \<longrightarrow> ?r = [True, True]"
    using settled_pass[OF push_recent_length[OF f(3)]]
    by (auto simp: read_frame_def Let_def framing_ok split: if_splits)
  moreover have "rd_recent (read_frame faces s) = ?r" "rd_stage (read_frame faces s) = Observing"
    using assms(2) by (simp_all add: read_frame_def Let_def framing_ok)
  ultimately show ?thesis
    using k(2) push_recent_length[OF f(3)] unfolding camera_accounts_def by metis
qed

text \<open>Readings other than the two clicks.\<close>

definition is_reading :: "readiness_event \<Rightarrow> bool" where
  "is_reading e \<longleftrightarrow> e \<noteq> Check_again \<and> e \<noteq> Continue"

lemma reading_accounts:
  assumes "rd_phase s = Checks" "is_reading e" "accounts_for es s"
  shows "accounts_for (es @ [e]) (readiness_step e s)"
proof (cases "STEPS ! rd_index s = Camera_step")
  case True
  then have c: "camera_accounts es s" using assms(3) by (simp add: accounts_for_def)
  have "camera_accounts (es @ [e]) (readiness_step e s)"
  proof (cases e)
    case (Frame found)
    then show ?thesis using c True assms(1) read_frame_accounts[OF c]
      by (cases found) (auto simp: on_step_def camera_accounts_def)
  next
    case (Camera_open d p m)
    then show ?thesis using c True assms(1) open_device_ok[of "''camera''" d p m]
      by (auto simp: on_step_def camera_accounts_def openCamera_def split: prod.split bool.split)
  next
    case (Face_watch started)
    then show ?thesis using c True assms(1) by (auto simp: on_step_def camera_accounts_def rd_passed_def publish_def)
  qed (use c True assms(1,2) in \<open>auto simp: on_step_def camera_accounts_def is_reading_def rd_passed_def\<close>)
  moreover have "rd_index (readiness_step e s) = rd_index s"
    using assms(1,2) by (cases e) (auto simp: is_reading_def read_frame_def Let_def split: prod.split bool.split option.split)
  ultimately show ?thesis using True by (simp add: accounts_for_def)
next
  case False
  then show ?thesis
    using assms checkBrowser_ok screen_check_ok checkConnection_ok open_device_ok
    by (cases e; cases "STEPS ! rd_index s")
      (auto simp: accounts_for_def on_step_def is_reading_def rd_passed_def openMicrophone_def publish_def
        split: prod.split bool.split option.splits)
qed

lemma reading_stays:
  assumes "rd_phase s = Checks" "is_reading e"
  shows "rd_phase (readiness_step e s) = Checks" "rd_index (readiness_step e s) = rd_index s"
  using assms by (cases e; auto simp: is_reading_def read_frame_def Let_def split: prod.split bool.split option.split)+

lemma no_way_back: "rd_phase s \<noteq> Checks \<Longrightarrow> rd_phase (readiness_step e s) \<noteq> Checks"
  by (cases e) (auto simp: on_step_def)

lemma gate_step:
  assumes "gate_ok events s"
  shows "gate_ok (events @ [e]) (readiness_step e s)"
proof (cases "rd_phase s = Checks")
  case False
  then show ?thesis using assms no_way_back[OF False] passed_checks_more by (auto simp: gate_ok_def)
next
  case True
  then obtain es now where g: "rd_index s < length STEPS" "events = es @ now" "passed_checks (rd_index s) es" "accounts_for now s"
    using assms by (auto simp: gate_ok_def)
  show ?thesis
  proof (cases "is_reading e")
    case True
    then show ?thesis
      using \<open>rd_phase s = Checks\<close> g reading_accounts[of s e now] reading_stays[of s e] unfolding gate_ok_def by force
  next
    case False
    then consider "e = Check_again" | "e = Continue" by (auto simp: is_reading_def)
    then show ?thesis
    proof cases
      case 1
      have again: "passed_checks (rd_index s) (es @ now @ [e])" by (rule passed_checks_more[OF g(3)])
      show ?thesis
      proof (cases "rd_result s = None")
        case True
        then have "accounts_for (now @ [e]) s" using g(4) 1
          by (auto simp: accounts_for_def camera_accounts_def rd_passed_def)
        then show ?thesis using 1 True \<open>rd_phase s = Checks\<close> g unfolding gate_ok_def by force
      next
        case False
        then have "readiness_step e s = visit s" "rd_phase (visit s) = Checks" "rd_index (visit s) = rd_index s"
          using 1 \<open>rd_phase s = Checks\<close> by (simp_all add: visit_def)
        moreover have "events @ [e] = (es @ now @ [e]) @ []" using g(2) by simp
        ultimately show ?thesis using again accounts_fresh[of s] g(1) unfolding gate_ok_def by metis
      qed
    next
      case 2
      show ?thesis
      proof (cases "rd_passed s")
        case True
        have all: "passed_checks (Suc (rd_index s)) (events @ [e])"
          using passed_checks.one[OF g(3,1) accounts_shown[OF g(4) True], of "[]"] g(2) 2 by simp
        show ?thesis
        proof (cases "rd_index s = length STEPS - 1")
          case last: True
          then have "rd_phase (readiness_step e s) \<noteq> Checks"
            using 2 True \<open>rd_phase s = Checks\<close> by (simp add: advance_step_def Let_def split: option.split list.split)
          moreover have "Suc (rd_index s) = length STEPS" using last g(1) by linarith
          ultimately show ?thesis using all by (simp add: gate_ok_def)
        next
          case more: False
          let ?s = "readiness_step e s"
          have "?s = visit (s\<lparr>rd_cleared := insert (STEPS ! rd_index s) (rd_cleared s), rd_index := rd_index s + 1\<rparr>)"
            using 2 True more \<open>rd_phase s = Checks\<close> by (simp add: advance_step_def Let_def)
          then have "rd_phase ?s = Checks" "rd_index ?s = Suc (rd_index s)" "accounts_for [] ?s"
            using \<open>rd_phase s = Checks\<close> accounts_fresh by (simp_all add: visit_def)
          moreover have "Suc (rd_index s) < length STEPS" using g(1) more by linarith
          ultimately show ?thesis using all unfolding gate_ok_def by (metis append_Nil2)
        qed
      next
        case False
        then have "accounts_for (now @ [e]) s" using g(4) 2
          by (auto simp: accounts_for_def camera_accounts_def)
        then show ?thesis using 2 False \<open>rd_phase s = Checks\<close> g unfolding gate_ok_def by force
      qed
    qed
  qed
qed

lemma gate_after: "gate_ok events (readiness_after events)"
proof (induction events rule: rev_induct)
  case Nil
  have "visit opened_readiness = opened_readiness" by (simp add: visit_def opened_readiness_def)
  then have "accounts_for [] opened_readiness" by (metis accounts_fresh)
  then show ?case
    using passed_checks.none[of "[]"] by (auto simp: gate_ok_def readiness_after_def opened_readiness_def STEPS_def)
next
  case (snoc e events)
  then show ?case using gate_step[OF snoc] by (simp add: readiness_after_def)
qed

text \<open>C39: Whoever is past the checks has passed all five in order, each during one visit to it: a
  capable browser, one display and a window that fills it by the last reading, two frames in
  a row with one face in its place and none after them, a sound loud enough, and three round
  trips of which two were quick. A single frame without a face in its place takes the pass of
  the camera away again; the pass of the microphone stays whatever is read after it.\<close>

theorem the_gate_opens_only_on_a_working_machine:
  assumes "s = readiness_after events"
  shows "(rd_phase s \<noteq> Checks \<longrightarrow> passed_checks (length STEPS) events) \<and>
    (on_step Camera_step s \<and> rd_stage s = Observing \<and> \<not> face_placed faces \<longrightarrow>
       \<not> rd_passed (readiness_step (Frame (Some faces)) s)) \<and>
    (on_step Microphone_step s \<and> rd_passed s \<and> rd_stage s = Observing \<and> is_reading e \<longrightarrow> rd_passed (readiness_step e s))"
proof (intro conjI impI; (elim conjE)?)
  assume "rd_phase s \<noteq> Checks"
  then show "passed_checks (length STEPS) events" using gate_after[of events] assms by (simp add: gate_ok_def)
next
  assume "on_step Camera_step s" "rd_stage s = Observing" "\<not> face_placed faces"
  then show "\<not> rd_passed (readiness_step (Frame (Some faces)) s)"
    by (simp add: read_frame_def Let_def settled_verdict_def framing_ok)
next
  assume "on_step Microphone_step s" "rd_passed s" "rd_stage s = Observing" "is_reading e"
  then show "rd_passed (readiness_step e s)"
    by (cases e) (auto simp: on_step_def is_reading_def rd_passed_def publish_def)
qed

definition working_device :: device where
  "working_device = \<lparr>dv_isSecureContext = True, dv_https = True, dv_requestFullscreen = True, dv_getUserMedia = True,
     dv_webSocket = True, dv_isExtended = False, dv_availWidth = 1920, dv_availHeight = 1040, dv_outerWidth = 1920,
     dv_outerHeight = 1040\<rparr>"

definition centred_face :: face_box where
  "centred_face = \<lparr>fb_x = 4 / 10, fb_y = 4 / 10, fb_width = 2 / 10, fb_height = 2 / 10\<rparr>"

definition good_run :: "readiness_event list" where
  "good_run = [Browser_read working_device, Continue, Screen_read working_device, Continue,
     Camera_open working_device (Some Prompt) Media_opened, Face_watch True, Frame (Some [centred_face]),
     Frame None, Frame (Some [centred_face]), Continue, Microphone_open working_device None Media_opened,
     Level (1 / 100), Level (1 / 10), Continue, Practice_loaded None,
     Measured (Some 80) (Some 2000) (Some 120), Continue, Splash_done]"

theorem the_gate_opens_only_on_a_working_machine_witness:
  "rd_phase (readiness_after good_run) = Taking \<and> passed_checks (length STEPS) good_run"
proof -
  have face: "face_placed [centred_face]" by (simp add: face_placed_def centred_face_def)
  have ok: "cr_status (checkBrowser working_device) = Check_ok" "cr_status (screen_check working_device) = Check_ok"
    "cr_status (checkConnection (Some 80) (Some 2000) (Some 120)) = Check_ok"
    by (simp_all add: checkBrowser_ok screen_check_ok checkConnection_ok browser_works_def screen_works_def
        connection_works_def working_device_def)
  have "rd_phase (readiness_after good_run) = Taking"
    by (simp add: readiness_after_def good_run_def opened_readiness_def on_step_def STEPS_def advance_step_def visit_def
        read_frame_def framing_ok face push_recent_def settled_verdict_def STABLE_SAMPLES_def HEARD_AT_def Let_def ok rd_passed_def
        openCamera_def openMicrophone_def open_device_def publish_def working_device_def[THEN arg_cong, of dv_getUserMedia])
  then show ?thesis
    using the_gate_opens_only_on_a_working_machine[OF refl, of good_run] by simp
qed

subsection \<open>What outlives a step\<close>

text \<open>Everything held is released by the cleanup, while the step is there; after it, only a
  timer can be left, and only where the first measurement came late.\<close>

definition visit_ok :: "step_key \<Rightarrow> step_visit \<Rightarrow> bool" where
  "visit_ok k v \<longleftrightarrow>
     (vi_live v \<longrightarrow> vi_held v = vi_cleanups v) \<and> (\<not> vi_live v \<longrightarrow> vi_held v \<subseteq> {Ping_timer}) \<and>
     (k \<noteq> Connection_step \<longrightarrow> Ping_timer \<notin> vi_held v \<and> vi_waits v \<noteq> Awaiting_measure)"

lemma begin_visit_ok: "visit_ok k (begin_visit k)"
  by (cases k) (simp_all add: visit_ok_def hold_def waits_for_def Let_def)

lemma visit_step_ok: "visit_ok k v \<Longrightarrow> visit_ok k (visit_step e v)"
  by (cases e) (auto simp: visit_ok_def hold_def waits_for_def)

lemma visit_after_ok: "visit_ok k (visit_after k events)"
  by (induction events rule: rev_induct) (simp_all add: visit_after_def begin_visit_ok visit_step_ok del: begin_visit.simps)

text \<open>Without a late measurement the timer goes with the step.\<close>

definition no_timer_left :: "step_visit \<Rightarrow> bool" where
  "no_timer_left v \<longleftrightarrow> vi_waits v \<noteq> Awaiting_measure \<and> (\<not> vi_live v \<longrightarrow> vi_held v = {}) \<and> (vi_live v \<longrightarrow> vi_held v = vi_cleanups v)"

lemma no_timer_step: "no_timer_left v \<Longrightarrow> no_timer_left (visit_step e v)"
  by (cases e) (auto simp: no_timer_left_def hold_def waits_for_def)

lemma no_timer_fold: "no_timer_left v \<Longrightarrow> no_timer_left (fold visit_step events v)"
  by (induction events arbitrary: v) (simp_all add: no_timer_step)

lemma left_stays: "\<not> vi_live v \<Longrightarrow> \<not> vi_live (fold visit_step events v)"
proof (induction events arbitrary: v)
  case (Cons e events)
  have "\<not> vi_live (visit_step e v)" using Cons.prems by (cases e) (simp_all add: hold_def waits_for_def)
  then show ?case using Cons.IH by simp
qed simp

text \<open>No camera, microphone, detector, poll or listener outlives the step that opened it,
  whenever the step is left and whatever comes back afterwards. The timer of the connection
  step can: left before its first measurement came back it is started afterwards, and no
  later event stops it; left after, it is gone with the step.\<close>

theorem no_device_outlives_its_step:
  assumes "v = visit_after k events" and "\<not> vi_live v"
  shows "vi_held v \<subseteq> {Ping_timer} \<and> (k \<noteq> Connection_step \<longrightarrow> vi_held v = {}) \<and>
    (k = Connection_step \<longrightarrow>
       (vi_held (fold visit_step rest (visit_after k (First_measured # before @ Left # after))) = {}) \<and>
       (Ping_timer \<in> vi_held (fold visit_step rest (visit_after k [Left, First_measured]))))"
proof -
  have late: "Ping_timer \<in> vi_held (fold visit_step rest v)"
    if "\<not> vi_live v" "Ping_timer \<in> vi_held v" for v
    using that
  proof (induction rest arbitrary: v)
    case (Cons e rest)
    have "\<not> vi_live (visit_step e v) \<and> Ping_timer \<in> vi_held (visit_step e v)"
      using Cons.prems by (cases e) (auto simp: hold_def waits_for_def)
    then show ?case using Cons.IH by simp
  qed simp
  let ?first = "visit_step First_measured (begin_visit Connection_step)"
  let ?left = "fold visit_step rest (fold visit_step after (visit_step Left (fold visit_step before ?first)))"
  have first: "no_timer_left ?first" by (simp add: no_timer_left_def hold_def waits_for_def)
  have "no_timer_left ?left"
    by (rule no_timer_fold, rule no_timer_fold, rule no_timer_step, rule no_timer_fold, rule first)
  moreover have "\<not> vi_live ?left" by (intro left_stays) simp
  ultimately have early: "vi_held ?left = {}" by (simp add: no_timer_left_def)
  show ?thesis
    using visit_after_ok[of k events] assms early late[of "visit_after k [Left, First_measured]"]
    by (auto simp: visit_ok_def visit_after_def hold_def waits_for_def)
qed

theorem no_device_outlives_its_step_witness:
  "vi_held (visit_after Camera_step [Left, Camera_answered True, Watcher_answered True]) = {} \<and>
   Ping_timer \<in> vi_held (visit_after Connection_step [Left, First_measured])"
proof -
  have left: "\<not> vi_live (visit_after Camera_step [Left, Camera_answered True, Watcher_answered True])"
    "\<not> vi_live (visit_after Connection_step [Left])"
    by (simp_all add: visit_after_def waits_for_def)
  show ?thesis
    using no_device_outlives_its_step[OF refl left(1)] no_device_outlives_its_step[OF refl left(2), of "[]"] by simp
qed

end
