(* ===== verification/Replay_Properties.thy ===== *)
theory Replay_Properties
  imports Session_Properties
begin

section \<open>Recovering a run from the database\<close>

text \<open>
  \<open>rehydrate\<close> against the engine it stands in for: replaying the row an answer left behind
  gives the module state the answer gave. For trait modules it is that state exactly; for
  objective modules the ability comes back from a column of two decimals, and that is the
  whole difference.
\<close>

text \<open>The module state in which a served question is answered, and the row the answer leaves.\<close>

definition when_served :: "question \<Rightarrow> module_state \<Rightarrow> module_state" where
  "when_served q m = markProbeServed q (m\<lparr>ms_seenQuestionIds := ms_seenQuestionIds m @ [q_id q]\<rparr>)"

definition answer_row ::
  "string \<Rightarrow> module_state \<Rightarrow> question \<Rightarrow> submitted_answer \<Rightarrow> answer_outcome \<Rightarrow> nat \<Rightarrow> int \<Rightarrow> response_row" where
  "answer_row i m q answer out n t =
     \<lparr>rs_sessionId = i, rs_moduleId = ms_moduleId m, rs_questionId = q_id q,
      rs_selectedOption = (case answer of AnsOption k \<Rightarrow> Some k | _ \<Rightarrow> None),
      rs_selectedOptions = (case answer of AnsRanking ks \<Rightarrow> Some ks | _ \<Rightarrow> None),
      rs_isCorrect = ao_isCorrect out, rs_abilityEstimateAfter = ao_abilityEstimateAfter out,
      rs_questionDifficultyAtServe = ao_questionDifficultyAtServe out,
      rs_sequenceNumber = n, rs_timeTakenMs = t\<rparr>"

lemma applyAnswer_inserts:
  "applyAnswer st m q answer served now =
     bind_p (engine_recordAnswer m q answer (ss_answeredTotal st + 1)) (\<lambda>(out, m').
     then_p (insert_response (answer_row (ss_sessionId st) m q answer out (ss_answeredTotal st + 1)
               (max 0 (now - sv_servedAt served))))
       (ret (put_module m' (st\<lparr>ss_answeredTotal := ss_answeredTotal st + 1, ss_served := None\<rparr>), m')))"
  by (simp add: applyAnswer_def answer_row_def Let_def)

lemma serve_in_module: "serve_in st m q now = put_module (when_served q m)
    (st\<lparr>ss_served := Some \<lparr>sv_questionId = q_id q, sv_moduleId = ms_moduleId m, sv_servedAt = now\<rparr>\<rparr>)"
  by (simp add: serve_in_def when_served_def)

text \<open>Marking a probe as served commutes with every change of the other fields.\<close>

lemma markProbeServed_commutes:
  "markProbeServed q (m\<lparr>ms_answered := a\<rparr>) = (markProbeServed q m)\<lparr>ms_answered := a\<rparr>"
  "markProbeServed q (m\<lparr>ms_status := s\<rparr>) = (markProbeServed q m)\<lparr>ms_status := s\<rparr>"
  "markProbeServed q (m\<lparr>ms_traitTallies := t\<rparr>) = (markProbeServed q m)\<lparr>ms_traitTallies := t\<rparr>"
  "markProbeServed q (m\<lparr>ms_patternCounts := p\<rparr>) = (markProbeServed q m)\<lparr>ms_patternCounts := p\<rparr>"
  "markProbeServed q (m\<lparr>ms_information := i\<rparr>) = (markProbeServed q m)\<lparr>ms_information := i\<rparr>"
  "markProbeServed q (m\<lparr>ms_ability := b\<rparr>) = (markProbeServed q m)\<lparr>ms_ability := b\<rparr>"
  "markProbeServed q (m\<lparr>ms_recentAbilities := r\<rparr>) = (markProbeServed q m)\<lparr>ms_recentAbilities := r\<rparr>"
  "markProbeServed q (m\<lparr>ms_correct := c\<rparr>) = (markProbeServed q m)\<lparr>ms_correct := c\<rparr>"
  "markProbeServed q (m\<lparr>ms_seenQuestionIds := n\<rparr>) = (markProbeServed q m)\<lparr>ms_seenQuestionIds := n\<rparr>"
  by (simp_all add: markProbeServed_def markServed_def split: option.split)

lemma markProbeServed_keeps [simp]:
  "ms_status (markProbeServed q m) = ms_status m"
  "ms_traitTallies (markProbeServed q m) = ms_traitTallies m"
  "ms_patternCounts (markProbeServed q m) = ms_patternCounts m"
  "ms_scoringType (markProbeServed q m) = ms_scoringType m"
  "ms_moduleId (markProbeServed q m) = ms_moduleId m"
  by (simp_all add: markProbeServed_def markServed_def split: option.split)

lemma registerProbe_commutes:
  "registerProbe q n sg (m\<lparr>ms_ability := a\<rparr>) = (registerProbe q n sg m)\<lparr>ms_ability := a\<rparr>"
  "registerProbe q n sg (m\<lparr>ms_recentAbilities := r\<rparr>) = (registerProbe q n sg m)\<lparr>ms_recentAbilities := r\<rparr>"
  by (simp_all add: registerProbe_def record_probe_def canOpenPair_def split: option.split)

lemma running_already:
  "ms_status m = In_progress \<Longrightarrow> m\<lparr>ms_seenQuestionIds := a, ms_answered := b, ms_status := In_progress\<rparr> =
    m\<lparr>ms_seenQuestionIds := a, ms_answered := b\<rparr>"
  by (cases m) simp

lemma same_tallies: "m\<lparr>ms_traitTallies := ms_traitTallies m\<rparr> = m"
  by (cases m) simp

lemma no_weights [simp]: "applyTraitWeights tallies [] None = tallies"
  by (simp add: applyTraitWeights_def)

text \<open>What the stored row says about the answer, for an answer that is not empty.\<close>

lemma replayTraitAnswer_row:
  assumes "answer \<noteq> AnsOption ''''" and "answer \<noteq> AnsRanking []" and "assertAnswerShape d answer = Inr ()"
    and "evaluateTrait TRAIT d answer = Inr result" and "answer_ranges d answer = Inr ranges"
  shows "replayTraitAnswer d (answer_row i m q answer out n t) =
    (if answer = AnsUnanswered then None else map_option (Pair (er_traitWeights result)) ranges)"
  using assms
  by (cases answer) (auto simp: replayTraitAnswer_def ranked_keys_def answer_row_def truthy_def evaluateTrait_def
      answer_ranges_def bind_result_Inr assertAnswerShape_def Let_def split: sum.splits if_splits)

lemma was_answered_row:
  assumes "answer \<noteq> AnsRanking []"
  shows "was_answered (answer_row i m q answer out n t) \<longleftrightarrow> answer \<noteq> AnsUnanswered"
  using assms by (cases answer) (auto simp: was_answered_def ranked_keys_def answer_row_def)

text \<open>C12: For a trait module the recovery is exact: replaying the row of a recorded answer on
  the module state before the question was served gives the very state the answer left,
  its scores, pattern counts, probe pairs and served questions included. Only the empty
  answers that the request validation rejects are excepted.\<close>

theorem trait_answers_replay_exactly:
  assumes "ms_scoringType m = TRAIT" and "ms_status m = In_progress"
    and "answer \<noteq> AnsOption ''''" and "answer \<noteq> AnsRanking []"
    and "recordAnswer bank (when_served q m) q answer n = Inr (out, m', bank')"
  shows "replay_answer (answer_row i m q answer out n t) q m = m'"
  using assms(5)
proof (cases rule: recordAnswer_cases)
  case (trait d result ranges)
  note row = replayTraitAnswer_row[OF assms(3,4) trait(3,4,5)]
  have blank: "er_traitWeights result = [] \<and> ranges = None" if "answer = AnsUnanswered"
    using trait(4,5) that by (auto simp: evaluateTrait_def evaluateUnanswered_def answer_ranges_def)
  have ranged: "\<exists>R. ranges = Some R" if "answer \<noteq> AnsUnanswered"
    using trait(5) that by (auto simp: answer_ranges_def bind_result_Inr)
  define r where "r = answer_row i m q answer out n t"
  have r: "rs_questionId r = q_id q" "rs_sequenceNumber r = n"
    by (simp_all add: r_def answer_row_def)
  have replayed: "replayTraitAnswer d r = (if answer = AnsUnanswered then None
      else map_option (Pair (er_traitWeights result)) ranges)" and was: "was_answered r \<longleftrightarrow> answer \<noteq> AnsUnanswered"
    unfolding r_def by (rule row, rule was_answered_row[OF assms(4)])
  show ?thesis
  proof (cases "answer = AnsUnanswered")
    case True
    with replayed was blank have "replayTraitAnswer d r = None" "\<not> was_answered r" "answer = AnsUnanswered"
      "er_traitWeights result = []" "ranges = None" by simp_all
    then show ?thesis
      unfolding r_def[symmetric] trait(6)
      using assms(1) trait(2)
      by (simp add: replay_answer_def replay_trait_def r Let_def running_already[OF assms(2)]
          replayProbe_def score_trait_def when_served_def markProbeServed_commutes signature_of_def)
        (rule arg_cong[where f = "registerProbe q n SigUnanswered"], rule module_state.equality, simp_all)
  next
    case False
    with ranged replayed was obtain R where "replayTraitAnswer d r = Some (er_traitWeights result, R)"
      "was_answered r" "ranges = Some R" by auto
    then show ?thesis
      unfolding r_def[symmetric] trait(6)
      using assms(1) trait(2) False
      by (simp add: replay_answer_def replay_trait_def r Let_def running_already[OF assms(2)]
          replayProbe_def score_trait_def when_served_def markProbeServed_commutes signature_of_def)
        (rule arg_cong[where f = "registerProbe q n _"], rule module_state.equality, simp_all)
  qed
qed (use assms(1) in \<open>simp add: when_served_def\<close>)

text \<open>For an objective module the recovery is exact up to the stored ability: replaying the
  row gives the state the answer left with its ability estimate, and the newest entry of
  the recent estimates, rounded to the two decimals of the column, hence at most 0.005
  away.\<close>

theorem objective_answers_replay_to_two_decimals:
  assumes "ms_scoringType m = OBJECTIVE" and "ms_status m = In_progress"
    and "recordAnswer bank (when_served q m) q answer n = Inr (out, m', bank')"
  shows "replay_answer (answer_row i m q answer out n t) q m =
      trackAbility (round2 (ms_ability m')) (m'\<lparr>ms_ability := round2 (ms_ability m'),
        ms_recentAbilities := ms_recentAbilities m\<rparr>) \<and>
    \<bar>ms_ability (replay_answer (answer_row i m q answer out n t) q m) - ms_ability m'\<bar> \<le> 1 / 200"
proof -
  have "replay_answer (answer_row i m q answer out n t) q m =
      trackAbility (round2 (ms_ability m')) (m'\<lparr>ms_ability := round2 (ms_ability m'),
        ms_recentAbilities := ms_recentAbilities m\<rparr>)"
    using assms(3)
  proof (cases rule: recordAnswer_cases)
    case (objective d c)
    define r where "r = answer_row i m q answer out n t"
    have row: "rs_questionId r = q_id q" "rs_sequenceNumber r = n"
      "rs_questionDifficultyAtServe r = Some (real_of_int (md_difficultyScore d))"
      "rs_abilityEstimateAfter r = Some (round2 (ms_ability m'))" "rs_isCorrect r = Some c"
      by (simp_all add: r_def answer_row_def objective(6))
    have answered: "was_answered r \<longleftrightarrow> answer \<noteq> AnsUnanswered"
      unfolding r_def using objective(3) by (intro was_answered_row) blast
    have ability: "ms_ability m' = au_ability (ability_update_step (ms_ability m) (real_of_int (md_difficultyScore d)) c (ms_answered m))"
      unfolding objective(4) by (simp add: score_objective_def Let_def when_served_def)
    show ?thesis
      unfolding r_def[symmetric] replay_answer_def replay_objective_def Let_def row answered or_else_def option.case
      using assms(1)
      by (simp add: running_already[OF assms(2)] ability[symmetric]) (simp add: objective(4) replayProbe_def
          score_objective_def when_served_def markProbeServed_commutes signature_of_def
          Let_def trackAbility_def registerProbe_commutes[symmetric];
        (intro conjI impI)?; rule arg_cong[where f = "registerProbe _ _ _"], rule module_state.equality; simp)
  qed (use assms(1) in \<open>simp add: when_served_def\<close>)
  then show ?thesis using round2_error by simp
qed

definition running_trait :: module_state where
  "running_trait = sample_trait_state\<lparr>ms_status := In_progress\<rparr>"

lemma running_trait_accepts:
  "\<exists>res. recordAnswer sample_bank (when_served sample_situational running_trait) sample_situational (AnsOption ''A'') 1 = Inr res"
proof -
  have good: "good_question (sample_trade_off\<lparr>pd_pattern := Some SITUATIONAL\<rparr>)"
    by (auto simp: good_question_def well_formed_details_def sample_defs well_keyed_def)
  show ?thesis
    by (subst recordAnswer_accepts)
      (use good in \<open>auto simp: running_trait_def when_served_def sample_situational_def sample_trait_state_def
        sample_defs is_ranking_def\<close>)
qed

theorem trait_answers_replay_exactly_witness:
  "\<exists>out m' bank'. recordAnswer sample_bank (when_served sample_situational running_trait) sample_situational
      (AnsOption ''A'') 1 = Inr (out, m', bank') \<and>
    replay_answer (answer_row ''s'' running_trait sample_situational (AnsOption ''A'') out 1 900)
      sample_situational running_trait = m'"
proof -
  obtain out m' bank' where run: "recordAnswer sample_bank (when_served sample_situational running_trait)
      sample_situational (AnsOption ''A'') 1 = Inr (out, m', bank')"
    using running_trait_accepts by (metis prod_cases3)
  have "ms_scoringType running_trait = TRAIT" "ms_status running_trait = In_progress"
    by (simp_all add: running_trait_def sample_trait_state_def sample_defs)
  from trait_answers_replay_exactly[OF this _ _ run] run show ?thesis by blast
qed

theorem objective_answers_replay_to_two_decimals_witness:
  "\<exists>out m' bank'. recordAnswer sample_bank (when_served (sample_mcq ''q2'' 1200) running_module)
      (sample_mcq ''q2'' 1200) (AnsOption ''A'') 1 = Inr (out, m', bank') \<and>
    \<bar>ms_ability (replay_answer (answer_row ''s'' running_module (sample_mcq ''q2'' 1200) (AnsOption ''A'') out 1 900)
      (sample_mcq ''q2'' 1200) running_module) - ms_ability m'\<bar> \<le> 1 / 200"
proof -
  have "\<exists>res. recordAnswer sample_bank (when_served (sample_mcq ''q2'' 1200) running_module)
      (sample_mcq ''q2'' 1200) (AnsOption ''A'') 1 = Inr res"
    by (subst recordAnswer_accepts) (simp_all add: when_served_def world_samples)
  then obtain out m' bank' where run: "recordAnswer sample_bank (when_served (sample_mcq ''q2'' 1200) running_module)
      (sample_mcq ''q2'' 1200) (AnsOption ''A'') 1 = Inr (out, m', bank')"
    by (metis prod_cases3)
  have "ms_scoringType running_module = OBJECTIVE" "ms_status running_module = In_progress"
    by (simp_all add: world_samples)
  from objective_answers_replay_to_two_decimals[OF this run] run show ?thesis by blast
qed

subsection \<open>What the candidate is shown\<close>

text \<open>Everything of a question a candidate must not see: the key, the difficulty, the usage
  counters and the trait weights of the options.\<close>

definition conceal :: "question \<Rightarrow> question" where
  "conceal q = q\<lparr>
     q_mcqDetails := map_option (\<lambda>d. d\<lparr>md_correctOption := '''', md_difficultyScore := 0,
       md_timesUsed := 0, md_timesCorrect := 0\<rparr>) (q_mcqDetails q),
     q_personalityDetails := map_option (\<lambda>d. d\<lparr>pd_options := map (\<lambda>opt. opt\<lparr>po_traitWeights := []\<rparr>) (pd_options d),
       pd_timesUsed := 0\<rparr>) (q_personalityDetails q),
     q_probeGroup := None\<rparr>"

text \<open>What a candidate is shown of a question does not depend on its key, its difficulty,
  its counters, the weights of its options or its probe group: two questions that differ
  only there give the same step.\<close>

theorem question_view_hides_the_key:
  assumes "conceal q = conceal q'"
  shows "toQuestionView q m = toQuestionView q' m"
proof -
  have view: "toQuestionView (conceal q) m = toQuestionView q m" for q
    by (simp add: toQuestionView_def conceal_def comp_def split: option.split)
  show ?thesis using arg_cong[OF assms, of "\<lambda>q. toQuestionView q m"] unfolding view .
qed

theorem question_view_hides_the_key_witness:
  "toQuestionView (sample_mcq ''q1'' 1000) sample_state =
   toQuestionView ((sample_mcq ''q1'' 1400)\<lparr>q_probeGroup := Some ''g''\<rparr>) sample_state"
  by (rule question_view_hides_the_key) (simp add: conceal_def sample_defs)

end
