(* ===== verification/Workspaces.thy ===== *)
theory Workspaces
  imports Candidate_View
begin

section \<open>Workspaces and their companies\<close>

text \<open>
  \<open>organisations/organisations.service.ts\<close> and the rest of
  \<open>companies/companies.service.ts\<close>: the slug of a new workspace, its branding, and the
  companies a group hires for. Decomposing a name and stripping its accents is a parameter,
  as is the order in which the database sorts names. A field of a partial change is
  \<open>None\<close> when it is left out and \<open>Some None\<close> when it is null.
\<close>

subsection \<open>Slugs\<close>

definition MAX_SLUG_LENGTH :: nat where "MAX_SLUG_LENGTH = 220"
definition FIRST_SUFFIX :: nat where "FIRST_SUFFIX = 2"
definition MAX_SLUG_ATTEMPTS :: nat where "MAX_SLUG_ATTEMPTS = 50"

definition slug_char :: "char \<Rightarrow> bool" where
  "slug_char c \<longleftrightarrow> (let n = of_char c :: nat in 97 \<le> n \<and> n \<le> 122 \<or> 48 \<le> n \<and> n \<le> 57)"

text \<open>\<open>s.replace(/[^a-z0-9]+/g, '-')\<close>.\<close>

fun dashed :: "string \<Rightarrow> string" where
  "dashed [] = []"
| "dashed [c] = (if slug_char c then [c] else ''-'')"
| "dashed (c # d # s) =
     (if slug_char c then c # dashed (d # s)
      else if slug_char d then CHR ''-'' # dashed (d # s) else dashed (d # s))"

abbreviation is_dash :: "char \<Rightarrow> bool" where
  "is_dash c \<equiv> c = CHR ''-''"

definition strip_end :: "string \<Rightarrow> string" where
  "strip_end s = rev (dropWhile is_dash (rev s))"

definition slugify :: "(string \<Rightarrow> string) \<Rightarrow> string \<Rightarrow> string" where
  "slugify unaccented name =
     (let slug = take MAX_SLUG_LENGTH (strip_end (dropWhile is_dash (dashed (unaccented (js_toLowerCase name)))))
      in if slug = '''' then ''org'' else slug)"

definition truncate_slug :: "string \<Rightarrow> string \<Rightarrow> string" where
  "truncate_slug base suffix = strip_end (take (MAX_SLUG_LENGTH - length suffix) base) @ suffix"

fun base36 :: "nat \<Rightarrow> string" where
  "base36 n = (let digit = (\<lambda>k. char_of (if k < 10 then 48 + k else 87 + k))
     in if n < 36 then [digit n] else base36 (n div 36) @ [digit (n mod 36)])"

declare base36.simps [simp del]

definition slug_candidate :: "string \<Rightarrow> nat \<Rightarrow> string" where
  "slug_candidate base attempt =
     (if attempt = 0 then base else truncate_slug base (CHR ''-'' # digits (attempt + FIRST_SUFFIX - 1)))"

definition availableSlug :: "(string \<Rightarrow> string) \<Rightarrow> nat \<Rightarrow> string \<Rightarrow> organisation_row list \<Rightarrow> string" where
  "availableSlug unaccented now name organisations =
     (let base = slugify unaccented name;
          taken = (\<lambda>slug. list_ex (\<lambda>g. or_slug g = slug) organisations)
      in case List.find (\<lambda>attempt. \<not> taken (slug_candidate base attempt)) [0..<Suc MAX_SLUG_ATTEMPTS] of
           Some attempt \<Rightarrow> slug_candidate base attempt
         | None \<Rightarrow> truncate_slug base (CHR ''-'' # base36 now))"

text \<open>The choice of a slug as registration makes it, the name trimmed.\<close>

definition signup_slug :: "(string \<Rightarrow> string) \<Rightarrow> nat \<Rightarrow> string \<Rightarrow> organisation_row list \<Rightarrow> string" where
  "signup_slug unaccented now name organisations = availableSlug unaccented now (js_trim name) organisations"

subsection \<open>Branding of a workspace\<close>

record branding_changes =
  bc_logoUrl :: "string option option"
  bc_accentColor :: "string option option"
  bc_supportEmail :: "string option option"

record organisation_profile =
  op_id :: string
  op_name :: string
  op_slug :: string
  op_logoUrl :: "string option"
  op_accentColor :: "string option"
  op_supportEmail :: "string option"

definition organisation_profile_of :: "string \<Rightarrow> organisation_profile desk_op" where
  "organisation_profile_of organisationId =
     bind_p (reading (\<lambda>d. List.find (\<lambda>g. or_id g = organisationId) (ac_organisations (dk_accounts d)))) (\<lambda>found.
     bind_p (expecting OrganisationMissing found) (\<lambda>g.
     ret \<lparr>op_id = or_id g, op_name = or_name g, op_slug = or_slug g, op_logoUrl = or_logoUrl g,
          op_accentColor = or_accentColor g, op_supportEmail = or_supportEmail g\<rparr>))"

definition set_organisations :: "(organisation_row list \<Rightarrow> organisation_row list) \<Rightarrow> desk \<Rightarrow> desk" where
  "set_organisations f d = d\<lparr>dk_accounts := (dk_accounts d)\<lparr>ac_organisations := f (ac_organisations (dk_accounts d))\<rparr>\<rparr>"

definition rebranded :: "branding_changes \<Rightarrow> organisation_row \<Rightarrow> organisation_row" where
  "rebranded changes g = g\<lparr>or_logoUrl := or_else (bc_logoUrl changes) (or_logoUrl g),
     or_accentColor := or_else (bc_accentColor changes) (or_accentColor g),
     or_supportEmail := or_else (bc_supportEmail changes) (or_supportEmail g)\<rparr>"

definition updateBranding :: "string \<Rightarrow> branding_changes \<Rightarrow> organisation_profile desk_op" where
  "updateBranding organisationId changes =
     bind_p (reading (\<lambda>d. List.find (\<lambda>g. or_id g = organisationId) (ac_organisations (dk_accounts d)))) (\<lambda>found.
     bind_p (expecting OrganisationMissing found) (\<lambda>g.
     then_p (updating (set_organisations (update_rows (\<lambda>r. or_id r = organisationId) (\<lambda>_. rebranded changes g))))
       (organisation_profile_of organisationId)))"

subsection \<open>Companies\<close>

record company_view =
  cv_id :: string
  cv_name :: string
  cv_logoUrl :: "string option"
  cv_accentColor :: "string option"
  cv_supportEmail :: "string option"
  cv_isActive :: bool

record company_changes =
  cc_name :: "string option"
  cc_logoUrl :: "string option option"
  cc_accentColor :: "string option option"
  cc_supportEmail :: "string option option"
  cc_isActive :: "bool option"

definition company_view_of :: "company_row \<Rightarrow> company_view" where
  "company_view_of c = \<lparr>cv_id = co_id c, cv_name = co_name c, cv_logoUrl = co_logoUrl c, cv_accentColor = co_accentColor c,
     cv_supportEmail = co_supportEmail c, cv_isActive = co_isActive c\<rparr>"

definition listFor :: "(string \<Rightarrow> nat) \<Rightarrow> string \<Rightarrow> company_view list desk_op" where
  "listFor collation organisationId =
     reading (\<lambda>d. map company_view_of (sort_key (\<lambda>c. if co_isActive c then 0 else (1::nat))
       (sort_key (\<lambda>c. collation (co_name c)) (filter (\<lambda>c. co_organisationId c = organisationId) (dk_companies d)))))"

definition activeFor :: "(string \<Rightarrow> nat) \<Rightarrow> string \<Rightarrow> company_view list desk_op" where
  "activeFor collation organisationId =
     reading (\<lambda>d. map company_view_of (sort_key (\<lambda>c. collation (co_name c))
       (filter (\<lambda>c. co_organisationId c = organisationId \<and> co_isActive c) (dk_companies d))))"

definition owned_company :: "string \<Rightarrow> string \<Rightarrow> company_row desk_op" where
  "owned_company i organisationId =
     bind_p (reading (\<lambda>d. List.find (\<lambda>c. co_id c = i \<and> co_organisationId c = organisationId) (dk_companies d)))
       (expecting CompanyMissing)"

text \<open>A name is unique within its workspace, whatever its case.\<close>

definition same_name :: "company_row \<Rightarrow> company_row \<Rightarrow> bool" where
  "same_name a b \<longleftrightarrow> co_organisationId a = co_organisationId b \<and> js_toLowerCase (co_name a) = js_toLowerCase (co_name b)"

definition save_company :: "company_row \<Rightarrow> company_row desk_op" where
  "save_company c =
     (\<lambda>d. if list_ex (\<lambda>r. co_id r \<noteq> co_id c \<and> same_name r c) (dk_companies d) then (Inl (CompanyNameTaken (co_name c)), d)
          else (Inr c, d\<lparr>dk_companies := (if list_ex (\<lambda>r. co_id r = co_id c) (dk_companies d)
            then update_rows (\<lambda>r. co_id r = co_id c) (\<lambda>_. c) (dk_companies d) else dk_companies d @ [c])\<rparr>))"

definition create_company :: "string \<Rightarrow> string \<Rightarrow> company_changes \<Rightarrow> company_view desk_op" where
  "create_company organisationId name changes =
     bind_p (on_accounts random_value) (\<lambda>i.
     bind_p (reading (\<lambda>d. list_ex (\<lambda>r. co_id r = i) (dk_companies d))) (\<lambda>clash.
     if clash then throw DeskDuplicate
     else bind_p (save_company \<lparr>co_id = i, co_organisationId = organisationId, co_name = js_trim name,
            co_isActive = or_else (cc_isActive changes) True, co_logoUrl = or_else (cc_logoUrl changes) None,
            co_accentColor = or_else (cc_accentColor changes) None, co_supportEmail = or_else (cc_supportEmail changes) None\<rparr>)
       (\<lambda>c. ret (company_view_of c))))"

definition changed_company :: "company_changes \<Rightarrow> company_row \<Rightarrow> company_row" where
  "changed_company changes c = c\<lparr>co_name := or_else (map_option js_trim (cc_name changes)) (co_name c),
     co_logoUrl := or_else (cc_logoUrl changes) (co_logoUrl c), co_accentColor := or_else (cc_accentColor changes) (co_accentColor c),
     co_supportEmail := or_else (cc_supportEmail changes) (co_supportEmail c), co_isActive := or_else (cc_isActive changes) (co_isActive c)\<rparr>"

definition update_company :: "string \<Rightarrow> string \<Rightarrow> company_changes \<Rightarrow> company_view desk_op" where
  "update_company i organisationId changes =
     bind_p (owned_company i organisationId) (\<lambda>c.
     bind_p (save_company (changed_company changes c)) (\<lambda>c'. ret (company_view_of c')))"

text \<open>Deleting a company sets the column of every assessment that names it to null.\<close>

definition remove_company :: "string \<Rightarrow> string \<Rightarrow> unit desk_op" where
  "remove_company i organisationId =
     bind_p (owned_company i organisationId) (\<lambda>c.
     updating (\<lambda>d. d\<lparr>dk_companies := filter (\<lambda>r. co_id r \<noteq> i) (dk_companies d),
       dk_companyOf := filter (\<lambda>(a, k). k \<noteq> i) (dk_companyOf d)\<rparr>))"

end
