(* ===== verification/Workspace_Properties.thy ===== *)
theory Workspace_Properties
  imports Workspaces Standing_Properties
begin

section \<open>The properties of workspaces and companies\<close>

text \<open>
  A new workspace gets a slug of its own, a group's companies stay its own and are told
  apart by name, and what a candidate is shown survives the retirement of a company.
\<close>

subsection \<open>Slugs\<close>

lemma of_char_small: "n < 256 \<Longrightarrow> of_char (char_of n :: char) = (n :: nat)"
  by (simp add: of_char_of)

lemma digits_not_dash: "c \<in> set (digits n) \<Longrightarrow> slug_char c"
proof (induction n rule: digits.induct)
  case (1 n)
  have "slug_char (char_of (48 + k))" if "k < 10" for k :: nat using that by (simp add: slug_char_def of_char_small Let_def)
  with 1 show ?case by (subst (asm) digits.simps) (auto split: if_splits)
qed

lemma digits_injective: "digits m = digits n \<Longrightarrow> m = n"
proof (induction m arbitrary: n rule: digits.induct)
  case (1 m)
  have last_digit: "k = j" if "char_of (48 + k) = (char_of (48 + j) :: char)" "k < 10" "j < 10" for k j :: nat
    using arg_cong[OF that(1), of "of_char :: char \<Rightarrow> nat"] that(2,3) by (simp add: of_char_small)
  have nonempty: "digits k \<noteq> []" for k by (subst digits.simps) simp
  show ?case
  proof (cases "m < 10 \<or> n < 10")
    case True
    with 1(2) nonempty show ?thesis
      by (subst (asm) (1 2) digits.simps) (auto split: if_splits dest: last_digit simp: nonempty[symmetric])
  next
    case False
    then have split: "digits m = digits (m div 10) @ [char_of (48 + m mod 10)]"
      "digits n = digits (n div 10) @ [char_of (48 + n mod 10)]"
      by (subst digits.simps, simp)+
    with 1(2) have "digits (m div 10) = digits (n div 10)" "m mod 10 = n mod 10" by (auto dest: last_digit)
    with 1(1)[of "n div 10"] False show ?thesis by (metis div_mult_mod_eq)
  qed
qed

lemma slug_char_dash: "\<not> slug_char (CHR ''-'')"
  by (simp add: slug_char_def)

text \<open>The counter is what stands after the last dash, so two attempts never meet.\<close>

lemma counted_candidates_differ:
  assumes "slug_candidate base (Suc i) = slug_candidate base (Suc j)"
  shows "i = j"
proof -
  have tail: "takeWhile (\<lambda>c. \<not> is_dash c) (rev (s @ CHR ''-'' # digits n)) = rev (digits n)" for s n
  proof -
    have "\<forall>c\<in>set (digits n). c \<noteq> CHR ''-''" using digits_not_dash slug_char_dash by fastforce
    then show ?thesis by (simp add: takeWhile_append)
  qed
  have "rev (digits (Suc i + FIRST_SUFFIX - 1)) = rev (digits (Suc j + FIRST_SUFFIX - 1))"
    using arg_cong[OF assms, of "\<lambda>s. takeWhile (\<lambda>c. \<not> is_dash c) (rev s)"]
    by (simp add: slug_candidate_def truncate_slug_def tail[simplified])
  then show ?thesis using digits_injective by fastforce
qed

lemma dashed_chars: "c \<in> set (dashed s) \<Longrightarrow> slug_char c \<or> is_dash c"
  by (induction s rule: dashed.induct) (auto split: if_splits)

lemma strip_end_subset: "set (strip_end s) \<subseteq> set s"
  by (auto simp: strip_end_def dest: set_dropWhileD)

lemma strip_end_length: "length (strip_end s) \<le> length s"
  using length_dropWhile_le[of is_dash "rev s"] by (simp add: strip_end_def)

lemma slugify_shape:
  "slugify unaccented name \<noteq> '''' \<and> length (slugify unaccented name) \<le> 220 \<and>
   list_all (\<lambda>c. slug_char c \<or> is_dash c) (slugify unaccented name)"
proof -
  define s where "s = strip_end (dropWhile is_dash (dashed (unaccented (js_toLowerCase name))))"
  have "set s \<subseteq> set (dashed (unaccented (js_toLowerCase name)))"
    using strip_end_subset unfolding s_def by (meson set_dropWhileD subset_iff)
  then have "list_all (\<lambda>c. slug_char c \<or> is_dash c) (take 220 s)"
    by (auto simp: list_all_iff dest!: in_set_takeD dashed_chars)
  then show ?thesis
    by (simp add: slugify_def Let_def s_def[symmetric] MAX_SLUG_LENGTH_def) (simp add: slug_char_def)
qed

lemma digits_small: "n < 100 \<Longrightarrow> length (digits n) \<le> 2"
proof -
  assume "n < 100"
  then have "n div 10 < 10" by simp
  then have "length (digits (n div 10)) = 1" by (subst digits.simps) simp
  then show ?thesis by (subst digits.simps) simp
qed

lemma candidate_shape:
  assumes "attempt \<le> 50"
  shows "slug_candidate (slugify unaccented name) attempt \<noteq> '''' \<and> length (slug_candidate (slugify unaccented name) attempt) \<le> 220 \<and>
    list_all (\<lambda>c. slug_char c \<or> is_dash c) (slug_candidate (slugify unaccented name) attempt)"
proof (cases "attempt = 0")
  case True
  then show ?thesis using slugify_shape by (simp add: slug_candidate_def)
next
  case False
  let ?n = "attempt + FIRST_SUFFIX - 1" and ?base = "slugify unaccented name"
  have "?n < 100" using assms by (simp add: FIRST_SUFFIX_def)
  from digits_small[OF this] have size: "length (digits ?n) \<le> 2" .
  let ?kept = "take (MAX_SLUG_LENGTH - length (CHR ''-'' # digits ?n)) ?base"
  have "length (strip_end ?kept) \<le> 220 - Suc (length (digits ?n))"
    using strip_end_length[of ?kept] by (simp add: MAX_SLUG_LENGTH_def)
  moreover have "list_all (\<lambda>c. slug_char c \<or> is_dash c) (strip_end ?kept)"
    using slugify_shape[of unaccented name] strip_end_subset[of ?kept]
    by (auto simp: list_all_iff dest!: subsetD dest: in_set_takeD)
  ultimately show ?thesis using False size
    by (auto simp: slug_candidate_def truncate_slug_def list_all_iff dest: digits_not_dash)
qed

text \<open>A new workspace gets a slug of its own: it is never empty, fits the column and
  holds lower-case letters, digits and dashes only, whatever the name is; and while fewer
  than fifty workspaces exist it is one that no other workspace has. With more, the
  fifty numbered forms of a name can all be taken, and only then is the clock used.\<close>

theorem a_new_workspace_gets_its_own_slug:
  assumes "length organisations < 50" and "slug = signup_slug unaccented now name organisations"
  shows "slug \<notin> or_slug ` set organisations \<and> slug \<noteq> '''' \<and> length slug \<le> 220 \<and> list_all (\<lambda>c. slug_char c \<or> is_dash c) slug"
proof -
  let ?base = "slugify unaccented (js_trim name)"
  let ?free = "\<lambda>attempt. \<not> list_ex (\<lambda>g. or_slug g = slug_candidate ?base attempt) organisations"
  have "\<exists>attempt\<in>set [0..<51]. ?free attempt"
  proof (rule ccontr)
    assume "\<not> ?thesis"
    then have "\<And>k. k < 50 \<Longrightarrow> slug_candidate ?base (Suc k) \<in> or_slug ` set organisations"
      by (auto simp: list_ex_iff Bex_def image_iff eq_commute)
    then have "(\<lambda>k. slug_candidate ?base (Suc k)) ` {..<50} \<subseteq> or_slug ` set organisations" by auto
    then have "card ((\<lambda>k. slug_candidate ?base (Suc k)) ` {..<50}) \<le> card (or_slug ` set organisations)"
      by (intro card_mono) auto
    moreover have "card ((\<lambda>k. slug_candidate ?base (Suc k)) ` {..<50}) = 50"
      by (subst card_image) (auto intro: inj_onI counted_candidates_differ)
    moreover have "card (or_slug ` set organisations) \<le> length organisations"
      by (metis card_image_le card_length finite_set order_trans)
    ultimately show False using assms(1) by linarith
  qed
  then obtain attempt where found: "List.find ?free [0..<51] = Some attempt"
    by (cases "List.find ?free [0..<51]") (auto simp: find_None_iff)
  then have attempt: "attempt \<le> 50" "?free attempt" by (auto simp: find_Some_iff)
  have "slug = slug_candidate ?base attempt"
    using found assms(2) by (simp add: signup_slug_def availableSlug_def Let_def MAX_SLUG_ATTEMPTS_def)
  with attempt candidate_shape[OF attempt(1), of unaccented "js_trim name"] show ?thesis by (auto simp: list_ex_iff)
qed

theorem a_new_workspace_gets_its_own_slug_witness:
  "signup_slug id 0 '' Org '' (ac_organisations sample_accounts) \<notin> or_slug ` set (ac_organisations sample_accounts) \<and>
   signup_slug id 0 '' Org '' (ac_organisations sample_accounts) = ''org-2''"
proof -
  have "length (ac_organisations sample_accounts) < 50" by (simp add: sample_accounts_def)
  from a_new_workspace_gets_its_own_slug[OF this refl, of id 0 "'' Org ''"]
  show ?thesis by (simp add: sample_accounts_def) code_simp
qed

subsection \<open>Companies\<close>

definition companies_ok :: "desk \<Rightarrow> bool" where
  "companies_ok d \<longleftrightarrow> distinct (map co_id (dk_companies d)) \<and>
     (\<forall>a\<in>set (dk_companies d). \<forall>b\<in>set (dk_companies d). same_name a b \<longrightarrow> co_id a = co_id b) \<and>
     distinct (map fst (dk_companyOf d))"

lemma update_rows_ids: "(\<And>r. P r \<Longrightarrow> k (f r) = k r) \<Longrightarrow> map k (update_rows P f rows) = map k rows"
  by (simp add: update_rows_def)

lemma keeps_save_company: "keeps companies_ok (save_company c)"
proof -
  have "companies_ok (snd (save_company c d))" if ok: "companies_ok d" for d
  proof (cases "list_ex (\<lambda>r. co_id r \<noteq> co_id c \<and> same_name r c) (dk_companies d)")
    case True
    with ok show ?thesis by (simp add: save_company_def)
  next
    case False
    then have other: "\<And>r. r \<in> set (dk_companies d) \<Longrightarrow> same_name r c \<or> same_name c r \<Longrightarrow> co_id r = co_id c"
      by (auto simp: list_ex_iff same_name_def)
    define rows where "rows = (if list_ex (\<lambda>r. co_id r = co_id c) (dk_companies d)
      then update_rows (\<lambda>r. co_id r = co_id c) (\<lambda>_. c) (dk_companies d) else dk_companies d @ [c])"
    have saved: "snd (save_company c d) = d\<lparr>dk_companies := rows\<rparr>"
      using False by (simp add: save_company_def rows_def)
    have "set rows \<subseteq> insert c (set (dk_companies d))" by (auto simp: rows_def update_rows_def)
    moreover have "\<forall>a\<in>insert c (set (dk_companies d)). \<forall>b\<in>insert c (set (dk_companies d)). same_name a b \<longrightarrow> co_id a = co_id b"
      using ok other unfolding companies_ok_def by (metis insert_iff)
    ultimately have "\<forall>a\<in>set rows. \<forall>b\<in>set rows. same_name a b \<longrightarrow> co_id a = co_id b" by blast
    moreover have "map co_id (update_rows (\<lambda>r. co_id r = co_id c) (\<lambda>_. c) (dk_companies d)) = map co_id (dk_companies d)"
      by (rule update_rows_ids) simp
    then have "distinct (map co_id rows)" using ok by (auto simp: rows_def companies_ok_def list_ex_iff)
    ultimately show ?thesis using ok by (simp add: saved companies_ok_def)
  qed
  then show ?thesis by (simp add: keeps_def)
qed

lemma keeps_on_accounts: "(\<And>d ac. I d \<Longrightarrow> I (d\<lparr>dk_accounts := ac\<rparr>)) \<Longrightarrow> keeps I (on_accounts m)"
  by (auto simp: keeps_def on_accounts_def split: prod.splits)

lemma keeps_expecting [keeps_intros]: "keeps I (expecting e x)"
  by (auto simp: expecting_def intro!: keeps_intros)

lemma keeps_owned_company: "keeps I (owned_company i org)"
  unfolding owned_company_def by (intro keeps_intros)

lemma keeps_company_operations:
  "keeps companies_ok (create_company org name changes)" "keeps companies_ok (update_company i org changes)"
  "keeps companies_ok (remove_company i org)"
proof -
  have "companies_ok (d\<lparr>dk_accounts := ac\<rparr>)" if "companies_ok d" for d ac using that by (simp add: companies_ok_def)
  then show "keeps companies_ok (create_company org name changes)" "keeps companies_ok (update_company i org changes)"
    unfolding create_company_def update_company_def
    by (intro keeps_intros keeps_on_accounts keeps_save_company keeps_owned_company; assumption)+
  have "companies_ok (d\<lparr>dk_companies := filter P (dk_companies d), dk_companyOf := filter Q (dk_companyOf d)\<rparr>)"
    if "companies_ok d" for d P Q
    using that by (auto simp: companies_ok_def distinct_map_filter)
  then show "keeps companies_ok (remove_company i org)"
    unfolding remove_company_def by (intro keeps_intros keeps_owned_company keeps_updating)
qed

subsection \<open>What candidates are shown\<close>

definition retire :: company_changes where
  "retire = \<lparr>cc_name = None, cc_logoUrl = None, cc_accentColor = None, cc_supportEmail = None, cc_isActive = Some False\<rparr>"

lemma owned_company_result:
  "owned_company i org d = (Inr c, d') \<Longrightarrow> d' = d \<and> c \<in> set (dk_companies d) \<and> co_id c = i \<and> co_organisationId c = org"
  by (auto simp: owned_company_def bind_p_def reading_def expecting_def ret_def throw_def find_Some_iff split: option.splits)

lemma save_company_result:
  "save_company c d = (Inr c', d') \<Longrightarrow> list_ex (\<lambda>r. co_id r = co_id c) (dk_companies d) \<Longrightarrow>
   c' = c \<and> d' = d\<lparr>dk_companies := update_rows (\<lambda>r. co_id r = co_id c) (\<lambda>_. c) (dk_companies d)\<rparr>"
  by (auto simp: save_company_def split: if_splits)

lemma update_company_result:
  assumes "update_company i org changes d = (Inr v, d')"
  shows "\<exists>c. c \<in> set (dk_companies d) \<and> co_id c = i \<and> co_organisationId c = org \<and> v = company_view_of (changed_company changes c) \<and>
    d' = d\<lparr>dk_companies := update_rows (\<lambda>r. co_id r = i) (\<lambda>_. changed_company changes c) (dk_companies d)\<rparr>"
proof -
  obtain c d1 where c: "owned_company i org d = (Inr c, d1)"
    using assms by (cases "owned_company i org d"; cases "fst (owned_company i org d)") (auto simp: update_company_def bind_p_def)
  note own = owned_company_result[OF c]
  obtain c' where save: "save_company (changed_company changes c) d = (Inr c', d')" "v = company_view_of c'"
    using assms c own by (cases "save_company (changed_company changes c) d"; cases "fst (save_company (changed_company changes c) d)")
      (auto simp: update_company_def bind_p_def ret_def)
  have "co_id (changed_company changes c) = i" using own by (simp add: changed_company_def)
  with save_company_result[OF save(1)] save(2) own show ?thesis by (auto simp: list_ex_iff)
qed

lemma remove_company_result:
  assumes "remove_company i org d = (Inr (), d')"
  shows "(\<exists>c\<in>set (dk_companies d). co_id c = i \<and> co_organisationId c = org) \<and>
    d' = d\<lparr>dk_companies := filter (\<lambda>r. co_id r \<noteq> i) (dk_companies d), dk_companyOf := filter (\<lambda>(a, k). k \<noteq> i) (dk_companyOf d)\<rparr>"
proof -
  obtain c d1 where c: "owned_company i org d = (Inr c, d1)"
    using assms by (cases "owned_company i org d"; cases "fst (owned_company i org d)") (auto simp: remove_company_def bind_p_def)
  with owned_company_result[OF c] assms show ?thesis by (auto simp: remove_company_def bind_p_def updating_def)
qed

lemma map_of_filter_values: "distinct (map fst xs) \<Longrightarrow>
  map_of (filter (\<lambda>(a, k). k \<noteq> i) xs) a = (if map_of xs a = Some i then None else map_of xs a)"
proof (induction xs)
  case (Cons x xs)
  have absent: "map_of (filter (\<lambda>(a, k). k \<noteq> i) xs) (fst x) = None"
    using Cons.prems by (auto simp: map_of_eq_None_iff image_iff)
  show ?case
  proof (cases "a = fst x")
    case True
    with absent show ?thesis by (cases x) auto
  next
    case False
    with Cons show ?thesis by (cases x) auto
  qed
qed simp

lemma find_filter: "(\<And>x. Q x \<Longrightarrow> P x) \<Longrightarrow> List.find Q (filter P xs) = List.find Q xs"
  by (induction xs) auto

lemma find_cong_false: "(\<And>x. x \<in> set xs \<Longrightarrow> \<not> P x) \<Longrightarrow> List.find P xs = None"
  by (simp add: find_None_iff)

text \<open>What a candidate is shown follows the company the round was for: retiring a company
  leaves the branding of every assessment as it was, deleting it falls back to the
  workspace's own on exactly the assessments that named it, and neither touches a company
  of another workspace.\<close>

theorem retiring_keeps_the_brand_and_deleting_falls_back:
  assumes "companies_ok d" and "update_company i org retire d = (Inr v, retired)" and "remove_company i org d = (Inr (), removed)"
  shows "assessment_branding retired a = assessment_branding d a \<and>
    assessment_branding removed a =
      (if map_of (dk_companyOf d) (as_id a) = Some i
       then resolveBranding (List.find (\<lambda>g. or_id g = as_organisationId a) (ac_organisations (dk_accounts d))) None (dk_platformSupportEmail d)
       else assessment_branding d a) \<and>
    filter (\<lambda>c. co_organisationId c \<noteq> org) (dk_companies retired) = filter (\<lambda>c. co_organisationId c \<noteq> org) (dk_companies d) \<and>
    filter (\<lambda>c. co_organisationId c \<noteq> org) (dk_companies removed) = filter (\<lambda>c. co_organisationId c \<noteq> org) (dk_companies d)"
proof -
  obtain c where c: "c \<in> set (dk_companies d)" "co_id c = i" "co_organisationId c = org"
    "retired = d\<lparr>dk_companies := update_rows (\<lambda>r. co_id r = i) (\<lambda>_. changed_company retire c) (dk_companies d)\<rparr>"
    using update_company_result[OF assms(2)] by blast
  have ids: "distinct (map co_id (dk_companies d))" "distinct (map fst (dk_companyOf d))"
    using assms(1) by (simp_all add: companies_ok_def)
  have only: "r = c" if "r \<in> set (dk_companies d)" "co_id r = i" for r
    using ids(1) that c by (auto simp: distinct_map inj_on_def)
  define off where "off = (\<lambda>r. if co_id r = i then changed_company retire r else r)"
  have rows: "dk_companies retired = map off (dk_companies d)"
    using only by (auto simp: c(4) update_rows_def off_def)
  have off: "co_id (off r) = co_id r" "co_name (off r) = co_name r" "co_logoUrl (off r) = co_logoUrl r"
    "co_accentColor (off r) = co_accentColor r" "co_supportEmail (off r) = co_supportEmail r" "co_organisationId (off r) = co_organisationId r" for r
    by (simp_all add: off_def changed_company_def retire_def)
  have shown: "resolveBranding g (map_option off k) p = resolveBranding g k p" for g k p
    by (cases k) (simp_all add: resolveBranding_def off)
  have find_off: "List.find (\<lambda>c. key = Some (co_id c)) (map off rs) = map_option off (List.find (\<lambda>c. key = Some (co_id c)) rs)" for key rs
    by (induction rs) (simp_all add: off)
  have "assessment_branding retired a = assessment_branding d a"
    by (simp add: assessment_branding_def rows find_off shown) (simp add: c(4))
  moreover have gone: "removed = d\<lparr>dk_companies := filter (\<lambda>r. co_id r \<noteq> i) (dk_companies d), dk_companyOf := filter (\<lambda>(a, k). k \<noteq> i) (dk_companyOf d)\<rparr>"
    using remove_company_result[OF assms(3)] by blast
  moreover have "List.find (\<lambda>c. map_of (dk_companyOf d) (as_id a) = Some (co_id c)) (filter (\<lambda>r. co_id r \<noteq> i) (dk_companies d)) =
      List.find (\<lambda>c. map_of (dk_companyOf d) (as_id a) = Some (co_id c)) (dk_companies d)" if "map_of (dk_companyOf d) (as_id a) \<noteq> Some i"
    using that by (intro find_filter) auto
  then have "assessment_branding removed a =
      (if map_of (dk_companyOf d) (as_id a) = Some i
       then resolveBranding (List.find (\<lambda>g. or_id g = as_organisationId a) (ac_organisations (dk_accounts d))) None (dk_platformSupportEmail d)
       else assessment_branding d a)"
    by (simp add: gone assessment_branding_def map_of_filter_values[OF ids(2)] find_cong_false)
  moreover have "filter (\<lambda>c. co_organisationId c \<noteq> org) (map off (dk_companies d)) = filter (\<lambda>c. co_organisationId c \<noteq> org) (dk_companies d)"
  proof -
    have "filter (\<lambda>c. co_organisationId c \<noteq> org) (map off (dk_companies d)) = map off (filter (\<lambda>c. co_organisationId c \<noteq> org) (dk_companies d))"
      by (simp add: filter_map comp_def off)
    also have "\<dots> = filter (\<lambda>c. co_organisationId c \<noteq> org) (dk_companies d)"
      using only c(3) by (intro map_idI) (auto simp: off_def)
    finally show ?thesis .
  qed
  moreover have "filter (\<lambda>c. co_organisationId c \<noteq> org) (dk_companies removed) = filter (\<lambda>c. co_organisationId c \<noteq> org) (dk_companies d)"
    using only c(3) by (auto simp: gone intro!: filter_cong)
  ultimately show ?thesis by (simp add: rows)
qed

definition subsidiary :: company_row where
  "subsidiary = \<lparr>co_id = ''k'', co_organisationId = ''org'', co_name = ''KhetPilot'', co_isActive = True, co_logoUrl = Some ''logo'',
     co_accentColor = None, co_supportEmail = None\<rparr>"

definition group_desk :: desk where
  "group_desk = sample_desk\<lparr>dk_companies := [subsidiary], dk_companyOf := [(''a'', ''k'')]\<rparr>"

theorem retiring_keeps_the_brand_and_deleting_falls_back_witness:
  "\<exists>v retired removed. update_company ''k'' ''org'' retire group_desk = (Inr v, retired) \<and>
     remove_company ''k'' ''org'' group_desk = (Inr (), removed) \<and> \<not> cv_isActive v \<and>
     bd_name (assessment_branding retired sample_assessment) = ''KhetPilot'' \<and>
     bd_name (assessment_branding removed sample_assessment) = ''Org''"
proof -
  have ok: "companies_ok group_desk" by (simp add: companies_ok_def group_desk_def)
  obtain v retired where retired: "update_company ''k'' ''org'' retire group_desk = (Inr v, retired)" "\<not> cv_isActive v"
    by (simp add: update_company_def owned_company_def bind_p_def reading_def expecting_def ret_def save_company_def group_desk_def
        subsidiary_def company_view_of_def changed_company_def retire_def)
  obtain removed where removed: "remove_company ''k'' ''org'' group_desk = (Inr (), removed)"
    by (simp add: remove_company_def owned_company_def bind_p_def reading_def expecting_def ret_def updating_def group_desk_def subsidiary_def)
  have "bd_name (assessment_branding group_desk sample_assessment) = ''KhetPilot''"
    "map_of (dk_companyOf group_desk) (as_id sample_assessment) = Some ''k''"
    "bd_name (resolveBranding (List.find (\<lambda>g. or_id g = as_organisationId sample_assessment) (ac_organisations (dk_accounts group_desk))) None
       (dk_platformSupportEmail group_desk)) = ''Org''"
    by (simp_all add: group_desk_def sample_desk_def sample_accounts_def sample_assessment_def assessment_branding_def
        resolveBranding_def coalesce_def subsidiary_def)
  with retiring_keeps_the_brand_and_deleting_falls_back[OF ok retired(1) removed, of sample_assessment] retired removed
  show ?thesis by auto
qed

end
