(* ===== verification/Spec2Isabelle.thy ===== *)
theory Spec2Isabelle
  imports Assessment_Properties Candidate_Properties Candidate_Screen_Properties Client_Properties Client_Session_Properties Form_Properties Item_Properties Proctoring_Properties Question_Forks Readiness_Properties Replay_Properties Workspace_Properties
begin

text \<open>
  AdaptiveHire runs adaptive hiring tests. A recruiting organisation keeps a bank of
  questions, composes them into assessments of several modules and invites candidates, by
  mail or by a public link. A candidate signs in and answers one question at a time in the
  browser; the server chooses every next question by what the answers so far say about the
  candidate, stops each module by its own rules and closes the session in time. From the
  stored answers it builds a report, in which recruiters compare the candidates, decide and
  write to them. The program is a NestJS server (\<open>backend/src\<close>) over PostgreSQL, Redis and
  BullMQ queues, and a React client (\<open>frontend/src\<close>). This development translates the
  server's logic, and the parts of the client that keep state of their own, into HOL.

  \<^bold>\<open>How the code is rendered.\<close> A TypeScript interface or a table row is a record, with the
  code's field names behind a short prefix; an enum is a datatype; a thrown exception is the
  left side of a sum; \<open>null\<close> and \<open>undefined\<close> are \<open>None\<close>; an object used as a dictionary is
  an association list in insertion order (\<open>Prelude\<close>). An asynchronous method of a service is
  a state transformer with errors (\<open>Program\<close>): it keeps the effects made before an exception,
  as the code does, and \<open>wp\<close>, with its equations in \<open>wp_simps\<close>, computes what it comes to. A
  database table is the list of its rows in insertion order and a transaction one update. A
  \<open>Date\<close> is its epoch milliseconds. Doubles that are computed with are reals, so rounding
  errors are not seen, but \<open>Math.round\<close> and the decimals of \<open>numeric\<close> columns, where the
  code relies on them, are.

  \<^bold>\<open>The adaptive engine\<close> (\<open>adaptive-engine/\<close>).
  \<^item> \<open>Engine_Types\<close>: questions, their two kinds of payload, the state of a module.
  \<^item> \<open>Evaluation\<close>: what one answer means, objective, single choice, two-sided or ranked.
  \<^item> \<open>Estimator\<close>: the Elo update of an ability, the trait sums, the three confidences.
  \<^item> \<open>Trait_Scale\<close>: the range a trait's sum can take, and the normalised scale.
  \<^item> \<open>Probes\<close>: pairs of reworded questions that test consistency.
  \<^item> \<open>Selector\<close>: the choice of the next question, its SQL included; \<open>Stopping\<close>: the rules
    that end a module.
  \<^item> \<open>Engine\<close>: the service that puts them together; \<open>Engine_Run\<close>: one module as a step
    relation, and what holds in every state it reaches.
  \<^item> \<open>Engine_Properties\<close>: no question is served twice, only eligible ones are, twins keep
    their distance, and answering at random scores fifty.

  \<^bold>\<open>The candidate's session\<close> (\<open>sessions/\<close>, \<open>assessments/assessment-window.ts\<close>,
  \<open>assessments/public-link.ts\<close>).
  \<^item> \<open>Windows\<close>: when an assessment or a link is open.
  \<^item> \<open>Session_World\<close>: the tables, the Redis keyspace, the queues, the clock, the random
    draws, and a stream that says which call over the network fails.
  \<^item> \<open>Sessions\<close>, \<open>Rehydrate\<close>, \<open>Session_Service\<close>: the methods of \<open>sessions.service.ts\<close>, the
    recovery of a lost live state from the rows, and the sweep of expired sessions.
  \<^item> \<open>Session_Frame\<close>, \<open>Session_Invariants\<close>, \<open>Session_Numbering\<close>, \<open>Session_Behaviour\<close>: what
    every request keeps, as locales interpreted on the invariants of the tables.
  \<^item> \<open>Session_Properties\<close>, \<open>Replay_Properties\<close>: answers numbered in order, a closed session
    frozen, deadlines, recovery without loss; a whole sitting is executed as an example. That
    an invitation has one session and a question one answer are unique indexes of the tables,
    which \<open>insert_session\<close> and \<open>insert_response\<close> model; what the code adds to them is the join
    of the loser of a race to start (\<open>losing_the_race_joins_the_winner\<close>).

  \<^bold>\<open>Authoring\<close> (\<open>question-bank/\<close>, \<open>modules-catalog/\<close>, \<open>assessments/\<close>).
  \<^item> \<open>Question_Bank\<close> with \<open>Question_Bank_Properties\<close> and \<open>Question_Forks\<close>: the checks a
    payload has to pass, private forks of shared questions, and that every stored question
    can be served and answered.
  \<^item> \<open>Modules_Catalog\<close> with \<open>Module_Properties\<close>: the subjects and traits every organisation
    shares, and what any sequence of requests about them keeps.
  \<^item> \<open>Question_Form\<close> with \<open>Form_Properties\<close>: the form of a question in the browser
    (\<open>components/questions/QuestionEditor.tsx\<close>) and the validators of its payload.
  \<^item> \<open>Bulk_Import\<close>: sheets of questions, row by row.
  \<^item> \<open>Item_Analysis\<close> with \<open>Item_Properties\<close>: what the stored answers say about a question.
  \<^item> \<open>Assessments\<close> with \<open>Assessment_Properties\<close>: composing assessments and their pools.

  \<^bold>\<open>Accounts and entry\<close> (\<open>users/\<close>, \<open>auth/\<close>, \<open>organisations/\<close>, \<open>companies/\<close>,
  \<open>invitations/\<close>, \<open>public-entry/\<close>, the controllers and \<open>common/\<close>).
  \<^item> \<open>Accounts\<close>, \<open>Auth\<close>, \<open>Reset_Links\<close>, \<open>Account_Properties\<close>, \<open>Auth_Properties\<close>: accounts,
    roles, signing in, rotating refresh tokens, and links to reset a password.
  \<^item> \<open>Workspaces\<close> with \<open>Workspace_Properties\<close>: the slug and branding of an organisation, and
    the companies of a group.
  \<^item> \<open>Invitations\<close>, \<open>Public_Entry\<close>, \<open>Invitation_Steps\<close>, \<open>Invitation_Properties\<close>,
    \<open>Entry_Properties\<close>, \<open>Link_Properties\<close>: inviting, links, and who may enter.
  \<^item> \<open>Access\<close>, \<open>Access_Properties\<close>, \<open>Audit_Properties\<close>: every route with its guards, and the
    trail of requests; \<open>Client_Calls\<close>, \<open>Client_Properties\<close>: every call the client makes, and
    that it reaches its route.

  \<^bold>\<open>Reporting\<close> (\<open>reports/\<close>, \<open>invitations/candidate-attempt.ts\<close>).
  \<^item> \<open>Behavioral_Profiles\<close>, \<open>Report_Builder\<close> with \<open>Report_Properties\<close>: scores, findings, the
    recommendation, the narrative.
  \<^item> \<open>Report_Data\<close>, \<open>Report_Service\<close>: reading the rows, generating, listing, standings,
    reviews and mails to candidates.
  \<^item> \<open>Standing_Properties\<close>, \<open>Review_Properties\<close>: ranks as counts, tenancy, and the reviews as a
    refinement of an abstract machine of decisions.
  \<^item> \<open>Candidate_View\<close> with \<open>Candidate_Properties\<close>: what a candidate is shown, and practice.

  \<^bold>\<open>The browser\<close> (\<open>frontend/src\<close>).
  \<^item> \<open>Client_Session\<close> with \<open>Client_Session_Properties\<close>: signing in and out across the token in
    memory, the cookie and the server (\<open>lib/api.ts\<close>, \<open>lib/auth.tsx\<close>).
  \<^item> \<open>Candidate_Screen\<close> with \<open>Candidate_Screen_Properties\<close>: the question on screen, the choices
    and rankings made on it, and the calls under way (\<open>hooks/useSession.ts\<close>).
  \<^item> \<open>Readiness\<close> with \<open>Readiness_Properties\<close>: the checks before a test and the devices they
    hold open (\<open>lib/system-check.ts\<close>, \<open>routes/candidate/ReadinessCheck.tsx\<close>).

  \<^bold>\<open>Proctoring\<close> (\<open>proctoring/\<close>, \<open>frontend/src/hooks/useProctoring.ts\<close> and its libraries).
  \<^item> \<open>Monitors\<close> with \<open>Monitor_Properties\<close>: the signals of the browser as a machine of events.
  \<^item> \<open>Proctoring\<close> with \<open>Proctoring_Properties\<close>: storing and counting them.

  \<^bold>\<open>Time and interleaving.\<close> A request of the candidate runtime runs without another
  interleaving with it, except that loading a stale live state may be followed by anything
  (\<open>stale_start\<close>), and any call over the network may fail at any point. Where overlapping
  requests matter they are split at their database statements: requests to reset a password
  (\<open>Reset_Links\<close>), the rotation of a refresh token (\<open>Auth\<close>), entering with a new account
  (\<open>Link_Properties\<close>), saving a review (\<open>Report_Service\<close>), changing a role
  (\<open>Account_Properties\<close>, where two owners who step down at once leave none). Every other
  request is one step, although it awaits between its reads and its writes: what is proved
  of it is proved of requests that follow one another. Outside the candidate runtime the database itself does not fail, so what
  registering leaves behind when a statement after the creation of the user fails is not
  seen; duplicate keys and a mail server that is down are.

  \<^bold>\<open>Bounds and fuel.\<close> The only loop of the code that is not bounded by its data is the one
  of \<open>advance\<close>, which has a guard of its own; the model runs it with fuel of twice the number
  of modules plus three, and \<open>advance_always_arrives\<close> shows the guard is never reached.
  The loops over free slugs and over the choice of a question are bounded by the code and
  kept with their bounds.

  \<^bold>\<open>Parameters.\<close> What is not part of the repository is an argument: hashing and tokens
  (record \<open>crypto\<close>, with its laws in \<open>sound_crypto\<close>), the verifiers of tokens, the order in which
  the database collates, stripping accents from a letter, the CSV and workbook loaders, and
  the detector behind the camera, whose boxes are the monitors' input. Each property that
  assumes something of them has an instance with concrete functions.

  \<^bold>\<open>Not modelled.\<close> The other pages and components of the client, which display; the layout of the
  PDF and of the mails; configuration, logging and the wiring of modules; migrations and
  seeds; rate limiting; the delivery of queued jobs, of which the producer's side and the
  handlers are modelled; the detection of faces in an image.
\<close>

end
